(* ===== verification/Prelude.thy ===== *)
theory Prelude
  imports Main "HOL-Library.AList"
begin

text \<open>
  Shared vocabulary of the development: Go maps as association lists, Go's
  \<open>(value, error)\<close> results as sums, and the generic lemmas the component theories use.

  A Go map is a list of key/value pairs with distinct keys (\<open>mwf\<close>).  Go leaves the order
  in which a map is ranged over open; the list order stands for one such order, and the
  properties of the components speak of lookups and membership only, which no order changes.
  A nil Go map and an empty one behave alike except under \<open>reflect.DeepEqual\<close> and an
  explicit nil test: where the code makes that difference the model uses an \<open>option\<close>.
\<close>

named_theorems map_laws \<open>lookups after puts and deletes, well-formedness of Go maps\<close>

named_theorems rbind_laws \<open>inversion of error-returning sequences\<close>

section \<open>Go maps\<close>

type_synonym ('k, 'v) gomap = "('k \<times> 'v) list"

type_synonym strmap = "(string, string) gomap"

abbreviation mget :: "('k, 'v) gomap \<Rightarrow> 'k \<Rightarrow> 'v option" where
  "mget m k \<equiv> map_of m k"

abbreviation mput :: "'k \<Rightarrow> 'v \<Rightarrow> ('k, 'v) gomap \<Rightarrow> ('k, 'v) gomap" where
  "mput k v m \<equiv> AList.update k v m"

abbreviation mdel :: "'k \<Rightarrow> ('k, 'v) gomap \<Rightarrow> ('k, 'v) gomap" where
  "mdel k m \<equiv> AList.delete k m"

abbreviation mvals :: "('k, 'v) gomap \<Rightarrow> 'v list" where
  "mvals m \<equiv> map snd m"

definition mwf :: "('k, 'v) gomap \<Rightarrow> bool" where
  "mwf m \<longleftrightarrow> distinct (map fst m)"

text \<open>Deletion of every key that satisfies a test, the \<open>for k := range m \<dots> delete\<close> loop.\<close>

definition mdrop :: "('k \<Rightarrow> bool) \<Rightarrow> ('k, 'v) gomap \<Rightarrow> ('k, 'v) gomap" where
  "mdrop p m = filter (\<lambda>(k, _). \<not> p k) m"

text \<open>\<open>reflect.DeepEqual\<close> of two non-nil maps: the same entries, in whatever order.\<close>

definition meq :: "('k, 'v) gomap \<Rightarrow> ('k, 'v) gomap \<Rightarrow> bool" where
  "meq m n \<longleftrightarrow> list_all (\<lambda>(k, _). map_of m k = map_of n k) (m @ n)"

text \<open>With nil-ness: nil equals nil only.\<close>

fun meq_nil :: "('k, 'v) gomap option \<Rightarrow> ('k, 'v) gomap option \<Rightarrow> bool" where
  "meq_nil None None = True"
| "meq_nil (Some m) (Some n) = meq m n"
| "meq_nil _ _ = False"

lemma mget_mput [map_laws]: "mget (mput k v m) k' = (if k' = k then Some v else mget m k')"
  by (simp add: update_conv')

lemma mget_mdel [map_laws]: "mget (mdel k m) k' = (if k' = k then None else mget m k')"
  by (simp add: delete_conv')

lemma mget_mdrop [map_laws]: "mget (mdrop p m) k = (if p k then None else mget m k)"
  by (induction m) (auto simp: mdrop_def)

lemma mwf_Nil [simp, map_laws]: "mwf []"
  by (simp add: mwf_def)

lemma mwf_mput [simp, map_laws]: "mwf m \<Longrightarrow> mwf (mput k v m)"
  by (simp add: mwf_def distinct_update)

lemma mwf_mdel [simp, map_laws]: "mwf m \<Longrightarrow> mwf (mdel k m)"
  by (simp add: mwf_def distinct_delete)

lemma mwf_mdrop [simp, map_laws]: "mwf m \<Longrightarrow> mwf (mdrop p m)"
  by (induction m) (auto simp: mwf_def mdrop_def)

lemma mwf_set_conv: "mwf m \<Longrightarrow> (k, v) \<in> set m \<longleftrightarrow> mget m k = Some v"
  by (simp add: mwf_def)

lemma mvals_conv: "mwf m \<Longrightarrow> v \<in> set (mvals m) \<longleftrightarrow> (\<exists>k. mget m k = Some v)"
  by (force simp: mwf_set_conv [symmetric] image_iff)

lemma map_of_not_key: "map_of m k = None \<longleftrightarrow> k \<notin> fst ` set m"
  by (rule map_of_eq_None_iff)

lemma meq_iff: "meq m n \<longleftrightarrow> map_of m = map_of n"
proof
  assume eq: "meq m n"
  show "map_of m = map_of n"
  proof
    fix k
    show "map_of m k = map_of n k"
    proof (cases "k \<in> fst ` set m \<union> fst ` set n")
      case True
      with eq show ?thesis by (force simp: meq_def list_all_iff)
    next
      case False
      then have "map_of m k = None" and "map_of n k = None"
        by (simp_all add: map_of_not_key)
      then show ?thesis by simp
    qed
  qed
qed (simp add: meq_def list_all_iff)

lemma meq_refl [simp]: "meq m m"
  by (simp add: meq_iff)

lemma meq_nil_refl [simp]: "meq_nil m m"
  by (cases m) simp_all

text \<open>Looking a key up in a map built from a list of objects by their own key.\<close>

lemma mget_keyed:
  assumes "\<And>k v. mget m k = Some v \<Longrightarrow> f v = k" and "mwf m"
  shows "map (\<lambda>v. (f v, v)) (mvals m) = m"
proof -
  have "\<forall>p \<in> set m. f (snd p) = fst p"
    using assms by (auto simp: mwf_set_conv)
  then show ?thesis
    by (induction m) auto
qed

section \<open>Results\<close>

text \<open>
  A Go function that returns \<open>(T, error)\<close> is modelled by \<open>'e + 'a\<close>: \<open>Inl\<close> the error,
  \<open>Inr\<close> the value.  \<open>rbind\<close> is the sequence \<open>x, err := \<dots>; if err != nil \<dots>\<close>.
\<close>

fun rbind :: "'e + 'a \<Rightarrow> ('a \<Rightarrow> 'e + 'b) \<Rightarrow> 'e + 'b" where
  "rbind (Inl e) f = Inl e"
| "rbind (Inr x) f = f x"

definition guard :: "bool \<Rightarrow> 'e \<Rightarrow> 'e + unit" where
  "guard ok e = (if ok then Inr () else Inl e)"

fun isOk :: "'e + 'a \<Rightarrow> bool" where
  "isOk (Inl _) = False"
| "isOk (Inr _) = True"

lemma rbind_Inr_iff [rbind_laws]: "rbind m f = Inr y \<longleftrightarrow> (\<exists>x. m = Inr x \<and> f x = Inr y)"
  by (cases m) auto

lemma guard_Inr_iff [simp, rbind_laws]: "guard ok e = Inr u \<longleftrightarrow> ok"
  by (simp add: guard_def)

lemma guard_Inl_iff [simp]: "guard ok e = Inl e' \<longleftrightarrow> \<not> ok \<and> e' = e"
  by (auto simp: guard_def)

lemma guard_True [simp]: "guard True e = Inr ()"
  by (simp add: guard_def)

lemma guard_False [simp]: "guard False e = Inl e"
  by (simp add: guard_def)

lemma isOk_iff: "isOk m \<longleftrightarrow> (\<exists>x. m = Inr x)"
  by (cases m) auto

lemma isOk_rbind [simp]: "isOk (rbind m f) \<longleftrightarrow> (\<exists>x. m = Inr x \<and> isOk (f x))"
  by (cases m) auto

lemma isOk_guard [simp]: "isOk (guard ok e) = ok"
  by (simp add: guard_def)

text \<open>A \<open>for \<dots> range\<close> loop that returns the first error, checking every element.\<close>

fun check_all :: "('a \<Rightarrow> 'e + unit) \<Rightarrow> 'a list \<Rightarrow> 'e + unit" where
  "check_all f [] = Inr ()"
| "check_all f (x # xs) = rbind (f x) (\<lambda>_. check_all f xs)"

lemma check_all_Inr [rbind_laws]: "check_all f xs = Inr u \<longleftrightarrow> (\<forall>x \<in> set xs. f x = Inr ())"
  by (induction xs) (auto simp: rbind_Inr_iff)

lemma isOk_check_all [simp]: "isOk (check_all f xs) \<longleftrightarrow> (\<forall>x \<in> set xs. isOk (f x))"
  by (auto simp: isOk_iff check_all_Inr)

text \<open>A loop that maps every element and stops at the first error.\<close>

fun map_result :: "('a \<Rightarrow> 'e + 'b) \<Rightarrow> 'a list \<Rightarrow> 'e + 'b list" where
  "map_result f [] = Inr []"
| "map_result f (x # xs) = rbind (f x) (\<lambda>y. rbind (map_result f xs) (\<lambda>ys. Inr (y # ys)))"

lemma map_result_Inr [rbind_laws]:
  "map_result f xs = Inr ys \<longleftrightarrow> list_all2 (\<lambda>x y. f x = Inr y) xs ys"
  by (induction xs arbitrary: ys) (auto simp: rbind_Inr_iff list_all2_Cons1)

end
