(* ===== verification/GoStrings.thy ===== *)
theory GoStrings
  imports Prelude
begin

text \<open>
  The parts of Go's \<open>strings\<close>, \<open>strconv\<close>, \<open>unicode\<close> and \<open>unicode/utf8\<close> packages that the
  program calls.  A Go string is a sequence of bytes; the model is \<open>string\<close>, a list of
  \<open>char\<close>, and \<open>bcode c\<close> is the byte value of \<open>c\<close>.  Ranging over a string decodes UTF-8
  the way Go does (an invalid byte is the rune U+FFFD of width one); \<open>go_chunks\<close> keeps the
  bytes of every rune next to it.
\<close>

section \<open>Bytes\<close>

abbreviation bcode :: "char \<Rightarrow> nat" where
  "bcode c \<equiv> of_char c"

abbreviation bchr :: "nat \<Rightarrow> char" where
  "bchr n \<equiv> char_of n"

definition is_lower :: "char \<Rightarrow> bool" where
  "is_lower c \<longleftrightarrow> 97 \<le> bcode c \<and> bcode c \<le> 122"

definition is_upper :: "char \<Rightarrow> bool" where
  "is_upper c \<longleftrightarrow> 65 \<le> bcode c \<and> bcode c \<le> 90"

definition is_digit :: "char \<Rightarrow> bool" where
  "is_digit c \<longleftrightarrow> 48 \<le> bcode c \<and> bcode c \<le> 57"

abbreviation newline :: char where
  "newline \<equiv> CHR 0x0A"

abbreviation nl :: string where
  "nl \<equiv> [newline]"

lemma is_digit_newline [simp]: "\<not> is_digit newline"
  by (simp add: is_digit_def)

section \<open>Searching and splitting\<close>

definition HasPrefix :: "string \<Rightarrow> string \<Rightarrow> bool" where
  "HasPrefix s p \<longleftrightarrow> take (length p) s = p"

definition HasSuffix :: "string \<Rightarrow> string \<Rightarrow> bool" where
  "HasSuffix s p \<longleftrightarrow> HasPrefix (rev s) (rev p)"

definition TrimPrefix :: "string \<Rightarrow> string \<Rightarrow> string" where
  "TrimPrefix s p = (if HasPrefix s p then drop (length p) s else s)"

definition TrimSuffix :: "string \<Rightarrow> string \<Rightarrow> string" where
  "TrimSuffix s p = (if HasSuffix s p then take (length s - length p) s else s)"

text \<open>\<open>strings.IndexByte\<close>; \<open>None\<close> is Go's \<open>-1\<close>.\<close>

fun IndexByte :: "string \<Rightarrow> char \<Rightarrow> nat option" where
  "IndexByte [] c = None"
| "IndexByte (x # xs) c = (if x = c then Some 0 else map_option Suc (IndexByte xs c))"

definition LastIndexByte :: "string \<Rightarrow> char \<Rightarrow> nat option" where
  "LastIndexByte s c = map_option (\<lambda>i. length s - 1 - i) (IndexByte (rev s) c)"

text \<open>\<open>strings.Index\<close> of a (non-empty) substring.\<close>

fun Index :: "string \<Rightarrow> string \<Rightarrow> nat option" where
  "Index [] sub = (if sub = [] then Some 0 else None)"
| "Index (x # xs) sub =
     (if HasPrefix (x # xs) sub then Some 0 else map_option Suc (Index xs sub))"

definition Contains :: "string \<Rightarrow> string \<Rightarrow> bool" where
  "Contains s sub \<longleftrightarrow> Index s sub \<noteq> None"

text \<open>\<open>strings.Split(s, d)\<close> for a one-byte separator: never empty.\<close>

fun Split :: "string \<Rightarrow> char \<Rightarrow> string list" where
  "Split [] d = [[]]"
| "Split (c # cs) d =
     (if c = d then [] # Split cs d
      else case Split cs d of [] \<Rightarrow> [[c]] | w # ws \<Rightarrow> (c # w) # ws)"

text \<open>\<open>strings.SplitN(s, d, 2)\<close> and \<open>strings.Cut\<close>: at the first separator.\<close>

fun Cut :: "string \<Rightarrow> char \<Rightarrow> string \<times> string \<times> bool" where
  "Cut [] d = ([], [], False)"
| "Cut (c # cs) d =
     (if c = d then ([], cs, True) else case Cut cs d of (a, b, f) \<Rightarrow> (c # a, b, f))"

fun Join :: "string list \<Rightarrow> string \<Rightarrow> string" where
  "Join [] d = []"
| "Join [w] d = w"
| "Join (w # v # ws) d = w @ d @ Join (v # ws) d"

text \<open>\<open>strings.ReplaceAll(s, old, new)\<close> for a one-byte \<open>old\<close>.\<close>

definition ReplaceByte :: "string \<Rightarrow> char \<Rightarrow> string \<Rightarrow> string" where
  "ReplaceByte s c r = concat (map (\<lambda>x. if x = c then r else [x]) s)"

lemma IndexByte_None: "IndexByte s c = None \<longleftrightarrow> c \<notin> set s"
  by (induction s) auto

lemma IndexByte_Some:
  "IndexByte s c = Some i \<Longrightarrow> i < length s \<and> s ! i = c \<and> c \<notin> set (take i s)"
  by (induction s arbitrary: i) (auto split: if_splits)

lemma Split_not_Nil [simp]: "Split s d \<noteq> []"
  by (induction s) (auto split: list.splits)

lemma Split_no_sep: "w \<in> set (Split s d) \<Longrightarrow> d \<notin> set w"
proof (induction s arbitrary: w)
  case Nil
  then show ?case by simp
next
  case (Cons c cs)
  then show ?case by (cases "Split cs d") (auto split: if_splits)
qed

lemma Split_set: "w \<in> set (Split s d) \<Longrightarrow> set w \<subseteq> set s"
proof (induction s arbitrary: w)
  case Nil
  then show ?case by simp
next
  case (Cons c cs)
  then show ?case by (cases "Split cs d") (fastforce split: if_splits)+
qed

lemma Join_Split: "Join (Split s d) [d] = s"
proof (induction s)
  case Nil
  then show ?case by simp
next
  case (Cons c cs)
  obtain w ws where sp: "Split cs d = w # ws"
    by (cases "Split cs d") auto
  with Cons show ?case
    by (cases ws) auto
qed

lemma Split_atom: "d \<notin> set s \<Longrightarrow> Split s d = [s]"
  by (induction s) auto

lemma Split_append: "d \<notin> set s \<Longrightarrow> Split (s @ d # t) d = s # Split t d"
  by (induction s) auto

lemma Split_Join:
  "ws \<noteq> [] \<Longrightarrow> \<forall>w \<in> set ws. d \<notin> set w \<Longrightarrow> Split (Join ws [d]) d = ws"
  by (induction ws "[d]" rule: Join.induct) (auto simp: Split_atom Split_append)

lemma HasPrefix_append [simp]: "HasPrefix (p @ s) p"
  by (simp add: HasPrefix_def)

lemma TrimPrefix_append [simp]: "TrimPrefix (p @ s) p = s"
  by (simp add: TrimPrefix_def HasPrefix_def)

lemma HasSuffix_append [simp]: "HasSuffix (s @ p) p"
  by (simp add: HasSuffix_def)

lemma TrimSuffix_append [simp]: "TrimSuffix (s @ p) p = s"
  by (simp add: TrimSuffix_def)

lemma set_ReplaceByte: "set (ReplaceByte s c r) \<subseteq> set s \<union> set r"
  by (auto simp: ReplaceByte_def split: if_splits)

section \<open>Decimal integers\<close>

fun itoa_nat :: "nat \<Rightarrow> string" where
  "itoa_nat n = (if n < 10 then [bchr (48 + n)] else itoa_nat (n div 10) @ [bchr (48 + n mod 10)])"

declare itoa_nat.simps [simp del]

text \<open>\<open>strconv.Itoa\<close> and the \<open>%d\<close> verb.\<close>

definition Itoa :: "int \<Rightarrow> string" where
  "Itoa i = (if i < 0 then CHR ''-'' # itoa_nat (nat (- i)) else itoa_nat (nat i))"

fun digits_val :: "nat \<Rightarrow> string \<Rightarrow> nat option" where
  "digits_val acc [] = Some acc"
| "digits_val acc (c # cs) =
     (if is_digit c then digits_val (acc * 10 + (bcode c - 48)) cs else None)"

text \<open>\<open>strconv.Atoi\<close> (base 10, 64-bit \<open>int\<close>); \<open>None\<close> is a returned error.\<close>

definition Atoi :: "string \<Rightarrow> int option" where
  "Atoi s =
     (let (neg, ds) = (case s of
            [] \<Rightarrow> (False, [])
          | c # cs \<Rightarrow> if c = CHR ''-'' then (True, cs) else if c = CHR ''+'' then (False, cs)
                      else (False, s))
      in if ds = [] then None
         else case digits_val 0 ds of
                None \<Rightarrow> None
              | Some n \<Rightarrow>
                  (let i = (if neg then - int n else int n)
                   in if - (2 ^ 63) \<le> i \<and> i < 2 ^ 63 then Some i else None))"

lemma bcode_bchr_digit: "n < 10 \<Longrightarrow> bcode (bchr (48 + n)) = 48 + n"
  by simp

lemma is_digit_bchr: "n < 10 \<Longrightarrow> is_digit (bchr (48 + n))"
  by (simp add: is_digit_def)

lemma itoa_nat_digits: "c \<in> set (itoa_nat n) \<Longrightarrow> is_digit c"
proof (induction n rule: itoa_nat.induct)
  case (1 n)
  show ?case
  proof (cases "n < 10")
    case True
    with "1.prems" show ?thesis by (simp add: itoa_nat.simps [of n] is_digit_bchr)
  next
    case False
    with 1 show ?thesis by (auto simp: itoa_nat.simps [of n] is_digit_def)
  qed
qed

lemma itoa_nat_not_Nil [simp]: "itoa_nat n \<noteq> []"
  by (subst itoa_nat.simps) simp

lemma digits_val_append:
  "digits_val a (xs @ ys) = (case digits_val a xs of None \<Rightarrow> None | Some b \<Rightarrow> digits_val b ys)"
  by (induction xs arbitrary: a) auto

lemma digits_val_itoa: "digits_val 0 (itoa_nat n) = Some n"
proof (induction n rule: itoa_nat.induct)
  case (1 n)
  show ?case
  proof (cases "n < 10")
    case True
    then show ?thesis by (simp add: itoa_nat.simps [of n] is_digit_bchr)
  next
    case False
    with 1 show ?thesis
      by (simp add: itoa_nat.simps [of n] digits_val_append is_digit_def)
  qed
qed

lemma itoa_nat_inject [simp]: "itoa_nat m = itoa_nat n \<longleftrightarrow> m = n"
  by (metis digits_val_itoa option.inject)

lemma itoa_nat_no_sign: "itoa_nat n = c # cs \<Longrightarrow> c \<noteq> CHR ''-'' \<and> c \<noteq> CHR ''+''"
  using itoa_nat_digits [of c n] by (auto simp: is_digit_def)

lemma Itoa_nat [simp]: "Itoa (int n) = itoa_nat n"
  by (simp add: Itoa_def)

lemma Atoi_Itoa: "- (2 ^ 63) \<le> i \<Longrightarrow> i < 2 ^ 63 \<Longrightarrow> Atoi (Itoa i) = Some i"
proof (cases "i < 0")
  case True
  assume "- (2 ^ 63) \<le> i" and "i < 2 ^ 63"
  with True show ?thesis
    by (simp add: Itoa_def Atoi_def digits_val_itoa)
next
  case False
  assume range: "- (2 ^ 63) \<le> i" "i < 2 ^ 63"
  obtain c cs where ds: "itoa_nat (nat i) = c # cs"
    by (cases "itoa_nat (nat i)") auto
  from itoa_nat_no_sign [OF ds] False range digits_val_itoa [of "nat i"] show ?thesis
    by (simp add: Itoa_def Atoi_def ds)
qed

lemma Itoa_chars: "c \<in> set (Itoa i) \<Longrightarrow> is_digit c \<or> c = CHR ''-''"
  by (auto simp: Itoa_def dest: itoa_nat_digits split: if_splits)

lemma Itoa_inject: "Itoa i = Itoa j \<longleftrightarrow> i = j"
proof
  assume eq: "Itoa i = Itoa j"
  show "i = j"
  proof (cases "i < 0"; cases "j < 0")
    assume "i < 0" "\<not> j < 0"
    with eq have "CHR ''-'' \<in> set (itoa_nat (nat j))"
      by (simp add: Itoa_def) (metis list.set_intros(1))
    then show ?thesis by (auto dest: itoa_nat_digits simp: is_digit_def)
  next
    assume "\<not> i < 0" "j < 0"
    with eq have "CHR ''-'' \<in> set (itoa_nat (nat i))"
      by (simp add: Itoa_def)
    then show ?thesis by (auto dest: itoa_nat_digits simp: is_digit_def)
  qed (use eq in \<open>auto simp: Itoa_def nat_eq_iff\<close>)
qed simp

section \<open>Runes\<close>

text \<open>
  \<open>utf8.DecodeRune\<close>: the rune at the front of a non-empty string and its width in bytes.
  Every byte that does not start a well-formed sequence is \<open>RuneError\<close> with width one.
\<close>

abbreviation RuneError :: nat where
  "RuneError \<equiv> 65533"

definition cont_in :: "nat \<Rightarrow> nat \<Rightarrow> char \<Rightarrow> bool" where
  "cont_in lo hi c \<longleftrightarrow> lo \<le> bcode c \<and> bcode c \<le> hi"

definition second_lo :: "nat \<Rightarrow> nat" where
  "second_lo b0 = (if b0 = 224 then 160 else if b0 = 240 then 144 else 128)"

definition second_hi :: "nat \<Rightarrow> nat" where
  "second_hi b0 = (if b0 = 237 then 159 else if b0 = 244 then 143 else 191)"

fun decode2 :: "nat \<Rightarrow> string \<Rightarrow> nat \<times> nat" where
  "decode2 b0 (c1 # s) =
     (if cont_in (second_lo b0) (second_hi b0) c1
      then ((b0 - 192) * 64 + (bcode c1 - 128), 2) else (RuneError, 1))"
| "decode2 b0 [] = (RuneError, 1)"

fun decode3 :: "nat \<Rightarrow> string \<Rightarrow> nat \<times> nat" where
  "decode3 b0 (c1 # c2 # s) =
     (if cont_in (second_lo b0) (second_hi b0) c1 \<and> cont_in 128 191 c2
      then ((b0 - 224) * 4096 + (bcode c1 - 128) * 64 + (bcode c2 - 128), 3)
      else (RuneError, 1))"
| "decode3 b0 _ = (RuneError, 1)"

fun decode4 :: "nat \<Rightarrow> string \<Rightarrow> nat \<times> nat" where
  "decode4 b0 (c1 # c2 # c3 # s) =
     (if cont_in (second_lo b0) (second_hi b0) c1 \<and> cont_in 128 191 c2 \<and> cont_in 128 191 c3
      then ((b0 - 240) * 262144 + (bcode c1 - 128) * 4096 + (bcode c2 - 128) * 64
            + (bcode c3 - 128), 4)
      else (RuneError, 1))"
| "decode4 b0 _ = (RuneError, 1)"

fun DecodeRune :: "string \<Rightarrow> nat \<times> nat" where
  "DecodeRune [] = (RuneError, 0)"
| "DecodeRune (c # s) =
     (if bcode c < 128 then (bcode c, 1)
      else if 194 \<le> bcode c \<and> bcode c \<le> 223 then decode2 (bcode c) s
      else if 224 \<le> bcode c \<and> bcode c \<le> 239 then decode3 (bcode c) s
      else if 240 \<le> bcode c \<and> bcode c \<le> 244 then decode4 (bcode c) s
      else (RuneError, 1))"

lemma cont_in_second: "cont_in (second_lo b) (second_hi b) c \<Longrightarrow> 128 \<le> bcode c"
  by (simp add: cont_in_def second_lo_def split: if_splits)

lemma cont_in_cont: "cont_in 128 191 c \<Longrightarrow> 128 \<le> bcode c"
  by (simp add: cont_in_def)

lemma decode2_cases:
  "decode2 b s = (RuneError, 1) \<or> (\<exists>c1 t. s = c1 # t \<and> 128 \<le> bcode c1 \<and>
     decode2 b s = ((b - 192) * 64 + (bcode c1 - 128), 2))"
  by (cases "(b, s)" rule: decode2.cases) (auto dest: cont_in_second)

lemma decode3_cases:
  "decode3 b s = (RuneError, 1) \<or> (\<exists>c1 c2 t. s = c1 # c2 # t \<and> 128 \<le> bcode c1 \<and> 128 \<le> bcode c2 \<and>
     cont_in (second_lo b) (second_hi b) c1 \<and>
     decode3 b s = ((b - 224) * 4096 + (bcode c1 - 128) * 64 + (bcode c2 - 128), 3))"
  by (cases "(b, s)" rule: decode3.cases) (auto dest: cont_in_second cont_in_cont)

lemma decode4_cases:
  "decode4 b s = (RuneError, 1) \<or> (\<exists>c1 c2 c3 t. s = c1 # c2 # c3 # t \<and> 128 \<le> bcode c1 \<and>
     128 \<le> bcode c2 \<and> 128 \<le> bcode c3 \<and> cont_in (second_lo b) (second_hi b) c1 \<and>
     decode4 b s = ((b - 240) * 262144 + (bcode c1 - 128) * 4096 + (bcode c2 - 128) * 64
            + (bcode c3 - 128), 4))"
  by (cases "(b, s)" rule: decode4.cases) (auto dest: cont_in_second cont_in_cont)

lemma decode3_big:
  "224 \<le> b \<Longrightarrow> cont_in (second_lo b) (second_hi b) c \<Longrightarrow>
     128 \<le> (b - 224) * 4096 + (bcode c - 128) * 64"
  by (cases "b = 224") (auto simp: cont_in_def second_lo_def)

lemma decode4_big:
  "240 \<le> b \<Longrightarrow> cont_in (second_lo b) (second_hi b) c \<Longrightarrow>
     128 \<le> (b - 240) * 262144 + (bcode c - 128) * 4096"
  by (cases "b = 240") (auto simp: cont_in_def second_lo_def)

lemma DecodeRune_width: "Suc 0 \<le> snd (DecodeRune (c # cs))"
  using decode2_cases [of "bcode c" cs] decode3_cases [of "bcode c" cs]
    decode4_cases [of "bcode c" cs]
  by (simp add: DecodeRune.simps del: decode2.simps decode3.simps decode4.simps) force

lemma DecodeRune_ascii: "bcode c < 128 \<Longrightarrow> DecodeRune (c # cs) = (bcode c, 1)"
  by simp

text \<open>
  A byte outside ASCII never decodes to an ASCII rune, and the bytes of its sequence are all
  outside ASCII.
\<close>

lemma DecodeRune_nonascii:
  assumes "128 \<le> bcode c"
  shows "128 \<le> fst (DecodeRune (c # cs)) \<and>
    (\<forall>x \<in> set (take (snd (DecodeRune (c # cs))) (c # cs)). 128 \<le> bcode x)"
proof -
  consider "194 \<le> bcode c" "bcode c \<le> 223" | "224 \<le> bcode c" "bcode c \<le> 239"
    | "240 \<le> bcode c" "bcode c \<le> 244" | "bcode c < 194" | "244 < bcode c"
    by linarith
  then show ?thesis
  proof cases
    case 1
    with assms decode2_cases [of "bcode c" cs] show ?thesis
      by (auto simp del: decode2.simps)
  next
    case 2
    then have dec: "DecodeRune (c # cs) = decode3 (bcode c) cs" by simp
    from decode3_cases [of "bcode c" cs] show ?thesis
    proof (elim disjE exE conjE)
      fix c1 c2 t
      assume "cs = c1 # c2 # t" "128 \<le> bcode c1" "128 \<le> bcode c2"
        and c1: "cont_in (second_lo (bcode c)) (second_hi (bcode c)) c1"
        and "decode3 (bcode c) cs =
          ((bcode c - 224) * 4096 + (bcode c1 - 128) * 64 + (bcode c2 - 128), 3)"
      with assms dec decode3_big [OF 2(1) c1] show ?thesis
        by (simp add: trans_le_add1)
    qed (use assms dec in simp)
  next
    case 3
    then have dec: "DecodeRune (c # cs) = decode4 (bcode c) cs" by simp
    from decode4_cases [of "bcode c" cs] show ?thesis
    proof (elim disjE exE conjE)
      fix c1 c2 c3 t
      assume "cs = c1 # c2 # c3 # t" "128 \<le> bcode c1" "128 \<le> bcode c2" "128 \<le> bcode c3"
        and c1: "cont_in (second_lo (bcode c)) (second_hi (bcode c)) c1"
        and "decode4 (bcode c) cs = ((bcode c - 240) * 262144 + (bcode c1 - 128) * 4096
          + (bcode c2 - 128) * 64 + (bcode c3 - 128), 4)"
      with assms dec decode4_big [OF 3(1) c1] show ?thesis
        by (simp add: trans_le_add1)
    qed (use assms dec in simp)
  qed (use assms in simp_all)
qed

declare DecodeRune.simps [simp del]

function go_chunks :: "string \<Rightarrow> (nat \<times> string) list" where
  "go_chunks [] = []"
| "go_chunks (c # cs) =
     (case DecodeRune (c # cs) of
        (r, w) \<Rightarrow> (r, take w (c # cs)) # go_chunks (drop w (c # cs)))"
  by pat_completeness auto
termination go_chunks
proof (relation "measure length", goal_cases)
  case (2 c cs r w)
  then have "Suc 0 \<le> w" using DecodeRune_width [of c cs] by (metis snd_conv)
  then show ?case by simp
qed simp

declare go_chunks.simps(2) [simp del]

text \<open>The runes a \<open>for \<dots> range s\<close> loop sees.\<close>

definition runes :: "string \<Rightarrow> nat list" where
  "runes s = map fst (go_chunks s)"

lemma go_chunks_ascii [simp]:
  "bcode c < 128 \<Longrightarrow> go_chunks (c # cs) = (bcode c, [c]) # go_chunks cs"
  by (simp add: go_chunks.simps(2) DecodeRune_ascii)

lemma runes_Nil [simp]: "runes [] = []"
  by (simp add: runes_def)

lemma runes_ascii [simp]: "bcode c < 128 \<Longrightarrow> runes (c # cs) = bcode c # runes cs"
  by (simp add: runes_def)

lemma concat_go_chunks: "concat (map snd (go_chunks s)) = s"
  by (induction s rule: go_chunks.induct)
    (auto simp: go_chunks.simps(2) split: prod.splits)

lemma runes_all_ascii: "\<forall>c \<in> set s. bcode c < 128 \<Longrightarrow> runes s = map bcode s"
  by (induction s) auto

text \<open>
  The ASCII bytes of a string are exactly its ASCII runes: a chunk is either one ASCII byte
  with its own value, or a rune of at least 128 over bytes of at least 128.
\<close>

lemma go_chunks_cases:
  "(r, w) \<in> set (go_chunks s) \<Longrightarrow>
     (\<exists>c. bcode c < 128 \<and> r = bcode c \<and> w = [c]) \<or> (128 \<le> r \<and> (\<forall>x \<in> set w. 128 \<le> bcode x))"
proof (induction s rule: go_chunks.induct)
  case 1
  then show ?case by simp
next
  case (2 c cs)
  show ?case
  proof (cases "bcode c < 128")
    case True
    with 2 show ?thesis by (auto simp: DecodeRune_ascii)
  next
    case False
    obtain r0 w0 where dec: "DecodeRune (c # cs) = (r0, w0)" by fastforce
    with False DecodeRune_nonascii [of c cs]
    have "128 \<le> r0" and "\<forall>x \<in> set (take w0 (c # cs)). 128 \<le> bcode x" by auto
    with 2 dec show ?thesis by (auto simp: go_chunks.simps(2))
  qed
qed

lemma set_go_chunks: "c \<in> set s \<Longrightarrow> \<exists>(r, w) \<in> set (go_chunks s). c \<in> set w"
proof -
  assume "c \<in> set s"
  then have "c \<in> set (concat (map snd (go_chunks s)))" by (simp add: concat_go_chunks)
  then show ?thesis by force
qed

lemma ascii_byte_iff_rune:
  assumes "bcode c < 128"
  shows "bcode c \<in> set (runes s) \<longleftrightarrow> c \<in> set s"
proof
  assume "bcode c \<in> set (runes s)"
  then obtain w where in_ch: "(bcode c, w) \<in> set (go_chunks s)" by (auto simp: runes_def)
  with go_chunks_cases [OF in_ch] assms have "w = [c]" by auto
  with in_ch have "c \<in> set (concat (map snd (go_chunks s)))" by force
  then show "c \<in> set s" by (simp add: concat_go_chunks)
next
  assume "c \<in> set s"
  then obtain r w where ch: "(r, w) \<in> set (go_chunks s)" "c \<in> set w"
    using set_go_chunks by blast
  with go_chunks_cases [OF ch(1)] assms have "r = bcode c" by auto
  with ch show "bcode c \<in> set (runes s)" by (force simp: runes_def)
qed

text \<open>
  \<open>utf8.AppendRune\<close>, what \<open>strings.Builder.WriteRune\<close> writes; surrogates and values past
  the last code point become \<open>RuneError\<close>.
\<close>

definition EncodeRune :: "nat \<Rightarrow> string" where
  "EncodeRune r0 =
     (let r = (if r0 > 1114111 \<or> (55296 \<le> r0 \<and> r0 \<le> 57343) then RuneError else r0) in
      if r < 128 then [bchr r]
      else if r < 2048 then [bchr (192 + r div 64), bchr (128 + r mod 64)]
      else if r < 65536 then
        [bchr (224 + r div 4096), bchr (128 + r div 64 mod 64), bchr (128 + r mod 64)]
      else
        [bchr (240 + r div 262144), bchr (128 + r div 4096 mod 64),
         bchr (128 + r div 64 mod 64), bchr (128 + r mod 64)])"

lemma EncodeRune_ascii: "r < 128 \<Longrightarrow> EncodeRune r = [bchr r]"
  by (simp add: EncodeRune_def)

lemma EncodeRune_nonascii: "128 \<le> r \<Longrightarrow> c \<in> set (EncodeRune r) \<Longrightarrow> 128 \<le> bcode c"
  by (auto simp: EncodeRune_def Let_def split: if_splits)

text \<open>\<open>unicode.IsSpace\<close>.\<close>

definition IsSpace :: "nat \<Rightarrow> bool" where
  "IsSpace r \<longleftrightarrow> (9 \<le> r \<and> r \<le> 13) \<or> r = 32 \<or> r = 133 \<or> r = 160 \<or> r = 5760
     \<or> (8192 \<le> r \<and> r \<le> 8202) \<or> r = 8232 \<or> r = 8233 \<or> r = 8239 \<or> r = 8287 \<or> r = 12288"

text \<open>
  \<open>strings.TrimSpace\<close> and \<open>strings.Fields\<close>.  UTF-8 is self-synchronising: the sequence of a
  space is never part of another rune, so trimming chunks from the right is what decoding
  from the right does.
\<close>

definition TrimSpace :: "string \<Rightarrow> string" where
  "TrimSpace s =
     concat (map snd (rev (dropWhile (IsSpace \<circ> fst) (rev (dropWhile (IsSpace \<circ> fst) (go_chunks s))))))"

fun fields_of :: "(nat \<times> string) list \<Rightarrow> string \<Rightarrow> string list" where
  "fields_of [] acc = (if acc = [] then [] else [acc])"
| "fields_of ((r, w) # cs) acc =
     (if IsSpace r then (if acc = [] then fields_of cs [] else acc # fields_of cs [])
      else fields_of cs (acc @ w))"

definition Fields :: "string \<Rightarrow> string list" where
  "Fields s = fields_of (go_chunks s) []"

lemma fields_of_not_Nil: "w \<in> set (fields_of cs acc) \<Longrightarrow> (\<forall>(r, v) \<in> set cs. v \<noteq> []) \<Longrightarrow> w \<noteq> []"
  by (induction cs acc rule: fields_of.induct) (auto split: if_splits)

lemma go_chunks_not_Nil: "(r, w) \<in> set (go_chunks s) \<Longrightarrow> w \<noteq> []"
proof (induction s rule: go_chunks.induct)
  case (2 c cs)
  obtain r0 w0 where dec: "DecodeRune (c # cs) = (r0, w0)" by fastforce
  with DecodeRune_width [of c cs] have "Suc 0 \<le> w0" by simp
  with 2 dec show ?case by (auto simp: go_chunks.simps(2))
qed simp

lemma Fields_not_Nil: "w \<in> set (Fields s) \<Longrightarrow> w \<noteq> []"
  unfolding Fields_def
  by (erule fields_of_not_Nil) (auto dest: go_chunks_not_Nil)

lemma set_TrimSpace: "set (TrimSpace s) \<subseteq> set s"
proof
  fix c
  assume "c \<in> set (TrimSpace s)"
  then obtain p where "p \<in> set (go_chunks s)" "c \<in> set (snd p)"
    by (auto simp: TrimSpace_def dest!: set_dropWhileD)
  then have "c \<in> set (concat (map snd (go_chunks s)))" by auto
  then show "c \<in> set s" by (simp add: concat_go_chunks)
qed

lemma IsSpace_digit [simp]: "is_digit c \<Longrightarrow> \<not> IsSpace (bcode c)"
  by (auto simp: is_digit_def IsSpace_def)

lemma TrimSpace_eval: "TrimSpace '' a b '' = ''a b''"
  by (simp add: TrimSpace_def IsSpace_def)

lemma Fields_eval: "Fields ''*/5  3 *'' = [''*/5'', ''3'', ''*'']"
  by (simp add: Fields_def IsSpace_def)

section \<open>Case folding\<close>

text \<open>
  \<open>strings.EqualFold\<close> with an ASCII text: letters fold to lower case, the Kelvin sign (E2 84 AA)
  folds to k and the long s (C5 BF) to s; no other rune folds to an ASCII one.
\<close>

fun fold_runes :: "string \<Rightarrow> string" where
  "fold_runes [] = []"
| "fold_runes (c # s) =
     (if c = bchr 226 \<and> take 2 s = [bchr 132, bchr 170] then CHR ''k'' # fold_runes (drop 2 s)
      else if c = bchr 197 \<and> take 1 s = [bchr 191] then CHR ''s'' # fold_runes (drop 1 s)
      else (if is_upper c then bchr (bcode c + 32) else c) # fold_runes s)"

definition EqualFold :: "string \<Rightarrow> string \<Rightarrow> bool" where
  "EqualFold s t \<longleftrightarrow> fold_runes s = fold_runes t"

end
