(* ===== verification/Regex.thy ===== *)
theory Regex
  imports GoStrings
begin

text \<open>
  The fragment of Go's \<open>regexp\<close> the program's validators use: byte classes, concatenation,
  alternation, option, star and plus, always anchored (\<open>^\<dots>$\<close>).  \<open>re_match\<close> decides
  membership by derivatives and is executable; \<open>re_match_lang\<close> relates it to the usual
  language semantics, from which the closed forms of the validators' patterns follow.

  A negated class such as \<open>[^\x00-\x1f"]\<close> ranges over runes in Go; the excluded characters
  are ASCII, and a rune outside ASCII consists of bytes outside ASCII only, so the same class
  over bytes accepts the same strings.
\<close>

datatype re = Zero | Eps | Cls "char \<Rightarrow> bool" | Alt re re | Seq re re | Star re

definition Opt :: "re \<Rightarrow> re" where
  "Opt r = Alt Eps r"

definition Plus :: "re \<Rightarrow> re" where
  "Plus r = Seq r (Star r)"

definition Chr :: "char \<Rightarrow> re" where
  "Chr c = Cls (\<lambda>x. x = c)"

fun nullable :: "re \<Rightarrow> bool" where
  "nullable Zero = False"
| "nullable Eps = True"
| "nullable (Cls p) = False"
| "nullable (Alt r s) = (nullable r \<or> nullable s)"
| "nullable (Seq r s) = (nullable r \<and> nullable s)"
| "nullable (Star r) = True"

text \<open>Smart constructors keep the derivatives small.\<close>

fun mk_alt :: "re \<Rightarrow> re \<Rightarrow> re" where
  "mk_alt Zero s = s"
| "mk_alt r Zero = r"
| "mk_alt r s = Alt r s"

fun mk_seq :: "re \<Rightarrow> re \<Rightarrow> re" where
  "mk_seq Zero s = Zero"
| "mk_seq Eps s = s"
| "mk_seq r s = Seq r s"

fun deriv :: "char \<Rightarrow> re \<Rightarrow> re" where
  "deriv c Zero = Zero"
| "deriv c Eps = Zero"
| "deriv c (Cls p) = (if p c then Eps else Zero)"
| "deriv c (Alt r s) = mk_alt (deriv c r) (deriv c s)"
| "deriv c (Seq r s) =
     (if nullable r then mk_alt (mk_seq (deriv c r) s) (deriv c s) else mk_seq (deriv c r) s)"
| "deriv c (Star r) = mk_seq (deriv c r) (Star r)"

fun re_match :: "re \<Rightarrow> string \<Rightarrow> bool" where
  "re_match r [] = nullable r"
| "re_match r (c # cs) = re_match (deriv c r) cs"

section \<open>Language semantics\<close>

inductive_set kstar :: "string set \<Rightarrow> string set" for A where
  kstar_Nil: "[] \<in> kstar A"
| kstar_step: "u \<in> A \<Longrightarrow> v \<in> kstar A \<Longrightarrow> u @ v \<in> kstar A"

fun lang :: "re \<Rightarrow> string set" where
  "lang Zero = {}"
| "lang Eps = {[]}"
| "lang (Cls p) = {[c] |c. p c}"
| "lang (Alt r s) = lang r \<union> lang s"
| "lang (Seq r s) = {u @ v |u v. u \<in> lang r \<and> v \<in> lang s}"
| "lang (Star r) = kstar (lang r)"

lemma nullable_lang: "nullable r \<longleftrightarrow> [] \<in> lang r"
  by (induction r) (auto intro: kstar_Nil)

lemma lang_mk_alt [simp]: "lang (mk_alt r s) = lang r \<union> lang s"
  by (induction r s rule: mk_alt.induct) auto

lemma lang_mk_seq [simp]: "lang (mk_seq r s) = lang (Seq r s)"
  by (induction r s rule: mk_seq.induct) auto

lemma kstar_Cons: "c # w \<in> kstar A \<Longrightarrow> \<exists>u v. c # u \<in> A \<and> v \<in> kstar A \<and> w = u @ v"
proof (induction "c # w" rule: kstar.induct)
  case (kstar_step u v)
  then show ?case by (cases u) auto
qed

lemma lang_deriv: "w \<in> lang (deriv c r) \<longleftrightarrow> c # w \<in> lang r"
proof (induction r arbitrary: w)
  case (Seq r s)
  have "c # w \<in> lang (Seq r s) \<longleftrightarrow>
      ([] \<in> lang r \<and> c # w \<in> lang s) \<or> (\<exists>u v. c # u \<in> lang r \<and> v \<in> lang s \<and> w = u @ v)"
    by (auto simp: Cons_eq_append_conv)
  with Seq show ?case by (auto simp: nullable_lang)
next
  case (Star r)
  have "c # w \<in> kstar (lang r) \<longleftrightarrow> (\<exists>u v. c # u \<in> lang r \<and> v \<in> kstar (lang r) \<and> w = u @ v)"
    by (metis append_Cons kstar_Cons kstar_step)
  with Star show ?case by auto
qed auto

theorem re_match_lang: "re_match r s \<longleftrightarrow> s \<in> lang r"
  by (induction s arbitrary: r) (simp_all add: nullable_lang lang_deriv)

section \<open>Closed forms\<close>

declare re_match.simps [simp del]

lemma lang_Star_Cls: "lang (Star (Cls p)) = {s. \<forall>c \<in> set s. p c}"
proof (intro equalityI subsetI CollectI)
  fix s
  assume "s \<in> lang (Star (Cls p))"
  then have "s \<in> kstar {[c] |c. p c}" by simp
  then show "\<forall>c \<in> set s. p c" by induction auto
next
  fix s
  assume "s \<in> {s. \<forall>c \<in> set s. p c}"
  then show "s \<in> lang (Star (Cls p))"
  proof (induction s)
    case (Cons c s)
    then have "[c] @ s \<in> kstar {[c] |c. p c}"
      by (intro kstar_step) auto
    then show ?case by simp
  qed (simp add: kstar_Nil)
qed

lemma re_match_Star_Cls: "re_match (Star (Cls p)) s \<longleftrightarrow> (\<forall>c \<in> set s. p c)"
  by (simp add: re_match_lang lang_Star_Cls del: lang.simps)

lemma re_match_Seq_Cls: "re_match (Seq (Cls p) r) s \<longleftrightarrow> (\<exists>c t. s = c # t \<and> p c \<and> re_match r t)"
  by (auto simp: re_match_lang) (metis append_Cons append_Nil)

lemma re_match_Cls: "re_match (Cls p) s \<longleftrightarrow> (\<exists>c. s = [c] \<and> p c)"
  by (auto simp: re_match_lang)

lemma re_match_Alt: "re_match (Alt r r') s \<longleftrightarrow> re_match r s \<or> re_match r' s"
  by (auto simp: re_match_lang)

lemma re_match_Eps: "re_match Eps s \<longleftrightarrow> s = []"
  by (auto simp: re_match_lang)

lemma re_match_Seq: "re_match (Seq r r') s \<longleftrightarrow> (\<exists>u v. s = u @ v \<and> re_match r u \<and> re_match r' v)"
  by (auto simp: re_match_lang)

text \<open>A non-empty string of one class.\<close>

lemma re_match_Plus_Cls: "re_match (Plus (Cls p)) s \<longleftrightarrow> s \<noteq> [] \<and> (\<forall>c \<in> set s. p c)"
  unfolding Plus_def by (cases s) (auto simp: re_match_Seq_Cls re_match_Star_Cls)

text \<open>
  The label shape \<open>^p(q*p)?$\<close> with \<open>p\<close> inside \<open>q\<close>: non-empty, all in \<open>q\<close>, first and last in
  \<open>p\<close>.
\<close>

definition label_re :: "(char \<Rightarrow> bool) \<Rightarrow> (char \<Rightarrow> bool) \<Rightarrow> re" where
  "label_re p q = Seq (Cls p) (Opt (Seq (Star (Cls q)) (Cls p)))"

lemma re_match_label:
  assumes sub: "\<And>c. p c \<Longrightarrow> q c"
  shows "re_match (label_re p q) s \<longleftrightarrow> s \<noteq> [] \<and> (\<forall>c \<in> set s. q c) \<and> p (hd s) \<and> p (last s)"
proof -
  have tail: "re_match (Opt (Seq (Star (Cls q)) (Cls p))) t \<longleftrightarrow>
      t = [] \<or> ((\<forall>c \<in> set t. q c) \<and> p (last t))" for t
    by (cases t rule: rev_cases)
      (auto simp: Opt_def re_match_Alt re_match_Eps re_match_Seq re_match_Star_Cls re_match_Cls sub
        intro: exI [of _ "[_]"])
  show ?thesis
    by (cases s) (auto simp: label_re_def re_match_Seq_Cls tail sub)
qed

text \<open>A bound on the bytes of the strings a pattern matches.\<close>

fun re_bytes :: "re \<Rightarrow> char \<Rightarrow> bool" where
  "re_bytes (Cls p) c = p c"
| "re_bytes (Alt r s) c = (re_bytes r c \<or> re_bytes s c)"
| "re_bytes (Seq r s) c = (re_bytes r c \<or> re_bytes s c)"
| "re_bytes (Star r) c = re_bytes r c"
| "re_bytes _ c = False"

lemma lang_bytes: "s \<in> lang r \<Longrightarrow> c \<in> set s \<Longrightarrow> re_bytes r c"
proof (induction r arbitrary: s)
  case (Star r)
  from Star.prems(1) have "s \<in> kstar (lang r)" by simp
  then have "c \<in> set s \<longrightarrow> re_bytes r c"
    by induction (use Star.IH in auto)
  with Star.prems(2) show ?case by simp
next
  case (Seq r1 r2)
  then show ?case by simp (metis UnE set_append)
qed auto

lemma re_match_bytes: "re_match r s \<Longrightarrow> c \<in> set s \<Longrightarrow> re_bytes r c"
  by (simp add: re_match_lang lang_bytes)

end
