(* ===== verification/QuadletValidate.thy ===== *)
theory QuadletValidate
  imports Regex
begin

text \<open>
  internal/quadlet/validate.go: the checks every client-supplied string goes through before it
  is written into a unit file, one definition per function, and for each the closed form of
  what it accepts.  The facts the renderers need are in \<open>safe_bytes\<close>: an accepted value has
  no byte that could end its line.
\<close>

named_theorems safe_bytes \<open>an accepted string contains no line break\<close>

datatype unit_error =
    BadImage string
  | BadEnvName string
  | BadRefName string string
  | BadPath string string
  | ControlChars string
  | EnvControlChars string nat
  | BadUlimit string
  | BadLabelKey string
  | BadAnnotationKey string "string list"
  | OtherError string

section \<open>Byte classes\<close>

definition is_alnum :: "char \<Rightarrow> bool" where
  "is_alnum c \<longleftrightarrow> is_lower c \<or> is_upper c \<or> is_digit c"

definition is_lalnum :: "char \<Rightarrow> bool" where
  "is_lalnum c \<longleftrightarrow> is_lower c \<or> is_digit c"

definition one_of :: "string \<Rightarrow> char \<Rightarrow> bool" where
  "one_of cs c \<longleftrightarrow> c \<in> set cs"

lemmas byte_classes = is_alnum_def is_lalnum_def is_lower_def is_upper_def is_digit_def one_of_def

lemma class_newline [simp]:
  "\<not> is_lower newline" "\<not> is_upper newline" "\<not> is_alnum newline" "\<not> is_lalnum newline"
  by (simp_all add: byte_classes)

section \<open>Images, environment names, object names\<close>

definition imageRE :: re where
  "imageRE = Seq (Cls is_alnum) (Star (Cls (\<lambda>c. is_alnum c \<or> one_of ''._-/:@'' c)))"

definition validateImage :: "string \<Rightarrow> unit_error + unit" where
  "validateImage img =
     (if img = [] \<or> length img > 512 \<or> \<not> re_match imageRE img
      then Inl (BadImage img) else Inr ())"

definition envNameRE :: re where
  "envNameRE = Seq (Cls (\<lambda>c. is_upper c \<or> is_lower c \<or> c = CHR ''_''))
     (Star (Cls (\<lambda>c. is_upper c \<or> is_lower c \<or> is_digit c \<or> c = CHR ''_'')))"

definition validateEnvName :: "string \<Rightarrow> unit_error + unit" where
  "validateEnvName name = (if \<not> re_match envNameRE name then Inl (BadEnvName name) else Inr ())"

definition nameRE :: re where
  "nameRE = label_re is_lalnum (\<lambda>c. is_lalnum c \<or> c = CHR ''-'')"

definition validateRefName :: "string \<Rightarrow> string \<Rightarrow> unit_error + unit" where
  "validateRefName what value =
     (if value = [] \<or> length value > 253 \<or> \<not> re_match nameRE value
      then Inl (BadRefName what value) else Inr ())"

text \<open>An RFC 1123 label of at most 253 bytes, without regular expressions.\<close>

definition dns_label :: "string \<Rightarrow> bool" where
  "dns_label s \<longleftrightarrow> s \<noteq> [] \<and> length s \<le> 253 \<and> (\<forall>c \<in> set s. is_lalnum c \<or> c = CHR ''-'') \<and>
     is_lalnum (hd s) \<and> is_lalnum (last s)"

lemma re_match_nameRE:
  "re_match nameRE s \<longleftrightarrow> s \<noteq> [] \<and> (\<forall>c \<in> set s. is_lalnum c \<or> c = CHR ''-'') \<and>
     is_lalnum (hd s) \<and> is_lalnum (last s)"
  unfolding nameRE_def by (rule re_match_label) simp

lemma validateRefName_iff: "isOk (validateRefName what s) \<longleftrightarrow> dns_label s"
  by (auto simp: validateRefName_def dns_label_def re_match_nameRE)

lemma validateRefName_Inr [simp]: "validateRefName what s = Inr u \<longleftrightarrow> dns_label s"
  using validateRefName_iff [of what s] by (auto simp: isOk_iff)

lemma re_match_imageRE:
  "re_match imageRE s \<longleftrightarrow>
     (\<exists>c t. s = c # t \<and> is_alnum c \<and> (\<forall>x \<in> set t. is_alnum x \<or> one_of ''._-/:@'' x))"
  by (simp add: imageRE_def re_match_Seq_Cls re_match_Star_Cls)

lemma re_match_envNameRE:
  "re_match envNameRE s \<longleftrightarrow>
     (\<exists>c t. s = c # t \<and> (is_upper c \<or> is_lower c \<or> c = CHR ''_'') \<and>
        (\<forall>x \<in> set t. is_upper x \<or> is_lower x \<or> is_digit x \<or> x = CHR ''_''))"
  by (simp add: envNameRE_def re_match_Seq_Cls re_match_Star_Cls)

lemma dns_label_newline [safe_bytes]: "dns_label s \<Longrightarrow> newline \<notin> set s"
  by (auto simp: dns_label_def)

lemma image_bytes: "re_match imageRE s \<Longrightarrow> c \<in> set s \<Longrightarrow> is_alnum c \<or> one_of ''._-/:@'' c"
  by (drule (1) re_match_bytes) (auto simp: imageRE_def)

lemma envName_bytes:
  "re_match envNameRE s \<Longrightarrow> c \<in> set s \<Longrightarrow> is_upper c \<or> is_lower c \<or> is_digit c \<or> c = CHR ''_''"
  by (drule (1) re_match_bytes) (auto simp: envNameRE_def)

lemma validateImage_newline [safe_bytes]: "validateImage s = Inr u \<Longrightarrow> newline \<notin> set s"
  using image_bytes [of s newline] by (auto simp: validateImage_def one_of_def split: if_splits)

lemma validateEnvName_newline [safe_bytes]: "validateEnvName s = Inr u \<Longrightarrow> newline \<notin> set s"
  using envName_bytes [of s newline] by (auto simp: validateEnvName_def split: if_splits)

section \<open>Paths and free-form values\<close>

definition path_byte :: "char \<Rightarrow> bool" where
  "path_byte c \<longleftrightarrow> \<not> bcode c \<le> 31 \<and> c \<noteq> CHR 0x22"

definition pathRE :: re where
  "pathRE = Seq (Chr (CHR ''/'')) (Star (Cls path_byte))"

definition validatePath :: "string \<Rightarrow> string \<Rightarrow> unit_error + unit" where
  "validatePath what value = (if \<not> re_match pathRE value then Inl (BadPath what value) else Inr ())"

definition noControlChars :: "string \<Rightarrow> string \<Rightarrow> unit_error + unit" where
  "noControlChars what value =
     (if list_ex (\<lambda>r. r = 10 \<or> r = 13 \<or> r = 0) (runes value) then Inl (ControlChars what) else Inr ())"

lemma re_match_pathRE:
  "re_match pathRE s \<longleftrightarrow> (\<exists>t. s = CHR ''/'' # t \<and> (\<forall>c \<in> set t. path_byte c))"
  by (simp add: pathRE_def Chr_def re_match_Seq_Cls re_match_Star_Cls)

lemma path_bytes: "re_match pathRE s \<Longrightarrow> c \<in> set s \<Longrightarrow> c = CHR ''/'' \<or> path_byte c"
  by (drule (1) re_match_bytes) (simp add: pathRE_def Chr_def)

lemma validatePath_newline [safe_bytes]: "validatePath what s = Inr u \<Longrightarrow> newline \<notin> set s"
  using path_bytes [of s newline] by (auto simp: validatePath_def path_byte_def split: if_splits)

lemma noControlChars_Inr:
  "noControlChars what s = Inr u \<longleftrightarrow> newline \<notin> set s \<and> CHR 0x0D \<notin> set s \<and> CHR 0x00 \<notin> set s"
proof -
  have "list_ex (\<lambda>r. r = 10 \<or> r = 13 \<or> r = 0) (runes s) \<longleftrightarrow>
      10 \<in> set (runes s) \<or> 13 \<in> set (runes s) \<or> 0 \<in> set (runes s)"
    by (auto simp: list_ex_iff)
  also have "\<dots> \<longleftrightarrow> newline \<in> set s \<or> CHR 0x0D \<in> set s \<or> CHR 0x00 \<in> set s"
    by (simp only: ascii_byte_iff_rune [of newline s, simplified]
        ascii_byte_iff_rune [of "CHR 0x0D" s, simplified]
        ascii_byte_iff_rune [of "CHR 0x00" s, simplified])
  finally show ?thesis by (simp add: noControlChars_def)
qed

lemma noControlChars_newline [safe_bytes]: "noControlChars what s = Inr u \<Longrightarrow> newline \<notin> set s"
  by (simp add: noControlChars_Inr)

section \<open>Ulimits, labels, annotation keys\<close>

definition minus_opt :: re where
  "minus_opt = Opt (Chr (CHR ''-''))"

definition ulimitItemRE :: re where
  "ulimitItemRE =
     Seq (Plus (Cls is_lower)) (Seq (Chr (CHR ''='')) (Seq minus_opt (Seq (Plus (Cls is_digit))
       (Opt (Seq (Chr (CHR '':'')) (Seq minus_opt (Plus (Cls is_digit))))))))"

definition validateUlimitItem :: "string \<Rightarrow> unit_error + unit" where
  "validateUlimitItem item = (if \<not> re_match ulimitItemRE item then Inl (BadUlimit item) else Inr ())"

definition labelKeyRE :: re where
  "labelKeyRE =
     Seq (Opt (Seq (label_re is_lalnum (\<lambda>c. is_lalnum c \<or> one_of ''-.'' c)) (Chr (CHR ''/''))))
       (label_re is_alnum (\<lambda>c. is_alnum c \<or> one_of ''-._'' c))"

definition validateLabelPair :: "string \<Rightarrow> string \<Rightarrow> unit_error + unit" where
  "validateLabelPair key value =
     (if key = [] \<or> length key > 253 \<or> \<not> re_match labelKeyRE key then Inl (BadLabelKey key)
      else noControlChars ''label value'' value)"

text \<open>
  \<open>qualifiedName\<close> is k8s.io/apimachinery's \<open>validation.IsQualifiedName\<close>: the list of messages,
  empty when the key is valid.
\<close>

definition validateAnnotationKey :: "(string \<Rightarrow> string list) \<Rightarrow> string \<Rightarrow> unit_error + unit" where
  "validateAnnotationKey qualifiedName key =
     (let msgs = qualifiedName key in
      if length msgs > 0 then Inl (BadAnnotationKey key msgs) else Inr ())"

lemma ulimit_bytes: "re_match ulimitItemRE s \<Longrightarrow> c \<in> set s \<Longrightarrow>
    is_lower c \<or> is_digit c \<or> one_of ''=-:'' c"
  by (drule (1) re_match_bytes)
    (auto simp: ulimitItemRE_def minus_opt_def Opt_def Plus_def Chr_def one_of_def)

lemma labelKey_bytes: "re_match labelKeyRE s \<Longrightarrow> c \<in> set s \<Longrightarrow> is_alnum c \<or> one_of ''-._/'' c"
  by (drule (1) re_match_bytes)
    (auto simp: labelKeyRE_def label_re_def Opt_def Chr_def one_of_def is_alnum_def is_lalnum_def)

lemma validateUlimitItem_newline [safe_bytes]:
  "validateUlimitItem s = Inr u \<Longrightarrow> newline \<notin> set s"
  using ulimit_bytes [of s newline] by (auto simp: validateUlimitItem_def one_of_def split: if_splits)

lemma validateLabelPair_newline [safe_bytes]:
  "validateLabelPair k v = Inr u \<Longrightarrow> newline \<notin> set k"
  "validateLabelPair k v = Inr u \<Longrightarrow> newline \<notin> set v"
  using labelKey_bytes [of k newline]
  by (auto simp: validateLabelPair_def one_of_def noControlChars_Inr split: if_splits)

lemma validateLabelPair_key: "validateLabelPair k v = Inr u \<Longrightarrow> CHR ''='' \<notin> set k"
  using labelKey_bytes [of k "CHR ''=''"]
  by (auto simp: validateLabelPair_def one_of_def byte_classes split: if_splits)

end
