(* ===== verification/K8s.thy ===== *)
theory K8s
  imports GoStrings
begin

text \<open>
  The Kubernetes API objects (k8s.io/api, k8s.io/apimachinery) and the Traefik custom resources
  (internal/traefik/types.go) as records.  Every field that the modelled code reads or writes is
  a field here; the fields it only stores, copies and compares as part of a larger value are
  together in one \<open>*_rest\<close> field, their serialised text.  A pointer is an \<open>option\<close>, a map an
  association list, and a map whose nil-ness the code looks at an \<open>option\<close> of one.  A nil and
  an empty slice are both the empty list.  Quantities are integers (bytes, millicores, counts).
\<close>

section \<open>Metadata\<close>

type_synonym time = int

type_synonym nsname = "string \<times> string"

record ownerref =
  or_apiVersion :: string
  or_kind :: string
  or_name :: string
  or_uid :: string
  or_controller :: "bool option"

text \<open>\<open>CreationTimestamp.IsZero()\<close> is \<open>None\<close>.\<close>

record objmeta =
  om_name :: string
  om_namespace :: string
  om_uid :: string
  om_resourceVersion :: string
  om_generation :: int
  om_creationTimestamp :: "time option"
  om_labels :: "strmap option"
  om_annotations :: "strmap option"
  om_ownerReferences :: "ownerref list"
  om_rest :: string

text \<open>What every object has: TypeMeta and ObjectMeta.  The kinds extend this record.\<close>

record kobj =
  o_apiVersion :: string
  o_kind :: string
  o_meta :: objmeta

abbreviation o_name :: "'a kobj_scheme \<Rightarrow> string" where
  "o_name x \<equiv> om_name (o_meta x)"

abbreviation o_namespace :: "'a kobj_scheme \<Rightarrow> string" where
  "o_namespace x \<equiv> om_namespace (o_meta x)"

abbreviation o_uid :: "'a kobj_scheme \<Rightarrow> string" where
  "o_uid x \<equiv> om_uid (o_meta x)"

abbreviation o_rv :: "'a kobj_scheme \<Rightarrow> string" where
  "o_rv x \<equiv> om_resourceVersion (o_meta x)"

text \<open>\<open>types.NamespacedName{Namespace: x.Namespace, Name: x.Name}\<close>.\<close>

definition okey :: "'a kobj_scheme \<Rightarrow> nsname" where
  "okey x = (o_namespace x, o_name x)"

definition omod :: "(objmeta \<Rightarrow> objmeta) \<Rightarrow> 'a kobj_scheme \<Rightarrow> 'a kobj_scheme" where
  "omod f x = x\<lparr>o_meta := f (o_meta x)\<rparr>"

text \<open>Indexing a possibly nil map.\<close>

definition lget :: "strmap option \<Rightarrow> string \<Rightarrow> string option" where
  "lget m k = (case m of None \<Rightarrow> None | Some l \<Rightarrow> mget l k)"

definition lmap :: "strmap option \<Rightarrow> strmap" where
  "lmap m = (case m of None \<Rightarrow> [] | Some l \<Rightarrow> l)"

lemma o_meta_omod [simp]: "o_meta (omod f x) = f (o_meta x)"
  by (simp add: omod_def)

lemma o_kind_omod [simp]: "o_kind (omod f x) = o_kind x"
  by (simp add: omod_def)

lemma omod_omod [simp]: "omod f (omod g x) = omod (f \<circ> g) x"
  by (simp add: omod_def)

lemma lget_None [simp]: "lget None k = None"
  by (simp add: lget_def)

lemma lget_Some [simp]: "lget (Some l) k = mget l k"
  by (simp add: lget_def)

section \<open>Ports, probes, containers, volumes\<close>

datatype int_or_string = IntPort int | StrPort string

record container_port =
  cp_name :: string
  cp_hostPort :: int
  cp_containerPort :: int
  cp_protocol :: string
  cp_hostIP :: string

record http_get =
  hg_path :: string
  hg_port :: int_or_string
  hg_host :: string
  hg_scheme :: string
  hg_headers :: "(string \<times> string) list"

text \<open>A probe: the four handler pointers (tcpSocket and grpc only as set or not) and timings.\<close>

record probe =
  pr_exec :: "string list option"
  pr_httpGet :: "http_get option"
  pr_tcpSocket :: bool
  pr_grpc :: bool
  pr_initialDelaySeconds :: int
  pr_timeoutSeconds :: int
  pr_periodSeconds :: int
  pr_successThreshold :: int
  pr_failureThreshold :: int

record volume_mount =
  vm_name :: string
  vm_mountPath :: string
  vm_readOnly :: bool

record limits =
  lim_memory :: "int option"
  lim_cpuMilli :: "int option"
  lim_gpu :: "int option"

text \<open>
  A reference to a key of a config map or secret, an environment variable with its sources, and
  the bulk import of \<open>envFrom\<close>.  The other sources of a variable are kept as text.
\<close>

record key_ref =
  kr_name :: string
  kr_key :: string
  kr_optional :: "bool option"

record env_source =
  es_configMapKeyRef :: "key_ref option"
  es_secretKeyRef :: "key_ref option"
  es_rest :: string

record env_var =
  env_name :: string
  env_value :: string
  env_valueFrom :: "env_source option"

record env_from =
  ef_prefix :: string
  ef_configMapRef :: "(string \<times> bool option) option"
  ef_secretRef :: "(string \<times> bool option) option"

record container =
  c_name :: string
  c_image :: string
  c_command :: "string list"
  c_args :: "string list"
  c_workingDir :: string
  c_ports :: "container_port list"
  c_env :: "env_var list"
  c_envFrom :: "env_from list"
  c_volumeMounts :: "volume_mount list"
  c_limits :: limits
  c_livenessProbe :: "probe option"
  c_readinessProbe :: "probe option"
  c_startupProbe :: "probe option"
  c_imagePullPolicy :: string
  c_runAsUser :: "int option"
  c_rest :: string

text \<open>A volume and its source: claim name and read-only flag, medium and size limit.\<close>

record volume =
  v_name :: string
  v_pvc :: "(string \<times> bool) option"
  v_configMap :: "string option"
  v_secret :: "string option"
  v_emptyDir :: "(string \<times> int option) option"

record podspec =
  ps_containers :: "container list"
  ps_initContainers :: "container list"
  ps_ephemeralContainers :: nat
  ps_volumes :: "volume list"
  ps_hostNetwork :: bool
  ps_restartPolicy :: string
  ps_rest :: string

section \<open>Pods\<close>

text \<open>\<open>LastTerminationState.Terminated\<close>: exit code and reason.\<close>

record container_status =
  cs_name :: string
  cs_image :: string
  cs_ready :: bool
  cs_restartCount :: int
  cs_terminated :: "(int \<times> string) option"

record podstatus =
  pst_phase :: string
  pst_containerStatuses :: "container_status list"
  pst_rest :: string

record pod = kobj +
  pod_spec :: podspec
  pod_status :: podstatus

section \<open>Services and storage\<close>

record service_port =
  sp_name :: string
  sp_protocol :: string
  sp_port :: int
  sp_targetPort :: int_or_string
  sp_nodePort :: int

record service = kobj +
  svc_type :: string
  svc_clusterIP :: string
  svc_clusterIPs :: "string list"
  svc_selector :: strmap
  svc_ports :: "service_port list"
  svc_rest :: string

record pvc = kobj +
  pvc_storageClassName :: "string option"
  pvc_volumeName :: string
  pvc_phase :: string
  pvc_rest :: string

record configmap = kobj +
  cm_data :: strmap
  cm_binaryData :: strmap
  cm_rest :: string

record secret = kobj +
  sec_data :: "strmap option"
  sec_stringData :: "strmap option"
  sec_rest :: string

record namespace = kobj +
  ns_phase :: string
  ns_rest :: string

section \<open>Workloads\<close>

record pod_template =
  pt_labels :: "strmap option"
  pt_annotations :: "strmap option"
  pt_spec :: podspec

record job = kobj +
  job_template :: pod_template
  job_active :: int
  job_succeeded :: int
  job_failed :: int
  job_rest :: string

record cronjob = kobj +
  cj_schedule :: string
  cj_template :: pod_template
  cj_rest :: string

record deployment_spec =
  ds_replicas :: "int option"
  ds_selector :: strmap
  ds_template :: pod_template
  ds_rest :: string

record deployment_status =
  dst_replicas :: int
  dst_readyReplicas :: int
  dst_availableReplicas :: int
  dst_updatedReplicas :: int
  dst_observedGeneration :: int

record deployment = kobj +
  dep_spec :: deployment_spec
  dep_status :: deployment_status

section \<open>Ingress and the Traefik resources\<close>

record ingress_path =
  ip_path :: string
  ip_pathType :: "string option"
  ip_service :: "(string \<times> int \<times> string) option"

record ingress_rule =
  ir_host :: string
  ir_http :: "ingress_path list option"

record ingress = kobj +
  ing_rules :: "ingress_rule list"
  ing_tls :: "(string list \<times> string) list"
  ing_rest :: string

record ipstrategy =
  is_depth :: int
  is_excludedIPs :: "string list"

record ipallowlist =
  ial_sourceRange :: "string list"
  ial_ipStrategy :: "ipstrategy option"
  ial_rejectStatusCode :: int

record redirect_regex =
  rr_regex :: string
  rr_replacement :: string
  rr_permanent :: bool

record redirect_scheme =
  rs_scheme :: string
  rs_port :: string
  rs_permanent :: bool

record mwheaders =
  hd_customRequestHeaders :: strmap
  hd_customResponseHeaders :: strmap
  hd_stsSeconds :: int
  hd_stsIncludeSubdomains :: bool
  hd_stsPreload :: bool
  hd_forceSTSHeader :: bool
  hd_frameDeny :: bool
  hd_contentTypeNosniff :: bool
  hd_browserXssFilter :: bool
  hd_referrerPolicy :: string
  hd_contentSecurityPolicy :: string
  hd_permissionsPolicy :: string
  hd_customFrameOptionsValue :: string

record middleware_spec =
  ms_ipAllowList :: "ipallowlist option"
  ms_redirectRegex :: "redirect_regex option"
  ms_redirectScheme :: "redirect_scheme option"
  ms_headers :: "mwheaders option"

record middleware = kobj +
  mw_spec :: middleware_spec

record service_tcp =
  st_name :: string
  st_port :: int_or_string
  st_proxyProtocol :: "int option"

record route_tcp =
  rt_match :: string
  rt_services :: "service_tcp list"

record ingress_route_tcp_spec =
  irs_entryPoints :: "string list"
  irs_routes :: "route_tcp list"
  irs_tlsPassthrough :: "bool option"

record ingress_route_tcp = kobj +
  irt_spec :: ingress_route_tcp_spec

end
