(* ===== verification/QuadletVolume.thy ===== *)
theory QuadletVolume
  imports QuadletValidate K8s
begin

text \<open>
  Storage classes, volume names, \<open>Volume=\<close> directives and the .volume and .network files:
  internal/quadlet/generator.go.
\<close>

definition StorageClassStandard :: string where
  "StorageClassStandard = ''standard''"

definition StorageClassShared :: string where
  "StorageClassShared = ''standard-shared''"

definition StorageClassHostPath :: string where
  "StorageClassHostPath = ''hostpath''"

definition AnnotationHostPath :: string where
  "AnnotationHostPath = ''q8s.io/host-path''"

definition AnnotationSELinuxLabel :: string where
  "AnnotationSELinuxLabel = ''q8s.io/selinux-label''"

definition ManagedByLabel :: string where
  "ManagedByLabel = ''Label=app.kubernetes.io/managed-by=q8s''"

lemmas storage_classes = StorageClassStandard_def StorageClassShared_def StorageClassHostPath_def

definition pvcStorageClass :: "pvc \<Rightarrow> string" where
  "pvcStorageClass p =
     (case pvc_storageClassName p of
        Some c \<Rightarrow> if c \<noteq> [] then c else StorageClassStandard
      | None \<Rightarrow> StorageClassStandard)"

definition PVCVolumeName :: "string \<Rightarrow> string \<Rightarrow> string" where
  "PVCVolumeName ns name = ns @ ''-'' @ name"

text \<open>\<open>Volume\<close>: \<open>None\<close> is the nil byte slice (no file for a hostpath claim).\<close>

definition VolumeFile :: "pvc \<Rightarrow> string option" where
  "VolumeFile p =
     (if pvcStorageClass p = StorageClassHostPath then None
      else Some (''[Volume]'' @ nl
        @ ''VolumeName='' @ PVCVolumeName (o_namespace p) (o_name p) @ nl
        @ ManagedByLabel @ nl))"

definition NetworkFile :: "string \<Rightarrow> string" where
  "NetworkFile name =
     ''[Network]'' @ nl @ ''NetworkName=q8s-'' @ name @ nl @ ManagedByLabel @ nl"

definition pvcSELinuxRelabel :: "pvc \<Rightarrow> unit_error + string" where
  "pvcSELinuxRelabel p =
     (case lget (om_annotations (o_meta p)) AnnotationSELinuxLabel of
        None \<Rightarrow> Inr ''Z''
      | Some mode \<Rightarrow>
          if mode = ''private'' then Inr ''Z''
          else if mode = ''shared'' then Inr ''z''
          else Inl (OtherError ''invalid selinux-label annotation''))"

definition volumeMountReadOnly :: "volume_mount \<Rightarrow> volume \<Rightarrow> bool" where
  "volumeMountReadOnly vm vol =
     (if vm_readOnly vm then True
      else (case v_pvc vol of None \<Rightarrow> False | Some (_, ro) \<Rightarrow> ro))"

definition mountOptions :: "bool \<Rightarrow> string \<Rightarrow> string" where
  "mountOptions readOnly relabel =
     (let opts = (if readOnly then (if relabel = [] then ''ro'' else ''ro,'' @ relabel) else relabel)
      in if opts = [] then [] else '':'' @ opts)"

definition pvcVolumeDirective :: "string \<Rightarrow> pvc \<Rightarrow> string \<Rightarrow> bool \<Rightarrow> unit_error + string" where
  "pvcVolumeDirective ns p mountPath readOnly =
     (let class = pvcStorageClass p;
          named = (\<lambda>relabel. ''Volume='' @ ns @ ''-'' @ o_name p @ ''.volume:'' @ mountPath
                     @ mountOptions readOnly relabel @ nl)
      in if class = StorageClassStandard then Inr (named ''Z'')
         else if class = StorageClassShared then Inr (named ''z'')
         else if class = StorageClassHostPath then
           (case lget (om_annotations (o_meta p)) AnnotationHostPath of
              None \<Rightarrow> Inl (OtherError ''missing host-path annotation'')
            | Some hostPath \<Rightarrow>
                if hostPath = [] then Inl (OtherError ''missing host-path annotation'')
                else rbind (validatePath ''host-path annotation'' hostPath) (\<lambda>_.
                     rbind (pvcSELinuxRelabel p) (\<lambda>relabel.
                     Inr (''Volume='' @ hostPath @ '':'' @ mountPath
                            @ mountOptions readOnly relabel @ nl))))
         else Inr (named []))"

lemma mountOptions_chars: "newline \<notin> set relabel \<Longrightarrow> newline \<notin> set (mountOptions ro relabel)"
  by (simp add: mountOptions_def Let_def)

lemma pvcSELinuxRelabel_Inr: "pvcSELinuxRelabel p = Inr r \<Longrightarrow> r = ''Z'' \<or> r = ''z''"
  by (auto simp: pvcSELinuxRelabel_def split: option.splits if_splits)

text \<open>
  A rendered PVC directive is one line: it ends in its only line break, provided the names and
  the mount path it is given have none (the renderers validate them first).
\<close>

lemma pvcVolumeDirective_one_line:
  assumes "pvcVolumeDirective ns p mp ro = Inr line"
    and "newline \<notin> set ns" "newline \<notin> set (o_name p)" "newline \<notin> set mp"
  shows "\<exists>body. line = body @ nl \<and> newline \<notin> set body"
proof -
  have named: "\<exists>body. ''Volume='' @ ns @ ''-'' @ o_name p @ ''.volume:'' @ mp @ mountOptions ro r @ nl
      = body @ nl \<and> newline \<notin> set body" if "newline \<notin> set r" for r
    using assms(2-4) mountOptions_chars [OF that, of ro]
    by (intro exI [of _ "''Volume='' @ ns @ ''-'' @ o_name p @ ''.volume:'' @ mp @ mountOptions ro r"]) simp
  have host: "\<exists>body. ''Volume='' @ h @ '':'' @ mp @ mountOptions ro r @ nl = body @ nl
      \<and> newline \<notin> set body" if "newline \<notin> set r" "newline \<notin> set h" for h r
    using assms(4) that(2) mountOptions_chars [OF that(1), of ro]
    by (intro exI [of _ "''Volume='' @ h @ '':'' @ mp @ mountOptions ro r"]) simp
  have relabel: "newline \<notin> set r" if "pvcSELinuxRelabel p = Inr r" for r
    using pvcSELinuxRelabel_Inr [OF that] by auto
  from assms(1) show ?thesis
    unfolding pvcVolumeDirective_def Let_def
    by (auto simp del: append.simps append_assoc simp: rbind_laws safe_bytes relabel
        split: if_splits option.splits intro!: named host)
qed

end
