(* ===== verification/StoreCore.thy ===== *)
theory StoreCore
  imports QuadletVolume
begin

text \<open>
  internal/store/store.go, the state: the twelve resource maps, the resource version counter,
  the in-memory event feed, the change notification and the scheduled saves.

  Every operation of the store runs its map access under one mutex and is one function here; a
  \<open>go s.save()\<close> is counted in \<open>s_pending\<close> (the goroutine runs later, see theory StorePersist),
  and \<open>close(old)\<close> of the notification channel in \<open>s_notified\<close>.  The clock is an argument.
  The model passes values: the code stores the pointer it was given and returns deep copies, so
  a caller that keeps mutating an object after storing it is outside the model.
\<close>

section \<open>State\<close>

text \<open>An Event; \<open>CreationTimestamp\<close>, \<open>FirstTimestamp\<close> and \<open>LastTimestamp\<close> are one time.\<close>

record event =
  ev_name :: string
  ev_namespace :: string
  ev_uid :: string
  ev_resourceVersion :: string
  ev_time :: time
  ev_objAPIVersion :: string
  ev_objKind :: string
  ev_objName :: string
  ev_objUID :: string
  ev_reason :: string
  ev_message :: string
  ev_type :: string

record store =
  s_dataFile :: string
  s_pods :: "(nsname, pod) gomap"
  s_services :: "(nsname, service) gomap"
  s_pvcs :: "(nsname, pvc) gomap"
  s_configmaps :: "(nsname, configmap) gomap"
  s_secrets :: "(nsname, secret) gomap"
  s_namespaces :: "(nsname, namespace) gomap"
  s_jobs :: "(nsname, job) gomap"
  s_cronjobs :: "(nsname, cronjob) gomap"
  s_deployments :: "(nsname, deployment) gomap"
  s_ingresses :: "(nsname, ingress) gomap"
  s_middlewares :: "(nsname, middleware) gomap"
  s_ingressRouteTCPs :: "(nsname, ingress_route_tcp) gomap"
  s_resourceVer :: int
  s_events :: "event list"
  s_eventSeq :: int
  s_notified :: nat
  s_pending :: nat

datatype store_error = AlreadyExists string nsname | NotFound string nsname

definition maxEvents :: nat where
  "maxEvents = 500"

section \<open>Events, versions, saves\<close>

definition eventAPIVersion :: "string \<Rightarrow> string" where
  "eventAPIVersion k =
     (if k = ''Deployment'' then ''apps/v1''
      else if k = ''Job'' \<or> k = ''CronJob'' then ''batch/v1''
      else ''v1'')"

text \<open>The \<open>%x\<close> verb.\<close>

fun hex_nat :: "nat \<Rightarrow> string" where
  "hex_nat n =
     (if n < 16 then [''0123456789abcdef'' ! n]
      else hex_nat (n div 16) @ [''0123456789abcdef'' ! (n mod 16)])"

declare hex_nat.simps [simp del]

definition hex_int :: "int \<Rightarrow> string" where
  "hex_int i = (if i < 0 then CHR ''-'' # hex_nat (nat (- i)) else hex_nat (nat i))"

definition notifyChanged :: "store \<Rightarrow> store" where
  "notifyChanged s = s\<lparr>s_notified := Suc (s_notified s)\<rparr>"

definition go_save :: "store \<Rightarrow> store" where
  "go_save s = s\<lparr>s_pending := Suc (s_pending s)\<rparr>"

definition new_event ::
  "time \<Rightarrow> int \<Rightarrow> string \<Rightarrow> string \<Rightarrow> string \<Rightarrow> string \<Rightarrow> string \<Rightarrow> string \<Rightarrow> string \<Rightarrow> event" where
  "new_event now sq k ns name uid eventType reason message =
     \<lparr>ev_name = name @ ''.'' @ hex_int sq, ev_namespace = ns,
      ev_uid = ''q8s-event-'' @ Itoa sq, ev_resourceVersion = Itoa sq, ev_time = now,
      ev_objAPIVersion = eventAPIVersion k, ev_objKind = k, ev_objName = name, ev_objUID = uid,
      ev_reason = reason, ev_message = message, ev_type = eventType\<rparr>"

definition cap_events :: "event list \<Rightarrow> event list" where
  "cap_events evs = (if length evs > maxEvents then drop (length evs - maxEvents) evs else evs)"

definition recordEvent ::
  "time \<Rightarrow> string \<Rightarrow> string \<Rightarrow> string \<Rightarrow> string \<Rightarrow> string \<Rightarrow> string \<Rightarrow> string \<Rightarrow> store \<Rightarrow> store" where
  "recordEvent now k ns name uid eventType reason message s =
     (let sq = s_eventSeq s + 1;
          ev = new_event now sq k ns name uid eventType reason message
      in notifyChanged (s\<lparr>s_eventSeq := sq, s_events := cap_events (s_events s @ [ev])\<rparr>))"

definition AllEvents :: "store \<Rightarrow> event list" where
  "AllEvents s = s_events s"

definition EventsIn :: "string \<Rightarrow> store \<Rightarrow> event list" where
  "EventsIn ns s = filter (\<lambda>e. ev_namespace e = ns) (s_events s)"

definition incRV :: "store \<Rightarrow> string \<times> store" where
  "incRV s = (let v = s_resourceVer s + 1 in (Itoa v, s\<lparr>s_resourceVer := v\<rparr>))"

definition newEmpty :: store where
  "newEmpty =
     \<lparr>s_dataFile = [], s_pods = [], s_services = [], s_pvcs = [], s_configmaps = [],
      s_secrets = [], s_namespaces = [], s_jobs = [], s_cronjobs = [], s_deployments = [],
      s_ingresses = [], s_middlewares = [], s_ingressRouteTCPs = [], s_resourceVer = 0,
      s_events = [], s_eventSeq = 0, s_notified = 0, s_pending = 0\<rparr>"

definition empty_meta :: objmeta where
  "empty_meta =
     \<lparr>om_name = [], om_namespace = [], om_uid = [], om_resourceVersion = [], om_generation = 0,
      om_creationTimestamp = None, om_labels = None, om_annotations = None,
      om_ownerReferences = [], om_rest = []\<rparr>"

definition bare_namespace :: "string \<Rightarrow> string \<Rightarrow> string \<Rightarrow> namespace" where
  "bare_namespace name uid phase =
     \<lparr>o_apiVersion = ''v1'', o_kind = ''Namespace'',
      o_meta = empty_meta\<lparr>om_name := name, om_uid := uid\<rparr>, ns_phase = phase, ns_rest = []\<rparr>"

definition ensureDefaultNamespace :: "store \<Rightarrow> store" where
  "ensureDefaultNamespace s =
     (let key = ([], ''default'') in
      case mget (s_namespaces s) key of
        Some _ \<Rightarrow> s
      | None \<Rightarrow> s\<lparr>s_namespaces :=
          mput key (bare_namespace ''default'' ''q8s-default-ns'' []) (s_namespaces s)\<rparr>)"

definition NewStore :: store where
  "NewStore = ensureDefaultNamespace newEmpty"

section \<open>The abstract contents\<close>

text \<open>
  The store promises one thing: a finite map from (kind, namespace, name) to objects.
  \<open>contents\<close> is that map; the refinement lemmas of the operations are stated over it.
\<close>

datatype kind = KNamespace | KPod | KService | KPVC | KConfigMap | KSecret | KJob | KCronJob
  | KDeployment | KIngress | KMiddleware | KIngressRouteTCP

datatype uobj = UNamespace namespace | UPod pod | UService service | UPVC pvc
  | UConfigMap configmap | USecret secret | UJob job | UCronJob cronjob
  | UDeployment deployment | UIngress ingress | UMiddleware middleware
  | UIngressRouteTCP ingress_route_tcp

fun u_meta :: "uobj \<Rightarrow> objmeta" where
  "u_meta (UNamespace x) = o_meta x"
| "u_meta (UPod x) = o_meta x"
| "u_meta (UService x) = o_meta x"
| "u_meta (UPVC x) = o_meta x"
| "u_meta (UConfigMap x) = o_meta x"
| "u_meta (USecret x) = o_meta x"
| "u_meta (UJob x) = o_meta x"
| "u_meta (UCronJob x) = o_meta x"
| "u_meta (UDeployment x) = o_meta x"
| "u_meta (UIngress x) = o_meta x"
| "u_meta (UMiddleware x) = o_meta x"
| "u_meta (UIngressRouteTCP x) = o_meta x"

fun contents :: "store \<Rightarrow> kind \<times> nsname \<Rightarrow> uobj option" where
  "contents s (KNamespace, k) = map_option UNamespace (mget (s_namespaces s) k)"
| "contents s (KPod, k) = map_option UPod (mget (s_pods s) k)"
| "contents s (KService, k) = map_option UService (mget (s_services s) k)"
| "contents s (KPVC, k) = map_option UPVC (mget (s_pvcs s) k)"
| "contents s (KConfigMap, k) = map_option UConfigMap (mget (s_configmaps s) k)"
| "contents s (KSecret, k) = map_option USecret (mget (s_secrets s) k)"
| "contents s (KJob, k) = map_option UJob (mget (s_jobs s) k)"
| "contents s (KCronJob, k) = map_option UCronJob (mget (s_cronjobs s) k)"
| "contents s (KDeployment, k) = map_option UDeployment (mget (s_deployments s) k)"
| "contents s (KIngress, k) = map_option UIngress (mget (s_ingresses s) k)"
| "contents s (KMiddleware, k) = map_option UMiddleware (mget (s_middlewares s) k)"
| "contents s (KIngressRouteTCP, k) = map_option UIngressRouteTCP (mget (s_ingressRouteTCPs s) k)"

text \<open>Every map of the store is a Go map.\<close>

definition maps_wf :: "store \<Rightarrow> bool" where
  "maps_wf s \<longleftrightarrow> mwf (s_pods s) \<and> mwf (s_services s) \<and> mwf (s_pvcs s) \<and> mwf (s_configmaps s)
     \<and> mwf (s_secrets s) \<and> mwf (s_namespaces s) \<and> mwf (s_jobs s) \<and> mwf (s_cronjobs s)
     \<and> mwf (s_deployments s) \<and> mwf (s_ingresses s) \<and> mwf (s_middlewares s)
     \<and> mwf (s_ingressRouteTCPs s)"

text \<open>
  The event feed: at most \<open>maxEvents\<close> events, which are the last ones recorded, with
  consecutive sequence numbers.
\<close>

definition events_ok :: "store \<Rightarrow> bool" where
  "events_ok s \<longleftrightarrow> 0 \<le> s_eventSeq s \<and> length (s_events s) = min (nat (s_eventSeq s)) maxEvents \<and>
     map ev_resourceVersion (s_events s) =
       map Itoa [s_eventSeq s - int (length (s_events s)) + 1 .. s_eventSeq s]"

lemma kind_ext:
  assumes "\<And>k. f (KNamespace, k) = g (KNamespace, k)" "\<And>k. f (KPod, k) = g (KPod, k)"
    "\<And>k. f (KService, k) = g (KService, k)" "\<And>k. f (KPVC, k) = g (KPVC, k)"
    "\<And>k. f (KConfigMap, k) = g (KConfigMap, k)" "\<And>k. f (KSecret, k) = g (KSecret, k)"
    "\<And>k. f (KJob, k) = g (KJob, k)" "\<And>k. f (KCronJob, k) = g (KCronJob, k)"
    "\<And>k. f (KDeployment, k) = g (KDeployment, k)" "\<And>k. f (KIngress, k) = g (KIngress, k)"
    "\<And>k. f (KMiddleware, k) = g (KMiddleware, k)"
    "\<And>k. f (KIngressRouteTCP, k) = g (KIngressRouteTCP, k)"
  shows "f = g"
proof
  fix x
  show "f x = g x"
  proof (cases x)
    case (Pair kd k)
    then show ?thesis using assms by (cases kd) simp_all
  qed
qed

named_theorems store_frame \<open>what the bookkeeping steps leave unchanged\<close>

lemma contents_bookkeeping [simp, store_frame]:
  "contents (s\<lparr>s_resourceVer := v\<rparr>) = contents s"
  "contents (s\<lparr>s_pending := n\<rparr>) = contents s"
  "contents (s\<lparr>s_notified := n\<rparr>) = contents s"
  "contents (s\<lparr>s_events := es\<rparr>) = contents s"
  "contents (s\<lparr>s_eventSeq := i\<rparr>) = contents s"
  by (rule kind_ext; simp)+

lemma contents_steps [simp, store_frame]:
  "contents (go_save s) = contents s"
  "contents (notifyChanged s) = contents s"
  "contents (recordEvent now k ns name uid et r m s) = contents s"
  by (simp_all add: go_save_def notifyChanged_def recordEvent_def Let_def)

lemma resourceVer_steps [simp, store_frame]:
  "s_resourceVer (go_save s) = s_resourceVer s"
  "s_resourceVer (notifyChanged s) = s_resourceVer s"
  "s_resourceVer (recordEvent now k ns name uid et r m s) = s_resourceVer s"
  by (simp_all add: go_save_def notifyChanged_def recordEvent_def Let_def)

lemma pending_steps [simp, store_frame]:
  "s_pending (go_save s) = Suc (s_pending s)"
  "s_pending (notifyChanged s) = s_pending s"
  "s_pending (recordEvent now k ns name uid et r m s) = s_pending s"
  by (simp_all add: go_save_def notifyChanged_def recordEvent_def Let_def)

lemma maps_wf_bookkeeping [simp, store_frame]:
  "maps_wf (s\<lparr>s_resourceVer := v\<rparr>) = maps_wf s"
  "maps_wf (go_save s) = maps_wf s"
  "maps_wf (notifyChanged s) = maps_wf s"
  "maps_wf (recordEvent now k ns name uid et r m s) = maps_wf s"
  by (simp_all add: go_save_def notifyChanged_def recordEvent_def Let_def maps_wf_def)

lemma events_ok_bookkeeping [simp, store_frame]:
  "events_ok (s\<lparr>s_resourceVer := v\<rparr>) = events_ok s"
  "events_ok (go_save s) = events_ok s"
  "events_ok (notifyChanged s) = events_ok s"
  by (simp_all add: go_save_def notifyChanged_def events_ok_def)

text \<open>Recording an event keeps the feed well formed: the oldest one goes when it is full.\<close>

lemma drop_upto: "drop n [i..j] = [i + int n..j]"
proof (induction n arbitrary: i)
  case (Suc n)
  show ?case
  proof (cases "i \<le> j")
    case True
    then have "drop (Suc n) [i..j] = drop n [i + 1..j]" by (simp add: upto_rec1)
    with Suc show ?thesis by (simp add: algebra_simps)
  qed simp
qed simp

lemma events_ok_recordEvent [simp]:
  assumes "events_ok s"
  shows "events_ok (recordEvent now k ns name uid et r m s)"
proof -
  let ?n = "length (s_events s)" and ?q = "s_eventSeq s"
  let ?ev = "new_event now (?q + 1) k ns name uid et r m"
  let ?all = "s_events s @ [?ev]"
  from assms have q: "0 \<le> ?q" and n: "?n = min (nat ?q) maxEvents"
    and rvs: "map ev_resourceVersion (s_events s) = map Itoa [?q - int ?n + 1 .. ?q]"
    by (simp_all add: events_ok_def)
  from n q have le: "int ?n \<le> ?q" by simp
  then have up: "[?q - int ?n + 1 .. ?q + 1] = [?q - int ?n + 1 .. ?q] @ [?q + 1]"
    by (simp add: upto_rec2)
  have all: "map ev_resourceVersion ?all = map Itoa [?q - int ?n + 1 .. ?q + 1]"
    by (simp add: rvs up new_event_def)
  show ?thesis
  proof (cases "length ?all > maxEvents")
    case True
    with n have full: "?n = maxEvents" by simp
    from True have cap: "cap_events ?all = drop 1 ?all" by (simp add: cap_events_def full)
    have "map ev_resourceVersion (drop 1 ?all) = drop 1 (map Itoa [?q - int ?n + 1 .. ?q + 1])"
      by (simp only: all [symmetric] drop_map)
    also have "\<dots> = map Itoa [?q + 1 - int ?n + 1 .. ?q + 1]"
      by (simp add: drop_map drop_upto algebra_simps)
    finally have "map ev_resourceVersion (drop 1 ?all) = map Itoa [?q + 1 - int ?n + 1 .. ?q + 1]" .
    moreover have "length (drop 1 ?all) = ?n" by simp
    moreover from n full q have "maxEvents \<le> nat (?q + 1)" by simp
    ultimately show ?thesis using q full
      by (simp add: recordEvent_def Let_def events_ok_def cap notifyChanged_def del: drop_append)
  next
    case False
    with n have "?n < maxEvents" by simp
    with n have "?n = nat ?q" by simp
    with False q all show ?thesis
      by (simp add: recordEvent_def Let_def events_ok_def cap_events_def notifyChanged_def)
  qed
qed

lemma contents_new [simp]:
  "contents NewStore =
     [(KNamespace, [], ''default'') \<mapsto> UNamespace (bare_namespace ''default'' ''q8s-default-ns'' [])]"
  by (rule kind_ext) (simp_all add: NewStore_def ensureDefaultNamespace_def newEmpty_def)

lemma new_store_wf [simp]: "maps_wf NewStore" "events_ok NewStore" "s_resourceVer NewStore = 0"
  by (simp_all add: NewStore_def ensureDefaultNamespace_def newEmpty_def maps_wf_def events_ok_def
      mwf_def)

end
