(* ===== verification/StoreContract.thy ===== *)
theory StoreContract
  imports StoreCore
begin

text \<open>
  The contract every resource kind of the store offers its clients (the API handlers, the
  reconcile loop): create, get, update and delete over one key space of the abstract contents.
  The locale \<open>object_kind\<close> states it once; the theories StoreResources and
  StoreWorkloads interpret it for the twelve kinds.  The store invariant and its preservation are proved here from the contract alone.
\<close>

section \<open>Outcomes of a write\<close>

fun u_key :: "uobj \<Rightarrow> nsname" where
  "u_key (UNamespace x) = ([], o_name x)"
| "u_key (UPod x) = okey x"
| "u_key (UService x) = okey x"
| "u_key (UPVC x) = okey x"
| "u_key (UConfigMap x) = okey x"
| "u_key (USecret x) = okey x"
| "u_key (UJob x) = okey x"
| "u_key (UCronJob x) = okey x"
| "u_key (UDeployment x) = okey x"
| "u_key (UIngress x) = okey x"
| "u_key (UMiddleware x) = okey x"
| "u_key (UIngressRouteTCP x) = okey x"

abbreviation u_rv :: "uobj \<Rightarrow> string" where
  "u_rv u \<equiv> om_resourceVersion (u_meta u)"

abbreviation u_uid :: "uobj \<Rightarrow> string" where
  "u_uid u \<equiv> om_uid (u_meta u)"

text \<open>
  \<open>stored kd k u s s'\<close>: one object was written under its own key with a fresh resource
  version, one save was scheduled, and nothing else of the contents changed.
\<close>

definition stored :: "kind \<Rightarrow> nsname \<Rightarrow> uobj \<Rightarrow> store \<Rightarrow> store \<Rightarrow> bool" where
  "stored kd k u s s' \<longleftrightarrow>
     contents s' = (contents s)((kd, k) \<mapsto> u) \<and> u_key u = k \<and>
     s_resourceVer s' = s_resourceVer s + 1 \<and> u_rv u = Itoa (s_resourceVer s + 1) \<and>
     s_pending s' = Suc (s_pending s) \<and>
     (maps_wf s \<longrightarrow> maps_wf s') \<and> (events_ok s \<longrightarrow> events_ok s')"

definition removed :: "kind \<Rightarrow> nsname \<Rightarrow> store \<Rightarrow> store \<Rightarrow> bool" where
  "removed kd k s s' \<longleftrightarrow>
     contents s' = (contents s)((kd, k) := None) \<and> s_resourceVer s' = s_resourceVer s \<and>
     s_pending s' = Suc (s_pending s) \<and>
     (maps_wf s \<longrightarrow> maps_wf s') \<and> (events_ok s \<longrightarrow> events_ok s')"

section \<open>The store invariant\<close>

text \<open>
  Every object sits under its own namespace and name; every resource version was handed out by
  this store's counter (the built-in default namespace has the empty one); no two objects have
  the same resource version; the maps are Go maps and the event feed is well formed.
\<close>

definition rv_issued :: "store \<Rightarrow> string \<Rightarrow> bool" where
  "rv_issued s rv \<longleftrightarrow> rv = [] \<or> (\<exists>n. 1 \<le> n \<and> n \<le> s_resourceVer s \<and> rv = Itoa n)"

definition store_inv :: "store \<Rightarrow> bool" where
  "store_inv s \<longleftrightarrow> maps_wf s \<and> events_ok s \<and> 0 \<le> s_resourceVer s \<and>
     (\<forall>kd k u. contents s (kd, k) = Some u \<longrightarrow> u_key u = k \<and> rv_issued s (u_rv u)) \<and>
     (\<forall>a b u v. contents s a = Some u \<longrightarrow> contents s b = Some v \<longrightarrow> u_rv u = u_rv v \<longrightarrow> a = b)"

lemma Itoa_not_Nil [simp]: "Itoa i \<noteq> []"
  by (simp add: Itoa_def)

lemma rv_issued_mono: "rv_issued s rv \<Longrightarrow> s_resourceVer s \<le> s_resourceVer s' \<Longrightarrow> rv_issued s' rv"
  unfolding rv_issued_def using order.trans by blast

lemma store_invD:
  assumes "store_inv s"
  shows "contents s (kd, k) = Some u \<Longrightarrow> u_key u = k"
    and "contents s (kd, k) = Some u \<Longrightarrow> rv_issued s (u_rv u)"
    and "contents s a = Some u \<Longrightarrow> contents s b = Some v \<Longrightarrow> u_rv u = u_rv v \<Longrightarrow> a = b"
    and "0 \<le> s_resourceVer s" and "maps_wf s" and "events_ok s"
  using assms unfolding store_inv_def by blast+

lemma rv_issued_fresh: "rv_issued s rv \<Longrightarrow> rv \<noteq> Itoa (s_resourceVer s + 1)"
  by (auto simp: rv_issued_def Itoa_inject)

lemma store_inv_stored:
  assumes inv: "store_inv s" and st: "stored kd k u s s'"
  shows "store_inv s'"
proof -
  from st have c: "contents s' = (contents s)((kd, k) \<mapsto> u)" and key: "u_key u = k"
    and ver: "s_resourceVer s' = s_resourceVer s + 1" and rv: "u_rv u = Itoa (s_resourceVer s + 1)"
    by (simp_all add: stored_def)
  note old = store_invD(1,2) [OF inv] and uniq = store_invD(3) [OF inv]
    and pos = store_invD(4) [OF inv]
  have issued: "rv_issued s' (u_rv u)"
    unfolding rv_issued_def rv ver
    by (intro disjI2 exI [of _ "s_resourceVer s + 1"]) (use pos in simp)
  have kept: "rv_issued s' rv" if "rv_issued s rv" for rv
    using rv_issued_mono [OF that] ver by simp
  have fresh: "u_rv v \<noteq> u_rv u" if "contents s a = Some v" for a v
    using old(2) [of "fst a" "snd a" v] that rv_issued_fresh by (auto simp: rv)
  have was: "(a = (kd, k) \<and> v = u) \<or> (a \<noteq> (kd, k) \<and> contents s a = Some v)"
    if "contents s' a = Some v" for a v
    using that unfolding c by (cases "a = (kd, k)") simp_all
  have all_keys: "u_key v = k' \<and> rv_issued s' (u_rv v)" if "contents s' (kd', k') = Some v" for kd' k' v
    using was [OF that] old [of kd' k' v] key issued kept by blast
  have all_uniq: "a = b"
    if "contents s' a = Some v" "contents s' b = Some w" "u_rv v = u_rv w" for a b v w
    using was [OF that(1)] was [OF that(2)] that(3) uniq [of a v b w] fresh [of a v] fresh [of b w]
    by metis
  show ?thesis
    unfolding store_inv_def
  proof (intro conjI allI impI)
    show "maps_wf s'" "events_ok s'" "0 \<le> s_resourceVer s'"
      using store_invD(5,6) [OF inv] st pos ver by (auto simp: stored_def)
  qed (use all_keys all_uniq in blast)+
qed

lemma store_inv_removed:
  assumes inv: "store_inv s" and rm: "removed kd k s s'"
  shows "store_inv s'"
proof -
  from rm have c: "contents s' = (contents s)((kd, k) := None)"
    and ver: "s_resourceVer s' = s_resourceVer s"
    by (simp_all add: removed_def)
  have kept: "rv_issued s' rv" if "rv_issued s rv" for rv
    using rv_issued_mono [OF that] ver by simp
  show ?thesis
    unfolding store_inv_def
  proof (intro conjI allI impI)
    show "maps_wf s'" "events_ok s'" "0 \<le> s_resourceVer s'"
      using store_invD(4-6) [OF inv] rm by (auto simp: removed_def)
    have old: "contents s a = Some u" if "contents s' a = Some u" for a u
      using that unfolding c by (cases "a = (kd, k)") simp_all
    show "u_key u = k'" "rv_issued s' (u_rv u)" if "contents s' (kd', k') = Some u" for kd' k' u
      using store_invD(1,2) [OF inv old [OF that]] kept by simp_all
    show "a = b" if "contents s' a = Some u" "contents s' b = Some v" "u_rv u = u_rv v" for a b u v
      using store_invD(3) [OF inv old old] that by blast
  qed
qed

lemma store_inv_new: "store_inv NewStore"
  by (auto simp: store_inv_def rv_issued_def bare_namespace_def empty_meta_def split: if_splits)

section \<open>The contract of one kind\<close>

locale object_kind =
  fixes kd :: kind
    and inj :: "'o \<Rightarrow> uobj"
    and what :: string
    and kof :: "'k \<Rightarrow> nsname"
    and key :: "'o \<Rightarrow> 'k"
    and create :: "time \<Rightarrow> 'o \<Rightarrow> store \<Rightarrow> (store_error + 'o) \<times> store"
    and get :: "'k \<Rightarrow> store \<Rightarrow> store_error + 'o"
    and update :: "time \<Rightarrow> 'o \<Rightarrow> store \<Rightarrow> (store_error + 'o) \<times> store"
    and delete :: "time \<Rightarrow> 'k \<Rightarrow> store \<Rightarrow> store_error option \<times> store"
  assumes kof_inject: "kof a = kof b \<Longrightarrow> a = b"
    and key_u_key: "u_key (inj x) = kof (key x)"
    and create_free: "contents s (kd, kof (key x)) = None \<Longrightarrow>
          \<exists>y s'. create t x s = (Inr y, s') \<and> stored kd (kof (key x)) (inj y) s s'"
    and create_taken: "contents s (kd, kof (key x)) = Some u \<Longrightarrow>
          create t x s = (Inl (AlreadyExists what (kof (key x))), s)"
    and get_present: "contents s (kd, kof k) = Some u \<Longrightarrow> \<exists>x. get k s = Inr x \<and> u = inj x"
    and get_absent: "contents s (kd, kof k) = None \<Longrightarrow> get k s = Inl (NotFound what (kof k))"
    and update_present: "contents s (kd, kof (key x)) = Some u \<Longrightarrow>
          \<exists>y s'. update t x s = (Inr y, s') \<and> stored kd (kof (key x)) (inj y) s s' \<and>
                 u_uid (inj y) = u_uid u"
    and update_absent: "contents s (kd, kof (key x)) = None \<Longrightarrow>
          update t x s = (Inl (NotFound what (kof (key x))), s)"
    and delete_present: "contents s (kd, kof k) = Some u \<Longrightarrow>
          \<exists>s'. delete t k s = (None, s') \<and> removed kd (kof k) s s'"
    and delete_absent: "contents s (kd, kof k) = None \<Longrightarrow>
          delete t k s = (Some (NotFound what (kof k)), s)"
    and inj_inject: "inj x = inj y \<Longrightarrow> x = y"
begin

lemma create_Inr:
  assumes "create t x s = (Inr y, s')"
  shows "contents s (kd, kof (key x)) = None \<and> stored kd (kof (key x)) (inj y) s s'"
  using assms create_taken [of s x] create_free [of s x t]
  by (cases "contents s (kd, kof (key x))") force+

lemma create_Inl:
  assumes "create t x s = (Inl e, s')"
  shows "e = AlreadyExists what (kof (key x)) \<and> s' = s \<and> contents s (kd, kof (key x)) \<noteq> None"
  using assms create_taken [of s x] create_free [of s x t]
  by (cases "contents s (kd, kof (key x))") force+

lemma update_Inr:
  assumes "update t x s = (Inr y, s')"
  obtains u where "contents s (kd, kof (key x)) = Some u"
    "stored kd (kof (key x)) (inj y) s s'" "u_uid (inj y) = u_uid u"
  using assms update_absent [of s x] update_present [of s x _ t]
  by (cases "contents s (kd, kof (key x))") force+

lemma update_Inl:
  assumes "update t x s = (Inl e, s')"
  shows "e = NotFound what (kof (key x)) \<and> s' = s"
  using assms update_absent [of s x] update_present [of s x _ t]
  by (cases "contents s (kd, kof (key x))") force+

lemma delete_None:
  assumes "delete t k s = (None, s')"
  shows "contents s (kd, kof k) \<noteq> None \<and> removed kd (kof k) s s'"
  using assms delete_absent [of s k] delete_present [of s k _ t]
  by (cases "contents s (kd, kof k)") force+

lemma delete_Some:
  assumes "delete t k s = (Some e, s')"
  shows "e = NotFound what (kof k) \<and> s' = s"
  using assms delete_absent [of s k] delete_present [of s k _ t]
  by (cases "contents s (kd, kof k)") force+

lemma get_Inr_iff: "get k s = Inr x \<longleftrightarrow> contents s (kd, kof k) = Some (inj x)"
proof (cases "contents s (kd, kof k)")
  case None
  then show ?thesis by (simp add: get_absent)
next
  case (Some u)
  with get_present [OF Some] show ?thesis by (auto dest: inj_inject)
qed

text \<open>What a lookup returns after a create, an update and a delete.\<close>

lemma get_after_create:
  "create t x s = (Inr y, s') \<Longrightarrow> get (key x) s' = Inr y"
  by (drule create_Inr) (simp add: get_Inr_iff stored_def)

lemma get_after_create_other:
  "create t x s = (Inr y, s') \<Longrightarrow> k \<noteq> key x \<Longrightarrow> get k s' = Inr z \<longleftrightarrow> get k s = Inr z"
  by (drule create_Inr) (auto simp: get_Inr_iff stored_def dest: kof_inject)

lemma get_after_update:
  "update t x s = (Inr y, s') \<Longrightarrow> get (key x) s' = Inr y"
  by (erule update_Inr) (simp add: get_Inr_iff stored_def)

lemma get_after_delete:
  "delete t k s = (None, s') \<Longrightarrow> get k s' = Inl (NotFound what (kof k))"
  by (drule delete_None) (simp add: get_absent removed_def)

lemma create_twice:
  assumes "create t x s = (Inr y, s')" and "key z = key x"
  shows "create t' z s' = (Inl (AlreadyExists what (kof (key x))), s')"
  using create_Inr [OF assms(1)] create_taken [of s' z] assms(2) by (simp add: stored_def)

lemma create_delete_restores:
  assumes "create t x s = (Inr y, s')"
  shows "\<exists>s''. delete t' (key x) s' = (None, s'') \<and> contents s'' = contents s"
proof -
  from create_Inr [OF assms] have free: "contents s (kd, kof (key x)) = None"
    and c: "contents s' = (contents s)((kd, kof (key x)) \<mapsto> inj y)" by (auto simp: stored_def)
  from c delete_present [of s' "key x" "inj y" t'] obtain s''
    where del: "delete t' (key x) s' = (None, s'')" and rm: "removed kd (kof (key x)) s' s''" by auto
  from rm c free have "contents s'' = contents s" by (auto simp: removed_def)
  with del show ?thesis by blast
qed

lemma update_keeps_uid:
  assumes "update t x s = (Inr y, s')" and "get (key x) s = Inr old"
  shows "u_uid (inj y) = u_uid (inj old)"
  using assms by (auto elim!: update_Inr simp: get_Inr_iff)

text \<open>The versions an update and a create hand out are new.\<close>

lemma create_rv: "create t x s = (Inr y, s') \<Longrightarrow> u_rv (inj y) = Itoa (s_resourceVer s')"
  by (drule create_Inr) (simp add: stored_def)

lemma update_rv: "update t x s = (Inr y, s') \<Longrightarrow> u_rv (inj y) = Itoa (s_resourceVer s')"
  by (erule update_Inr) (simp add: stored_def)

text \<open>Every outcome keeps the invariant and never lowers the resource version.\<close>

lemma create_inv: "store_inv s \<Longrightarrow> store_inv (snd (create t x s))"
  using create_free [of s x t] create_taken [of s x]
  by (cases "contents s (kd, kof (key x))") (auto intro: store_inv_stored)

lemma update_inv: "store_inv s \<Longrightarrow> store_inv (snd (update t x s))"
  using update_present [of s x _ t] update_absent [of s x]
  by (cases "contents s (kd, kof (key x))") (fastforce intro: store_inv_stored)+

lemma delete_inv: "store_inv s \<Longrightarrow> store_inv (snd (delete t k s))"
  using delete_present [of s k _ t] delete_absent [of s k]
  by (cases "contents s (kd, kof k)") (fastforce intro: store_inv_removed)+

lemma create_ver: "s_resourceVer s \<le> s_resourceVer (snd (create t x s))"
  using create_free [of s x t] create_taken [of s x]
  by (cases "contents s (kd, kof (key x))") (auto simp: stored_def)

lemma update_ver: "s_resourceVer s \<le> s_resourceVer (snd (update t x s))"
  using update_present [of s x _ t] update_absent [of s x]
  by (cases "contents s (kd, kof (key x))") (fastforce simp: stored_def)+

lemma delete_ver: "s_resourceVer s \<le> s_resourceVer (snd (delete t k s))"
  using delete_present [of s k _ t] delete_absent [of s k]
  by (cases "contents s (kd, kof k)") (fastforce simp: removed_def)+

end

end
