(* ===== verification/StoreResources.thy ===== *)
theory StoreResources
  imports StoreContract
begin

text \<open>
  internal/store/store.go: create, get, update, delete and list of namespaces, pods, services,
  persistent volume claims, config maps and secrets, and for each the proof that it keeps the
  contract \<open>object_kind\<close>.  \<open>put_\<close> and \<open>del_\<close> are the map assignments \<open>s.m[key] = x\<close> and
  \<open>delete(s.m, key)\<close>; the operations themselves follow the Go functions line by line.
  \<open>*In ns\<close> is the namespace-scoped list (\<open>Pods(ns)\<close> in the code).
\<close>

section \<open>The steps the operations share\<close>

text \<open>The metadata every create and update writes.\<close>

definition stamp :: "string \<Rightarrow> string \<Rightarrow> 'a kobj_scheme \<Rightarrow> 'a kobj_scheme" where
  "stamp rv uid x = omod (\<lambda>m. m\<lparr>om_resourceVersion := rv, om_uid := uid\<rparr>) x"

text \<open>\<open>if x.Labels == nil { x.Labels = make(map[string]string) }\<close>\<close>

definition default_labels :: "'a kobj_scheme \<Rightarrow> 'a kobj_scheme" where
  "default_labels x =
     omod (\<lambda>m. if om_labels m = None then m\<lparr>om_labels := Some []\<rparr> else m) x"

text \<open>\<open>if x.CreationTimestamp.IsZero() { x.CreationTimestamp = metav1.Now() }\<close>\<close>

definition default_ctime :: "time \<Rightarrow> 'a kobj_scheme \<Rightarrow> 'a kobj_scheme" where
  "default_ctime now x =
     omod (\<lambda>m. if om_creationTimestamp m = None then m\<lparr>om_creationTimestamp := Some now\<rparr> else m) x"

text \<open>\<open>if x.CreationTimestamp.IsZero() { x.CreationTimestamp = existing.CreationTimestamp }\<close>\<close>

definition keep_ctime :: "'b kobj_scheme \<Rightarrow> 'a kobj_scheme \<Rightarrow> 'a kobj_scheme" where
  "keep_ctime old x =
     omod (\<lambda>m. if om_creationTimestamp m = None
               then m\<lparr>om_creationTimestamp := om_creationTimestamp (o_meta old)\<rparr> else m) x"

lemma stamp_meta [simp]:
  "om_name (o_meta (stamp rv uid x)) = o_name x"
  "om_namespace (o_meta (stamp rv uid x)) = o_namespace x"
  "om_uid (o_meta (stamp rv uid x)) = uid"
  "om_resourceVersion (o_meta (stamp rv uid x)) = rv"
  by (simp_all add: stamp_def)

lemma default_labels_meta [simp]:
  "om_name (o_meta (default_labels x)) = o_name x"
  "om_namespace (o_meta (default_labels x)) = o_namespace x"
  "om_uid (o_meta (default_labels x)) = o_uid x"
  "om_resourceVersion (o_meta (default_labels x)) = o_rv x"
  by (simp_all add: default_labels_def)

lemma default_ctime_meta [simp]:
  "om_name (o_meta (default_ctime now x)) = o_name x"
  "om_namespace (o_meta (default_ctime now x)) = o_namespace x"
  "om_uid (o_meta (default_ctime now x)) = o_uid x"
  "om_resourceVersion (o_meta (default_ctime now x)) = o_rv x"
  by (simp_all add: default_ctime_def)

lemma keep_ctime_meta [simp]:
  "om_name (o_meta (keep_ctime old x)) = o_name x"
  "om_namespace (o_meta (keep_ctime old x)) = o_namespace x"
  "om_uid (o_meta (keep_ctime old x)) = o_uid x"
  "om_resourceVersion (o_meta (keep_ctime old x)) = o_rv x"
  by (simp_all add: keep_ctime_def)

lemmas crud_simps = incRV_def Let_def stored_def removed_def okey_def

section \<open>Namespaces\<close>

definition put_namespaces :: "nsname \<Rightarrow> namespace \<Rightarrow> store \<Rightarrow> store" where
  "put_namespaces k x s = s\<lparr>s_namespaces := mput k x (s_namespaces s)\<rparr>"

definition del_namespaces :: "nsname \<Rightarrow> store \<Rightarrow> store" where
  "del_namespaces k s = s\<lparr>s_namespaces := mdel k (s_namespaces s)\<rparr>"

lemma namespaces_put_del [simp, store_frame]:
  "contents (put_namespaces k x s) = (contents s)((KNamespace, k) \<mapsto> UNamespace x)"
  "contents (del_namespaces k s) = (contents s)((KNamespace, k) := None)"
  "s_resourceVer (put_namespaces k x s) = s_resourceVer s" "s_resourceVer (del_namespaces k s) = s_resourceVer s"
  "s_pending (put_namespaces k x s) = s_pending s" "s_pending (del_namespaces k s) = s_pending s"
  "maps_wf s \<Longrightarrow> maps_wf (put_namespaces k x s)" "maps_wf s \<Longrightarrow> maps_wf (del_namespaces k s)"
  "events_ok (put_namespaces k x s) = events_ok s" "events_ok (del_namespaces k s) = events_ok s"
  by ((rule kind_ext)?; simp add: put_namespaces_def del_namespaces_def map_laws maps_wf_def events_ok_def)+

definition CreateNamespace :: "time \<Rightarrow> namespace \<Rightarrow> store \<Rightarrow> (store_error + namespace) \<times> store" where
  "CreateNamespace now x s =
     (let key = ([], o_name x) in
      case mget (s_namespaces s) key of
        Some _ \<Rightarrow> (Inl (AlreadyExists ''namespace'' key), s)
      | None \<Rightarrow>
        (let (rv, s1) = incRV s;
             x1 = stamp rv (''q8s-ns-'' @ o_name x) x;
             x2 = default_ctime now x1
         in (Inr x2,
             go_save (put_namespaces key x2 s1))))"

definition GetNamespace :: "string \<Rightarrow> store \<Rightarrow> store_error + namespace" where
  "GetNamespace name s =
     (let key = ([], name) in
      case mget (s_namespaces s) key of
        None \<Rightarrow> Inl (NotFound ''namespace'' key)
      | Some x \<Rightarrow> Inr x)"

definition UpdateNamespace :: "time \<Rightarrow> namespace \<Rightarrow> store \<Rightarrow> (store_error + namespace) \<times> store" where
  "UpdateNamespace now x s =
     (let key = ([], o_name x) in
      case mget (s_namespaces s) key of
        None \<Rightarrow> (Inl (NotFound ''namespace'' key), s)
      | Some old \<Rightarrow>
        (let (rv, s1) = incRV s;
             x1 = stamp rv (o_uid old) x;
             x2 = keep_ctime old x1
         in (Inr x2, go_save (put_namespaces key x2 s1))))"

definition DeleteNamespace :: "time \<Rightarrow> string \<Rightarrow> store \<Rightarrow> store_error option \<times> store" where
  "DeleteNamespace now name s =
     (let key = ([], name) in
      case mget (s_namespaces s) key of
        None \<Rightarrow> (Some (NotFound ''namespace'' key), s)
      | Some x \<Rightarrow> (None, go_save (del_namespaces key s)))"

interpretation nsk: object_kind KNamespace UNamespace "''namespace''" "\<lambda>n. ([], n)" o_name
  CreateNamespace GetNamespace UpdateNamespace DeleteNamespace
proof
  fix s :: store and x :: namespace and t :: time and u k
  let ?k = "([], o_name x)"
  show "\<exists>y s'. CreateNamespace t x s = (Inr y, s') \<and> stored KNamespace ?k (UNamespace y) s s'"
    if "contents s (KNamespace, ?k) = None"
    using that by (simp add: CreateNamespace_def crud_simps)
  show "CreateNamespace t x s = (Inl (AlreadyExists ''namespace'' ?k), s)" if "contents s (KNamespace, ?k) = Some u"
    using that by (auto simp: CreateNamespace_def crud_simps)
  show "\<exists>y s'. UpdateNamespace t x s = (Inr y, s') \<and> stored KNamespace ?k (UNamespace y) s s' \<and>
      u_uid (UNamespace y) = u_uid u"
    if "contents s (KNamespace, ?k) = Some u"
    using that by (auto simp: UpdateNamespace_def crud_simps)
  show "UpdateNamespace t x s = (Inl (NotFound ''namespace'' ?k), s)" if "contents s (KNamespace, ?k) = None"
    using that by (simp add: UpdateNamespace_def crud_simps)
qed (auto simp: GetNamespace_def DeleteNamespace_def crud_simps)

section \<open>Pods\<close>

definition put_pods :: "nsname \<Rightarrow> pod \<Rightarrow> store \<Rightarrow> store" where
  "put_pods k x s = s\<lparr>s_pods := mput k x (s_pods s)\<rparr>"

definition del_pods :: "nsname \<Rightarrow> store \<Rightarrow> store" where
  "del_pods k s = s\<lparr>s_pods := mdel k (s_pods s)\<rparr>"

lemma pods_put_del [simp, store_frame]:
  "contents (put_pods k x s) = (contents s)((KPod, k) \<mapsto> UPod x)"
  "contents (del_pods k s) = (contents s)((KPod, k) := None)"
  "s_resourceVer (put_pods k x s) = s_resourceVer s" "s_resourceVer (del_pods k s) = s_resourceVer s"
  "s_pending (put_pods k x s) = s_pending s" "s_pending (del_pods k s) = s_pending s"
  "maps_wf s \<Longrightarrow> maps_wf (put_pods k x s)" "maps_wf s \<Longrightarrow> maps_wf (del_pods k s)"
  "events_ok (put_pods k x s) = events_ok s" "events_ok (del_pods k s) = events_ok s"
  by ((rule kind_ext)?; simp add: put_pods_def del_pods_def map_laws maps_wf_def events_ok_def)+

definition AllPods :: "store \<Rightarrow> pod list" where
  "AllPods s = mvals (s_pods s)"

definition PodsIn :: "string \<Rightarrow> store \<Rightarrow> pod list" where
  "PodsIn ns s = map snd (filter (\<lambda>(k, _). fst k = ns) (s_pods s))"

definition CreatePod :: "time \<Rightarrow> pod \<Rightarrow> store \<Rightarrow> (store_error + pod) \<times> store" where
  "CreatePod now x s =
     (let key = okey x in
      case mget (s_pods s) key of
        Some _ \<Rightarrow> (Inl (AlreadyExists ''pod'' key), s)
      | None \<Rightarrow>
        (let (rv, s1) = incRV s;
             x1 = x\<lparr>o_apiVersion := ''v1'', o_kind := ''Pod''\<rparr>;
             x2 = stamp rv (''q8s-pod-'' @ o_namespace x @ ''-'' @ o_name x) x1;
             x3 = default_labels x2;
             x4 = default_ctime now x3
         in (Inr x4,
             recordEvent now ''Pod'' (o_namespace x4) (o_name x4) (o_uid x4)
                ''Normal'' ''Created'' (''Created pod '' @ o_namespace x @ ''/'' @ o_name x) (go_save (put_pods key x4 s1)))))"

definition GetPod :: "string \<Rightarrow> string \<Rightarrow> store \<Rightarrow> store_error + pod" where
  "GetPod ns name s =
     (let key = (ns, name) in
      case mget (s_pods s) key of
        None \<Rightarrow> Inl (NotFound ''pod'' key)
      | Some x \<Rightarrow> Inr x)"

definition UpdatePod :: "time \<Rightarrow> pod \<Rightarrow> store \<Rightarrow> (store_error + pod) \<times> store" where
  "UpdatePod now x s =
     (let key = okey x in
      case mget (s_pods s) key of
        None \<Rightarrow> (Inl (NotFound ''pod'' key), s)
      | Some old \<Rightarrow>
        (let (rv, s1) = incRV s;
             x1 = stamp rv (o_uid old) x
         in (Inr x1, go_save (put_pods key x1 s1))))"

definition DeletePod :: "time \<Rightarrow> string \<Rightarrow> string \<Rightarrow> store \<Rightarrow> store_error option \<times> store" where
  "DeletePod now ns name s =
     (let key = (ns, name) in
      case mget (s_pods s) key of
        None \<Rightarrow> (Some (NotFound ''pod'' key), s)
      | Some x \<Rightarrow> (None, recordEvent now ''Pod'' ns name (o_uid x) ''Normal'' ''Deleted''
            (''Deleted pod '' @ ns @ ''/'' @ name) (go_save (del_pods key s))))"

interpretation podk: object_kind KPod UPod "''pod''" "\<lambda>k. k" okey
  CreatePod "\<lambda>k. GetPod (fst k) (snd k)" UpdatePod "\<lambda>t k. DeletePod t (fst k) (snd k)"
proof
  fix s :: store and x :: pod and t :: time and u k
  let ?k = "okey x"
  show "\<exists>y s'. CreatePod t x s = (Inr y, s') \<and> stored KPod ?k (UPod y) s s'"
    if "contents s (KPod, ?k) = None"
    using that by (simp add: CreatePod_def crud_simps)
  show "CreatePod t x s = (Inl (AlreadyExists ''pod'' ?k), s)" if "contents s (KPod, ?k) = Some u"
    using that by (auto simp: CreatePod_def crud_simps)
  show "\<exists>y s'. UpdatePod t x s = (Inr y, s') \<and> stored KPod ?k (UPod y) s s' \<and>
      u_uid (UPod y) = u_uid u"
    if "contents s (KPod, ?k) = Some u"
    using that by (auto simp: UpdatePod_def crud_simps)
  show "UpdatePod t x s = (Inl (NotFound ''pod'' ?k), s)" if "contents s (KPod, ?k) = None"
    using that by (simp add: UpdatePod_def crud_simps)
qed (auto simp: GetPod_def DeletePod_def crud_simps)

section \<open>Services\<close>

text \<open>
  Defaults a real API server would fill in: creation time, a headless cluster IP, TCP ports.
\<close>

definition defaultServiceFields :: "time \<Rightarrow> service \<Rightarrow> service" where
  "defaultServiceFields now svc =
     (let svc1 = default_ctime now svc;
          svc2 = (if svc_clusterIP svc1 = [] then svc1\<lparr>svc_clusterIP := ''None''\<rparr> else svc1);
          svc3 = (if svc_clusterIPs svc2 = [] then svc2\<lparr>svc_clusterIPs := [svc_clusterIP svc2]\<rparr>
                  else svc2)
      in svc3\<lparr>svc_ports := map (\<lambda>p. if sp_protocol p = [] then p\<lparr>sp_protocol := ''TCP''\<rparr> else p)
                          (svc_ports svc3)\<rparr>)"

lemma o_meta_defaultServiceFields [simp]:
  "o_meta (defaultServiceFields now svc) = o_meta (default_ctime now svc)"
  by (simp add: defaultServiceFields_def Let_def)

definition put_services :: "nsname \<Rightarrow> service \<Rightarrow> store \<Rightarrow> store" where
  "put_services k x s = s\<lparr>s_services := mput k x (s_services s)\<rparr>"

definition del_services :: "nsname \<Rightarrow> store \<Rightarrow> store" where
  "del_services k s = s\<lparr>s_services := mdel k (s_services s)\<rparr>"

lemma services_put_del [simp, store_frame]:
  "contents (put_services k x s) = (contents s)((KService, k) \<mapsto> UService x)"
  "contents (del_services k s) = (contents s)((KService, k) := None)"
  "s_resourceVer (put_services k x s) = s_resourceVer s" "s_resourceVer (del_services k s) = s_resourceVer s"
  "s_pending (put_services k x s) = s_pending s" "s_pending (del_services k s) = s_pending s"
  "maps_wf s \<Longrightarrow> maps_wf (put_services k x s)" "maps_wf s \<Longrightarrow> maps_wf (del_services k s)"
  "events_ok (put_services k x s) = events_ok s" "events_ok (del_services k s) = events_ok s"
  by ((rule kind_ext)?; simp add: put_services_def del_services_def map_laws maps_wf_def events_ok_def)+

definition AllServices :: "store \<Rightarrow> service list" where
  "AllServices s = mvals (s_services s)"

definition ServicesIn :: "string \<Rightarrow> store \<Rightarrow> service list" where
  "ServicesIn ns s = map snd (filter (\<lambda>(k, _). fst k = ns) (s_services s))"

definition CreateService :: "time \<Rightarrow> service \<Rightarrow> store \<Rightarrow> (store_error + service) \<times> store" where
  "CreateService now x s =
     (let key = okey x in
      case mget (s_services s) key of
        Some _ \<Rightarrow> (Inl (AlreadyExists ''service'' key), s)
      | None \<Rightarrow>
        (let (rv, s1) = incRV s;
             x1 = stamp rv (''q8s-svc-'' @ o_namespace x @ ''-'' @ o_name x) x;
             x2 = default_labels x1;
             x3 = defaultServiceFields now x2
         in (Inr x3,
             go_save (put_services key x3 s1))))"

definition GetService :: "string \<Rightarrow> string \<Rightarrow> store \<Rightarrow> store_error + service" where
  "GetService ns name s =
     (let key = (ns, name) in
      case mget (s_services s) key of
        None \<Rightarrow> Inl (NotFound ''service'' key)
      | Some x \<Rightarrow> Inr x)"

definition UpdateService :: "time \<Rightarrow> service \<Rightarrow> store \<Rightarrow> (store_error + service) \<times> store" where
  "UpdateService now x s =
     (let key = okey x in
      case mget (s_services s) key of
        None \<Rightarrow> (Inl (NotFound ''service'' key), s)
      | Some old \<Rightarrow>
        (let (rv, s1) = incRV s;
             x1 = stamp rv (o_uid old) x;
             x2 = keep_ctime old x1;
             x3 = defaultServiceFields now x2
         in (Inr x3, go_save (put_services key x3 s1))))"

definition DeleteService :: "time \<Rightarrow> string \<Rightarrow> string \<Rightarrow> store \<Rightarrow> store_error option \<times> store" where
  "DeleteService now ns name s =
     (let key = (ns, name) in
      case mget (s_services s) key of
        None \<Rightarrow> (Some (NotFound ''service'' key), s)
      | Some x \<Rightarrow> (None, go_save (del_services key s)))"

interpretation svck: object_kind KService UService "''service''" "\<lambda>k. k" okey
  CreateService "\<lambda>k. GetService (fst k) (snd k)" UpdateService "\<lambda>t k. DeleteService t (fst k) (snd k)"
proof
  fix s :: store and x :: service and t :: time and u k
  let ?k = "okey x"
  show "\<exists>y s'. CreateService t x s = (Inr y, s') \<and> stored KService ?k (UService y) s s'"
    if "contents s (KService, ?k) = None"
    using that by (simp add: CreateService_def crud_simps)
  show "CreateService t x s = (Inl (AlreadyExists ''service'' ?k), s)" if "contents s (KService, ?k) = Some u"
    using that by (auto simp: CreateService_def crud_simps)
  show "\<exists>y s'. UpdateService t x s = (Inr y, s') \<and> stored KService ?k (UService y) s s' \<and>
      u_uid (UService y) = u_uid u"
    if "contents s (KService, ?k) = Some u"
    using that by (auto simp: UpdateService_def crud_simps)
  show "UpdateService t x s = (Inl (NotFound ''service'' ?k), s)" if "contents s (KService, ?k) = None"
    using that by (simp add: UpdateService_def crud_simps)
qed (auto simp: GetService_def DeleteService_def crud_simps)

section \<open>PVCs\<close>

text \<open>The defaulting and immediate binding of \<open>CreatePVC\<close>.\<close>

definition bindPVC :: "pvc \<Rightarrow> pvc" where
  "bindPVC p =
     (let p1 = (if pvc_storageClassName p = None \<or> pvc_storageClassName p = Some []
                then p\<lparr>pvc_storageClassName := Some StorageClassStandard\<rparr> else p);
          p2 = p1\<lparr>pvc_phase := ''Bound''\<rparr>
      in if pvc_storageClassName p2 \<noteq> Some StorageClassHostPath
         then p2\<lparr>pvc_volumeName := PVCVolumeName (o_namespace p2) (o_name p2)\<rparr> else p2)"

lemma o_meta_bindPVC [simp]: "o_meta (bindPVC p) = o_meta p"
  by (simp add: bindPVC_def Let_def)

definition put_pvcs :: "nsname \<Rightarrow> pvc \<Rightarrow> store \<Rightarrow> store" where
  "put_pvcs k x s = s\<lparr>s_pvcs := mput k x (s_pvcs s)\<rparr>"

definition del_pvcs :: "nsname \<Rightarrow> store \<Rightarrow> store" where
  "del_pvcs k s = s\<lparr>s_pvcs := mdel k (s_pvcs s)\<rparr>"

lemma pvcs_put_del [simp, store_frame]:
  "contents (put_pvcs k x s) = (contents s)((KPVC, k) \<mapsto> UPVC x)"
  "contents (del_pvcs k s) = (contents s)((KPVC, k) := None)"
  "s_resourceVer (put_pvcs k x s) = s_resourceVer s" "s_resourceVer (del_pvcs k s) = s_resourceVer s"
  "s_pending (put_pvcs k x s) = s_pending s" "s_pending (del_pvcs k s) = s_pending s"
  "maps_wf s \<Longrightarrow> maps_wf (put_pvcs k x s)" "maps_wf s \<Longrightarrow> maps_wf (del_pvcs k s)"
  "events_ok (put_pvcs k x s) = events_ok s" "events_ok (del_pvcs k s) = events_ok s"
  by ((rule kind_ext)?; simp add: put_pvcs_def del_pvcs_def map_laws maps_wf_def events_ok_def)+

definition AllPVCs :: "store \<Rightarrow> pvc list" where
  "AllPVCs s = mvals (s_pvcs s)"

definition PVCsIn :: "string \<Rightarrow> store \<Rightarrow> pvc list" where
  "PVCsIn ns s = map snd (filter (\<lambda>(k, _). fst k = ns) (s_pvcs s))"

definition CreatePVC :: "time \<Rightarrow> pvc \<Rightarrow> store \<Rightarrow> (store_error + pvc) \<times> store" where
  "CreatePVC now x s =
     (let key = okey x in
      case mget (s_pvcs s) key of
        Some _ \<Rightarrow> (Inl (AlreadyExists ''PVC'' key), s)
      | None \<Rightarrow>
        (let (rv, s1) = incRV s;
             x1 = stamp rv (''q8s-pvc-'' @ o_namespace x @ ''-'' @ o_name x) x;
             x2 = default_labels x1;
             x3 = bindPVC x2;
             msg = (if pvc_volumeName x3 \<noteq> []
                 then ''Bound to podman volume '' @ [CHR 0x22] @ pvc_volumeName x3 @ [CHR 0x22]
                 else ''Bound (hostpath backing)'')
         in (Inr x3,
             recordEvent now ''PersistentVolumeClaim'' (o_namespace x3) (o_name x3) (o_uid x3)
                ''Normal'' ''ProvisioningSucceeded'' msg (go_save (put_pvcs key x3 s1)))))"

definition GetPVC :: "string \<Rightarrow> string \<Rightarrow> store \<Rightarrow> store_error + pvc" where
  "GetPVC ns name s =
     (let key = (ns, name) in
      case mget (s_pvcs s) key of
        None \<Rightarrow> Inl (NotFound ''PVC'' key)
      | Some x \<Rightarrow> Inr x)"

definition UpdatePVC :: "time \<Rightarrow> pvc \<Rightarrow> store \<Rightarrow> (store_error + pvc) \<times> store" where
  "UpdatePVC now x s =
     (let key = okey x in
      case mget (s_pvcs s) key of
        None \<Rightarrow> (Inl (NotFound ''PVC'' key), s)
      | Some old \<Rightarrow>
        (let (rv, s1) = incRV s;
             x1 = stamp rv (o_uid old) x
         in (Inr x1, go_save (put_pvcs key x1 s1))))"

definition DeletePVC :: "time \<Rightarrow> string \<Rightarrow> string \<Rightarrow> store \<Rightarrow> store_error option \<times> store" where
  "DeletePVC now ns name s =
     (let key = (ns, name) in
      case mget (s_pvcs s) key of
        None \<Rightarrow> (Some (NotFound ''PVC'' key), s)
      | Some x \<Rightarrow> (None, go_save (del_pvcs key s)))"

interpretation pvck: object_kind KPVC UPVC "''PVC''" "\<lambda>k. k" okey
  CreatePVC "\<lambda>k. GetPVC (fst k) (snd k)" UpdatePVC "\<lambda>t k. DeletePVC t (fst k) (snd k)"
proof
  fix s :: store and x :: pvc and t :: time and u k
  let ?k = "okey x"
  show "\<exists>y s'. CreatePVC t x s = (Inr y, s') \<and> stored KPVC ?k (UPVC y) s s'"
    if "contents s (KPVC, ?k) = None"
    using that by (simp add: CreatePVC_def crud_simps)
  show "CreatePVC t x s = (Inl (AlreadyExists ''PVC'' ?k), s)" if "contents s (KPVC, ?k) = Some u"
    using that by (auto simp: CreatePVC_def crud_simps)
  show "\<exists>y s'. UpdatePVC t x s = (Inr y, s') \<and> stored KPVC ?k (UPVC y) s s' \<and>
      u_uid (UPVC y) = u_uid u"
    if "contents s (KPVC, ?k) = Some u"
    using that by (auto simp: UpdatePVC_def crud_simps)
  show "UpdatePVC t x s = (Inl (NotFound ''PVC'' ?k), s)" if "contents s (KPVC, ?k) = None"
    using that by (simp add: UpdatePVC_def crud_simps)
qed (auto simp: GetPVC_def DeletePVC_def crud_simps)

section \<open>ConfigMaps\<close>

definition put_configmaps :: "nsname \<Rightarrow> configmap \<Rightarrow> store \<Rightarrow> store" where
  "put_configmaps k x s = s\<lparr>s_configmaps := mput k x (s_configmaps s)\<rparr>"

definition del_configmaps :: "nsname \<Rightarrow> store \<Rightarrow> store" where
  "del_configmaps k s = s\<lparr>s_configmaps := mdel k (s_configmaps s)\<rparr>"

lemma configmaps_put_del [simp, store_frame]:
  "contents (put_configmaps k x s) = (contents s)((KConfigMap, k) \<mapsto> UConfigMap x)"
  "contents (del_configmaps k s) = (contents s)((KConfigMap, k) := None)"
  "s_resourceVer (put_configmaps k x s) = s_resourceVer s" "s_resourceVer (del_configmaps k s) = s_resourceVer s"
  "s_pending (put_configmaps k x s) = s_pending s" "s_pending (del_configmaps k s) = s_pending s"
  "maps_wf s \<Longrightarrow> maps_wf (put_configmaps k x s)" "maps_wf s \<Longrightarrow> maps_wf (del_configmaps k s)"
  "events_ok (put_configmaps k x s) = events_ok s" "events_ok (del_configmaps k s) = events_ok s"
  by ((rule kind_ext)?; simp add: put_configmaps_def del_configmaps_def map_laws maps_wf_def events_ok_def)+

definition AllConfigMaps :: "store \<Rightarrow> configmap list" where
  "AllConfigMaps s = mvals (s_configmaps s)"

definition ConfigMapsIn :: "string \<Rightarrow> store \<Rightarrow> configmap list" where
  "ConfigMapsIn ns s = map snd (filter (\<lambda>(k, _). fst k = ns) (s_configmaps s))"

definition CreateConfigMap :: "time \<Rightarrow> configmap \<Rightarrow> store \<Rightarrow> (store_error + configmap) \<times> store" where
  "CreateConfigMap now x s =
     (let key = okey x in
      case mget (s_configmaps s) key of
        Some _ \<Rightarrow> (Inl (AlreadyExists ''configmap'' key), s)
      | None \<Rightarrow>
        (let (rv, s1) = incRV s;
             x1 = stamp rv (''q8s-cm-'' @ o_namespace x @ ''-'' @ o_name x) x;
             x2 = default_labels x1
         in (Inr x2,
             go_save (put_configmaps key x2 s1))))"

definition GetConfigMap :: "string \<Rightarrow> string \<Rightarrow> store \<Rightarrow> store_error + configmap" where
  "GetConfigMap ns name s =
     (let key = (ns, name) in
      case mget (s_configmaps s) key of
        None \<Rightarrow> Inl (NotFound ''configmap'' key)
      | Some x \<Rightarrow> Inr x)"

definition UpdateConfigMap :: "time \<Rightarrow> configmap \<Rightarrow> store \<Rightarrow> (store_error + configmap) \<times> store" where
  "UpdateConfigMap now x s =
     (let key = okey x in
      case mget (s_configmaps s) key of
        None \<Rightarrow> (Inl (NotFound ''configmap'' key), s)
      | Some old \<Rightarrow>
        (let (rv, s1) = incRV s;
             x1 = stamp rv (o_uid old) x
         in (Inr x1, go_save (put_configmaps key x1 s1))))"

definition DeleteConfigMap :: "time \<Rightarrow> string \<Rightarrow> string \<Rightarrow> store \<Rightarrow> store_error option \<times> store" where
  "DeleteConfigMap now ns name s =
     (let key = (ns, name) in
      case mget (s_configmaps s) key of
        None \<Rightarrow> (Some (NotFound ''configmap'' key), s)
      | Some x \<Rightarrow> (None, go_save (del_configmaps key s)))"

interpretation cmk: object_kind KConfigMap UConfigMap "''configmap''" "\<lambda>k. k" okey
  CreateConfigMap "\<lambda>k. GetConfigMap (fst k) (snd k)" UpdateConfigMap "\<lambda>t k. DeleteConfigMap t (fst k) (snd k)"
proof
  fix s :: store and x :: configmap and t :: time and u k
  let ?k = "okey x"
  show "\<exists>y s'. CreateConfigMap t x s = (Inr y, s') \<and> stored KConfigMap ?k (UConfigMap y) s s'"
    if "contents s (KConfigMap, ?k) = None"
    using that by (simp add: CreateConfigMap_def crud_simps)
  show "CreateConfigMap t x s = (Inl (AlreadyExists ''configmap'' ?k), s)" if "contents s (KConfigMap, ?k) = Some u"
    using that by (auto simp: CreateConfigMap_def crud_simps)
  show "\<exists>y s'. UpdateConfigMap t x s = (Inr y, s') \<and> stored KConfigMap ?k (UConfigMap y) s s' \<and>
      u_uid (UConfigMap y) = u_uid u"
    if "contents s (KConfigMap, ?k) = Some u"
    using that by (auto simp: UpdateConfigMap_def crud_simps)
  show "UpdateConfigMap t x s = (Inl (NotFound ''configmap'' ?k), s)" if "contents s (KConfigMap, ?k) = None"
    using that by (simp add: UpdateConfigMap_def crud_simps)
qed (auto simp: GetConfigMap_def DeleteConfigMap_def crud_simps)

section \<open>Secrets\<close>

definition put_secrets :: "nsname \<Rightarrow> secret \<Rightarrow> store \<Rightarrow> store" where
  "put_secrets k x s = s\<lparr>s_secrets := mput k x (s_secrets s)\<rparr>"

definition del_secrets :: "nsname \<Rightarrow> store \<Rightarrow> store" where
  "del_secrets k s = s\<lparr>s_secrets := mdel k (s_secrets s)\<rparr>"

lemma secrets_put_del [simp, store_frame]:
  "contents (put_secrets k x s) = (contents s)((KSecret, k) \<mapsto> USecret x)"
  "contents (del_secrets k s) = (contents s)((KSecret, k) := None)"
  "s_resourceVer (put_secrets k x s) = s_resourceVer s" "s_resourceVer (del_secrets k s) = s_resourceVer s"
  "s_pending (put_secrets k x s) = s_pending s" "s_pending (del_secrets k s) = s_pending s"
  "maps_wf s \<Longrightarrow> maps_wf (put_secrets k x s)" "maps_wf s \<Longrightarrow> maps_wf (del_secrets k s)"
  "events_ok (put_secrets k x s) = events_ok s" "events_ok (del_secrets k s) = events_ok s"
  by ((rule kind_ext)?; simp add: put_secrets_def del_secrets_def map_laws maps_wf_def events_ok_def)+

definition AllSecrets :: "store \<Rightarrow> secret list" where
  "AllSecrets s = mvals (s_secrets s)"

definition SecretsIn :: "string \<Rightarrow> store \<Rightarrow> secret list" where
  "SecretsIn ns s = map snd (filter (\<lambda>(k, _). fst k = ns) (s_secrets s))"

definition CreateSecret :: "time \<Rightarrow> secret \<Rightarrow> store \<Rightarrow> (store_error + secret) \<times> store" where
  "CreateSecret now x s =
     (let key = okey x in
      case mget (s_secrets s) key of
        Some _ \<Rightarrow> (Inl (AlreadyExists ''secret'' key), s)
      | None \<Rightarrow>
        (let (rv, s1) = incRV s;
             x1 = stamp rv (''q8s-secret-'' @ o_namespace x @ ''-'' @ o_name x) x;
             x2 = default_labels x1
         in (Inr x2,
             go_save (put_secrets key x2 s1))))"

definition GetSecret :: "string \<Rightarrow> string \<Rightarrow> store \<Rightarrow> store_error + secret" where
  "GetSecret ns name s =
     (let key = (ns, name) in
      case mget (s_secrets s) key of
        None \<Rightarrow> Inl (NotFound ''secret'' key)
      | Some x \<Rightarrow> Inr x)"

definition UpdateSecret :: "time \<Rightarrow> secret \<Rightarrow> store \<Rightarrow> (store_error + secret) \<times> store" where
  "UpdateSecret now x s =
     (let key = okey x in
      case mget (s_secrets s) key of
        None \<Rightarrow> (Inl (NotFound ''secret'' key), s)
      | Some old \<Rightarrow>
        (let (rv, s1) = incRV s;
             x1 = stamp rv (o_uid old) x
         in (Inr x1, go_save (put_secrets key x1 s1))))"

definition DeleteSecret :: "time \<Rightarrow> string \<Rightarrow> string \<Rightarrow> store \<Rightarrow> store_error option \<times> store" where
  "DeleteSecret now ns name s =
     (let key = (ns, name) in
      case mget (s_secrets s) key of
        None \<Rightarrow> (Some (NotFound ''secret'' key), s)
      | Some x \<Rightarrow> (None, go_save (del_secrets key s)))"

interpretation seck: object_kind KSecret USecret "''secret''" "\<lambda>k. k" okey
  CreateSecret "\<lambda>k. GetSecret (fst k) (snd k)" UpdateSecret "\<lambda>t k. DeleteSecret t (fst k) (snd k)"
proof
  fix s :: store and x :: secret and t :: time and u k
  let ?k = "okey x"
  show "\<exists>y s'. CreateSecret t x s = (Inr y, s') \<and> stored KSecret ?k (USecret y) s s'"
    if "contents s (KSecret, ?k) = None"
    using that by (simp add: CreateSecret_def crud_simps)
  show "CreateSecret t x s = (Inl (AlreadyExists ''secret'' ?k), s)" if "contents s (KSecret, ?k) = Some u"
    using that by (auto simp: CreateSecret_def crud_simps)
  show "\<exists>y s'. UpdateSecret t x s = (Inr y, s') \<and> stored KSecret ?k (USecret y) s s' \<and>
      u_uid (USecret y) = u_uid u"
    if "contents s (KSecret, ?k) = Some u"
    using that by (auto simp: UpdateSecret_def crud_simps)
  show "UpdateSecret t x s = (Inl (NotFound ''secret'' ?k), s)" if "contents s (KSecret, ?k) = None"
    using that by (simp add: UpdateSecret_def crud_simps)
qed (auto simp: GetSecret_def DeleteSecret_def crud_simps)

end
