(* ===== verification/StoreWorkloads.thy ===== *)
theory StoreWorkloads
  imports StoreResources
begin

text \<open>
  internal/store/store.go: create, get, update, delete and list of jobs, cron jobs, ingresses,
  the Traefik resources and deployments, in the same shape as theory StoreResources.
\<close>

section \<open>Jobs\<close>

definition put_jobs :: "nsname \<Rightarrow> job \<Rightarrow> store \<Rightarrow> store" where
  "put_jobs k x s = s\<lparr>s_jobs := mput k x (s_jobs s)\<rparr>"

definition del_jobs :: "nsname \<Rightarrow> store \<Rightarrow> store" where
  "del_jobs k s = s\<lparr>s_jobs := mdel k (s_jobs s)\<rparr>"

lemma jobs_put_del [simp, store_frame]:
  "contents (put_jobs k x s) = (contents s)((KJob, k) \<mapsto> UJob x)"
  "contents (del_jobs k s) = (contents s)((KJob, k) := None)"
  "s_resourceVer (put_jobs k x s) = s_resourceVer s" "s_resourceVer (del_jobs k s) = s_resourceVer s"
  "s_pending (put_jobs k x s) = s_pending s" "s_pending (del_jobs k s) = s_pending s"
  "maps_wf s \<Longrightarrow> maps_wf (put_jobs k x s)" "maps_wf s \<Longrightarrow> maps_wf (del_jobs k s)"
  "events_ok (put_jobs k x s) = events_ok s" "events_ok (del_jobs k s) = events_ok s"
  by ((rule kind_ext)?; simp add: put_jobs_def del_jobs_def map_laws maps_wf_def events_ok_def)+

definition AllJobs :: "store \<Rightarrow> job list" where
  "AllJobs s = mvals (s_jobs s)"

definition JobsIn :: "string \<Rightarrow> store \<Rightarrow> job list" where
  "JobsIn ns s = map snd (filter (\<lambda>(k, _). fst k = ns) (s_jobs s))"

definition CreateJob :: "time \<Rightarrow> job \<Rightarrow> store \<Rightarrow> (store_error + job) \<times> store" where
  "CreateJob now x s =
     (let key = okey x in
      case mget (s_jobs s) key of
        Some _ \<Rightarrow> (Inl (AlreadyExists ''job'' key), s)
      | None \<Rightarrow>
        (let (rv, s1) = incRV s;
             x1 = stamp rv (''q8s-job-'' @ o_namespace x @ ''-'' @ o_name x) x;
             x2 = default_labels x1;
             x3 = default_ctime now x2
         in (Inr x3,
             recordEvent now ''Job'' (o_namespace x3) (o_name x3) (o_uid x3)
                ''Normal'' ''Created'' (''Created job '' @ o_namespace x @ ''/'' @ o_name x) (go_save (put_jobs key x3 s1)))))"

definition GetJob :: "string \<Rightarrow> string \<Rightarrow> store \<Rightarrow> store_error + job" where
  "GetJob ns name s =
     (let key = (ns, name) in
      case mget (s_jobs s) key of
        None \<Rightarrow> Inl (NotFound ''job'' key)
      | Some x \<Rightarrow> Inr x)"

definition UpdateJob :: "time \<Rightarrow> job \<Rightarrow> store \<Rightarrow> (store_error + job) \<times> store" where
  "UpdateJob now x s =
     (let key = okey x in
      case mget (s_jobs s) key of
        None \<Rightarrow> (Inl (NotFound ''job'' key), s)
      | Some old \<Rightarrow>
        (let (rv, s1) = incRV s;
             x1 = stamp rv (o_uid old) x
         in (Inr x1, go_save (put_jobs key x1 s1))))"

definition DeleteJob :: "time \<Rightarrow> string \<Rightarrow> string \<Rightarrow> store \<Rightarrow> store_error option \<times> store" where
  "DeleteJob now ns name s =
     (let key = (ns, name) in
      case mget (s_jobs s) key of
        None \<Rightarrow> (Some (NotFound ''job'' key), s)
      | Some x \<Rightarrow> (None, recordEvent now ''Job'' ns name (o_uid x) ''Normal'' ''Deleted''
            (''Deleted job '' @ ns @ ''/'' @ name) (go_save (del_jobs key s))))"

interpretation jobk: object_kind KJob UJob "''job''" "\<lambda>k. k" okey
  CreateJob "\<lambda>k. GetJob (fst k) (snd k)" UpdateJob "\<lambda>t k. DeleteJob t (fst k) (snd k)"
proof
  fix s :: store and x :: job and t :: time and u k
  let ?k = "okey x"
  show "\<exists>y s'. CreateJob t x s = (Inr y, s') \<and> stored KJob ?k (UJob y) s s'"
    if "contents s (KJob, ?k) = None"
    using that by (simp add: CreateJob_def crud_simps)
  show "CreateJob t x s = (Inl (AlreadyExists ''job'' ?k), s)" if "contents s (KJob, ?k) = Some u"
    using that by (auto simp: CreateJob_def crud_simps)
  show "\<exists>y s'. UpdateJob t x s = (Inr y, s') \<and> stored KJob ?k (UJob y) s s' \<and>
      u_uid (UJob y) = u_uid u"
    if "contents s (KJob, ?k) = Some u"
    using that by (auto simp: UpdateJob_def crud_simps)
  show "UpdateJob t x s = (Inl (NotFound ''job'' ?k), s)" if "contents s (KJob, ?k) = None"
    using that by (simp add: UpdateJob_def crud_simps)
qed (auto simp: GetJob_def DeleteJob_def crud_simps)

section \<open>CronJobs\<close>

definition put_cronjobs :: "nsname \<Rightarrow> cronjob \<Rightarrow> store \<Rightarrow> store" where
  "put_cronjobs k x s = s\<lparr>s_cronjobs := mput k x (s_cronjobs s)\<rparr>"

definition del_cronjobs :: "nsname \<Rightarrow> store \<Rightarrow> store" where
  "del_cronjobs k s = s\<lparr>s_cronjobs := mdel k (s_cronjobs s)\<rparr>"

lemma cronjobs_put_del [simp, store_frame]:
  "contents (put_cronjobs k x s) = (contents s)((KCronJob, k) \<mapsto> UCronJob x)"
  "contents (del_cronjobs k s) = (contents s)((KCronJob, k) := None)"
  "s_resourceVer (put_cronjobs k x s) = s_resourceVer s" "s_resourceVer (del_cronjobs k s) = s_resourceVer s"
  "s_pending (put_cronjobs k x s) = s_pending s" "s_pending (del_cronjobs k s) = s_pending s"
  "maps_wf s \<Longrightarrow> maps_wf (put_cronjobs k x s)" "maps_wf s \<Longrightarrow> maps_wf (del_cronjobs k s)"
  "events_ok (put_cronjobs k x s) = events_ok s" "events_ok (del_cronjobs k s) = events_ok s"
  by ((rule kind_ext)?; simp add: put_cronjobs_def del_cronjobs_def map_laws maps_wf_def events_ok_def)+

definition AllCronJobs :: "store \<Rightarrow> cronjob list" where
  "AllCronJobs s = mvals (s_cronjobs s)"

definition CronJobsIn :: "string \<Rightarrow> store \<Rightarrow> cronjob list" where
  "CronJobsIn ns s = map snd (filter (\<lambda>(k, _). fst k = ns) (s_cronjobs s))"

definition CreateCronJob :: "time \<Rightarrow> cronjob \<Rightarrow> store \<Rightarrow> (store_error + cronjob) \<times> store" where
  "CreateCronJob now x s =
     (let key = okey x in
      case mget (s_cronjobs s) key of
        Some _ \<Rightarrow> (Inl (AlreadyExists ''cronjob'' key), s)
      | None \<Rightarrow>
        (let (rv, s1) = incRV s;
             x1 = stamp rv (''q8s-cj-'' @ o_namespace x @ ''-'' @ o_name x) x;
             x2 = default_labels x1;
             x3 = default_ctime now x2
         in (Inr x3,
             go_save (put_cronjobs key x3 s1))))"

definition GetCronJob :: "string \<Rightarrow> string \<Rightarrow> store \<Rightarrow> store_error + cronjob" where
  "GetCronJob ns name s =
     (let key = (ns, name) in
      case mget (s_cronjobs s) key of
        None \<Rightarrow> Inl (NotFound ''cronjob'' key)
      | Some x \<Rightarrow> Inr x)"

definition UpdateCronJob :: "time \<Rightarrow> cronjob \<Rightarrow> store \<Rightarrow> (store_error + cronjob) \<times> store" where
  "UpdateCronJob now x s =
     (let key = okey x in
      case mget (s_cronjobs s) key of
        None \<Rightarrow> (Inl (NotFound ''cronjob'' key), s)
      | Some old \<Rightarrow>
        (let (rv, s1) = incRV s;
             x1 = stamp rv (o_uid old) x
         in (Inr x1, go_save (put_cronjobs key x1 s1))))"

definition DeleteCronJob :: "time \<Rightarrow> string \<Rightarrow> string \<Rightarrow> store \<Rightarrow> store_error option \<times> store" where
  "DeleteCronJob now ns name s =
     (let key = (ns, name) in
      case mget (s_cronjobs s) key of
        None \<Rightarrow> (Some (NotFound ''cronjob'' key), s)
      | Some x \<Rightarrow> (None, go_save (del_cronjobs key s)))"

interpretation cjk: object_kind KCronJob UCronJob "''cronjob''" "\<lambda>k. k" okey
  CreateCronJob "\<lambda>k. GetCronJob (fst k) (snd k)" UpdateCronJob "\<lambda>t k. DeleteCronJob t (fst k) (snd k)"
proof
  fix s :: store and x :: cronjob and t :: time and u k
  let ?k = "okey x"
  show "\<exists>y s'. CreateCronJob t x s = (Inr y, s') \<and> stored KCronJob ?k (UCronJob y) s s'"
    if "contents s (KCronJob, ?k) = None"
    using that by (simp add: CreateCronJob_def crud_simps)
  show "CreateCronJob t x s = (Inl (AlreadyExists ''cronjob'' ?k), s)" if "contents s (KCronJob, ?k) = Some u"
    using that by (auto simp: CreateCronJob_def crud_simps)
  show "\<exists>y s'. UpdateCronJob t x s = (Inr y, s') \<and> stored KCronJob ?k (UCronJob y) s s' \<and>
      u_uid (UCronJob y) = u_uid u"
    if "contents s (KCronJob, ?k) = Some u"
    using that by (auto simp: UpdateCronJob_def crud_simps)
  show "UpdateCronJob t x s = (Inl (NotFound ''cronjob'' ?k), s)" if "contents s (KCronJob, ?k) = None"
    using that by (simp add: UpdateCronJob_def crud_simps)
qed (auto simp: GetCronJob_def DeleteCronJob_def crud_simps)

section \<open>Ingresses\<close>

definition put_ingresses :: "nsname \<Rightarrow> ingress \<Rightarrow> store \<Rightarrow> store" where
  "put_ingresses k x s = s\<lparr>s_ingresses := mput k x (s_ingresses s)\<rparr>"

definition del_ingresses :: "nsname \<Rightarrow> store \<Rightarrow> store" where
  "del_ingresses k s = s\<lparr>s_ingresses := mdel k (s_ingresses s)\<rparr>"

lemma ingresses_put_del [simp, store_frame]:
  "contents (put_ingresses k x s) = (contents s)((KIngress, k) \<mapsto> UIngress x)"
  "contents (del_ingresses k s) = (contents s)((KIngress, k) := None)"
  "s_resourceVer (put_ingresses k x s) = s_resourceVer s" "s_resourceVer (del_ingresses k s) = s_resourceVer s"
  "s_pending (put_ingresses k x s) = s_pending s" "s_pending (del_ingresses k s) = s_pending s"
  "maps_wf s \<Longrightarrow> maps_wf (put_ingresses k x s)" "maps_wf s \<Longrightarrow> maps_wf (del_ingresses k s)"
  "events_ok (put_ingresses k x s) = events_ok s" "events_ok (del_ingresses k s) = events_ok s"
  by ((rule kind_ext)?; simp add: put_ingresses_def del_ingresses_def map_laws maps_wf_def events_ok_def)+

definition AllIngresses :: "store \<Rightarrow> ingress list" where
  "AllIngresses s = mvals (s_ingresses s)"

definition IngressesIn :: "string \<Rightarrow> store \<Rightarrow> ingress list" where
  "IngressesIn ns s = map snd (filter (\<lambda>(k, _). fst k = ns) (s_ingresses s))"

definition CreateIngress :: "time \<Rightarrow> ingress \<Rightarrow> store \<Rightarrow> (store_error + ingress) \<times> store" where
  "CreateIngress now x s =
     (let key = okey x in
      case mget (s_ingresses s) key of
        Some _ \<Rightarrow> (Inl (AlreadyExists ''ingress'' key), s)
      | None \<Rightarrow>
        (let (rv, s1) = incRV s;
             x1 = stamp rv (''q8s-ing-'' @ o_namespace x @ ''-'' @ o_name x) x;
             x2 = default_labels x1;
             x3 = default_ctime now x2
         in (Inr x3,
             go_save (put_ingresses key x3 s1))))"

definition GetIngress :: "string \<Rightarrow> string \<Rightarrow> store \<Rightarrow> store_error + ingress" where
  "GetIngress ns name s =
     (let key = (ns, name) in
      case mget (s_ingresses s) key of
        None \<Rightarrow> Inl (NotFound ''ingress'' key)
      | Some x \<Rightarrow> Inr x)"

definition UpdateIngress :: "time \<Rightarrow> ingress \<Rightarrow> store \<Rightarrow> (store_error + ingress) \<times> store" where
  "UpdateIngress now x s =
     (let key = okey x in
      case mget (s_ingresses s) key of
        None \<Rightarrow> (Inl (NotFound ''ingress'' key), s)
      | Some old \<Rightarrow>
        (let (rv, s1) = incRV s;
             x1 = stamp rv (o_uid old) x
         in (Inr x1, go_save (put_ingresses key x1 s1))))"

definition DeleteIngress :: "time \<Rightarrow> string \<Rightarrow> string \<Rightarrow> store \<Rightarrow> store_error option \<times> store" where
  "DeleteIngress now ns name s =
     (let key = (ns, name) in
      case mget (s_ingresses s) key of
        None \<Rightarrow> (Some (NotFound ''ingress'' key), s)
      | Some x \<Rightarrow> (None, go_save (del_ingresses key s)))"

interpretation ingk: object_kind KIngress UIngress "''ingress''" "\<lambda>k. k" okey
  CreateIngress "\<lambda>k. GetIngress (fst k) (snd k)" UpdateIngress "\<lambda>t k. DeleteIngress t (fst k) (snd k)"
proof
  fix s :: store and x :: ingress and t :: time and u k
  let ?k = "okey x"
  show "\<exists>y s'. CreateIngress t x s = (Inr y, s') \<and> stored KIngress ?k (UIngress y) s s'"
    if "contents s (KIngress, ?k) = None"
    using that by (simp add: CreateIngress_def crud_simps)
  show "CreateIngress t x s = (Inl (AlreadyExists ''ingress'' ?k), s)" if "contents s (KIngress, ?k) = Some u"
    using that by (auto simp: CreateIngress_def crud_simps)
  show "\<exists>y s'. UpdateIngress t x s = (Inr y, s') \<and> stored KIngress ?k (UIngress y) s s' \<and>
      u_uid (UIngress y) = u_uid u"
    if "contents s (KIngress, ?k) = Some u"
    using that by (auto simp: UpdateIngress_def crud_simps)
  show "UpdateIngress t x s = (Inl (NotFound ''ingress'' ?k), s)" if "contents s (KIngress, ?k) = None"
    using that by (simp add: UpdateIngress_def crud_simps)
qed (auto simp: GetIngress_def DeleteIngress_def crud_simps)

section \<open>Middlewares\<close>

definition put_middlewares :: "nsname \<Rightarrow> middleware \<Rightarrow> store \<Rightarrow> store" where
  "put_middlewares k x s = s\<lparr>s_middlewares := mput k x (s_middlewares s)\<rparr>"

definition del_middlewares :: "nsname \<Rightarrow> store \<Rightarrow> store" where
  "del_middlewares k s = s\<lparr>s_middlewares := mdel k (s_middlewares s)\<rparr>"

lemma middlewares_put_del [simp, store_frame]:
  "contents (put_middlewares k x s) = (contents s)((KMiddleware, k) \<mapsto> UMiddleware x)"
  "contents (del_middlewares k s) = (contents s)((KMiddleware, k) := None)"
  "s_resourceVer (put_middlewares k x s) = s_resourceVer s" "s_resourceVer (del_middlewares k s) = s_resourceVer s"
  "s_pending (put_middlewares k x s) = s_pending s" "s_pending (del_middlewares k s) = s_pending s"
  "maps_wf s \<Longrightarrow> maps_wf (put_middlewares k x s)" "maps_wf s \<Longrightarrow> maps_wf (del_middlewares k s)"
  "events_ok (put_middlewares k x s) = events_ok s" "events_ok (del_middlewares k s) = events_ok s"
  by ((rule kind_ext)?; simp add: put_middlewares_def del_middlewares_def map_laws maps_wf_def events_ok_def)+

definition AllMiddlewares :: "store \<Rightarrow> middleware list" where
  "AllMiddlewares s = mvals (s_middlewares s)"

definition MiddlewaresIn :: "string \<Rightarrow> store \<Rightarrow> middleware list" where
  "MiddlewaresIn ns s = map snd (filter (\<lambda>(k, _). fst k = ns) (s_middlewares s))"

definition CreateMiddleware :: "time \<Rightarrow> middleware \<Rightarrow> store \<Rightarrow> (store_error + middleware) \<times> store" where
  "CreateMiddleware now x s =
     (let key = okey x in
      case mget (s_middlewares s) key of
        Some _ \<Rightarrow> (Inl (AlreadyExists ''middleware'' key), s)
      | None \<Rightarrow>
        (let (rv, s1) = incRV s;
             x1 = stamp rv (''q8s-mw-'' @ o_namespace x @ ''-'' @ o_name x) x;
             x2 = default_labels x1;
             x3 = default_ctime now x2
         in (Inr x3,
             go_save (put_middlewares key x3 s1))))"

definition GetMiddleware :: "string \<Rightarrow> string \<Rightarrow> store \<Rightarrow> store_error + middleware" where
  "GetMiddleware ns name s =
     (let key = (ns, name) in
      case mget (s_middlewares s) key of
        None \<Rightarrow> Inl (NotFound ''middleware'' key)
      | Some x \<Rightarrow> Inr x)"

definition UpdateMiddleware :: "time \<Rightarrow> middleware \<Rightarrow> store \<Rightarrow> (store_error + middleware) \<times> store" where
  "UpdateMiddleware now x s =
     (let key = okey x in
      case mget (s_middlewares s) key of
        None \<Rightarrow> (Inl (NotFound ''middleware'' key), s)
      | Some old \<Rightarrow>
        (let (rv, s1) = incRV s;
             x1 = stamp rv (o_uid old) x;
             x2 = keep_ctime old x1
         in (Inr x2, go_save (put_middlewares key x2 s1))))"

definition DeleteMiddleware :: "time \<Rightarrow> string \<Rightarrow> string \<Rightarrow> store \<Rightarrow> store_error option \<times> store" where
  "DeleteMiddleware now ns name s =
     (let key = (ns, name) in
      case mget (s_middlewares s) key of
        None \<Rightarrow> (Some (NotFound ''middleware'' key), s)
      | Some x \<Rightarrow> (None, go_save (del_middlewares key s)))"

interpretation mwk: object_kind KMiddleware UMiddleware "''middleware''" "\<lambda>k. k" okey
  CreateMiddleware "\<lambda>k. GetMiddleware (fst k) (snd k)" UpdateMiddleware "\<lambda>t k. DeleteMiddleware t (fst k) (snd k)"
proof
  fix s :: store and x :: middleware and t :: time and u k
  let ?k = "okey x"
  show "\<exists>y s'. CreateMiddleware t x s = (Inr y, s') \<and> stored KMiddleware ?k (UMiddleware y) s s'"
    if "contents s (KMiddleware, ?k) = None"
    using that by (simp add: CreateMiddleware_def crud_simps)
  show "CreateMiddleware t x s = (Inl (AlreadyExists ''middleware'' ?k), s)" if "contents s (KMiddleware, ?k) = Some u"
    using that by (auto simp: CreateMiddleware_def crud_simps)
  show "\<exists>y s'. UpdateMiddleware t x s = (Inr y, s') \<and> stored KMiddleware ?k (UMiddleware y) s s' \<and>
      u_uid (UMiddleware y) = u_uid u"
    if "contents s (KMiddleware, ?k) = Some u"
    using that by (auto simp: UpdateMiddleware_def crud_simps)
  show "UpdateMiddleware t x s = (Inl (NotFound ''middleware'' ?k), s)" if "contents s (KMiddleware, ?k) = None"
    using that by (simp add: UpdateMiddleware_def crud_simps)
qed (auto simp: GetMiddleware_def DeleteMiddleware_def crud_simps)

section \<open>IngressRouteTCPs\<close>

definition put_ingressRouteTCPs :: "nsname \<Rightarrow> ingress_route_tcp \<Rightarrow> store \<Rightarrow> store" where
  "put_ingressRouteTCPs k x s = s\<lparr>s_ingressRouteTCPs := mput k x (s_ingressRouteTCPs s)\<rparr>"

definition del_ingressRouteTCPs :: "nsname \<Rightarrow> store \<Rightarrow> store" where
  "del_ingressRouteTCPs k s = s\<lparr>s_ingressRouteTCPs := mdel k (s_ingressRouteTCPs s)\<rparr>"

lemma ingressRouteTCPs_put_del [simp, store_frame]:
  "contents (put_ingressRouteTCPs k x s) = (contents s)((KIngressRouteTCP, k) \<mapsto> UIngressRouteTCP x)"
  "contents (del_ingressRouteTCPs k s) = (contents s)((KIngressRouteTCP, k) := None)"
  "s_resourceVer (put_ingressRouteTCPs k x s) = s_resourceVer s" "s_resourceVer (del_ingressRouteTCPs k s) = s_resourceVer s"
  "s_pending (put_ingressRouteTCPs k x s) = s_pending s" "s_pending (del_ingressRouteTCPs k s) = s_pending s"
  "maps_wf s \<Longrightarrow> maps_wf (put_ingressRouteTCPs k x s)" "maps_wf s \<Longrightarrow> maps_wf (del_ingressRouteTCPs k s)"
  "events_ok (put_ingressRouteTCPs k x s) = events_ok s" "events_ok (del_ingressRouteTCPs k s) = events_ok s"
  by ((rule kind_ext)?; simp add: put_ingressRouteTCPs_def del_ingressRouteTCPs_def map_laws maps_wf_def events_ok_def)+

definition AllIngressRouteTCPs :: "store \<Rightarrow> ingress_route_tcp list" where
  "AllIngressRouteTCPs s = mvals (s_ingressRouteTCPs s)"

definition IngressRouteTCPsIn :: "string \<Rightarrow> store \<Rightarrow> ingress_route_tcp list" where
  "IngressRouteTCPsIn ns s = map snd (filter (\<lambda>(k, _). fst k = ns) (s_ingressRouteTCPs s))"

definition CreateIngressRouteTCP :: "time \<Rightarrow> ingress_route_tcp \<Rightarrow> store \<Rightarrow> (store_error + ingress_route_tcp) \<times> store" where
  "CreateIngressRouteTCP now x s =
     (let key = okey x in
      case mget (s_ingressRouteTCPs s) key of
        Some _ \<Rightarrow> (Inl (AlreadyExists ''ingressroutetcp'' key), s)
      | None \<Rightarrow>
        (let (rv, s1) = incRV s;
             x1 = stamp rv (''q8s-irtcp-'' @ o_namespace x @ ''-'' @ o_name x) x;
             x2 = default_labels x1;
             x3 = default_ctime now x2
         in (Inr x3,
             go_save (put_ingressRouteTCPs key x3 s1))))"

definition GetIngressRouteTCP :: "string \<Rightarrow> string \<Rightarrow> store \<Rightarrow> store_error + ingress_route_tcp" where
  "GetIngressRouteTCP ns name s =
     (let key = (ns, name) in
      case mget (s_ingressRouteTCPs s) key of
        None \<Rightarrow> Inl (NotFound ''ingressroutetcp'' key)
      | Some x \<Rightarrow> Inr x)"

definition UpdateIngressRouteTCP :: "time \<Rightarrow> ingress_route_tcp \<Rightarrow> store \<Rightarrow> (store_error + ingress_route_tcp) \<times> store" where
  "UpdateIngressRouteTCP now x s =
     (let key = okey x in
      case mget (s_ingressRouteTCPs s) key of
        None \<Rightarrow> (Inl (NotFound ''ingressroutetcp'' key), s)
      | Some old \<Rightarrow>
        (let (rv, s1) = incRV s;
             x1 = stamp rv (o_uid old) x;
             x2 = keep_ctime old x1
         in (Inr x2, go_save (put_ingressRouteTCPs key x2 s1))))"

definition DeleteIngressRouteTCP :: "time \<Rightarrow> string \<Rightarrow> string \<Rightarrow> store \<Rightarrow> store_error option \<times> store" where
  "DeleteIngressRouteTCP now ns name s =
     (let key = (ns, name) in
      case mget (s_ingressRouteTCPs s) key of
        None \<Rightarrow> (Some (NotFound ''ingressroutetcp'' key), s)
      | Some x \<Rightarrow> (None, go_save (del_ingressRouteTCPs key s)))"

interpretation irtk: object_kind KIngressRouteTCP UIngressRouteTCP "''ingressroutetcp''" "\<lambda>k. k" okey
  CreateIngressRouteTCP "\<lambda>k. GetIngressRouteTCP (fst k) (snd k)" UpdateIngressRouteTCP "\<lambda>t k. DeleteIngressRouteTCP t (fst k) (snd k)"
proof
  fix s :: store and x :: ingress_route_tcp and t :: time and u k
  let ?k = "okey x"
  show "\<exists>y s'. CreateIngressRouteTCP t x s = (Inr y, s') \<and> stored KIngressRouteTCP ?k (UIngressRouteTCP y) s s'"
    if "contents s (KIngressRouteTCP, ?k) = None"
    using that by (simp add: CreateIngressRouteTCP_def crud_simps)
  show "CreateIngressRouteTCP t x s = (Inl (AlreadyExists ''ingressroutetcp'' ?k), s)" if "contents s (KIngressRouteTCP, ?k) = Some u"
    using that by (auto simp: CreateIngressRouteTCP_def crud_simps)
  show "\<exists>y s'. UpdateIngressRouteTCP t x s = (Inr y, s') \<and> stored KIngressRouteTCP ?k (UIngressRouteTCP y) s s' \<and>
      u_uid (UIngressRouteTCP y) = u_uid u"
    if "contents s (KIngressRouteTCP, ?k) = Some u"
    using that by (auto simp: UpdateIngressRouteTCP_def crud_simps)
  show "UpdateIngressRouteTCP t x s = (Inl (NotFound ''ingressroutetcp'' ?k), s)" if "contents s (KIngressRouteTCP, ?k) = None"
    using that by (simp add: UpdateIngressRouteTCP_def crud_simps)
qed (auto simp: GetIngressRouteTCP_def DeleteIngressRouteTCP_def crud_simps)

section \<open>Deployments\<close>

text \<open>\<open>reflect.DeepEqual\<close> of two deployment specs: maps are compared as maps.\<close>

definition template_equal :: "pod_template \<Rightarrow> pod_template \<Rightarrow> bool" where
  "template_equal a b \<longleftrightarrow> meq_nil (pt_labels a) (pt_labels b) \<and>
     meq_nil (pt_annotations a) (pt_annotations b) \<and> pt_spec a = pt_spec b"

definition dspec_equal :: "deployment_spec \<Rightarrow> deployment_spec \<Rightarrow> bool" where
  "dspec_equal a b \<longleftrightarrow> ds_replicas a = ds_replicas b \<and> meq (ds_selector a) (ds_selector b) \<and>
     template_equal (ds_template a) (ds_template b) \<and> ds_rest a = ds_rest b"

lemma dspec_equal_refl [simp]: "dspec_equal a a"
  by (simp add: dspec_equal_def template_equal_def)

definition put_deployments :: "nsname \<Rightarrow> deployment \<Rightarrow> store \<Rightarrow> store" where
  "put_deployments k x s = s\<lparr>s_deployments := mput k x (s_deployments s)\<rparr>"

definition del_deployments :: "nsname \<Rightarrow> store \<Rightarrow> store" where
  "del_deployments k s = s\<lparr>s_deployments := mdel k (s_deployments s)\<rparr>"

lemma deployments_put_del [simp, store_frame]:
  "contents (put_deployments k x s) = (contents s)((KDeployment, k) \<mapsto> UDeployment x)"
  "contents (del_deployments k s) = (contents s)((KDeployment, k) := None)"
  "s_resourceVer (put_deployments k x s) = s_resourceVer s" "s_resourceVer (del_deployments k s) = s_resourceVer s"
  "s_pending (put_deployments k x s) = s_pending s" "s_pending (del_deployments k s) = s_pending s"
  "maps_wf s \<Longrightarrow> maps_wf (put_deployments k x s)" "maps_wf s \<Longrightarrow> maps_wf (del_deployments k s)"
  "events_ok (put_deployments k x s) = events_ok s" "events_ok (del_deployments k s) = events_ok s"
  by ((rule kind_ext)?; simp add: put_deployments_def del_deployments_def map_laws maps_wf_def events_ok_def)+

definition AllDeployments :: "store \<Rightarrow> deployment list" where
  "AllDeployments s = mvals (s_deployments s)"

definition DeploymentsIn :: "string \<Rightarrow> store \<Rightarrow> deployment list" where
  "DeploymentsIn ns s = map snd (filter (\<lambda>(k, _). fst k = ns) (s_deployments s))"

definition CreateDeployment :: "time \<Rightarrow> deployment \<Rightarrow> store \<Rightarrow> (store_error + deployment) \<times> store" where
  "CreateDeployment now x s =
     (let key = okey x in
      case mget (s_deployments s) key of
        Some _ \<Rightarrow> (Inl (AlreadyExists ''deployment'' key), s)
      | None \<Rightarrow>
        (let (rv, s1) = incRV s;
             x1 = stamp rv (''q8s-dep-'' @ o_namespace x @ ''-'' @ o_name x) x;
             x2 = default_labels x1;
             x3 = default_ctime now x2;
             x4 = omod (om_generation_update (\<lambda>_. 1)) x3
         in (Inr x4,
             recordEvent now ''Deployment'' (o_namespace x4) (o_name x4) (o_uid x4)
                ''Normal'' ''Created'' (''Created deployment '' @ o_namespace x @ ''/'' @ o_name x) (go_save (put_deployments key x4 s1)))))"

definition GetDeployment :: "string \<Rightarrow> string \<Rightarrow> store \<Rightarrow> store_error + deployment" where
  "GetDeployment ns name s =
     (let key = (ns, name) in
      case mget (s_deployments s) key of
        None \<Rightarrow> Inl (NotFound ''deployment'' key)
      | Some x \<Rightarrow> Inr x)"

definition UpdateDeployment :: "time \<Rightarrow> deployment \<Rightarrow> store \<Rightarrow> (store_error + deployment) \<times> store" where
  "UpdateDeployment now x s =
     (let key = okey x in
      case mget (s_deployments s) key of
        None \<Rightarrow> (Inl (NotFound ''deployment'' key), s)
      | Some old \<Rightarrow>
        (let (rv, s1) = incRV s;
             x1 = stamp rv (o_uid old) x;
             x2 = keep_ctime old x1;
             x3 = omod (om_generation_update (\<lambda>_.
               if dspec_equal (dep_spec x2) (dep_spec old) then om_generation (o_meta old)
               else om_generation (o_meta old) + 1)) x2
         in (Inr x3, go_save (put_deployments key x3 s1))))"

definition DeleteDeployment :: "time \<Rightarrow> string \<Rightarrow> string \<Rightarrow> store \<Rightarrow> store_error option \<times> store" where
  "DeleteDeployment now ns name s =
     (let key = (ns, name) in
      case mget (s_deployments s) key of
        None \<Rightarrow> (Some (NotFound ''deployment'' key), s)
      | Some x \<Rightarrow> (None, recordEvent now ''Deployment'' ns name (o_uid x) ''Normal'' ''Deleted''
            (''Deleted deployment '' @ ns @ ''/'' @ name) (go_save (del_deployments key s))))"

interpretation depk: object_kind KDeployment UDeployment "''deployment''" "\<lambda>k. k" okey
  CreateDeployment "\<lambda>k. GetDeployment (fst k) (snd k)" UpdateDeployment "\<lambda>t k. DeleteDeployment t (fst k) (snd k)"
proof
  fix s :: store and x :: deployment and t :: time and u k
  let ?k = "okey x"
  show "\<exists>y s'. CreateDeployment t x s = (Inr y, s') \<and> stored KDeployment ?k (UDeployment y) s s'"
    if "contents s (KDeployment, ?k) = None"
    using that by (simp add: CreateDeployment_def crud_simps)
  show "CreateDeployment t x s = (Inl (AlreadyExists ''deployment'' ?k), s)" if "contents s (KDeployment, ?k) = Some u"
    using that by (auto simp: CreateDeployment_def crud_simps)
  show "\<exists>y s'. UpdateDeployment t x s = (Inr y, s') \<and> stored KDeployment ?k (UDeployment y) s s' \<and>
      u_uid (UDeployment y) = u_uid u"
    if "contents s (KDeployment, ?k) = Some u"
    using that by (auto simp: UpdateDeployment_def crud_simps)
  show "UpdateDeployment t x s = (Inl (NotFound ''deployment'' ?k), s)" if "contents s (KDeployment, ?k) = None"
    using that by (simp add: UpdateDeployment_def crud_simps)
qed (auto simp: GetDeployment_def DeleteDeployment_def crud_simps)

end
