(* ===== verification/StoreStatus.thy ===== *)
theory StoreStatus
  imports StoreWorkloads
begin

text \<open>
  internal/store/store.go, the operations that are not plain CRUD: template sync and status
  updates from the reconcile loop (they mutate the stored object in place and stamp a new
  resource version only when something visible changed), the namespace purge, and the listing
  of namespaces with the phantom ones.
\<close>

section \<open>Contract of an in-place status update\<close>

text \<open>
  \<open>touched\<close>: the object under the key was rewritten in place, keeping its identity and its
  resource version; nothing was saved.
\<close>

definition touched :: "kind \<Rightarrow> nsname \<Rightarrow> uobj \<Rightarrow> store \<Rightarrow> store \<Rightarrow> bool" where
  "touched kd k u s s' \<longleftrightarrow>
     (\<exists>v. contents s (kd, k) = Some v \<and> u_rv u = u_rv v \<and> u_key u = u_key v) \<and>
     contents s' = (contents s)((kd, k) \<mapsto> u) \<and> s_resourceVer s' = s_resourceVer s \<and>
     s_pending s' = s_pending s \<and>
     (maps_wf s \<longrightarrow> maps_wf s') \<and> (events_ok s \<longrightarrow> events_ok s')"

lemma store_inv_touched:
  assumes inv: "store_inv s" and tc: "touched kd k u s s'"
  shows "store_inv s'"
proof -
  from tc obtain v where v: "contents s (kd, k) = Some v" "u_rv u = u_rv v" "u_key u = u_key v"
    and c: "contents s' = (contents s)((kd, k) \<mapsto> u)" and ver: "s_resourceVer s' = s_resourceVer s"
    by (auto simp: touched_def)
  have was: "\<exists>w'. contents s a = Some w' \<and> u_rv w = u_rv w' \<and> u_key w = u_key w'"
    if "contents s' a = Some w" for a w
    using that v unfolding c by (cases "a = (kd, k)") auto
  have kept: "rv_issued s' rv" if "rv_issued s rv" for rv
    using rv_issued_mono [OF that] ver by simp
  show ?thesis
    unfolding store_inv_def
  proof (intro conjI allI impI)
    show "maps_wf s'" "events_ok s'" "0 \<le> s_resourceVer s'"
      using store_invD(4-6) [OF inv] tc by (auto simp: touched_def)
    show "u_key w = k'" "rv_issued s' (u_rv w)" if "contents s' (kd', k') = Some w" for kd' k' w
      using was [OF that] store_invD(1,2) [OF inv, of kd' k'] kept by force+
    show "a = b" if "contents s' a = Some w" "contents s' b = Some z" "u_rv w = u_rv z" for a b w z
      using was [OF that(1)] was [OF that(2)] that(3) store_invD(3) [OF inv, of a _ b] by metis
  qed
qed

section \<open>Template sync\<close>

text \<open>\<open>copyStringMap\<close> keeps nil nil and copies otherwise; in the value model it is the identity.\<close>

definition copyStringMap :: "strmap option \<Rightarrow> strmap option" where
  "copyStringMap m = (case m of None \<Rightarrow> None | Some l \<Rightarrow> Some (map (\<lambda>(k, v). (k, v)) l))"

definition SyncPodTemplate :: "pod \<Rightarrow> store \<Rightarrow> bool \<times> store" where
  "SyncPodTemplate p s =
     (let key = okey p in
      case mget (s_pods s) key of
        None \<Rightarrow> (False, s)
      | Some old \<Rightarrow>
          if pod_spec old = pod_spec p
             \<and> meq_nil (om_labels (o_meta old)) (om_labels (o_meta p))
             \<and> meq_nil (om_annotations (o_meta old)) (om_annotations (o_meta p))
             \<and> om_ownerReferences (o_meta old) = om_ownerReferences (o_meta p)
          then (True, s)
          else
            (let (rv, s1) = incRV s;
                 updated = omod (\<lambda>m. m\<lparr>om_labels := copyStringMap (om_labels (o_meta p)),
                     om_annotations := copyStringMap (om_annotations (o_meta p)),
                     om_ownerReferences := om_ownerReferences (o_meta p),
                     om_resourceVersion := rv\<rparr>) (old\<lparr>pod_spec := pod_spec p\<rparr>)
             in (True, go_save (put_pods key updated s1))))"

lemma copyStringMap_id [simp]: "copyStringMap m = m"
  by (cases m) (simp_all add: copyStringMap_def)

section \<open>Pod phases\<close>

definition PodRunning :: string where "PodRunning = ''Running''"

definition PodSucceeded :: string where "PodSucceeded = ''Succeeded''"

definition PodFailed :: string where "PodFailed = ''Failed''"

definition PodPending :: string where "PodPending = ''Pending''"

lemmas pod_phases = PodRunning_def PodSucceeded_def PodFailed_def PodPending_def

definition podPhaseEvent :: "string \<Rightarrow> string \<Rightarrow> string \<Rightarrow> (string \<times> string \<times> string) option" where
  "podPhaseEvent ns name phase =
     (if phase = PodRunning then
        Some (''Normal'', ''Started'', ''Started pod '' @ ns @ ''/'' @ name)
      else if phase = PodSucceeded then
        Some (''Normal'', ''Completed'', ''Pod '' @ ns @ ''/'' @ name @ '' completed successfully'')
      else if phase = PodFailed then
        Some (''Warning'', ''Failed'', ''Pod '' @ ns @ ''/'' @ name @ '' failed'')
      else None)"

definition fresh_status :: "container \<Rightarrow> container_status" where
  "fresh_status c =
     \<lparr>cs_name = c_name c, cs_image = c_image c, cs_ready = False, cs_restartCount = 0,
      cs_terminated = None\<rparr>"

text \<open>\<open>if len(statuses) == 0 && len(containers) > 0 { statuses = make \<dots> }\<close>\<close>

definition init_statuses :: "pod \<Rightarrow> container_status list" where
  "init_statuses p =
     (if pst_containerStatuses (pod_status p) = [] \<and> ps_containers (pod_spec p) \<noteq> []
      then map fresh_status (ps_containers (pod_spec p))
      else pst_containerStatuses (pod_status p))"

definition crashLooping :: "container_status \<Rightarrow> bool" where
  "crashLooping cs \<longleftrightarrow> cs_restartCount cs > 0 \<and>
     (case cs_terminated cs of None \<Rightarrow> False | Some (code, _) \<Rightarrow> code \<noteq> 0)"

definition should_be_ready :: "string \<Rightarrow> string \<Rightarrow> container_status \<Rightarrow> bool" where
  "should_be_ready phase health cs \<longleftrightarrow>
     phase = PodRunning \<and> \<not> crashLooping cs \<and> (health = [] \<or> health = ''healthy'')"

text \<open>The tail shared by the phase updates: stamp when changed, save and record the event.\<close>

definition finish_phase ::
  "time \<Rightarrow> string \<Rightarrow> string \<Rightarrow> string \<Rightarrow> bool \<Rightarrow> bool \<Rightarrow> pod \<Rightarrow> store \<Rightarrow> store" where
  "finish_phase now ns name phase phaseChanged changed p s =
     (if changed then
        (let (rv, s1) = incRV s;
             p1 = omod (om_resourceVersion_update (\<lambda>_. rv)) p;
             s2 = go_save (put_pods (ns, name) p1 s1)
         in if phaseChanged then
              (case podPhaseEvent ns name phase of
                 Some (evType, reason, msg) \<Rightarrow>
                   recordEvent now ''Pod'' ns name (o_uid p1) evType reason msg s2
               | None \<Rightarrow> s2)
            else s2)
      else put_pods (ns, name) p s)"

definition UpdatePodPhase :: "time \<Rightarrow> string \<Rightarrow> string \<Rightarrow> string \<Rightarrow> string \<Rightarrow> store \<Rightarrow> store" where
  "UpdatePodPhase now ns name phase health s =
     (case mget (s_pods s) (ns, name) of
        None \<Rightarrow> s
      | Some p \<Rightarrow>
        (let phaseChanged = (pst_phase (pod_status p) \<noteq> phase);
             sts = init_statuses p;
             sts' = map (\<lambda>cs. cs\<lparr>cs_ready := should_be_ready phase health cs\<rparr>) sts;
             changed = (phaseChanged \<or>
               list_ex (\<lambda>cs. cs_ready cs \<noteq> should_be_ready phase health cs) sts);
             p' = p\<lparr>pod_status := (pod_status p)\<lparr>pst_phase := phase, pst_containerStatuses := sts'\<rparr>\<rparr>
         in finish_phase now ns name phase phaseChanged changed p' s))"

record sync_state =
  ss_phase :: string
  ss_health :: string

text \<open>One container of \<open>UpdatePodContainerPhases\<close>: its new status and whether it changed.\<close>

definition sync_container ::
  "(string, container_status) gomap \<Rightarrow> (string, sync_state) gomap \<Rightarrow> container
     \<Rightarrow> container_status \<times> bool" where
  "sync_container old states c =
     (let (cs0, missing) = (case mget old (c_name c) of
            None \<Rightarrow> (fresh_status c, True)
          | Some cs \<Rightarrow> (cs, False));
          cs1 = (if cs_image cs0 = [] then cs0\<lparr>cs_image := c_image c\<rparr> else cs0);
          state = (case mget states (c_name c) of
            None \<Rightarrow> \<lparr>ss_phase = [], ss_health = []\<rparr>
          | Some st \<Rightarrow> st);
          ready = should_be_ready (ss_phase state) (ss_health state) cs1
      in (cs1\<lparr>cs_ready := ready\<rparr>, missing \<or> cs_ready cs1 \<noteq> ready))"

definition UpdatePodContainerPhases ::
  "time \<Rightarrow> string \<Rightarrow> string \<Rightarrow> string \<Rightarrow> (string, sync_state) gomap \<Rightarrow> store \<Rightarrow> store" where
  "UpdatePodContainerPhases now ns name phase states s =
     (case mget (s_pods s) (ns, name) of
        None \<Rightarrow> s
      | Some p \<Rightarrow>
        (let phaseChanged = (pst_phase (pod_status p) \<noteq> phase);
             sts = pst_containerStatuses (pod_status p);
             old = fold (\<lambda>cs m. mput (cs_name cs) cs m) sts [];
             res = map (sync_container old states) (ps_containers (pod_spec p));
             sts' = map fst res;
             changed = (phaseChanged \<or> list_ex snd res \<or> map cs_name sts' \<noteq> map cs_name sts);
             p' = p\<lparr>pod_status := (pod_status p)\<lparr>pst_phase := phase, pst_containerStatuses := sts'\<rparr>\<rparr>
         in finish_phase now ns name phase phaseChanged changed p' s))"

text \<open>One container of \<open>UpdatePodRestartInfo\<close>.\<close>

definition restart_container :: "int \<Rightarrow> int \<Rightarrow> bool \<Rightarrow> container_status \<Rightarrow> container_status \<times> bool" where
  "restart_container restartCount exitCode hasExited cs =
     (let reason = (if exitCode \<noteq> 0 then ''Error'' else ''Completed'');
          c1 = (cs_restartCount cs \<noteq> restartCount);
          cs1 = cs\<lparr>cs_restartCount := restartCount\<rparr>;
          c2 = (hasExited \<and> cs_terminated cs1 \<noteq> Some (exitCode, reason));
          cs2 = (if c2 then cs1\<lparr>cs_terminated := Some (exitCode, reason)\<rparr> else cs1);
          c3 = (restartCount > 0 \<and> exitCode \<noteq> 0 \<and> cs_ready cs2);
          cs3 = (if c3 then cs2\<lparr>cs_ready := False\<rparr> else cs2)
      in (cs3, c1 \<or> c2 \<or> c3))"

definition UpdatePodRestartInfo :: "string \<Rightarrow> string \<Rightarrow> int \<Rightarrow> int \<Rightarrow> bool \<Rightarrow> store \<Rightarrow> store" where
  "UpdatePodRestartInfo ns name restartCount exitCode hasExited s =
     (case mget (s_pods s) (ns, name) of
        None \<Rightarrow> s
      | Some p \<Rightarrow>
        (let res = map (restart_container restartCount exitCode hasExited) (init_statuses p);
             changed = list_ex snd res;
             p' = p\<lparr>pod_status := (pod_status p)\<lparr>pst_containerStatuses := map fst res\<rparr>\<rparr>
         in if changed then
              (let (rv, s1) = incRV s
               in go_save (put_pods (ns, name) (omod (om_resourceVersion_update (\<lambda>_. rv)) p') s1))
            else put_pods (ns, name) p' s))"

section \<open>Job and deployment status\<close>

definition UpdateJobStatus :: "time \<Rightarrow> string \<Rightarrow> string \<Rightarrow> int \<Rightarrow> int \<Rightarrow> int \<Rightarrow> store \<Rightarrow> store" where
  "UpdateJobStatus now ns name active succeeded failed s =
     (case mget (s_jobs s) (ns, name) of
        None \<Rightarrow> s
      | Some j \<Rightarrow>
          if job_active j \<noteq> active \<or> job_succeeded j \<noteq> succeeded \<or> job_failed j \<noteq> failed then
            (let (rv, s1) = incRV s;
                 j' = omod (om_resourceVersion_update (\<lambda>_. rv))
                   (j\<lparr>job_active := active, job_succeeded := succeeded, job_failed := failed\<rparr>);
                 s2 = go_save (put_jobs (ns, name) j' s1)
             in if failed > 0 then
                  recordEvent now ''Job'' ns name (o_uid j') ''Warning'' ''Failed''
                    (''Job '' @ ns @ ''/'' @ name @ '' failed'') s2
                else if succeeded > 0 then
                  recordEvent now ''Job'' ns name (o_uid j') ''Normal'' ''Completed''
                    (''Job '' @ ns @ ''/'' @ name @ '' completed successfully'') s2
                else if active > 0 then
                  recordEvent now ''Job'' ns name (o_uid j') ''Normal'' ''Started''
                    (''Job '' @ ns @ ''/'' @ name @ '' started'') s2
                else s2)
          else s)"

definition UpdateDeploymentStatus :: "time \<Rightarrow> string \<Rightarrow> string \<Rightarrow> int \<Rightarrow> store \<Rightarrow> store" where
  "UpdateDeploymentStatus now ns name ready s =
     (case mget (s_deployments s) (ns, name) of
        None \<Rightarrow> s
      | Some d \<Rightarrow>
        (let desired = (case ds_replicas (dep_spec d) of Some n \<Rightarrow> n | None \<Rightarrow> 1) in
         if dst_readyReplicas (dep_status d) \<noteq> ready
            \<or> dst_observedGeneration (dep_status d) \<noteq> om_generation (o_meta d) then
           (let (rv, s1) = incRV s;
                st = \<lparr>dst_replicas = desired, dst_readyReplicas = ready,
                      dst_availableReplicas = ready, dst_updatedReplicas = desired,
                      dst_observedGeneration = om_generation (o_meta d)\<rparr>;
                d' = omod (om_resourceVersion_update (\<lambda>_. rv)) (d\<lparr>dep_status := st\<rparr>)
            in recordEvent now ''Deployment'' ns name (o_uid d') ''Normal'' ''ScalingReplicaSet''
                 (''Deployment '' @ ns @ ''/'' @ name @ '': '' @ Itoa ready @ ''/'' @ Itoa desired
                    @ '' replicas ready'')
                 (go_save (put_deployments (ns, name) d' s1)))
         else s))"

section \<open>Namespaces: purge and listing\<close>

definition PurgeNamespace :: "string \<Rightarrow> store \<Rightarrow> store" where
  "PurgeNamespace name s =
     (let inns = (\<lambda>k. fst k = name) in
      go_save (s\<lparr>s_pods := mdrop inns (s_pods s), s_services := mdrop inns (s_services s),
        s_pvcs := mdrop inns (s_pvcs s), s_configmaps := mdrop inns (s_configmaps s),
        s_secrets := mdrop inns (s_secrets s), s_deployments := mdrop inns (s_deployments s),
        s_jobs := mdrop inns (s_jobs s), s_cronjobs := mdrop inns (s_cronjobs s),
        s_ingresses := mdrop inns (s_ingresses s), s_middlewares := mdrop inns (s_middlewares s),
        s_ingressRouteTCPs := mdrop inns (s_ingressRouteTCPs s),
        s_resourceVer := s_resourceVer s + 1\<rparr>))"

definition phantom :: "string \<Rightarrow> string list \<times> namespace list \<Rightarrow> string list \<times> namespace list" where
  "phantom name acc =
     (case acc of (seen, result) \<Rightarrow>
        if name \<in> set seen then (seen, result)
        else (name # seen, result @ [bare_namespace name [] ''Active'']))"

text \<open>The namespaces of the keys of every resource map, in the order the code visits them.\<close>

definition used_namespaces :: "store \<Rightarrow> string list" where
  "used_namespaces s =
     map (fst \<circ> fst) (s_pods s) @ map (fst \<circ> fst) (s_services s) @
     map (fst \<circ> fst) (s_deployments s) @ map (fst \<circ> fst) (s_jobs s) @
     map (fst \<circ> fst) (s_cronjobs s) @ map (fst \<circ> fst) (s_configmaps s) @
     map (fst \<circ> fst) (s_secrets s) @ map (fst \<circ> fst) (s_pvcs s) @
     map (fst \<circ> fst) (s_ingresses s) @ map (fst \<circ> fst) (s_middlewares s) @
     map (fst \<circ> fst) (s_ingressRouteTCPs s)"

definition ListNamespaces :: "store \<Rightarrow> namespace list" where
  "ListNamespaces s =
     snd (fold phantom (used_namespaces s)
       (map (\<lambda>x. o_name x) (mvals (s_namespaces s)), mvals (s_namespaces s)))"

section \<open>The status operations keep the store invariant\<close>

lemma store_inv_recordEvent [simp]:
  "store_inv s \<Longrightarrow> store_inv (recordEvent now k ns name uid et r m s)"
  by (simp add: store_inv_def rv_issued_def)

lemma store_inv_put_pod:
  assumes inv: "store_inv s" and old: "mget (s_pods s) (ns, name) = Some q"
    and same: "okey p = okey q" "o_rv p = o_rv q"
  shows "store_inv (put_pods (ns, name) p s)"
proof -
  have "touched KPod (ns, name) (UPod p) s (put_pods (ns, name) p s)"
    using assms by (simp add: touched_def)
  with inv show ?thesis by (rule store_inv_touched)
qed

lemma store_inv_put_pod_rv:
  assumes inv: "store_inv s" and old: "mget (s_pods s) (ns, name) = Some q"
    and same: "okey p = okey q"
  shows "store_inv (go_save (put_pods (ns, name)
    (omod (om_resourceVersion_update (\<lambda>_. Itoa (s_resourceVer s + 1))) p)
    (s\<lparr>s_resourceVer := s_resourceVer s + 1\<rparr>)))" (is "store_inv ?t")
proof -
  have "u_key (UPod q) = (ns, name)"
    by (rule store_invD(1) [OF inv, of KPod]) (simp add: old)
  then have "stored KPod (ns, name)
      (UPod (omod (om_resourceVersion_update (\<lambda>_. Itoa (s_resourceVer s + 1))) p)) s ?t"
    using same by (simp add: stored_def okey_def)
  with inv show ?thesis by (rule store_inv_stored)
qed

lemma store_inv_finish_phase:
  assumes "store_inv s" and "mget (s_pods s) (ns, name) = Some q"
    and "okey p = okey q" "o_rv p = o_rv q"
  shows "store_inv (finish_phase now ns name phase pc ch p s)"
  using store_inv_put_pod [OF assms] store_inv_put_pod_rv [OF assms(1-3)]
  by (auto simp: finish_phase_def incRV_def Let_def split: option.splits)

lemma SyncPodTemplate_inv: "store_inv s \<Longrightarrow> store_inv (snd (SyncPodTemplate p s))"
proof (cases "mget (s_pods s) (okey p)")
  case (Some q)
  assume inv: "store_inv s"
  then have "u_key (UPod q) = okey p"
    by (rule store_invD(1) [where kd = KPod]) (simp add: Some)
  then have key: "okey q = okey p" by simp
  show ?thesis
  proof (cases "snd (SyncPodTemplate p s) = s")
    case True
    with inv show ?thesis by simp
  next
    case False
    let ?m = "\<lambda>m. m\<lparr>om_labels := om_labels (o_meta p),
      om_annotations := om_annotations (o_meta p),
      om_ownerReferences := om_ownerReferences (o_meta p),
      om_resourceVersion := Itoa (s_resourceVer s + 1)\<rparr>"
    have "stored KPod (okey p) (UPod (omod ?m (q\<lparr>pod_spec := pod_spec p\<rparr>))) s (snd (SyncPodTemplate p s))"
      using Some key False
      by (auto simp: SyncPodTemplate_def incRV_def Let_def stored_def okey_def split: if_splits)
    with inv show ?thesis by (rule store_inv_stored)
  qed
qed (simp add: SyncPodTemplate_def)

lemma UpdatePodPhase_inv: "store_inv s \<Longrightarrow> store_inv (UpdatePodPhase now ns name phase health s)"
  unfolding UpdatePodPhase_def Let_def
  by (cases "mget (s_pods s) (ns, name)")
    (auto intro!: store_inv_finish_phase simp: okey_def)

lemma UpdatePodContainerPhases_inv:
  "store_inv s \<Longrightarrow> store_inv (UpdatePodContainerPhases now ns name phase states s)"
  unfolding UpdatePodContainerPhases_def Let_def
  by (cases "mget (s_pods s) (ns, name)")
    (auto intro!: store_inv_finish_phase simp: okey_def)

lemma UpdatePodRestartInfo_inv: "store_inv s \<Longrightarrow> store_inv (UpdatePodRestartInfo ns name rc ec ex s)"
proof (cases "mget (s_pods s) (ns, name)")
  case (Some q)
  assume inv: "store_inv s"
  have key: "okey (q\<lparr>pod_status := st\<rparr>) = okey q" for st by (simp add: okey_def)
  show ?thesis
    unfolding UpdatePodRestartInfo_def Let_def incRV_def
    using store_inv_put_pod [OF inv Some key] store_inv_put_pod_rv [OF inv Some key]
    by (simp add: Some)
qed (simp add: UpdatePodRestartInfo_def)

lemma UpdateJobStatus_inv: "store_inv s \<Longrightarrow> store_inv (UpdateJobStatus now ns name a sc f s)"
proof (cases "mget (s_jobs s) (ns, name)")
  case (Some j)
  assume inv: "store_inv s"
  then have "u_key (UJob j) = (ns, name)"
    by (rule store_invD(1) [where kd = KJob]) (simp add: Some)
  then have "stored KJob (ns, name) (UJob (omod (om_resourceVersion_update
      (\<lambda>_. Itoa (s_resourceVer s + 1))) (j\<lparr>job_active := a, job_succeeded := sc, job_failed := f\<rparr>))) s
    (go_save (put_jobs (ns, name) (omod (om_resourceVersion_update
      (\<lambda>_. Itoa (s_resourceVer s + 1))) (j\<lparr>job_active := a, job_succeeded := sc, job_failed := f\<rparr>))
      (s\<lparr>s_resourceVer := s_resourceVer s + 1\<rparr>)))"
    by (simp add: stored_def okey_def)
  then have "store_inv (go_save (put_jobs (ns, name) (omod (om_resourceVersion_update
      (\<lambda>_. Itoa (s_resourceVer s + 1))) (j\<lparr>job_active := a, job_succeeded := sc, job_failed := f\<rparr>))
      (s\<lparr>s_resourceVer := s_resourceVer s + 1\<rparr>)))"
    using inv store_inv_stored by blast
  with inv Some show ?thesis
    by (simp add: UpdateJobStatus_def incRV_def Let_def)
qed (simp add: UpdateJobStatus_def)

lemma UpdateDeploymentStatus_inv:
  "store_inv s \<Longrightarrow> store_inv (UpdateDeploymentStatus now ns name ready s)"
proof (cases "mget (s_deployments s) (ns, name)")
  case (Some d)
  assume inv: "store_inv s"
  then have key: "u_key (UDeployment d) = (ns, name)"
    by (rule store_invD(1) [where kd = KDeployment]) (simp add: Some)
  have st: "store_inv (go_save (put_deployments (ns, name) (omod (om_resourceVersion_update
      (\<lambda>_. Itoa (s_resourceVer s + 1))) (d\<lparr>dep_status := st\<rparr>))
      (s\<lparr>s_resourceVer := s_resourceVer s + 1\<rparr>)))" for st
    by (rule store_inv_stored [OF inv, of KDeployment "(ns, name)" "UDeployment (omod
      (om_resourceVersion_update (\<lambda>_. Itoa (s_resourceVer s + 1))) (d\<lparr>dep_status := st\<rparr>))"])
      (use key in \<open>simp add: stored_def okey_def\<close>)
  with inv Some show ?thesis
    by (simp add: UpdateDeploymentStatus_def incRV_def Let_def)
qed (simp add: UpdateDeploymentStatus_def)

text \<open>The purge drops exactly the namespaced objects of its namespace.\<close>

lemma contents_purge:
  "contents (PurgeNamespace name s) (kd, k) =
     (if kd \<noteq> KNamespace \<and> fst k = name then None else contents s (kd, k))"
  by (cases kd) (simp_all add: PurgeNamespace_def Let_def go_save_def map_laws)

lemma PurgeNamespace_inv: "store_inv s \<Longrightarrow> store_inv (PurgeNamespace name s)"
proof -
  assume inv: "store_inv s"
  let ?s = "PurgeNamespace name s"
  have old: "contents s a = Some u" if "contents ?s a = Some u" for a u
    using that by (cases a) (simp add: contents_purge split: if_splits)
  have ver: "s_resourceVer ?s = s_resourceVer s + 1"
    by (simp add: PurgeNamespace_def Let_def go_save_def)
  have kept: "rv_issued ?s rv" if "rv_issued s rv" for rv
    using rv_issued_mono [OF that] ver by simp
  show ?thesis
    unfolding store_inv_def
  proof (intro conjI allI impI)
    show "maps_wf ?s" "events_ok ?s" "0 \<le> s_resourceVer ?s"
      using store_invD(4-6) [OF inv]
      by (simp_all add: PurgeNamespace_def Let_def go_save_def maps_wf_def events_ok_def)
    show "u_key u = k'" "rv_issued ?s (u_rv u)" if "contents ?s (kd', k') = Some u" for kd' k' u
      using store_invD(1,2) [OF inv old [OF that]] kept by simp_all
    show "a = b" if "contents ?s a = Some u" "contents ?s b = Some v" "u_rv u = u_rv v" for a b u v
      using store_invD(3) [OF inv old old] that by blast
  qed
qed

section \<open>Listing namespaces\<close>

lemma phantom_new: "n \<notin> set seen \<Longrightarrow>
    phantom n (seen, res) = (n # seen, res @ [bare_namespace n [] ''Active''])"
  and phantom_old: "n \<in> set seen \<Longrightarrow> phantom n (seen, res) = (seen, res)"
  by (simp_all add: phantom_def)

lemma phantom_fold:
  assumes "fold phantom ns (seen, res) = (seen', res')"
    and "set seen = set (map (\<lambda>x. o_name x) res)" and "distinct (map (\<lambda>x. o_name x) res)"
  shows "set (map (\<lambda>x. o_name x) res') = set (map (\<lambda>x. o_name x) res) \<union> set ns \<and>
    distinct (map (\<lambda>x. o_name x) res')"
  using assms
proof (induction ns arbitrary: seen res)
  case (Cons n ns)
  show ?case
  proof (cases "n \<in> set seen")
    case True
    with Cons.prems(1) have "fold phantom ns (seen, res) = (seen', res')"
      by (simp only: fold_simps phantom_old)
    from Cons.IH [OF this Cons.prems(2,3)] True Cons.prems(2) show ?thesis by auto
  next
    case False
    let ?res = "res @ [bare_namespace n [] ''Active'']"
    have nm: "o_name (bare_namespace n [] ''Active'') = n" by (simp add: bare_namespace_def)
    from False Cons.prems(1) have f: "fold phantom ns (n # seen, ?res) = (seen', res')"
      by (simp only: fold_simps phantom_new [OF False])
    have s: "set (n # seen) = set (map (\<lambda>x. o_name x) ?res)" using Cons.prems(2) nm by auto
    have d: "distinct (map (\<lambda>x. o_name x) ?res)"
      using Cons.prems(2,3) False nm by simp
    from Cons.IH [OF f s d] show ?thesis using nm by auto
  qed
qed simp

lemma ns_of: "n \<in> set (map (fst \<circ> fst) m) \<longleftrightarrow> (\<exists>name. mget m (n, name) \<noteq> None)"
  by (force simp: map_of_eq_None_iff)

lemma ex_kind: "(\<exists>kd. P kd) \<longleftrightarrow> P KNamespace \<or> P KPod \<or> P KService \<or> P KPVC \<or> P KConfigMap \<or>
    P KSecret \<or> P KJob \<or> P KCronJob \<or> P KDeployment \<or> P KIngress \<or> P KMiddleware \<or>
    P KIngressRouteTCP"
proof
  assume "\<exists>kd. P kd"
  then obtain kd where "P kd" ..
  then show "P KNamespace \<or> P KPod \<or> P KService \<or> P KPVC \<or> P KConfigMap \<or>
    P KSecret \<or> P KJob \<or> P KCronJob \<or> P KDeployment \<or> P KIngress \<or> P KMiddleware \<or>
    P KIngressRouteTCP"
    by (cases kd) simp_all
qed (elim disjE; rule exI)

lemma used_namespaces_iff:
  "n \<in> set (used_namespaces s) \<longleftrightarrow> (\<exists>kd. kd \<noteq> KNamespace \<and> (\<exists>name. contents s (kd, n, name) \<noteq> None))"
  unfolding ex_kind used_namespaces_def set_append Un_iff ns_of
  by (simp only: contents.simps option.map_disc_iff kind.distinct simp_thms not_False_eq_True) argo

text \<open>Names listed: the stored namespaces and those some object lives in, each once.\<close>

lemma ListNamespaces_names:
  assumes "store_inv s"
  shows "n \<in> set (map (\<lambda>x. o_name x) (ListNamespaces s)) \<longleftrightarrow>
      (\<exists>u. contents s (KNamespace, [], n) = Some u) \<or>
      (\<exists>kd. kd \<noteq> KNamespace \<and> (\<exists>name. contents s (kd, n, name) \<noteq> None))"
    and "distinct (map (\<lambda>x. o_name x) (ListNamespaces s))"
proof -
  let ?v = "mvals (s_namespaces s)" and ?nm = "map (\<lambda>x::namespace. o_name x)"
  have wf: "mwf (s_namespaces s)" using store_invD(5) [OF assms] by (simp add: maps_wf_def)
  have key: "k = ([], o_name v)" if "mget (s_namespaces s) k = Some v" for k v
    using store_invD(1) [OF assms, of KNamespace k "UNamespace v"] that by simp
  have "map (\<lambda>v. (([], o_name v), v)) ?v = s_namespaces s"
    by (rule mget_keyed [OF _ wf]) (simp add: key [symmetric])
  from arg_cong [OF this, of "map fst"]
  have "map fst (s_namespaces s) = map (Pair []) (?nm ?v)" by (simp add: comp_def)
  with wf have "distinct (map (Pair ([]::string)) (?nm ?v))" unfolding mwf_def by (simp only:)
  then have d: "distinct (?nm ?v)" by (simp only: distinct_map)
  have base: "n \<in> set (?nm ?v) \<longleftrightarrow> (\<exists>u. contents s (KNamespace, [], n) = Some u)" for n
  proof
    assume "n \<in> set (?nm ?v)"
    then obtain v where v: "v \<in> set ?v" "n = o_name v" by auto
    then obtain k where "mget (s_namespaces s) k = Some v" using mvals_conv [OF wf] by blast
    with key [OF this] v(2) show "\<exists>u. contents s (KNamespace, [], n) = Some u" by simp
  next
    assume "\<exists>u. contents s (KNamespace, [], n) = Some u"
    then obtain v where v: "mget (s_namespaces s) ([], n) = Some v" by auto
    with mvals_conv [OF wf] have "v \<in> set ?v" by blast
    with key [OF v] show "n \<in> set (?nm ?v)" by force
  qed
  obtain sn rs where f: "fold phantom (used_namespaces s) (?nm ?v, ?v) = (sn, rs)" by fastforce
  have ls: "ListNamespaces s = rs" unfolding ListNamespaces_def f by simp
  from phantom_fold [OF f refl d] show "distinct (?nm (ListNamespaces s))" by (simp add: ls)
  from phantom_fold [OF f refl d]
  have "set (?nm (ListNamespaces s)) = set (?nm ?v) \<union> set (used_namespaces s)"
    unfolding ls by (rule conjunct1)
  then show "n \<in> set (?nm (ListNamespaces s)) \<longleftrightarrow>
      (\<exists>u. contents s (KNamespace, [], n) = Some u) \<or>
      (\<exists>kd. kd \<noteq> KNamespace \<and> (\<exists>name. contents s (kd, n, name) \<noteq> None))"
    by (simp only: Un_iff base used_namespaces_iff)
qed

end
