(* ===== verification/StoreMachine.thy ===== *)
theory StoreMachine
  imports StoreStatus
begin

text \<open>
  The store as a state machine: every operation of internal/store/store.go that changes state as
  one step, the states reachable from a fresh store, and the simulation of the steps by the
  abstract contract of a versioned object map.
\<close>

section \<open>What one step may do\<close>

definition fresh_rv :: "store \<Rightarrow> store \<Rightarrow> string \<Rightarrow> bool" where
  "fresh_rv s s' rv \<longleftrightarrow>
     (\<exists>n. s_resourceVer s < n \<and> n \<le> s_resourceVer s' \<and> rv = Itoa n)"

text \<open>
  The contract of a versioned map: the counter never goes back; an object that is there after
  the step either carries a version handed out during the step or sat under the same key with
  the same version before; an object that survives keeps its UID.
\<close>

definition rv_step :: "store \<Rightarrow> store \<Rightarrow> bool" where
  "rv_step s s' \<longleftrightarrow> s_resourceVer s \<le> s_resourceVer s' \<and>
     (\<forall>a v. contents s' a = Some v \<longrightarrow>
        fresh_rv s s' (u_rv v) \<or> (\<exists>u. contents s a = Some u \<and> u_rv u = u_rv v))"

definition uid_step :: "store \<Rightarrow> store \<Rightarrow> bool" where
  "uid_step s s' \<longleftrightarrow>
     (\<forall>a u v. contents s a = Some u \<longrightarrow> contents s' a = Some v \<longrightarrow> u_uid u = u_uid v)"

definition evolves :: "store \<Rightarrow> store \<Rightarrow> bool" where
  "evolves s s' \<longleftrightarrow> rv_step s s' \<and> uid_step s s'"

lemma evolves_refl [simp, intro]: "evolves s s"
  by (auto simp: evolves_def rv_step_def uid_step_def)

lemma rv_step_refl [simp, intro]: "rv_step s s"
  by (auto simp: rv_step_def)

lemma fresh_rv_mono:
  "fresh_rv s s' rv \<Longrightarrow> s_resourceVer t \<le> s_resourceVer s \<Longrightarrow> s_resourceVer s' \<le> s_resourceVer t'
    \<Longrightarrow> fresh_rv t t' rv"
proof -
  assume le: "s_resourceVer t \<le> s_resourceVer s" "s_resourceVer s' \<le> s_resourceVer t'"
  assume "fresh_rv s s' rv"
  then obtain n where "s_resourceVer s < n" "n \<le> s_resourceVer s'" "rv = Itoa n"
    by (auto simp: fresh_rv_def)
  with le show "fresh_rv t t' rv"
    unfolding fresh_rv_def by (intro exI [of _ n]) simp
qed

lemma rv_step_trans:
  assumes ab: "rv_step a b" and bc: "rv_step b c"
  shows "rv_step a c"
proof -
  have ver: "s_resourceVer a \<le> s_resourceVer b" "s_resourceVer b \<le> s_resourceVer c"
    using ab bc by (simp_all add: rv_step_def)
  have "fresh_rv a c (u_rv v) \<or> (\<exists>u. contents a k = Some u \<and> u_rv u = u_rv v)"
    if v: "contents c k = Some v" for k v
  proof (cases "fresh_rv b c (u_rv v)")
    case True
    then show ?thesis using fresh_rv_mono ver by blast
  next
    case False
    with bc v obtain w where w: "contents b k = Some w" "u_rv w = u_rv v"
      unfolding rv_step_def by blast
    with ab have "fresh_rv a b (u_rv w) \<or> (\<exists>u. contents a k = Some u \<and> u_rv u = u_rv w)"
      unfolding rv_step_def by blast
    with w(2) ver fresh_rv_mono [of a b "u_rv v" a c] show ?thesis by auto
  qed
  with ver show ?thesis by (simp add: rv_step_def)
qed

lemma evolves_contents:
  assumes "contents s' = contents t'" "s_resourceVer s' = s_resourceVer t'"
  shows "evolves s s' = evolves s t'"
  using assms by (simp add: evolves_def rv_step_def uid_step_def fresh_rv_def)

lemma evolves_put:
  assumes c: "contents s' = (contents s)(a \<mapsto> u)" and ver: "s_resourceVer s' = s_resourceVer s + 1"
    and rv: "u_rv u = Itoa (s_resourceVer s + 1)"
    and uid: "\<And>v. contents s a = Some v \<Longrightarrow> u_uid u = u_uid v"
  shows "evolves s s'"
proof -
  have "fresh_rv s s' (u_rv u)"
    unfolding fresh_rv_def rv ver by (rule exI [of _ "s_resourceVer s + 1"]) simp
  with uid ver show ?thesis
    unfolding evolves_def rv_step_def uid_step_def c by (auto split: if_splits)
qed

lemma evolves_touch:
  assumes c: "contents s' = (contents s)(a \<mapsto> u)" and ver: "s_resourceVer s' = s_resourceVer s"
    and old: "contents s a = Some v" "u_rv u = u_rv v" "u_uid u = u_uid v"
  shows "evolves s s'"
  using ver old unfolding evolves_def rv_step_def uid_step_def fresh_rv_def c
  by (auto split: if_splits)

lemma evolves_sub:
  assumes "\<And>a u. contents s' a = Some u \<Longrightarrow> contents s a = Some u"
    and "s_resourceVer s \<le> s_resourceVer s'"
  shows "evolves s s'"
  using assms unfolding evolves_def rv_step_def uid_step_def by fastforce

context object_kind
begin

lemma create_evolves: "evolves s (snd (create t x s))"
proof (cases "contents s (kd, kof (key x))")
  case None
  with create_free [OF this, of t] obtain y s'
    where "create t x s = (Inr y, s')" and "stored kd (kof (key x)) (inj y) s s'" by blast
  with None show ?thesis
    by (auto simp: stored_def intro: evolves_put [of _ _ "(kd, kof (key x))" "inj y"])
qed (simp add: create_taken)

lemma update_evolves: "evolves s (snd (update t x s))"
proof (cases "contents s (kd, kof (key x))")
  case (Some u)
  with update_present [OF this, of t] obtain y s'
    where "update t x s = (Inr y, s')" and "stored kd (kof (key x)) (inj y) s s'"
      and "u_uid (inj y) = u_uid u" by blast
  with Some show ?thesis
    by (auto simp: stored_def intro: evolves_put [of _ _ "(kd, kof (key x))" "inj y"])
qed (simp add: update_absent)

lemma delete_evolves: "evolves s (snd (delete t k s))"
proof (cases "contents s (kd, kof k)")
  case (Some u)
  with delete_present [OF this, of t] obtain s'
    where "delete t k s = (None, s')" and "removed kd (kof k) s s'" by blast
  then show ?thesis
    by (auto simp: removed_def split: if_splits intro!: evolves_sub)
qed (simp add: delete_absent)

end

section \<open>The operations as steps\<close>

fun create_obj :: "time \<Rightarrow> uobj \<Rightarrow> store \<Rightarrow> store" where
  "create_obj t (UNamespace x) s = snd (CreateNamespace t x s)"
| "create_obj t (UPod x) s = snd (CreatePod t x s)"
| "create_obj t (UService x) s = snd (CreateService t x s)"
| "create_obj t (UPVC x) s = snd (CreatePVC t x s)"
| "create_obj t (UConfigMap x) s = snd (CreateConfigMap t x s)"
| "create_obj t (USecret x) s = snd (CreateSecret t x s)"
| "create_obj t (UJob x) s = snd (CreateJob t x s)"
| "create_obj t (UCronJob x) s = snd (CreateCronJob t x s)"
| "create_obj t (UDeployment x) s = snd (CreateDeployment t x s)"
| "create_obj t (UIngress x) s = snd (CreateIngress t x s)"
| "create_obj t (UMiddleware x) s = snd (CreateMiddleware t x s)"
| "create_obj t (UIngressRouteTCP x) s = snd (CreateIngressRouteTCP t x s)"

fun update_obj :: "time \<Rightarrow> uobj \<Rightarrow> store \<Rightarrow> store" where
  "update_obj t (UNamespace x) s = snd (UpdateNamespace t x s)"
| "update_obj t (UPod x) s = snd (UpdatePod t x s)"
| "update_obj t (UService x) s = snd (UpdateService t x s)"
| "update_obj t (UPVC x) s = snd (UpdatePVC t x s)"
| "update_obj t (UConfigMap x) s = snd (UpdateConfigMap t x s)"
| "update_obj t (USecret x) s = snd (UpdateSecret t x s)"
| "update_obj t (UJob x) s = snd (UpdateJob t x s)"
| "update_obj t (UCronJob x) s = snd (UpdateCronJob t x s)"
| "update_obj t (UDeployment x) s = snd (UpdateDeployment t x s)"
| "update_obj t (UIngress x) s = snd (UpdateIngress t x s)"
| "update_obj t (UMiddleware x) s = snd (UpdateMiddleware t x s)"
| "update_obj t (UIngressRouteTCP x) s = snd (UpdateIngressRouteTCP t x s)"

fun delete_obj :: "time \<Rightarrow> kind \<Rightarrow> string \<Rightarrow> string \<Rightarrow> store \<Rightarrow> store" where
  "delete_obj t KNamespace ns n s = snd (DeleteNamespace t n s)"
| "delete_obj t KPod ns n s = snd (DeletePod t ns n s)"
| "delete_obj t KService ns n s = snd (DeleteService t ns n s)"
| "delete_obj t KPVC ns n s = snd (DeletePVC t ns n s)"
| "delete_obj t KConfigMap ns n s = snd (DeleteConfigMap t ns n s)"
| "delete_obj t KSecret ns n s = snd (DeleteSecret t ns n s)"
| "delete_obj t KJob ns n s = snd (DeleteJob t ns n s)"
| "delete_obj t KCronJob ns n s = snd (DeleteCronJob t ns n s)"
| "delete_obj t KDeployment ns n s = snd (DeleteDeployment t ns n s)"
| "delete_obj t KIngress ns n s = snd (DeleteIngress t ns n s)"
| "delete_obj t KMiddleware ns n s = snd (DeleteMiddleware t ns n s)"
| "delete_obj t KIngressRouteTCP ns n s = snd (DeleteIngressRouteTCP t ns n s)"

datatype store_op =
    OpCreate time uobj
  | OpUpdate time uobj
  | OpDelete time kind string string
  | OpPurge string
  | OpSyncTemplate pod
  | OpPodPhase time string string string string
  | OpContainerPhases time string string string "(string, sync_state) gomap"
  | OpRestartInfo string string int int bool
  | OpJobStatus time string string int int int
  | OpDeploymentStatus time string string int
  | OpRecordEvent time string string string string string string string

fun exec :: "store_op \<Rightarrow> store \<Rightarrow> store" where
  "exec (OpCreate t x) s = create_obj t x s"
| "exec (OpUpdate t x) s = update_obj t x s"
| "exec (OpDelete t kd ns n) s = delete_obj t kd ns n s"
| "exec (OpPurge ns) s = PurgeNamespace ns s"
| "exec (OpSyncTemplate p) s = snd (SyncPodTemplate p s)"
| "exec (OpPodPhase t ns n phase health) s = UpdatePodPhase t ns n phase health s"
| "exec (OpContainerPhases t ns n phase sts) s = UpdatePodContainerPhases t ns n phase sts s"
| "exec (OpRestartInfo ns n rc ec ex) s = UpdatePodRestartInfo ns n rc ec ex s"
| "exec (OpJobStatus t ns n a sc f) s = UpdateJobStatus t ns n a sc f s"
| "exec (OpDeploymentStatus t ns n r) s = UpdateDeploymentStatus t ns n r s"
| "exec (OpRecordEvent t k ns n u ty re ms) s = recordEvent t k ns n u ty re ms s"

lemmas delete_nsname =
  nsk.delete_inv [where k = "n" for n, simplified]
  nsk.delete_evolves [where k = "n" for n, simplified]
  podk.delete_inv [where k = "(ns, n)" for ns n, simplified]
  podk.delete_evolves [where k = "(ns, n)" for ns n, simplified]
  svck.delete_inv [where k = "(ns, n)" for ns n, simplified]
  svck.delete_evolves [where k = "(ns, n)" for ns n, simplified]
  pvck.delete_inv [where k = "(ns, n)" for ns n, simplified]
  pvck.delete_evolves [where k = "(ns, n)" for ns n, simplified]
  cmk.delete_inv [where k = "(ns, n)" for ns n, simplified]
  cmk.delete_evolves [where k = "(ns, n)" for ns n, simplified]
  seck.delete_inv [where k = "(ns, n)" for ns n, simplified]
  seck.delete_evolves [where k = "(ns, n)" for ns n, simplified]
  jobk.delete_inv [where k = "(ns, n)" for ns n, simplified]
  jobk.delete_evolves [where k = "(ns, n)" for ns n, simplified]
  cjk.delete_inv [where k = "(ns, n)" for ns n, simplified]
  cjk.delete_evolves [where k = "(ns, n)" for ns n, simplified]
  depk.delete_inv [where k = "(ns, n)" for ns n, simplified]
  depk.delete_evolves [where k = "(ns, n)" for ns n, simplified]
  ingk.delete_inv [where k = "(ns, n)" for ns n, simplified]
  ingk.delete_evolves [where k = "(ns, n)" for ns n, simplified]
  mwk.delete_inv [where k = "(ns, n)" for ns n, simplified]
  mwk.delete_evolves [where k = "(ns, n)" for ns n, simplified]
  irtk.delete_inv [where k = "(ns, n)" for ns n, simplified]
  irtk.delete_evolves [where k = "(ns, n)" for ns n, simplified]

lemma create_obj_ok: "(store_inv s \<longrightarrow> store_inv (create_obj t x s)) \<and> evolves s (create_obj t x s)"
  by (cases x)
    (simp_all add: nsk.create_inv nsk.create_evolves
      podk.create_inv podk.create_evolves
      svck.create_inv svck.create_evolves
      pvck.create_inv pvck.create_evolves
      cmk.create_inv cmk.create_evolves
      seck.create_inv seck.create_evolves
      jobk.create_inv jobk.create_evolves
      cjk.create_inv cjk.create_evolves
      depk.create_inv depk.create_evolves
      ingk.create_inv ingk.create_evolves
      mwk.create_inv mwk.create_evolves
      irtk.create_inv irtk.create_evolves)

lemma update_obj_ok: "(store_inv s \<longrightarrow> store_inv (update_obj t x s)) \<and> evolves s (update_obj t x s)"
  by (cases x)
    (simp_all add: nsk.update_inv nsk.update_evolves
      podk.update_inv podk.update_evolves
      svck.update_inv svck.update_evolves
      pvck.update_inv pvck.update_evolves
      cmk.update_inv cmk.update_evolves
      seck.update_inv seck.update_evolves
      jobk.update_inv jobk.update_evolves
      cjk.update_inv cjk.update_evolves
      depk.update_inv depk.update_evolves
      ingk.update_inv ingk.update_evolves
      mwk.update_inv mwk.update_evolves
      irtk.update_inv irtk.update_evolves)

lemma delete_obj_ok:
  "(store_inv s \<longrightarrow> store_inv (delete_obj t kd ns n s)) \<and> evolves s (delete_obj t kd ns n s)"
  by (cases kd) (simp_all add: delete_nsname)


section \<open>The in-place updates\<close>

lemma evolves_recordEvent [simp]: "evolves s (recordEvent now k ns name uid et r m s') = evolves s s'"
  by (rule evolves_contents) simp_all

lemma evolves_put_pod:
  assumes "mget (s_pods s) (ns, name) = Some q" and "o_uid p = o_uid q" and "o_rv p = o_rv q"
  shows "evolves s (put_pods (ns, name) p s)"
  by (rule evolves_touch [of _ _ "(KPod, ns, name)" "UPod p" "UPod q"]) (use assms in simp_all)

lemma evolves_put_pod_rv:
  assumes "mget (s_pods s) (ns, name) = Some q" and "o_uid p = o_uid q"
  shows "evolves s (go_save (put_pods (ns, name)
    (omod (om_resourceVersion_update (\<lambda>_. Itoa (s_resourceVer s + 1))) p)
    (s\<lparr>s_resourceVer := s_resourceVer s + 1\<rparr>)))"
  by (rule evolves_put [of _ _ "(KPod, ns, name)" "UPod (omod (om_resourceVersion_update
        (\<lambda>_. Itoa (s_resourceVer s + 1))) p)"])
    (use assms in auto)

lemma evolves_finish_phase:
  assumes "mget (s_pods s) (ns, name) = Some q" and "o_uid p = o_uid q" and "o_rv p = o_rv q"
  shows "evolves s (finish_phase now ns name phase pc ch p s)"
  using evolves_put_pod [OF assms] evolves_put_pod_rv [OF assms(1,2)]
  by (auto simp: finish_phase_def incRV_def Let_def split: option.splits)

lemma SyncPodTemplate_evolves: "evolves s (snd (SyncPodTemplate p s))"
proof (cases "mget (s_pods s) (okey p)")
  case (Some q)
  show ?thesis
  proof (cases "snd (SyncPodTemplate p s) = s")
    case False
    let ?m = "\<lambda>m. m\<lparr>om_labels := om_labels (o_meta p),
      om_annotations := om_annotations (o_meta p),
      om_ownerReferences := om_ownerReferences (o_meta p),
      om_resourceVersion := Itoa (s_resourceVer s + 1)\<rparr>"
    show ?thesis
      by (rule evolves_put [of _ _ "(KPod, okey p)" "UPod (omod ?m (q\<lparr>pod_spec := pod_spec p\<rparr>))"])
        (use Some False in \<open>auto simp: SyncPodTemplate_def incRV_def Let_def split: if_splits\<close>)
  qed simp
qed (simp add: SyncPodTemplate_def)

lemma UpdatePodPhase_evolves: "evolves s (UpdatePodPhase now ns name phase health s)"
  unfolding UpdatePodPhase_def Let_def
  by (cases "mget (s_pods s) (ns, name)") (auto intro!: evolves_finish_phase)

lemma UpdatePodContainerPhases_evolves:
  "evolves s (UpdatePodContainerPhases now ns name phase states s)"
  unfolding UpdatePodContainerPhases_def Let_def
  by (cases "mget (s_pods s) (ns, name)") (auto intro!: evolves_finish_phase)

lemma UpdatePodRestartInfo_evolves: "evolves s (UpdatePodRestartInfo ns name rc ec ex s)"
proof (cases "mget (s_pods s) (ns, name)")
  case (Some q)
  show ?thesis
    unfolding UpdatePodRestartInfo_def Let_def incRV_def
    using evolves_put_pod [OF Some, of "q\<lparr>pod_status := st\<rparr>" for st]
      evolves_put_pod_rv [OF Some, of "q\<lparr>pod_status := st\<rparr>" for st]
    by (simp add: Some)
qed (simp add: UpdatePodRestartInfo_def)

lemma UpdateJobStatus_evolves: "evolves s (UpdateJobStatus now ns name a sc f s)"
proof (cases "mget (s_jobs s) (ns, name)")
  case (Some j)
  have "evolves s (go_save (put_jobs (ns, name) (omod (om_resourceVersion_update
      (\<lambda>_. Itoa (s_resourceVer s + 1))) (j\<lparr>job_active := a, job_succeeded := sc, job_failed := f\<rparr>))
      (s\<lparr>s_resourceVer := s_resourceVer s + 1\<rparr>)))"
    by (rule evolves_put [of _ _ "(KJob, ns, name)" "UJob (omod (om_resourceVersion_update
      (\<lambda>_. Itoa (s_resourceVer s + 1))) (j\<lparr>job_active := a, job_succeeded := sc, job_failed := f\<rparr>))"])
      (use Some in auto)
  with Some show ?thesis by (simp add: UpdateJobStatus_def incRV_def Let_def)
qed (simp add: UpdateJobStatus_def)

lemma UpdateDeploymentStatus_evolves: "evolves s (UpdateDeploymentStatus now ns name ready s)"
proof (cases "mget (s_deployments s) (ns, name)")
  case (Some d)
  have "evolves s (go_save (put_deployments (ns, name) (omod (om_resourceVersion_update
      (\<lambda>_. Itoa (s_resourceVer s + 1))) (d\<lparr>dep_status := st\<rparr>))
      (s\<lparr>s_resourceVer := s_resourceVer s + 1\<rparr>)))" for st
    by (rule evolves_put [of _ _ "(KDeployment, ns, name)" "UDeployment (omod
      (om_resourceVersion_update (\<lambda>_. Itoa (s_resourceVer s + 1))) (d\<lparr>dep_status := st\<rparr>))"])
      (use Some in auto)
  with Some show ?thesis by (simp add: UpdateDeploymentStatus_def incRV_def Let_def)
qed (simp add: UpdateDeploymentStatus_def)

lemma PurgeNamespace_evolves: "evolves s (PurgeNamespace name s)"
proof (rule evolves_sub)
  show "contents s a = Some u" if "contents (PurgeNamespace name s) a = Some u" for a u
    using that by (cases a) (simp add: contents_purge split: if_splits)
  show "s_resourceVer s \<le> s_resourceVer (PurgeNamespace name s)"
    by (simp add: PurgeNamespace_def Let_def go_save_def)
qed

section \<open>Reachable stores\<close>

lemma exec_inv: "store_inv s \<Longrightarrow> store_inv (exec op s)"
  using create_obj_ok update_obj_ok delete_obj_ok
  by (cases op) (simp_all add: PurgeNamespace_inv SyncPodTemplate_inv UpdatePodPhase_inv
      UpdatePodContainerPhases_inv UpdatePodRestartInfo_inv UpdateJobStatus_inv
      UpdateDeploymentStatus_inv)

lemma exec_evolves: "evolves s (exec op s)"
  using create_obj_ok update_obj_ok delete_obj_ok
  by (cases op) (simp_all add: PurgeNamespace_evolves SyncPodTemplate_evolves
      UpdatePodPhase_evolves UpdatePodContainerPhases_evolves UpdatePodRestartInfo_evolves
      UpdateJobStatus_evolves UpdateDeploymentStatus_evolves)

inductive run :: "store \<Rightarrow> store \<Rightarrow> bool" where
  run_refl: "run s s"
| run_step: "run s s' \<Longrightarrow> run s (exec op s')"

inductive_cases runE: "run s s'"

lemma run_inv: "run s s' \<Longrightarrow> store_inv s \<Longrightarrow> store_inv s'"
  by (induction rule: run.induct) (simp_all add: exec_inv)

lemma run_rv_step: "run s s' \<Longrightarrow> rv_step s s'"
proof (induction rule: run.induct)
  case (run_step s s' op)
  then show ?case using exec_evolves [of s' op] rv_step_trans by (auto simp: evolves_def)
qed simp

lemma run_trans: "run b c \<Longrightarrow> run a b \<Longrightarrow> run a c"
  by (induction rule: run.induct) (auto intro: run.intros)

end
