(* ===== verification/Utf8.thy ===== *)
theory Utf8
  imports GoStrings
begin

text \<open>
  \<open>utf8.ValidString\<close> and the fact the encoders rely on: on valid UTF-8, writing the runes of a
  \<open>range\<close> loop back gives the bytes that were read.
\<close>

definition valid_utf8 :: "string \<Rightarrow> bool" where
  "valid_utf8 s \<longleftrightarrow> list_all (\<lambda>(r, w). \<not> (r = RuneError \<and> length w = 1)) (go_chunks s)"

lemma bchr_bcode: "n = bcode c \<Longrightarrow> bchr n = c"
  by simp

lemma base64: "(z::nat) < 64 \<Longrightarrow> (a * 64 + z) div 64 = a" "z < 64 \<Longrightarrow> (a * 64 + z) mod 64 = z"
  by auto

lemma div4096: "(n::nat) div 4096 = n div 64 div 64"
  by (simp add: div_mult2_eq [of n 64 64, simplified])

lemma encode2:
  assumes "194 \<le> bcode c" "bcode c \<le> 223" "128 \<le> bcode d" "bcode d \<le> 191"
  shows "EncodeRune ((bcode c - 192) * 64 + (bcode d - 128)) = [c, d]"
proof -
  define x y where "x = bcode c - 192" and "y = bcode d - 128"
  with assms have xy: "2 \<le> x" "x < 32" "y < 64" "192 + x = bcode c" "128 + y = bcode d" by auto
  then have "\<not> x * 64 + y < 128" "x * 64 + y < 2048" "(x * 64 + y) div 64 = x" "(x * 64 + y) mod 64 = y"
    by auto
  with xy show ?thesis unfolding x_def [symmetric] y_def [symmetric]
    by (simp add: EncodeRune_def)
qed

lemma encode3:
  assumes "224 \<le> bcode c" "bcode c \<le> 239" "cont_in (second_lo (bcode c)) (second_hi (bcode c)) d"
    and "cont_in 128 191 e"
  shows "EncodeRune ((bcode c - 224) * 4096 + (bcode d - 128) * 64 + (bcode e - 128)) = [c, d, e]"
proof -
  define x y z where "x = bcode c - 224" and "y = bcode d - 128" and "z = bcode e - 128"
  have d: "128 \<le> bcode d" "bcode d \<le> 191" "bcode c = 224 \<Longrightarrow> 160 \<le> bcode d"
    "bcode c = 237 \<Longrightarrow> bcode d \<le> 159"
    using assms(3) by (auto simp: cont_in_def second_lo_def second_hi_def split: if_splits)
  with assms have xyz: "x < 16" "y < 64" "z < 64" "224 + x = bcode c" "128 + y = bcode d"
    "128 + z = bcode e"
    by (auto simp: x_def y_def z_def cont_in_def)
  have edge: "x = 0 \<Longrightarrow> 32 \<le> y" "x = 13 \<Longrightarrow> y < 32"
    using d(3,4) xyz(4,5) by linarith+
  let ?r = "x * 4096 + y * 64 + z"
  have lo: "2048 \<le> ?r" using edge(1) by (cases "x = 0") auto
  have hi: "?r < 65536" using xyz(1-3) by auto
  have sur: "\<not> (55296 \<le> ?r \<and> ?r \<le> 57343)"
  proof (cases "x = 13")
    case True
    then show ?thesis using xyz(3) edge(2) by auto
  next
    case False
    then show ?thesis using xyz(1-3) by (cases "x < 13") auto
  qed
  have "?r = (x * 64 + y) * 64 + z" by simp
  then have "?r div 4096 = x" "?r div 64 mod 64 = y" "?r mod 64 = z"
    using xyz(2,3) by (simp_all only: div4096 base64)
  with xyz lo hi sur show ?thesis unfolding x_def [symmetric] y_def [symmetric] z_def [symmetric]
    by (auto simp: EncodeRune_def Let_def)
qed

lemma encode4:
  assumes "240 \<le> bcode c" "bcode c \<le> 244" "cont_in (second_lo (bcode c)) (second_hi (bcode c)) d"
    and "cont_in 128 191 e" "cont_in 128 191 f"
  shows "EncodeRune ((bcode c - 240) * 262144 + (bcode d - 128) * 4096 + (bcode e - 128) * 64
    + (bcode f - 128)) = [c, d, e, f]"
proof -
  define x y z u where "x = bcode c - 240" and "y = bcode d - 128" and "z = bcode e - 128"
    and "u = bcode f - 128"
  have d: "128 \<le> bcode d" "bcode d \<le> 191" "bcode c = 240 \<Longrightarrow> 144 \<le> bcode d"
    "bcode c = 244 \<Longrightarrow> bcode d \<le> 143"
    using assms(3) by (auto simp: cont_in_def second_lo_def second_hi_def split: if_splits)
  with assms have xyz: "x < 5" "y < 64" "z < 64" "u < 64" "240 + x = bcode c" "128 + y = bcode d"
    "128 + z = bcode e" "128 + u = bcode f"
    by (auto simp: x_def y_def z_def u_def cont_in_def)
  have edge: "x = 0 \<Longrightarrow> 16 \<le> y" "x = 4 \<Longrightarrow> y < 16"
    using d(3,4) xyz(5,6) by linarith+
  let ?r = "x * 262144 + y * 4096 + z * 64 + u"
  have lo: "65536 \<le> ?r" using edge(1) by (cases "x = 0") auto
  have hi: "?r \<le> 1114111"
  proof (cases "x = 4")
    case True
    then show ?thesis using xyz(3,4) edge(2) by auto
  next
    case False
    then show ?thesis using xyz(1-4) by auto
  qed
  have r: "?r = ((x * 64 + y) * 64 + z) * 64 + u" by simp
  have "?r div 262144 = x" using xyz(2-4) by auto
  moreover from r have "?r div 4096 mod 64 = y" "?r div 64 mod 64 = z" "?r mod 64 = u"
    using xyz(2-4) by (simp_all only: div4096 base64)
  ultimately have "?r div 262144 = x" "?r div 4096 mod 64 = y" "?r div 64 mod 64 = z" "?r mod 64 = u"
    by blast+
  with xyz lo hi show ?thesis
    unfolding x_def [symmetric] y_def [symmetric] z_def [symmetric] u_def [symmetric]
    by (simp add: EncodeRune_def Let_def)
qed

lemma DecodeRune_encode:
  assumes dec: "DecodeRune (c # cs) = (r, n)" and ok: "\<not> (r = RuneError \<and> n = 1)"
  shows "EncodeRune r = take n (c # cs)"
proof -
  consider "bcode c < 128" | "194 \<le> bcode c" "bcode c \<le> 223" | "224 \<le> bcode c" "bcode c \<le> 239"
    | "240 \<le> bcode c" "bcode c \<le> 244" | "128 \<le> bcode c" "bcode c < 194" | "244 < bcode c"
    by linarith
  then show ?thesis
  proof cases
    case 1
    with dec show ?thesis by (auto simp: DecodeRune.simps EncodeRune_ascii)
  next
    case 2
    with dec have "decode2 (bcode c) cs = (r, n)" by (simp add: DecodeRune.simps)
    with ok 2 show ?thesis
      by (cases cs) (auto simp: cont_in_def second_lo_def second_hi_def intro!: encode2
        simp del: Nat.add_diff_assoc split: if_splits)
  next
    case 3
    with dec have "decode3 (bcode c) cs = (r, n)" by (simp add: DecodeRune.simps)
    with ok 3 encode3 show ?thesis
      by (cases "(bcode c, cs)" rule: decode3.cases) (auto split: if_splits)
  next
    case 4
    with dec have "decode4 (bcode c) cs = (r, n)" by (simp add: DecodeRune.simps)
    with ok 4 encode4 show ?thesis
      by (cases "(bcode c, cs)" rule: decode4.cases) (auto split: if_splits)
  qed (use dec ok in \<open>auto simp: DecodeRune.simps\<close>)
qed

lemma valid_chunk: "valid_utf8 s \<Longrightarrow> (r, w) \<in> set (go_chunks s) \<Longrightarrow> EncodeRune r = w"
proof (induction s rule: go_chunks.induct)
  case (2 c cs)
  obtain r0 n where dec: "DecodeRune (c # cs) = (r0, n)" by fastforce
  then have ch: "go_chunks (c # cs) = (r0, take n (c # cs)) # go_chunks (drop n (c # cs))"
    by (simp add: go_chunks.simps(2))
  from DecodeRune_width [of c cs] dec have "1 \<le> n" by simp
  then have "length (take n (c # cs)) = 1 \<longleftrightarrow> n = 1 \<or> cs = []"
    by (cases cs) (auto simp: min_def)
  moreover have "cs = [] \<Longrightarrow> n = 1"
    using dec by (auto simp: DecodeRune.simps split: if_splits)
  ultimately have "\<not> (r0 = RuneError \<and> n = 1)" and "valid_utf8 (drop n (c # cs))"
    using 2(2) by (auto simp: valid_utf8_def ch)
  with 2 DecodeRune_encode [OF dec] dec show ?case by (auto simp: ch)
qed simp

lemma valid_utf8_encode: "valid_utf8 s \<Longrightarrow> concat (map EncodeRune (runes s)) = s"
proof -
  assume v: "valid_utf8 s"
  have "map EncodeRune (runes s) = map snd (go_chunks s)"
    unfolding runes_def map_map by (rule map_cong) (use valid_chunk [OF v] in auto)
  then show ?thesis by (simp add: concat_go_chunks)
qed

lemma valid_utf8_ascii: "\<forall>c \<in> set s. bcode c < 128 \<Longrightarrow> valid_utf8 s"
  by (induction s) (auto simp: valid_utf8_def)

end
