(* ===== verification/StorePersist.thy ===== *)
theory StorePersist
  imports StoreMachine Utf8
begin

text \<open>
  internal/store/store.go, persistence: the snapshot, the atomic save through a temporary file,
  loading it back with the secret migration, and the interleaving of mutations, background
  saves (serialised by \<open>saveMu\<close>), failing saves and crashes.  The JSON codec of the
  Kubernetes types is the pair of parameters \<open>marshal\<close> and \<open>unmarshal\<close> with what reading back
  makes of one object, and \<open>json_codec\<close> is what is relied on; file contents are of an arbitrary
  type.  A snapshot whose lists hold JSON nulls (on which the code panics) is not represented.
\<close>

section \<open>Snapshots\<close>

record snapshot =
  sn_resourceVer :: int
  sn_pods :: "pod list"
  sn_services :: "service list"
  sn_pvcs :: "pvc list"
  sn_configmaps :: "configmap list"
  sn_secrets :: "secret list"
  sn_namespaces :: "namespace list"
  sn_jobs :: "job list"
  sn_cronjobs :: "cronjob list"
  sn_deployments :: "deployment list"
  sn_ingresses :: "ingress list"
  sn_middlewares :: "middleware list"
  sn_ingressRouteTCPs :: "ingress_route_tcp list"

definition store_snapshot :: "store \<Rightarrow> snapshot" where
  "store_snapshot s =
     \<lparr>sn_resourceVer = s_resourceVer s,
      sn_pods = mvals (s_pods s),
      sn_services = mvals (s_services s),
      sn_pvcs = mvals (s_pvcs s),
      sn_configmaps = mvals (s_configmaps s),
      sn_secrets = mvals (s_secrets s),
      sn_namespaces = mvals (s_namespaces s),
      sn_jobs = mvals (s_jobs s),
      sn_cronjobs = mvals (s_cronjobs s),
      sn_deployments = mvals (s_deployments s),
      sn_ingresses = mvals (s_ingresses s),
      sn_middlewares = mvals (s_middlewares s),
      sn_ingressRouteTCPs = mvals (s_ingressRouteTCPs s)\<rparr>"

definition normalizeSecret :: "secret \<Rightarrow> secret" where
  "normalizeSecret sec =
     (case sec_stringData sec of
        None \<Rightarrow> sec
      | Some sd \<Rightarrow>
          if sd = [] then sec
          else sec\<lparr>sec_data := Some (fold (\<lambda>(k, v). mput k v) sd (lmap (sec_data sec))),
                   sec_stringData := None\<rparr>)"

text \<open>\<open>for _, p := range snap.Pods { s.pods[key(p)] = p }\<close>\<close>

definition load_map :: "('a \<Rightarrow> nsname) \<Rightarrow> 'a list \<Rightarrow> (nsname, 'a) gomap" where
  "load_map key xs = fold (\<lambda>x m. mput (key x) x m) xs []"

datatype 'b read_result = Missing | ReadError string | Content 'b

datatype load_error = ReadingStoreFile string | ParsingStoreFile string

definition load_snapshot :: "string \<Rightarrow> snapshot \<Rightarrow> store" where
  "load_snapshot file sn = newEmpty
     \<lparr>s_dataFile := file, s_resourceVer := sn_resourceVer sn,
      s_pods := load_map okey (sn_pods sn),
      s_services := load_map okey (sn_services sn),
      s_pvcs := load_map okey (sn_pvcs sn),
      s_configmaps := load_map okey (sn_configmaps sn),
      s_secrets := load_map okey (map normalizeSecret (sn_secrets sn)),
      s_namespaces := load_map (\<lambda>x. ([], o_name x)) (sn_namespaces sn),
      s_jobs := load_map okey (sn_jobs sn),
      s_cronjobs := load_map okey (sn_cronjobs sn),
      s_deployments := load_map okey (sn_deployments sn),
      s_ingresses := load_map okey (sn_ingresses sn),
      s_middlewares := load_map okey (sn_middlewares sn),
      s_ingressRouteTCPs := load_map okey (sn_ingressRouteTCPs sn)\<rparr>"

definition Load :: "('b \<Rightarrow> string + snapshot) \<Rightarrow> string \<Rightarrow> 'b read_result \<Rightarrow> load_error + store" where
  "Load unmarshal file res =
     (case res of
        Missing \<Rightarrow> Inr (ensureDefaultNamespace (newEmpty\<lparr>s_dataFile := file\<rparr>))
      | ReadError e \<Rightarrow> Inl (ReadingStoreFile e)
      | Content data \<Rightarrow>
          (case unmarshal data of
             Inl e \<Rightarrow> Inl (ParsingStoreFile e)
           | Inr sn \<Rightarrow> Inr (ensureDefaultNamespace (load_snapshot file sn))))"

section \<open>The codec\<close>

text \<open>
  Encoding an object and decoding it again need not give the object back: \<open>omitempty\<close> turns empty
  maps into nil ones, times lose their fractions of a second, a string that is not UTF-8 is
  repaired.  What becomes of the objects of each kind is a parameter.
\<close>

record rereading =
  rr_namespace :: "namespace \<Rightarrow> namespace"
  rr_pod :: "pod \<Rightarrow> pod"
  rr_service :: "service \<Rightarrow> service"
  rr_pvc :: "pvc \<Rightarrow> pvc"
  rr_configmap :: "configmap \<Rightarrow> configmap"
  rr_secret :: "secret \<Rightarrow> secret"
  rr_job :: "job \<Rightarrow> job"
  rr_cronjob :: "cronjob \<Rightarrow> cronjob"
  rr_deployment :: "deployment \<Rightarrow> deployment"
  rr_ingress :: "ingress \<Rightarrow> ingress"
  rr_middleware :: "middleware \<Rightarrow> middleware"
  rr_ingress_route_tcp :: "ingress_route_tcp \<Rightarrow> ingress_route_tcp"

fun reread :: "rereading \<Rightarrow> uobj \<Rightarrow> uobj" where
  "reread rr (UNamespace x) = UNamespace (rr_namespace rr x)"
| "reread rr (UPod x) = UPod (rr_pod rr x)"
| "reread rr (UService x) = UService (rr_service rr x)"
| "reread rr (UPVC x) = UPVC (rr_pvc rr x)"
| "reread rr (UConfigMap x) = UConfigMap (rr_configmap rr x)"
| "reread rr (USecret x) = USecret (rr_secret rr x)"
| "reread rr (UJob x) = UJob (rr_job rr x)"
| "reread rr (UCronJob x) = UCronJob (rr_cronjob rr x)"
| "reread rr (UDeployment x) = UDeployment (rr_deployment rr x)"
| "reread rr (UIngress x) = UIngress (rr_ingress rr x)"
| "reread rr (UMiddleware x) = UMiddleware (rr_middleware rr x)"
| "reread rr (UIngressRouteTCP x) = UIngressRouteTCP (rr_ingress_route_tcp rr x)"

definition reread_snapshot :: "rereading \<Rightarrow> snapshot \<Rightarrow> snapshot" where
  "reread_snapshot rr sn =
     \<lparr>sn_resourceVer = sn_resourceVer sn,
      sn_pods = map (rr_pod rr) (sn_pods sn),
      sn_services = map (rr_service rr) (sn_services sn),
      sn_pvcs = map (rr_pvc rr) (sn_pvcs sn),
      sn_configmaps = map (rr_configmap rr) (sn_configmaps sn),
      sn_secrets = map (rr_secret rr) (sn_secrets sn),
      sn_namespaces = map (rr_namespace rr) (sn_namespaces sn),
      sn_jobs = map (rr_job rr) (sn_jobs sn),
      sn_cronjobs = map (rr_cronjob rr) (sn_cronjobs sn),
      sn_deployments = map (rr_deployment rr) (sn_deployments sn),
      sn_ingresses = map (rr_ingress rr) (sn_ingresses sn),
      sn_middlewares = map (rr_middleware rr) (sn_middlewares sn),
      sn_ingressRouteTCPs = map (rr_ingress_route_tcp rr) (sn_ingressRouteTCPs sn)\<rparr>"

text \<open>
  What encoding/json documents and the store relies on: lists keep their length and order, integers
  their value, every element is read back by itself, and strings that are UTF-8 come back as they
  were, among them the names and the resource version of an object.  (Encoding fails for no snapshot:
  the objects came in as JSON, so that their times have years of four digits.)
\<close>

definition readable :: "uobj \<Rightarrow> bool" where
  "readable u \<longleftrightarrow> valid_utf8 (fst (u_key u)) \<and> valid_utf8 (snd (u_key u)) \<and> valid_utf8 (u_rv u)"

definition json_codec :: "(snapshot \<Rightarrow> 'b) \<Rightarrow> ('b \<Rightarrow> string + snapshot) \<Rightarrow> rereading \<Rightarrow> bool" where
  "json_codec marshal unmarshal rr \<longleftrightarrow> (\<forall>sn. unmarshal (marshal sn) = Inr (reread_snapshot rr sn)) \<and>
     (\<forall>u. readable u \<longrightarrow> u_key (reread rr u) = u_key u \<and> u_rv (reread rr u) = u_rv u)"

lemma json_codecD:
  assumes "json_codec marshal unmarshal rr"
  shows "unmarshal (marshal sn) = Inr (reread_snapshot rr sn)"
    and "readable u \<Longrightarrow> u_key (reread rr u) = u_key u" and "readable u \<Longrightarrow> u_rv (reread rr u) = u_rv u"
  using assms by (simp_all add: json_codec_def)

definition names_ok :: "store \<Rightarrow> bool" where
  "names_ok s \<longleftrightarrow> (\<forall>a u. contents s a = Some u \<longrightarrow> readable u)"

lemma names_ok_readable: "names_ok s \<Longrightarrow> contents s a = Some u \<Longrightarrow> readable u"
  unfolding names_ok_def by blast

section \<open>Round trip\<close>

text \<open>What a restart changes of one object: a legacy secret is folded.\<close>

fun reloaded :: "uobj \<Rightarrow> uobj" where
  "reloaded (USecret x) = USecret (normalizeSecret x)"
| "reloaded u = u"

lemma o_meta_normalizeSecret [simp]: "o_meta (normalizeSecret x) = o_meta x"
  by (simp add: normalizeSecret_def split: option.split)

lemma u_meta_reloaded [simp]: "u_meta (reloaded u) = u_meta u"
  by (cases u) simp_all

lemma u_key_reloaded [simp]: "u_key (reloaded u) = u_key u"
  by (cases u) (simp_all add: okey_def)

lemma normalizeSecret_idem [simp]: "normalizeSecret (normalizeSecret x) = normalizeSecret x"
  by (auto simp: normalizeSecret_def split: option.splits)

lemma load_map_fold:
  "mget (fold (\<lambda>x m. mput (key x) x m) xs m) k =
     (case find (\<lambda>x. key x = k) (rev xs) of None \<Rightarrow> mget m k | Some x \<Rightarrow> Some x)"
proof (induction xs arbitrary: m)
  case (Cons x xs)
  have "find P (ys @ [x]) = (case find P ys of None \<Rightarrow> if P x then Some x else None | Some y \<Rightarrow> Some y)"
    for P and ys :: "'a list" by (induction ys) auto
  with Cons show ?case by (auto simp: map_laws split: option.splits)
qed simp

lemma mwf_fold_mput: "mwf m \<Longrightarrow> mwf (fold (\<lambda>x m. mput (key x) x m) xs m)"
  by (induction xs arbitrary: m) simp_all

lemma mwf_load_map [simp]: "mwf (load_map key xs)"
  unfolding load_map_def by (rule mwf_fold_mput) simp

lemma mget_load_map:
  assumes wf: "mwf m" and key: "\<And>k v. mget m k = Some v \<Longrightarrow> key (f v) = k"
  shows "mget (load_map key (map f (mvals m))) k = map_option f (mget m k)"
proof -
  have upd: "mget (fold (\<lambda>x m. mput (key x) x m) (map f (mvals ys)) m0) k =
      (case mget ys k of None \<Rightarrow> mget m0 k | Some v \<Rightarrow> Some (f v))"
    if "mwf ys" "\<forall>p \<in> set ys. key (f (snd p)) = fst p" for ys m0
    using that
  proof (induction ys arbitrary: m0)
    case (Cons p ys)
    have "mget ys (fst p) = None"
      using Cons.prems(1) by (simp add: mwf_def map_of_eq_None_iff)
    with Cons show ?case by (cases p) (auto simp: mwf_def map_laws split: option.splits)
  qed simp
  have "\<forall>p \<in> set m. key (f (snd p)) = fst p"
    using key wf by (auto simp: mwf_set_conv)
  from upd [OF wf this] show ?thesis
    by (simp add: load_map_def split: option.split)
qed

lemmas mget_load_map_id = mget_load_map [where f = "\<lambda>x. x", simplified]

lemma maps_wf_load [simp]: "maps_wf (load_snapshot file sn)"
  by (simp add: maps_wf_def load_snapshot_def)

abbreviation read_back :: "string \<Rightarrow> rereading \<Rightarrow> store \<Rightarrow> store" where
  "read_back file rr s \<equiv> load_snapshot file (reread_snapshot rr (store_snapshot s))"

lemma contents_load:
  assumes inv: "store_inv s" and names: "names_ok s"
    and law: "\<And>u. readable u \<Longrightarrow> u_key (reread rr u) = u_key u"
  shows "contents (read_back file rr s) a = map_option (\<lambda>u. reloaded (reread rr u)) (contents s a)"
proof -
  have wf: "maps_wf s" by (rule store_invD(5) [OF inv])
  have key: "u_key (reread rr u) = k" if "contents s (kd, k) = Some u" for kd k u
    using law [of u] names store_invD(1) [OF inv that] that unfolding names_ok_def by metis
  have maps:
    "mget (load_map okey (map (rr_pod rr) (mvals (s_pods s)))) k = map_option (rr_pod rr) (mget (s_pods s) k)"
    "mget (load_map okey (map (rr_service rr) (mvals (s_services s)))) k = map_option (rr_service rr) (mget (s_services s) k)"
    "mget (load_map okey (map (rr_pvc rr) (mvals (s_pvcs s)))) k = map_option (rr_pvc rr) (mget (s_pvcs s) k)"
    "mget (load_map okey (map (rr_configmap rr) (mvals (s_configmaps s)))) k =
      map_option (rr_configmap rr) (mget (s_configmaps s) k)"
    "mget (load_map okey (map (\<lambda>x. normalizeSecret (rr_secret rr x)) (mvals (s_secrets s)))) k =
      map_option (\<lambda>x. normalizeSecret (rr_secret rr x)) (mget (s_secrets s) k)"
    "mget (load_map (\<lambda>x. ([], o_name x)) (map (rr_namespace rr) (mvals (s_namespaces s)))) k =
      map_option (rr_namespace rr) (mget (s_namespaces s) k)"
    "mget (load_map okey (map (rr_job rr) (mvals (s_jobs s)))) k = map_option (rr_job rr) (mget (s_jobs s) k)"
    "mget (load_map okey (map (rr_cronjob rr) (mvals (s_cronjobs s)))) k = map_option (rr_cronjob rr) (mget (s_cronjobs s) k)"
    "mget (load_map okey (map (rr_deployment rr) (mvals (s_deployments s)))) k =
      map_option (rr_deployment rr) (mget (s_deployments s) k)"
    "mget (load_map okey (map (rr_ingress rr) (mvals (s_ingresses s)))) k = map_option (rr_ingress rr) (mget (s_ingresses s) k)"
    "mget (load_map okey (map (rr_middleware rr) (mvals (s_middlewares s)))) k =
      map_option (rr_middleware rr) (mget (s_middlewares s) k)"
    "mget (load_map okey (map (rr_ingress_route_tcp rr) (mvals (s_ingressRouteTCPs s)))) k =
      map_option (rr_ingress_route_tcp rr) (mget (s_ingressRouteTCPs s) k)" for k
    by (rule mget_load_map;
        use wf key [of KPod _ "UPod v" for v] key [of KService _ "UService v" for v] key [of KPVC _ "UPVC v" for v]
          key [of KConfigMap _ "UConfigMap v" for v] key [of KSecret _ "USecret v" for v]
          key [of KNamespace _ "UNamespace v" for v] key [of KJob _ "UJob v" for v] key [of KCronJob _ "UCronJob v" for v]
          key [of KDeployment _ "UDeployment v" for v] key [of KIngress _ "UIngress v" for v]
          key [of KMiddleware _ "UMiddleware v" for v] key [of KIngressRouteTCP _ "UIngressRouteTCP v" for v]
        in \<open>auto simp: maps_wf_def okey_def\<close>)+
  obtain kd k where a: "a = (kd, k)" by (cases a)
  show ?thesis
    unfolding a
    by (cases kd) (simp_all add: load_snapshot_def reread_snapshot_def store_snapshot_def maps [unfolded map_map comp_def]
        option.map_comp comp_def)
qed

section \<open>The store a restart recovers\<close>

abbreviation default_key :: "kind \<times> nsname" where
  "default_key \<equiv> (KNamespace, [], ''default'')"

definition rv_default :: "store \<Rightarrow> bool" where
  "rv_default s \<longleftrightarrow> (\<forall>a u. contents s a = Some u \<longrightarrow> u_rv u = [] \<longrightarrow> a = default_key)"

lemma rv_default_step: "rv_step s s' \<Longrightarrow> rv_default s \<Longrightarrow> rv_default s'"
  unfolding rv_default_def rv_step_def fresh_rv_def by (metis Itoa_not_Nil)

lemma contents_default:
  "contents (ensureDefaultNamespace s) a =
     (if a = default_key \<and> contents s a = None
      then Some (UNamespace (bare_namespace ''default'' ''q8s-default-ns'' [])) else contents s a)"
proof -
  obtain kd k where "a = (kd, k)" by (cases a)
  then show ?thesis
    by (cases kd) (auto simp: ensureDefaultNamespace_def Let_def map_laws split: option.splits)
qed

lemma default_frame [simp]:
  "s_resourceVer (ensureDefaultNamespace s) = s_resourceVer s"
  "s_dataFile (ensureDefaultNamespace s) = s_dataFile s"
  "s_pending (ensureDefaultNamespace s) = s_pending s"
  "events_ok (ensureDefaultNamespace s) = events_ok s"
  "maps_wf s \<Longrightarrow> maps_wf (ensureDefaultNamespace s)"
  by (simp_all add: ensureDefaultNamespace_def Let_def events_ok_def maps_wf_def split: option.split)

lemma store_inv_default:
  assumes inv: "store_inv s" and df: "rv_default s"
  shows "store_inv (ensureDefaultNamespace s)" and "rv_default (ensureDefaultNamespace s)"
proof -
  let ?s = "ensureDefaultNamespace s"
  have was: "contents s a = Some u \<or> (a = default_key \<and> u_rv u = [] \<and> u_key u = snd a)"
    if "contents ?s a = Some u" for a u
    using that by (auto simp: contents_default bare_namespace_def empty_meta_def split: if_splits)
  show df': "rv_default ?s"
    using was df unfolding rv_default_def by blast
  show "store_inv ?s"
    unfolding store_inv_def
  proof (intro conjI allI impI)
    show "maps_wf ?s" "events_ok ?s" "0 \<le> s_resourceVer ?s"
      using store_invD(4-6) [OF inv] by simp_all
    show "u_key u = k" "rv_issued ?s (u_rv u)" if "contents ?s (kd, k) = Some u" for kd k u
      using was [OF that] store_invD(1,2) [OF inv, of kd k u] by (auto simp: rv_issued_def)
    show "a = b" if "contents ?s a = Some u" "contents ?s b = Some v" "u_rv u = u_rv v" for a b u v
      using was [OF that(1)] was [OF that(2)] that store_invD(3) [OF inv, of a u b v] df'
      unfolding rv_default_def by metis
  qed
qed

lemma load_was:
  assumes inv: "store_inv s" and names: "names_ok s" and codec: "json_codec marshal unmarshal rr"
    and u: "contents (read_back file rr s) a = Some u"
  shows "\<exists>w. contents s a = Some w \<and> u_rv w = u_rv u \<and> u_key w = u_key u"
proof -
  from u obtain w where w: "contents s a = Some w" "u = reloaded (reread rr w)"
    by (auto simp: contents_load [OF inv names json_codecD(2) [OF codec]])
  from names_ok_readable [OF names w(1)] w json_codecD(2,3) [OF codec] show ?thesis by simp
qed

lemma read_back_ver [simp]: "s_resourceVer (read_back file rr s) = s_resourceVer s"
  by (simp add: load_snapshot_def reread_snapshot_def store_snapshot_def)

lemma store_inv_load:
  assumes inv: "store_inv s" and df: "rv_default s" and names: "names_ok s" and codec: "json_codec marshal unmarshal rr"
  shows "store_inv (read_back file rr s)" and "rv_default (read_back file rr s)" and "names_ok (read_back file rr s)"
proof -
  let ?l = "read_back file rr s"
  note was = load_was [OF inv names codec]
  show "rv_default ?l"
    using was df unfolding rv_default_def by metis
  show "names_ok ?l"
    using was names unfolding names_ok_def readable_def by metis
  show "store_inv ?l"
    unfolding store_inv_def
  proof (intro conjI allI impI)
    show "0 \<le> s_resourceVer ?l" using store_invD(4) [OF inv] by simp
    show "events_ok ?l" by (simp add: load_snapshot_def newEmpty_def events_ok_def)
    show "u_key u = k" "rv_issued ?l (u_rv u)" if "contents ?l (kd, k) = Some u" for kd k u
      using was [OF that] store_invD(1,2) [OF inv, of kd k] by (auto simp: rv_issued_def)
    show "a = b" if "contents ?l a = Some u" "contents ?l b = Some v" "u_rv u = u_rv v" for a b u v
      using was [OF that(1)] was [OF that(2)] that(3) store_invD(3) [OF inv, of a _ b] by metis
  qed simp
qed

text \<open>The versions of a store, the default namespace counted as present.\<close>

definition versions :: "store \<Rightarrow> int \<times> (kind \<times> nsname \<Rightarrow> string option)" where
  "versions s = (s_resourceVer s, \<lambda>a. map_option u_rv (contents (ensureDefaultNamespace s) a))"

lemma versions_default [simp]: "versions (ensureDefaultNamespace s) = versions s"
proof -
  have "contents (ensureDefaultNamespace (ensureDefaultNamespace s)) =
      contents (ensureDefaultNamespace s)"
    by (rule ext) (auto simp only: contents_default split: if_splits)
  then show ?thesis by (simp add: versions_def)
qed

lemma versions_load:
  assumes "store_inv s" "names_ok s" and codec: "json_codec marshal unmarshal rr"
  shows "versions (read_back file rr s) = versions s"
proof -
  have "map_option u_rv (contents (ensureDefaultNamespace (read_back file rr s)) a) =
      map_option u_rv (contents (ensureDefaultNamespace s) a)" for a
  proof (cases "contents s a")
    case (Some u)
    then have "u_rv (reread rr u) = u_rv u" by (rule json_codecD(3) [OF codec names_ok_readable [OF assms(2)]])
    then show ?thesis
      using contents_load [OF assms(1,2) json_codecD(2) [OF codec], where a = a] Some by (simp add: contents_default)
  next
    case None
    then show ?thesis
      using contents_load [OF assms(1,2) json_codecD(2) [OF codec], where a = a] by (simp only: contents_default) simp
  qed
  then show ?thesis by (simp add: versions_def)
qed

section \<open>Which steps schedule a save\<close>

text \<open>Every step either schedules a save or leaves the counter and all versions alone.\<close>

definition scheduled :: "store \<Rightarrow> store \<Rightarrow> bool" where
  "scheduled s s' \<longleftrightarrow> s_pending s < s_pending s' \<or>
     (s_pending s' = s_pending s \<and> s_resourceVer s' = s_resourceVer s \<and>
      (\<forall>a. map_option u_rv (contents s' a) = map_option u_rv (contents s a)))"

lemma scheduled_refl [simp]: "scheduled s s"
  by (simp add: scheduled_def)

lemma scheduled_recordEvent [simp]:
  "scheduled s (recordEvent now k ns name uid et r m s') = scheduled s s'"
  by (simp add: scheduled_def)

lemma scheduled_save: "s_pending s \<le> s_pending s' \<Longrightarrow> scheduled s (go_save s')"
  by (simp add: scheduled_def)

lemma scheduled_versions:
  assumes "scheduled s s'" and "s_pending s' = 0"
  shows "s_pending s = 0" and "versions s' = versions s"
proof -
  from assms show "s_pending s = 0" by (auto simp: scheduled_def)
  from assms have rv: "map_option u_rv (contents s' a) = map_option u_rv (contents s a)" for a
    unfolding scheduled_def by (metis not_less_zero)
  have "map_option u_rv (contents (ensureDefaultNamespace s') a) =
      map_option u_rv (contents (ensureDefaultNamespace s) a)" for a
    using rv [of a] by (cases "contents s a"; cases "contents s' a") (simp_all add: contents_default)
  with assms show "versions s' = versions s" by (auto simp: versions_def scheduled_def)
qed

context object_kind
begin

lemma create_scheduled: "scheduled s (snd (create t x s))"
  using create_taken [of s x] create_free [of s x t]
  by (cases "contents s (kd, kof (key x))") (auto simp: scheduled_def stored_def)

lemma update_scheduled: "scheduled s (snd (update t x s))"
  using update_absent [of s x] update_present [of s x _ t]
  by (cases "contents s (kd, kof (key x))") (fastforce simp: scheduled_def stored_def)+

lemma delete_scheduled: "scheduled s (snd (delete t k s))"
  using delete_absent [of s k] delete_present [of s k _ t]
  by (cases "contents s (kd, kof k)") (fastforce simp: scheduled_def removed_def)+

end

text \<open>Which keys the operations of a kind add.\<close>

context object_kind
begin

lemma create_keys: "contents (snd (create t x s)) a \<noteq> None \<Longrightarrow> contents s a \<noteq> None \<or> snd a = kof (key x)"
  using create_taken [of s x] create_free [of s x t]
  by (cases "contents s (kd, kof (key x))") (auto simp: stored_def split: if_splits)

lemma update_keys: "contents (snd (update t x s)) a \<noteq> None \<Longrightarrow> contents s a \<noteq> None"
  using update_absent [of s x] update_present [of s x _ t]
  by (cases "contents s (kd, kof (key x))") (fastforce simp: stored_def split: if_splits)+

lemma delete_keys: "contents (snd (delete t k s)) a \<noteq> None \<Longrightarrow> contents s a \<noteq> None"
  using delete_absent [of s k] delete_present [of s k _ t]
  by (cases "contents s (kd, kof k)") (fastforce simp: removed_def split: if_splits)+

end

lemma create_obj_keys: "contents (create_obj t x s) a \<noteq> None \<Longrightarrow> contents s a \<noteq> None \<or> snd a = u_key x"
  by (cases x; simp only: create_obj.simps u_key.simps; (drule nsk.create_keys | drule podk.create_keys | drule svck.create_keys | drule pvck.create_keys | drule cmk.create_keys | drule seck.create_keys | drule jobk.create_keys | drule cjk.create_keys | drule depk.create_keys | drule ingk.create_keys | drule mwk.create_keys | drule irtk.create_keys); simp)

lemma update_obj_keys: "contents (update_obj t x s) a \<noteq> None \<Longrightarrow> contents s a \<noteq> None"
  by (cases x; simp only: update_obj.simps; (drule nsk.update_keys | drule podk.update_keys | drule svck.update_keys | drule pvck.update_keys | drule cmk.update_keys | drule seck.update_keys | drule jobk.update_keys | drule cjk.update_keys | drule depk.update_keys | drule ingk.update_keys | drule mwk.update_keys | drule irtk.update_keys); simp)

lemma delete_obj_keys: "contents (delete_obj t kd ns n s) a \<noteq> None \<Longrightarrow> contents s a \<noteq> None"
  using nsk.delete_keys [of t n s a]
    podk.delete_keys [of t "(ns, n)" s a]
    svck.delete_keys [of t "(ns, n)" s a]
    pvck.delete_keys [of t "(ns, n)" s a]
    cmk.delete_keys [of t "(ns, n)" s a]
    seck.delete_keys [of t "(ns, n)" s a]
    jobk.delete_keys [of t "(ns, n)" s a]
    cjk.delete_keys [of t "(ns, n)" s a]
    depk.delete_keys [of t "(ns, n)" s a]
    ingk.delete_keys [of t "(ns, n)" s a]
    mwk.delete_keys [of t "(ns, n)" s a]
    irtk.delete_keys [of t "(ns, n)" s a]
  by (cases kd) simp_all

lemma put_pods_pending [simp]: "s_pending (put_pods k p s) = s_pending s"
  and put_jobs_pending [simp]: "s_pending (put_jobs k j s) = s_pending s"
  and put_deployments_pending [simp]: "s_pending (put_deployments k d s) = s_pending s"
  by (simp_all add: put_pods_def put_jobs_def put_deployments_def)

lemma scheduled_put_pod:
  "mget (s_pods s) k = Some q \<Longrightarrow> o_rv p = o_rv q \<Longrightarrow> scheduled s (put_pods k p s)"
  by (auto simp: scheduled_def)

lemma scheduled_finish_phase:
  "mget (s_pods s) (ns, name) = Some q \<Longrightarrow> o_rv p = o_rv q \<Longrightarrow>
    scheduled s (finish_phase now ns name phase pc ch p s)"
  by (auto simp: finish_phase_def incRV_def Let_def intro!: scheduled_save scheduled_put_pod
      split: option.splits)

lemmas delete_nsname_scheduled =
  nsk.delete_scheduled [where k = "n" for n, simplified]
  podk.delete_scheduled [where k = "(ns, n)" for ns n, simplified]
  svck.delete_scheduled [where k = "(ns, n)" for ns n, simplified]
  pvck.delete_scheduled [where k = "(ns, n)" for ns n, simplified]
  cmk.delete_scheduled [where k = "(ns, n)" for ns n, simplified]
  seck.delete_scheduled [where k = "(ns, n)" for ns n, simplified]
  jobk.delete_scheduled [where k = "(ns, n)" for ns n, simplified]
  cjk.delete_scheduled [where k = "(ns, n)" for ns n, simplified]
  depk.delete_scheduled [where k = "(ns, n)" for ns n, simplified]
  ingk.delete_scheduled [where k = "(ns, n)" for ns n, simplified]
  mwk.delete_scheduled [where k = "(ns, n)" for ns n, simplified]
  irtk.delete_scheduled [where k = "(ns, n)" for ns n, simplified]

lemma exec_scheduled: "scheduled s (exec op s)"
proof (cases op)
  case (OpCreate t x)
  then show ?thesis
    by (cases x) (simp_all add: nsk.create_scheduled podk.create_scheduled svck.create_scheduled pvck.create_scheduled cmk.create_scheduled seck.create_scheduled jobk.create_scheduled cjk.create_scheduled depk.create_scheduled ingk.create_scheduled mwk.create_scheduled irtk.create_scheduled)
next
  case (OpUpdate t x)
  then show ?thesis
    by (cases x) (simp_all add: nsk.update_scheduled podk.update_scheduled svck.update_scheduled pvck.update_scheduled cmk.update_scheduled seck.update_scheduled jobk.update_scheduled cjk.update_scheduled depk.update_scheduled ingk.update_scheduled mwk.update_scheduled irtk.update_scheduled)
next
  case (OpDelete t kd ns n)
  then show ?thesis by (cases kd) (simp_all add: delete_nsname_scheduled)
qed (auto simp: PurgeNamespace_def SyncPodTemplate_def UpdatePodPhase_def
    UpdatePodContainerPhases_def UpdatePodRestartInfo_def UpdateJobStatus_def
    UpdateDeploymentStatus_def incRV_def Let_def
    intro!: scheduled_save scheduled_finish_phase scheduled_put_pod split: option.splits)

lemma exec_dataFile: "s_dataFile (exec op s) = s_dataFile s"
proof -
  have frame: "s_dataFile (go_save s) = s_dataFile s"
    "s_dataFile (recordEvent now k ns name uid et r m s) = s_dataFile s"
    "s_dataFile (snd (incRV s)) = s_dataFile s" for s now k ns name uid et r m
    by (simp_all add: go_save_def recordEvent_def notifyChanged_def incRV_def Let_def)
  note puts = put_namespaces_def put_pods_def put_services_def put_pvcs_def put_configmaps_def put_secrets_def put_jobs_def put_cronjobs_def put_deployments_def put_ingresses_def put_middlewares_def put_ingressRouteTCPs_def
  note dels = del_namespaces_def del_pods_def del_services_def del_pvcs_def del_configmaps_def del_secrets_def del_jobs_def del_cronjobs_def del_deployments_def del_ingresses_def del_middlewares_def del_ingressRouteTCPs_def
  show ?thesis
  proof (cases op)
    case (OpCreate t x)
    then show ?thesis
      by (cases x) (simp_all add: frame puts incRV_def Let_def CreateNamespace_def CreatePod_def CreateService_def CreatePVC_def CreateConfigMap_def CreateSecret_def CreateJob_def CreateCronJob_def CreateDeployment_def CreateIngress_def CreateMiddleware_def CreateIngressRouteTCP_def split: option.split)
  next
    case (OpUpdate t x)
    then show ?thesis
      by (cases x) (simp_all add: frame puts incRV_def Let_def UpdateNamespace_def UpdatePod_def UpdateService_def UpdatePVC_def UpdateConfigMap_def UpdateSecret_def UpdateJob_def UpdateCronJob_def UpdateDeployment_def UpdateIngress_def UpdateMiddleware_def UpdateIngressRouteTCP_def split: option.split)
  next
    case (OpDelete t kd ns n)
    then show ?thesis
      by (cases kd) (simp_all add: frame dels Let_def DeleteNamespace_def DeletePod_def DeleteService_def DeletePVC_def DeleteConfigMap_def DeleteSecret_def DeleteJob_def DeleteCronJob_def DeleteDeployment_def DeleteIngress_def DeleteMiddleware_def DeleteIngressRouteTCP_def split: option.split)
  qed (simp_all add: PurgeNamespace_def SyncPodTemplate_def UpdatePodPhase_def
    UpdatePodContainerPhases_def UpdatePodRestartInfo_def UpdateJobStatus_def
    UpdateDeploymentStatus_def finish_phase_def frame puts incRV_def Let_def split: option.split)
qed


section \<open>Mutations, background saves and crashes\<close>

text \<open>
  The file system as far as the store uses it: the data file and its temporary file.  A save
  that holds \<open>saveMu\<close> has taken its snapshot; the outcomes of the rest of it, a crash included,
  are the ways it can leave the files.
\<close>

type_synonym 'b files = "string \<Rightarrow> 'b option"

datatype 'b save_outcome = Saved | MarshalErr | MkdirErr | WriteErr "'b option" | RenameErr

definition tmp_path :: "string \<Rightarrow> string" where
  "tmp_path df = df @ ''.tmp''"

fun save_write :: "(snapshot \<Rightarrow> 'b) \<Rightarrow> 'b save_outcome \<Rightarrow> string \<Rightarrow> snapshot \<Rightarrow> 'b files \<Rightarrow> 'b files" where
  "save_write marshal MarshalErr df sn fs = fs"
| "save_write marshal MkdirErr df sn fs = fs"
| "save_write marshal (WriteErr partial) df sn fs = fs(tmp_path df := partial)"
| "save_write marshal RenameErr df sn fs = fs(tmp_path df \<mapsto> marshal sn)"
| "save_write marshal Saved df sn fs = fs(tmp_path df := None, df \<mapsto> marshal sn)"

definition read_file :: "'b files \<Rightarrow> string \<Rightarrow> 'b read_result" where
  "read_file fs df = (case fs df of None \<Rightarrow> Missing | Some b \<Rightarrow> Content b)"

text \<open>The part of \<open>save\<close> before the lock: wake the watchers; the goroutine is no longer pending.\<close>

definition save_begin :: "store \<Rightarrow> store" where
  "save_begin s = (notifyChanged s)\<lparr>s_pending := s_pending s - 1\<rparr>"

text \<open>
  Object names come out of a JSON decoder, which gives UTF-8, or are checked to be DNS names; a
  create is a step only with such a name.
\<close>

fun named_op :: "store_op \<Rightarrow> bool" where
  "named_op (OpCreate t x) = (valid_utf8 (fst (u_key x)) \<and> valid_utf8 (snd (u_key x)))"
| "named_op _ = True"

inductive sys :: "(snapshot \<Rightarrow> 'b) \<Rightarrow> ('b \<Rightarrow> string + snapshot) \<Rightarrow> ('b save_outcome \<Rightarrow> bool) \<Rightarrow> string
    \<Rightarrow> store \<times> snapshot option \<times> 'b files \<Rightarrow> bool"
  for marshal unmarshal allowed df where
  sys_start: "fs df = None \<Longrightarrow> Load unmarshal df (read_file fs df) = Inr s \<Longrightarrow>
      sys marshal unmarshal allowed df (s, None, fs)"
| sys_op: "sys marshal unmarshal allowed df (s, sv, fs) \<Longrightarrow> named_op op \<Longrightarrow>
      sys marshal unmarshal allowed df (exec op s, sv, fs)"
| sys_begin: "sys marshal unmarshal allowed df (s, None, fs) \<Longrightarrow> s_pending s > 0 \<Longrightarrow>
      s_dataFile s \<noteq> [] \<Longrightarrow>
      sys marshal unmarshal allowed df (save_begin s, Some (store_snapshot (save_begin s)), fs)"
| sys_nofile: "sys marshal unmarshal allowed df (s, sv, fs) \<Longrightarrow> s_pending s > 0 \<Longrightarrow>
      s_dataFile s = [] \<Longrightarrow> sys marshal unmarshal allowed df (save_begin s, sv, fs)"
| sys_finish: "sys marshal unmarshal allowed df (s, Some sn, fs) \<Longrightarrow> allowed oc \<Longrightarrow>
      sys marshal unmarshal allowed df (s, None, save_write marshal oc df sn fs)"
| sys_crash: "sys marshal unmarshal allowed df (s, sv, fs) \<Longrightarrow>
      Load unmarshal df (read_file fs df) = Inr s' \<Longrightarrow>
      sys marshal unmarshal allowed df (s', None, fs)"

inductive_cases sys_elim: "sys marshal unmarshal allowed df (s, sv, fs)"

lemma contents_save_begin [simp]: "contents (save_begin s) = contents s"
  "s_resourceVer (save_begin s) = s_resourceVer s" "s_dataFile (save_begin s) = s_dataFile s"
  "s_pending (save_begin s) = s_pending s - 1"
  by (simp_all add: save_begin_def notifyChanged_def)

lemma store_inv_save_begin: "store_inv s \<Longrightarrow> store_inv (save_begin s)"
  by (simp add: store_inv_def rv_issued_def save_begin_def notifyChanged_def maps_wf_def
      events_ok_def)

lemma rv_default_save_begin: "rv_default s \<Longrightarrow> rv_default (save_begin s)"
  by (simp add: rv_default_def)

lemma versions_save_begin [simp]: "versions (save_begin s) = versions s"
proof -
  have "contents (ensureDefaultNamespace (save_begin s)) = contents (ensureDefaultNamespace s)"
    by (rule ext) (simp only: contents_default contents_save_begin)
  then show ?thesis by (simp add: versions_def)
qed

lemma tmp_path_neq [simp]: "tmp_path df \<noteq> df" "df \<noteq> tmp_path df"
  by (simp_all add: tmp_path_def)

lemma exec_rv_default: "rv_default s \<Longrightarrow> rv_default (exec op s)"
  using exec_evolves rv_default_step by (auto simp: evolves_def)

text \<open>A snapshot of a good store.\<close>

definition good :: "store \<Rightarrow> bool" where
  "good s \<longleftrightarrow> store_inv s \<and> rv_default s \<and> names_ok s"

definition good_snapshot :: "snapshot \<Rightarrow> bool" where
  "good_snapshot sn \<longleftrightarrow> (\<exists>s. good s \<and> sn = store_snapshot s)"

lemma valid_utf8_consts [simp]: "valid_utf8 []" "valid_utf8 ''default''"
  by (rule valid_utf8_ascii; simp)+

lemma valid_utf8_issued: "rv_issued s rv \<Longrightarrow> valid_utf8 rv"
  by (rule valid_utf8_ascii) (auto simp: rv_issued_def is_digit_def dest!: Itoa_chars)

lemma names_ok_default: "names_ok s \<Longrightarrow> names_ok (ensureDefaultNamespace s)"
  by (auto simp: names_ok_def contents_default readable_def bare_namespace_def empty_meta_def)

lemma names_okI:
  assumes "store_inv s" "\<And>kd k. contents s (kd, k) \<noteq> None \<Longrightarrow> valid_utf8 (fst k) \<and> valid_utf8 (snd k)"
  shows "names_ok s"
  unfolding names_ok_def
proof (intro allI impI)
  fix a u assume u: "contents s a = Some u"
  then have "u_key u = snd a" "rv_issued s (u_rv u)"
    using store_invD(1,2) [OF assms(1), of "fst a" "snd a" u] by simp_all
  then show "readable u"
    using assms(2) [of "fst a" "snd a"] u valid_utf8_issued by (simp add: readable_def)
qed

lemma names_okD: "names_ok s \<Longrightarrow> store_inv s \<Longrightarrow> contents s (kd, k) \<noteq> None \<Longrightarrow> valid_utf8 (fst k) \<and> valid_utf8 (snd k)"
  using store_invD(1) [of s kd k] names_ok_readable [of s "(kd, k)"] unfolding readable_def by (metis not_None_eq)

lemma good_new: "good (ensureDefaultNamespace (newEmpty\<lparr>s_dataFile := df\<rparr>))"
proof -
  have none: "contents (newEmpty\<lparr>s_dataFile := df\<rparr>) = (\<lambda>_. None)"
    by (rule kind_ext) (simp_all add: newEmpty_def)
  have "store_inv (newEmpty\<lparr>s_dataFile := df\<rparr>)" and "rv_default (newEmpty\<lparr>s_dataFile := df\<rparr>)"
    and names: "names_ok (newEmpty\<lparr>s_dataFile := df\<rparr>)"
    unfolding store_inv_def rv_default_def names_ok_def none
    by (simp_all add: newEmpty_def maps_wf_def events_ok_def)
  from store_inv_default [OF this(1,2)] names_ok_default [OF names] show ?thesis by (simp add: good_def)
qed

lemma good_load:
  "json_codec marshal unmarshal rr \<Longrightarrow> good_snapshot sn \<Longrightarrow>
    good (ensureDefaultNamespace (load_snapshot df (reread_snapshot rr sn)))"
  by (auto simp: good_snapshot_def good_def intro: store_inv_default store_inv_load names_ok_default)

text \<open>A step adds no key but that of the object it creates.\<close>

lemma exec_keys:
  assumes "contents (exec op s) a \<noteq> None"
  shows "contents s a \<noteq> None \<or> (\<exists>t x. op = OpCreate t x \<and> snd a = u_key x)"
proof (cases op)
  case (OpCreate t x)
  then show ?thesis using assms create_obj_keys [of t x s a] by auto
next
  case (OpUpdate t x)
  then show ?thesis using assms update_obj_keys [of t x s a] by auto
next
  case (OpDelete t kd ns n)
  then show ?thesis using assms delete_obj_keys [of t kd ns n s a] by auto
next
  case (OpPurge ns)
  then show ?thesis using assms by (cases a) (auto simp: contents_purge split: if_splits)
qed (use assms in \<open>auto simp: SyncPodTemplate_def UpdatePodPhase_def UpdatePodContainerPhases_def
    UpdatePodRestartInfo_def UpdateJobStatus_def UpdateDeploymentStatus_def finish_phase_def incRV_def Let_def
    split: option.splits if_splits\<close>)

lemma good_exec:
  assumes "good s" "named_op op"
  shows "good (exec op s)"
proof -
  have inv: "store_inv (exec op s)" using assms by (simp add: good_def exec_inv)
  have "names_ok (exec op s)"
  proof (rule names_okI [OF inv])
    fix kd k assume "contents (exec op s) (kd, k) \<noteq> None"
    from exec_keys [OF this] assms names_okD [of s kd k]
    show "valid_utf8 (fst k) \<and> valid_utf8 (snd k)" by (auto simp: good_def)
  qed
  with inv assms(1) show ?thesis by (simp add: good_def exec_rv_default)
qed

lemma good_save_begin: "good s \<Longrightarrow> good (save_begin s)"
  by (simp add: good_def store_inv_save_begin rv_default_save_begin names_ok_def)

definition good_file :: "(snapshot \<Rightarrow> 'b) \<Rightarrow> string \<Rightarrow> 'b files \<Rightarrow> bool" where
  "good_file marshal df fs \<longleftrightarrow>
     fs df = None \<or> (\<exists>sn. good_snapshot sn \<and> fs df = Some (marshal sn))"

lemma good_save_write:
  "good_file marshal df fs \<Longrightarrow> good_snapshot sn \<Longrightarrow>
    good_file marshal df (save_write marshal oc df sn fs)"
  by (cases oc) (auto simp: good_file_def)

lemma Load_good:
  assumes codec: "json_codec marshal unmarshal rr" and fs: "good_file marshal df fs"
  shows "\<exists>s. Load unmarshal df (read_file fs df) = Inr s \<and> good s \<and> s_pending s = 0"
  using fs good_new good_load [OF codec] json_codecD(1) [OF codec]
  by (auto simp: good_file_def read_file_def Load_def load_snapshot_def newEmpty_def)

text \<open>Whatever saves fail and wherever it crashes, the store and its file stay good.\<close>

lemma sys_good:
  assumes "sys marshal unmarshal allowed df (s, sv, fs)"
    and codec: "json_codec marshal unmarshal rr"
  shows "good s \<and> good_file marshal df fs \<and> (\<forall>sn. sv = Some sn \<longrightarrow> good_snapshot sn)"
  using assms(1)
proof (induction "(s, sv, fs)" arbitrary: s sv fs rule: sys.induct)
  case (sys_start fs s)
  then have "good_file marshal df fs" by (simp add: good_file_def)
  with Load_good [OF codec, of df fs] sys_start show ?case by auto
next
  case (sys_crash s sv fs s')
  then show ?case using Load_good [OF codec, of df fs] by auto
next
  case (sys_finish s sn fs oc)
  then show ?case by (simp add: good_save_write)
qed (auto intro: good_exec good_save_begin simp: good_snapshot_def)

lemma sys_dataFile:
  assumes "sys marshal unmarshal allowed df (s, sv, fs)"
    and codec: "json_codec marshal unmarshal rr"
  shows "s_dataFile s = df"
proof -
  have Load: "s_dataFile t = df" if "Load unmarshal df res = Inr t" for t res
    using that by (auto simp: Load_def load_snapshot_def split: read_result.splits sum.splits)
  show ?thesis
    using assms(1)
    by (induction "(s, sv, fs)" arbitrary: s sv fs rule: sys.induct)
      (auto simp: exec_dataFile Load)
qed

section \<open>Saves that succeed leave the file up to date\<close>

lemma versions_Load:
  assumes codec: "json_codec marshal unmarshal rr"
    and "Load unmarshal df (Content (marshal sn)) = Inr s"
  shows "versions s = versions (load_snapshot df (reread_snapshot rr sn))"
  using assms json_codecD(1) [OF codec] by (auto simp: Load_def)

lemma sys_synced:
  assumes "sys marshal unmarshal (\<lambda>oc. oc = Saved) df (s, sv, fs)"
    and codec: "json_codec marshal unmarshal rr"
    and named: "df \<noteq> []" and "s_pending s = 0"
  shows "case sv of
      None \<Rightarrow> \<exists>t. Load unmarshal df (read_file fs df) = Inr t \<and> versions t = versions s
    | Some sn \<Rightarrow> versions (load_snapshot df (reread_snapshot rr sn)) = versions s"
  using assms(1,4)
proof (induction "(s, sv, fs)" arbitrary: s sv fs rule: sys.induct)
  case (sys_op s sv fs op)
  from scheduled_versions [OF exec_scheduled sys_op.prems]
  show ?case using sys_op.hyps(2) by (simp split: option.splits)
next
  case (sys_begin s fs)
  have "good (save_begin s)" using sys_good [OF sys_begin.hyps(1) codec] good_save_begin by blast
  then show ?case using versions_load [OF _ _ codec, of "save_begin s" df] by (simp add: good_def)
next
  case (sys_nofile s sv fs)
  with sys_dataFile [OF sys_nofile.hyps(1) codec] named show ?case by simp
next
  case (sys_finish s sn fs oc)
  have "Load unmarshal df (Content (marshal sn)) =
      Inr (ensureDefaultNamespace (load_snapshot df (reread_snapshot rr sn)))"
    by (simp add: Load_def json_codecD(1) [OF codec])
  with sys_finish show ?case by (simp add: read_file_def)
next
  case (sys_crash s sv fs s')
  then show ?case by simp
qed auto

end
