(* ===== verification/StoreProperties.thy ===== *)
theory StoreProperties
  imports StorePersist
begin

text \<open>
  What internal/store/store.go promises the API handlers and the reconcile loop, from the
  theories StoreContract to StorePersist: the versioned object map, its invariant over every
  reachable state, persistence and crash recovery, and the idempotence of the reconcile
  loop's updates.
\<close>

section \<open>The store refines a versioned map\<close>

fun u_kind :: "uobj \<Rightarrow> kind" where
  "u_kind (UNamespace x) = KNamespace"
| "u_kind (UPod x) = KPod"
| "u_kind (UService x) = KService"
| "u_kind (UPVC x) = KPVC"
| "u_kind (UConfigMap x) = KConfigMap"
| "u_kind (USecret x) = KSecret"
| "u_kind (UJob x) = KJob"
| "u_kind (UCronJob x) = KCronJob"
| "u_kind (UDeployment x) = KDeployment"
| "u_kind (UIngress x) = KIngress"
| "u_kind (UMiddleware x) = KMiddleware"
| "u_kind (UIngressRouteTCP x) = KIngressRouteTCP"

abbreviation slot :: "uobj \<Rightarrow> kind \<times> nsname" where
  "slot u \<equiv> (u_kind u, u_key u)"

text \<open>The operations of all kinds as one interface: the answer, and the store after it.\<close>

definition answered :: "('o \<Rightarrow> uobj) \<Rightarrow> (store_error + 'o) \<times> store \<Rightarrow> (store_error + uobj) \<times> store" where
  "answered wrap r = (map_sum (\<lambda>e. e) wrap (fst r), snd r)"

fun create_out :: "time \<Rightarrow> uobj \<Rightarrow> store \<Rightarrow> (store_error + uobj) \<times> store" where
  "create_out t (UNamespace x) s = answered UNamespace (CreateNamespace t x s)"
| "create_out t (UPod x) s = answered UPod (CreatePod t x s)"
| "create_out t (UService x) s = answered UService (CreateService t x s)"
| "create_out t (UPVC x) s = answered UPVC (CreatePVC t x s)"
| "create_out t (UConfigMap x) s = answered UConfigMap (CreateConfigMap t x s)"
| "create_out t (USecret x) s = answered USecret (CreateSecret t x s)"
| "create_out t (UJob x) s = answered UJob (CreateJob t x s)"
| "create_out t (UCronJob x) s = answered UCronJob (CreateCronJob t x s)"
| "create_out t (UDeployment x) s = answered UDeployment (CreateDeployment t x s)"
| "create_out t (UIngress x) s = answered UIngress (CreateIngress t x s)"
| "create_out t (UMiddleware x) s = answered UMiddleware (CreateMiddleware t x s)"
| "create_out t (UIngressRouteTCP x) s = answered UIngressRouteTCP (CreateIngressRouteTCP t x s)"

fun update_out :: "time \<Rightarrow> uobj \<Rightarrow> store \<Rightarrow> (store_error + uobj) \<times> store" where
  "update_out t (UNamespace x) s = answered UNamespace (UpdateNamespace t x s)"
| "update_out t (UPod x) s = answered UPod (UpdatePod t x s)"
| "update_out t (UService x) s = answered UService (UpdateService t x s)"
| "update_out t (UPVC x) s = answered UPVC (UpdatePVC t x s)"
| "update_out t (UConfigMap x) s = answered UConfigMap (UpdateConfigMap t x s)"
| "update_out t (USecret x) s = answered USecret (UpdateSecret t x s)"
| "update_out t (UJob x) s = answered UJob (UpdateJob t x s)"
| "update_out t (UCronJob x) s = answered UCronJob (UpdateCronJob t x s)"
| "update_out t (UDeployment x) s = answered UDeployment (UpdateDeployment t x s)"
| "update_out t (UIngress x) s = answered UIngress (UpdateIngress t x s)"
| "update_out t (UMiddleware x) s = answered UMiddleware (UpdateMiddleware t x s)"
| "update_out t (UIngressRouteTCP x) s = answered UIngressRouteTCP (UpdateIngressRouteTCP t x s)"

fun delete_out :: "time \<Rightarrow> kind \<Rightarrow> string \<Rightarrow> string \<Rightarrow> store \<Rightarrow> store_error option \<times> store" where
  "delete_out t KNamespace ns n s = DeleteNamespace t n s"
| "delete_out t KPod ns n s = DeletePod t ns n s"
| "delete_out t KService ns n s = DeleteService t ns n s"
| "delete_out t KPVC ns n s = DeletePVC t ns n s"
| "delete_out t KConfigMap ns n s = DeleteConfigMap t ns n s"
| "delete_out t KSecret ns n s = DeleteSecret t ns n s"
| "delete_out t KJob ns n s = DeleteJob t ns n s"
| "delete_out t KCronJob ns n s = DeleteCronJob t ns n s"
| "delete_out t KDeployment ns n s = DeleteDeployment t ns n s"
| "delete_out t KIngress ns n s = DeleteIngress t ns n s"
| "delete_out t KMiddleware ns n s = DeleteMiddleware t ns n s"
| "delete_out t KIngressRouteTCP ns n s = DeleteIngressRouteTCP t ns n s"

fun kind_word :: "kind \<Rightarrow> string" where
  "kind_word KNamespace = ''namespace''"
| "kind_word KPod = ''pod''"
| "kind_word KService = ''service''"
| "kind_word KPVC = ''PVC''"
| "kind_word KConfigMap = ''configmap''"
| "kind_word KSecret = ''secret''"
| "kind_word KJob = ''job''"
| "kind_word KCronJob = ''cronjob''"
| "kind_word KDeployment = ''deployment''"
| "kind_word KIngress = ''ingress''"
| "kind_word KMiddleware = ''middleware''"
| "kind_word KIngressRouteTCP = ''ingressroutetcp''"

fun uid_word :: "kind \<Rightarrow> string" where
  "uid_word KNamespace = ''ns''"
| "uid_word KPod = ''pod''"
| "uid_word KService = ''svc''"
| "uid_word KPVC = ''pvc''"
| "uid_word KConfigMap = ''cm''"
| "uid_word KSecret = ''secret''"
| "uid_word KJob = ''job''"
| "uid_word KCronJob = ''cj''"
| "uid_word KDeployment = ''dep''"
| "uid_word KIngress = ''ing''"
| "uid_word KMiddleware = ''mw''"
| "uid_word KIngressRouteTCP = ''irtcp''"

lemma outs_obj:
  "snd (create_out t u s) = create_obj t u s" "snd (update_out t u s) = update_obj t u s"
  "snd (delete_out t kd ns n s) = delete_obj t kd ns n s"
proof -
  show "snd (create_out t u s) = create_obj t u s" by (cases u) (simp_all add: answered_def)
  show "snd (update_out t u s) = update_obj t u s" by (cases u) (simp_all add: answered_def)
  show "snd (delete_out t kd ns n s) = delete_obj t kd ns n s" by (cases kd) simp_all
qed

section \<open>What is written\<close>

text \<open>
  The object a create or an update writes, stated over the object sent and not over the steps that
  make it: everything is as it was sent, but for the bookkeeping of the metadata and the defaults of
  three kinds.
\<close>

fun with_meta :: "objmeta \<Rightarrow> uobj \<Rightarrow> uobj" where
  "with_meta m (UNamespace x) = UNamespace (x\<lparr>o_meta := m\<rparr>)"
| "with_meta m (UPod x) = UPod (x\<lparr>o_meta := m\<rparr>)"
| "with_meta m (UService x) = UService (x\<lparr>o_meta := m\<rparr>)"
| "with_meta m (UPVC x) = UPVC (x\<lparr>o_meta := m\<rparr>)"
| "with_meta m (UConfigMap x) = UConfigMap (x\<lparr>o_meta := m\<rparr>)"
| "with_meta m (USecret x) = USecret (x\<lparr>o_meta := m\<rparr>)"
| "with_meta m (UJob x) = UJob (x\<lparr>o_meta := m\<rparr>)"
| "with_meta m (UCronJob x) = UCronJob (x\<lparr>o_meta := m\<rparr>)"
| "with_meta m (UDeployment x) = UDeployment (x\<lparr>o_meta := m\<rparr>)"
| "with_meta m (UIngress x) = UIngress (x\<lparr>o_meta := m\<rparr>)"
| "with_meta m (UMiddleware x) = UMiddleware (x\<lparr>o_meta := m\<rparr>)"
| "with_meta m (UIngressRouteTCP x) = UIngressRouteTCP (x\<lparr>o_meta := m\<rparr>)"

definition or_else :: "'a option \<Rightarrow> 'a option \<Rightarrow> 'a option" where
  "or_else a b = (if a = None then b else a)"

text \<open>Services are headless unless they say otherwise, and their ports TCP.\<close>

definition full_service :: "service \<Rightarrow> service" where
  "full_service x =
     (let ip = (if svc_clusterIP x = [] then ''None'' else svc_clusterIP x)
      in x\<lparr>svc_clusterIP := ip, svc_clusterIPs := (if svc_clusterIPs x = [] then [ip] else svc_clusterIPs x),
           svc_ports := map (\<lambda>p. p\<lparr>sp_protocol := (if sp_protocol p = [] then ''TCP'' else sp_protocol p)\<rparr>) (svc_ports x)\<rparr>)"

text \<open>A claim is bound at once, to the volume of its namespace and name unless it is a host path.\<close>

definition bound_claim :: "pvc \<Rightarrow> pvc" where
  "bound_claim x =
     (let cls = (if pvc_storageClassName x \<in> {None, Some []} then ''standard'' else the (pvc_storageClassName x))
      in x\<lparr>pvc_storageClassName := Some cls, pvc_phase := ''Bound'',
           pvc_volumeName := (if cls = ''hostpath'' then pvc_volumeName x else o_namespace x @ ''-'' @ o_name x)\<rparr>)"

fun created_fields :: "uobj \<Rightarrow> uobj" where
  "created_fields (UPod x) = UPod (x\<lparr>o_apiVersion := ''v1'', o_kind := ''Pod''\<rparr>)"
| "created_fields (UService x) = UService (full_service x)"
| "created_fields (UPVC x) = UPVC (bound_claim x)"
| "created_fields u = u"

fun updated_fields :: "uobj \<Rightarrow> uobj" where
  "updated_fields (UService x) = UService (full_service x)"
| "updated_fields u = u"

text \<open>Which kinds get a creation time, and which keep the one they have when an update has none.\<close>

definition timed :: "kind \<Rightarrow> bool" where
  "timed kd \<longleftrightarrow> kd \<notin> {KPVC, KConfigMap, KSecret}"

definition keeps_time :: "kind \<Rightarrow> bool" where
  "keeps_time kd \<longleftrightarrow> kd \<in> {KNamespace, KService, KDeployment, KMiddleware, KIngressRouteTCP}"

definition new_uid :: "kind \<Rightarrow> objmeta \<Rightarrow> string" where
  "new_uid kd m = ''q8s-'' @ uid_word kd @ ''-'' @ (if kd = KNamespace then [] else om_namespace m @ ''-'') @ om_name m"

definition created_meta :: "time \<Rightarrow> string \<Rightarrow> kind \<Rightarrow> objmeta \<Rightarrow> objmeta" where
  "created_meta t rv kd m = m\<lparr>om_resourceVersion := rv, om_uid := new_uid kd m,
     om_labels := (if kd = KNamespace then om_labels m else or_else (om_labels m) (Some [])),
     om_creationTimestamp := (if timed kd then or_else (om_creationTimestamp m) (Some t) else om_creationTimestamp m),
     om_generation := (if kd = KDeployment then 1 else om_generation m)\<rparr>"

definition created :: "time \<Rightarrow> string \<Rightarrow> uobj \<Rightarrow> uobj" where
  "created t rv u = with_meta (created_meta t rv (u_kind u) (u_meta u)) (created_fields u)"

text \<open>The generation of a deployment counts the changes of its specification.\<close>

fun next_generation :: "uobj \<Rightarrow> uobj \<Rightarrow> int" where
  "next_generation (UDeployment old) (UDeployment x) =
     om_generation (o_meta old) + (if dspec_equal (dep_spec x) (dep_spec old) then 0 else 1)"
| "next_generation old u = om_generation (u_meta u)"

definition updated_meta :: "time \<Rightarrow> string \<Rightarrow> uobj \<Rightarrow> uobj \<Rightarrow> objmeta" where
  "updated_meta t rv old u = (u_meta u)\<lparr>om_resourceVersion := rv, om_uid := u_uid old,
     om_creationTimestamp :=
       (let sent = om_creationTimestamp (u_meta u); kept = or_else sent (om_creationTimestamp (u_meta old))
        in if u_kind u = KService then or_else kept (Some t) else if keeps_time (u_kind u) then kept else sent),
     om_generation := next_generation old u\<rparr>"

definition updated :: "time \<Rightarrow> string \<Rightarrow> uobj \<Rightarrow> uobj \<Rightarrow> uobj" where
  "updated t rv old u = with_meta (updated_meta t rv old u) (updated_fields u)"

abbreviation next_rv :: "store \<Rightarrow> string" where
  "next_rv s \<equiv> Itoa (s_resourceVer s + 1)"

lemmas written_defs = created_def created_meta_def updated_def updated_meta_def timed_def keeps_time_def new_uid_def
  or_else_def full_service_def bound_claim_def stamp_def default_labels_def default_ctime_def keep_ctime_def
  defaultServiceFields_def bindPVC_def PVCVolumeName_def StorageClassStandard_def StorageClassHostPath_def omod_def
  answered_def Let_def

context object_kind
begin

lemma create_refines:
  assumes answer: "\<And>y s'. create t x s = (Inr y, s') \<Longrightarrow> inj y = v"
  shows "case contents s (kd, kof (key x)) of
      None \<Rightarrow> \<exists>s'. answered inj (create t x s) = (Inr v, s') \<and> stored kd (kof (key x)) v s s'
    | Some _ \<Rightarrow> answered inj (create t x s) = (Inl (AlreadyExists what (kof (key x))), s)"
  using create_free [of s x t] create_taken [of s x _ t] answer
  by (cases "contents s (kd, kof (key x))") (force simp: answered_def)+

lemma update_refines:
  assumes answer: "\<And>old y s'. contents s (kd, kof (key x)) = Some old \<Longrightarrow> update t x s = (Inr y, s') \<Longrightarrow> inj y = v old"
  shows "case contents s (kd, kof (key x)) of
      None \<Rightarrow> answered inj (update t x s) = (Inl (NotFound what (kof (key x))), s)
    | Some old \<Rightarrow> \<exists>s'. answered inj (update t x s) = (Inr (v old), s') \<and> stored kd (kof (key x)) (v old) s s'"
  using update_present [of s x _ t] update_absent [of s x t] answer
  by (cases "contents s (kd, kof (key x))") (force simp: answered_def)+

lemma delete_refines:
  "if contents s (kd, kof k) = None then delete t k s = (Some (NotFound what (kof k)), s)
   else \<exists>s'. delete t k s = (None, s') \<and> removed kd (kof k) s s'"
  using delete_present [of s k _ t] delete_absent [of s k t]
  by (cases "contents s (kd, kof k)") force+

end

text \<open>The key \<open>DeleteX\<close> looks up: namespaces are keyed by their name alone.\<close>

fun del_key :: "kind \<Rightarrow> string \<Rightarrow> string \<Rightarrow> nsname" where
  "del_key KNamespace ns n = ([], n)"
| "del_key kd ns n = (ns, n)"

lemma create_answers:
  "CreateNamespace t x0 s = (Inr y0, s') \<Longrightarrow> UNamespace y0 = created t (next_rv s) (UNamespace x0)"
  "CreatePod t x1 s = (Inr y1, s') \<Longrightarrow> UPod y1 = created t (next_rv s) (UPod x1)"
  "CreateService t x2 s = (Inr y2, s') \<Longrightarrow> UService y2 = created t (next_rv s) (UService x2)"
  "CreatePVC t x3 s = (Inr y3, s') \<Longrightarrow> UPVC y3 = created t (next_rv s) (UPVC x3)"
  "CreateConfigMap t x4 s = (Inr y4, s') \<Longrightarrow> UConfigMap y4 = created t (next_rv s) (UConfigMap x4)"
  "CreateSecret t x5 s = (Inr y5, s') \<Longrightarrow> USecret y5 = created t (next_rv s) (USecret x5)"
  "CreateJob t x6 s = (Inr y6, s') \<Longrightarrow> UJob y6 = created t (next_rv s) (UJob x6)"
  "CreateCronJob t x7 s = (Inr y7, s') \<Longrightarrow> UCronJob y7 = created t (next_rv s) (UCronJob x7)"
  "CreateDeployment t x8 s = (Inr y8, s') \<Longrightarrow> UDeployment y8 = created t (next_rv s) (UDeployment x8)"
  "CreateIngress t x9 s = (Inr y9, s') \<Longrightarrow> UIngress y9 = created t (next_rv s) (UIngress x9)"
  "CreateMiddleware t x10 s = (Inr y10, s') \<Longrightarrow> UMiddleware y10 = created t (next_rv s) (UMiddleware x10)"
  "CreateIngressRouteTCP t x11 s = (Inr y11, s') \<Longrightarrow> UIngressRouteTCP y11 = created t (next_rv s) (UIngressRouteTCP x11)"
  by (auto simp: CreateNamespace_def CreatePod_def CreateService_def CreatePVC_def CreateConfigMap_def CreateSecret_def CreateJob_def CreateCronJob_def CreateDeployment_def CreateIngress_def CreateMiddleware_def CreateIngressRouteTCP_def
      crud_simps written_defs split: option.splits if_splits)

lemma update_answers:
  "contents s (KNamespace, [], o_name x0) = Some old \<Longrightarrow> UpdateNamespace t x0 s = (Inr y0, s') \<Longrightarrow> UNamespace y0 = updated t (next_rv s) old (UNamespace x0)"
  "contents s (KPod, okey x1) = Some old \<Longrightarrow> UpdatePod t x1 s = (Inr y1, s') \<Longrightarrow> UPod y1 = updated t (next_rv s) old (UPod x1)"
  "contents s (KService, okey x2) = Some old \<Longrightarrow> UpdateService t x2 s = (Inr y2, s') \<Longrightarrow> UService y2 = updated t (next_rv s) old (UService x2)"
  "contents s (KPVC, okey x3) = Some old \<Longrightarrow> UpdatePVC t x3 s = (Inr y3, s') \<Longrightarrow> UPVC y3 = updated t (next_rv s) old (UPVC x3)"
  "contents s (KConfigMap, okey x4) = Some old \<Longrightarrow> UpdateConfigMap t x4 s = (Inr y4, s') \<Longrightarrow> UConfigMap y4 = updated t (next_rv s) old (UConfigMap x4)"
  "contents s (KSecret, okey x5) = Some old \<Longrightarrow> UpdateSecret t x5 s = (Inr y5, s') \<Longrightarrow> USecret y5 = updated t (next_rv s) old (USecret x5)"
  "contents s (KJob, okey x6) = Some old \<Longrightarrow> UpdateJob t x6 s = (Inr y6, s') \<Longrightarrow> UJob y6 = updated t (next_rv s) old (UJob x6)"
  "contents s (KCronJob, okey x7) = Some old \<Longrightarrow> UpdateCronJob t x7 s = (Inr y7, s') \<Longrightarrow> UCronJob y7 = updated t (next_rv s) old (UCronJob x7)"
  "contents s (KDeployment, okey x8) = Some old \<Longrightarrow> UpdateDeployment t x8 s = (Inr y8, s') \<Longrightarrow> UDeployment y8 = updated t (next_rv s) old (UDeployment x8)"
  "contents s (KIngress, okey x9) = Some old \<Longrightarrow> UpdateIngress t x9 s = (Inr y9, s') \<Longrightarrow> UIngress y9 = updated t (next_rv s) old (UIngress x9)"
  "contents s (KMiddleware, okey x10) = Some old \<Longrightarrow> UpdateMiddleware t x10 s = (Inr y10, s') \<Longrightarrow> UMiddleware y10 = updated t (next_rv s) old (UMiddleware x10)"
  "contents s (KIngressRouteTCP, okey x11) = Some old \<Longrightarrow> UpdateIngressRouteTCP t x11 s = (Inr y11, s') \<Longrightarrow> UIngressRouteTCP y11 = updated t (next_rv s) old (UIngressRouteTCP x11)"
  by (auto simp: UpdateNamespace_def UpdatePod_def UpdateService_def UpdatePVC_def UpdateConfigMap_def UpdateSecret_def UpdateJob_def UpdateCronJob_def UpdateDeployment_def UpdateIngress_def UpdateMiddleware_def UpdateIngressRouteTCP_def
      crud_simps written_defs split: option.splits if_splits)

lemma create_out_refines:
  "case contents s (slot u) of
     None \<Rightarrow> \<exists>s'. create_out t u s = (Inr (created t (next_rv s) u), s') \<and>
       stored (u_kind u) (u_key u) (created t (next_rv s) u) s s'
   | Some _ \<Rightarrow> create_out t u s = (Inl (AlreadyExists (kind_word (u_kind u)) (u_key u)), s)"
proof (cases u)
  case (UNamespace x)
  show ?thesis
    unfolding UNamespace create_out.simps u_kind.simps u_key.simps kind_word.simps
    by (rule nsk.create_refines) (rule create_answers(1))
next
  case (UPod x)
  show ?thesis
    unfolding UPod create_out.simps u_kind.simps u_key.simps kind_word.simps
    by (rule podk.create_refines) (rule create_answers(2))
next
  case (UService x)
  show ?thesis
    unfolding UService create_out.simps u_kind.simps u_key.simps kind_word.simps
    by (rule svck.create_refines) (rule create_answers(3))
next
  case (UPVC x)
  show ?thesis
    unfolding UPVC create_out.simps u_kind.simps u_key.simps kind_word.simps
    by (rule pvck.create_refines) (rule create_answers(4))
next
  case (UConfigMap x)
  show ?thesis
    unfolding UConfigMap create_out.simps u_kind.simps u_key.simps kind_word.simps
    by (rule cmk.create_refines) (rule create_answers(5))
next
  case (USecret x)
  show ?thesis
    unfolding USecret create_out.simps u_kind.simps u_key.simps kind_word.simps
    by (rule seck.create_refines) (rule create_answers(6))
next
  case (UJob x)
  show ?thesis
    unfolding UJob create_out.simps u_kind.simps u_key.simps kind_word.simps
    by (rule jobk.create_refines) (rule create_answers(7))
next
  case (UCronJob x)
  show ?thesis
    unfolding UCronJob create_out.simps u_kind.simps u_key.simps kind_word.simps
    by (rule cjk.create_refines) (rule create_answers(8))
next
  case (UDeployment x)
  show ?thesis
    unfolding UDeployment create_out.simps u_kind.simps u_key.simps kind_word.simps
    by (rule depk.create_refines) (rule create_answers(9))
next
  case (UIngress x)
  show ?thesis
    unfolding UIngress create_out.simps u_kind.simps u_key.simps kind_word.simps
    by (rule ingk.create_refines) (rule create_answers(10))
next
  case (UMiddleware x)
  show ?thesis
    unfolding UMiddleware create_out.simps u_kind.simps u_key.simps kind_word.simps
    by (rule mwk.create_refines) (rule create_answers(11))
next
  case (UIngressRouteTCP x)
  show ?thesis
    unfolding UIngressRouteTCP create_out.simps u_kind.simps u_key.simps kind_word.simps
    by (rule irtk.create_refines) (rule create_answers(12))
qed

lemma update_out_refines:
  "case contents s (slot u) of
     None \<Rightarrow> update_out t u s = (Inl (NotFound (kind_word (u_kind u)) (u_key u)), s)
   | Some old \<Rightarrow> \<exists>s'. update_out t u s = (Inr (updated t (next_rv s) old u), s') \<and>
       stored (u_kind u) (u_key u) (updated t (next_rv s) old u) s s'"
proof (cases u)
  case (UNamespace x)
  show ?thesis
    unfolding UNamespace update_out.simps u_kind.simps u_key.simps kind_word.simps
    by (rule nsk.update_refines) (rule update_answers(1))
next
  case (UPod x)
  show ?thesis
    unfolding UPod update_out.simps u_kind.simps u_key.simps kind_word.simps
    by (rule podk.update_refines) (rule update_answers(2))
next
  case (UService x)
  show ?thesis
    unfolding UService update_out.simps u_kind.simps u_key.simps kind_word.simps
    by (rule svck.update_refines) (rule update_answers(3))
next
  case (UPVC x)
  show ?thesis
    unfolding UPVC update_out.simps u_kind.simps u_key.simps kind_word.simps
    by (rule pvck.update_refines) (rule update_answers(4))
next
  case (UConfigMap x)
  show ?thesis
    unfolding UConfigMap update_out.simps u_kind.simps u_key.simps kind_word.simps
    by (rule cmk.update_refines) (rule update_answers(5))
next
  case (USecret x)
  show ?thesis
    unfolding USecret update_out.simps u_kind.simps u_key.simps kind_word.simps
    by (rule seck.update_refines) (rule update_answers(6))
next
  case (UJob x)
  show ?thesis
    unfolding UJob update_out.simps u_kind.simps u_key.simps kind_word.simps
    by (rule jobk.update_refines) (rule update_answers(7))
next
  case (UCronJob x)
  show ?thesis
    unfolding UCronJob update_out.simps u_kind.simps u_key.simps kind_word.simps
    by (rule cjk.update_refines) (rule update_answers(8))
next
  case (UDeployment x)
  show ?thesis
    unfolding UDeployment update_out.simps u_kind.simps u_key.simps kind_word.simps
    by (rule depk.update_refines) (rule update_answers(9))
next
  case (UIngress x)
  show ?thesis
    unfolding UIngress update_out.simps u_kind.simps u_key.simps kind_word.simps
    by (rule ingk.update_refines) (rule update_answers(10))
next
  case (UMiddleware x)
  show ?thesis
    unfolding UMiddleware update_out.simps u_kind.simps u_key.simps kind_word.simps
    by (rule mwk.update_refines) (rule update_answers(11))
next
  case (UIngressRouteTCP x)
  show ?thesis
    unfolding UIngressRouteTCP update_out.simps u_kind.simps u_key.simps kind_word.simps
    by (rule irtk.update_refines) (rule update_answers(12))
qed

lemma delete_out_refines:
  "if contents s (kd, del_key kd ns n) = None
   then delete_out t kd ns n s = (Some (NotFound (kind_word kd) (del_key kd ns n)), s)
   else \<exists>s'. delete_out t kd ns n s = (None, s') \<and> removed kd (del_key kd ns n) s s'"
proof (cases kd)
  case KNamespace
  show ?thesis unfolding KNamespace delete_out.simps del_key.simps kind_word.simps
    by (rule nsk.delete_refines [of s "n" t, unfolded fst_conv snd_conv])
next
  case KPod
  show ?thesis unfolding KPod delete_out.simps del_key.simps kind_word.simps
    by (rule podk.delete_refines [of s "(ns, n)" t, unfolded fst_conv snd_conv])
next
  case KService
  show ?thesis unfolding KService delete_out.simps del_key.simps kind_word.simps
    by (rule svck.delete_refines [of s "(ns, n)" t, unfolded fst_conv snd_conv])
next
  case KPVC
  show ?thesis unfolding KPVC delete_out.simps del_key.simps kind_word.simps
    by (rule pvck.delete_refines [of s "(ns, n)" t, unfolded fst_conv snd_conv])
next
  case KConfigMap
  show ?thesis unfolding KConfigMap delete_out.simps del_key.simps kind_word.simps
    by (rule cmk.delete_refines [of s "(ns, n)" t, unfolded fst_conv snd_conv])
next
  case KSecret
  show ?thesis unfolding KSecret delete_out.simps del_key.simps kind_word.simps
    by (rule seck.delete_refines [of s "(ns, n)" t, unfolded fst_conv snd_conv])
next
  case KJob
  show ?thesis unfolding KJob delete_out.simps del_key.simps kind_word.simps
    by (rule jobk.delete_refines [of s "(ns, n)" t, unfolded fst_conv snd_conv])
next
  case KCronJob
  show ?thesis unfolding KCronJob delete_out.simps del_key.simps kind_word.simps
    by (rule cjk.delete_refines [of s "(ns, n)" t, unfolded fst_conv snd_conv])
next
  case KDeployment
  show ?thesis unfolding KDeployment delete_out.simps del_key.simps kind_word.simps
    by (rule depk.delete_refines [of s "(ns, n)" t, unfolded fst_conv snd_conv])
next
  case KIngress
  show ?thesis unfolding KIngress delete_out.simps del_key.simps kind_word.simps
    by (rule ingk.delete_refines [of s "(ns, n)" t, unfolded fst_conv snd_conv])
next
  case KMiddleware
  show ?thesis unfolding KMiddleware delete_out.simps del_key.simps kind_word.simps
    by (rule mwk.delete_refines [of s "(ns, n)" t, unfolded fst_conv snd_conv])
next
  case KIngressRouteTCP
  show ?thesis unfolding KIngressRouteTCP delete_out.simps del_key.simps kind_word.simps
    by (rule irtk.delete_refines [of s "(ns, n)" t, unfolded fst_conv snd_conv])
qed

section \<open>Idempotence of the reconcile loop's updates\<close>

lemma put_pods_same: "mget (s_pods s) k = Some p \<Longrightarrow> put_pods k p s = s"
  by (simp add: put_pods_def update_triv)

lemma pod_frame [simp]:
  "pod_spec (omod f p) = pod_spec p" "pod_status (omod f p) = pod_status p"
  by (simp_all add: omod_def)

lemma SyncPodTemplate_twice:
  "SyncPodTemplate p (snd (SyncPodTemplate p s)) = (fst (SyncPodTemplate p s), snd (SyncPodTemplate p s))"
proof (cases "mget (s_pods s) (okey p)")
  case (Some q)
  then show ?thesis
    by (auto simp: SyncPodTemplate_def Let_def incRV_def go_save_def put_pods_def map_laws)
qed (simp add: SyncPodTemplate_def)

lemma s_pods_frame [simp]:
  "s_pods (go_save s) = s_pods s"
  "s_pods (recordEvent now k ns name uid et r m s) = s_pods s"
  by (simp_all add: go_save_def recordEvent_def notifyChanged_def Let_def)

lemma s_pods_put [simp]: "s_pods (put_pods k p s) = mput k p (s_pods s)"
  by (simp add: put_pods_def)

text \<open>The stored pod after a phase update, its version aside.\<close>

lemma finish_phase_pod:
  obtains rv where "mget (s_pods (finish_phase now ns name phase pc ch p s)) (ns, name) =
    Some (omod (om_resourceVersion_update (\<lambda>_. rv)) p)"
proof -
  have "\<exists>rv. mget (s_pods (finish_phase now ns name phase pc ch p s)) (ns, name) =
    Some (omod (om_resourceVersion_update (\<lambda>_. rv)) p)"
  proof (cases ch)
    case True
    then show ?thesis
      by (auto simp: finish_phase_def incRV_def Let_def map_laws split: option.split)
  next
    case False
    have "p = omod (om_resourceVersion_update (\<lambda>_. o_rv p)) p" by (simp add: omod_def)
    with False show ?thesis by (auto simp: finish_phase_def map_laws)
  qed
  with that show thesis by blast
qed

definition phase_pod :: "string \<Rightarrow> string \<Rightarrow> pod \<Rightarrow> pod" where
  "phase_pod phase health p = p\<lparr>pod_status := (pod_status p)\<lparr>pst_phase := phase,
     pst_containerStatuses :=
       map (\<lambda>cs. cs\<lparr>cs_ready := should_be_ready phase health cs\<rparr>) (init_statuses p)\<rparr>\<rparr>"

lemma ready_again [simp]:
  "should_be_ready phase health (cs\<lparr>cs_ready := b\<rparr>) = should_be_ready phase health cs"
  by (simp add: should_be_ready_def crashLooping_def)

lemma UpdatePodPhase_Some:
  assumes "mget (s_pods s) (ns, name) = Some p"
  shows "UpdatePodPhase now ns name phase health s =
    finish_phase now ns name phase (pst_phase (pod_status p) \<noteq> phase)
      (pst_phase (pod_status p) \<noteq> phase \<or>
       list_ex (\<lambda>cs. cs_ready cs \<noteq> should_be_ready phase health cs) (init_statuses p))
      (phase_pod phase health p) s"
  unfolding UpdatePodPhase_def Let_def phase_pod_def assms option.case by (rule refl)

lemma phase_pod_again:
  assumes q: "q = omod f (phase_pod phase health p)"
  shows "phase_pod phase health q = q" and "pst_phase (pod_status q) = phase"
    and "\<not> list_ex (\<lambda>cs. cs_ready cs \<noteq> should_be_ready phase health cs) (init_statuses q)"
proof -
  let ?sts = "map (\<lambda>cs. cs\<lparr>cs_ready := should_be_ready phase health cs\<rparr>) (init_statuses p)"
  have st: "init_statuses q = ?sts"
    unfolding q by (auto simp: init_statuses_def [of "omod f x" for x] phase_pod_def)
      (auto simp: init_statuses_def split: if_splits)
  have pst: "pst_containerStatuses (pod_status q) = ?sts" unfolding q by (simp add: phase_pod_def)
  show ph: "pst_phase (pod_status q) = phase" unfolding q by (simp add: phase_pod_def)
  show "\<not> list_ex (\<lambda>cs. cs_ready cs \<noteq> should_be_ready phase health cs) (init_statuses q)"
    unfolding st by (simp add: list_ex_iff)
  have "map (\<lambda>cs. cs\<lparr>cs_ready := should_be_ready phase health cs\<rparr>) (init_statuses q) = ?sts"
    unfolding st by simp
  then show "phase_pod phase health q = q"
    using ph pst by (simp add: phase_pod_def)
qed

lemma UpdatePodPhase_settled:
  assumes q: "q = omod f (phase_pod phase health p)" and m: "mget (s_pods s) (ns, name) = Some q"
  shows "UpdatePodPhase now ns name phase health s = s"
  unfolding UpdatePodPhase_Some [OF m] finish_phase_def phase_pod_again(1,2) [OF q]
  using phase_pod_again(3) [OF q] put_pods_same [OF m] by simp

lemma UpdatePodPhase_twice:
  "UpdatePodPhase now' ns name phase health (UpdatePodPhase now ns name phase health s) =
     UpdatePodPhase now ns name phase health s"
proof (cases "mget (s_pods s) (ns, name)")
  case (Some p)
  obtain ch pc where eq: "UpdatePodPhase now ns name phase health s =
      finish_phase now ns name phase pc ch (phase_pod phase health p) s"
    using UpdatePodPhase_Some [OF Some] by blast
  obtain rv where "mget (s_pods (UpdatePodPhase now ns name phase health s)) (ns, name) =
      Some (omod (om_resourceVersion_update (\<lambda>_. rv)) (phase_pod phase health p))"
    unfolding eq by (rule finish_phase_pod)
  then show ?thesis by (rule UpdatePodPhase_settled [OF refl])
qed (simp add: UpdatePodPhase_def)

lemma UpdateJobStatus_twice:
  "UpdateJobStatus now' ns name a sc f (UpdateJobStatus now ns name a sc f s) =
     UpdateJobStatus now ns name a sc f s"
proof (cases "mget (s_jobs s) (ns, name)")
  case (Some j)
  have "mget (s_jobs (UpdateJobStatus now ns name a sc f s)) (ns, name) = Some j' \<Longrightarrow>
      job_active j' = a \<and> job_succeeded j' = sc \<and> job_failed j' = f" for j'
    using Some
    by (auto simp: UpdateJobStatus_def incRV_def Let_def put_jobs_def go_save_def omod_def
        recordEvent_def notifyChanged_def map_laws split: if_splits)
  then show ?thesis
    by (cases "mget (s_jobs (UpdateJobStatus now ns name a sc f s)) (ns, name)")
      (auto simp: UpdateJobStatus_def [of now'])
qed (simp add: UpdateJobStatus_def)

lemma UpdateDeploymentStatus_twice:
  "UpdateDeploymentStatus now' ns name r (UpdateDeploymentStatus now ns name r s) =
     UpdateDeploymentStatus now ns name r s"
proof (cases "mget (s_deployments s) (ns, name)")
  case (Some d)
  have "mget (s_deployments (UpdateDeploymentStatus now ns name r s)) (ns, name) = Some d' \<Longrightarrow>
      dst_readyReplicas (dep_status d') = r \<and>
      dst_observedGeneration (dep_status d') = om_generation (o_meta d')" for d'
    using Some
    by (auto simp: UpdateDeploymentStatus_def incRV_def Let_def put_deployments_def go_save_def
        omod_def recordEvent_def notifyChanged_def map_laws split: if_splits)
  then show ?thesis
    by (cases "mget (s_deployments (UpdateDeploymentStatus now ns name r s)) (ns, name)")
      (auto simp: UpdateDeploymentStatus_def [of now'])
qed (simp add: UpdateDeploymentStatus_def)

lemma restart_container_again:
  "restart_container rc ec ex (fst (restart_container rc ec ex cs)) =
     (fst (restart_container rc ec ex cs), False)"
  by (auto simp: restart_container_def Let_def)

definition restart_pod :: "int \<Rightarrow> int \<Rightarrow> bool \<Rightarrow> pod \<Rightarrow> pod" where
  "restart_pod rc ec ex p = p\<lparr>pod_status := (pod_status p)\<lparr>pst_containerStatuses :=
     map fst (map (restart_container rc ec ex) (init_statuses p))\<rparr>\<rparr>"

lemma UpdatePodRestartInfo_Some:
  assumes "mget (s_pods s) (ns, name) = Some p"
  shows "UpdatePodRestartInfo ns name rc ec ex s =
    (if list_ex snd (map (restart_container rc ec ex) (init_statuses p))
     then go_save (put_pods (ns, name) (omod (om_resourceVersion_update
       (\<lambda>_. Itoa (s_resourceVer s + 1))) (restart_pod rc ec ex p)) (snd (incRV s)))
     else put_pods (ns, name) (restart_pod rc ec ex p) s)"
  unfolding UpdatePodRestartInfo_def Let_def restart_pod_def assms option.case incRV_def
  by simp

lemma restart_pod_again:
  assumes q: "q = omod f (restart_pod rc ec ex p)"
  shows "restart_pod rc ec ex q = q"
    and "\<not> list_ex snd (map (restart_container rc ec ex) (init_statuses q))"
proof -
  let ?sts = "map fst (map (restart_container rc ec ex) (init_statuses p))"
  have st: "init_statuses q = ?sts"
    unfolding q by (auto simp: init_statuses_def [of "omod f x" for x] restart_pod_def)
      (auto simp: init_statuses_def split: if_splits)
  have pst: "pst_containerStatuses (pod_status q) = ?sts" unfolding q by (simp add: restart_pod_def)
  show "\<not> list_ex snd (map (restart_container rc ec ex) (init_statuses q))"
    unfolding st by (simp add: list_ex_iff restart_container_again)
  have "map fst (map (restart_container rc ec ex) (init_statuses q)) = ?sts"
    unfolding st by (simp add: restart_container_again)
  then show "restart_pod rc ec ex q = q"
    using pst by (simp add: restart_pod_def)
qed

lemma UpdatePodRestartInfo_settled:
  assumes q: "q = omod f (restart_pod rc ec ex p)" and m: "mget (s_pods s) (ns, name) = Some q"
  shows "UpdatePodRestartInfo ns name rc ec ex s = s"
  unfolding UpdatePodRestartInfo_Some [OF m] restart_pod_again(1) [OF q]
  using restart_pod_again(2) [OF q] put_pods_same [OF m] by simp

lemma UpdatePodRestartInfo_twice:
  "UpdatePodRestartInfo ns name rc ec ex (UpdatePodRestartInfo ns name rc ec ex s) =
     UpdatePodRestartInfo ns name rc ec ex s"
proof (cases "mget (s_pods s) (ns, name)")
  case (Some p)
  have "restart_pod rc ec ex p =
      omod (om_resourceVersion_update (\<lambda>_. o_rv p)) (restart_pod rc ec ex p)"
    by (simp add: omod_def restart_pod_def)
  then obtain rv where q: "mget (s_pods (UpdatePodRestartInfo ns name rc ec ex s)) (ns, name) =
      Some (omod (om_resourceVersion_update (\<lambda>_. rv)) (restart_pod rc ec ex p))"
    unfolding UpdatePodRestartInfo_Some [OF Some] incRV_def
    by (cases "list_ex snd (map (restart_container rc ec ex) (init_statuses p))")
      (auto simp: map_laws simp del: list.map_comp)
  then show ?thesis by (rule UpdatePodRestartInfo_settled [OF refl])
qed (simp add: UpdatePodRestartInfo_def)


section \<open>Properties\<close>

text \<open>
  C1: In every state that any sequence of creates, updates, deletes, purges, template syncs and
  status updates reaches from a fresh store, every object sits under its own namespace and name,
  every resource version was handed out by the store's counter, no two objects share a resource
  version, the maps have no duplicate keys and the event feed is the last 500 events recorded.
\<close>

theorem reachable_store_inv:
  assumes "run NewStore s"
  shows "store_inv s"
  by (rule run_inv [OF assms store_inv_new])

theorem reachable_store_inv_witness:
  "store_inv (exec (OpPurge ''a'') (exec (OpCreate 7 (UNamespace (bare_namespace ''a'' [] []))) NewStore))"
  by (rule reachable_store_inv [OF run_step [OF run_step [OF run_refl]]])

text \<open>
  C2: The store refines a map from (kind, namespace, name) to objects, uniformly for the twelve kinds.
  A create writes exactly its own free slot and answers with what it wrote: the object as it was sent,
  with the next resource version, the UID of its kind and name, and the defaults of its kind; on a taken
  slot it answers with the conflict and changes nothing.  An update writes exactly its own taken slot
  with the object as it was sent, keeping the UID; on a free slot it answers that there is none.  A
  delete empties exactly its slot, or answers that there is none.  Every write schedules one save.
\<close>

theorem store_refines_map:
  "(case contents s (slot u) of
      None \<Rightarrow> \<exists>s'. create_out t u s = (Inr (created t (next_rv s) u), s') \<and>
        stored (u_kind u) (u_key u) (created t (next_rv s) u) s s'
    | Some _ \<Rightarrow> create_out t u s = (Inl (AlreadyExists (kind_word (u_kind u)) (u_key u)), s)) \<and>
   (case contents s (slot u) of
      None \<Rightarrow> update_out t u s = (Inl (NotFound (kind_word (u_kind u)) (u_key u)), s)
    | Some old \<Rightarrow> \<exists>s'. update_out t u s = (Inr (updated t (next_rv s) old u), s') \<and>
        stored (u_kind u) (u_key u) (updated t (next_rv s) old u) s s') \<and>
   (if contents s (kd, del_key kd ns n) = None
    then delete_out t kd ns n s = (Some (NotFound (kind_word kd) (del_key kd ns n)), s)
    else \<exists>s'. delete_out t kd ns n s = (None, s') \<and> removed kd (del_key kd ns n) s s')"
  by (intro conjI create_out_refines update_out_refines delete_out_refines)

text \<open>
  C19: Resource versions only move forward: along any sequence of operations the counter never
  goes back, and an object found afterwards either carries a version handed out in between or
  was there before under the same key with the same version.
\<close>

theorem versions_move_forward:
  assumes "run s s'"
  shows "s_resourceVer s \<le> s_resourceVer s' \<and>
    (case contents s' a of
       None \<Rightarrow> True
     | Some v \<Rightarrow> fresh_rv s s' (u_rv v) \<or> map_option u_rv (contents s a) = Some (u_rv v))"
proof (cases "contents s' a")
  case (Some v)
  then have "fresh_rv s s' (u_rv v) \<or> (\<exists>u. contents s a = Some u \<and> u_rv u = u_rv v)"
    using run_rv_step [OF assms] unfolding rv_step_def by blast
  with Some run_rv_step [OF assms] show ?thesis by (auto simp: rv_step_def)
qed (use run_rv_step [OF assms] in \<open>simp add: rv_step_def\<close>)

theorem versions_move_forward_witness:
  "s_resourceVer NewStore \<le>
     s_resourceVer (exec (OpCreate 7 (UNamespace (bare_namespace ''a'' [] []))) NewStore)"
  using versions_move_forward [OF run_step [OF run_refl],
    of NewStore "OpCreate 7 (UNamespace (bare_namespace ''a'' [] []))"] by (rule conjunct1)

text \<open>
  C20: No operation changes the UID of an object that is there before and after it: an update
  cannot take over another object's identity, whatever UID its argument carries.
\<close>

theorem surviving_object_keeps_uid:
  assumes "contents s a = Some u" and "contents (exec op s) a = Some v"
  shows "u_uid v = u_uid u"
  using exec_evolves [of s op] assms unfolding evolves_def uid_step_def by metis

theorem surviving_object_keeps_uid_witness:
  "\<exists>v. contents (exec (OpUpdate 7 (UNamespace (bare_namespace ''default'' ''stolen'' []))) NewStore)
         (KNamespace, [], ''default'') = Some v \<and> u_uid v = ''q8s-default-ns''"
proof -
  let ?op = "OpUpdate 7 (UNamespace (bare_namespace ''default'' ''stolen'' []))"
    and ?a = "(KNamespace, [], ''default'')"
  have old: "contents NewStore ?a =
      Some (UNamespace (bare_namespace ''default'' ''q8s-default-ns'' []))" by simp
  have new: "contents (exec ?op NewStore) ?a \<noteq> None"
    by (simp add: UpdateNamespace_def NewStore_def ensureDefaultNamespace_def newEmpty_def
        bare_namespace_def incRV_def Let_def go_save_def put_namespaces_def)
  then obtain v where v: "contents (exec ?op NewStore) ?a = Some v" by blast
  from surviving_object_keeps_uid [OF old v] have "u_uid v = ''q8s-default-ns''"
    by (simp add: bare_namespace_def)
  with v show ?thesis by blast
qed

text \<open>
  C7: Whatever saves fail, at whatever point they fail and wherever the process crashes, the
  store in memory satisfies its invariant and the data file can be loaded into a store that
  satisfies it: a failing or interrupted save never damages the file.  The objects stored have UTF-8
  names (sys), as every name the API accepts is.  Of the codec only json_codec is used: an object
  need not come back as it was.
\<close>

theorem crash_recovery:
  assumes "sys marshal unmarshal allowed df (s, sv, fs)" and "json_codec marshal unmarshal rr"
  shows "store_inv s \<and>
    (\<exists>s'. Load unmarshal df (read_file fs df) = Inr s' \<and> store_inv s')"
  using sys_good [OF assms] Load_good [OF assms(2), of df fs] by (auto simp: good_def)

lemma good_NewStore: "good NewStore"
  unfolding NewStore_def using good_new [of "[]"] by (simp add: newEmpty_def)

text \<open>
  A codec that drops empty maps of labels and the fractions of creation times, and one save that
  fails at the rename, as a concrete run with it.
\<close>

definition lossy :: "'a kobj_scheme \<Rightarrow> 'a kobj_scheme" where
  "lossy x = omod (\<lambda>m. m\<lparr>om_labels := (if om_labels m = Some [] then None else om_labels m),
     om_creationTimestamp := map_option (\<lambda>c. c div 1000000000 * 1000000000) (om_creationTimestamp m)\<rparr>) x"

definition lossy_codec :: rereading where
  "lossy_codec = \<lparr>rr_namespace = lossy, rr_pod = lossy, rr_service = lossy, rr_pvc = lossy, rr_configmap = lossy,
     rr_secret = lossy, rr_job = lossy, rr_cronjob = lossy, rr_deployment = lossy, rr_ingress = lossy,
     rr_middleware = lossy, rr_ingress_route_tcp = lossy\<rparr>"

abbreviation lossy_marshal :: "snapshot \<Rightarrow> snapshot" where
  "lossy_marshal \<equiv> reread_snapshot lossy_codec"

lemma lossy_json_codec: "json_codec lossy_marshal Inr lossy_codec"
proof -
  have "u_key (reread lossy_codec u) = u_key u \<and> u_rv (reread lossy_codec u) = u_rv u" for u
    by (cases u) (simp_all add: lossy_codec_def lossy_def okey_def)
  then show ?thesis by (simp add: json_codec_def)
qed

definition demo_op :: store_op where
  "demo_op = OpCreate 7 (UNamespace (bare_namespace ''a'' [] []))"

definition demo_store :: store where
  "demo_store = ensureDefaultNamespace (newEmpty\<lparr>s_dataFile := ''db''\<rparr>)"

lemma demo_named: "named_op demo_op"
  by (simp add: demo_op_def bare_namespace_def empty_meta_def valid_utf8_ascii)

lemma demo_sys:
  assumes "allowed oc"
  shows "sys lossy_marshal Inr allowed ''db''
    (save_begin (exec demo_op demo_store), None,
     save_write lossy_marshal oc ''db'' (store_snapshot (save_begin (exec demo_op demo_store)))
       (\<lambda>_. None))"
proof -
  have "sys lossy_marshal Inr allowed ''db'' (demo_store, None, \<lambda>_. None)"
    by (rule sys_start) (simp_all add: Load_def read_file_def demo_store_def)
  then have start: "sys lossy_marshal Inr allowed ''db'' (exec demo_op demo_store, None, \<lambda>_. None)"
    by (rule sys_op) (rule demo_named)
  have "s_pending (exec demo_op demo_store) > 0" and "s_dataFile (exec demo_op demo_store) \<noteq> []"
    by (simp_all add: demo_op_def demo_store_def CreateNamespace_def ensureDefaultNamespace_def
        newEmpty_def bare_namespace_def incRV_def Let_def go_save_def put_namespaces_def
        recordEvent_def notifyChanged_def)
  from sys_finish [OF sys_begin [OF start this] assms] show ?thesis .
qed

theorem crash_recovery_witness:
  "store_inv (save_begin (exec demo_op demo_store)) \<and>
   (\<exists>s'. Load Inr ''db'' (read_file (save_write lossy_marshal RenameErr ''db''
      (store_snapshot (save_begin (exec demo_op demo_store))) (\<lambda>_. None)) ''db'') = Inr s' \<and>
    store_inv s')"
  by (rule crash_recovery [OF demo_sys [where allowed = "\<lambda>_. True" and oc = RenameErr] lossy_json_codec]) simp

text \<open>
  C17: While saves succeed, the data file is up to date whenever no save is pending or running:
  loading it gives the same resource version counter and every object at the same version.  A
  crash then loses no write, in whatever order the background saves ran.  As before, names are UTF-8 and
  of the codec only json_codec is used.
\<close>

theorem quiescent_file_is_current:
  assumes "sys marshal unmarshal (\<lambda>oc. oc = Saved) df (s, None, fs)"
    and "json_codec marshal unmarshal rr" and "df \<noteq> []" and "s_pending s = 0"
  shows "\<exists>t. Load unmarshal df (read_file fs df) = Inr t \<and> versions t = versions s"
  using sys_synced [OF assms] by simp

theorem quiescent_file_is_current_witness:
  "\<exists>t. Load Inr ''db'' (read_file (save_write lossy_marshal Saved ''db''
      (store_snapshot (save_begin (exec demo_op demo_store))) (\<lambda>_. None)) ''db'') = Inr t \<and>
    versions t = versions (save_begin (exec demo_op demo_store))"
proof (rule quiescent_file_is_current [OF demo_sys lossy_json_codec])
  show "s_pending (save_begin (exec demo_op demo_store)) = 0"
    by (simp add: demo_op_def demo_store_def CreateNamespace_def ensureDefaultNamespace_def
        newEmpty_def bare_namespace_def incRV_def Let_def go_save_def put_namespaces_def
        recordEvent_def notifyChanged_def)
qed simp_all

text \<open>
  C18: Saving and loading a reachable store whose names are UTF-8 gives a store with the same keys and
  the same counter that satisfies the invariant again.  Each object is what reading it back makes of
  it (rr, which need not be the object), nothing is mixed up between keys or kinds, legacy secrets
  have their string data folded into their data, and a deleted default namespace is back.
\<close>

theorem restart_roundtrip:
  assumes "run NewStore s" and "names_ok s" and "json_codec marshal unmarshal rr"
  shows "\<exists>t. Load unmarshal df (Content (marshal (store_snapshot s))) = Inr t \<and>
    store_inv t \<and> versions t = versions s \<and>
    (\<forall>a. contents t a =
       (if a = default_key \<and> contents s a = None
        then Some (UNamespace (bare_namespace ''default'' ''q8s-default-ns'' []))
        else map_option (\<lambda>u. reloaded (reread rr u)) (contents s a)))"
proof -
  let ?t = "ensureDefaultNamespace (read_back df rr s)"
  have inv: "store_inv s" by (rule run_inv [OF assms(1) store_inv_new])
  have def: "rv_default s"
    by (rule rv_default_step [OF run_rv_step [OF assms(1)]]) (use good_NewStore in \<open>simp add: good_def\<close>)
  have load: "contents (read_back df rr s) a = map_option (\<lambda>u. reloaded (reread rr u)) (contents s a)" for a
    by (rule contents_load [OF inv assms(2)]) (rule json_codecD(2) [OF assms(3)])
  have exact: "contents ?t a = (if a = default_key \<and> contents s a = None
      then Some (UNamespace (bare_namespace ''default'' ''q8s-default-ns'' []))
      else map_option (\<lambda>u. reloaded (reread rr u)) (contents s a))" for a
    unfolding contents_default load option.map_disc_iff by (rule refl)
  have "Load unmarshal df (Content (marshal (store_snapshot s))) = Inr ?t"
    by (simp add: Load_def json_codecD(1) [OF assms(3)])
  moreover have "store_inv ?t"
    by (rule store_inv_default [OF store_inv_load(1,2) [OF inv def assms(2,3)]])
  moreover have "versions ?t = versions s" by (simp add: versions_load [OF inv assms(2,3)])
  ultimately show ?thesis using exact by blast
qed

theorem restart_roundtrip_witness:
  "\<exists>t. Load Inr ''db'' (Content (lossy_marshal (store_snapshot (exec demo_op NewStore)))) = Inr t \<and>
    versions t = versions (exec demo_op NewStore)"
proof -
  have names: "names_ok (exec demo_op NewStore)"
    using good_exec [OF good_NewStore demo_named] by (simp add: good_def)
  then obtain t where "Load Inr ''db'' (Content (lossy_marshal (store_snapshot (exec demo_op NewStore)))) = Inr t"
    and "versions t = versions (exec demo_op NewStore)"
    using restart_roundtrip [where df = "''db''", OF run_step [OF run_refl] names lossy_json_codec]
    by (elim exE conjE) (rule that)
  then show ?thesis by (intro exI conjI)
qed

text \<open>
  The reconcile loop settles: syncing a pod's template or its phase, health, restart count or
  exit code a second time, a job's counters or a deployment's ready count, with the same
  observation changes nothing at all, so it wakes no watcher, writes no file and records no event.
\<close>

lemma reconcile_updates_idempotent:
  "snd (SyncPodTemplate p (snd (SyncPodTemplate p s))) = snd (SyncPodTemplate p s) \<and>
   UpdatePodPhase t' ns n phase health (UpdatePodPhase t ns n phase health s) =
     UpdatePodPhase t ns n phase health s \<and>
   UpdatePodRestartInfo ns n rc ec ex (UpdatePodRestartInfo ns n rc ec ex s) =
     UpdatePodRestartInfo ns n rc ec ex s \<and>
   UpdateJobStatus t' ns n ac sc fl (UpdateJobStatus t ns n ac sc fl s) =
     UpdateJobStatus t ns n ac sc fl s \<and>
   UpdateDeploymentStatus t' ns n r (UpdateDeploymentStatus t ns n r s) =
     UpdateDeploymentStatus t ns n r s"
  by (simp add: SyncPodTemplate_twice UpdatePodPhase_twice UpdatePodRestartInfo_twice
      UpdateJobStatus_twice UpdateDeploymentStatus_twice)

text \<open>
  Listing namespaces gives each name once: those with a namespace object and those in which
  some object of another kind lives, nothing else.
\<close>

lemma namespaces_listed:
  assumes "run NewStore s"
  shows "distinct (map (\<lambda>x. o_name x) (ListNamespaces s)) \<and>
    (n \<in> set (map (\<lambda>x. o_name x) (ListNamespaces s)) \<longleftrightarrow>
      contents s (KNamespace, [], n) \<noteq> None \<or>
      (\<exists>kd. kd \<noteq> KNamespace \<and> (\<exists>name. contents s (kd, n, name) \<noteq> None)))"
  using ListNamespaces_names [OF run_inv [OF assms store_inv_new]] by auto

lemma namespaces_listed_witness:
  "distinct (map (\<lambda>x. o_name x) (ListNamespaces (exec demo_op NewStore)))"
  using namespaces_listed [OF run_step [OF run_refl]] by (rule conjunct1)

text \<open>
  Purging a namespace removes every namespaced object in it and nothing else, and moves the
  resource version on.
\<close>

lemma purge_is_exact:
  "contents (PurgeNamespace name s) (kd, k) =
     (if kd \<noteq> KNamespace \<and> fst k = name then None else contents s (kd, k)) \<and>
   s_resourceVer (PurgeNamespace name s) = s_resourceVer s + 1"
  by (simp add: contents_purge) (simp add: PurgeNamespace_def Let_def)

end
