(* ===== verification/UnitText.thy ===== *)
theory UnitText
  imports QuadletVolume Utf8
begin

text \<open>
  Unit files as text: what it means that a string is a sequence of complete lines, the
  renderers' way of building one from segments that may fail, and the assignment lines of
  internal/quadlet/env.go (\<open>Environment=\<close> and \<open>Annotation=\<close>) with the decoder that inverts
  their quoting.
\<close>

section \<open>Complete lines\<close>

definition unit_lines :: "string list \<Rightarrow> string" where
  "unit_lines ls = concat (map (\<lambda>l. l @ nl) ls)"

text \<open>\<open>b.WriteString(fmt.Sprintf("\<dots>\n"))\<close>\<close>

definition ln :: "string \<Rightarrow> string" where
  "ln l = l @ nl"

text \<open>\<open>renders s ls\<close>: the text \<open>s\<close> consists of exactly the complete lines \<open>ls\<close>.\<close>

definition renders :: "string \<Rightarrow> string list \<Rightarrow> bool" where
  "renders s ls \<longleftrightarrow> s = unit_lines ls \<and> (\<forall>l \<in> set ls. newline \<notin> set l)"

lemma renders_Nil [simp]: "renders [] []"
  by (simp add: renders_def unit_lines_def)

lemma renders_one: "newline \<notin> set l \<Longrightarrow> renders (l @ nl) [l]"
  by (simp add: renders_def unit_lines_def)

lemma renders_append: "renders s ls \<Longrightarrow> renders t ms \<Longrightarrow> renders (s @ t) (ls @ ms)"
  by (auto simp: renders_def unit_lines_def)

lemma Split_unit_lines:
  "\<forall>l \<in> set ls. newline \<notin> set l \<Longrightarrow> Split (unit_lines ls) newline = ls @ [[]]"
  by (induction ls) (auto simp: unit_lines_def Split_append)

text \<open>The lines of a text are determined by it: splitting at the line breaks finds them.\<close>

lemma renders_Split: "renders s ls \<Longrightarrow> Split s newline = ls @ [[]]"
  by (simp add: renders_def Split_unit_lines)

lemma renders_unique: "renders s ls \<Longrightarrow> renders s ms \<Longrightarrow> ls = ms"
  by (metis renders_Split append1_eq_conv)

text \<open>Every line satisfies a test.\<close>

definition lines_of :: "(string \<Rightarrow> bool) \<Rightarrow> string \<Rightarrow> bool" where
  "lines_of P s \<longleftrightarrow> (\<exists>ls. renders s ls \<and> (\<forall>l \<in> set ls. P l))"

named_theorems line_intros \<open>texts whose lines all satisfy a test\<close>

lemma lines_of_Nil [simp, intro, line_intros]: "lines_of P []"
  unfolding lines_of_def by (rule exI [of _ "[]"]) simp

lemma lines_of_one: "newline \<notin> set l \<Longrightarrow> P l \<Longrightarrow> lines_of P (l @ nl)"
  unfolding lines_of_def by (rule exI [of _ "[l]"]) (simp add: renders_one)

lemma lines_of_ln [line_intros]: "newline \<notin> set l \<Longrightarrow> P l \<Longrightarrow> lines_of P (ln l)"
  by (simp add: ln_def lines_of_one)

lemma lines_of_append [line_intros]: "lines_of P s \<Longrightarrow> lines_of P t \<Longrightarrow> lines_of P (s @ t)"
  unfolding lines_of_def by (metis renders_append UnE set_append)

lemma lines_of_concat: "(\<And>x. x \<in> set xs \<Longrightarrow> lines_of P x) \<Longrightarrow> lines_of P (concat xs)"
  by (induction xs) (auto intro: lines_of_append)

lemma lines_of_if [line_intros]:
  "(b \<Longrightarrow> lines_of P s) \<Longrightarrow> (\<not> b \<Longrightarrow> lines_of P t) \<Longrightarrow> lines_of P (if b then s else t)"
  by simp

lemma lines_of_mono: "lines_of P s \<Longrightarrow> (\<And>l. P l \<Longrightarrow> Q l) \<Longrightarrow> lines_of Q s"
  unfolding lines_of_def by blast

section \<open>Renderers\<close>

text \<open>
  A renderer writes segments to a builder and returns at the first error, discarding what it
  wrote: \<open>render\<close> concatenates the segments of its parts in order.
\<close>

type_synonym segment = "unit_error + string"

fun render :: "segment list \<Rightarrow> segment" where
  "render [] = Inr []"
| "render (x # xs) = rbind x (\<lambda>s. rbind (render xs) (\<lambda>t. Inr (s @ t)))"

lemma render_Inr_Cons:
  "render (x # xs) = Inr out \<longleftrightarrow> (\<exists>s t. x = Inr s \<and> render xs = Inr t \<and> out = s @ t)"
  by (auto simp: rbind_laws)

lemma render_append:
  "render (xs @ ys) = rbind (render xs) (\<lambda>s. rbind (render ys) (\<lambda>t. Inr (s @ t)))"
proof (induction xs)
  case Nil
  show ?case by (cases "render ys") simp_all
next
  case (Cons x xs)
  then show ?case by (cases x; cases "render xs"; cases "render ys") simp_all
qed

text \<open>A segment all of whose lines satisfy \<open>P\<close> when it does not fail.\<close>

definition seg_lines :: "(string \<Rightarrow> bool) \<Rightarrow> segment \<Rightarrow> bool" where
  "seg_lines P x \<longleftrightarrow> (\<forall>s. x = Inr s \<longrightarrow> lines_of P s)"

lemma seg_lines_Inr [simp]: "seg_lines P (Inr s) \<longleftrightarrow> lines_of P s"
  by (simp add: seg_lines_def)

lemma seg_lines_Inl [simp]: "seg_lines P (Inl e)"
  by (simp add: seg_lines_def)

lemma seg_lines_rbind [line_intros]: "(\<And>x. m = Inr x \<Longrightarrow> seg_lines P (f x)) \<Longrightarrow> seg_lines P (rbind m f)"
  by (cases m) simp_all

lemma seg_lines_render: "(\<And>x. x \<in> set xs \<Longrightarrow> seg_lines P x) \<Longrightarrow> seg_lines P (render xs)"
  by (induction xs) (auto simp: seg_lines_def rbind_laws intro!: lines_of_append)

lemma seg_lines_if [line_intros]:
  "(b \<Longrightarrow> seg_lines P s) \<Longrightarrow> (\<not> b \<Longrightarrow> seg_lines P t) \<Longrightarrow> seg_lines P (if b then s else t)"
  by simp

lemma seg_lines_render_Cons [line_intros]:
  "seg_lines P x \<Longrightarrow> seg_lines P (render xs) \<Longrightarrow> seg_lines P (render (x # xs))"
  by (auto simp: seg_lines_def rbind_laws intro!: lines_of_append)

lemma seg_lines_render_map [line_intros]:
  "(\<And>x. x \<in> set xs \<Longrightarrow> seg_lines P (f x)) \<Longrightarrow> seg_lines P (render (map f xs))"
  by (rule seg_lines_render) auto

lemma seg_lines_IntInr [line_intros]: "lines_of P s \<Longrightarrow> seg_lines P (Inr s)"
  by simp

lemma seg_lines_IntInl [line_intros]: "seg_lines P (Inl e)"
  by simp

lemma seg_lines_mono: "seg_lines P x \<Longrightarrow> (\<And>l. P l \<Longrightarrow> Q l) \<Longrightarrow> seg_lines Q x"
  unfolding seg_lines_def using lines_of_mono by blast

lemma seg_lines_D: "seg_lines P x \<Longrightarrow> x = Inr s \<Longrightarrow> lines_of P s"
  by (simp add: seg_lines_def)

text \<open>The lines of a text with a designated first line, such as a section header.\<close>

lemma renders_Cons: "newline \<notin> set l \<Longrightarrow> renders s ls \<Longrightarrow> renders (l @ nl @ s) (l # ls)"
  by (simp add: renders_def unit_lines_def)

text \<open>\<open>directive ks l\<close>: the line assigns one of the keys \<open>ks\<close>.\<close>

definition directive :: "string list \<Rightarrow> string \<Rightarrow> bool" where
  "directive ks l \<longleftrightarrow> (case Cut l (CHR ''='') of (k, _, found) \<Rightarrow> found \<and> k \<in> set ks)"

lemma directive_mono: "directive ks l \<Longrightarrow> set ks \<subseteq> set ks' \<Longrightarrow> directive ks' l"
  by (auto simp: directive_def split: prod.splits)

lemma Cut_key: "CHR ''='' \<notin> set k \<Longrightarrow> Cut (k @ CHR ''='' # v) (CHR ''='') = (k, v, True)"
  by (induction k) auto

lemma directive_key: "CHR ''='' \<notin> set k \<Longrightarrow> directive ks (k @ CHR ''='' # v) \<longleftrightarrow> k \<in> set ks"
  by (simp add: directive_def Cut_key)

section \<open>Assignment lines\<close>

definition is_control :: "nat \<Rightarrow> bool" where
  "is_control r \<longleftrightarrow> r < 32 \<or> r = 127"

text \<open>\<open>unicode.IsSpace(r) || r == '"' || r == '\\' || r == '%'\<close>, and controls for annotations.\<close>

definition needs_quote :: "bool \<Rightarrow> nat \<Rightarrow> bool" where
  "needs_quote escapeControls r \<longleftrightarrow>
     (escapeControls \<and> is_control r) \<or> IsSpace r \<or> r = 34 \<or> r = 92 \<or> r = 37"

definition backslash :: char where
  "backslash = CHR 0x5C"

definition dquote :: char where
  "dquote = CHR 0x22"

definition hexdigit :: "nat \<Rightarrow> char" where
  "hexdigit n = ''0123456789abcdef'' ! n"

definition escape_rune :: "bool \<Rightarrow> nat \<Rightarrow> string" where
  "escape_rune escapeControls r =
     (if r = 34 \<or> r = 92 then backslash # EncodeRune r
      else if r = 37 then CHR ''%'' # EncodeRune r
      else if escapeControls \<and> is_control r then
        (if r = 10 then [backslash, CHR ''n'']
         else if r = 9 then [backslash, CHR ''t'']
         else if r = 13 then [backslash, CHR ''r'']
         else [backslash, CHR ''x'', hexdigit (r div 16), hexdigit (r mod 16)])
      else EncodeRune r)"

definition unitAssignmentLine ::
  "string \<Rightarrow> string \<Rightarrow> string \<Rightarrow> bool \<Rightarrow> unit_error + string" where
  "unitAssignmentLine d name value escapeControls =
     (case (if escapeControls then None else find is_control (runes value)) of
        Some r \<Rightarrow> Inl (EnvControlChars name r)
      | None \<Rightarrow>
          if \<not> list_ex (needs_quote escapeControls) (runes value)
          then Inr (ln (d @ ''='' @ name @ ''='' @ value))
          else Inr (ln (d @ ''='' @ [dquote] @ name @ ''=''
                 @ concat (map (escape_rune escapeControls) (runes value)) @ [dquote])))"

definition envLine :: "string \<Rightarrow> string \<Rightarrow> unit_error + string" where
  "envLine name value = unitAssignmentLine ''Environment'' name value False"

lemma hexdigit_newline [simp]: "n < 16 \<Longrightarrow> hexdigit n \<noteq> newline"
proof -
  assume "n < 16"
  then have "hexdigit n \<in> set ''0123456789abcdef''"
    unfolding hexdigit_def by (intro nth_mem) simp
  then show ?thesis by auto
qed

lemma bcode_newline: "bcode newline = 10"
  by simp

lemma bchr_eq_newline: "r < 128 \<Longrightarrow> bchr r = newline \<longleftrightarrow> r = 10"
proof -
  assume "r < 128"
  then have "bcode (bchr r) = r" by simp
  then show "bchr r = newline \<longleftrightarrow> r = 10"
    by (metis bcode_newline char_of_char)
qed

lemma EncodeRune_newline: "r \<noteq> 10 \<Longrightarrow> newline \<notin> set (EncodeRune r)"
proof (cases "r < 128")
  case True
  assume "r \<noteq> 10"
  with True bchr_eq_newline [OF True] show ?thesis by (auto simp: EncodeRune_ascii)
next
  case False
  then show ?thesis using EncodeRune_nonascii [of r newline] by auto
qed

lemma escape_rune_newline: "ec \<or> r \<noteq> 10 \<Longrightarrow> newline \<notin> set (escape_rune ec r)"
  using EncodeRune_newline [of r] hexdigit_newline [of "r div 16"] hexdigit_newline [of "r mod 16"]
  by (auto simp: escape_rune_def backslash_def is_control_def dest: sym)

lemma newline_control: "newline \<in> set s \<Longrightarrow> find is_control (runes s) \<noteq> None"
proof -
  assume "newline \<in> set s"
  then have "10 \<in> set (runes s)" using ascii_byte_iff_rune [of newline s] by simp
  then show ?thesis by (auto simp: find_None_iff is_control_def)
qed

lemma newline_quoted: "newline \<in> set s \<Longrightarrow> list_ex (needs_quote ec) (runes s)"
proof -
  assume "newline \<in> set s"
  then have "10 \<in> set (runes s)" using ascii_byte_iff_rune [of newline s] by simp
  moreover have "needs_quote ec 10" by (simp add: needs_quote_def IsSpace_def)
  ultimately show ?thesis unfolding list_ex_iff by blast
qed

text \<open>Whatever the value, an accepted assignment is one line of its own directive.\<close>

lemma unitAssignmentLine_one_line:
  assumes "unitAssignmentLine d name value ec = Inr line"
    and "newline \<notin> set d" and "newline \<notin> set name"
  shows "\<exists>rest. line = (d @ ''='' @ rest) @ nl \<and> newline \<notin> set (d @ ''='' @ rest)"
proof (cases "list_ex (needs_quote ec) (runes value)")
  case False
  then have "newline \<notin> set value" using newline_quoted by blast
  with False assms show ?thesis
    by (intro exI [of _ "name @ ''='' @ value"])
      (auto simp: unitAssignmentLine_def ln_def split: option.splits)
next
  case True
  let ?esc = "concat (map (escape_rune ec) (runes value))"
  from True assms(1)
  have line: "line = (d @ ''='' @ [dquote] @ name @ ''='' @ ?esc @ [dquote]) @ nl"
    and ok: "ec \<or> find is_control (runes value) = None"
    by (auto simp: unitAssignmentLine_def ln_def split: option.splits if_splits)
  from ok have "ec \<or> r \<noteq> 10" if "r \<in> set (runes value)" for r
    using that by (auto simp: find_None_iff is_control_def)
  then have "newline \<notin> set ?esc" using escape_rune_newline by auto
  with assms(2,3) show ?thesis
    unfolding line by (intro exI [of _ "[dquote] @ name @ ''='' @ ?esc @ [dquote]"])
      (auto simp: dquote_def)
qed

lemma unitAssignmentLine_lines:
  assumes "unitAssignmentLine d name value ec = Inr line"
    and "newline \<notin> set d" and "newline \<notin> set name" and "d \<in> set ks" and "CHR ''='' \<notin> set d"
  shows "lines_of (directive ks) line"
proof -
  obtain rest where "line = ln (d @ ''='' @ rest)" and "newline \<notin> set (d @ ''='' @ rest)"
    using unitAssignmentLine_one_line [OF assms(1-3)] by (auto simp: ln_def)
  then show ?thesis using assms(4,5) by (auto simp: directive_key intro: lines_of_ln)
qed

section \<open>Decoding\<close>

text \<open>
  The inverse of the quoting, by the rules of systemd's unit syntax: inside one double-quoted
  word a backslash introduces a C escape and a doubled percent sign is one percent sign; an
  unquoted word is taken as it is.
\<close>

definition hexval :: "char \<Rightarrow> nat" where
  "hexval c = (if is_digit c then bcode c - 48 else bcode c - 87)"

fun unescape :: "string \<Rightarrow> string" where
  "unescape [] = []"
| "unescape [c] = [c]"
| "unescape (c # d # cs) =
     (if c = backslash then
        (if d = CHR ''n'' then newline # unescape cs
         else if d = CHR ''t'' then CHR 0x09 # unescape cs
         else if d = CHR ''r'' then CHR 0x0D # unescape cs
         else if d = CHR ''x'' then
           (case cs of h # l # rest \<Rightarrow> bchr (16 * hexval h + hexval l) # unescape rest | _ \<Rightarrow> cs)
         else d # unescape cs)
      else if c = CHR ''%'' \<and> d = CHR ''%'' then c # unescape cs
      else c # unescape (d # cs))"

definition parse_assignment :: "string \<Rightarrow> string \<Rightarrow> string \<times> string" where
  "parse_assignment d line =
     (let word = TrimSuffix (TrimPrefix line (d @ ''='')) nl;
          plain = (if HasPrefix word [dquote] then unescape (TrimSuffix (tl word) [dquote]) else word);
          (name, value, _) = Cut plain (CHR ''='')
      in (name, value))"

definition plain_byte :: "char \<Rightarrow> bool" where
  "plain_byte c \<longleftrightarrow> c \<noteq> backslash \<and> c \<noteq> CHR ''%''"

lemma unescape_plain: "\<forall>c \<in> set w. plain_byte c \<Longrightarrow> unescape (w @ rest) = w @ unescape rest"
proof (induction w)
  case (Cons c w)
  then have "unescape (c # (w @ rest)) = c # unescape (w @ rest)"
    by (cases "w @ rest") (auto simp: plain_byte_def)
  with Cons show ?case by simp
qed simp

lemma hexval_hexdigit: "n < 16 \<Longrightarrow> hexval (hexdigit n) = n"
proof -
  assume "n < 16"
  then have "n \<in> set [0..<16]" by simp
  moreover have "\<forall>n \<in> set [0..<16]. hexval (hexdigit n) = n"
    by (simp add: hexval_def hexdigit_def is_digit_def upt_rec)
  ultimately show ?thesis by blast
qed

lemma EncodeRune_plain: "r \<noteq> 92 \<Longrightarrow> r \<noteq> 37 \<Longrightarrow> c \<in> set (EncodeRune r) \<Longrightarrow> plain_byte c"
proof (cases "r < 128")
  case True
  assume "r \<noteq> 92" "r \<noteq> 37" "c \<in> set (EncodeRune r)"
  with True have "bcode c = r" and "r \<noteq> 92" "r \<noteq> 37" by (auto simp: EncodeRune_ascii)
  then show ?thesis by (auto simp: plain_byte_def backslash_def)
next
  case False
  assume "c \<in> set (EncodeRune r)"
  with False EncodeRune_nonascii [of r c] have "128 \<le> bcode c" by simp
  then show ?thesis by (auto simp: plain_byte_def backslash_def)
qed

lemma bchr_special: "bchr 34 = dquote" "bchr 92 = backslash" "bchr 37 = CHR ''%''"
  "bchr 10 = newline" "bchr 9 = CHR 0x09" "bchr 13 = CHR 0x0D"
proof -
  have "bcode dquote = 34" "bcode backslash = 92" "bcode (CHR ''%'') = 37" "bcode newline = 10"
    "bcode (CHR 0x09) = 9" "bcode (CHR 0x0D) = 13"
    by (simp_all add: dquote_def backslash_def)
  then show "bchr 34 = dquote" "bchr 92 = backslash" "bchr 37 = CHR ''%''"
    "bchr 10 = newline" "bchr 9 = CHR 0x09" "bchr 13 = CHR 0x0D"
    by (metis char_of_char)+
qed

lemma unescape_rune: "unescape (escape_rune ec r @ rest) = EncodeRune r @ unescape rest"
proof -
  consider "r = 34 \<or> r = 92" | "r = 37" | "r \<noteq> 34" "r \<noteq> 92" "r \<noteq> 37" "ec \<and> is_control r"
    | "r \<noteq> 92" "r \<noteq> 37" "r \<noteq> 34" "\<not> (ec \<and> is_control r)" by blast
  then show ?thesis
  proof cases
    case 1
    then show ?thesis
      by (auto simp: escape_rune_def EncodeRune_ascii bchr_special dquote_def backslash_def)
  next
    case 2
    then show ?thesis by (simp add: escape_rune_def EncodeRune_ascii bchr_special backslash_def)
  next
    case 3
    then have "r < 128" by (auto simp: is_control_def)
    moreover from this have "r div 16 < 16" by simp
    ultimately show ?thesis using 3
      by (auto simp: escape_rune_def EncodeRune_ascii bchr_special hexval_hexdigit)
  next
    case 4
    then have "\<forall>c \<in> set (EncodeRune r). plain_byte c" using EncodeRune_plain by blast
    moreover have "escape_rune ec r = EncodeRune r" using 4 by (auto simp: escape_rune_def)
    ultimately show ?thesis by (simp add: unescape_plain)
  qed
qed

lemma unescape_runes: "unescape (concat (map (escape_rune ec) rs)) = concat (map EncodeRune rs)"
  by (induction rs) (simp_all add: unescape_rune)

definition plain_name :: "string \<Rightarrow> bool" where
  "plain_name name \<longleftrightarrow> name \<noteq> [] \<and> (\<forall>c \<in> set name. plain_byte c \<and> c \<noteq> CHR ''='' \<and> c \<noteq> dquote)"

lemma parse_unitAssignmentLine:
  assumes line: "unitAssignmentLine d name value ec = Inr line"
    and name: "plain_name name" and valid: "valid_utf8 value"
  shows "parse_assignment d line = (name, value)"
proof (cases "list_ex (needs_quote ec) (runes value)")
  case False
  with line have l: "line = (d @ ''='') @ (name @ ''='' @ value) @ nl"
    by (auto simp: unitAssignmentLine_def ln_def split: option.splits)
  have word: "TrimSuffix (TrimPrefix line (d @ ''='')) nl = name @ ''='' @ value"
    unfolding l TrimPrefix_append TrimSuffix_append ..
  have "\<not> HasPrefix (name @ ''='' @ value) [dquote]"
    using name by (cases name) (auto simp: plain_name_def HasPrefix_def)
  moreover have "CHR ''='' \<notin> set name" using name by (auto simp: plain_name_def)
  ultimately show ?thesis by (simp add: parse_assignment_def word Cut_key)
next
  case True
  let ?esc = "concat (map (escape_rune ec) (runes value))"
  from True line have l: "line = (d @ ''='') @ (dquote # ((name @ ''='' @ ?esc) @ [dquote])) @ nl"
    by (auto simp: unitAssignmentLine_def ln_def split: option.splits)
  have word: "TrimSuffix (TrimPrefix line (d @ ''='')) nl = dquote # ((name @ ''='' @ ?esc) @ [dquote])"
    unfolding l TrimPrefix_append TrimSuffix_append ..
  have "\<forall>c \<in> set (name @ ''=''). plain_byte c"
    using name by (auto simp: plain_name_def plain_byte_def backslash_def)
  from unescape_plain [OF this, of ?esc]
  have plain: "unescape (name @ ''='' @ ?esc) = name @ CHR ''='' # value"
    using valid by (simp add: unescape_runes valid_utf8_encode)
  have "HasPrefix (dquote # ((name @ ''='' @ ?esc) @ [dquote])) [dquote]"
    by (simp add: HasPrefix_def)
  moreover have "CHR ''='' \<notin> set name" using name by (auto simp: plain_name_def)
  ultimately show ?thesis
    unfolding parse_assignment_def word Let_def list.sel TrimSuffix_append plain
    by (simp add: Cut_key)
qed

lemma envName_plain: "validateEnvName name = Inr u \<Longrightarrow> plain_name name"
  using envName_bytes [of name]
  by (fastforce simp: validateEnvName_def plain_name_def plain_byte_def backslash_def dquote_def
      byte_classes re_match_envNameRE split: if_splits)

end
