(* ===== verification/GoPath.thy ===== *)
theory GoPath
  imports GoStrings
begin

text \<open>
  Go's \<open>path/filepath\<close> on Unix (\<open>Clean\<close>, \<open>Dir\<close>, \<open>Join\<close>) and the IP address part of \<open>net\<close>
  (\<open>ParseIP\<close>, \<open>To4\<close>, \<open>String\<close>, \<open>ParseCIDR\<close>) as far as the program calls them.
\<close>

section \<open>Paths\<close>

text \<open>One component of a path against the stack of components kept so far (last one first).\<close>

definition clean_step :: "bool \<Rightarrow> string list \<Rightarrow> string \<Rightarrow> string list" where
  "clean_step rooted st w =
     (if w = [] \<or> w = ''.'' then st
      else if w = ''..'' then
        (case st of
           [] \<Rightarrow> if rooted then [] else [''..'']
         | x # xs \<Rightarrow> if x = ''..'' then ''..'' # st else xs)
      else w # st)"

definition PathClean :: "string \<Rightarrow> string" where
  "PathClean p =
     (let rooted = HasPrefix p ''/'';
          body = Join (rev (foldl (clean_step rooted) [] (Split p (CHR ''/'')))) ''/''
      in if rooted then ''/'' @ body else if body = [] then ''.'' else body)"

definition PathDir :: "string \<Rightarrow> string" where
  "PathDir p =
     (case LastIndexByte p (CHR ''/'') of
        None \<Rightarrow> PathClean []
      | Some i \<Rightarrow> PathClean (take (Suc i) p))"

definition PathJoin :: "string list \<Rightarrow> string" where
  "PathJoin elems =
     (case dropWhile (\<lambda>e. e = []) elems of
        [] \<Rightarrow> []
      | es \<Rightarrow> PathClean (Join es ''/''))"

lemma set_Join: "set (Join ws d) \<subseteq> \<Union> (set ` set ws) \<union> set d"
  by (induction ws d rule: Join.induct) auto

lemma set_clean_step: "set (clean_step r st w) \<subseteq> insert w (insert ''..'' (set st))"
  by (auto simp: clean_step_def split: list.splits)

lemma set_foldl_clean: "set (foldl (clean_step r) st ws) \<subseteq> set ws \<union> insert ''..'' (set st)"
proof (induction ws arbitrary: st)
  case (Cons w ws)
  show ?case using Cons [of "clean_step r st w"] set_clean_step [of r st w] by force
qed auto

lemma PathClean_bytes: "c \<in> set (PathClean p) \<Longrightarrow> c \<in> set p \<or> c = CHR ''/'' \<or> c = CHR ''.''"
proof -
  assume c: "c \<in> set (PathClean p)"
  let ?ws = "foldl (clean_step (HasPrefix p ''/'')) [] (Split p (CHR ''/''))"
  have "c \<in> set (Join (rev ?ws) ''/'') \<or> c = CHR ''/'' \<or> c = CHR ''.''"
    using c by (auto simp: PathClean_def Let_def split: if_splits)
  moreover have "c \<in> set p \<or> c = CHR ''/'' \<or> c = CHR ''.''" if "c \<in> set (Join (rev ?ws) ''/'')"
  proof -
    from that set_Join [of "rev ?ws" "''/''"] consider "c = CHR ''/''" | w where "w \<in> set ?ws" "c \<in> set w"
      by auto
    then show ?thesis
      using set_foldl_clean [of "HasPrefix p ''/''" "[]" "Split p (CHR ''/'')"]
        Split_set [of _ p "CHR ''/''"] by cases fastforce+
  qed
  ultimately show ?thesis by blast
qed

lemma PathDir_bytes: "c \<in> set (PathDir p) \<Longrightarrow> c \<in> set p \<or> c = CHR ''/'' \<or> c = CHR ''.''"
  by (auto simp: PathDir_def split: option.splits dest!: PathClean_bytes dest: in_set_takeD)

lemma PathJoin_bytes:
  "c \<in> set (PathJoin es) \<Longrightarrow> (\<exists>e \<in> set es. c \<in> set e) \<or> c = CHR ''/'' \<or> c = CHR ''.''"
proof -
  assume c: "c \<in> set (PathJoin es)"
  let ?d = "dropWhile (\<lambda>e. e = []) es"
  from c have "c \<in> set (PathClean (Join ?d ''/''))"
    by (auto simp: PathJoin_def split: list.splits)
  then have "c \<in> set (Join ?d ''/'') \<or> c = CHR ''/'' \<or> c = CHR ''.''" by (rule PathClean_bytes)
  with set_Join [of ?d "''/''"] show ?thesis by (auto dest: set_dropWhileD)
qed

lemma path_eval:
  "PathJoin [PathDir ''/home/u/.config/q8s/configs'', ''secrets''] = ''/home/u/.config/q8s/secrets''"
  "PathClean ''a//b/./../c/'' = ''a/c''" "PathClean ''/../x'' = ''/x''"
  by code_simp+

section \<open>IP addresses\<close>

text \<open>
  A \<open>net.IP\<close> that \<open>ParseIP\<close> returns has 16 bytes, an IPv4 address being mapped into
  \<open>::ffff:0:0/96\<close>.
\<close>

type_synonym ip = "nat list"

definition v4_prefix :: ip where
  "v4_prefix = [0, 0, 0, 0, 0, 0, 0, 0, 0, 0, 255, 255]"

definition To4 :: "ip \<Rightarrow> nat list option" where
  "To4 i = (if length i = 16 \<and> take 12 i = v4_prefix then Some (drop 12 i)
            else if length i = 4 then Some i else None)"

text \<open>One decimal field: no empty field, no leading zero, at most 255.\<close>

definition v4_field :: "string \<Rightarrow> nat option" where
  "v4_field w =
     (if w = [] \<or> (length w > 1 \<and> hd w = CHR ''0'') then None
      else case digits_val 0 w of
             None \<Rightarrow> None
           | Some n \<Rightarrow> if n \<le> 255 then Some n else None)"

definition parse_v4 :: "string \<Rightarrow> nat list option" where
  "parse_v4 s =
     (case map v4_field (Split s (CHR ''.'')) of
        [Some a, Some b, Some c, Some d] \<Rightarrow> Some [a, b, c, d]
      | _ \<Rightarrow> None)"

definition hex_digit :: "char \<Rightarrow> nat option" where
  "hex_digit c =
     (if is_digit c then Some (bcode c - 48)
      else if 97 \<le> bcode c \<and> bcode c \<le> 102 then Some (bcode c - 87)
      else if 65 \<le> bcode c \<and> bcode c \<le> 70 then Some (bcode c - 55)
      else None)"

text \<open>The longest prefix of hexadecimal digits: how many, their value, and the rest.\<close>

fun hex_prefix :: "string \<Rightarrow> nat \<Rightarrow> nat \<Rightarrow> nat \<times> nat \<times> string" where
  "hex_prefix [] n acc = (n, acc, [])"
| "hex_prefix (c # cs) n acc =
     (case hex_digit c of
        None \<Rightarrow> (n, acc, c # cs)
      | Some d \<Rightarrow> hex_prefix cs (Suc n) (acc * 16 + d))"

text \<open>
  The group loop of \<open>netip.parseIPv6\<close>, at most eight rounds: the bytes read, where the ellipsis
  is, and what is left of the input.
\<close>

fun v6_loop :: "nat \<Rightarrow> string \<Rightarrow> nat list \<Rightarrow> nat option \<Rightarrow> (nat list \<times> nat option \<times> string) option" where
  "v6_loop 0 s bs el = Some (bs, el, s)"
| "v6_loop (Suc k) s bs el =
     (case hex_prefix s 0 0 of (n, acc, rest) \<Rightarrow>
        if n = 0 \<or> n > 4 then None
        else if rest \<noteq> [] \<and> hd rest = CHR ''.'' then
          (if (el = None \<and> length bs \<noteq> 12) \<or> length bs + 4 > 16 then None
           else case parse_v4 s of None \<Rightarrow> None | Some v4 \<Rightarrow> Some (bs @ v4, el, []))
        else
          (let bs' = bs @ [acc div 256, acc mod 256] in
           if rest = [] then Some (bs', el, [])
           else if hd rest \<noteq> CHR '':'' \<or> length rest = 1 then None
           else if hd (tl rest) = CHR '':'' then
             (if el \<noteq> None then None
              else if tl (tl rest) = [] then Some (bs', Some (length bs'), [])
              else v6_loop k (tl (tl rest)) bs' (Some (length bs')))
           else v6_loop k (tl rest) bs' el))"

definition v6_expand :: "nat list \<times> nat option \<times> string \<Rightarrow> nat list option" where
  "v6_expand r =
     (case r of (bs, el, rest) \<Rightarrow>
        if rest \<noteq> [] then None
        else if length bs < 16 then
          (case el of
             None \<Rightarrow> None
           | Some e \<Rightarrow> Some (take e bs @ replicate (16 - length bs) 0 @ drop e bs))
        else if el \<noteq> None then None else Some bs)"

definition parse_v6 :: "string \<Rightarrow> nat list option" where
  "parse_v6 s =
     (if HasPrefix s ''::'' then
        (if length s = 2 then Some (replicate 16 0)
         else case v6_loop 8 (drop 2 s) [] (Some 0) of None \<Rightarrow> None | Some r \<Rightarrow> v6_expand r)
      else case v6_loop 8 s [] None of None \<Rightarrow> None | Some r \<Rightarrow> v6_expand r)"

text \<open>\<open>netip.ParseAddr\<close> without zones: the first separator decides the family.\<close>

definition ParseAddr :: "string \<Rightarrow> nat list option" where
  "ParseAddr s =
     (case find (\<lambda>c. c = CHR ''.'' \<or> c = CHR '':'' \<or> c = CHR ''%'') s of
        None \<Rightarrow> None
      | Some c \<Rightarrow>
          if CHR ''%'' \<in> set s then None
          else if c = CHR ''.'' then parse_v4 s else parse_v6 s)"

definition ParseIP :: "string \<Rightarrow> ip option" where
  "ParseIP s =
     (case ParseAddr s of
        None \<Rightarrow> None
      | Some bs \<Rightarrow> Some (if length bs = 4 then v4_prefix @ bs else bs))"

definition v4_string :: "nat list \<Rightarrow> string" where
  "v4_string bs = Join (map itoa_nat bs) ''.''"

fun hex_string :: "nat \<Rightarrow> string" where
  "hex_string n =
     (if n < 16 then [''0123456789abcdef'' ! n]
      else hex_string (n div 16) @ [''0123456789abcdef'' ! (n mod 16)])"

declare hex_string.simps [simp del]

fun groups16 :: "nat list \<Rightarrow> nat list" where
  "groups16 (a # b # bs) = (a * 256 + b) # groups16 bs"
| "groups16 _ = []"

text \<open>The first longest run of at least two zero groups: its start and its end.\<close>

definition zero_run :: "nat list \<Rightarrow> nat \<Rightarrow> nat" where
  "zero_run gs i = length (takeWhile (\<lambda>g. g = 0) (drop i gs))"

definition best_run :: "nat list \<Rightarrow> (nat \<times> nat) option" where
  "best_run gs =
     foldl (\<lambda>best i.
         let n = zero_run gs i in
         if n \<ge> 2 \<and> (case best of None \<Rightarrow> True | Some (s, l) \<Rightarrow> n > l) then Some (i, n) else best)
       None [0..<length gs]"

definition v6_string :: "nat list \<Rightarrow> string" where
  "v6_string bs =
     (let gs = groups16 bs in
      case best_run gs of
        None \<Rightarrow> Join (map hex_string gs) '':''
      | Some (s, n) \<Rightarrow> Join (map hex_string (take s gs)) '':'' @ ''::''
                        @ Join (map hex_string (drop (s + n) gs)) '':'')"

definition IPString :: "ip \<Rightarrow> string" where
  "IPString i = (case To4 i of Some v4 \<Rightarrow> v4_string v4 | None \<Rightarrow> v6_string i)"

text \<open>\<open>net.JoinHostPort\<close>.\<close>

definition JoinHostPort :: "string \<Rightarrow> string \<Rightarrow> string" where
  "JoinHostPort host port =
     (if CHR '':'' \<in> set host \<or> CHR ''%'' \<in> set host then ''['' @ host @ '']:'' @ port
      else host @ '':'' @ port)"

text \<open>\<open>net.ParseCIDR\<close>: the address (16 bytes), the network address and the mask.\<close>

fun cidr_mask :: "nat \<Rightarrow> nat \<Rightarrow> nat list" where
  "cidr_mask 0 ones = []"
| "cidr_mask (Suc k) ones =
     (if ones \<ge> 8 then 255 # cidr_mask k (ones - 8)
      else (256 - 2 ^ (8 - ones)) # cidr_mask k 0)"

definition and_byte :: "nat \<Rightarrow> nat \<Rightarrow> nat" where
  "and_byte a b = and a b"

definition ParseCIDR :: "string \<Rightarrow> (ip \<times> nat list \<times> nat list) option" where
  "ParseCIDR s =
     (case Cut s (CHR ''/'') of (addr, ones, found) \<Rightarrow>
        if \<not> found then None
        else case ParseAddr addr of
          None \<Rightarrow> None
        | Some bs \<Rightarrow>
            (case (if ones = [] then None else digits_val 0 ones) of
               None \<Rightarrow> None
             | Some n \<Rightarrow>
                 if n \<ge> 16777215 \<or> n > 8 * length bs then None
                 else (let m = cidr_mask (length bs) n in
                   Some (if length bs = 4 then v4_prefix @ bs else bs, map2 and_byte bs m, m))))"

lemma hex_string_newline [simp]: "newline \<notin> set (hex_string n)"
proof (induction n rule: hex_string.induct)
  case (1 n)
  have "''0123456789abcdef'' ! m \<noteq> newline" if "m < 16" for m
  proof -
    have "''0123456789abcdef'' ! m \<in> set ''0123456789abcdef''"
      using that by (intro nth_mem) simp
    then show ?thesis by auto
  qed
  from this [of n] this [of "n mod 16"] 1 show ?case
    by (auto simp: hex_string.simps [of n] dest: sym)
qed

lemma itoa_nat_newline [simp]: "newline \<notin> set (itoa_nat n)"
  using itoa_nat_digits [of newline n] by auto

lemma Itoa_newline [simp]: "newline \<notin> set (Itoa i)"
  using Itoa_chars [of newline i] by auto

lemma Join_newline: "newline \<notin> set d \<Longrightarrow> \<forall>w \<in> set ws. newline \<notin> set w \<Longrightarrow> newline \<notin> set (Join ws d)"
  using set_Join [of ws d] by auto

lemma v4_string_newline [simp]: "newline \<notin> set (v4_string bs)"
  unfolding v4_string_def by (rule Join_newline) auto

lemma v6_string_newline [simp]: "newline \<notin> set (v6_string bs)"
  unfolding v6_string_def Let_def
  by (auto split: option.split simp: Join_newline)

lemma IPString_newline [simp]: "newline \<notin> set (IPString i)"
  by (simp add: IPString_def split: option.split)

end
