(* ===== verification/Probe.thy ===== *)
theory Probe
  imports UnitText GoPath
begin

text \<open>
  internal/quadlet/probe.go: which probes are accepted, the command podman is told to run, its
  JSON form, and the health check lines of a unit.
\<close>

section \<open>JSON strings\<close>

text \<open>
  \<open>encoding/json\<close> for a slice of strings with HTML escaping off: what
  \<open>json.NewEncoder(\<dots>).Encode\<close> writes for one string, rune by rune.
\<close>

definition json_rune :: "nat \<times> string \<Rightarrow> string" where
  "json_rune ch =
     (case ch of (r, w) \<Rightarrow>
        if r = 34 then [backslash, dquote]
        else if r = 92 then [backslash, backslash]
        else if r = 8 then [backslash, CHR ''b'']
        else if r = 12 then [backslash, CHR ''f'']
        else if r = 10 then [backslash, CHR ''n'']
        else if r = 13 then [backslash, CHR ''r'']
        else if r = 9 then [backslash, CHR ''t'']
        else if r < 32 then backslash # ''u00'' @ [hexdigit (r div 16), hexdigit (r mod 16)]
        else if r = RuneError \<and> length w = 1 then backslash # ''ufffd''
        else if r = 8232 \<or> r = 8233 then backslash # ''u202'' @ [hexdigit (r mod 16)]
        else w)"

definition json_string :: "string \<Rightarrow> string" where
  "json_string s = [dquote] @ concat (map json_rune (go_chunks s)) @ [dquote]"

definition jsonExecCommand :: "string list \<Rightarrow> string" where
  "jsonExecCommand args = ''['' @ Join (map json_string args) '','' @ '']''"

section \<open>Probe handlers\<close>

definition http_token_byte :: "char \<Rightarrow> bool" where
  "http_token_byte c \<longleftrightarrow> one_of ''!#$%&*+-.^_`|~'' c \<or> c = CHR 0x27 \<or> is_alnum c"

definition httpTokenRE :: re where
  "httpTokenRE = Plus (Cls http_token_byte)"

datatype probe_error =
    TcpSocketUnsupported string
  | GrpcUnsupported string
  | NoHandler string
  | ManyHandlers string
  | EmptyCommand string
  | BadProbeText unit_error
  | UnknownPort string string
  | BadPort string int
  | BadScheme string string
  | BadHost string string
  | BadHeaderName string string
  | StartupAlone

text \<open>
  \<open>strings.ToUpper\<close> up to what a comparison with an ASCII string sees: besides the ASCII
  letters, U+017F and U+0131 are the runes whose upper case is ASCII.
\<close>

definition to_upper :: "string \<Rightarrow> string" where
  "to_upper s =
     concat (map (\<lambda>(r, w). if 97 \<le> r \<and> r \<le> 122 then [bchr (r - 32)]
                          else if r = 383 then ''S'' else if r = 305 then ''I'' else w) (go_chunks s))"

definition probeScheme :: "string \<Rightarrow> string option" where
  "probeScheme s =
     (let u = to_upper s in
      if u = [] \<or> u = ''HTTP'' then Some ''http''
      else if u = ''HTTPS'' then Some ''https''
      else None)"

definition resolveProbePort :: "container \<Rightarrow> int_or_string \<Rightarrow> int option" where
  "resolveProbePort c port =
     (case port of
        IntPort n \<Rightarrow> Some n
      | StrPort s \<Rightarrow>
          (case find (\<lambda>p. cp_name p \<noteq> [] \<and> cp_name p = s) (c_ports c) of
             None \<Rightarrow> None
           | Some p \<Rightarrow> Some (cp_containerPort p)))"

definition execProbeHealthCmd :: "string \<Rightarrow> string list \<Rightarrow> probe_error + string" where
  "execProbeHealthCmd k cmd =
     (if cmd = [] then Inl (EmptyCommand k)
      else case check_all (noControlChars (k @ '' command'')) cmd of
             Inl e \<Rightarrow> Inl (BadProbeText e)
           | Inr _ \<Rightarrow> Inr (jsonExecCommand (''CMD'' # cmd)))"

fun header_args :: "string \<Rightarrow> (string \<times> string) list \<Rightarrow> probe_error + string list" where
  "header_args k [] = Inr []"
| "header_args k ((n, v) # hs) =
     (if \<not> re_match httpTokenRE n then Inl (BadHeaderName k n)
      else case noControlChars (k @ '' httpHeader value'') v of
             Inl e \<Rightarrow> Inl (BadProbeText e)
           | Inr _ \<Rightarrow> rbind (header_args k hs) (\<lambda>as. Inr (''-H'' # (n @ '': '' @ v) # as)))"

definition probeHost :: "string \<Rightarrow> string option" where
  "probeHost host =
     (if host = [] then Some ''127.0.0.1''
      else case ParseIP host of
             None \<Rightarrow> None
           | Some i \<Rightarrow> Some (case To4 i of Some v4 \<Rightarrow> v4_string v4
                                       | None \<Rightarrow> ''['' @ IPString i @ '']''))"

definition httpProbeHealthCmd :: "container \<Rightarrow> string \<Rightarrow> http_get \<Rightarrow> probe_error + string" where
  "httpProbeHealthCmd c k hg =
     (case resolveProbePort c (hg_port hg) of
        None \<Rightarrow> Inl (UnknownPort k (case hg_port hg of StrPort s \<Rightarrow> s | _ \<Rightarrow> []))
      | Some port \<Rightarrow>
          if port < 1 \<or> port > 65535 then Inl (BadPort k port)
          else case probeScheme (hg_scheme hg) of
            None \<Rightarrow> Inl (BadScheme k (hg_scheme hg))
          | Some scheme \<Rightarrow>
              (case probeHost (hg_host hg) of
                 None \<Rightarrow> Inl (BadHost k (hg_host hg))
               | Some host \<Rightarrow>
                   (let path = (if hg_path hg = [] then ''/'' else hg_path hg) in
                    case noControlChars (k @ '' path'') path of
                      Inl e \<Rightarrow> Inl (BadProbeText e)
                    | Inr _ \<Rightarrow>
                        rbind (header_args k (hg_headers hg)) (\<lambda>hs.
                        Inr (jsonExecCommand ([''CMD'', ''curl'', ''-fsS'', ''-o'', ''/dev/null'']
                          @ (if scheme = ''https'' then [''-k''] else []) @ hs
                          @ [scheme @ ''://'' @ host @ '':'' @ Itoa port @ path]))))))"

definition probeHealthCmd :: "container \<Rightarrow> probe \<Rightarrow> string \<Rightarrow> probe_error + string" where
  "probeHealthCmd c p k =
     (if pr_tcpSocket p then Inl (TcpSocketUnsupported k)
      else if pr_grpc p then Inl (GrpcUnsupported k)
      else case (pr_exec p, pr_httpGet p) of
             (None, None) \<Rightarrow> Inl (NoHandler k)
           | (Some _, Some _) \<Rightarrow> Inl (ManyHandlers k)
           | (Some cmd, None) \<Rightarrow> execProbeHealthCmd k cmd
           | (None, Some hg) \<Rightarrow> httpProbeHealthCmd c k hg)"

definition ValidateProbes :: "container \<Rightarrow> probe_error + unit" where
  "ValidateProbes c =
     rbind (check_all (\<lambda>(k, pr).
              case pr of None \<Rightarrow> Inr ()
              | Some p \<Rightarrow> rbind (probeHealthCmd c p k) (\<lambda>_. Inr ()))
            [(''livenessProbe'', c_livenessProbe c), (''readinessProbe'', c_readinessProbe c),
             (''startupProbe'', c_startupProbe c)]) (\<lambda>_.
     guard (\<not> (c_startupProbe c \<noteq> None \<and> c_livenessProbe c = None \<and> c_readinessProbe c = None))
       StartupAlone)"

section \<open>Health check lines\<close>

definition probeSeconds :: "int \<Rightarrow> int \<Rightarrow> int" where
  "probeSeconds v def = (if v \<le> 0 then def else v)"

definition healthCmdLine :: "string \<Rightarrow> string \<Rightarrow> unit_error + string" where
  "healthCmdLine d cmd =
     rbind (noControlChars (d @ '' value'') cmd) (\<lambda>_.
     Inr (ln (d @ ''='' @ ReplaceByte cmd (CHR ''%'') ''%%'')))"

definition writeProbeTiming :: "string \<Rightarrow> probe \<Rightarrow> string" where
  "writeProbeTiming prefix p =
     ln (prefix @ ''Interval='' @ Itoa (probeSeconds (pr_periodSeconds p) 10) @ ''s'')
     @ ln (prefix @ ''Timeout='' @ Itoa (probeSeconds (pr_timeoutSeconds p) 1) @ ''s'')
     @ ln (prefix @ ''Retries='' @ Itoa (probeSeconds (pr_failureThreshold p) 3))
     @ (if pr_initialDelaySeconds p > 0
        then ln (prefix @ ''StartPeriod='' @ Itoa (pr_initialDelaySeconds p) @ ''s'') else [])"

text \<open>Errors of the probe code, as errors of the renderer that calls it.\<close>

fun probe_seg :: "probe_error + 'a \<Rightarrow> unit_error + 'a" where
  "probe_seg (Inl (BadProbeText e)) = Inl e"
| "probe_seg (Inl _) = Inl (OtherError ''probe'')"
| "probe_seg (Inr x) = Inr x"

definition mainHealthCheck :: "container \<Rightarrow> probe \<Rightarrow> bool \<Rightarrow> segment" where
  "mainHealthCheck c p liveness =
     rbind (probe_seg (probeHealthCmd c p (if liveness then ''livenessProbe'' else ''readinessProbe'')))
       (\<lambda>cmd. rbind (healthCmdLine ''HealthCmd'' cmd) (\<lambda>l.
        Inr (l @ writeProbeTiming ''Health'' p
          @ (if liveness then ln ''HealthOnFailure=kill'' else []))))"

definition startupHealthCheck :: "container \<Rightarrow> probe \<Rightarrow> segment" where
  "startupHealthCheck c p =
     rbind (probe_seg (probeHealthCmd c p ''startupProbe''))
       (\<lambda>cmd. rbind (healthCmdLine ''HealthStartupCmd'' cmd) (\<lambda>l.
        Inr (l
          @ ln (''HealthStartupInterval='' @ Itoa (probeSeconds (pr_periodSeconds p) 10) @ ''s'')
          @ ln (''HealthStartupTimeout='' @ Itoa (probeSeconds (pr_timeoutSeconds p) 1) @ ''s'')
          @ ln (''HealthStartupRetries='' @ Itoa (probeSeconds (pr_failureThreshold p) 3))
          @ ln (''HealthStartupSuccess='' @ Itoa (probeSeconds (pr_successThreshold p) 1)))))"

definition writeHealthCheck :: "container \<Rightarrow> segment" where
  "writeHealthCheck c =
     rbind (probe_seg (ValidateProbes c)) (\<lambda>_.
     render
       [(case c_livenessProbe c of
           Some p \<Rightarrow> mainHealthCheck c p True
         | None \<Rightarrow> (case c_readinessProbe c of
             Some p \<Rightarrow> mainHealthCheck c p False
           | None \<Rightarrow> Inr [])),
        (case c_startupProbe c of Some p \<Rightarrow> startupHealthCheck c p | None \<Rightarrow> Inr [])])"


section \<open>The lines of a health check\<close>

definition health_keys :: "string list" where
  "health_keys = [''HealthCmd'', ''HealthInterval'', ''HealthTimeout'', ''HealthRetries'',
     ''HealthStartPeriod'', ''HealthOnFailure'', ''HealthStartupCmd'', ''HealthStartupInterval'',
     ''HealthStartupTimeout'', ''HealthStartupRetries'', ''HealthStartupSuccess'']"

lemma ReplaceByte_newline: "newline \<notin> set s \<Longrightarrow> newline \<notin> set r \<Longrightarrow> newline \<notin> set (ReplaceByte s c r)"
  using set_ReplaceByte [of s c r] by blast

lemma healthCmdLine_lines:
  assumes "healthCmdLine k cmd = Inr l" and "k \<in> set ks" "newline \<notin> set k" "CHR ''='' \<notin> set k"
  shows "lines_of (directive ks) l"
  using assms by (auto simp: healthCmdLine_def rbind_laws noControlChars_Inr ReplaceByte_newline
      directive_key intro!: lines_of_ln)

lemma writeProbeTiming_lines: "lines_of (directive health_keys) (writeProbeTiming ''Health'' p)"
  unfolding writeProbeTiming_def
  by (intro line_intros) (simp_all add: directive_def health_keys_def)

lemma mainHealthCheck_lines: "seg_lines (directive health_keys) (mainHealthCheck c p b)"
  unfolding mainHealthCheck_def
  by (intro line_intros writeProbeTiming_lines)
    (auto simp: directive_def health_keys_def elim!: healthCmdLine_lines)

lemma startupHealthCheck_lines: "seg_lines (directive health_keys) (startupHealthCheck c p)"
  unfolding startupHealthCheck_def
  by (intro line_intros)
    (auto simp: directive_def health_keys_def elim!: healthCmdLine_lines)

lemma writeHealthCheck_lines: "seg_lines (directive health_keys) (writeHealthCheck c)"
  unfolding writeHealthCheck_def
  by (intro line_intros)
    (auto simp: mainHealthCheck_lines startupHealthCheck_lines split: option.split)


section \<open>Decoding the command\<close>

text \<open>
  JSON string and array syntax (RFC 8259) read back, as podman does with the value of a
  \<open>HealthCmd=\<close> after systemd halved the percent signs.
\<close>

definition json_escape :: "char \<Rightarrow> string" where
  "json_escape d =
     (if d = CHR ''b'' then [bchr 8] else if d = CHR ''f'' then [bchr 12]
      else if d = CHR ''n'' then [bchr 10] else if d = CHR ''r'' then [bchr 13]
      else if d = CHR ''t'' then [bchr 9] else [d])"

fun json_unstring :: "string \<Rightarrow> (string \<times> string) option" where
  "json_unstring [] = None"
| "json_unstring (c # cs) =
     (if c = dquote then Some ([], cs)
      else if c = backslash then
        (case cs of
           [] \<Rightarrow> None
         | d # ds \<Rightarrow>
             if d = CHR ''u'' then
               (case ds of
                  h1 # h2 # h3 # h4 # rest \<Rightarrow>
                    map_option (\<lambda>(s, t). (EncodeRune (((hexval h1 * 16 + hexval h2) * 16 + hexval h3) * 16
                       + hexval h4) @ s, t)) (json_unstring rest)
                | _ \<Rightarrow> None)
             else map_option (\<lambda>(s, t). (json_escape d @ s, t)) (json_unstring ds))
      else map_option (\<lambda>(s, t). (c # s, t)) (json_unstring cs))"

fun json_elems :: "nat \<Rightarrow> string \<Rightarrow> string list option" where
  "json_elems (Suc n) (c # cs) =
     (if c \<noteq> dquote then None
      else case json_unstring cs of
        Some (s, d # u) \<Rightarrow>
          if d = CHR '','' then map_option (Cons s) (json_elems n u)
          else if d = CHR '']'' \<and> u = [] then Some [s] else None
      | _ \<Rightarrow> None)"
| "json_elems _ _ = None"

definition json_args :: "string \<Rightarrow> string list option" where
  "json_args s = (case s of c # cs \<Rightarrow> if c = CHR ''['' then json_elems (length cs) cs else None
                   | [] \<Rightarrow> None)"

lemma json_unstring_plain:
  "\<forall>c \<in> set w. c \<noteq> dquote \<and> c \<noteq> backslash \<Longrightarrow>
    json_unstring (w @ X) = map_option (\<lambda>(s, t). (w @ s, t)) (json_unstring X)"
  by (cases "json_unstring X"; induction w) auto

lemma json_unstring_esc:
  "d \<noteq> CHR ''u'' \<Longrightarrow> json_unstring (backslash # d # X) =
    map_option (\<lambda>(s, t). (json_escape d @ s, t)) (json_unstring X)"
  "json_unstring (backslash # CHR ''u'' # a # b # c # d # X) =
    map_option (\<lambda>(s, t). (EncodeRune (((hexval a * 16 + hexval b) * 16 + hexval c) * 16
       + hexval d) @ s, t)) (json_unstring X)"
  by (simp_all add: backslash_def dquote_def)

declare json_unstring.simps(2) [simp del]

lemma json_escape_simps:
  "json_escape dquote = [dquote]" "json_escape backslash = [backslash]"
  "dquote \<noteq> CHR ''u''" "backslash \<noteq> CHR ''u''"
  by (simp_all add: json_escape_def dquote_def backslash_def)

lemma hexval_consts: "hexval (CHR ''0'') = 0" "hexval (CHR ''2'') = 2"
  by (simp_all add: hexval_def is_digit_def)

lemma json_unstring_rune:
  assumes ch: "(r, w) \<in> set (go_chunks s)" and valid: "valid_utf8 s"
  shows "json_unstring (json_rune (r, w) @ X) = map_option (\<lambda>(a, b). (w @ a, b)) (json_unstring X)"
proof (cases "r < 128")
  case True
  with go_chunks_cases [OF ch] have w: "w = [bchr r]" by auto
  show ?thesis
  proof (cases "r \<in> {34, 92, 8, 12, 10, 13, 9}")
    case True
    then show ?thesis
      by (auto simp: json_rune_def w json_unstring_esc json_escape_simps bchr_special)
        (simp_all add: json_escape_def bchr_special)
  next
    case False
    show ?thesis
    proof (cases "r < 32")
      case True
      then have "r div 16 * 16 + r mod 16 = r" by simp
      with True False \<open>r < 128\<close> show ?thesis
        by (simp add: json_rune_def w json_unstring_esc hexval_consts hexval_hexdigit
            EncodeRune_ascii)
    next
      case nocontrol: False
      have r: "bcode (bchr r) = r" using \<open>r < 128\<close> by simp
      have "bcode dquote = 34" "bcode backslash = 92" by (simp_all add: dquote_def backslash_def)
      with r False have "bchr r \<noteq> dquote" "bchr r \<noteq> backslash"
        by (metis insertCI)+
      moreover from False nocontrol \<open>r < 128\<close> have "json_rune (r, w) = w"
        by (simp add: json_rune_def)
      ultimately show ?thesis using json_unstring_plain [of w X] by (simp add: w)
    qed
  qed
next
  case False
  with go_chunks_cases [OF ch] have big: "\<forall>x \<in> set w. 128 \<le> bcode x" by auto
  then have plain: "\<forall>c \<in> set w. c \<noteq> dquote \<and> c \<noteq> backslash"
    by (auto simp: dquote_def backslash_def)
  have enc: "EncodeRune r = w" by (rule valid_chunk [OF valid ch])
  from valid ch have "\<not> (r = RuneError \<and> length w = 1)"
    by (auto simp: valid_utf8_def list_all_iff)
  then consider "r = 8232" | "r = 8233" | "json_rune (r, w) = w"
    using False by (cases "r = 8232 \<or> r = 8233") (auto simp: json_rune_def)
  then show ?thesis
  proof cases
    case 1
    then show ?thesis using enc
      by (simp add: json_rune_def json_unstring_esc hexval_consts hexval_hexdigit)
  next
    case 2
    then show ?thesis using enc
      by (simp add: json_rune_def json_unstring_esc hexval_consts hexval_hexdigit)
  next
    case 3
    then show ?thesis using json_unstring_plain [OF plain] by simp
  qed
qed

lemma json_unstring_chunks:
  assumes "\<forall>p \<in> set cs. p \<in> set (go_chunks s)" and "valid_utf8 s"
  shows "json_unstring (concat (map json_rune cs) @ dquote # X) = Some (concat (map snd cs), X)"
  using assms
proof (induction cs)
  case Nil
  show ?case by (simp add: json_unstring.simps)
next
  case (Cons p cs)
  obtain r w where p: "p = (r, w)" by fastforce
  from Cons json_unstring_rune [of r w s] show ?case by (simp add: p)
qed

lemma json_unstring_string:
  "valid_utf8 s \<Longrightarrow> json_unstring (concat (map json_rune (go_chunks s)) @ dquote # X) = Some (s, X)"
  using json_unstring_chunks [of "go_chunks s" s X] by (simp add: concat_go_chunks)

lemma json_elems_args:
  assumes "args \<noteq> []" and "\<forall>a \<in> set args. valid_utf8 a" and "length args \<le> n"
  shows "json_elems n (Join (map json_string args) '','' @ '']'') = Some args"
  using assms
proof (induction args arbitrary: n)
  case (Cons a args)
  then obtain m where n: "n = Suc m" by (cases n) auto
  have str: "json_string a @ X = dquote # (concat (map json_rune (go_chunks a)) @ dquote # X)" for X
    by (simp add: json_string_def)
  show ?case
  proof (cases args)
    case Nil
    with Cons.prems n show ?thesis by (simp add: str json_unstring_string)
  next
    case (Cons b bs)
    with Cons.IH [of m] Cons.prems n show ?thesis
      by (simp add: str json_unstring_string)
  qed
qed simp

lemma json_args_command:
  assumes "args \<noteq> []" and "\<forall>a \<in> set args. valid_utf8 a"
  shows "json_args (jsonExecCommand args) = Some args"
proof -
  have len: "length ws \<le> length (Join (map json_string ws) '','')" for ws :: "string list"
    by (induction ws "'',''" rule: Join.induct) (auto simp: json_string_def)
  from json_elems_args [OF assms, of "length (Join (map json_string args) '','' @ '']'')"] len [of args]
  show ?thesis by (simp add: json_args_def jsonExecCommand_def)
qed

text \<open>Halving doubled percent signs.\<close>

fun undouble :: "string \<Rightarrow> string" where
  "undouble (c # d # cs) =
     (if c = CHR ''%'' \<and> d = CHR ''%'' then c # undouble cs else c # undouble (d # cs))"
| "undouble s = s"

lemma undouble_ReplaceByte: "undouble (ReplaceByte s (CHR ''%'') ''%%'') = s"
proof (induction s)
  case (Cons c s)
  have "undouble (x # ReplaceByte s (CHR ''%'') ''%%'') = x # undouble (ReplaceByte s (CHR ''%'') ''%%'')"
    if "x \<noteq> CHR ''%''" for x
    using that by (cases "ReplaceByte s (CHR ''%'') ''%%''") auto
  with Cons show ?case by (simp add: ReplaceByte_def)
qed (simp add: ReplaceByte_def)

end
