(* ===== verification/Socket.thy ===== *)
theory Socket
  imports Probe
begin

text \<open>
  internal/quadlet/socket.go: the socket-activation annotation, its conflict with published
  host ports, and the .socket units.
\<close>

section \<open>Parsing the annotation\<close>

definition AnnotationSocketActivation :: string where
  "AnnotationSocketActivation = ''q8s.io/socket-activation''"

record socket_entry =
  se_name :: string
  se_addr :: string
  se_port :: int

datatype socket_error =
    EmptyEntry
  | NotNamePort string
  | BadSocketName string
  | DuplicateSocketName string
  | BadListen string
  | DuplicateListen string
  | BadSocketPort string
  | PortCollision string int
  | BadSocketRef unit_error

definition socketNameRE :: re where
  "socketNameRE = Seq (Cls is_alnum) (Star (Cls (\<lambda>c. is_alnum c \<or> one_of ''._-'' c)))"

definition maxSocketName :: nat where
  "maxSocketName = 64"

definition socket_name_ok :: "string \<Rightarrow> bool" where
  "socket_name_ok name \<longleftrightarrow> \<not> (length name = 0 \<or> length name > maxSocketName \<or> \<not> re_match socketNameRE name)"

definition parse_port :: "string \<Rightarrow> int option" where
  "parse_port s =
     (case Atoi s of None \<Rightarrow> None | Some p \<Rightarrow> if p < 1 \<or> p > 65535 then None else Some p)"

definition with_port :: "string \<Rightarrow> string \<Rightarrow> socket_error + string \<times> int" where
  "with_port addr portStr =
     (case parse_port portStr of None \<Rightarrow> Inl (BadSocketPort portStr) | Some p \<Rightarrow> Inr (addr, p))"

definition parseSocketListen :: "string \<Rightarrow> socket_error + string \<times> int" where
  "parseSocketListen spec =
     (if HasPrefix spec ''['' then
        (case IndexByte spec (CHR '']'') of
           None \<Rightarrow> Inl (BadListen spec)
         | Some end_ \<Rightarrow>
             (let addr = drop 1 (take end_ spec); rest = drop (end_ + 1) spec in
              if \<not> HasPrefix rest '':'' then Inl (BadListen spec)
              else case ParseIP addr of
                     None \<Rightarrow> Inl (BadListen addr)
                   | Some i \<Rightarrow> if To4 i \<noteq> None then Inl (BadListen addr)
                              else with_port (IPString i) (drop 1 rest)))
      else case LastIndexByte spec (CHR '':'') of
        Some i \<Rightarrow>
          (let addr = take i spec in
           case ParseIP addr of
             None \<Rightarrow> Inl (BadListen addr)
           | Some a \<Rightarrow> (case To4 a of None \<Rightarrow> Inl (BadListen addr)
                      | Some v4 \<Rightarrow> with_port (v4_string v4) (drop (i + 1) spec)))
      | None \<Rightarrow> with_port [] spec)"

text \<open>One item against the names and listen addresses seen so far.\<close>

definition parse_item ::
  "string list \<Rightarrow> (string \<times> int) list \<Rightarrow> string \<Rightarrow> socket_error + socket_entry" where
  "parse_item names listens item0 =
     (let item = TrimSpace item0 in
      if item = [] then Inl EmptyEntry
      else case Cut item (CHR ''='') of (name, spec, found) \<Rightarrow>
        if \<not> found then Inl (NotNamePort item)
        else if \<not> socket_name_ok name then Inl (BadSocketName name)
        else if name \<in> set names then Inl (DuplicateSocketName name)
        else rbind (parseSocketListen spec) (\<lambda>(addr, port).
             if (addr, port) \<in> set listens then Inl (DuplicateListen item)
             else Inr \<lparr>se_name = name, se_addr = addr, se_port = port\<rparr>))"

fun parse_items ::
  "string list \<Rightarrow> (string \<times> int) list \<Rightarrow> string list \<Rightarrow> socket_error + socket_entry list" where
  "parse_items names listens [] = Inr []"
| "parse_items names listens (item # items) =
     rbind (parse_item names listens item) (\<lambda>e.
     rbind (parse_items (se_name e # names) ((se_addr e, se_port e) # listens) items) (\<lambda>es.
     Inr (e # es)))"

definition ParseSocketActivation :: "strmap option \<Rightarrow> socket_error + socket_entry list" where
  "ParseSocketActivation annotations =
     (case lget annotations AnnotationSocketActivation of
        None \<Rightarrow> Inr []
      | Some raw \<Rightarrow> parse_items [] [] (Split raw (CHR '','')))"

definition host_ports :: "podspec \<Rightarrow> int list" where
  "host_ports sp =
     filter (\<lambda>p. p \<noteq> 0) (map cp_hostPort (concat (map c_ports (ps_initContainers sp @ ps_containers sp))))"

definition ValidateSocketActivation :: "pod \<Rightarrow> socket_error + unit" where
  "ValidateSocketActivation p =
     rbind (ParseSocketActivation (om_annotations (o_meta p))) (\<lambda>entries.
     check_all (\<lambda>e. if se_port e \<in> set (host_ports (pod_spec p))
                    then Inl (PortCollision (se_name e) (se_port e)) else Inr ()) entries)"

section \<open>Units\<close>

text \<open>One .socket file: its name and its text.\<close>

definition socket_unit ::
  "string \<Rightarrow> string \<Rightarrow> socket_entry \<Rightarrow> socket_error + string \<times> string" where
  "socket_unit ns podName e =
     (if \<not> socket_name_ok (se_name e) then Inl (BadSocketName (se_name e))
      else if se_port e < 1 \<or> se_port e > 65535 then Inl (BadSocketPort (se_name e))
      else rbind
        (if se_addr e = [] then Inr []
         else case ParseIP (se_addr e) of
                None \<Rightarrow> Inl (BadListen (se_addr e))
              | Some i \<Rightarrow> Inr (IPString i)) (\<lambda>addr.
        let listen = (if addr \<noteq> [] then JoinHostPort addr (Itoa (se_port e)) else Itoa (se_port e))
        in Inr (ns @ ''-'' @ podName @ ''-'' @ se_name e @ ''.socket'',
             ln ''[Unit]''
             @ ln (''Description=q8s socket '' @ se_name e @ '' for pod '' @ ns @ ''/'' @ podName)
             @ ln (''X-Q8s-Namespace='' @ ns)
             @ ln (''X-Q8s-Pod='' @ podName)
             @ ln [] @ ln ''[Socket]''
             @ ln (''ListenStream='' @ listen)
             @ ln (''FileDescriptorName='' @ se_name e)
             @ ln (''Service='' @ ns @ ''-'' @ podName @ ''.service'')
             @ ln [] @ ln ''[Install]''
             @ ln ''WantedBy=sockets.target'')))"

fun socket_units ::
  "string \<Rightarrow> string \<Rightarrow> (string, string) gomap \<Rightarrow> socket_entry list \<Rightarrow> socket_error + (string, string) gomap" where
  "socket_units ns podName files [] = Inr files"
| "socket_units ns podName files (e # es) =
     rbind (socket_unit ns podName e) (\<lambda>(file_name, content).
     if mget files file_name \<noteq> None then Inl (DuplicateSocketName (se_name e))
     else socket_units ns podName (mput file_name content files) es)"

fun ref_seg :: "unit_error + 'a \<Rightarrow> socket_error + 'a" where
  "ref_seg (Inl e) = Inl (BadSocketRef e)"
| "ref_seg (Inr x) = Inr x"

definition SocketUnits ::
  "string \<Rightarrow> string \<Rightarrow> socket_entry list \<Rightarrow> socket_error + (string, string) gomap" where
  "SocketUnits ns podName entries =
     rbind (ref_seg (validateRefName ''pod namespace'' ns)) (\<lambda>_.
     rbind (ref_seg (validateRefName ''pod name'' podName)) (\<lambda>_.
     socket_units ns podName [] entries))"

section \<open>What a parsed annotation guarantees\<close>

definition entry_ok :: "socket_entry \<Rightarrow> bool" where
  "entry_ok e \<longleftrightarrow> socket_name_ok (se_name e) \<and> 1 \<le> se_port e \<and> se_port e \<le> 65535"

lemma with_port_ok: "with_port a s = Inr (addr, p) \<Longrightarrow> addr = a \<and> 1 \<le> p \<and> p \<le> 65535"
  by (auto simp: with_port_def parse_port_def split: option.splits if_splits)

lemma parseSocketListen_port: "parseSocketListen spec = Inr (addr, p) \<Longrightarrow> 1 \<le> p \<and> p \<le> 65535"
  by (auto simp: parseSocketListen_def Let_def dest: with_port_ok split: option.splits if_splits)

lemma parse_item_ok:
  "parse_item names listens item = Inr e \<Longrightarrow>
     entry_ok e \<and> se_name e \<notin> set names \<and> (se_addr e, se_port e) \<notin> set listens"
  by (auto simp: parse_item_def Let_def rbind_laws entry_ok_def dest: parseSocketListen_port
      split: if_splits prod.splits)

lemma parse_items_ok:
  "parse_items names listens items = Inr es \<Longrightarrow>
     list_all entry_ok es \<and> distinct (map se_name es) \<and> set (map se_name es) \<inter> set names = {} \<and>
     distinct (map (\<lambda>e. (se_addr e, se_port e)) es) \<and>
     set (map (\<lambda>e. (se_addr e, se_port e)) es) \<inter> set listens = {} \<and> length es = length items"
proof (induction names listens items arbitrary: es rule: parse_items.induct)
  case (2 names listens item items)
  from "2.prems" obtain e es' where e: "parse_item names listens item = Inr e"
    and es': "parse_items (se_name e # names) ((se_addr e, se_port e) # listens) items = Inr es'"
    and es: "es = e # es'"
    by (auto simp: rbind_laws)
  from parse_item_ok [OF e] "2.IH" [OF es'] show ?case by (auto simp: es)
qed simp

lemma socket_name_newline: "socket_name_ok s \<Longrightarrow> newline \<notin> set s"
proof
  assume ok: "socket_name_ok s" and "newline \<in> set s"
  then have "re_bytes socketNameRE newline" by (auto simp: socket_name_ok_def dest: re_match_bytes)
  then show False by (simp add: socketNameRE_def one_of_def)
qed

definition socket_keys :: "string list" where
  "socket_keys = [''Description'', ''X-Q8s-Namespace'', ''X-Q8s-Pod'', ''ListenStream'',
     ''FileDescriptorName'', ''Service'', ''WantedBy'']"

end
