(* ===== verification/Generator.thy ===== *)
theory Generator
  imports Socket "HOL-Library.List_Lexorder" "HOL-Library.Char_ord"
begin

text \<open>
  internal/quadlet/generator.go and the container half of internal/quadlet/pod.go: the text of
  .container units for pods, jobs and cron jobs.  The parameters of the environment are the
  record \<open>gen_env\<close>: which cgroup controllers were detected, SHA-256, and apimachinery's
  \<open>IsQualifiedName\<close>.
\<close>

record gen_env =
  ge_memory :: bool
  ge_cpu :: bool
  ge_sha256 :: "string \<Rightarrow> nat list"
  ge_qualifiedName :: "string \<Rightarrow> string list"

section \<open>Single directives\<close>

definition TemplateHashLabel :: string where
  "TemplateHashLabel = ''q8s.io/template-hash''"

definition hex_byte :: "nat \<Rightarrow> string" where
  "hex_byte b = [hexdigit (b div 16 mod 16), hexdigit (b mod 16)]"

definition withTemplateHash :: "gen_env \<Rightarrow> string \<Rightarrow> string" where
  "withTemplateHash env content =
     (let sum = ge_sha256 env content;
          label = ln (''Label='' @ TemplateHashLabel @ ''='' @ concat (map hex_byte (take 6 sum)))
      in case Index content (nl @ nl @ ''['') of
           Some i \<Rightarrow> take (i + 1) content @ label @ drop (i + 1) content
         | None \<Rightarrow> content @ label)"

definition pullPolicyToQuadlet :: "string \<Rightarrow> string" where
  "pullPolicyToQuadlet policy =
     (if policy = ''Never'' then ''never''
      else if policy = ''Always'' then ''always''
      else ''missing'')"

definition writeImageAndPull :: "container \<Rightarrow> string" where
  "writeImageAndPull c =
     ln (''Image='' @ c_image c) @ ln (''Pull='' @ pullPolicyToQuadlet (c_imagePullPolicy c))"

text \<open>
  \<open>strconv.FormatFloat(float64(milli)/1000.0, 'f', -1, 64)\<close>: the shortest decimal that reads back
  as that float.  Below \<open>10 ^ 15\<close> millicores it is the exact decimal without trailing zeros.
\<close>

definition frac3 :: "nat \<Rightarrow> string" where
  "frac3 n = rev (dropWhile (\<lambda>c. c = CHR ''0'')
     (rev [bchr (48 + n div 100), bchr (48 + n div 10 mod 10), bchr (48 + n mod 10)]))"

definition formatMilli :: "int \<Rightarrow> string" where
  "formatMilli m =
     (let a = nat \<bar>m\<bar>; f = frac3 (a mod 1000) in
      (if m < 0 then ''-'' else []) @ itoa_nat (a div 1000) @ (if f = [] then [] else ''.'' @ f))"

definition writeResourceLimits :: "gen_env \<Rightarrow> limits \<Rightarrow> string" where
  "writeResourceLimits env l =
     (case lim_memory l of
        Some mem \<Rightarrow> if mem \<noteq> 0 \<and> ge_memory env
                    then ln (''PodmanArgs=--memory='' @ Itoa mem @ '' --memory-swap=-1'') else []
      | None \<Rightarrow> [])
     @ (case lim_cpuMilli l of
          Some cpu \<Rightarrow> if cpu \<noteq> 0 \<and> ge_cpu env
                      then ln (''PodmanArgs=--cpus='' @ formatMilli cpu) else []
        | None \<Rightarrow> [])"

definition writeGPUDevice :: "limits \<Rightarrow> string" where
  "writeGPUDevice l =
     (case lim_gpu l of
        None \<Rightarrow> []
      | Some gpu \<Rightarrow> if gpu < 1 then [] else ln ''AddDevice=nvidia.com/gpu=all'')"

definition AnnotationUlimits :: string where
  "AnnotationUlimits = ''q8s.io/ulimits''"

definition writeUlimits :: "strmap option \<Rightarrow> segment" where
  "writeUlimits annotations =
     (case lget annotations AnnotationUlimits of
        None \<Rightarrow> Inr []
      | Some raw \<Rightarrow>
          if raw = [] then Inr []
          else render (map (\<lambda>item. rbind (validateUlimitItem item) (\<lambda>_. Inr (ln (''Ulimit='' @ item))))
                 (Split raw (CHR '',''))))"

definition isEmptyDirShm :: "volume \<Rightarrow> string \<Rightarrow> bool" where
  "isEmptyDirShm vol mountPath =
     (case v_emptyDir vol of
        None \<Rightarrow> False
      | Some (medium, _) \<Rightarrow> medium = ''Memory'' \<and> mountPath = ''/dev/shm'')"

text \<open>The \<open>ShmSize=\<close> line of a volume's size limit, if it has a positive one.\<close>

definition shm_size_line :: "volume \<Rightarrow> string" where
  "shm_size_line vol =
     (case v_emptyDir vol of
        Some (_, Some sz) \<Rightarrow> if sz > 0 then ln (''ShmSize='' @ Itoa sz) else []
      | _ \<Rightarrow> [])"

text \<open>\<open>None\<close> when the volume was not handled.\<close>

definition writeEmptyDirShm :: "volume \<Rightarrow> string \<Rightarrow> string option" where
  "writeEmptyDirShm vol mountPath =
     (if \<not> isEmptyDirShm vol mountPath then None else Some (shm_size_line vol))"

definition special_shell_byte :: "char \<Rightarrow> bool" where
  "special_shell_byte c \<longleftrightarrow>
     c \<in> {CHR '' '', CHR 0x09, newline, dquote, CHR 0x27, backslash, CHR ''$'', CHR 0x60, CHR ''!''}"

definition shell_word :: "string \<Rightarrow> string" where
  "shell_word p =
     (if list_ex special_shell_byte p
      then [dquote] @ ReplaceByte p dquote [backslash, dquote] @ [dquote] else p)"

definition shellJoin :: "string list \<Rightarrow> string" where
  "shellJoin parts = Join (map shell_word parts) '' ''"

section \<open>Shared parts of the three container renderers\<close>

definition exec_line :: "container \<Rightarrow> segment" where
  "exec_line c =
     (let cmd = c_command c @ c_args c in
      rbind (check_all (noControlChars ''command'') cmd) (\<lambda>_.
      Inr (if length cmd > 0 then ln (''Exec='' @ shellJoin cmd) else [])))"

definition working_dir_line :: "container \<Rightarrow> segment" where
  "working_dir_line c =
     (if c_workingDir c \<noteq> [] then
        rbind (validatePath ''workingDir'' (c_workingDir c)) (\<lambda>_.
        Inr (ln (''WorkingDir='' @ c_workingDir c)))
      else Inr [])"

definition env_file_line :: "string \<Rightarrow> segment" where
  "env_file_line envFile =
     (if envFile \<noteq> [] then
        rbind (validatePath ''envFile'' envFile) (\<lambda>_. Inr (ln (''EnvironmentFile='' @ envFile)))
      else Inr [])"

definition env_lines :: "container \<Rightarrow> segment" where
  "env_lines c =
     render (map (\<lambda>ev. rbind (validateEnvName (env_name ev)) (\<lambda>_. envLine (env_name ev) (env_value ev))) (c_env c))"

text \<open>The \<open>switch\<close> over the source of a mounted volume.\<close>

definition mount_line ::
  "string \<Rightarrow> string \<Rightarrow> (string, pvc) gomap \<Rightarrow> volume \<Rightarrow> volume_mount \<Rightarrow> segment" where
  "mount_line ns configDir pvcMap vol vm =
     (let readOnly = volumeMountReadOnly vm vol; mp = vm_mountPath vm in
      case v_pvc vol of
        Some (claim, _) \<Rightarrow>
          rbind (validateRefName ''persistentVolumeClaim.claimName'' claim) (\<lambda>_.
          case mget pvcMap claim of
            Some p \<Rightarrow> pvcVolumeDirective ns p mp readOnly
          | None \<Rightarrow> Inr (ln (''Volume='' @ ns @ ''-'' @ claim @ ''.volume:'' @ mp
                              @ mountOptions readOnly ''Z'')))
      | None \<Rightarrow>
      (case v_configMap vol of
        Some cm \<Rightarrow>
          rbind (validateRefName ''configMap.name'' cm) (\<lambda>_.
          Inr (if configDir \<noteq> []
               then ln (''Volume='' @ configDir @ ''/'' @ ns @ ''/'' @ cm @ '':'' @ mp @ '':ro,z'')
               else []))
      | None \<Rightarrow>
      (case v_secret vol of
        Some sec \<Rightarrow>
          rbind (validateRefName ''secret.secretName'' sec) (\<lambda>_.
          Inr (if configDir \<noteq> []
               then ln (''Volume='' @ PathJoin [PathJoin [PathDir configDir, ''secrets''], ns, sec]
                        @ '':'' @ mp @ '':ro,z'')
               else []))
      | None \<Rightarrow>
          rbind (validateRefName ''volume.name'' (v_name vol)) (\<lambda>_.
          Inr (ln (''Volume='' @ v_name vol @ '':'' @ mp @ mountOptions readOnly []))))))"

text \<open>The volume loop of \<open>JobContainer\<close> and \<open>CronContainer\<close>: every container's mounts.\<close>

definition job_volumes :: "string \<Rightarrow> string \<Rightarrow> (string, pvc) gomap \<Rightarrow> podspec \<Rightarrow> segment" where
  "job_volumes ns configDir pvcMap sp =
     render (concat (map (\<lambda>vol. concat (map (\<lambda>c. map (\<lambda>vm.
         if vm_name vm \<noteq> v_name vol then Inr []
         else rbind (validatePath ''mountPath'' (vm_mountPath vm)) (\<lambda>_.
              case writeEmptyDirShm vol (vm_mountPath vm) of
                Some s \<Rightarrow> Inr s
              | None \<Rightarrow> mount_line ns configDir pvcMap vol vm))
       (c_volumeMounts c)) (ps_containers sp))) (ps_volumes sp)))"

section \<open>Jobs and cron jobs\<close>

definition network_line :: "string \<Rightarrow> podspec \<Rightarrow> string" where
  "network_line ns sp =
     (if ps_hostNetwork sp then ln ''Network=host'' else ln (''Network=q8s-'' @ ns @ ''.network''))"

text \<open>
  The body the two renderers share; they differ in the suffix of the container name, the label
  naming the owner and the description.
\<close>

definition run_once_container ::
  "gen_env \<Rightarrow> string \<Rightarrow> string \<Rightarrow> string \<Rightarrow> string \<Rightarrow> string \<Rightarrow> string \<Rightarrow> string
    \<Rightarrow> pod_template \<Rightarrow> string \<Rightarrow> (string, pvc) gomap \<Rightarrow> string \<Rightarrow> segment" where
  "run_once_container env what suffix ownerLabel ns name ownerName descr tmpl configDir pvcMap envFile =
     (let sp = pt_spec tmpl in
      rbind (validateRefName (what @ '' name'') name) (\<lambda>_.
      rbind (validateRefName (what @ '' namespace'') ns) (\<lambda>_.
      case ps_containers sp of
        [] \<Rightarrow> Inl (OtherError (what @ '' has no containers''))
      | c # _ \<Rightarrow>
          rbind (render
           [Inr (ln ''[Container]''),
            rbind (validateImage (c_image c)) (\<lambda>_. Inr (writeImageAndPull c)),
            Inr (ln (''ContainerName='' @ ns @ ''-'' @ name @ suffix)),
            exec_line c,
            working_dir_line c,
            Inr (writeResourceLimits env (c_limits c)),
            env_file_line envFile,
            env_lines c,
            job_volumes ns configDir pvcMap sp,
            Inr (network_line ns sp),
            Inr (ln (''Label=io.kubernetes.'' @ ownerLabel @ ''.name='' @ ownerName)),
            Inr (ln (''Label=io.kubernetes.pod.namespace='' @ ns)),
            Inr (ln ManagedByLabel),
            Inr (writeGPUDevice (c_limits c)),
            writeUlimits (pt_annotations tmpl),
            writeHealthCheck c,
            Inr (ln [] @ ln ''[Unit]''),
            Inr (ln (''Description='' @ descr @ '' '' @ ns @ ''/'' @ name)),
            Inr (ln ''Wants=q8s-api.service'' @ ln ''After=q8s-api.service''),
            Inr (ln [] @ ln ''[Service]'' @ ln ''Restart=no'')])
          (\<lambda>out. Inr (withTemplateHash env out)))))"

definition JobContainer ::
  "gen_env \<Rightarrow> string \<Rightarrow> job \<Rightarrow> string \<Rightarrow> (string, pvc) gomap \<Rightarrow> string \<Rightarrow> segment" where
  "JobContainer env name j configDir pvcMap envFile =
     run_once_container env ''job'' ''-job'' ''job'' (o_namespace j) name (o_name j) ''Job''
       (job_template j) configDir pvcMap envFile"

definition CronContainer ::
  "gen_env \<Rightarrow> string \<Rightarrow> cronjob \<Rightarrow> string \<Rightarrow> (string, pvc) gomap \<Rightarrow> string \<Rightarrow> segment" where
  "CronContainer env name cj configDir pvcMap envFile =
     run_once_container env ''cronjob'' ''-cron'' ''cronjob'' (o_namespace cj) name (o_name cj)
       ''CronJob'' (cj_template cj) configDir pvcMap envFile"

end
