(* ===== verification/PodUnits.thy ===== *)
theory PodUnits
  imports Generator
begin

text \<open>
  internal/quadlet/pod.go and \<open>Container\<close> of generator.go: network aliases and attachments,
  labels, annotations, published ports, volumes, and the .container and .pod units of a pod.
\<close>

section \<open>Networks\<close>

record network_attachment =
  na_namespace :: string
  na_ip :: string

definition service_aliases :: "string \<Rightarrow> string \<Rightarrow> string list" where
  "service_aliases ns svc =
     [svc, svc @ ''.'' @ ns, svc @ ''.'' @ ns @ ''.svc.cluster.local'']"

definition networkAliases :: "string \<Rightarrow> string \<Rightarrow> string list \<Rightarrow> unit_error + string list" where
  "networkAliases ns podName services =
     rbind (validateRefName ''pod namespace'' ns) (\<lambda>_.
     rbind (validateRefName ''pod name'' podName) (\<lambda>_.
     rbind (check_all (validateRefName ''service alias'') services) (\<lambda>_.
     Inr (sort (remdups ((podName @ ''.'' @ ns) # concat (map (service_aliases ns) services)))))))"

definition network_attachment_line :: "network_attachment \<Rightarrow> segment" where
  "network_attachment_line n =
     rbind (validateRefName ''network namespace'' (na_namespace n)) (\<lambda>_.
     if na_ip n = [] then Inr (ln (''Network=q8s-'' @ na_namespace n @ ''.network''))
     else case ParseIP (na_ip n) of
            None \<Rightarrow> Inl (OtherError ''not a valid IPv4 address'')
          | Some i \<Rightarrow>
              (case To4 i of
                 None \<Rightarrow> Inl (OtherError ''not a valid IPv4 address'')
               | Some v4 \<Rightarrow> Inr (ln (''Network=q8s-'' @ na_namespace n @ ''.network:ip='' @ v4_string v4))))"

definition writeNetworks :: "string \<Rightarrow> network_attachment list \<Rightarrow> segment" where
  "writeNetworks ns networks =
     (if length networks = 0 then Inr (ln (''Network=q8s-'' @ ns @ ''.network''))
      else
        (let attachments = sort_key na_namespace networks in
         rbind (render (map network_attachment_line attachments)) (\<lambda>lines.
         Inr ((if list_ex (\<lambda>n. na_namespace n = ns) attachments then []
               else ln (''Network=q8s-'' @ ns @ ''.network'')) @ lines))))"

text \<open>The network part both shapes write: host network, or networks and aliases.\<close>

definition network_part :: "pod \<Rightarrow> string \<Rightarrow> string list \<Rightarrow> network_attachment list \<Rightarrow> segment" where
  "network_part p podName services networks =
     (if ps_hostNetwork (pod_spec p) then Inr (ln ''Network=host'')
      else render
        [writeNetworks (o_namespace p) networks,
         rbind (networkAliases (o_namespace p) podName services) (\<lambda>aliases.
         Inr (concat (map (\<lambda>a. ln (''NetworkAlias='' @ a)) aliases)))])"

section \<open>Ports, labels, annotations\<close>

definition publish_port_line :: "container_port \<Rightarrow> string" where
  "publish_port_line p =
     (if cp_hostPort p = 0 then []
      else let proto = (if cp_protocol p = ''UDP'' then ''udp'' else ''tcp'') in
        if cp_hostIP p \<noteq> [] then
          ln (''PublishPort='' @ cp_hostIP p @ '':'' @ Itoa (cp_hostPort p) @ '':''
              @ Itoa (cp_containerPort p) @ ''/'' @ proto)
        else ln (''PublishPort='' @ Itoa (cp_hostPort p) @ '':'' @ Itoa (cp_containerPort p)
              @ ''/'' @ proto))"

definition writePublishPorts :: "container_port list \<Rightarrow> string" where
  "writePublishPorts ports = concat (map publish_port_line ports)"

definition writePodLabels :: "pod \<Rightarrow> string \<Rightarrow> segment" where
  "writePodLabels p containerName =
     (let labels = lmap (om_labels (o_meta p)) in
      render
       ([Inr (ln (''Label=io.kubernetes.pod.name='' @ o_name p)),
         Inr (ln (''Label=io.kubernetes.pod.namespace='' @ o_namespace p)),
         Inr (concat (map (\<lambda>r. if or_kind r = ''Deployment''
                               then ln (''Label=io.kubernetes.pod.deployment='' @ or_name r) else [])
               (om_ownerReferences (o_meta p))))]
        @ map (\<lambda>k. let v = (case mget labels k of Some v \<Rightarrow> v | None \<Rightarrow> []) in
                rbind (validateLabelPair k v) (\<lambda>_. Inr (ln (''Label='' @ k @ ''='' @ v))))
            (sort (map fst labels))
        @ [Inr (if containerName \<noteq> [] then ln (''Label=io.kubernetes.container.name='' @ containerName)
                else []),
           Inr (ln ManagedByLabel)]))"

definition lastAppliedConfigAnnotation :: string where
  "lastAppliedConfigAnnotation = ''kubectl.kubernetes.io/last-applied-configuration''"

definition writeTemplateAnnotations :: "gen_env \<Rightarrow> pod \<Rightarrow> segment" where
  "writeTemplateAnnotations env p =
     (let annotations = lmap (om_annotations (o_meta p));
          deploymentOwned = list_ex (\<lambda>r. or_kind r = ''Deployment'') (om_ownerReferences (o_meta p))
      in if \<not> deploymentOwned \<or> length annotations = 0 then Inr []
         else render (map (\<lambda>k.
           if k = lastAppliedConfigAnnotation then Inr []
           else rbind (validateAnnotationKey (ge_qualifiedName env) k) (\<lambda>_.
                unitAssignmentLine ''Annotation'' k
                  (case mget annotations k of Some v \<Rightarrow> v | None \<Rightarrow> []) True))
           (sort (map fst annotations))))"

section \<open>One .container unit of a pod\<close>

record container_render =
  cr_pod :: pod
  cr_container :: container
  cr_containerName :: string
  cr_podUnit :: string
  cr_containerLabel :: string
  cr_podName :: string
  cr_configDir :: string
  cr_serviceAliases :: "string list"
  cr_networks :: "network_attachment list"
  cr_pvcMap :: "(string, pvc) gomap"
  cr_envFile :: string
  cr_standalone :: bool

definition writeContainerVolumes :: "container_render \<Rightarrow> segment" where
  "writeContainerVolumes r =
     render (concat (map (\<lambda>vol. map (\<lambda>vm.
         if vm_name vm \<noteq> v_name vol then Inr []
         else rbind (validatePath ''mountPath'' (vm_mountPath vm)) (\<lambda>_.
              if isEmptyDirShm vol (vm_mountPath vm)
              then Inr (if cr_standalone r then shm_size_line vol else [])
              else mount_line (o_namespace (cr_pod r)) (cr_configDir r) (cr_pvcMap r) vol vm))
       (c_volumeMounts (cr_container r))) (ps_volumes (pod_spec (cr_pod r)))))"

definition socket_requires :: "container_render \<Rightarrow> segment" where
  "socket_requires r =
     (if cr_standalone r then
        (case ParseSocketActivation (om_annotations (o_meta (cr_pod r))) of
           Inl _ \<Rightarrow> Inl (OtherError ''socket activation'')
         | Inr sockets \<Rightarrow> Inr (concat (map (\<lambda>s.
             let unit = o_namespace (cr_pod r) @ ''-'' @ cr_podName r @ ''-'' @ se_name s @ ''.socket''
             in ln (''Requires='' @ unit) @ ln (''After='' @ unit)) sockets)))
      else Inr [])"

definition restart_part :: "string \<Rightarrow> string" where
  "restart_part policy =
     (if policy = ''Never'' then ln [] @ ln ''[Service]'' @ ln ''Restart=no''
      else ln ''StartLimitBurst=5'' @ ln ''StartLimitIntervalSec=60'' @ ln [] @ ln ''[Service]''
        @ (if policy = ''Always'' \<or> policy = [] then ln ''Restart=always'' else ln ''Restart=on-failure'')
        @ ln ''RestartSec=5'')"

definition renderContainer :: "gen_env \<Rightarrow> container_render \<Rightarrow> segment" where
  "renderContainer env r =
     (let p = cr_pod r; c = cr_container r in
      render
       [Inr (ln ''[Container]''),
        rbind (validateImage (c_image c)) (\<lambda>_. Inr (writeImageAndPull c)),
        Inr (ln (''ContainerName='' @ cr_containerName r)),
        Inr (if cr_podUnit r \<noteq> [] then ln (''Pod='' @ cr_podUnit r) else []),
        exec_line c,
        working_dir_line c,
        Inr (case c_runAsUser c of None \<Rightarrow> [] | Some u \<Rightarrow> ln (''User='' @ Itoa u)),
        Inr (writeResourceLimits env (c_limits c)),
        Inr (writeGPUDevice (c_limits c)),
        writeUlimits (om_annotations (o_meta p)),
        env_file_line (cr_envFile r),
        env_lines c,
        Inr (if cr_standalone r then writePublishPorts (c_ports c) else []),
        writeContainerVolumes r,
        (if cr_standalone r then network_part p (cr_podName r) (cr_serviceAliases r) (cr_networks r)
         else Inr []),
        writePodLabels p (cr_containerLabel r),
        writeTemplateAnnotations env p,
        writeHealthCheck c,
        Inr (ln [] @ ln ''[Unit]''),
        Inr (ln (''Description=Pod '' @ o_name p)),
        Inr (ln ''Wants=q8s-api.service'' @ ln ''After=q8s-api.service''),
        socket_requires r,
        Inr (restart_part (ps_restartPolicy (pod_spec p))),
        Inr (ln [] @ ln ''[Install]'' @ ln ''WantedBy=default.target'')])"

section \<open>Single-container pods and Podman pods\<close>

definition Container ::
  "gen_env \<Rightarrow> string \<Rightarrow> pod \<Rightarrow> string \<Rightarrow> string list \<Rightarrow> (string, pvc) gomap \<Rightarrow> string
    \<Rightarrow> network_attachment list \<Rightarrow> segment" where
  "Container env name p configDir serviceAliases pvcMap envFile networks =
     rbind (validateRefName ''pod name'' name) (\<lambda>_.
     rbind (validateRefName ''pod namespace'' (o_namespace p)) (\<lambda>_.
     case ps_containers (pod_spec p) of
       [] \<Rightarrow> Inl (OtherError ''pod has no containers'')
     | c # _ \<Rightarrow>
         rbind (renderContainer env
           \<lparr>cr_pod = p, cr_container = c, cr_containerName = o_namespace p @ ''-'' @ name,
            cr_podUnit = [], cr_containerLabel = [], cr_podName = name, cr_configDir = configDir,
            cr_serviceAliases = serviceAliases, cr_networks = networks, cr_pvcMap = pvcMap,
            cr_envFile = envFile, cr_standalone = True\<rparr>)
         (\<lambda>content. Inr (withTemplateHash env content))))"

text \<open>
  The first mount of a memory-backed emptyDir at /dev/shm decides: its size when it has a
  positive one, nothing otherwise.
\<close>

definition podShmSize :: "pod \<Rightarrow> int option" where
  "podShmSize p =
     (case concat (map (\<lambda>vol.
         case v_emptyDir vol of
           Some (medium, sz) \<Rightarrow>
             if medium = ''Memory'' then
               map (\<lambda>_. sz) (filter (\<lambda>vm. vm_name vm = v_name vol \<and> vm_mountPath vm = ''/dev/shm'')
                 (concat (map c_volumeMounts (ps_containers (pod_spec p)))))
             else []
         | None \<Rightarrow> []) (ps_volumes (pod_spec p))) of
        Some n # _ \<Rightarrow> if n > 0 then Some n else None
      | _ \<Rightarrow> None)"

definition renderPod ::
  "string \<Rightarrow> pod \<Rightarrow> string list \<Rightarrow> network_attachment list \<Rightarrow> segment" where
  "renderPod name p serviceAliases networks =
     render
      [Inr (ln ''[Pod]''),
       Inr (ln (''PodName='' @ o_namespace p @ ''-'' @ name)),
       network_part p name serviceAliases networks,
       Inr (concat (map (\<lambda>c. writePublishPorts (c_ports c)) (ps_containers (pod_spec p)))),
       Inr (case podShmSize p of Some n \<Rightarrow> ln (''ShmSize='' @ Itoa n) | None \<Rightarrow> []),
       writePodLabels p [],
       Inr (ln (''Label=q8s.io/containers='' @ Join (map c_name (ps_containers (pod_spec p))) '',''))]"

text \<open>The loop over the containers, adding one file each.\<close>

fun container_files ::
  "gen_env \<Rightarrow> (container \<Rightarrow> container_render) \<Rightarrow> string \<Rightarrow> container list \<Rightarrow> (string, string) gomap
    \<Rightarrow> unit_error + (string, string) gomap" where
  "container_files env mk podName [] files = Inr files"
| "container_files env mk podName (c # cs) files =
     rbind (validateRefName ''container name'' (c_name c)) (\<lambda>_.
     let file_name = podName @ ''-'' @ c_name c @ ''.container'' in
     if mget files file_name \<noteq> None then Inl (OtherError ''duplicate container name'')
     else rbind (renderContainer env (mk c)) (\<lambda>content.
          container_files env mk podName cs
            (mput file_name (withTemplateHash env content) files)))"

definition PodUnits ::
  "gen_env \<Rightarrow> string \<Rightarrow> pod \<Rightarrow> string \<Rightarrow> string list \<Rightarrow> (string, pvc) gomap \<Rightarrow> string
    \<Rightarrow> network_attachment list \<Rightarrow> unit_error + (string, string) gomap" where
  "PodUnits env name p configDir serviceAliases pvcMap envFile networks =
     rbind (validateRefName ''pod name'' name) (\<lambda>_.
     rbind (validateRefName ''pod namespace'' (o_namespace p)) (\<lambda>_.
     if length (ps_containers (pod_spec p)) = 0 then Inl (OtherError ''pod has no containers'')
     else if lget (om_annotations (o_meta p)) AnnotationSocketActivation \<noteq> None
     then Inl (OtherError ''socket activation on a multi-container pod'')
     else rbind (renderPod name p serviceAliases networks) (\<lambda>podContent.
       let podName = o_namespace p @ ''-'' @ name in
       container_files env
         (\<lambda>c. \<lparr>cr_pod = p, cr_container = c, cr_containerName = podName @ ''-'' @ c_name c,
            cr_podUnit = podName @ ''.pod'', cr_containerLabel = c_name c, cr_podName = name,
            cr_configDir = configDir, cr_serviceAliases = serviceAliases, cr_networks = networks,
            cr_pvcMap = pvcMap, cr_envFile = envFile, cr_standalone = False\<rparr>)
         podName (ps_containers (pod_spec p))
         [(podName @ ''.pod'', withTemplateHash env podContent)])))"

end
