(* ===== verification/UnitSafety.thy ===== *)
theory UnitSafety
  imports PodUnits
begin

text \<open>
  What the generated units look like whatever the client put into the objects: complete lines,
  only the section headers the generator writes, in its order, and only its own directives.
  The section lemmas go bottom-up along the writers of the theories Generator and PodUnits.
\<close>

section \<open>Unit files with given sections\<close>

definition is_header :: "string \<Rightarrow> bool" where
  "is_header l \<longleftrightarrow> (case l of [] \<Rightarrow> False | c # _ \<Rightarrow> c = CHR ''['')"

text \<open>
  \<open>unit_file ks hs s\<close>: the text is a sequence of complete lines, its section headers are
  exactly \<open>hs\<close> in this order, and every other line is blank or assigns one of the keys \<open>ks\<close>.
\<close>

definition unit_file :: "string list \<Rightarrow> string list \<Rightarrow> string \<Rightarrow> bool" where
  "unit_file ks hs s \<longleftrightarrow> (\<exists>ls. renders s ls \<and> filter is_header ls = hs \<and>
     (\<forall>l \<in> set ls. l = [] \<or> is_header l \<or> directive ks l))"

definition seg_unit :: "string list \<Rightarrow> string list \<Rightarrow> segment \<Rightarrow> bool" where
  "seg_unit ks hs x \<longleftrightarrow> (\<forall>s. x = Inr s \<longrightarrow> unit_file ks hs s)"

definition plain_keys :: "string list \<Rightarrow> bool" where
  "plain_keys ks \<longleftrightarrow> list_all (\<lambda>k. k \<noteq> [] \<and> \<not> is_header k) ks"

lemma unit_file_append: "unit_file ks hs s \<Longrightarrow> unit_file ks hs' t \<Longrightarrow> unit_file ks (hs @ hs') (s @ t)"
proof -
  assume "unit_file ks hs s" "unit_file ks hs' t"
  then obtain ls ms where "renders s ls" "filter is_header ls = hs" "renders t ms"
    "filter is_header ms = hs'" "\<forall>l \<in> set ls \<union> set ms. l = [] \<or> is_header l \<or> directive ks l"
    unfolding unit_file_def by blast
  then show ?thesis
    unfolding unit_file_def by (intro exI [of _ "ls @ ms"]) (auto intro: renders_append)
qed

lemma directive_no_header: "plain_keys ks \<Longrightarrow> directive ks l \<Longrightarrow> \<not> is_header l"
proof
  assume ks: "plain_keys ks" and d: "directive ks l" and h: "is_header l"
  then obtain c t where l: "l = c # t" and c: "c = CHR ''[''"
    by (cases l) (auto simp: is_header_def)
  obtain k v f where cut: "Cut t (CHR ''='') = (k, v, f)" by (cases "Cut t (CHR ''='')") auto
  with d l c have "(CHR ''['' # k) \<in> set ks" by (simp add: directive_def)
  with ks show False by (auto simp: plain_keys_def list_all_iff is_header_def)
qed

lemma unit_file_body: "plain_keys ks \<Longrightarrow> lines_of (directive ks) s \<Longrightarrow> unit_file ks [] s"
  unfolding lines_of_def unit_file_def using directive_no_header by (metis filter_False)

lemma unit_file_header: "newline \<notin> set h \<Longrightarrow> is_header h \<Longrightarrow> unit_file ks [h] (ln h)"
  unfolding unit_file_def ln_def by (rule exI [of _ "[h]"]) (simp add: renders_one)

lemma unit_file_blank: "unit_file ks [] (ln [])"
  unfolding unit_file_def ln_def by (rule exI [of _ "[[]]"]) (simp add: renders_def unit_lines_def is_header_def)

lemma seg_unit_head:
  "unit_file ks [h] s \<Longrightarrow> seg_unit ks hs (render xs) \<Longrightarrow> seg_unit ks (h # hs) (render (Inr s # xs))"
  using unit_file_append [of ks "[h]" s hs] by (auto simp: seg_unit_def rbind_laws)

lemma seg_unit_body:
  assumes "plain_keys ks" "seg_lines (directive ks) x" "seg_unit ks hs (render xs)"
  shows "seg_unit ks hs (render (x # xs))"
proof -
  have "unit_file ks hs (s @ t)" if "x = Inr s" "render xs = Inr t" for s t
    using unit_file_append [OF unit_file_body, of ks s hs t] assms that
    by (auto simp: seg_lines_def seg_unit_def)
  then show ?thesis by (auto simp: seg_unit_def rbind_laws)
qed

lemma seg_unit_bodies:
  "plain_keys ks \<Longrightarrow> list_all (seg_lines (directive ks)) xs \<Longrightarrow> seg_unit ks hs (render ys) \<Longrightarrow>
    seg_unit ks hs (render (xs @ ys))"
  by (induction xs) (auto simp del: render.simps intro: seg_unit_body)

lemma seg_unit_section:
  "plain_keys ks \<Longrightarrow> unit_file ks [h] s \<Longrightarrow> list_all (seg_lines (directive ks)) xs \<Longrightarrow>
    seg_unit ks hs (render ys) \<Longrightarrow> seg_unit ks (h # hs) (render (Inr s # xs @ ys))"
  by (intro seg_unit_head seg_unit_bodies)

lemma seg_unit_Nil: "seg_unit ks [] (render [])"
  by (auto simp: seg_unit_def unit_file_def intro: exI [of _ "[]"])

lemma seg_unit_rbind: "(\<And>x. m = Inr x \<Longrightarrow> seg_unit ks hs (f x)) \<Longrightarrow> seg_unit ks hs (rbind m f)"
  by (cases m) (auto simp: seg_unit_def)

section \<open>The template hash\<close>

lemma Split_append_sep: "Split (a @ d # b) d = Split a d @ Split b d"
proof (induction a)
  case (Cons c a)
  show ?case
  proof (cases "c = d")
    case False
    obtain w ws where "Split a d = w # ws" by (cases "Split a d") auto
    with Cons False show ?thesis by simp
  qed (use Cons in simp)
qed simp

lemma renders_iff: "renders s ls \<longleftrightarrow> Split s newline = ls @ [[]]"
proof
  assume sp: "Split s newline = ls @ [[]]"
  have "Join (ls @ [[]]) nl = unit_lines ls"
  proof (induction ls)
    case (Cons l ls)
    then show ?case by (cases ls) (auto simp: unit_lines_def)
  qed (simp add: unit_lines_def)
  moreover from sp have "newline \<notin> set l" if "l \<in> set ls" for l
    using Split_no_sep [of l s newline] that by simp
  ultimately show "renders s ls" using Join_Split [of s newline] sp by (simp add: renders_def)
qed (rule renders_Split)

lemma renders_split:
  assumes "renders (a @ newline # b) ls"
  obtains l1 l2 where "renders (a @ nl) l1" "renders b l2" "ls = l1 @ l2"
proof -
  from assms have eq: "Split a newline @ Split b newline = ls @ [[]]"
    by (simp add: renders_iff Split_append_sep)
  obtain ms x where b: "Split b newline = ms @ [x]"
    by (metis Split_not_Nil rev_exhaust)
  with eq have "x = []" and ls: "ls = Split a newline @ ms" by auto
  with b have "renders b ms" by (simp add: renders_iff)
  moreover have "renders (a @ nl) (Split a newline)" by (simp add: renders_iff Split_append_sep)
  ultimately show thesis using that ls by blast
qed

lemma Index_split: "Index s sub = Some i \<Longrightarrow> sub \<noteq> [] \<Longrightarrow> \<exists>a t. s = a @ sub @ t \<and> length a = i"
proof (induction s arbitrary: i)
  case (Cons x s)
  show ?case
  proof (cases "HasPrefix (x # s) sub")
    case True
    with Cons.prems have "i = 0" by simp
    moreover from True have "x # s = [] @ sub @ drop (length sub) (x # s)"
      by (metis HasPrefix_def append_take_drop_id append_Nil)
    ultimately show ?thesis by (metis list.size(3))
  next
    case False
    with Cons.prems obtain j where "Index s sub = Some j" "i = Suc j" by auto
    with Cons.IH [OF this(1) Cons.prems(2)] obtain a t where "s = a @ sub @ t" "length a = j" by blast
    then have "x # s = (x # a) @ sub @ t \<and> length (x # a) = i" using \<open>i = Suc j\<close> by simp
    then show ?thesis by blast
  qed
qed simp

lemma hash_line: "newline \<notin> set (''Label='' @ TemplateHashLabel @ ''='' @ concat (map hex_byte bs))"
proof -
  have "newline \<noteq> hexdigit (b mod 16)" "newline \<noteq> hexdigit (b div 16 mod 16)" for b
    by (rule not_sym, rule hexdigit_newline, simp)+
  then show ?thesis by (auto simp: TemplateHashLabel_def hex_byte_def)
qed

lemma unit_file_hash:
  assumes uf: "unit_file ks hs s" and ks: "''Label'' \<in> set ks" "plain_keys ks"
  shows "unit_file ks hs (withTemplateHash env s)"
proof -
  let ?h = "''Label='' @ TemplateHashLabel @ ''='' @ concat (map hex_byte (take 6 (ge_sha256 env s)))"
  have dir: "directive ks ?h" using ks(1) by (simp add: directive_def)
  note nh = directive_no_header [OF ks(2) dir]
  from uf obtain ls where ls: "renders s ls" "filter is_header ls = hs"
    "\<forall>l \<in> set ls. l = [] \<or> is_header l \<or> directive ks l"
    unfolding unit_file_def by blast
  show ?thesis
  proof (cases "Index s (nl @ nl @ ''['')")
    case None
    from renders_append [OF ls(1) renders_one [OF hash_line]]
    have "renders (s @ ln ?h) (ls @ [?h])" by (simp add: ln_def)
    with None ls dir nh show ?thesis
      unfolding unit_file_def withTemplateHash_def Let_def
      by (intro exI [of _ "ls @ [?h]"]) (auto simp: ln_def)
  next
    case (Some i)
    from Index_split [OF this] obtain a t where t: "s = a @ (nl @ nl @ ''['') @ t" and len: "length a = i"
      by auto
    define b where "b = newline # CHR ''['' # t"
    have s: "s = a @ newline # b" using t by (simp add: b_def)
    from ls(1) have "renders (a @ newline # b) ls" unfolding s .
    then obtain l1 l2 where l12: "renders (a @ nl) l1" "renders b l2" "ls = l1 @ l2"
      by (rule renders_split)
    have "withTemplateHash env s = (a @ nl) @ ln ?h @ b"
      using Some len by (simp add: withTemplateHash_def Let_def s)
    moreover have "renders ((a @ nl) @ ln ?h @ b) (l1 @ [?h] @ l2)"
      unfolding ln_def using renders_append [OF l12(1) renders_append [OF renders_one [OF hash_line] l12(2)]]
      by simp
    ultimately show ?thesis
      using ls(2,3) l12(3) dir nh unfolding unit_file_def
      by (intro exI [of _ "l1 @ [?h] @ l2"]) auto
  qed
qed

definition unit_keys :: "string list" where
  "unit_keys = [''Image'', ''Pull'', ''ContainerName'', ''Pod'', ''Exec'', ''WorkingDir'', ''User'',
     ''PodmanArgs'', ''AddDevice'', ''Ulimit'', ''EnvironmentFile'', ''Environment'', ''PublishPort'',
     ''ShmSize'', ''Volume'', ''Network'', ''NetworkAlias'', ''Label'', ''Annotation''] @ health_keys
     @ [''Description'', ''Wants'', ''After'', ''Requires'', ''StartLimitBurst'',
     ''StartLimitIntervalSec'', ''Restart'', ''RestartSec'', ''WantedBy'', ''PodName'']"

lemma unit_keys_plain: "plain_keys unit_keys"
  by (simp add: plain_keys_def unit_keys_def health_keys_def is_header_def)

lemma unit_keys_members:
  "{''Image'', ''Pull''} \<subseteq> set unit_keys" "''Exec'' \<in> set unit_keys" "''WorkingDir'' \<in> set unit_keys"
  "''PodmanArgs'' \<in> set unit_keys" "''AddDevice'' \<in> set unit_keys" "''Ulimit'' \<in> set unit_keys"
  "''EnvironmentFile'' \<in> set unit_keys" "''Environment'' \<in> set unit_keys"
  "''PublishPort'' \<in> set unit_keys" "{''Volume'', ''ShmSize''} \<subseteq> set unit_keys"
  "{''Network'', ''NetworkAlias''} \<subseteq> set unit_keys" "''Network'' \<in> set unit_keys"
  "''Label'' \<in> set unit_keys" "''Annotation'' \<in> set unit_keys" "{''Requires'', ''After''} \<subseteq> set unit_keys"
  "{''StartLimitBurst'', ''StartLimitIntervalSec'', ''Restart'', ''RestartSec''} \<subseteq> set unit_keys"
  "''ShmSize'' \<in> set unit_keys"
  by (simp_all add: unit_keys_def)

lemma seg_unit_hash:
  "seg_unit unit_keys hs x \<Longrightarrow> seg_unit unit_keys hs (rbind x (\<lambda>out. Inr (withTemplateHash env out)))"
  by (cases x) (auto simp: seg_unit_def intro: unit_file_hash [OF _ unit_keys_members(13) unit_keys_plain])

section \<open>The lines each writer produces\<close>

lemma lines_of_concat_map [line_intros]:
  "(\<And>x. x \<in> set xs \<Longrightarrow> lines_of P (f x)) \<Longrightarrow> lines_of P (concat (map f xs))"
  by (rule lines_of_concat) auto

lemma seg_lines_render_Nil [line_intros]: "seg_lines P (render [])"
  by simp

lemma ManagedBy_lines: "''Label'' \<in> set ks \<Longrightarrow> lines_of (directive ks) (ln ManagedByLabel)"
  by (intro line_intros) (simp_all add: ManagedByLabel_def directive_def)

lemma writeImageAndPull_lines:
  "validateImage (c_image c) = Inr u \<Longrightarrow> {''Image'', ''Pull''} \<subseteq> set ks \<Longrightarrow>
    lines_of (directive ks) (writeImageAndPull c)"
  unfolding writeImageAndPull_def
  by (intro line_intros) (auto simp: directive_def pullPolicyToQuadlet_def dest: validateImage_newline)

lemma frac3_digits: "n < 1000 \<Longrightarrow> c \<in> set (frac3 n) \<Longrightarrow> is_digit c"
proof -
  assume n: "n < 1000" and "c \<in> set (frac3 n)"
  then have "c \<in> set (rev [bchr (48 + n div 100), bchr (48 + n div 10 mod 10), bchr (48 + n mod 10)])"
    unfolding frac3_def set_rev by (metis set_dropWhileD set_rev)
  then have "c \<in> {bchr (48 + n div 100), bchr (48 + n div 10 mod 10), bchr (48 + n mod 10)}" by auto
  moreover have "n div 100 < 10" using n by simp
  ultimately show ?thesis using is_digit_bchr by auto
qed

lemma formatMilli_newline [simp]: "newline \<notin> set (formatMilli m)"
  using frac3_digits [of "nat \<bar>m\<bar> mod 1000" newline] by (auto simp: formatMilli_def Let_def)

lemma writeResourceLimits_lines:
  "''PodmanArgs'' \<in> set ks \<Longrightarrow> lines_of (directive ks) (writeResourceLimits env l)"
  unfolding writeResourceLimits_def
  by (auto split: option.split simp: directive_def intro!: line_intros)

lemma writeGPUDevice_lines: "''AddDevice'' \<in> set ks \<Longrightarrow> lines_of (directive ks) (writeGPUDevice l)"
  unfolding writeGPUDevice_def
  by (auto split: option.split simp: directive_def intro!: lines_of_ln)

lemma writeUlimits_lines: "''Ulimit'' \<in> set ks \<Longrightarrow> seg_lines (directive ks) (writeUlimits m)"
  unfolding writeUlimits_def
  by (auto split: option.split simp: directive_def validateUlimitItem_newline intro!: line_intros)

lemma shm_size_lines: "''ShmSize'' \<in> set ks \<Longrightarrow> lines_of (directive ks) (shm_size_line vol)"
  unfolding shm_size_line_def
  by (auto split: option.split simp: directive_def intro!: lines_of_ln)

lemma shellJoin_newline: "\<forall>p \<in> set parts. newline \<notin> set p \<Longrightarrow> newline \<notin> set (shellJoin parts)"
  unfolding shellJoin_def
  by (rule Join_newline)
    (auto simp: shell_word_def dquote_def backslash_def ReplaceByte_newline)

lemma exec_line_lines: "''Exec'' \<in> set ks \<Longrightarrow> seg_lines (directive ks) (exec_line c)"
  unfolding exec_line_def Let_def
  by (intro line_intros)
    (auto simp: directive_def rbind_laws noControlChars_Inr intro!: shellJoin_newline)

lemma working_dir_lines: "''WorkingDir'' \<in> set ks \<Longrightarrow> seg_lines (directive ks) (working_dir_line c)"
  unfolding working_dir_line_def
  by (intro line_intros) (auto simp: directive_def validatePath_newline)

lemma env_file_lines: "''EnvironmentFile'' \<in> set ks \<Longrightarrow> seg_lines (directive ks) (env_file_line f)"
  unfolding env_file_line_def
  by (intro line_intros) (auto simp: directive_def validatePath_newline)

lemma env_lines_lines: "''Environment'' \<in> set ks \<Longrightarrow> seg_lines (directive ks) (env_lines c)"
  unfolding env_lines_def
proof (rule seg_lines_render_map)
  fix ev :: env_var
  assume "''Environment'' \<in> set ks"
  then show "seg_lines (directive ks)
      (rbind (validateEnvName (env_name ev)) (\<lambda>_. envLine (env_name ev) (env_value ev)))"
    by (intro line_intros)
      (auto simp: seg_lines_def envLine_def validateEnvName_newline intro: unitAssignmentLine_lines)
qed

lemma pvcVolumeDirective_lines:
  assumes "newline \<notin> set ns" "newline \<notin> set (o_name p)" "newline \<notin> set mp" "''Volume'' \<in> set ks"
  shows "seg_lines (directive ks) (pvcVolumeDirective ns p mp ro)"
proof -
  have "lines_of (directive ks) line" if line: "pvcVolumeDirective ns p mp ro = Inr line" for line
  proof -
    from pvcVolumeDirective_one_line [OF line assms(1-3)]
    obtain body where body: "line = body @ nl" "newline \<notin> set body" by blast
    moreover from line have "HasPrefix line ''Volume=''"
      by (auto simp: pvcVolumeDirective_def Let_def HasPrefix_def rbind_laws split: if_splits option.splits)
    then obtain v where v: "line = ''Volume='' @ v"
      by (metis HasPrefix_def append_take_drop_id)
    with body obtain w where "body = ''Volume='' @ w"
      by (cases v rule: rev_cases) auto
    ultimately show ?thesis using assms(4) lines_of_one [of body "directive ks"]
      by (simp add: directive_def)
  qed
  then show ?thesis by (simp add: seg_lines_def)
qed

definition pvcs_clean :: "(string, pvc) gomap \<Rightarrow> bool" where
  "pvcs_clean m \<longleftrightarrow> list_all (\<lambda>(_, p). newline \<notin> set (o_name p)) m"

lemma mount_line_lines:
  assumes "newline \<notin> set ns" "newline \<notin> set configDir" "pvcs_clean pvcMap"
    "newline \<notin> set (vm_mountPath vm)" "''Volume'' \<in> set ks"
  shows "seg_lines (directive ks) (mount_line ns configDir pvcMap vol vm)"
proof -
  have pvc: "newline \<notin> set (o_name p)" if "mget pvcMap k = Some p" for k p
    using assms(3) map_of_SomeD [OF that] by (auto simp: pvcs_clean_def list_all_iff)
  have opts: "newline \<notin> set (mountOptions b r)" if "newline \<notin> set r" for b r
    using mountOptions_chars [OF that] .
  have path: "newline \<notin> set (PathJoin [PathJoin [PathDir configDir, ''secrets''], ns, sec])"
    if "newline \<notin> set sec" for sec
  proof
    assume "newline \<in> set (PathJoin [PathJoin [PathDir configDir, ''secrets''], ns, sec])"
    with PathJoin_bytes [OF this] that assms(1)
    have "newline \<in> set (PathJoin [PathDir configDir, ''secrets''])" by auto
    from PathJoin_bytes [OF this] have "newline \<in> set (PathDir configDir)" by auto
    from PathDir_bytes [OF this] assms(2) show False by simp
  qed
  show ?thesis
    unfolding mount_line_def Let_def
    using assms(1,2,4,5)
    by (auto split: option.split intro!: line_intros pvcVolumeDirective_lines
        simp: directive_def dns_label_newline opts path pvc)
qed


lemma job_volumes_lines:
  assumes "newline \<notin> set ns" "newline \<notin> set configDir" "pvcs_clean pvcMap"
    "{''Volume'', ''ShmSize''} \<subseteq> set ks"
  shows "seg_lines (directive ks) (job_volumes ns configDir pvcMap sp)"
  unfolding job_volumes_def
  by (rule seg_lines_render)
    (use assms in \<open>auto simp: validatePath_newline writeEmptyDirShm_def
      intro!: seg_lines_rbind mount_line_lines shm_size_lines split: option.split\<close>)

lemma writeContainerVolumes_lines:
  assumes "newline \<notin> set (o_namespace (cr_pod r))" "newline \<notin> set (cr_configDir r)"
    "pvcs_clean (cr_pvcMap r)" "{''Volume'', ''ShmSize''} \<subseteq> set ks"
  shows "seg_lines (directive ks) (writeContainerVolumes r)"
  unfolding writeContainerVolumes_def
  by (rule seg_lines_render)
    (use assms in \<open>auto simp: validatePath_newline
      intro!: seg_lines_rbind mount_line_lines shm_size_lines split: option.split\<close>)

lemma network_line_lines:
  "newline \<notin> set ns \<Longrightarrow> ''Network'' \<in> set ks \<Longrightarrow> lines_of (directive ks) (network_line ns sp)"
  unfolding network_line_def by (intro line_intros) (auto simp: directive_def)

lemma networkAliases_newline:
  "networkAliases ns podName services = Inr as \<Longrightarrow> a \<in> set as \<Longrightarrow> newline \<notin> set a"
proof -
  assume as: "networkAliases ns podName services = Inr as" and a: "a \<in> set as"
  then have ok: "dns_label ns" "dns_label podName" "\<forall>s \<in> set services. dns_label s"
    and "as = sort (remdups ((podName @ ''.'' @ ns) # concat (map (service_aliases ns) services)))"
    by (auto simp: networkAliases_def rbind_laws simp del: remdups.simps)
  then have "set as = set ((podName @ ''.'' @ ns) # concat (map (service_aliases ns) services))"
    by (simp only: set_sort set_remdups)
  with a have "a = podName @ ''.'' @ ns \<or> (\<exists>s \<in> set services. a \<in> set (service_aliases ns s))" by auto
  with ok show "newline \<notin> set a" by (auto simp: service_aliases_def dns_label_newline)
qed

lemma writeNetworks_lines:
  "newline \<notin> set ns \<Longrightarrow> ''Network'' \<in> set ks \<Longrightarrow> seg_lines (directive ks) (writeNetworks ns networks)"
  unfolding writeNetworks_def Let_def
proof (intro line_intros)
  fix lines
  assume ns: "newline \<notin> set ns" and ks: "''Network'' \<in> set ks"
    and lines: "render (map network_attachment_line (sort_key na_namespace networks)) = Inr lines"
  have "seg_lines (directive ks) (render (map network_attachment_line (sort_key na_namespace networks)))"
    using ks unfolding network_attachment_line_def
    by (intro line_intros) (auto simp: directive_def dns_label_newline split: option.split
        intro!: line_intros)
  with lines show "lines_of (directive ks) lines" by (simp add: seg_lines_def)
qed (auto simp: directive_def)

lemma network_part_lines:
  "newline \<notin> set (o_namespace p) \<Longrightarrow> {''Network'', ''NetworkAlias''} \<subseteq> set ks \<Longrightarrow>
    seg_lines (directive ks) (network_part p podName services networks)"
  unfolding network_part_def
  by (intro line_intros)
    (auto simp: directive_def networkAliases_newline intro!: writeNetworks_lines)

definition ports_clean :: "container_port list \<Rightarrow> bool" where
  "ports_clean ports \<longleftrightarrow> list_all (\<lambda>p. newline \<notin> set (cp_hostIP p)) ports"

lemma writePublishPorts_lines:
  "ports_clean ports \<Longrightarrow> ''PublishPort'' \<in> set ks \<Longrightarrow>
    lines_of (directive ks) (writePublishPorts ports)"
  unfolding writePublishPorts_def publish_port_line_def Let_def
  by (intro line_intros) (auto simp: directive_def ports_clean_def list_all_iff)

definition meta_clean :: "'a kobj_scheme \<Rightarrow> bool" where
  "meta_clean p \<longleftrightarrow> newline \<notin> set (o_name p) \<and>
     list_all (\<lambda>r. newline \<notin> set (or_name r)) (om_ownerReferences (o_meta p))"

lemma label_pair_lines:
  "''Label'' \<in> set ks \<Longrightarrow>
    seg_lines (directive ks) (rbind (validateLabelPair k v) (\<lambda>_. Inr (ln (''Label='' @ k @ ''='' @ v))))"
proof (rule seg_lines_rbind)
  fix u
  assume ks: "''Label'' \<in> set ks" and ok: "validateLabelPair k v = Inr u"
  have "newline \<notin> set k" "newline \<notin> set v"
    using validateLabelPair_newline [of k v] ok by auto
  with ks show "seg_lines (directive ks) (Inr (ln (''Label='' @ k @ ''='' @ v)))"
    by (intro line_intros) (auto simp: directive_def)
qed

lemma writePodLabels_lines:
  assumes "meta_clean p" "newline \<notin> set (o_namespace p)" "newline \<notin> set name" "''Label'' \<in> set ks"
  shows "seg_lines (directive ks) (writePodLabels p name)"
  unfolding writePodLabels_def Let_def
proof (rule seg_lines_render, simp only: set_append Un_iff set_map, elim disjE)
  fix x :: segment
  assume "x \<in> set [Inr (ln (''Label=io.kubernetes.pod.name='' @ o_name p)),
      Inr (ln (''Label=io.kubernetes.pod.namespace='' @ o_namespace p)),
      Inr (concat (map (\<lambda>r. if or_kind r = ''Deployment''
        then ln (''Label=io.kubernetes.pod.deployment='' @ or_name r) else [])
        (om_ownerReferences (o_meta p))))]"
  then show "seg_lines (directive ks) x"
    using assms by (auto simp: directive_def meta_clean_def list_all_iff intro!: line_intros)
next
  fix x :: segment
  assume "x \<in> set [Inr (if name \<noteq> [] then ln (''Label=io.kubernetes.container.name='' @ name) else []),
      Inr (ln ManagedByLabel)]"
  then show "seg_lines (directive ks) x"
    using assms by (auto simp: directive_def intro!: line_intros ManagedBy_lines)
next
  fix x :: segment
  assume "x \<in> (\<lambda>k. rbind (validateLabelPair k (case mget (lmap (om_labels (o_meta p))) k of
        Some v \<Rightarrow> v | None \<Rightarrow> [])) (\<lambda>_. Inr (ln (''Label='' @ k @ ''='' @
          (case mget (lmap (om_labels (o_meta p))) k of Some v \<Rightarrow> v | None \<Rightarrow> [])))))
      ` set (sort (map fst (lmap (om_labels (o_meta p)))))"
  then obtain k v where x: "x = rbind (validateLabelPair k v) (\<lambda>_. Inr (ln (''Label='' @ k @ ''='' @ v)))"
    by blast
  show "seg_lines (directive ks) x"
    unfolding x using label_pair_lines [OF assms(4)] .
qed

definition qualified_clean :: "gen_env \<Rightarrow> bool" where
  "qualified_clean env \<longleftrightarrow> (\<forall>k. ge_qualifiedName env k = [] \<longrightarrow> newline \<notin> set k)"

lemma writeTemplateAnnotations_lines:
  assumes "qualified_clean env" "''Annotation'' \<in> set ks"
  shows "seg_lines (directive ks) (writeTemplateAnnotations env p)"
  unfolding writeTemplateAnnotations_def Let_def
proof (intro line_intros)
  fix k u
  assume "validateAnnotationKey (ge_qualifiedName env) k = Inr u"
  then have "newline \<notin> set k"
    using assms(1) by (auto simp: validateAnnotationKey_def qualified_clean_def Let_def split: if_splits)
  with assms(2) show "seg_lines (directive ks) (unitAssignmentLine ''Annotation'' k v True)" for v
    unfolding seg_lines_def by (auto intro: unitAssignmentLine_lines)
qed

lemma socket_requires_lines:
  assumes "newline \<notin> set (o_namespace (cr_pod r))" "newline \<notin> set (cr_podName r)"
    "{''Requires'', ''After''} \<subseteq> set ks"
  shows "seg_lines (directive ks) (socket_requires r)"
proof (cases "ParseSocketActivation (om_annotations (o_meta (cr_pod r)))")
  case (Inr es)
  have "list_all entry_ok es"
    using Inr parse_items_ok by (auto simp: ParseSocketActivation_def split: option.splits)
  then have "newline \<notin> set (se_name e)" if "e \<in> set es" for e
    using that socket_name_newline by (auto simp: list_all_iff entry_ok_def)
  with Inr assms show ?thesis
    by (auto simp: socket_requires_def Let_def directive_def intro!: line_intros)
qed (simp add: socket_requires_def)

lemma restart_part_file:
  assumes "{''StartLimitBurst'', ''StartLimitIntervalSec'', ''Restart'', ''RestartSec''} \<subseteq> set ks"
    and "plain_keys ks"
  shows "unit_file ks [''[Service]''] (restart_part policy)"
proof -
  have svc: "unit_file ks ([] @ [''[Service]''] @ []) (ln [] @ ln ''[Service]'' @ s)"
    if "lines_of (directive ks) s" for s
    by (intro unit_file_append unit_file_blank unit_file_header unit_file_body that assms(2))
      (simp_all add: is_header_def)
  have lim: "unit_file ks [] (ln ''StartLimitBurst=5'' @ ln ''StartLimitIntervalSec=60'')"
    by (intro unit_file_body assms(2) line_intros) (use assms(1) in \<open>simp_all add: directive_def\<close>)
  have r: "lines_of (directive ks) (ln ''Restart=no'')"
    "lines_of (directive ks) ((if b then ln ''Restart=always'' else ln ''Restart=on-failure'')
        @ ln ''RestartSec=5'')" for b
    by (intro line_intros; use assms(1) in \<open>simp add: directive_def\<close>)+
  show ?thesis
    using svc [OF r(1)] unit_file_append [OF lim svc [OF r(2)]]
    by (simp add: restart_part_def)
qed

section \<open>Whole units\<close>

lemma health_unit: "seg_lines (directive unit_keys) (writeHealthCheck c)"
  by (rule seg_lines_mono [OF writeHealthCheck_lines], erule directive_mono)
    (auto simp: unit_keys_def)

lemma header_after_blank: "newline \<notin> set h \<Longrightarrow> is_header h \<Longrightarrow> unit_file ks [h] (ln [] @ ln h)"
  using unit_file_append [OF unit_file_blank unit_file_header] by fastforce

text \<open>The byte conditions on what the validators of the generator do not check.\<close>

definition input_clean :: "gen_env \<Rightarrow> string \<Rightarrow> (string, pvc) gomap \<Rightarrow> pod \<Rightarrow> bool" where
  "input_clean env configDir pvcMap p \<longleftrightarrow>
     qualified_clean env \<and> newline \<notin> set configDir \<and> pvcs_clean pvcMap \<and> meta_clean p \<and>
     list_all (\<lambda>c. ports_clean (c_ports c)) (ps_containers (pod_spec p))"

definition render_names_clean :: "container_render \<Rightarrow> bool" where
  "render_names_clean r \<longleftrightarrow> list_all (\<lambda>s. newline \<notin> set s)
     [cr_containerName r, cr_podUnit r, cr_containerLabel r, cr_podName r, o_namespace (cr_pod r)]"

lemma container_header: "unit_file ks [''[Container]''] (ln ''[Container]'')"
  by (rule unit_file_header) (simp_all add: is_header_def)

lemma unit_header: "unit_file ks [''[Unit]''] (ln [] @ ln ''[Unit]'')"
  by (rule header_after_blank) (simp_all add: is_header_def)

lemma install_part_file:
  "unit_file unit_keys [''[Install]''] (ln [] @ ln ''[Install]'' @ ln ''WantedBy=default.target'')"
proof -
  have "unit_file unit_keys ([''[Install]''] @ []) ((ln [] @ ln ''[Install]'') @ ln ''WantedBy=default.target'')"
    by (intro unit_file_append header_after_blank unit_file_body [OF unit_keys_plain] line_intros)
      (simp_all add: is_header_def directive_def unit_keys_def)
  then show ?thesis by simp
qed

lemma image_lines: "seg_lines (directive unit_keys) (rbind (validateImage (c_image c)) (\<lambda>_. Inr (writeImageAndPull c)))"
  by (rule seg_lines_rbind, rule seg_lines_IntInr, erule writeImageAndPull_lines)
    (rule unit_keys_members)

lemma renderContainer_unit:
  assumes clean: "render_names_clean r" "input_clean env (cr_configDir r) (cr_pvcMap r) (cr_pod r)"
    and ports: "ports_clean (c_ports (cr_container r))"
  shows "seg_unit unit_keys [''[Container]'', ''[Unit]'', ''[Service]'', ''[Install]''] (renderContainer env r)"
proof -
  let ?p = "cr_pod r" and ?c = "cr_container r" and ?D = "seg_lines (directive unit_keys)"
  from clean have names: "newline \<notin> set (cr_containerName r)" "newline \<notin> set (cr_podUnit r)"
    "newline \<notin> set (cr_containerLabel r)" "newline \<notin> set (cr_podName r)"
    "newline \<notin> set (o_namespace ?p)" "newline \<notin> set (cr_configDir r)"
    "pvcs_clean (cr_pvcMap r)" "meta_clean ?p" "qualified_clean env"
    by (simp_all add: render_names_clean_def input_clean_def)
  have desc: "newline \<notin> set (o_name ?p)" using names(8) by (simp add: meta_clean_def)
  note unit_keys_members [simp]
  have b1: "?D (Inr (ln (''ContainerName='' @ cr_containerName r)))"
    "?D (Inr (if cr_podUnit r \<noteq> [] then ln (''Pod='' @ cr_podUnit r) else []))"
    "?D (Inr (case c_runAsUser ?c of None \<Rightarrow> [] | Some u \<Rightarrow> ln (''User='' @ Itoa u)))"
    "?D (Inr (ln (''Description=Pod '' @ o_name ?p)))"
    "?D (Inr (ln ''Wants=q8s-api.service'' @ ln ''After=q8s-api.service''))"
    using names(1,2) desc
    by (auto simp: directive_def unit_keys_def split: option.split intro!: line_intros)
  have b2: "?D (exec_line ?c)" "?D (working_dir_line ?c)" "?D (writeUlimits a)"
    "?D (env_file_line f)" "?D (env_lines ?c)"
    "?D (writePodLabels ?p (cr_containerLabel r))" "?D (writeTemplateAnnotations env ?p)" for a f
    using names by (simp_all add: exec_line_lines working_dir_lines writeUlimits_lines env_file_lines
      env_lines_lines writePodLabels_lines writeTemplateAnnotations_lines)
  note b2 = b2 writeContainerVolumes_lines [OF names(5,6,7) unit_keys_members(10)]
    socket_requires_lines [OF names(5,4) unit_keys_members(15)]
  have b3: "?D (Inr (writeResourceLimits env l))" "?D (Inr (writeGPUDevice l))"
    "?D (Inr (if b then writePublishPorts (c_ports ?c) else []))"
    "?D (if b then network_part ?p (cr_podName r) (cr_serviceAliases r) (cr_networks r) else Inr [])"
    for l b
    using names(5) ports by (simp_all add: writeResourceLimits_lines writeGPUDevice_lines
      writePublishPorts_lines network_part_lines [OF _ unit_keys_members(11)] del: insert_subset)
  have tail: "seg_unit unit_keys [''[Service]'', ''[Install]''] (render
      [Inr (restart_part (ps_restartPolicy (pod_spec ?p))),
       Inr (ln [] @ ln ''[Install]'' @ ln ''WantedBy=default.target'')])"
    by (intro seg_unit_head restart_part_file install_part_file unit_keys_plain seg_unit_Nil
        unit_keys_members)
  note sec = seg_unit_section [OF unit_keys_plain]
  note solve = list.pred_inject simp_thms image_lines health_unit b1 b2 b3
  show ?thesis
    unfolding renderContainer_def Let_def
    by (rule sec [where xs = "[_,_,_,_,_,_,_,_,_,_,_,_,_,_,_,_,_]", simplified append.simps],
        rule container_header, simp only: solve,
        rule sec [where xs = "[_,_,_]", simplified append.simps],
        rule unit_header, simp only: solve, rule tail)
qed

text \<open>The .pod unit: one section, its container list among the labels.\<close>

lemma pod_ports_clean:
  "input_clean env cd pm p \<Longrightarrow> c \<in> set (ps_containers (pod_spec p)) \<Longrightarrow> ports_clean (c_ports c)"
  by (auto simp: input_clean_def list_all_iff)

lemma renderPod_unit:
  assumes clean: "input_clean env configDir pvcMap p"
    and names: "newline \<notin> set name" "newline \<notin> set (o_namespace p)"
      "\<forall>c \<in> set (ps_containers (pod_spec p)). newline \<notin> set (c_name c)"
  shows "seg_unit unit_keys [''[Pod]''] (renderPod name p services networks)"
proof -
  let ?D = "seg_lines (directive unit_keys)"
  have meta: "meta_clean p" using clean by (simp add: input_clean_def)
  have cnames: "newline \<notin> set (Join (map c_name (ps_containers (pod_spec p))) '','')"
    by (rule Join_newline) (use names(3) in auto)
  have b: "?D (Inr (ln (''PodName='' @ o_namespace p @ ''-'' @ name)))"
    "?D (Inr (case podShmSize p of Some n \<Rightarrow> ln (''ShmSize='' @ Itoa n) | None \<Rightarrow> []))"
    "?D (Inr (ln (''Label=q8s.io/containers='' @ Join (map c_name (ps_containers (pod_spec p))) '','')))"
    using names cnames
    by (auto simp: directive_def unit_keys_def split: option.split intro!: line_intros)
  have c: "?D (Inr (concat (map (\<lambda>c. writePublishPorts (c_ports c)) (ps_containers (pod_spec p)))))"
    by (intro seg_lines_IntInr lines_of_concat_map writePublishPorts_lines unit_keys_members
        pod_ports_clean [OF clean])
  have n: "?D (network_part p name services networks)" "?D (writePodLabels p [])"
    by (rule network_part_lines writePodLabels_lines; (intro names unit_keys_members meta)?; simp)+
  have h: "unit_file unit_keys [''[Pod]''] (ln ''[Pod]'')"
    by (rule unit_file_header) (simp_all add: is_header_def)
  note solve = list.pred_inject simp_thms b c n
  show ?thesis
    unfolding renderPod_def
    by (rule seg_unit_section [OF unit_keys_plain, where xs = "[_,_,_,_,_,_]" and ys = "[]",
            simplified append.simps],
        rule h, simp only: solve, rule seg_unit_Nil)
qed

text \<open>Job and cron job units.\<close>

lemma run_once_unit:
  assumes env: "newline \<notin> set configDir" "pvcs_clean pvcMap"
    and texts: "newline \<notin> set suffix" "newline \<notin> set label" "newline \<notin> set owner" "newline \<notin> set descr"
  shows "seg_unit unit_keys [''[Container]'', ''[Unit]'', ''[Service]'']
    (run_once_container env what suffix label ns name owner descr tmpl configDir pvcMap envFile)"
  unfolding run_once_container_def Let_def
proof (intro seg_unit_rbind)
  let ?D = "seg_lines (directive unit_keys)" and ?sp = "pt_spec tmpl"
  fix u v
  assume "validateRefName (what @ '' name'') name = Inr u" "validateRefName (what @ '' namespace'') ns = Inr v"
  then have nm: "newline \<notin> set name" "newline \<notin> set ns" by (auto simp: dns_label_newline)
  note [simp] = unit_keys_members
  show "seg_unit unit_keys [''[Container]'', ''[Unit]'', ''[Service]'']
    (case ps_containers ?sp of [] \<Rightarrow> Inl (OtherError (what @ '' has no containers''))
      | c # _ \<Rightarrow> rbind (render
           [Inr (ln ''[Container]''),
            rbind (validateImage (c_image c)) (\<lambda>_. Inr (writeImageAndPull c)),
            Inr (ln (''ContainerName='' @ ns @ ''-'' @ name @ suffix)),
            exec_line c,
            working_dir_line c,
            Inr (writeResourceLimits env (c_limits c)),
            env_file_line envFile,
            env_lines c,
            job_volumes ns configDir pvcMap ?sp,
            Inr (network_line ns ?sp),
            Inr (ln (''Label=io.kubernetes.'' @ label @ ''.name='' @ owner)),
            Inr (ln (''Label=io.kubernetes.pod.namespace='' @ ns)),
            Inr (ln ManagedByLabel),
            Inr (writeGPUDevice (c_limits c)),
            writeUlimits (pt_annotations tmpl),
            writeHealthCheck c,
            Inr (ln [] @ ln ''[Unit]''),
            Inr (ln (''Description='' @ descr @ '' '' @ ns @ ''/'' @ name)),
            Inr (ln ''Wants=q8s-api.service'' @ ln ''After=q8s-api.service''),
            Inr (ln [] @ ln ''[Service]'' @ ln ''Restart=no'')])
          (\<lambda>out. Inr (withTemplateHash env out)))"
  proof (cases "ps_containers ?sp")
    case (Cons c cs)
    have b1: "?D (Inr (ln (''ContainerName='' @ ns @ ''-'' @ name @ suffix)))"
      "?D (Inr (ln (''Label=io.kubernetes.'' @ label @ ''.name='' @ owner)))"
      "?D (Inr (ln (''Label=io.kubernetes.pod.namespace='' @ ns)))"
      "?D (Inr (ln (''Description='' @ descr @ '' '' @ ns @ ''/'' @ name)))"
      "?D (Inr (ln ''Wants=q8s-api.service'' @ ln ''After=q8s-api.service''))"
      "?D (Inr (network_line ns ?sp))" "?D (Inr (ln ManagedByLabel))"
      using nm texts
      by (auto simp: directive_def unit_keys_def intro!: line_intros network_line_lines ManagedBy_lines)
    have b2: "?D (exec_line c)" "?D (working_dir_line c)" "?D (writeUlimits a)"
      "?D (env_file_line f)" "?D (env_lines c)" "?D (Inr (writeResourceLimits env l))"
      "?D (Inr (writeGPUDevice l))" for a f l
      by (simp_all add: exec_line_lines working_dir_lines writeUlimits_lines env_file_lines
        env_lines_lines writeResourceLimits_lines writeGPUDevice_lines)
    have b3: "?D (job_volumes ns configDir pvcMap ?sp)"
      by (intro job_volumes_lines nm env unit_keys_members)
    have "unit_file unit_keys ([''[Service]''] @ []) ((ln [] @ ln ''[Service]'') @ ln ''Restart=no'')"
      by (intro unit_file_append header_after_blank unit_file_body [OF unit_keys_plain] line_intros)
        (simp_all add: is_header_def directive_def unit_keys_def)
    then have svc: "unit_file unit_keys [''[Service]''] (ln [] @ ln ''[Service]'' @ ln ''Restart=no'')" by simp
    note tail = seg_unit_head [OF svc seg_unit_Nil]
    note sec = seg_unit_section [OF unit_keys_plain]
    note solve = list.pred_inject simp_thms image_lines health_unit b1 b2 b3
    have "seg_unit unit_keys [''[Container]'', ''[Unit]'', ''[Service]''] (render
           [Inr (ln ''[Container]''),
            rbind (validateImage (c_image c)) (\<lambda>_. Inr (writeImageAndPull c)),
            Inr (ln (''ContainerName='' @ ns @ ''-'' @ name @ suffix)),
            exec_line c,
            working_dir_line c,
            Inr (writeResourceLimits env (c_limits c)),
            env_file_line envFile,
            env_lines c,
            job_volumes ns configDir pvcMap ?sp,
            Inr (network_line ns ?sp),
            Inr (ln (''Label=io.kubernetes.'' @ label @ ''.name='' @ owner)),
            Inr (ln (''Label=io.kubernetes.pod.namespace='' @ ns)),
            Inr (ln ManagedByLabel),
            Inr (writeGPUDevice (c_limits c)),
            writeUlimits (pt_annotations tmpl),
            writeHealthCheck c,
            Inr (ln [] @ ln ''[Unit]''),
            Inr (ln (''Description='' @ descr @ '' '' @ ns @ ''/'' @ name)),
            Inr (ln ''Wants=q8s-api.service'' @ ln ''After=q8s-api.service''),
            Inr (ln [] @ ln ''[Service]'' @ ln ''Restart=no'')])" (is "seg_unit _ _ ?r")
      by (rule sec [where xs = "[_,_,_,_,_,_,_,_,_,_,_,_,_,_,_]", simplified append.simps],
          rule container_header, simp only: solve,
          rule sec [where xs = "[_,_]", simplified append.simps],
          rule unit_header, simp only: solve, rule tail)
    then show ?thesis
      unfolding Cons list.case by (rule seg_unit_hash)
  qed (simp add: seg_unit_def)
qed

text \<open>The files of a multi-container pod.\<close>

lemma mput_new: "k \<notin> fst ` set m \<Longrightarrow> mput k v m = m @ [(k, v)]"
  by (induction m) auto

lemma container_files_result:
  assumes "container_files env mk podName cs files = Inr out" and "mwf files"
  shows "mwf out \<and>
    map fst out = map fst files @ map (\<lambda>c. podName @ ''-'' @ c_name c @ ''.container'') cs \<and>
    list_all (\<lambda>c. dns_label (c_name c)) cs \<and>
    (\<forall>f s. (f, s) \<in> set out \<longrightarrow> (f, s) \<in> set files \<or>
       (\<exists>c \<in> set cs. f = podName @ ''-'' @ c_name c @ ''.container'' \<and>
          (\<exists>t. renderContainer env (mk c) = Inr t \<and> s = withTemplateHash env t)))"
  using assms
proof (induction cs arbitrary: files)
  case (Cons c cs)
  let ?f = "podName @ ''-'' @ c_name c @ ''.container''"
  from Cons.prems(1) obtain t where c: "dns_label (c_name c)" and new: "mget files ?f = None"
    and t: "renderContainer env (mk c) = Inr t"
    and rest: "container_files env mk podName cs (mput ?f (withTemplateHash env t) files) = Inr out"
    by (auto simp: rbind_laws Let_def split: if_splits)
  have step: "mput ?f (withTemplateHash env t) files = files @ [(?f, withTemplateHash env t)]"
    using new by (intro mput_new) (simp add: map_of_not_key)
  have wf: "mwf (mput ?f (withTemplateHash env t) files)" using Cons.prems(2) by simp
  note IH = Cons.IH [OF rest wf, unfolded step]
  have "(f, s) \<in> set files \<or> (\<exists>c' \<in> set (c # cs). f = podName @ ''-'' @ c_name c' @ ''.container'' \<and>
          (\<exists>t. renderContainer env (mk c') = Inr t \<and> s = withTemplateHash env t))"
    if fs: "(f, s) \<in> set out" for f s
  proof -
    from IH fs consider "(f, s) \<in> set files" | "f = ?f" "s = withTemplateHash env t"
      | "\<exists>c' \<in> set cs. f = podName @ ''-'' @ c_name c' @ ''.container'' \<and>
          (\<exists>t. renderContainer env (mk c') = Inr t \<and> s = withTemplateHash env t)"
      by fastforce
    then show ?thesis using t by cases (blast, auto)
  qed
  then show ?case using IH c by simp
qed simp

text \<open>The files of a socket-activated pod.\<close>

lemma socket_keys_plain: "plain_keys socket_keys"
  by (simp add: plain_keys_def socket_keys_def is_header_def)

lemma socket_unit_file:
  assumes unit: "socket_unit ns podName e = Inr (f, s)" and ns: "newline \<notin> set ns" "newline \<notin> set podName"
  shows "f = ns @ ''-'' @ podName @ ''-'' @ se_name e @ ''.socket'' \<and>
    unit_file socket_keys [''[Unit]'', ''[Socket]'', ''[Install]''] s"
proof -
  from unit obtain addr where name: "newline \<notin> set (se_name e)" and addr: "newline \<notin> set addr"
    and f: "f = ns @ ''-'' @ podName @ ''-'' @ se_name e @ ''.socket''"
    and s: "s = ln ''[Unit]''
             @ (ln (''Description=q8s socket '' @ se_name e @ '' for pod '' @ ns @ ''/'' @ podName)
             @ ln (''X-Q8s-Namespace='' @ ns) @ ln (''X-Q8s-Pod='' @ podName))
             @ (ln [] @ ln ''[Socket]'')
             @ (ln (''ListenStream='' @ (if addr \<noteq> [] then JoinHostPort addr (Itoa (se_port e)) else Itoa (se_port e)))
             @ ln (''FileDescriptorName='' @ se_name e) @ ln (''Service='' @ ns @ ''-'' @ podName @ ''.service''))
             @ (ln [] @ ln ''[Install]'') @ ln ''WantedBy=sockets.target''"
    by (fastforce simp: socket_unit_def rbind_laws Let_def dest: socket_name_newline
        split: if_splits option.splits)
  have "unit_file socket_keys ([''[Unit]''] @ [] @ [''[Socket]''] @ [] @ [''[Install]''] @ []) s"
    unfolding s
    by (intro unit_file_append unit_file_header header_after_blank unit_file_body [OF socket_keys_plain]
        line_intros)
      (use name addr ns in \<open>auto simp: is_header_def directive_def socket_keys_def JoinHostPort_def\<close>)
  with f show ?thesis by simp
qed

lemma socket_units_result:
  assumes "socket_units ns podName files es = Inr out" and "mwf files"
    and "newline \<notin> set ns" "newline \<notin> set podName"
  shows "mwf out \<and>
    map fst out = map fst files @ map (\<lambda>e. ns @ ''-'' @ podName @ ''-'' @ se_name e @ ''.socket'') es \<and>
    (\<forall>f s. (f, s) \<in> set out \<longrightarrow> (f, s) \<in> set files \<or>
       unit_file socket_keys [''[Unit]'', ''[Socket]'', ''[Install]''] s)"
  using assms(1,2)
proof (induction es arbitrary: files)
  case (Cons e es)
  let ?f = "ns @ ''-'' @ podName @ ''-'' @ se_name e @ ''.socket''"
  from Cons.prems(1) obtain f s where u: "socket_unit ns podName e = Inr (f, s)"
    and new: "mget files f = None" and rest: "socket_units ns podName (mput f s files) es = Inr out"
    by (auto simp: rbind_laws split: if_splits)
  note us = socket_unit_file [OF u assms(3,4)]
  have step: "mput f s files = files @ [(f, s)]"
    using new by (intro mput_new) (simp add: map_of_not_key)
  have wf: "mwf (mput f s files)" using Cons.prems(2) by simp
  note IH = Cons.IH [OF rest wf, unfolded step]
  then show ?case using us by auto
qed simp

end
