(* ===== verification/QuadletDemo.thy ===== *)
theory QuadletDemo
  imports UnitSafety
begin

text \<open>
  A small pod, its environment and the evaluation of the renderers on it: the concrete inputs at
  which the properties of the unit generator are applied.
\<close>

definition demo_env :: gen_env where
  "demo_env = \<lparr>ge_memory = True, ge_cpu = True, ge_sha256 = (\<lambda>s. [length s, 7]),
     ge_qualifiedName = (\<lambda>k. if newline \<in> set k then [''bad''] else [])\<rparr>"

definition demo_meta :: "string \<Rightarrow> objmeta" where
  "demo_meta name =
     \<lparr>om_name = name, om_namespace = ''b'', om_uid = [], om_resourceVersion = [], om_generation = 0,
      om_creationTimestamp = None, om_labels = None, om_annotations = None,
      om_ownerReferences = [], om_rest = []\<rparr>"

definition demo_container :: container where
  "demo_container = \<lparr>c_name = ''c'', c_image = ''i'', c_command = [''x y''], c_args = [''z''],
     c_workingDir = [], c_ports = [\<lparr>cp_name = [], cp_hostPort = 80, cp_containerPort = 8,
       cp_protocol = ''TCP'', cp_hostIP = []\<rparr>],
     c_env = [\<lparr>env_name = ''K'', env_value = ''50%'', env_valueFrom = None\<rparr>],
     c_envFrom = [], c_volumeMounts = [],
     c_limits = \<lparr>lim_memory = None, lim_cpuMilli = None, lim_gpu = None\<rparr>,
     c_livenessProbe = None, c_readinessProbe = None, c_startupProbe = None,
     c_imagePullPolicy = ''Always'', c_runAsUser = None, c_rest = []\<rparr>"

definition demo_spec :: podspec where
  "demo_spec = \<lparr>ps_containers = [demo_container], ps_initContainers = [],
     ps_ephemeralContainers = 0, ps_volumes = [], ps_hostNetwork = False,
     ps_restartPolicy = ''Always'', ps_rest = []\<rparr>"

definition demo_pod :: pod where
  "demo_pod = \<lparr>o_apiVersion = ''v1'', o_kind = ''Pod'', o_meta = demo_meta ''a'',
     pod_spec = demo_spec, pod_status = \<lparr>pst_phase = [], pst_containerStatuses = [], pst_rest = []\<rparr>\<rparr>"

lemmas demo_defs = demo_env_def demo_meta_def demo_container_def demo_spec_def demo_pod_def

lemma demo_names [simp]:
  "validateRefName what ''a'' = Inr ()" "validateRefName what ''b'' = Inr ()"
  "validateRefName what ''c'' = Inr ()"
  by (simp_all add: validateRefName_Inr dns_label_def byte_classes)

lemma demo_image [simp]: "validateImage ''i'' = Inr ()"
  by (simp add: validateImage_def imageRE_def re_match_Seq_Cls re_match_Star_Cls byte_classes)

lemma demo_envName [simp]: "validateEnvName ''K'' = Inr ()"
  by (simp add: validateEnvName_def envNameRE_def re_match_Seq_Cls re_match_Star_Cls byte_classes)

lemma demo_env_line: "\<exists>s. envLine ''K'' ''50%'' = Inr s"
  by (simp add: envLine_def unitAssignmentLine_def is_control_def needs_quote_def split: option.split)

lemma isOk_render: "isOk (render xs) \<longleftrightarrow> list_all isOk xs"
  by (induction xs) (auto simp: isOk_iff rbind_laws)

lemma demo_container_ok:
  "isOk (exec_line demo_container)" "isOk (env_lines demo_container)" "isOk (working_dir_line demo_container)"
  "isOk (writeHealthCheck demo_container)" "c_image demo_container = ''i''" "c_name demo_container = ''c''"
  using demo_env_line
  by (auto simp: exec_line_def demo_container_def noControlChars_def Let_def env_lines_def isOk_render
    working_dir_line_def writeHealthCheck_def ValidateProbes_def isOk_iff)

lemma demo_pod_fields [simp]:
  "o_namespace demo_pod = ''b''" "o_name demo_pod = ''a''" "pod_spec demo_pod = demo_spec"
  "om_annotations (o_meta demo_pod) = None" "om_labels (o_meta demo_pod) = None"
  "om_ownerReferences (o_meta demo_pod) = []" "ps_containers demo_spec = [demo_container]"
  "ps_volumes demo_spec = []" "\<not> ps_hostNetwork demo_spec" "ps_restartPolicy demo_spec = ''Always''"
  by (simp_all add: demo_pod_def demo_meta_def demo_spec_def)

lemmas demo_render = isOk_render demo_container_ok Let_def writeUlimits_def lget_def lmap_def env_file_line_def
  writeContainerVolumes_def network_part_def writeNetworks_def networkAliases_def
  writePodLabels_def writeTemplateAnnotations_def socket_requires_def ParseSocketActivation_def

lemma demo_renderContainer:
  "cr_pod r = demo_pod \<Longrightarrow> cr_container r = demo_container \<Longrightarrow> cr_envFile r = [] \<Longrightarrow>
    cr_podName r = ''a'' \<Longrightarrow> cr_serviceAliases r = [] \<Longrightarrow> cr_networks r = [] \<Longrightarrow>
    isOk (renderContainer demo_env r)"
  by (simp add: renderContainer_def demo_render del: isOk_rbind render.simps)

lemma demo_rendered [simp]:
  "\<exists>s. renderContainer demo_env \<lparr>cr_pod = demo_pod, cr_container = demo_container, cr_containerName = n,
     cr_podUnit = u, cr_containerLabel = l, cr_podName = ''a'', cr_configDir = d, cr_serviceAliases = [],
     cr_networks = [], cr_pvcMap = m, cr_envFile = [], cr_standalone = b\<rparr> = Inr s"
  using demo_renderContainer by (simp add: isOk_iff)

lemma demo_Container: "\<exists>s. Container demo_env ''a'' demo_pod [] [] [] [] [] = Inr s"
  by (simp add: Container_def rbind_laws)

lemma demo_PodUnits: "\<exists>s. PodUnits demo_env ''a'' demo_pod [] [] [] [] [] = Inr s"
proof -
  have "isOk (renderPod ''a'' demo_pod [] [])"
    by (simp add: renderPod_def demo_render del: isOk_rbind render.simps)
  then show ?thesis
    by (auto simp: PodUnits_def isOk_iff lget_def Let_def demo_container_ok rbind_laws)
qed

text \<open>A job of the same template.\<close>

definition demo_template :: pod_template where
  "demo_template = \<lparr>pt_labels = None, pt_annotations = None, pt_spec = demo_spec\<rparr>"

lemma demo_job: "\<exists>s. run_once_container demo_env what suffix l ''b'' ''a'' ow d demo_template [] [] [] = Inr s"
  using demo_container_ok
  by (auto simp: run_once_container_def demo_template_def demo_render job_volumes_def rbind_laws isOk_iff)

lemma demo_clean: "input_clean demo_env [] [] demo_pod"
  by (simp add: input_clean_def qualified_clean_def demo_env_def pvcs_clean_def meta_clean_def
      ports_clean_def demo_container_def)

end
