(* ===== verification/QuadletProperties.thy ===== *)
theory QuadletProperties
  imports QuadletDemo
begin

text \<open>
  The properties of the unit generator: what a unit file contains whatever the objects hold,
  the round trips of its encodings, and the guarantees of the socket-activation annotation.
\<close>

section \<open>No unit line comes from a value\<close>

text \<open>
  C4: The .container unit of a pod has exactly the four sections the generator opens, in its
  order, and every other line is blank or assigns one of the generator's own keys: no image,
  command, path, environment value, mount, label, annotation, probe or socket name of a pod can
  add a section or a directive.  What the generator does not validate itself is assumed free of
  line breaks (input_clean): object and owner names, the configuration directory, annotation keys
  that IsQualifiedName accepts, and the host IPs of the ports.  Host IPs are not checked anywhere, so for
  them the assumption is a real restriction: one with a line break does add a directive
  (host_ip_injects).
\<close>

theorem container_unit_safe:
  assumes "Container env name p configDir aliases pvcMap envFile networks = Inr s"
    and "input_clean env configDir pvcMap p"
  shows "unit_file unit_keys [''[Container]'', ''[Unit]'', ''[Service]'', ''[Install]''] s"
proof -
  from assms(1) obtain c cs out where names: "dns_label name" "dns_label (o_namespace p)"
    and c: "ps_containers (pod_spec p) = c # cs"
    and out: "renderContainer env
           \<lparr>cr_pod = p, cr_container = c, cr_containerName = o_namespace p @ ''-'' @ name,
            cr_podUnit = [], cr_containerLabel = [], cr_podName = name, cr_configDir = configDir,
            cr_serviceAliases = aliases, cr_networks = networks, cr_pvcMap = pvcMap,
            cr_envFile = envFile, cr_standalone = True\<rparr> = Inr out" (is "renderContainer env ?r = _")
    and s: "s = withTemplateHash env out"
    by (auto simp: Container_def rbind_laws split: list.splits)
  have "render_names_clean ?r" using names by (auto simp: render_names_clean_def dns_label_newline)
  then have "seg_unit unit_keys [''[Container]'', ''[Unit]'', ''[Service]'', ''[Install]''] (renderContainer env ?r)"
    using assms(2) pod_ports_clean [OF assms(2), of c] c by (intro renderContainer_unit) simp_all
  then show ?thesis
    unfolding s using out by (simp add: seg_unit_def unit_file_hash unit_keys_members unit_keys_plain)
qed

theorem container_unit_safe_witness:
  "\<exists>s. Container demo_env ''a'' demo_pod [] [] [] [] [] = Inr s \<and>
     unit_file unit_keys [''[Container]'', ''[Unit]'', ''[Service]'', ''[Install]''] s"
  using demo_Container container_unit_safe [OF _ demo_clean] by blast

text \<open>
  The .container units of jobs and cron jobs have exactly the sections Container, Unit and
  Service, and every other line is blank or assigns one of the generator's keys.
\<close>

lemma run_once_units_safe:
  assumes "newline \<notin> set configDir" "pvcs_clean pvcMap" "newline \<notin> set (o_name j)" "newline \<notin> set (o_name cj)"
  shows "seg_unit unit_keys [''[Container]'', ''[Unit]'', ''[Service]''] (JobContainer env name j configDir pvcMap envFile) \<and>
    seg_unit unit_keys [''[Container]'', ''[Unit]'', ''[Service]''] (CronContainer env name cj configDir pvcMap envFile)"
  unfolding JobContainer_def CronContainer_def
  by (rule conjI; rule run_once_unit [OF assms(1,2)]; use assms(3,4) in simp)

lemma run_once_units_safe_witness:
  "\<exists>s. JobContainer demo_env ''a'' \<lparr>o_apiVersion = [], o_kind = [], o_meta = demo_meta ''a'',
      job_template = demo_template, job_active = 0, job_succeeded = 0, job_failed = 0, job_rest = []\<rparr>
      [] [] [] = Inr s \<and> unit_file unit_keys [''[Container]'', ''[Unit]'', ''[Service]''] s"
proof -
  let ?j = "\<lparr>o_apiVersion = [], o_kind = [], o_meta = demo_meta ''a'', job_template = demo_template,
    job_active = 0, job_succeeded = 0, job_failed = 0, job_rest = []\<rparr>"
  let ?cj = "\<lparr>o_apiVersion = [], o_kind = [], o_meta = demo_meta ''a'', cj_schedule = [],
    cj_template = demo_template, cj_rest = []\<rparr>"
  obtain s where "JobContainer demo_env ''a'' ?j [] [] [] = Inr s"
    using demo_job [of "''job''" "''-job''" "''job''" "''a''" "''Job''"]
    by (auto simp: JobContainer_def demo_meta_def)
  with run_once_units_safe [of "[]" "[]" ?j ?cj demo_env "''a''" "[]"] show ?thesis
    by (auto simp: seg_unit_def pvcs_clean_def demo_meta_def)
qed

text \<open>
  C13: A multi-container pod becomes one .pod file and one .container file per container, under
  names that differ; the .pod file has the one section Pod, every .container file the four
  sections of a container, and all other lines are blank or assign one of the generator's keys.  As
  for a single container, what the generator does not validate is assumed free of line breaks
  (input_clean), host IPs included.
\<close>

theorem pod_units_safe:
  assumes "PodUnits env name p configDir aliases pvcMap envFile networks = Inr files"
    and "input_clean env configDir pvcMap p"
  shows "mwf files \<and>
    map fst files = (o_namespace p @ ''-'' @ name @ ''.pod'') #
      map (\<lambda>c. o_namespace p @ ''-'' @ name @ ''-'' @ c_name c @ ''.container'') (ps_containers (pod_spec p)) \<and>
    (\<forall>(f, s) \<in> set files. unit_file unit_keys
       (if f = o_namespace p @ ''-'' @ name @ ''.pod'' then [''[Pod]'']
        else [''[Container]'', ''[Unit]'', ''[Service]'', ''[Install]'']) s)"
proof -
  let ?n = "o_namespace p @ ''-'' @ name" and ?H = "[''[Container]'', ''[Unit]'', ''[Service]'', ''[Install]'']"
  define mk where "mk = (\<lambda>c. \<lparr>cr_pod = p, cr_container = c, cr_containerName = ?n @ ''-'' @ c_name c,
            cr_podUnit = ?n @ ''.pod'', cr_containerLabel = c_name c, cr_podName = name,
            cr_configDir = configDir, cr_serviceAliases = aliases, cr_networks = networks,
            cr_pvcMap = pvcMap, cr_envFile = envFile, cr_standalone = False\<rparr>)"
  from assms(1) obtain out where names: "dns_label name" "dns_label (o_namespace p)"
    and out: "renderPod name p aliases networks = Inr out"
    and files: "container_files env mk ?n (ps_containers (pod_spec p))
      [(?n @ ''.pod'', withTemplateHash env out)] = Inr files"
    by (auto simp: PodUnits_def rbind_laws Let_def mk_def split: if_splits)
  have one: "mwf [(f, s)]" for f s :: string by (simp add: mwf_def)
  note res = container_files_result [OF files one]
  have wf: "mwf files" and fs: "map fst files = (?n @ ''.pod'') #
      map (\<lambda>c. ?n @ ''-'' @ c_name c @ ''.container'') (ps_containers (pod_spec p))"
    and cn: "\<forall>c \<in> set (ps_containers (pod_spec p)). dns_label (c_name c)"
    using res by (simp_all add: list_all_iff)
  have "unit_file unit_keys [''[Pod]''] out"
    using renderPod_unit [OF assms(2), of name aliases networks] names cn out
    by (simp add: seg_unit_def dns_label_newline)
  then have pod: "unit_file unit_keys [''[Pod]''] (withTemplateHash env out)"
    by (rule unit_file_hash) (rule unit_keys_members unit_keys_plain)+
  have cont: "unit_file unit_keys ?H (withTemplateHash env t)"
    if "c \<in> set (ps_containers (pod_spec p))" "renderContainer env (mk c) = Inr t" for c t
  proof -
    have "render_names_clean (mk c)"
      using names cn that(1) by (auto simp: render_names_clean_def mk_def dns_label_newline)
    then have "seg_unit unit_keys ?H (renderContainer env (mk c))"
      using assms(2) pod_ports_clean [OF assms(2) that(1)]
      by (intro renderContainer_unit) (simp_all add: mk_def)
    with that(2) show ?thesis by (simp add: seg_unit_def unit_file_hash unit_keys_members unit_keys_plain)
  qed
  have "unit_file unit_keys (if f = ?n @ ''.pod'' then [''[Pod]''] else ?H) s" if "(f, s) \<in> set files" for f s
  proof -
    from that res have "(f, s) = (?n @ ''.pod'', withTemplateHash env out) \<or>
      (\<exists>c \<in> set (ps_containers (pod_spec p)). f = ?n @ ''-'' @ c_name c @ ''.container'' \<and>
         (\<exists>t. renderContainer env (mk c) = Inr t \<and> s = withTemplateHash env t))"
      by simp
    then show ?thesis using pod cont by auto
  qed
  with wf fs show ?thesis unfolding append_assoc by blast
qed

theorem pod_units_safe_witness:
  "\<exists>files. PodUnits demo_env ''a'' demo_pod [] [] [] [] [] = Inr files \<and>
     map fst files = [''b-a.pod'', ''b-a-c.container'']"
  using demo_PodUnits pod_units_safe [OF _ demo_clean] by (fastforce simp: demo_container_ok)

text \<open>
  The host IP of a published port is the exception: it is written as the client sent it, so
  a line break in it puts a directive of the client's choice into the unit.
\<close>

lemma host_ip_injects:
  "writePublishPorts [\<lparr>cp_name = [], cp_hostPort = 80, cp_containerPort = 8, cp_protocol = ''TCP'',
     cp_hostIP = ''1.1.1.1:1:1'' @ nl @ ''PodmanArgs=--privileged'' @ nl @ ''PublishPort=1.1.1.1''\<rparr>] =
   unit_lines [''PublishPort=1.1.1.1:1:1'', ''PodmanArgs=--privileged'', ''PublishPort=1.1.1.1:80:8/tcp'']"
proof -
  have "bcode (CHR ''0'') = 48" "bcode (CHR ''8'') = 56" by simp_all
  then have "bchr 48 = CHR ''0''" "bchr 56 = CHR ''8''" by (metis char_of_char)+
  then show ?thesis
    by (simp add: writePublishPorts_def publish_port_line_def unit_lines_def ln_def Itoa_def
        itoa_nat.simps)
qed

section \<open>Round trips\<close>

text \<open>
  C40: Decoding an accepted Environment= or Annotation= line by the quoting rules of the unit
  syntax gives back exactly the name and the value, for every valid UTF-8 value: spaces, quotes,
  backslashes, percent signs and, in annotations, line breaks and other control characters.
\<close>

theorem assignment_line_roundtrip:
  assumes "plain_name name" and "valid_utf8 v"
  shows "(case envLine name v of
      Inl _ \<Rightarrow> find is_control (runes v) \<noteq> None
    | Inr l \<Rightarrow> parse_assignment ''Environment'' l = (name, v)) \<and>
    (\<exists>l. unitAssignmentLine ''Annotation'' name v True = Inr l \<and>
      parse_assignment ''Annotation'' l = (name, v))"
proof -
  obtain l where l: "unitAssignmentLine ''Annotation'' name v True = Inr l"
    by (cases "list_ex (needs_quote True) (runes v)") (simp_all add: unitAssignmentLine_def)
  moreover have "find is_control (runes v) \<noteq> None" if "envLine name v = Inl e" for e
    using that by (auto simp: envLine_def unitAssignmentLine_def split: option.splits if_splits)
  ultimately show ?thesis
    using parse_unitAssignmentLine [OF _ assms] by (auto simp: envLine_def split: sum.split)
qed

theorem assignment_line_roundtrip_witness:
  "\<exists>l. unitAssignmentLine ''Annotation'' ''k'' (''a'' @ nl @ ''b'') True = Inr l \<and>
      parse_assignment ''Annotation'' l = (''k'', ''a'' @ nl @ ''b'')"
proof -
  have "plain_name ''k''" by (simp add: plain_name_def plain_byte_def backslash_def dquote_def)
  moreover have "valid_utf8 (''a'' @ nl @ ''b'')"
    by (simp add: valid_utf8_def)
  ultimately show ?thesis using assignment_line_roundtrip by blast
qed

text \<open>
  The health check line of an exec probe carries the probe's command unchanged: undoing the
  doubled percent signs and decoding the JSON array gives CMD followed by the command, so
  podman runs exactly the argv of the manifest.
\<close>

lemma exec_probe_roundtrip:
  assumes "execProbeHealthCmd k cmd = Inr s" and "healthCmdLine d s = Inr line"
    and "\<forall>a \<in> set cmd. valid_utf8 a"
  shows "\<exists>text. line = d @ ''='' @ text @ nl \<and> newline \<notin> set text \<and>
    json_args (undouble text) = Some (''CMD'' # cmd)"
proof -
  from assms(1) have s: "s = jsonExecCommand (''CMD'' # cmd)"
    by (auto simp: execProbeHealthCmd_def split: if_splits sum.splits)
  from assms(2) have line: "line = d @ ''='' @ ReplaceByte s (CHR ''%'') ''%%'' @ nl" and "newline \<notin> set s"
    by (auto simp: healthCmdLine_def rbind_laws noControlChars_Inr ln_def)
  then have "newline \<notin> set (ReplaceByte s (CHR ''%'') ''%%'')" by (auto simp: ReplaceByte_newline)
  moreover have "valid_utf8 ''CMD''" by (simp add: valid_utf8_def)
  then have "json_args s = Some (''CMD'' # cmd)"
    unfolding s using assms(3) by (intro json_args_command) auto
  ultimately show ?thesis using line by (auto simp: undouble_ReplaceByte)
qed

lemma exec_probe_roundtrip_witness:
  "\<exists>text line. execProbeHealthCmd ''livenessProbe'' [''t'', ''%''] = Inr (jsonExecCommand [''CMD'', ''t'', ''%'']) \<and>
     line = ''HealthCmd='' @ text @ nl \<and> json_args (undouble text) = Some [''CMD'', ''t'', ''%'']"
proof -
  have c: "execProbeHealthCmd ''livenessProbe'' [''t'', ''%''] = Inr (jsonExecCommand [''CMD'', ''t'', ''%''])"
    by (simp add: execProbeHealthCmd_def noControlChars_def)
  have v: "\<forall>a \<in> set [''t'', ''%'']. valid_utf8 a" by (simp add: valid_utf8_def)
  obtain line where l: "healthCmdLine ''HealthCmd'' (jsonExecCommand [''CMD'', ''t'', ''%'']) = Inr line"
    by (simp add: healthCmdLine_def jsonExecCommand_def json_string_def json_rune_def noControlChars_def
      dquote_def)
  from exec_probe_roundtrip [OF c l v] c show ?thesis by auto
qed

section \<open>Socket activation\<close>

text \<open>
  An accepted socket-activation annotation names every socket once, with a file descriptor
  name systemd takes and a port between 1 and 65535; no two entries listen on the same address
  and port, and none on a host port that a container of the pod publishes.
\<close>

lemma socket_activation_sound:
  assumes "ValidateSocketActivation p = Inr ()"
  shows "\<exists>es. ParseSocketActivation (om_annotations (o_meta p)) = Inr es \<and>
    list_all (\<lambda>e. socket_name_ok (se_name e) \<and> 1 \<le> se_port e \<and> se_port e \<le> 65535 \<and>
      (\<forall>c \<in> set (ps_initContainers (pod_spec p) @ ps_containers (pod_spec p)).
         \<forall>cp \<in> set (c_ports c). cp_hostPort cp \<noteq> se_port e)) es \<and>
    distinct (map se_name es) \<and> distinct (map (\<lambda>e. (se_addr e, se_port e)) es)"
proof -
  from assms obtain es where es: "ParseSocketActivation (om_annotations (o_meta p)) = Inr es"
    and free: "\<forall>e \<in> set es. se_port e \<notin> set (host_ports (pod_spec p))"
    by (auto simp: ValidateSocketActivation_def rbind_laws check_all_Inr split: if_splits)
  have "list_all entry_ok es \<and> distinct (map se_name es) \<and> distinct (map (\<lambda>e. (se_addr e, se_port e)) es)"
    using es parse_items_ok by (auto simp: ParseSocketActivation_def split: option.splits)
  moreover have "cp_hostPort cp \<noteq> se_port e" if "e \<in> set es" "c \<in> set (ps_initContainers (pod_spec p) @ ps_containers (pod_spec p))"
    "cp \<in> set (c_ports c)" for e c cp
  proof
    assume eq: "cp_hostPort cp = se_port e"
    have "1 \<le> se_port e" using calculation that(1) by (auto simp: list_all_iff entry_ok_def)
    with eq have "cp_hostPort cp \<noteq> 0" by simp
    with that(2,3) have "cp_hostPort cp \<in> set (host_ports (pod_spec p))"
      unfolding host_ports_def by auto
    with eq have "se_port e \<in> set (host_ports (pod_spec p))" by simp
    with free that(1) show False by blast
  qed
  ultimately show ?thesis
    using es by (auto simp: list_all_iff entry_ok_def)
qed

lemma socket_activation_sound_witness:
  "\<exists>es. ParseSocketActivation (om_annotations (o_meta demo_pod)) = Inr es \<and> distinct (map se_name es)"
proof -
  have "ValidateSocketActivation demo_pod = Inr ()"
    by (simp add: ValidateSocketActivation_def ParseSocketActivation_def lget_def)
  from socket_activation_sound [OF this] show ?thesis by blast
qed

text \<open>
  The .socket files have one file per entry under differing names, each with exactly the
  sections Unit, Socket and Install and only the generator's own keys.
\<close>

lemma socket_units_safe:
  assumes "SocketUnits ns podName entries = Inr files"
  shows "mwf files \<and>
    map fst files = map (\<lambda>e. ns @ ''-'' @ podName @ ''-'' @ se_name e @ ''.socket'') entries \<and>
    list_all (\<lambda>(f, s). unit_file socket_keys [''[Unit]'', ''[Socket]'', ''[Install]''] s) files"
proof -
  from assms have ns: "newline \<notin> set ns" "newline \<notin> set podName"
    and u: "socket_units ns podName [] entries = Inr files"
    by (auto simp: SocketUnits_def rbind_laws dns_label_newline elim!: ref_seg.elims)
  from socket_units_result [OF u mwf_Nil ns] show ?thesis by (auto simp: list_all_iff)
qed

lemma socket_units_safe_witness:
  "\<exists>files. SocketUnits ''b'' ''a'' [\<lparr>se_name = ''w'', se_addr = [], se_port = 80\<rparr>] = Inr files \<and>
     map fst files = [''b-a-w.socket'']"
proof -
  have "socket_name_ok ''w''"
    by (simp add: socket_name_ok_def maxSocketName_def socketNameRE_def re_match_Seq_Cls
        re_match_Star_Cls byte_classes)
  then obtain files where f: "SocketUnits ''b'' ''a'' [\<lparr>se_name = ''w'', se_addr = [], se_port = 80\<rparr>] = Inr files"
    by (simp add: SocketUnits_def socket_unit_def Let_def)
  from socket_units_safe [OF f] f show ?thesis by simp
qed

end
