(* ===== verification/Cron.thy ===== *)
theory Cron
  imports UnitSafety
begin

text \<open>
  The cron schedules of internal/quadlet/validate.go (\<open>validateCronSchedule\<close>,
  \<open>expandCronField\<close>) and their translation into systemd timers in
  internal/quadlet/generator.go (\<open>cronToCalendars\<close>, \<open>CronTimer\<close>).  Go's \<open>int\<close> has 64 bits;
  the counting loop of \<open>expandCronField\<close> is a partial function over wrapping integers, so that
  returning at all is something to prove.
\<close>

section \<open>Fields\<close>

datatype cron_error =
    EmptyField
  | InvalidStep string
  | InvalidRange string
  | InvalidValue string
  | OutsideRange string int int
  | DescendingRange string
  | NotFiveFields string
  | InvalidField string

definition wrap64 :: "int \<Rightarrow> int" where
  "wrap64 v = (v + 2 ^ 63) mod 2 ^ 64 - 2 ^ 63"

text \<open>\<open>for v := lo; v <= hi; v += step\<close>; \<open>None\<close> means that the loop does not end.\<close>

partial_function (option) cron_loop :: "int \<Rightarrow> int \<Rightarrow> int \<Rightarrow> int list option" where
  "cron_loop v hi step =
     (if v \<le> hi then Option.bind (cron_loop (wrap64 (v + step)) hi step) (\<lambda>vs. Some (v # vs))
      else Some [])"

text \<open>One element of the list: its bounds and step.\<close>

definition cron_step :: "string \<Rightarrow> cron_error + int \<times> bool \<times> string" where
  "cron_step part =
     (case IndexByte part (CHR ''/'') of
        None \<Rightarrow> Inr (1, False, part)
      | Some i \<Rightarrow>
          (case Atoi (drop (i + 1) part) of
             None \<Rightarrow> Inl (InvalidStep part)
           | Some s \<Rightarrow> if s < 1 then Inl (InvalidStep part) else Inr (s, True, take i part)))"

definition cron_bounds :: "int \<Rightarrow> int \<Rightarrow> bool \<Rightarrow> string \<Rightarrow> cron_error + int \<times> int" where
  "cron_bounds mn mx hasStep part =
     (if part = ''*'' then Inr (mn, mx)
      else case Cut part (CHR ''-'') of (a, b, found) \<Rightarrow>
        if found then
          (case Atoi a of None \<Rightarrow> Inl (InvalidRange part) | Some lo \<Rightarrow>
           (case Atoi b of None \<Rightarrow> Inl (InvalidRange part) | Some hi \<Rightarrow> Inr (lo, hi)))
        else
          (case Atoi part of None \<Rightarrow> Inl (InvalidValue part)
           | Some v \<Rightarrow> Inr (v, if hasStep then mx else v)))"

definition cron_part :: "int \<Rightarrow> int \<Rightarrow> string \<Rightarrow> cron_error + int \<times> int \<times> int" where
  "cron_part mn mx part0 =
     rbind (cron_step part0) (\<lambda>(step, hasStep, part).
     rbind (cron_bounds mn mx hasStep part) (\<lambda>(lo, hi).
     if lo < mn \<or> hi > mx then Inl (OutsideRange part mn mx)
     else if lo > hi then Inl (DescendingRange part)
     else Inr (lo, hi, step)))"

fun cron_parts :: "int \<Rightarrow> int \<Rightarrow> string list \<Rightarrow> int list \<Rightarrow> (cron_error + int list) option" where
  "cron_parts mn mx [] out = Some (Inr out)"
| "cron_parts mn mx (part # parts) out =
     (case cron_part mn mx part of
        Inl e \<Rightarrow> Some (Inl e)
      | Inr (lo, hi, step) \<Rightarrow>
          Option.bind (cron_loop lo hi step) (\<lambda>vs. cron_parts mn mx parts (out @ vs)))"

definition expandCronField :: "string \<Rightarrow> int \<Rightarrow> int \<Rightarrow> (cron_error + int list) option" where
  "expandCronField f mn mx =
     (if f = [] then Some (Inl EmptyField) else cron_parts mn mx (Split f (CHR '','')) [])"

definition cron_byte :: "char \<Rightarrow> bool" where
  "cron_byte c \<longleftrightarrow> is_digit c \<or> one_of ''*/,-'' c"

definition cronFieldRE :: re where
  "cronFieldRE = Plus (Cls cron_byte)"

definition cronFieldBounds :: "(int \<times> int) list" where
  "cronFieldBounds = [(0, 59), (0, 23), (1, 31), (1, 12), (0, 7)]"

fun cron_fields :: "(string \<times> int \<times> int) list \<Rightarrow> (cron_error + unit) option" where
  "cron_fields [] = Some (Inr ())"
| "cron_fields ((f, mn, mx) # fs) =
     (if \<not> re_match cronFieldRE f then Some (Inl (InvalidField f))
      else Option.bind (expandCronField f mn mx) (\<lambda>r.
        case r of Inl e \<Rightarrow> Some (Inl e) | Inr _ \<Rightarrow> cron_fields fs))"

definition validateCronSchedule :: "string \<Rightarrow> (cron_error + unit) option" where
  "validateCronSchedule schedule =
     (let fields = Fields schedule in
      if length fields \<noteq> 5 then Some (Inl (NotFiveFields schedule))
      else cron_fields (zip fields cronFieldBounds))"

section \<open>Calendars\<close>

definition step0 :: "string \<Rightarrow> string" where
  "step0 f =
     (if f = ''*'' \<or> f = ''*/1'' then ''*''
      else if HasPrefix f ''*/'' then ''0/'' @ drop 2 f
      else f)"

text \<open>The closure \<open>list\<close>; an error keeps the field, a diverging expansion is \<open>None\<close>.\<close>

definition list_field :: "string \<Rightarrow> int \<Rightarrow> int \<Rightarrow> string option" where
  "list_field f mn mx =
     (if f = ''*'' then Some ''*''
      else Option.bind (expandCronField f mn mx) (\<lambda>r.
        case r of Inl _ \<Rightarrow> Some f | Inr vals \<Rightarrow> Some (Join (map Itoa vals) '','')))"

definition dow_set :: "int list \<Rightarrow> int list" where
  "dow_set days = remdups (map (\<lambda>d. if d = 0 then 7 else d) days)"

definition dow_spec :: "string \<Rightarrow> string option" where
  "dow_spec dow =
     Option.bind (expandCronField dow 0 7) (\<lambda>r.
       case r of
         Inl _ \<Rightarrow> Some []
       | Inr days \<Rightarrow>
           (let ds = dow_set days in
            if length ds < 7
            then Some (Join (map Itoa (filter (\<lambda>d. d \<in> set ds) [1, 2, 3, 4, 5, 6, 7])) '','')
            else Some []))"

definition cronToCalendars :: "string \<Rightarrow> string list option" where
  "cronToCalendars cron =
     (case Fields cron of
        [minute, hour, mday, month, dow] \<Rightarrow>
          (let timeSpec = step0 hour @ '':'' @ step0 minute @ '':00'' in
           Option.bind (list_field month 1 12) (\<lambda>m.
           Option.bind (list_field mday 1 31) (\<lambda>d.
           let dateSpec = ''*-'' @ m @ ''-'' @ d in
           Option.bind (dow_spec dow) (\<lambda>dowSpec.
           if dowSpec = [] then Some [dateSpec @ '' '' @ timeSpec]
           else if mday \<noteq> ''*'' \<and> dow \<noteq> ''*''
           then Some [dowSpec @ '' *-*-* '' @ timeSpec, dateSpec @ '' '' @ timeSpec]
           else Some [dowSpec @ '' '' @ dateSpec @ '' '' @ timeSpec]))))
      | _ \<Rightarrow> Some [cron])"

definition CronTimer :: "string \<Rightarrow> cronjob \<Rightarrow> (cron_error + string) option" where
  "CronTimer name cj =
     Option.bind (validateCronSchedule (cj_schedule cj)) (\<lambda>r.
     case r of
       Inl e \<Rightarrow> Some (Inl e)
     | Inr _ \<Rightarrow>
         Option.bind (cronToCalendars (cj_schedule cj)) (\<lambda>cals.
         Some (Inr (ln ''# app.kubernetes.io/managed-by=q8s''
           @ ln ''[Unit]''
           @ ln (''Description=Timer for CronJob '' @ o_namespace cj @ ''/'' @ name)
           @ ln [] @ ln ''[Timer]''
           @ concat (map (\<lambda>cal. ln (''OnCalendar='' @ cal)) cals)
           @ ln ''Persistent=true''
           @ ln [] @ ln ''[Install]''
           @ ln ''WantedBy=timers.target''))))"

section \<open>The counting loop ends\<close>

lemma wrap64_id: "- (2 ^ 63) \<le> v \<Longrightarrow> v < 2 ^ 63 \<Longrightarrow> wrap64 v = v"
  by (simp add: wrap64_def)

lemma wrap64_over: "2 ^ 63 \<le> v \<Longrightarrow> v < 2 ^ 64 \<Longrightarrow> wrap64 v = v - 2 ^ 64"
proof -
  assume v: "2 ^ 63 \<le> v" "v < 2 ^ 64"
  have "v + 2 ^ 63 = (v - 2 ^ 63) + 1 * 2 ^ 64" by simp
  then have "(v + 2 ^ 63) mod 2 ^ 64 = (v - 2 ^ 63) mod 2 ^ 64" by (simp only: mod_mult_self1)
  also have "\<dots> = v - 2 ^ 63" using v by simp
  finally show ?thesis by (simp add: wrap64_def)
qed

lemma cron_loop_stop: "v > hi \<Longrightarrow> cron_loop v hi step = Some []"
  by (subst cron_loop.simps) simp

lemma cron_loop_go:
  "v \<le> hi \<Longrightarrow> cron_loop v hi step = map_option ((#) v) (cron_loop (wrap64 (v + step)) hi step)"
  by (subst cron_loop.simps) (cases "cron_loop (wrap64 (v + step)) hi step"; simp)

text \<open>
  From a value at most \<open>hi\<close>, a step below \<open>2 ^ 63 - hi\<close> never overflows: the loop counts up to
  \<open>hi\<close>.  A larger step lets the value wrap twice and come back below where it was.
\<close>

lemma cron_loop_small:
  assumes "1 \<le> step" "hi + step < 2 ^ 63" "- (2 ^ 63) \<le> v"
  shows "\<exists>vs. cron_loop v hi step = Some vs \<and>
    set vs = {u. v \<le> u \<and> u \<le> hi \<and> step dvd (u - v)} \<and> sorted_wrt (<) vs"
  using assms(3)
proof (induction "nat (hi + 1 - v)" arbitrary: v rule: less_induct)
  case less
  show ?case
  proof (cases "v \<le> hi")
    case True
    have w: "wrap64 (v + step) = v + step" using True assms less.prems by (intro wrap64_id) simp_all
    obtain vs where vs: "cron_loop (v + step) hi step = Some vs"
      "set vs = {u. v + step \<le> u \<and> u \<le> hi \<and> step dvd (u - (v + step))}" "sorted_wrt (<) vs"
      using less.hyps [of "v + step"] True assms less.prems by force
    have dvd: "step dvd (u - (v + step)) \<longleftrightarrow> step dvd (u - v)" for u
      using dvd_add_right_iff [of step "- step" "u - v"] by (simp add: algebra_simps)
    have "u = v \<or> v + step \<le> u" if "v \<le> u" "step dvd (u - v)" for u
      using that zdvd_imp_le [of step "u - v"] by fastforce
    then have "set (v # vs) = {u. v \<le> u \<and> u \<le> hi \<and> step dvd (u - v)}"
      using vs(2) True assms(1) by (auto simp: dvd)
    moreover have "sorted_wrt (<) (v # vs)" using vs(2,3) assms(1) by auto
    ultimately show ?thesis using vs(1) cron_loop_go [OF True, of step] w by auto
  next
    case False
    then show ?thesis by (auto simp: cron_loop_stop)
  qed
qed

text \<open>Two steps of at least \<open>2 ^ 63 - hi\<close> bring the value back below where it was.\<close>

lemma cron_loop_total:
  assumes step: "1 \<le> step" "step < 2 ^ 63" and hi: "0 \<le> hi" "hi < 2 ^ 60" and v: "- hi \<le> v"
  shows "\<exists>vs. cron_loop v hi step = Some vs"
proof (cases "hi + step < 2 ^ 63")
  case True
  then show ?thesis using cron_loop_small [of step hi v] step v hi by auto
next
  case False
  show ?thesis
    using v
  proof (induction "nat (v + 2 ^ 63)" arbitrary: v rule: less_induct)
    case less
    let ?w = "v + step - 2 ^ 64"
    consider "v > hi" | "v \<le> hi" "v + step < 2 ^ 63" | "v \<le> hi" "2 ^ 63 \<le> v + step" by linarith
    then show ?case
    proof cases
      case 2
      have "wrap64 (v + step) = v + step" using 2 less.prems step hi by (intro wrap64_id) simp_all
      moreover have "v + step > hi" using less.prems hi False by simp
      ultimately show ?thesis using 2 by (simp add: cron_loop_go cron_loop_stop)
    next
      case 3
      have w: "wrap64 (v + step) = ?w" using 3 step hi by (intro wrap64_over) simp_all
      have w2: "wrap64 (?w + step) = v + (2 * step - 2 ^ 64)"
        using less.prems step hi 3 False by (subst wrap64_id) simp_all
      have "nat (v + (2 * step - 2 ^ 64) + 2 ^ 63) < nat (v + 2 ^ 63)"
        using less.prems step hi by simp
      moreover have "- hi \<le> v + (2 * step - 2 ^ 64)" using less.prems step hi 3 False by simp
      ultimately have "\<exists>vs. cron_loop (v + (2 * step - 2 ^ 64)) hi step = Some vs"
        using less.hyps by blast
      moreover have "?w \<le> hi" using 3 step hi by simp
      ultimately show ?thesis
        using 3 w w2 by (auto simp: cron_loop_go)
    qed (simp add: cron_loop_stop)
  qed
qed

section \<open>What a field selects\<close>

lemma Atoi_bounds: "Atoi s = Some i \<Longrightarrow> - (2 ^ 63) \<le> i \<and> i < 2 ^ 63"
  by (auto simp: Atoi_def Let_def split: list.splits option.splits if_splits)

lemma cron_part_ok:
  "cron_part mn mx part = Inr (lo, hi, step) \<Longrightarrow> mn \<le> lo \<and> lo \<le> hi \<and> hi \<le> mx \<and> 1 \<le> step \<and> step < 2 ^ 63"
  by (auto simp: cron_part_def cron_step_def rbind_laws dest: Atoi_bounds split: option.splits if_splits)

lemma cron_parts_total:
  "0 \<le> mn \<Longrightarrow> mx < 2 ^ 60 \<Longrightarrow> \<exists>r. cron_parts mn mx parts out = Some r"
proof (induction parts arbitrary: out)
  case (Cons part parts)
  show ?case
  proof (cases "cron_part mn mx part")
    case (Inr t)
    obtain lo hi step where t: "t = (lo, hi, step)" by (cases t) auto
    from cron_part_ok [OF Inr [unfolded t]] Cons.prems
    obtain vs where "cron_loop lo hi step = Some vs" using cron_loop_total [of step hi lo] by auto
    then show ?thesis using Cons.IH [OF Cons.prems, of "out @ vs"] Inr t by auto
  qed simp
qed simp

text \<open>
  The reference, after the syntax of crontab and not after the code: an element of the list is any
  value, one value or a range, each with an optional step, where one value with a step runs up to
  the largest.  A field selects a value when one of its elements, within the bounds of the field,
  holds it at a multiple of the step from the lower bound.
\<close>

definition plain_number :: "string \<Rightarrow> int \<Rightarrow> bool" where
  "plain_number t v \<longleftrightarrow> Atoi t = Some v \<and> CHR ''-'' \<notin> set t"

inductive element :: "int \<Rightarrow> int \<Rightarrow> string \<Rightarrow> int \<Rightarrow> int \<Rightarrow> int \<Rightarrow> bool" for mn mx where
  any: "element mn mx ''*'' mn mx 1"
| one: "plain_number n v \<Longrightarrow> element mn mx n v v 1"
| range: "plain_number a lo \<Longrightarrow> Atoi b = Some hi \<Longrightarrow> element mn mx (a @ ''-'' @ b) lo hi 1"
| any_step: "Atoi s = Some step \<Longrightarrow> element mn mx (''*/'' @ s) mn mx step"
| from_step: "plain_number n v \<Longrightarrow> Atoi s = Some step \<Longrightarrow> element mn mx (n @ ''/'' @ s) v mx step"
| range_step: "plain_number a lo \<Longrightarrow> Atoi b = Some hi \<Longrightarrow> Atoi s = Some step \<Longrightarrow>
    element mn mx (a @ ''-'' @ b @ ''/'' @ s) lo hi step"

definition selects :: "int \<Rightarrow> int \<Rightarrow> string \<Rightarrow> int \<Rightarrow> bool" where
  "selects mn mx f v \<longleftrightarrow> (\<exists>part \<in> set (Split f (CHR '','')). \<exists>lo hi step. element mn mx part lo hi step \<and>
     mn \<le> lo \<and> lo \<le> v \<and> v \<le> hi \<and> hi \<le> mx \<and> 1 \<le> step \<and> step dvd (v - lo))"

text \<open>No step so large that the counting loop overflows.\<close>

definition small_steps :: "int \<Rightarrow> int \<Rightarrow> string \<Rightarrow> bool" where
  "small_steps mn mx f \<longleftrightarrow> (\<forall>part \<in> set (Split f (CHR '','')). \<forall>lo hi step. element mn mx part lo hi step \<longrightarrow>
     mn \<le> lo \<longrightarrow> lo \<le> hi \<longrightarrow> hi \<le> mx \<longrightarrow> 1 \<le> step \<longrightarrow> hi + step < 2 ^ 63)"

text \<open>The code reads every element as the syntax does.\<close>

lemma digits_val_digits: "digits_val a ds = Some n \<Longrightarrow> c \<in> set ds \<Longrightarrow> is_digit c"
  by (induction a ds rule: digits_val.induct) (auto split: if_splits)

lemma Atoi_bytes: "Atoi t = Some v \<Longrightarrow> c \<in> set t \<Longrightarrow> is_digit c \<or> c = CHR ''-'' \<or> c = CHR ''+''"
  by (auto simp: Atoi_def Let_def dest: digits_val_digits split: list.splits option.splits if_splits)

lemma Atoi_no_slash: "Atoi t = Some v \<Longrightarrow> CHR ''/'' \<notin> set t \<and> t \<noteq> ''*''"
  using Atoi_bytes [of t v "CHR ''/''"] Atoi_bytes [of t v "CHR ''*''"] by (auto simp: is_digit_def)

lemma IndexByte_append: "c \<notin> set a \<Longrightarrow> IndexByte (a @ c # b) c = Some (length a)"
  by (induction a) auto

lemma IndexByte_split: "IndexByte t c = Some i \<Longrightarrow> t = take i t @ c # drop (i + 1) t"
  using IndexByte_Some [of t c i] id_take_nth_drop [of i t] by auto

lemma Cut_absent: "d \<notin> set t \<Longrightarrow> Cut t d = (t, [], False)"
  by (induction t) auto

lemma Cut_present: "d \<notin> set a \<Longrightarrow> Cut (a @ d # b) d = (a, b, True)"
  by (induction a) auto

lemma Cut_join: "Cut t d = (a, b, True) \<Longrightarrow> t = a @ d # b \<and> d \<notin> set a"
  by (induction t arbitrary: a) (auto split: if_splits prod.splits)

lemma Cut_whole: "Cut t d = (a, b, False) \<Longrightarrow> d \<notin> set t"
  by (induction t arbitrary: a) (auto split: if_splits prod.splits)

lemma cron_step_none: "CHR ''/'' \<notin> set t \<Longrightarrow> cron_step t = Inr (1, False, t)"
  by (simp add: cron_step_def IndexByte_None [THEN iffD2])

lemma cron_step_some:
  "CHR ''/'' \<notin> set t \<Longrightarrow> Atoi s = Some step \<Longrightarrow> 1 \<le> step \<Longrightarrow> cron_step (t @ ''/'' @ s) = Inr (step, True, t)"
  by (simp add: cron_step_def IndexByte_append)

lemma cron_bounds_any: "cron_bounds mn mx st ''*'' = Inr (mn, mx)"
  by (simp add: cron_bounds_def)

lemma cron_bounds_one: "plain_number n v \<Longrightarrow> cron_bounds mn mx st n = Inr (v, if st then mx else v)"
  using Atoi_no_slash [of n v] by (simp add: cron_bounds_def plain_number_def Cut_absent)

lemma cron_bounds_range:
  "plain_number a lo \<Longrightarrow> Atoi b = Some hi \<Longrightarrow> cron_bounds mn mx st (a @ ''-'' @ b) = Inr (lo, hi)"
  by (simp add: cron_bounds_def plain_number_def Cut_present append_eq_Cons_conv)

lemmas cron_element_laws = cron_part_def rbind_laws cron_step_none cron_step_some cron_bounds_any cron_bounds_one
  cron_bounds_range

lemma element_part:
  assumes "element mn mx part lo hi step" "mn \<le> lo" "lo \<le> hi" "hi \<le> mx" "1 \<le> step"
  shows "cron_part mn mx part = Inr (lo, hi, step)"
  using assms
proof (cases rule: element.cases)
  case (range a b)
  have "CHR ''/'' \<notin> set (a @ ''-'' @ b)"
    using Atoi_no_slash [of a lo] Atoi_no_slash [of b hi] range by (auto simp: plain_number_def)
  then show ?thesis using range assms(2-5) by (simp add: cron_element_laws del: append_Cons append_Nil)
next
  case (range_step a b s)
  have "CHR ''/'' \<notin> set (a @ ''-'' @ b)"
    using Atoi_no_slash [of a lo] Atoi_no_slash [of b hi] range_step by (auto simp: plain_number_def)
  then have "cron_step ((a @ ''-'' @ b) @ ''/'' @ s) = Inr (step, True, a @ ''-'' @ b)"
    using range_step assms(5) by (intro cron_step_some) auto
  then show ?thesis using range_step assms(2-5) by (simp add: cron_part_def rbind_laws cron_bounds_range [simplified])
next
  case (one)
  then show ?thesis using Atoi_no_slash [of part lo] assms(2-5) by (simp add: cron_element_laws plain_number_def [of part])
next
  case any
  then show ?thesis using assms(2-5) by (simp add: cron_element_laws)
next
  case (any_step s)
  then show ?thesis using assms(2-5) cron_step_some [of "''*''" s step] by (simp add: cron_part_def rbind_laws cron_bounds_any)
next
  case (from_step n s)
  then show ?thesis using Atoi_no_slash [of n lo] assms(2-5) by (simp add: cron_part_def rbind_laws cron_step_some [simplified] plain_number_def [of n] cron_bounds_one)
qed

lemma part_element:
  assumes "cron_part mn mx part = Inr (lo, hi, step)"
  shows "element mn mx part lo hi step"
proof -
  from assms obtain st t where s: "cron_step part = Inr (step, st, t)" and b: "cron_bounds mn mx st t = Inr (lo, hi)"
    by (auto simp: cron_part_def rbind_laws split: if_splits)
  have shape: "t = ''*'' \<and> lo = mn \<and> hi = mx \<or> plain_number t lo \<and> hi = (if st then mx else lo) \<or>
      (\<exists>a b. t = a @ ''-'' @ b \<and> plain_number a lo \<and> Atoi b = Some hi)"
    using b by (auto simp: cron_bounds_def plain_number_def split: if_splits prod.splits option.splits
        dest!: Cut_join Cut_whole)
  show ?thesis
  proof (cases st)
    case False
    then have "part = t" "step = 1" using s by (auto simp: cron_step_def split: option.splits if_splits)
    then show ?thesis using shape False element.intros(1-3) by (elim disjE exE conjE) metis+
  next
    case True
    then obtain i where i: "IndexByte part (CHR ''/'') = Some i" "t = take i part" "Atoi (drop (i + 1) part) = Some step"
      using s by (auto simp: cron_step_def split: option.splits if_splits)
    from IndexByte_split [OF i(1)] i(2) obtain s where part: "part = t @ ''/'' @ s" and "s = drop (i + 1) part" by simp
    then have step: "Atoi s = Some step" using i(3) by simp
    from shape True consider "t = ''*''" "lo = mn" "hi = mx" | "plain_number t lo" "hi = mx"
      | a b where "t = a @ ''-'' @ b" "plain_number a lo" "Atoi b = Some hi" by auto
    then show ?thesis
    proof cases
      case 1
      then show ?thesis using element.any_step [OF step, of mn mx] part by simp
    next
      case 2
      then show ?thesis using element.from_step [OF _ step] part by simp
    next
      case 3
      then show ?thesis using element.range_step [OF 3(2,3) step, of mn mx] part by simp
    qed
  qed
qed

lemma selects_eval:
  "selects mn mx f v \<longleftrightarrow> list_ex (\<lambda>part. case cron_part mn mx part of
       Inl _ \<Rightarrow> False
     | Inr (lo, hi, step) \<Rightarrow> lo \<le> v \<and> v \<le> hi \<and> step dvd (v - lo)) (Split f (CHR '',''))"
proof -
  have "(\<exists>lo hi step. element mn mx part lo hi step \<and> mn \<le> lo \<and> lo \<le> v \<and> v \<le> hi \<and> hi \<le> mx \<and> 1 \<le> step \<and> step dvd (v - lo)) \<longleftrightarrow>
      (case cron_part mn mx part of Inl _ \<Rightarrow> False
       | Inr (lo, hi, step) \<Rightarrow> lo \<le> v \<and> v \<le> hi \<and> step dvd (v - lo))" (is "?l \<longleftrightarrow> ?r") for part
  proof
    assume ?l
    then obtain lo hi step where e: "element mn mx part lo hi step" "mn \<le> lo" "lo \<le> v" "v \<le> hi" "hi \<le> mx" "1 \<le> step"
      "step dvd (v - lo)" by blast
    have "cron_part mn mx part = Inr (lo, hi, step)" by (rule element_part [OF e(1)]) (use e in auto)
    then show ?r using e by simp
  next
    assume ?r
    then obtain lo hi step where c: "cron_part mn mx part = Inr (lo, hi, step)" "lo \<le> v" "v \<le> hi" "step dvd (v - lo)"
      by (auto split: sum.splits)
    then show ?l using part_element [OF c(1)] cron_part_ok [OF c(1)] by blast
  qed
  then show ?thesis by (simp add: selects_def list_ex_iff)
qed

lemma small_steps_eval:
  "small_steps mn mx f \<longleftrightarrow> list_all (\<lambda>part. case cron_part mn mx part of
       Inl _ \<Rightarrow> True | Inr (lo, hi, step) \<Rightarrow> hi + step < 2 ^ 63) (Split f (CHR '',''))"
proof -
  have "(\<forall>lo hi step. element mn mx part lo hi step \<longrightarrow>
      mn \<le> lo \<longrightarrow> lo \<le> hi \<longrightarrow> hi \<le> mx \<longrightarrow> 1 \<le> step \<longrightarrow> hi + step < 2 ^ 63) \<longleftrightarrow>
      (case cron_part mn mx part of Inl _ \<Rightarrow> True | Inr (lo, hi, step) \<Rightarrow> hi + step < 2 ^ 63)" for part
  proof (cases "cron_part mn mx part")
    case (Inl e)
    then have "\<not> (element mn mx part lo hi step \<and> mn \<le> lo \<and> lo \<le> hi \<and> hi \<le> mx \<and> 1 \<le> step)" for lo hi step
      using element_part [of mn mx part lo hi step] by auto
    then show ?thesis unfolding Inl sum.case by blast
  next
    case (Inr t)
    obtain l h st where t: "t = (l, h, st)" by (cases t)
    have "element mn mx part lo hi step \<and> mn \<le> lo \<and> lo \<le> hi \<and> hi \<le> mx \<and> 1 \<le> step \<longleftrightarrow>
        lo = l \<and> hi = h \<and> step = st" for lo hi step
      using element_part [of mn mx part lo hi step] part_element [OF Inr [unfolded t]] cron_part_ok [OF Inr [unfolded t]]
      unfolding Inr t by auto
    then show ?thesis unfolding Inr t sum.case prod.case by metis
  qed
  then show ?thesis by (simp add: small_steps_def list_all_iff)
qed

lemma cron_parts_set:
  assumes "cron_parts mn mx parts out = Some (Inr vals)" "0 \<le> mn"
    and "list_all (\<lambda>part. case cron_part mn mx part of
       Inl _ \<Rightarrow> True | Inr (lo, hi, step) \<Rightarrow> hi + step < 2 ^ 63) parts"
  shows "set vals = set out \<union> {v. list_ex (\<lambda>part. case cron_part mn mx part of
       Inl _ \<Rightarrow> False
     | Inr (lo, hi, step) \<Rightarrow> lo \<le> v \<and> v \<le> hi \<and> step dvd (v - lo)) parts}"
  using assms(1,3)
proof (induction parts arbitrary: out)
  case (Cons part parts)
  from Cons.prems(1) obtain lo hi step where part: "cron_part mn mx part = Inr (lo, hi, step)"
    by (auto split: sum.splits)
  with Cons.prems(2) have small: "hi + step < 2 ^ 63" by simp
  from cron_part_ok [OF part] assms(2)
  obtain vs where vs: "cron_loop lo hi step = Some vs"
    "set vs = {u. lo \<le> u \<and> u \<le> hi \<and> step dvd (u - lo)}"
    using cron_loop_small [OF _ small, of lo] by auto
  have "cron_parts mn mx parts (out @ vs) = Some (Inr vals)"
    using Cons.prems(1) by (simp add: part vs(1))
  from Cons.IH [OF this] Cons.prems(2) vs(2) show ?case by (auto simp: part)
qed simp

lemma expandCronField_total: "0 \<le> mn \<Longrightarrow> mx < 2 ^ 60 \<Longrightarrow> \<exists>r. expandCronField f mn mx = Some r"
  using cron_parts_total [of mn mx] by (auto simp: expandCronField_def)

lemma expandCronField_set:
  "expandCronField f mn mx = Some (Inr vals) \<Longrightarrow> 0 \<le> mn \<Longrightarrow> small_steps mn mx f \<Longrightarrow>
    set vals = {v. selects mn mx f v}"
  using cron_parts_set [of mn mx "Split f (CHR '','')" "[]" vals]
  by (auto simp: expandCronField_def small_steps_eval selects_eval split: if_splits)

lemma selects_range: "selects mn mx f v \<Longrightarrow> mn \<le> v \<and> v \<le> mx"
  by (auto simp: selects_def)

lemma cron_fields_total:
  "list_all (\<lambda>(f, mn, mx). 0 \<le> mn \<and> mx < 2 ^ 60) fs \<Longrightarrow> \<exists>r. cron_fields fs = Some r"
proof (induction fs rule: cron_fields.induct)
  case (2 f mn mx fs)
  then obtain r where "expandCronField f mn mx = Some r"
    using expandCronField_total [of mn mx f] by auto
  then show ?case using 2 by (cases r) auto
qed simp

lemma cron_fields_ok:
  "cron_fields fs = Some (Inr ()) \<Longrightarrow> (f, mn, mx) \<in> set fs \<Longrightarrow>
    re_match cronFieldRE f \<and> (\<exists>vals. expandCronField f mn mx = Some (Inr vals))"
proof (induction fs rule: cron_fields.induct)
  case (2 f' mn' mx' fs)
  from "2.prems"(1) obtain r where m: "re_match cronFieldRE f'" and r: "expandCronField f' mn' mx' = Some r"
    by (auto simp: bind_eq_Some_conv split: if_splits)
  then obtain vals where "r = Inr vals" "cron_fields fs = Some (Inr ())"
    using "2.prems"(1) by (cases r) auto
  then show ?case using 2 m r by auto
qed simp

text \<open>A valid schedule has five fields of cron bytes, each with its values.\<close>

lemma valid_schedule:
  assumes "validateCronSchedule schedule = Some (Inr ())"
  obtains minute hour mday month dow ms hs ds os ws where
    "Fields schedule = [minute, hour, mday, month, dow]"
    "expandCronField minute 0 59 = Some (Inr ms)" "expandCronField hour 0 23 = Some (Inr hs)"
    "expandCronField mday 1 31 = Some (Inr ds)" "expandCronField month 1 12 = Some (Inr os)"
    "expandCronField dow 0 7 = Some (Inr ws)"
    "\<forall>f \<in> {minute, hour, mday, month, dow}. f \<noteq> [] \<and> (\<forall>c \<in> set f. cron_byte c)"
proof -
  have len: "length (Fields schedule) = 5"
    using assms by (auto simp: validateCronSchedule_def Let_def split: if_splits)
  then obtain a b c d e where f: "Fields schedule = [a, b, c, d, e]"
    by (auto simp: length_Suc_conv eval_nat_numeral)
  have ok: "cron_fields [(a, 0, 59), (b, 0, 23), (c, 1, 31), (d, 1, 12), (e, 0, 7)] = Some (Inr ())"
    using assms by (simp add: validateCronSchedule_def Let_def f cronFieldBounds_def)
  note all = cron_fields_ok [OF ok]
  have "re_match cronFieldRE x" if "x \<in> {a, b, c, d, e}" for x
    using that all [of a 0 59] all [of b 0 23] all [of c 1 31] all [of d 1 12] all [of e 0 7] by auto
  then have bytes: "\<forall>x \<in> {a, b, c, d, e}. x \<noteq> [] \<and> (\<forall>c \<in> set x. cron_byte c)"
    by (simp add: cronFieldRE_def re_match_Plus_Cls)
  have "\<exists>vals. expandCronField f mn mx = Some (Inr vals)"
    if "(f, mn, mx) \<in> set [(a, 0, 59), (b, 0, 23), (c, 1, 31), (d, 1, 12), (e, 0, 7)]" for f mn mx
    using all [OF that] by (rule conjunct2)
  note vals = this
  obtain ms hs ds os ws where v: "expandCronField a 0 59 = Some (Inr ms)" "expandCronField b 0 23 = Some (Inr hs)"
    "expandCronField c 1 31 = Some (Inr ds)" "expandCronField d 1 12 = Some (Inr os)"
    "expandCronField e 0 7 = Some (Inr ws)"
  proof -
    have "\<exists>vals. expandCronField a 0 59 = Some (Inr vals)" "\<exists>vals. expandCronField b 0 23 = Some (Inr vals)"
      "\<exists>vals. expandCronField c 1 31 = Some (Inr vals)" "\<exists>vals. expandCronField d 1 12 = Some (Inr vals)"
      "\<exists>vals. expandCronField e 0 7 = Some (Inr vals)"
      by (rule vals, simp)+
    then show thesis by (elim exE) (rule that)
  qed
  show thesis by (rule that [OF f v bytes])
qed

end
