(* ===== verification/CronCalendar.thy ===== *)
theory CronCalendar
  imports Cron
begin

text \<open>
  What the OnCalendar= lines of a cron job select: a reader for the calendar expressions the
  generator writes, cron's own rule for days, and the equivalence of the two.
\<close>

section \<open>Reading a calendar expression\<close>

definition cal_field :: "string \<Rightarrow> int \<Rightarrow> bool" where
  "cal_field f v \<longleftrightarrow> f = ''*'' \<or> list_ex (\<lambda>x. Atoi x = Some v) (Split f (CHR '',''))"

definition cal_date :: "string \<Rightarrow> int \<Rightarrow> int \<Rightarrow> bool" where
  "cal_date s mon mday \<longleftrightarrow>
     (case Split s (CHR ''-'') of
        [y, m, d] \<Rightarrow> y = ''*'' \<and> cal_field m mon \<and> cal_field d mday
      | _ \<Rightarrow> False)"

text \<open>
  Whether an expression \<open>date time\<close> or \<open>weekdays date time\<close> fires on a day: the month, the day of
  the month and the day of the week, where systemd counts Monday as 1 and Sunday as 7.
\<close>

definition cal_day :: "string \<Rightarrow> int \<Rightarrow> int \<Rightarrow> int \<Rightarrow> bool" where
  "cal_day line mon mday wd \<longleftrightarrow>
     (case Split line (CHR '' '') of
        [date, time] \<Rightarrow> cal_date date mon mday
      | [dows, date, time] \<Rightarrow> cal_field dows wd \<and> cal_date date mon mday
      | _ \<Rightarrow> False)"

section \<open>Cron's rule for days\<close>

definition cron_weekday :: "string \<Rightarrow> int \<Rightarrow> bool" where
  "cron_weekday dow wd \<longleftrightarrow> selects 0 7 dow wd \<or> (wd = 7 \<and> selects 0 7 dow 0)"

text \<open>When both day fields are restricted, either of them may match.\<close>

definition cron_day :: "string \<Rightarrow> string \<Rightarrow> string \<Rightarrow> int \<Rightarrow> int \<Rightarrow> int \<Rightarrow> bool" where
  "cron_day mdayf month dow mon mday wd \<longleftrightarrow>
     selects 1 12 month mon \<and>
     (if mdayf \<noteq> ''*'' \<and> dow \<noteq> ''*'' then selects 1 31 mdayf mday \<or> cron_weekday dow wd
      else selects 1 31 mdayf mday \<and> cron_weekday dow wd)"

section \<open>Fields of the written expressions\<close>

lemma Itoa_digits: "0 \<le> i \<Longrightarrow> c \<in> set (Itoa i) \<Longrightarrow> is_digit c"
  by (auto simp: Itoa_def dest: itoa_nat_digits)

definition nat_list :: "int list \<Rightarrow> string" where
  "nat_list vs = Join (map Itoa vs) '',''"

lemma nat_list_split:
  "vs \<noteq> [] \<Longrightarrow> list_all (\<lambda>v. 0 \<le> v) vs \<Longrightarrow> Split (nat_list vs) (CHR '','') = map Itoa vs"
  unfolding nat_list_def
  by (rule Split_Join) (fastforce simp: list_all_iff is_digit_def dest: Itoa_digits)+

lemma nat_list_bytes: "list_all (\<lambda>v. 0 \<le> v) vs \<Longrightarrow> c \<in> set (nat_list vs) \<Longrightarrow> is_digit c \<or> c = CHR '',''"
  using set_Join [of "map Itoa vs" "'',''"] unfolding nat_list_def
  by (auto simp: list_all_iff dest: Itoa_digits)

lemma nat_list_not_Nil: "vs \<noteq> [] \<Longrightarrow> nat_list vs \<noteq> []"
  unfolding nat_list_def by (cases vs; cases "tl vs") (auto simp: Itoa_def)

lemma nat_list_field:
  assumes "vs \<noteq> []" "list_all (\<lambda>v. 0 \<le> v \<and> v < 2 ^ 60) vs"
  shows "cal_field (nat_list vs) v \<longleftrightarrow> v \<in> set vs"
proof -
  have nn: "list_all (\<lambda>v. 0 \<le> v) vs" using assms(2) by (simp add: list_all_iff)
  have "nat_list vs \<noteq> ''*''" using nat_list_bytes [OF nn, of "CHR ''*''"] by (auto simp: is_digit_def)
  moreover have "Atoi (Itoa u) = Some v \<longleftrightarrow> u = v" if "u \<in> set vs" for u
    using that assms(2) Atoi_Itoa [of u] by (auto simp: list_all_iff)
  ultimately show ?thesis
    by (auto simp: cal_field_def nat_list_split [OF assms(1) nn] list_ex_iff)
qed

lemma expand_not_Nil: "expandCronField f mn mx = Some (Inr vals) \<Longrightarrow> 0 \<le> mn \<Longrightarrow> vals \<noteq> []"
proof -
  have "cron_parts mn mx parts out = Some (Inr vals) \<Longrightarrow> out \<noteq> [] \<or> parts \<noteq> [] \<Longrightarrow> vals \<noteq> []"
    for parts out
  proof (induction parts arbitrary: out)
    case (Cons part parts)
    from Cons.prems(1) obtain lo hi step where part: "cron_part mn mx part = Inr (lo, hi, step)"
      by (auto split: sum.splits)
    with Cons.prems(1) obtain vs where vs: "cron_loop lo hi step = Some vs"
      and rest: "cron_parts mn mx parts (out @ vs) = Some (Inr vals)"
      by (auto simp: bind_eq_Some_conv)
    have "vs \<noteq> []" using vs cron_part_ok [OF part] by (auto simp: cron_loop_go)
    then show ?case using Cons.IH [OF rest] by simp
  qed simp
  then show "expandCronField f mn mx = Some (Inr vals) \<Longrightarrow> vals \<noteq> []"
    using Split_not_Nil [of f] by (auto simp: expandCronField_def split: if_splits)
qed

text \<open>A date field after expansion.\<close>

lemma list_field_spec:
  assumes vals: "expandCronField f mn mx = Some (Inr vals)" and small: "small_steps mn mx f"
    and range: "0 \<le> mn" "mx < 2 ^ 60"
  shows "\<exists>s. list_field f mn mx = Some s \<and> (\<forall>c \<in> set s. is_digit c \<or> c = CHR '','' \<or> c = CHR ''*'') \<and>
    (\<forall>v. mn \<le> v \<and> v \<le> mx \<longrightarrow> cal_field s v = selects mn mx f v)"
proof (cases "f = ''*''")
  case True
  have "cron_part mn mx ''*'' = (if mn > mx then Inl (DescendingRange ''*'') else Inr (mn, mx, 1))"
    by (simp add: cron_part_def cron_step_def cron_bounds_def)
  then have "selects mn mx ''*'' v" if "mn \<le> v" "v \<le> mx" for v
    using that by (simp add: selects_eval)
  then show ?thesis using True by (simp add: list_field_def cal_field_def)
next
  case False
  note set = expandCronField_set [OF vals range(1) small]
  have bounds: "list_all (\<lambda>v. 0 \<le> v \<and> v < 2 ^ 60) vals" "list_all (\<lambda>v. 0 \<le> v) vals"
    using set range selects_range by (fastforce simp: list_all_iff)+
  have "list_field f mn mx = Some (nat_list vals)"
    using False vals by (simp add: list_field_def nat_list_def)
  then show ?thesis
    using nat_list_bytes [OF bounds(2)] nat_list_field [OF expand_not_Nil [OF vals range(1)] bounds(1)] set
    by auto
qed

lemma dow_spec_spec:
  assumes vals: "expandCronField dow 0 7 = Some (Inr days)" and small: "small_steps 0 7 dow"
  shows "\<exists>s. dow_spec dow = Some s \<and> (\<forall>c \<in> set s. is_digit c \<or> c = CHR '','') \<and>
    (if s = [] then \<forall>wd. 1 \<le> wd \<and> wd \<le> 7 \<longrightarrow> cron_weekday dow wd
     else (\<forall>wd. 1 \<le> wd \<and> wd \<le> 7 \<longrightarrow> cal_field s wd = cron_weekday dow wd) \<and>
       (\<exists>wd. 1 \<le> wd \<and> wd \<le> 7 \<and> \<not> cron_weekday dow wd))"
proof -
  let ?ds = "dow_set days"
  have days: "set days = {v. selects 0 7 dow v}" by (rule expandCronField_set [OF vals _ small]) simp
  have ds: "wd \<in> set ?ds \<longleftrightarrow> cron_weekday dow wd" if "1 \<le> wd" for wd
    using that days by (auto simp: dow_set_def cron_weekday_def image_iff split: if_splits)
  have range: "set ?ds \<subseteq> {1..7}"
    using days selects_range by (fastforce simp: dow_set_def)
  have len: "length ?ds = card (set ?ds)"
    unfolding dow_set_def by (simp add: length_remdups_card_conv)
  show ?thesis
  proof (cases "length ?ds < 7")
    case True
    let ?ws = "filter (\<lambda>d. d \<in> set ?ds) [1, 2, 3, 4, 5, 6, 7]"
    have spec: "dow_spec dow = Some (nat_list ?ws)"
      using True vals by (simp add: dow_spec_def nat_list_def Let_def)
    have ws: "set ?ws = set ?ds"
    proof
      show "set ?ds \<subseteq> set ?ws"
      proof
        fix d
        assume d: "d \<in> set ?ds"
        with range have "d \<in> {1..7}" by blast
        then have "d \<in> set [1, 2, 3, 4, 5, 6, 7]" by simp presburger
        with d show "d \<in> set ?ws" unfolding set_filter by blast
      qed
    qed auto
    have "?ds \<noteq> []" using expand_not_Nil [OF vals] by (auto simp: dow_set_def)
    then have ne: "?ws \<noteq> []" using ws by (metis set_empty)
    have nn: "list_all (\<lambda>v. 0 \<le> v \<and> v < 2 ^ 60) ?ws" "list_all (\<lambda>v. 0 \<le> v) ?ws"
      by (auto simp: list_all_iff)
    have "set ?ds \<noteq> {1..7}" using True len by auto
    then obtain wd where "1 \<le> wd" "wd \<le> 7" "wd \<notin> set ?ds" using range by fastforce
    then show ?thesis
      using spec nat_list_not_Nil [OF ne] nat_list_bytes [OF nn(2)] nat_list_field [OF ne nn(1)] ds
      unfolding ws by (intro exI [of _ "nat_list ?ws"]) auto
  next
    case False
    then have "card {1..7::int} \<le> card (set ?ds)" using len by simp
    then have "set ?ds = {1..7}" using range by (intro card_seteq) auto
    then have "cron_weekday dow wd" if "1 \<le> wd" "wd \<le> 7" for wd using that ds by auto
    moreover have "dow_spec dow = Some []"
      using False vals by (simp add: dow_spec_def Let_def)
    ultimately show ?thesis by simp
  qed
qed

section \<open>Whole expressions\<close>

definition spaceless :: "string \<Rightarrow> bool" where
  "spaceless s \<longleftrightarrow> CHR '' '' \<notin> set s"

lemma cal_day_date:
  "spaceless date \<Longrightarrow> spaceless time \<Longrightarrow> cal_day (date @ '' '' @ time) mon mday wd = cal_date date mon mday"
  by (simp add: cal_day_def spaceless_def Split_append Split_atom)

lemma cal_day_dow:
  "spaceless dows \<Longrightarrow> spaceless date \<Longrightarrow> spaceless time \<Longrightarrow>
    cal_day (dows @ '' '' @ date @ '' '' @ time) mon mday wd = (cal_field dows wd \<and> cal_date date mon mday)"
  by (simp add: cal_day_def spaceless_def Split_append Split_atom)

lemma cal_date_spec:
  "CHR ''-'' \<notin> set m \<Longrightarrow> CHR ''-'' \<notin> set d \<Longrightarrow>
    cal_date (''*-'' @ m @ ''-'' @ d) mon mday = (cal_field m mon \<and> cal_field d mday)"
  using Split_append [of "CHR ''-''" "''*''" "m @ ''-'' @ d"] Split_append [of "CHR ''-''" m d]
  by (simp add: cal_date_def Split_atom)

lemma cal_date_any: "cal_date ''*-*-*'' mon mday"
  using cal_date_spec [of "''*''" "''*''"] by (simp add: cal_field_def)

lemma step0_bytes: "\<forall>c \<in> set f. cron_byte c \<Longrightarrow> c \<in> set (step0 f) \<Longrightarrow> cron_byte c"
  by (auto simp: step0_def cron_byte_def one_of_def is_digit_def dest: in_set_dropD split: if_splits)

lemma time_spaceless:
  assumes "\<forall>c \<in> set h. cron_byte c" "\<forall>c \<in> set m. cron_byte c"
  shows "spaceless (step0 h @ '':'' @ step0 m @ '':00'')"
proof -
  have "\<not> cron_byte (CHR '' '')" by (simp add: cron_byte_def one_of_def is_digit_def)
  then show ?thesis
    using step0_bytes [OF assms(1), of "CHR '' ''"] step0_bytes [OF assms(2), of "CHR '' ''"]
    by (auto simp: spaceless_def)
qed

lemma not_cron_separators:
  "\<forall>c \<in> set s. is_digit c \<or> c = CHR '','' \<or> c = CHR ''*'' \<Longrightarrow> spaceless s \<and> CHR ''-'' \<notin> set s \<and> newline \<notin> set s"
  by (auto simp: spaceless_def is_digit_def)

lemma calendars_select:
  assumes valid: "validateCronSchedule s = Some (Inr ())"
    and fields: "Fields s = [minute, hour, mdayf, month, dow]"
    and small: "small_steps 1 31 mdayf" "small_steps 1 12 month" "small_steps 0 7 dow"
    and day: "1 \<le> mon" "mon \<le> 12" "1 \<le> mday" "mday \<le> 31" "1 \<le> wd" "wd \<le> 7"
    and both: "mdayf \<noteq> ''*'' \<and> dow \<noteq> ''*'' \<Longrightarrow>
      month = ''*'' \<and> (\<exists>w. 1 \<le> w \<and> w \<le> 7 \<and> \<not> cron_weekday dow w)"
  shows "\<exists>cals. cronToCalendars s = Some cals \<and>
    (list_ex (\<lambda>c. cal_day c mon mday wd) cals \<longleftrightarrow> cron_day mdayf month dow mon mday wd)"
proof -
  from valid obtain ds os ws where
    vals: "expandCronField mdayf 1 31 = Some (Inr ds)" "expandCronField month 1 12 = Some (Inr os)"
    "expandCronField dow 0 7 = Some (Inr ws)"
    and bytes: "\<forall>c \<in> set minute. cron_byte c" "\<forall>c \<in> set hour. cron_byte c"
    by (rule valid_schedule) (use fields in auto)
  obtain m where m: "list_field month 1 12 = Some m" "\<forall>c \<in> set m. is_digit c \<or> c = CHR '','' \<or> c = CHR ''*''"
    "cal_field m mon = selects 1 12 month mon"
    using list_field_spec [OF vals(2) small(2)] day by auto
  obtain d where d: "list_field mdayf 1 31 = Some d" "\<forall>c \<in> set d. is_digit c \<or> c = CHR '','' \<or> c = CHR ''*''"
    "cal_field d mday = selects 1 31 mdayf mday"
    using list_field_spec [OF vals(1) small(1)] day by auto
  obtain w where w: "dow_spec dow = Some w" "\<forall>c \<in> set w. is_digit c \<or> c = CHR '',''"
    and all: "w = [] \<Longrightarrow> \<forall>wd. 1 \<le> wd \<and> wd \<le> 7 \<longrightarrow> cron_weekday dow wd"
    and some: "w \<noteq> [] \<Longrightarrow> cal_field w wd = cron_weekday dow wd"
    using dow_spec_spec [OF vals(3) small(3)] day by (metis (no_types))
  define t where "t = step0 hour @ '':'' @ step0 minute @ '':00''"
  have t: "spaceless t" unfolding t_def by (rule time_spaceless [OF bytes(2,1)])
  have date: "spaceless (''*-'' @ m @ ''-'' @ d)" "spaceless ''*-*-*''" "spaceless w"
    using not_cron_separators [OF m(2)] not_cron_separators [OF d(2)] w(2)
    by (auto simp: spaceless_def is_digit_def)
  have match: "cal_date (''*-'' @ m @ ''-'' @ d) mon mday = (selects 1 12 month mon \<and> selects 1 31 mdayf mday)"
    using cal_date_spec [of m d mon mday] not_cron_separators [OF m(2)] not_cron_separators [OF d(2)]
      m(3) d(3) by blast
  have cals: "cronToCalendars s = Some (
      if w = [] then [(''*-'' @ m @ ''-'' @ d) @ '' '' @ t]
      else if mdayf \<noteq> ''*'' \<and> dow \<noteq> ''*'' then [w @ '' '' @ ''*-*-*'' @ '' '' @ t, (''*-'' @ m @ ''-'' @ d) @ '' '' @ t]
      else [w @ '' '' @ (''*-'' @ m @ ''-'' @ d) @ '' '' @ t])"
    using m(1) d(1) w(1) by (simp add: cronToCalendars_def fields t_def Let_def)
  have month: "selects 1 12 ''*'' mon"
    using list_field_spec [of "''*''" 1 12] m day by (simp add: selects_eval cron_part_def cron_step_def cron_bounds_def)
  consider "w = []" | "w \<noteq> []" "mdayf \<noteq> ''*'' \<and> dow \<noteq> ''*''" | "w \<noteq> []" "\<not> (mdayf \<noteq> ''*'' \<and> dow \<noteq> ''*'')"
    by blast
  then show ?thesis
  proof cases
    case 1
    then have wd: "cron_weekday dow wd" and nb: "\<not> (mdayf \<noteq> ''*'' \<and> dow \<noteq> ''*'')"
      using all both day by auto
    have "cal_day ((''*-'' @ m @ ''-'' @ d) @ '' '' @ t) mon mday wd = cron_day mdayf month dow mon mday wd"
      unfolding cal_day_date [OF date(1) t] match cron_day_def if_not_P [OF nb] using wd by simp
    then show ?thesis using 1 cals by simp
  next
    case 2
    have "cal_day (w @ '' '' @ ''*-*-*'' @ '' '' @ t) mon mday wd = cron_weekday dow wd"
      unfolding cal_day_dow [OF date(3,2) t] using some [OF 2(1)] cal_date_any by simp
    moreover have "cal_day ((''*-'' @ m @ ''-'' @ d) @ '' '' @ t) mon mday wd = selects 1 31 mdayf mday"
      unfolding cal_day_date [OF date(1) t] match using both [OF 2(2)] month by simp
    moreover have "cron_day mdayf month dow mon mday wd = (selects 1 31 mdayf mday \<or> cron_weekday dow wd)"
      unfolding cron_day_def if_P [OF 2(2)] using both [OF 2(2)] month by simp
    ultimately show ?thesis using cals 2 by auto
  next
    case 3
    have "cal_day (w @ '' '' @ (''*-'' @ m @ ''-'' @ d) @ '' '' @ t) mon mday wd = cron_day mdayf month dow mon mday wd"
      unfolding cal_day_dow [OF date(3,1) t] match cron_day_def if_not_P [OF 3(2)] using some [OF 3(1)] by auto
    then show ?thesis using cals 3 by simp
  qed
qed

end
