(* ===== verification/CronProperties.thy ===== *)
theory CronProperties
  imports CronCalendar QuadletDemo
begin

text \<open>The properties of cron schedules and timers.\<close>

section \<open>Termination\<close>

lemma list_field_total: "0 \<le> mn \<Longrightarrow> mx < 2 ^ 60 \<Longrightarrow> \<exists>s. list_field f mn mx = Some s"
proof -
  assume r: "0 \<le> mn" "mx < 2 ^ 60"
  obtain x where "expandCronField f mn mx = Some x" using expandCronField_total [OF r] by blast
  then show ?thesis by (cases x) (auto simp: list_field_def)
qed

lemma dow_spec_total: "\<exists>s. dow_spec f = Some s"
proof -
  obtain x where "expandCronField f 0 7 = Some x" using expandCronField_total [of 0 7 f] by auto
  then show ?thesis by (cases x) (auto simp: dow_spec_def Let_def)
qed

lemma cronToCalendars_total: "\<exists>cals. cronToCalendars s = Some cals"
proof (cases "\<exists>minute hour mdayf month dow. Fields s = [minute, hour, mdayf, month, dow]")
  case True
  then obtain minute hour mdayf month dow where f: "Fields s = [minute, hour, mdayf, month, dow]" by blast
  obtain m d w where "list_field month 1 12 = Some m" "list_field mdayf 1 31 = Some d" "dow_spec dow = Some w"
    using list_field_total [of 1 12 month] list_field_total [of 1 31 mdayf] dow_spec_total [of dow] by auto
  then show ?thesis by (simp add: cronToCalendars_def f Let_def)
next
  case False
  then show ?thesis by (auto simp: cronToCalendars_def split: list.split)
qed

text \<open>
  C16: Validating a schedule and rendering its timer always return, whatever the text: the
  counting loop of a field ends even when its 64-bit counter overflows.
\<close>

theorem cron_terminates:
  "(\<exists>r. validateCronSchedule schedule = Some r) \<and> (\<exists>r. CronTimer name cj = Some r)"
proof -
  have valid: "\<exists>r. validateCronSchedule s = Some r" for s
  proof (cases "length (Fields s) = 5")
    case True
    have "list_all (\<lambda>(f, mn, mx). 0 \<le> mn \<and> mx < 2 ^ 60) (zip (Fields s) cronFieldBounds)"
      by (auto simp: list_all_iff cronFieldBounds_def dest!: set_zip_rightD)
    then show ?thesis using True cron_fields_total by (simp add: validateCronSchedule_def Let_def)
  qed (simp add: validateCronSchedule_def Let_def)
  obtain r where "validateCronSchedule (cj_schedule cj) = Some r" using valid by blast
  moreover obtain cals where "cronToCalendars (cj_schedule cj) = Some cals"
    using cronToCalendars_total by blast
  ultimately have "\<exists>r. CronTimer name cj = Some r" by (cases r) (simp_all add: CronTimer_def)
  with valid show ?thesis by blast
qed

section \<open>Field values\<close>

text \<open>
  C15: An accepted field whose steps do not overflow the counter expands to exactly the values that one
  of its elements selects by the syntax of crontab (element: any value, a value or a range, each with an
  optional step, a single value with a step running up to the largest), and these lie within the bounds
  of the field.
\<close>

theorem cron_field_exact:
  assumes "expandCronField f mn mx = Some (Inr vals)" and "0 \<le> mn" and "small_steps mn mx f"
  shows "set vals = {v. selects mn mx f v} \<and> vals \<noteq> [] \<and> list_all (\<lambda>v. mn \<le> v \<and> v \<le> mx) vals"
  using expandCronField_set [OF assms] expand_not_Nil [OF assms(1,2)] selects_range
  by (auto simp: list_all_iff)

lemma cron_eval:
  "expandCronField ''1-3'' 0 7 = Some (Inr [1, 2, 3])" "small_steps 0 7 ''1-3''"
  by (simp_all add: expandCronField_def cron_part_def cron_step_def cron_bounds_def Atoi_def is_digit_def
      cron_loop_go cron_loop_stop wrap64_def small_steps_eval)

theorem cron_field_exact_witness: "set [1, 2, 3] = {v. selects 0 7 ''1-3'' v}"
  using cron_field_exact [OF cron_eval(1) _ cron_eval(2)] by simp

text \<open>A step near the top of the integer range wraps the counter below the bounds.\<close>

lemma cron_step_overflow:
  "expandCronField ''1/9223372036854775807'' 0 59 = Some (Inr [1, - 9223372036854775808, - 1])"
  by (simp add: expandCronField_def cron_part_def cron_step_def cron_bounds_def Atoi_def is_digit_def
      cron_loop_go cron_loop_stop wrap64_def)

section \<open>Calendars\<close>


lemma cron_demo_fields:
  "Fields ''0 0 1 * 1'' = [''0'', ''0'', ''1'', ''*'', ''1'']"
  "Fields ''0 0 1 6 1'' = [''0'', ''0'', ''1'', ''6'', ''1'']"
  by (simp_all add: Fields_def IsSpace_def)

lemmas cron_compute = expandCronField_def cron_part_def cron_step_def cron_bounds_def Atoi_def is_digit_def
  cron_loop_go cron_loop_stop wrap64_def small_steps_eval selects_eval cron_weekday_def

lemma cron_demo_valid: "validateCronSchedule ''0 0 1 * 1'' = Some (Inr ())"
  by (simp add: validateCronSchedule_def cron_demo_fields cronFieldBounds_def cronFieldRE_def
      re_match_Plus_Cls cron_byte_def one_of_def cron_compute)


text \<open>
  With both day fields and the month restricted, the expression for the days of the week
  forgets the month: the job of 0 0 1 6 1 (June, on the first or on Mondays) has a calendar
  line that fires on a Monday in March, where cron does not.
\<close>

lemma calendars_forget_month:
  "cronToCalendars ''0 0 1 6 1'' = Some [''1 *-*-* 0:0:00'', ''*-6-1 0:0:00''] \<and>
   cal_day ''1 *-*-* 0:0:00'' 3 9 1 \<and> \<not> cron_day ''1'' ''6'' ''1'' 3 9 1"
proof (intro conjI)
  have i: "Itoa 1 = ''1''" "Itoa 6 = ''6''"
  proof -
    have "bcode (CHR ''1'') = 49" "bcode (CHR ''6'') = 54" by simp_all
    then have "bchr 49 = CHR ''1''" "bchr 54 = CHR ''6''" by (metis char_of_char)+
    then show "Itoa 1 = ''1''" "Itoa 6 = ''6''" by (simp_all add: Itoa_def itoa_nat.simps)
  qed
  show "cronToCalendars ''0 0 1 6 1'' = Some [''1 *-*-* 0:0:00'', ''*-6-1 0:0:00'']"
    by (simp add: cronToCalendars_def cron_demo_fields list_field_def dow_spec_def dow_set_def
        step0_def HasPrefix_def cron_compute i Let_def)
qed (simp_all add: cal_day_def cal_date_def cal_field_def cron_day_def cron_compute)

text \<open>
  Days of the week that name all seven are dropped, although with a day of the month they make cron
  run every day: the job of 0 0 1 * 0-6 runs on the first only.
\<close>

lemma calendars_forget_weekdays:
  "cronToCalendars ''0 0 1 * 0-6'' = Some [''*-*-1 0:0:00''] \<and>
   \<not> cal_day ''*-*-1 0:0:00'' 3 9 1 \<and> cron_day ''1'' ''*'' ''0-6'' 3 9 1"
proof (intro conjI)
  have i: "Itoa 1 = ''1''"
  proof -
    have "bcode (CHR ''1'') = 49" by simp
    then have "bchr 49 = CHR ''1''" by (metis char_of_char)
    then show ?thesis by (simp add: Itoa_def itoa_nat.simps)
  qed
  have f: "Fields ''0 0 1 * 0-6'' = [''0'', ''0'', ''1'', ''*'', ''0-6'']" by (simp add: Fields_def IsSpace_def)
  show "cronToCalendars ''0 0 1 * 0-6'' = Some [''*-*-1 0:0:00'']"
    by (simp add: cronToCalendars_def f list_field_def dow_spec_def dow_set_def
        step0_def HasPrefix_def cron_compute i Let_def)
qed (simp_all add: cal_day_def cal_date_def cal_field_def cron_day_def cron_compute)

section \<open>The timer unit\<close>

definition timer_keys :: "string list" where
  "timer_keys = [''Description'', ''OnCalendar'', ''Persistent'', ''WantedBy'']"

lemma timer_keys_plain: "plain_keys timer_keys"
  by (simp add: plain_keys_def timer_keys_def is_header_def)

lemma cron_newline: "\<forall>c \<in> set f. cron_byte c \<Longrightarrow> newline \<notin> set (step0 f)"
  using step0_bytes [of f newline] by (auto simp: cron_byte_def one_of_def is_digit_def)

lemma list_field_newline:
  "expandCronField f mn mx = Some (Inr vals) \<Longrightarrow> list_field f mn mx = Some m \<Longrightarrow> newline \<notin> set m"
  by (auto simp: list_field_def Join_newline split: if_splits)

lemma dow_spec_newline: "dow_spec dow = Some w \<Longrightarrow> newline \<notin> set w"
proof -
  assume w: "dow_spec dow = Some w"
  obtain x where x: "expandCronField dow 0 7 = Some x" using expandCronField_total [of 0 7 dow] by auto
  have "newline \<notin> set (Join (map Itoa vs) '','')" for vs by (rule Join_newline) auto
  with w x show ?thesis
    by (cases x) (auto simp: dow_spec_def Let_def simp del: filter.simps split: if_splits)
qed

lemma calendars_newline:
  assumes "validateCronSchedule s = Some (Inr ())" "cronToCalendars s = Some cals" "cal \<in> set cals"
  shows "newline \<notin> set cal"
proof -
  from assms(1) obtain minute hour mdayf month dow ds os where
    f: "Fields s = [minute, hour, mdayf, month, dow]"
    and vals: "expandCronField mdayf 1 31 = Some (Inr ds)" "expandCronField month 1 12 = Some (Inr os)"
    and bytes: "\<forall>c \<in> set minute. cron_byte c" "\<forall>c \<in> set hour. cron_byte c"
    by (rule valid_schedule) auto
  from assms(2) obtain m d w where mdw: "list_field month 1 12 = Some m" "list_field mdayf 1 31 = Some d"
    "dow_spec dow = Some w"
    by (auto simp: cronToCalendars_def f Let_def bind_eq_Some_conv)
  have nl: "newline \<notin> set m" "newline \<notin> set d" "newline \<notin> set w"
    "newline \<notin> set (step0 hour)" "newline \<notin> set (step0 minute)"
    using list_field_newline [OF vals(2) mdw(1)] list_field_newline [OF vals(1) mdw(2)]
      dow_spec_newline [OF mdw(3)] cron_newline [OF bytes(1)] cron_newline [OF bytes(2)] by auto
  from assms(2) have "cal \<in> {''*-'' @ m @ ''-'' @ d @ '' '' @ step0 hour @ '':'' @ step0 minute @ '':00'',
      w @ '' *-*-* '' @ step0 hour @ '':'' @ step0 minute @ '':00'',
      w @ '' *-'' @ m @ ''-'' @ d @ '' '' @ step0 hour @ '':'' @ step0 minute @ '':00''}"
    using assms(3) mdw by (auto simp: cronToCalendars_def f Let_def split: if_splits)
  with nl show ?thesis by auto
qed

text \<open>
  The timer of a cron job is a comment line followed by exactly the sections Unit, Timer and
  Install, and every line of these is blank or assigns one of the generator's keys, so that the
  schedule text cannot add a directive.
\<close>

lemma timer_unit_safe:
  assumes "CronTimer name cj = Some (Inr s)"
    and "newline \<notin> set name" and "newline \<notin> set (o_namespace cj)"
  shows "\<exists>rest. s = ln ''# app.kubernetes.io/managed-by=q8s'' @ rest \<and>
    unit_file timer_keys [''[Unit]'', ''[Timer]'', ''[Install]''] rest"
proof -
  from assms(1) obtain r where v: "validateCronSchedule (cj_schedule cj) = Some r"
    by (auto simp: CronTimer_def bind_eq_Some_conv)
  with assms(1) have r: "r = Inr ()" by (cases r) (simp_all add: CronTimer_def)
  from assms(1) v r obtain cals where c: "cronToCalendars (cj_schedule cj) = Some cals"
    and s: "s = ln ''# app.kubernetes.io/managed-by=q8s'' @ (ln ''[Unit]''
           @ ln (''Description=Timer for CronJob '' @ o_namespace cj @ ''/'' @ name)
           @ (ln [] @ ln ''[Timer]'')
           @ (concat (map (\<lambda>cal. ln (''OnCalendar='' @ cal)) cals) @ ln ''Persistent=true'')
           @ (ln [] @ ln ''[Install]'')
           @ ln ''WantedBy=timers.target'')" (is "_ = _ @ ?rest")
    by (auto simp: CronTimer_def bind_eq_Some_conv)
  note cal = calendars_newline [OF v [unfolded r] c]
  have "unit_file timer_keys ([''[Unit]''] @ [] @ [''[Timer]''] @ [] @ [''[Install]''] @ []) ?rest"
    by (intro unit_file_append unit_file_header header_after_blank unit_file_body [OF timer_keys_plain]
        line_intros)
      (use assms(2,3) cal in \<open>auto simp: is_header_def directive_def timer_keys_def\<close>)
  then show ?thesis using s by auto
qed

lemma timer_unit_safe_witness:
  "\<exists>s rest. CronTimer ''a'' \<lparr>o_apiVersion = [], o_kind = [], o_meta = demo_meta ''a'',
      cj_schedule = ''0 0 1 * 1'', cj_template = demo_template, cj_rest = []\<rparr> = Some (Inr s) \<and>
    s = ln ''# app.kubernetes.io/managed-by=q8s'' @ rest \<and>
    unit_file timer_keys [''[Unit]'', ''[Timer]'', ''[Install]''] rest"
proof -
  let ?cj = "\<lparr>o_apiVersion = [], o_kind = [], o_meta = demo_meta ''a'',
      cj_schedule = ''0 0 1 * 1'', cj_template = demo_template, cj_rest = []\<rparr>"
  obtain cals where "cronToCalendars ''0 0 1 * 1'' = Some cals" using cronToCalendars_total by blast
  then obtain s where s: "CronTimer ''a'' ?cj = Some (Inr s)"
    by (simp add: CronTimer_def cron_demo_valid)
  from timer_unit_safe [OF s] s show ?thesis by (auto simp: demo_meta_def)
qed

end
