(* ===== verification/TraefikDocs.thy ===== *)
theory TraefikDocs
  imports K8s
begin

text \<open>
  The documents of Traefik's file provider that internal/server/traefik.go marshals: one
  middleware, or the routers and services of one TCP route.
\<close>

record tcpRouter =
  tr_entryPoints :: "string list"
  tr_rule :: string
  tr_service :: string
  tr_passthrough :: "bool option"

text \<open>The load balancer of a service: proxy protocol version and server addresses.\<close>

record tcpService =
  ts_proxyProtocol :: "int option"
  ts_servers :: "string list"

datatype traefik_doc =
    MiddlewareDocument "(string, middleware_spec) gomap"
  | TcpDocument "(string, tcpRouter) gomap" "(string, tcpService) gomap"

end
