(* ===== verification/World.thy ===== *)
theory World
  imports StoreStatus PodUnits TraefikDocs
begin

text \<open>
  What the API server acts on besides its store: files, systemd and podman.  Every call that can
  fail goes through \<open>perform\<close>: it is logged, and the oracle \<open>sv_fails\<close> of the server record
  decides from the calls made so far whether it succeeds, so a property that holds for every
  oracle holds for every pattern of failures.  Reading a file fails only when there is none.
  A file is named by its directory and its name; two directories that the configuration spells
  differently are different directories.
\<close>

section \<open>Calls\<close>

datatype io =
    MkdirAll string
  | WriteFile string string string
  | RemoveFile string string
  | RemoveAll string
  | RenameFile string string string
  | DaemonReload
  | StartUnit string
  | StopUnit string
  | RestartUnit string
  | EnableUnit string
  | DisableUnit string
  | PodmanRm string
  | PodmanPodRm string
  | NetworkConnect string string string
  | NetworkDisconnect string string

text \<open>A failing write may leave any text in the file.\<close>

datatype outcome = Done | Fails | Torn string

type_synonym files = "(string \<times> string, string) gomap"

text \<open>
  The configuration of the server, with the environment of one request: the clock, the
  outcomes of calls, and the subnets podman reports for the namespace networks.
\<close>

record server =
  sv_QuadletDir :: string
  sv_SystemdDir :: string
  sv_ConfigDir :: string
  sv_TraefikDir :: string
  sv_manager :: bool
  sv_gen :: gen_env
  sv_isPrint :: "nat \<Rightarrow> bool"
  sv_yaml :: "traefik_doc \<Rightarrow> string option"
  sv_now :: time
  sv_fails :: "io list \<Rightarrow> io \<Rightarrow> outcome"
  sv_subnet :: "io list \<Rightarrow> string \<Rightarrow> string option"

text \<open>The log holds the latest call first.\<close>

record world =
  w_store :: store
  w_files :: files
  w_subnets :: strmap
  w_log :: "io list"

fun io_effect :: "io \<Rightarrow> outcome \<Rightarrow> files \<Rightarrow> files" where
  "io_effect (WriteFile d n c) Done fs = mput (d, n) c fs"
| "io_effect (WriteFile d n c) (Torn part) fs = mput (d, n) part fs"
| "io_effect (RemoveFile d n) Done fs = mdel (d, n) fs"
| "io_effect (RemoveAll d) Done fs = mdrop (\<lambda>(d', _). d' = d \<or> HasPrefix d' (d @ ''/'')) fs"
| "io_effect (RenameFile d a b) Done fs =
     (case mget fs (d, a) of None \<Rightarrow> fs | Some c \<Rightarrow> mput (d, b) c (mdel (d, a) fs))"
| "io_effect _ _ fs = fs"

text \<open>Removing or renaming a file that is not there is an error.\<close>

fun io_possible :: "io \<Rightarrow> files \<Rightarrow> bool" where
  "io_possible (RemoveFile d n) fs = (mget fs (d, n) \<noteq> None)"
| "io_possible (RenameFile d a b) fs = (mget fs (d, a) \<noteq> None)"
| "io_possible _ fs = True"

definition perform :: "server \<Rightarrow> io \<Rightarrow> world \<Rightarrow> bool \<times> world" where
  "perform sv op w =
     (let r = sv_fails sv (w_log w) op in
      (r = Done \<and> io_possible op (w_files w),
       w\<lparr>w_files := io_effect op r (w_files w), w_log := op # w_log w\<rparr>))"

definition act :: "server \<Rightarrow> io \<Rightarrow> world \<Rightarrow> world" where
  "act sv op w = snd (perform sv op w)"

text \<open>A call on the systemd manager, skipped without one.\<close>

definition manage :: "server \<Rightarrow> io \<Rightarrow> world \<Rightarrow> world" where
  "manage sv op w = (if sv_manager sv then act sv op w else w)"

definition on_store :: "(store \<Rightarrow> store) \<Rightarrow> world \<Rightarrow> world" where
  "on_store f w = w\<lparr>w_store := f (w_store w)\<rparr>"

text \<open>\<open>os.ReadDir\<close>: the names in a directory, sorted.\<close>

definition list_dir :: "string \<Rightarrow> world \<Rightarrow> string list" where
  "list_dir d w = sort (map snd (filter (\<lambda>k. fst k = d) (map fst (w_files w))))"

section \<open>What the calls change\<close>

fun touches :: "io \<Rightarrow> string \<times> string \<Rightarrow> bool" where
  "touches (WriteFile d n c) k = (k = (d, n))"
| "touches (RemoveFile d n) k = (k = (d, n))"
| "touches (RemoveAll d) k = (fst k = d \<or> HasPrefix (fst k) (d @ ''/''))"
| "touches (RenameFile d a b) k = (k = (d, a) \<or> k = (d, b))"
| "touches _ k = False"

lemma io_effect_frame: "\<not> touches op k \<Longrightarrow> mget (io_effect op r fs) k = mget fs k"
  by (cases op; cases r; cases k)
    (auto simp: mget_mput mget_mdel mget_mdrop split: option.splits)

lemma perform_frame: "\<not> touches op k \<Longrightarrow> mget (w_files (snd (perform sv op w))) k = mget (w_files w) k"
  by (simp add: perform_def Let_def io_effect_frame)

lemma io_effect_wf [simp]: "mwf fs \<Longrightarrow> mwf (io_effect op r fs)"
  by (cases op; cases r) (auto split: option.splits)

lemma perform_rest [simp]:
  "w_store (snd (perform sv op w)) = w_store w" "w_subnets (snd (perform sv op w)) = w_subnets w"
  "w_log (snd (perform sv op w)) = op # w_log w"
  "mwf (w_files w) \<Longrightarrow> mwf (w_files (snd (perform sv op w)))"
  by (simp_all add: perform_def Let_def)

lemma act_rest [simp]:
  "w_store (act sv op w) = w_store w" "w_subnets (act sv op w) = w_subnets w"
  "w_log (act sv op w) = op # w_log w" "mwf (w_files w) \<Longrightarrow> mwf (w_files (act sv op w))"
  by (simp_all add: act_def)

lemma manage_rest [simp]:
  "w_store (manage sv op w) = w_store w" "w_subnets (manage sv op w) = w_subnets w"
  "mwf (w_files w) \<Longrightarrow> mwf (w_files (manage sv op w))"
  by (simp_all add: manage_def)

lemma manage_frame: "\<not> touches op k \<Longrightarrow> mget (w_files (manage sv op w)) k = mget (w_files w) k"
  by (simp add: manage_def act_def perform_frame)

lemma on_store_rest [simp]:
  "w_store (on_store f w) = f (w_store w)" "w_files (on_store f w) = w_files w"
  "w_log (on_store f w) = w_log w" "w_subnets (on_store f w) = w_subnets w"
  by (simp_all add: on_store_def)

text \<open>A step that extends the log by calls that satisfy \<open>P\<close> and changes no other file.\<close>

definition only_io :: "(io \<Rightarrow> bool) \<Rightarrow> world \<Rightarrow> world \<Rightarrow> bool" where
  "only_io P w w' \<longleftrightarrow> (\<exists>ops. w_log w' = ops @ w_log w \<and> list_all P ops) \<and>
     (\<forall>k. (\<forall>op. P op \<longrightarrow> \<not> touches op k) \<longrightarrow> mget (w_files w') k = mget (w_files w) k)"

named_theorems io_steps \<open>which calls the steps of the server make\<close>

lemma only_io_refl [simp, io_steps]: "only_io P w w"
  by (auto simp: only_io_def intro: exI [of _ "[]"])

lemma only_io_trans: "only_io P w w1 \<Longrightarrow> only_io P w1 w2 \<Longrightarrow> only_io P w w2"
  unfolding only_io_def by (elim conjE exE, intro conjI) (auto simp: list_all_append)

lemma only_io_mono: "only_io P w w' \<Longrightarrow> (\<And>op. P op \<Longrightarrow> Q op) \<Longrightarrow> only_io Q w w'"
  unfolding only_io_def by (blast intro: list.pred_mono_strong)

lemma only_io_perform [io_steps]: "P op \<Longrightarrow> only_io P w (snd (perform sv op w))"
  unfolding only_io_def
  by (intro conjI exI [of _ "[op]"]) (auto simp: perform_frame)

lemma only_io_act [io_steps]: "P op \<Longrightarrow> only_io P w (act sv op w)"
  by (simp add: act_def only_io_perform)

lemma only_io_manage [io_steps]: "P op \<Longrightarrow> only_io P w (manage sv op w)"
  by (simp add: manage_def only_io_act)

lemma only_io_on_store [simp, io_steps]: "only_io P w (on_store f w)"
  by (auto simp: only_io_def intro: exI [of _ "[]"])

lemma only_io_fold:
  "(\<And>x w. x \<in> set xs \<Longrightarrow> only_io P w (f x w)) \<Longrightarrow> only_io P w (fold f xs w)"
  by (induction xs arbitrary: w) (auto intro: only_io_trans)

end
