(* ===== verification/QuadletSync.thy ===== *)
theory QuadletSync
  imports World
begin

text \<open>
  The file synchronisation of internal/server/handler.go: which quadlet files a deployment
  writes, which it leaves alone because their template hash is current, which it removes because
  the pod no longer has them, and which units it starts or restarts.
\<close>

section \<open>Writing files\<close>

definition writeQuadletFile :: "server \<Rightarrow> string \<Rightarrow> string \<Rightarrow> string \<Rightarrow> world \<Rightarrow> bool \<times> world" where
  "writeQuadletFile sv dir name content w =
     (let (ok, w1) = perform sv (MkdirAll dir) w in
      if \<not> ok then (False, w1) else perform sv (WriteFile dir name content) w1)"

definition hash_prefix :: string where
  "hash_prefix = ''Label='' @ TemplateHashLabel @ ''=''"

definition templateHashFromContent :: "string \<Rightarrow> string" where
  "templateHashFromContent content =
     (case find (\<lambda>l. HasPrefix l hash_prefix) (Split content newline) of
        None \<Rightarrow> []
      | Some l \<Rightarrow> TrimPrefix l hash_prefix)"

definition sameTemplateHash :: "string \<Rightarrow> string \<Rightarrow> string \<Rightarrow> world \<Rightarrow> bool" where
  "sameTemplateHash dir name content w =
     (let want = templateHashFromContent content in
      if want = [] then False
      else case mget (w_files w) (dir, name) of
        None \<Rightarrow> False
      | Some existing \<Rightarrow> templateHashFromContent existing = want)"

text \<open>The loop over the sorted names: whether it got through, the names written, the world.\<close>

fun write_tracked ::
  "server \<Rightarrow> string \<Rightarrow> (string \<times> string) list \<Rightarrow> string list \<Rightarrow> world \<Rightarrow> bool \<times> string list \<times> world" where
  "write_tracked sv dir [] changed w = (True, changed, w)"
| "write_tracked sv dir ((name, content) # rest) changed w =
     (if sameTemplateHash dir name content w then write_tracked sv dir rest changed w
      else
        (let (ok, w1) = writeQuadletFile sv dir name content w in
         if \<not> ok then (False, changed, w1) else write_tracked sv dir rest (name # changed) w1))"

definition writeQuadletFilesTracked ::
  "server \<Rightarrow> string \<Rightarrow> (string, string) gomap \<Rightarrow> world \<Rightarrow> bool \<times> string list \<times> world" where
  "writeQuadletFilesTracked sv dir fs w = write_tracked sv dir (sort_key fst fs) [] w"

section \<open>Removing files\<close>

definition hasExactLine :: "string \<Rightarrow> string \<Rightarrow> bool" where
  "hasExactLine content want \<longleftrightarrow> list_ex (\<lambda>l. l = want) (Split content newline)"

definition ownedByExactLabels :: "string \<Rightarrow> string \<Rightarrow> string \<Rightarrow> bool" where
  "ownedByExactLabels content ns podName \<longleftrightarrow>
     hasExactLine content ManagedByLabel \<and>
     hasExactLine content (''Label=io.kubernetes.pod.namespace='' @ ns) \<and>
     hasExactLine content (''Label=io.kubernetes.pod.name='' @ podName)"

text \<open>\<open>strings.TrimSuffix(name, filepath.Ext(name))\<close> for a name without a slash.\<close>

definition trim_ext :: "string \<Rightarrow> string" where
  "trim_ext name =
     (if CHR ''.'' \<in> set name then rev (tl (dropWhile (\<lambda>c. c \<noteq> CHR ''.'') (rev name))) else name)"

definition remove_stale_unit ::
  "server \<Rightarrow> string \<Rightarrow> string \<Rightarrow> string \<Rightarrow> string list \<Rightarrow> string \<Rightarrow> bool \<times> world \<Rightarrow> bool \<times> world" where
  "remove_stale_unit sv dir ns podName keep name rw =
     (let (removed, w) = rw in
      if name \<in> set keep then rw
      else case mget (w_files w) (dir, name) of
        None \<Rightarrow> rw
      | Some content \<Rightarrow>
          if \<not> ownedByExactLabels content ns podName then rw
          else
            (let w1 = manage sv (StopUnit (trim_ext name @ ''.service'')) w;
                 (ok, w2) = perform sv (RemoveFile dir name) w1
             in (removed \<or> ok, w2)))"

definition removeStaleOwnedUnits ::
  "server \<Rightarrow> string \<Rightarrow> string \<Rightarrow> string \<Rightarrow> string list \<Rightarrow> world \<Rightarrow> bool \<times> world" where
  "removeStaleOwnedUnits sv dir ns podName keep w =
     (let (removed, w1) = fold (remove_stale_unit sv dir ns podName keep) (list_dir dir w) (False, w)
      in (removed, if removed then manage sv DaemonReload w1 else w1))"

definition reloadAfterRemove :: "server \<Rightarrow> (string \<times> string) list \<Rightarrow> world \<Rightarrow> world" where
  "reloadAfterRemove sv paths w =
     manage sv DaemonReload (fold (\<lambda>(d, n). act sv (RemoveFile d n)) paths w)"

section \<open>Units\<close>

definition run_unit :: "server \<Rightarrow> bool \<Rightarrow> bool \<Rightarrow> string list \<Rightarrow> string \<Rightarrow> world \<Rightarrow> world" where
  "run_unit sv restart force changed u w =
     (if u = [] then w
      else if restart then
        (if \<not> force \<and> \<not> list_ex (\<lambda>n. HasSuffix n ''.pod'') changed
            \<and> TrimSuffix u ''.service'' @ ''.container'' \<notin> set changed
         then w else act sv (RestartUnit u) w)
      else act sv (StartUnit u) w)"

definition reloadAndRun ::
  "server \<Rightarrow> string list \<Rightarrow> bool \<Rightarrow> bool \<Rightarrow> bool \<Rightarrow> string list \<Rightarrow> world \<Rightarrow> world" where
  "reloadAndRun sv units restart skipReload force changed w =
     (if \<not> sv_manager sv then w
      else
        (let (ok, w1) = (if skipReload then (True, w) else perform sv DaemonReload w) in
         if \<not> ok then w1 else fold (run_unit sv restart force changed) units w1))"

definition deployFiles ::
  "server \<Rightarrow> string \<Rightarrow> (string, string) gomap \<Rightarrow> string list \<Rightarrow> world \<Rightarrow> world" where
  "deployFiles sv dir fs units w =
     (let (ok, changed, w1) = writeQuadletFilesTracked sv dir fs w in
      if \<not> ok then w1 else reloadAndRun sv units False False False changed w1)"

definition deployUnit :: "server \<Rightarrow> string \<Rightarrow> string \<Rightarrow> string \<Rightarrow> string \<Rightarrow> world \<Rightarrow> world" where
  "deployUnit sv dir name content u w =
     deployFiles sv dir [(name, content)] (if u \<noteq> [] then [u] else []) w"

definition deployPodFiles ::
  "server \<Rightarrow> string \<Rightarrow> string \<Rightarrow> string \<Rightarrow> (string, string) gomap \<Rightarrow> string list \<Rightarrow> bool \<Rightarrow> bool
    \<Rightarrow> world \<Rightarrow> world" where
  "deployPodFiles sv dir ns podName fs units restart force w =
     (let (ok, changed, w1) = writeQuadletFilesTracked sv dir fs w in
      if \<not> ok then w1
      else
        (let (removed, w2) = removeStaleOwnedUnits sv dir ns podName (map fst fs) w1 in
         if restart \<and> length changed = 0 \<and> \<not> removed \<and> \<not> force then w2
         else reloadAndRun sv units restart removed force changed w2))"

section \<open>The files of a pod\<close>

definition podQuadletFiles ::
  "gen_env \<Rightarrow> string \<Rightarrow> pod \<Rightarrow> string \<Rightarrow> string list \<Rightarrow> (string, pvc) gomap \<Rightarrow> string
    \<Rightarrow> network_attachment list \<Rightarrow> unit_error + (string, string) gomap" where
  "podQuadletFiles env name p configDir serviceAliases pvcMap envFile networks =
     (if length (ps_containers (pod_spec p)) > 1
      then PodUnits env name p configDir serviceAliases pvcMap envFile networks
      else rbind (Container env name p configDir serviceAliases pvcMap envFile networks) (\<lambda>content.
           Inr [(o_namespace p @ ''-'' @ name @ ''.container'', content)]))"

definition podUnitNames :: "string \<Rightarrow> string \<Rightarrow> container list \<Rightarrow> string list" where
  "podUnitNames ns name containers =
     (if length containers > 1
      then map (\<lambda>c. ns @ ''-'' @ name @ ''-'' @ c_name c @ ''.service'') containers
      else [ns @ ''-'' @ name @ ''.service''])"

definition podQuadletPaths :: "string \<Rightarrow> string \<Rightarrow> string \<Rightarrow> container list \<Rightarrow> (string \<times> string) list" where
  "podQuadletPaths quadletDir ns name containers =
     (if length containers > 1
      then (quadletDir, ns @ ''-'' @ name @ ''.pod'')
        # map (\<lambda>c. (quadletDir, ns @ ''-'' @ name @ ''-'' @ c_name c @ ''.container'')) containers
      else [(quadletDir, ns @ ''-'' @ name @ ''.container'')])"

end
