(* ===== verification/SocketSync.thy ===== *)
theory SocketSync
  imports QuadletSync
begin

text \<open>
  internal/server/sockets.go: the .socket units of socket-activated pods are written, replaced,
  started and removed with the pod.
\<close>

fun write_sockets ::
  "server \<Rightarrow> string \<Rightarrow> (string \<times> string) list \<Rightarrow> string list \<Rightarrow> world \<Rightarrow> bool \<times> string list \<times> world" where
  "write_sockets sv dir [] changed w = (True, changed, w)"
| "write_sockets sv dir ((name, content) # rest) changed w =
     (if mget (w_files w) (dir, name) = Some content then write_sockets sv dir rest changed w
      else
        (let (ok, w1) = writeQuadletFile sv dir name content w in
         if \<not> ok then (False, changed, w1) else write_sockets sv dir rest (name # changed) w1))"

definition writeSocketFilesTracked ::
  "server \<Rightarrow> string \<Rightarrow> (string, string) gomap \<Rightarrow> world \<Rightarrow> bool \<times> string list \<times> world" where
  "writeSocketFilesTracked sv dir fs w = write_sockets sv dir (sort_key fst fs) [] w"

definition socketUnitNames :: "(string, string) gomap \<Rightarrow> string list" where
  "socketUnitNames fs = sort (map fst fs)"

definition hasExactSocketOwner :: "string \<Rightarrow> string \<Rightarrow> string \<Rightarrow> bool" where
  "hasExactSocketOwner content ns podName \<longleftrightarrow>
     Contains content (nl @ ''X-Q8s-Namespace='' @ ns @ nl) \<and>
     Contains content (nl @ ''X-Q8s-Pod='' @ podName @ nl)"

text \<open>One directory entry of the two removal loops, which differ in the calls before removing.\<close>

definition remove_socket ::
  "server \<Rightarrow> (string \<Rightarrow> io list) \<Rightarrow> string \<Rightarrow> string \<Rightarrow> string \<Rightarrow> string list \<Rightarrow> string
    \<Rightarrow> bool \<times> world \<Rightarrow> bool \<times> world" where
  "remove_socket sv before dir ns podName keep name rw =
     (let (removed, w) = rw in
      if \<not> HasSuffix name ''.socket'' \<or> name \<in> set keep then rw
      else case mget (w_files w) (dir, name) of
        None \<Rightarrow> rw
      | Some content \<Rightarrow>
          if \<not> hasExactSocketOwner content ns podName then rw
          else
            (let (ok, w2) = perform sv (RemoveFile dir name) (fold (manage sv) (before name) w)
             in (removed \<or> ok, w2)))"

definition removeStalePodSockets ::
  "server \<Rightarrow> string \<Rightarrow> string \<Rightarrow> string \<Rightarrow> string list \<Rightarrow> world \<Rightarrow> bool \<times> world" where
  "removeStalePodSockets sv dir ns podName keep w =
     fold (remove_socket sv (\<lambda>n. [StopUnit n]) dir ns podName keep) (list_dir dir w) (False, w)"

definition deploy_socket :: "server \<Rightarrow> string list \<Rightarrow> string \<Rightarrow> world \<Rightarrow> world" where
  "deploy_socket sv changed u w =
     act sv (EnableUnit u) (act sv (if u \<in> set changed then RestartUnit u else StartUnit u) w)"

definition deployPodSockets :: "server \<Rightarrow> pod \<Rightarrow> string \<Rightarrow> world \<Rightarrow> bool \<times> world" where
  "deployPodSockets sv p podName w =
     (case ParseSocketActivation (om_annotations (o_meta p)) of
        Inl _ \<Rightarrow> (False, w)
      | Inr entries \<Rightarrow>
          if sv_SystemdDir sv = [] then (False, w)
          else case SocketUnits (o_namespace p) podName entries of
            Inl _ \<Rightarrow> (False, w)
          | Inr fs \<Rightarrow>
              (let (ok, changed, w1) = writeSocketFilesTracked sv (sv_SystemdDir sv) fs w in
               if \<not> ok then (False, w1)
               else
                 (let (removed, w2) = removeStalePodSockets sv (sv_SystemdDir sv) (o_namespace p) podName (map fst fs) w1;
                      dirty = (length changed > 0 \<or> removed) in
                  if \<not> sv_manager sv then (dirty, w2)
                  else
                    (dirty, fold (deploy_socket sv changed) (socketUnitNames fs)
                      (if dirty then act sv DaemonReload w2 else w2)))))"

definition reconcilePodSockets :: "server \<Rightarrow> pod \<Rightarrow> string \<Rightarrow> world \<Rightarrow> (string list \<times> bool) \<times> world" where
  "reconcilePodSockets sv p podName w =
     (case ParseSocketActivation (om_annotations (o_meta p)) of
        Inl _ \<Rightarrow> (([], False), w)
      | Inr entries \<Rightarrow>
          if sv_SystemdDir sv = [] then (([], False), w)
          else case SocketUnits (o_namespace p) podName entries of
            Inl _ \<Rightarrow> (([], False), w)
          | Inr fs \<Rightarrow>
              (let (ok, changed, w1) = writeSocketFilesTracked sv (sv_SystemdDir sv) fs w in
               if \<not> ok then (([], False), w1)
               else
                 (let (removed, w2) = removeStalePodSockets sv (sv_SystemdDir sv) (o_namespace p) podName (map fst fs) w1
                  in ((socketUnitNames fs, length changed > 0 \<or> removed), w2))))"

definition startSocketUnits :: "server \<Rightarrow> string list \<Rightarrow> world \<Rightarrow> world" where
  "startSocketUnits sv units w =
     (if \<not> sv_manager sv then w else fold (\<lambda>u w. act sv (StartUnit u) (act sv (EnableUnit u) w)) units w)"

definition removePodSockets :: "server \<Rightarrow> string \<Rightarrow> string \<Rightarrow> world \<Rightarrow> world" where
  "removePodSockets sv ns podName w =
     (if sv_SystemdDir sv = [] then w
      else
        (let (removed, w1) = fold (remove_socket sv (\<lambda>n. [StopUnit n, DisableUnit n]) (sv_SystemdDir sv) ns podName [])
               (list_dir (sv_SystemdDir sv) w) (False, w)
         in if removed then manage sv DaemonReload w1 else w1))"

end
