(* ===== verification/ServerValidate.thy ===== *)
theory ServerValidate
  imports Socket GoPath
begin

text \<open>
  internal/server/validate.go and internal/server/traefik_validate.go: the checks at the API
  boundary.  An error is the rule that was broken with the offending value; the texts of the
  messages are left out.
\<close>

datatype bad_field =
    BadField string string
  | BadPort int
  | BadContainers string nat
  | BadProbes probe_error
  | BadSockets socket_error
  | Immutable string

definition check_that :: "bool \<Rightarrow> bad_field \<Rightarrow> bad_field + unit" where
  "check_that ok e = (if ok then Inr () else Inl e)"

lemma check_that_Inr [simp, rbind_laws]: "check_that ok e = Inr u \<longleftrightarrow> ok"
  by (simp add: check_that_def)

section \<open>Names and keys\<close>

text \<open>The expression of the server is the one of the generator.\<close>

definition validateName :: "string \<Rightarrow> string \<Rightarrow> bad_field + unit" where
  "validateName what value =
     (if length value = 0 \<or> length value > 253 then Inl (BadField what value)
      else if \<not> re_match nameRE value then Inl (BadField what value) else Inr ())"

definition data_key_byte :: "char \<Rightarrow> bool" where
  "data_key_byte c \<longleftrightarrow> one_of ''-._'' c \<or> is_alnum c"

definition dataKeyRE :: re where
  "dataKeyRE = Plus (Cls data_key_byte)"

definition validateDataKey :: "string \<Rightarrow> bad_field + unit" where
  "validateDataKey key =
     (if length key = 0 \<or> length key > 253 \<or> key = ''.'' \<or> key = ''..'' then Inl (BadField ''key'' key)
      else if \<not> re_match dataKeyRE key then Inl (BadField ''key'' key) else Inr ())"

definition validateDataKeys :: "string list \<Rightarrow> string list \<Rightarrow> bad_field + unit" where
  "validateDataKeys dataKeys binaryKeys =
     rbind (check_all validateDataKey dataKeys) (\<lambda>_. check_all validateDataKey binaryKeys)"

definition host_label_re :: re where
  "host_label_re = label_re is_lalnum (\<lambda>c. is_lalnum c \<or> c = CHR ''-'')"

definition hostRE :: re where
  "hostRE = Seq (Opt (Seq (Chr (CHR ''*'')) (Chr (CHR ''.''))))
     (Seq host_label_re (Star (Seq (Chr (CHR ''.'')) host_label_re)))"

definition validateHost :: "string \<Rightarrow> bad_field + unit" where
  "validateHost value =
     (if length value = 0 \<or> length value > 253 then Inl (BadField ''host'' value)
      else if \<not> re_match hostRE value then Inl (BadField ''host'' value) else Inr ())"

section \<open>Ingress fields\<close>

text \<open>Bytes other than control characters, the double quote and the backtick.\<close>

definition ingress_path_byte :: "char \<Rightarrow> bool" where
  "ingress_path_byte c \<longleftrightarrow> bcode c > 31 \<and> c \<noteq> dquote \<and> c \<noteq> CHR 0x60"

definition ingressPathRE :: re where
  "ingressPathRE = Seq (Chr (CHR ''/'')) (Star (Cls ingress_path_byte))"

definition validateIngressPath :: "string \<Rightarrow> bad_field + unit" where
  "validateIngressPath value =
     (if value = [] then Inr ()
      else if \<not> re_match ingressPathRE value then Inl (BadField ''path'' value)
      else if list_ex (\<lambda>seg. seg = ''..'' \<or> seg = ''.'') (Split value (CHR ''/''))
      then Inl (BadField ''path'' value) else Inr ())"

definition validatePathType :: "string \<Rightarrow> bad_field + unit" where
  "validatePathType pt =
     check_that (pt \<in> {''Exact'', ''Prefix'', ''ImplementationSpecific''}) (BadField ''pathType'' pt)"

definition validatePort :: "int \<Rightarrow> bad_field + unit" where
  "validatePort port = check_that (\<not> (port < 1 \<or> port > 65535)) (BadPort port)"

section \<open>Router annotations\<close>

definition annRouterEntryPoints :: string where
  "annRouterEntryPoints = ''traefik.ingress.kubernetes.io/router.entrypoints''"
definition annRouterMiddlewares :: string where
  "annRouterMiddlewares = ''traefik.ingress.kubernetes.io/router.middlewares''"
definition annRouterTLS :: string where
  "annRouterTLS = ''traefik.ingress.kubernetes.io/router.tls''"
definition annRouterTLSCertResolver :: string where
  "annRouterTLSCertResolver = ''traefik.ingress.kubernetes.io/router.tls.certresolver''"
definition annRouterPriority :: string where
  "annRouterPriority = ''traefik.ingress.kubernetes.io/router.priority''"

definition traefikNameRE :: re where
  "traefikNameRE = Seq (Cls is_alnum) (Star (Cls (\<lambda>c. is_alnum c \<or> one_of ''._-'' c)))"

definition traefikProviderRE :: re where
  "traefikProviderRE = Seq (Cls is_lalnum) (Star (Cls (\<lambda>c. is_lalnum c \<or> c = CHR ''-'')))"

definition validateTraefikName :: "string \<Rightarrow> string \<Rightarrow> bad_field + unit" where
  "validateTraefikName annotation value =
     (if length value = 0 \<or> length value > 253 then Inl (BadField annotation value)
      else if \<not> re_match traefikNameRE value then Inl (BadField annotation value) else Inr ())"

definition validateTraefikMiddlewareRef :: "string \<Rightarrow> string \<Rightarrow> bad_field + unit" where
  "validateTraefikMiddlewareRef annotation value =
     (if length value = 0 \<or> length value > 253 then Inl (BadField annotation value)
      else
        (let (name, provider, hasProvider) = (case IndexByte value (CHR ''@'') of
               Some i \<Rightarrow> (take i value, drop (i + 1) value, True)
             | None \<Rightarrow> (value, [], False))
         in check_that (\<not> (\<not> re_match traefikNameRE name \<or> (hasProvider \<and> \<not> re_match traefikProviderRE provider)))
              (BadField annotation value)))"

definition splitAnnotationList :: "string \<Rightarrow> string list" where
  "splitAnnotationList v = filter (\<lambda>item. item \<noteq> []) (map TrimSpace (Split v (CHR '','')))"

text \<open>\<open>strconv.ParseBool\<close>.\<close>

definition ParseBool :: "string \<Rightarrow> bool option" where
  "ParseBool s =
     (if s \<in> {''1'', ''t'', ''T'', ''TRUE'', ''true'', ''True''} then Some True
      else if s \<in> {''0'', ''f'', ''F'', ''FALSE'', ''false'', ''False''} then Some False
      else None)"

definition on_annotation :: "strmap option \<Rightarrow> string \<Rightarrow> (string \<Rightarrow> bad_field + unit) \<Rightarrow> bad_field + unit" where
  "on_annotation annotations k f = (case lget annotations k of None \<Rightarrow> Inr () | Some v \<Rightarrow> f v)"

definition validateTraefikAnnotations :: "strmap option \<Rightarrow> bad_field + unit" where
  "validateTraefikAnnotations annotations =
     rbind (on_annotation annotations annRouterEntryPoints (\<lambda>v.
       check_all (validateTraefikName annRouterEntryPoints) (splitAnnotationList v))) (\<lambda>_.
     rbind (on_annotation annotations annRouterMiddlewares (\<lambda>v.
       check_all (validateTraefikMiddlewareRef annRouterMiddlewares) (splitAnnotationList v))) (\<lambda>_.
     rbind (on_annotation annotations annRouterTLS (\<lambda>v.
       check_that (ParseBool v \<noteq> None) (BadField annRouterTLS v))) (\<lambda>_.
     rbind (on_annotation annotations annRouterTLSCertResolver (validateTraefikName annRouterTLSCertResolver)) (\<lambda>_.
     on_annotation annotations annRouterPriority (\<lambda>v.
       check_that (case Atoi v of None \<Rightarrow> False | Some n \<Rightarrow> \<not> n < 0) (BadField annRouterPriority v))))))"

definition validate_ingress_path_entry :: "ingress_path \<Rightarrow> bad_field + unit" where
  "validate_ingress_path_entry p =
     rbind (validateIngressPath (ip_path p)) (\<lambda>_.
     rbind (case ip_pathType p of None \<Rightarrow> Inr () | Some pt \<Rightarrow> validatePathType pt) (\<lambda>_.
     case ip_service p of
       None \<Rightarrow> Inr ()
     | Some (name, port, _) \<Rightarrow>
         rbind (validateName ''backend service name'' name) (\<lambda>_.
         if port \<noteq> 0 then validatePort port else Inr ())))"

definition validateIngress :: "ingress \<Rightarrow> bad_field + unit" where
  "validateIngress ing =
     rbind (validateTraefikAnnotations (om_annotations (o_meta ing))) (\<lambda>_.
     rbind (check_all (\<lambda>rule.
       rbind (if ir_host rule \<noteq> [] then validateHost (ir_host rule) else Inr ()) (\<lambda>_.
       case ir_http rule of
         None \<Rightarrow> Inr ()
       | Some paths \<Rightarrow> check_all validate_ingress_path_entry paths)) (ing_rules ing)) (\<lambda>_.
     check_all (\<lambda>(hosts, secretName).
       rbind (check_all validateHost hosts) (\<lambda>_.
       if secretName \<noteq> [] then validateName ''tls secretName'' secretName else Inr ())) (ing_tls ing)))"

section \<open>Pod specifications\<close>

definition validateSingleContainer :: "string \<Rightarrow> podspec option \<Rightarrow> bool \<Rightarrow> bad_field + unit" where
  "validateSingleContainer what spec allowMultiple =
     (let n = (case spec of None \<Rightarrow> 0 | Some sp \<Rightarrow> length (ps_containers sp)) in
      if n = 0 then Inl (BadContainers (what @ '' has no containers'') 0)
      else if n > 1 \<and> \<not> allowMultiple then Inl (BadContainers what n)
      else case spec of
        None \<Rightarrow> Inr ()
      | Some sp \<Rightarrow>
          if length (ps_initContainers sp) > 0
          then Inl (BadContainers (what @ '' initContainers'') (length (ps_initContainers sp)))
          else if ps_ephemeralContainers sp > 0
          then Inl (BadContainers (what @ '' ephemeralContainers'') (ps_ephemeralContainers sp))
          else Inr ())"

definition annAttachAllNetworks :: string where
  "annAttachAllNetworks = ''q8s.io/attach-all-networks''"

definition validatePodProbes :: "podspec option \<Rightarrow> bad_field + unit" where
  "validatePodProbes spec =
     (case spec of
        None \<Rightarrow> Inr ()
      | Some sp \<Rightarrow> check_all (\<lambda>c. case ValidateProbes c of Inl e \<Rightarrow> Inl (BadProbes e) | Inr _ \<Rightarrow> Inr ())
                    (ps_containers sp))"

definition empty_spec :: podspec where
  "empty_spec = \<lparr>ps_containers = [], ps_initContainers = [], ps_ephemeralContainers = 0, ps_volumes = [],
     ps_hostNetwork = False, ps_restartPolicy = [], ps_rest = []\<rparr>"

text \<open>The pod the socket check is run on: the annotations and the specification.\<close>

definition annotated_pod :: "podspec option \<Rightarrow> strmap option \<Rightarrow> pod" where
  "annotated_pod spec annotations =
     \<lparr>o_apiVersion = [], o_kind = [],
      o_meta = \<lparr>om_name = [], om_namespace = [], om_uid = [], om_resourceVersion = [], om_generation = 0,
        om_creationTimestamp = None, om_labels = None, om_annotations = annotations,
        om_ownerReferences = [], om_rest = []\<rparr>,
      pod_spec = (case spec of Some sp \<Rightarrow> sp | None \<Rightarrow> empty_spec),
      pod_status = \<lparr>pst_phase = [], pst_containerStatuses = [], pst_rest = []\<rparr>\<rparr>"

definition validatePodAnnotations :: "podspec option \<Rightarrow> strmap option \<Rightarrow> int \<Rightarrow> bad_field + unit" where
  "validatePodAnnotations spec annotations replicas =
     (let containers = (case spec of None \<Rightarrow> 0 | Some sp \<Rightarrow> length (ps_containers sp)) in
      rbind (validatePodProbes spec) (\<lambda>_.
      rbind (if lget annotations AnnotationSocketActivation \<noteq> None then
               (case ValidateSocketActivation (annotated_pod spec annotations) of
                  Inl e \<Rightarrow> Inl (BadSockets e)
                | Inr _ \<Rightarrow>
                    if containers > 1 then Inl (BadContainers AnnotationSocketActivation containers)
                    else if replicas > 1 then Inl (BadField AnnotationSocketActivation ''replicas'')
                    else Inr ())
             else Inr ()) (\<lambda>_.
      on_annotation annotations annAttachAllNetworks (\<lambda>v.
        case ParseBool v of
          None \<Rightarrow> Inl (BadField annAttachAllNetworks v)
        | Some attachAll \<Rightarrow>
            if attachAll \<and> containers > 1 then Inl (BadContainers annAttachAllNetworks containers)
            else if attachAll \<and> replicas > 1 then Inl (BadField annAttachAllNetworks ''replicas'')
            else Inr ()))))"

definition validatePatchedIdentity ::
  "string \<Rightarrow> string \<Rightarrow> string \<Rightarrow> string \<Rightarrow> string \<Rightarrow> bad_field + unit" where
  "validatePatchedIdentity what patchedNS patchedName urlNS urlName =
     rbind (validateName ''namespace'' patchedNS) (\<lambda>_.
     rbind (validateName ''name'' patchedName) (\<lambda>_.
     check_that (patchedNS = urlNS \<and> patchedName = urlName) (Immutable what)))"

section \<open>Middlewares and TCP routes\<close>

definition validateIPOrCIDR :: "string \<Rightarrow> string \<Rightarrow> bad_field + unit" where
  "validateIPOrCIDR field v =
     (if v = [] then Inl (BadField field v)
      else if ParseIP v \<noteq> None then Inr ()
      else check_that (ParseCIDR v \<noteq> None) (BadField field v))"

definition validateIPAllowList :: "ipallowlist \<Rightarrow> bad_field + unit" where
  "validateIPAllowList l =
     (if length (ial_sourceRange l) = 0 then Inl (BadField ''sourceRange'' [])
      else rbind (check_all (validateIPOrCIDR ''sourceRange'') (ial_sourceRange l)) (\<lambda>_.
      case ial_ipStrategy l of
        None \<Rightarrow> Inr ()
      | Some st \<Rightarrow>
          if is_depth st < 0 then Inl (BadField ''depth'' [])
          else check_all (validateIPOrCIDR ''ipStrategy.excludedIPs'') (is_excludedIPs st)))"

text \<open>\<open>compiles\<close>: whether \<open>regexp.Compile\<close> accepts the expression.\<close>

definition validateRedirectRegex :: "(string \<Rightarrow> bool) \<Rightarrow> redirect_regex \<Rightarrow> bad_field + unit" where
  "validateRedirectRegex compiles redirect =
     (if rr_regex redirect = [] then Inl (BadField ''regex'' [])
      else check_that (compiles (rr_regex redirect)) (BadField ''regex'' (rr_regex redirect)))"

definition validateRedirectScheme :: "redirect_scheme \<Rightarrow> bad_field + unit" where
  "validateRedirectScheme redirect =
     (if rs_scheme redirect \<noteq> ''http'' \<and> rs_scheme redirect \<noteq> ''https''
      then Inl (BadField ''scheme'' (rs_scheme redirect))
      else check_that (list_all is_digit (rs_port redirect)) (BadField ''port'' (rs_port redirect)))"

definition containsCRLFOrNUL :: "string \<Rightarrow> bool" where
  "containsCRLFOrNUL v \<longleftrightarrow> list_ex (\<lambda>c. c = CHR 0x0D \<or> c = newline \<or> c = CHR 0x00) v"

definition validate_header_map :: "string \<Rightarrow> strmap \<Rightarrow> bad_field + unit" where
  "validate_header_map field vs =
     check_all (\<lambda>(name, v).
       if \<not> re_match httpTokenRE name then Inl (BadField field name)
       else check_that (\<not> containsCRLFOrNUL v) (BadField field v)) vs"

definition validateHeaders :: "mwheaders \<Rightarrow> bad_field + unit" where
  "validateHeaders h =
     rbind (validate_header_map ''customRequestHeaders'' (hd_customRequestHeaders h)) (\<lambda>_.
     rbind (validate_header_map ''customResponseHeaders'' (hd_customResponseHeaders h)) (\<lambda>_.
     check_that (\<not> hd_stsSeconds h < 0) (BadField ''stsSeconds'' [])))"

definition middleware_count :: "middleware_spec \<Rightarrow> nat" where
  "middleware_count sp =
     (if ms_ipAllowList sp \<noteq> None then 1 else 0) + (if ms_redirectRegex sp \<noteq> None then 1 else 0)
     + (if ms_redirectScheme sp \<noteq> None then 1 else 0) + (if ms_headers sp \<noteq> None then 1 else 0)"

definition validateMiddleware :: "(string \<Rightarrow> bool) \<Rightarrow> middleware \<Rightarrow> bad_field + unit" where
  "validateMiddleware compiles mw =
     (let sp = mw_spec mw in
      if middleware_count sp \<noteq> 1 then Inl (BadContainers ''middleware'' (middleware_count sp))
      else case ms_ipAllowList sp of
        Some l \<Rightarrow> validateIPAllowList l
      | None \<Rightarrow>
     (case ms_redirectRegex sp of
        Some r \<Rightarrow> validateRedirectRegex compiles r
      | None \<Rightarrow>
     (case ms_redirectScheme sp of
        Some r \<Rightarrow> validateRedirectScheme r
      | None \<Rightarrow>
     (case ms_headers sp of Some h \<Rightarrow> validateHeaders h | None \<Rightarrow> Inr ()))))"

definition tcpCatchAllMatch :: string where
  "tcpCatchAllMatch = ''HostSNI('' @ [CHR 0x60] @ ''*'' @ [CHR 0x60] @ '')''"

definition validate_route :: "route_tcp \<Rightarrow> bad_field + unit" where
  "validate_route route =
     (if rt_match route \<noteq> tcpCatchAllMatch then Inl (BadField ''match'' (rt_match route))
      else case rt_services route of
        [svc] \<Rightarrow>
          rbind (validateName ''service name'' (st_name svc)) (\<lambda>_.
          rbind (case st_port svc of
                   StrPort s \<Rightarrow> validateName ''service port name'' s
                 | IntPort n \<Rightarrow> validatePort n) (\<lambda>_.
          case st_proxyProtocol svc of
            None \<Rightarrow> Inr ()
          | Some v \<Rightarrow> check_that (v = 1 \<or> v = 2) (BadField ''proxyProtocol.version'' [])))
      | _ \<Rightarrow> Inl (BadContainers ''services'' (length (rt_services route))))"

definition validateIngressRouteTCP :: "ingress_route_tcp \<Rightarrow> bad_field + unit" where
  "validateIngressRouteTCP irt =
     (let sp = irt_spec irt in
      if length (irs_entryPoints sp) = 0 then Inl (BadField ''entryPoints'' [])
      else rbind (check_all (\<lambda>ep. check_that (re_match traefikNameRE ep) (BadField ''entryPoints'' ep))
                    (irs_entryPoints sp)) (\<lambda>_.
      if length (irs_routes sp) = 0 then Inl (BadField ''routes'' [])
      else check_all validate_route (irs_routes sp)))"

text \<open>The first entry point another route of the store already uses, with that route's key.\<close>

definition shared_entrypoint :: "ingress_route_tcp \<Rightarrow> ingress_route_tcp \<Rightarrow> string option" where
  "shared_entrypoint obj other =
     find (\<lambda>ep. ep \<in> set (irs_entryPoints (irt_spec other))) (irs_entryPoints (irt_spec obj))"

fun ingressRouteTCPConflict :: "ingress_route_tcp list \<Rightarrow> ingress_route_tcp \<Rightarrow> (string \<times> nsname) option" where
  "ingressRouteTCPConflict [] obj = None"
| "ingressRouteTCPConflict (other # others) obj =
     (if o_namespace other = o_namespace obj \<and> o_name other = o_name obj
      then ingressRouteTCPConflict others obj
      else case shared_entrypoint obj other of
        Some ep \<Rightarrow> Some (ep, okey other)
      | None \<Rightarrow> ingressRouteTCPConflict others obj)"

end
