(* ===== verification/NetworkAttach.thy ===== *)
theory NetworkAttach
  imports World ServerValidate
begin

text \<open>
  internal/server/network.go and \<open>LastUsableIPv4\<close> of internal/quadlet/pod.go: which namespace
  networks a pod joins and at which address.
\<close>

section \<open>The last usable address\<close>

definition byte_ones :: "nat \<Rightarrow> nat" where
  "byte_ones b = length (filter (\<lambda>i. bit b i) [0..<8])"

fun dec_bytes :: "nat list \<Rightarrow> nat list" where
  "dec_bytes [] = []"
| "dec_bytes (b # bs) = (if b > 0 then (b - 1) # bs else 255 # dec_bytes bs)"

definition LastUsableIPv4 :: "string \<Rightarrow> string option" where
  "LastUsableIPv4 cidr =
     (case ParseCIDR cidr of
        None \<Rightarrow> None
      | Some (i, network, msk) \<Rightarrow>
          (case To4 i of
             None \<Rightarrow> None
           | Some _ \<Rightarrow>
               if 8 * length msk \<noteq> 32 \<or> sum_list (map byte_ones msk) > 30 then None
               else Some (IPString (rev (dec_bytes (rev (map2 (\<lambda>b m. or b (255 - m)) network msk)))))))"

section \<open>Attachments\<close>

definition network_name :: "string \<Rightarrow> string" where
  "network_name ns = ''q8s-'' @ ns"

text \<open>The network operations exist when the systemd manager does.\<close>

definition ensureNetwork :: "server \<Rightarrow> string \<Rightarrow> world \<Rightarrow> bool \<times> world" where
  "ensureNetwork sv ns w =
     (if \<not> sv_manager sv then (False, w)
      else perform sv (StartUnit (network_name ns @ ''-network.service'')) w)"

definition subnetForNamespace :: "server \<Rightarrow> string \<Rightarrow> world \<Rightarrow> string option \<times> world" where
  "subnetForNamespace sv ns w =
     (case mget (w_subnets w) ns of
        Some subnet \<Rightarrow> (Some subnet, w)
      | None \<Rightarrow>
          if \<not> sv_manager sv then (None, w)
          else case sv_subnet sv (w_log w) (network_name ns) of
            None \<Rightarrow> (None, w)
          | Some subnet \<Rightarrow> (Some subnet, w\<lparr>w_subnets := mput ns subnet (w_subnets w)\<rparr>))"

definition dropSubnetCache :: "string \<Rightarrow> world \<Rightarrow> world" where
  "dropSubnetCache ns w = w\<lparr>w_subnets := mdel ns (w_subnets w)\<rparr>"

definition attachAllNetworks :: "pod \<Rightarrow> bool" where
  "attachAllNetworks p \<longleftrightarrow>
     (case lget (om_annotations (o_meta p)) annAttachAllNetworks of
        None \<Rightarrow> False
      | Some v \<Rightarrow> ParseBool v = Some True)"

definition namespaceAttachment :: "server \<Rightarrow> string \<Rightarrow> world \<Rightarrow> network_attachment \<times> world" where
  "namespaceAttachment sv ns w =
     (let (subnet, w1) = subnetForNamespace sv ns w in
      (\<lparr>na_namespace = ns,
        na_ip = (case Option.bind subnet LastUsableIPv4 of None \<Rightarrow> [] | Some addr \<Rightarrow> addr)\<rparr>, w1))"

fun attachments :: "server \<Rightarrow> string list \<Rightarrow> world \<Rightarrow> network_attachment list \<times> world" where
  "attachments sv [] w = ([], w)"
| "attachments sv (ns # nss) w =
     (let (a, w1) = namespaceAttachment sv ns w; (as, w2) = attachments sv nss w1 in (a # as, w2))"

definition sorted_namespaces :: "store \<Rightarrow> string list" where
  "sorted_namespaces s = sort (map (\<lambda>n. o_name n) (ListNamespaces s))"

definition networkAttachments :: "server \<Rightarrow> pod \<Rightarrow> world \<Rightarrow> network_attachment list \<times> world" where
  "networkAttachments sv p w =
     (if ps_hostNetwork (pod_spec p) \<or> \<not> attachAllNetworks p then ([], w)
      else attachments sv (sorted_namespaces (w_store w)) w)"

definition networkAttachmentFor :: "network_attachment list \<Rightarrow> string \<Rightarrow> network_attachment option" where
  "networkAttachmentFor as ns = find (\<lambda>a. na_namespace a = ns) as"

definition podContainerName :: "store \<Rightarrow> string \<Rightarrow> string \<Rightarrow> string \<Rightarrow> string" where
  "podContainerName s ns podName requested =
     (case GetPod ns podName s of
        Inl _ \<Rightarrow> ns @ ''-'' @ podName
      | Inr p \<Rightarrow>
          (case ps_containers (pod_spec p) of
             c # _ # _ \<Rightarrow> ns @ ''-'' @ podName @ ''-'' @ (if requested = [] then c_name c else requested)
           | _ \<Rightarrow> ns @ ''-'' @ podName))"

definition connectAttachAllPod :: "server \<Rightarrow> pod \<Rightarrow> string \<Rightarrow> world \<Rightarrow> world" where
  "connectAttachAllPod sv p ns w =
     (if \<not> sv_manager sv then w
      else
        (let (as, w1) = networkAttachments sv p w in
         case networkAttachmentFor as ns of
           None \<Rightarrow> w1
         | Some a \<Rightarrow> act sv (NetworkConnect (network_name ns)
               (podContainerName (w_store w1) (o_namespace p) (o_name p) []) (na_ip a)) w1))"

end
