(* ===== verification/EnvResolve.thy ===== *)
theory EnvResolve
  imports World
begin

text \<open>
  Environment references of containers, from internal/server/handler.go: values taken from config
  maps and secrets, and the environment file that keeps secret values out of the unit file.
\<close>

datatype env_error =
    MissingKey string string string
  | MissingObject string
  | SecretControl string
  | NoSecretDir
  | EnvFileFailed string

section \<open>Resolving references\<close>

definition is_true :: "bool option \<Rightarrow> bool" where
  "is_true o' \<longleftrightarrow> o' = Some True"

definition config_key :: "store \<Rightarrow> string \<Rightarrow> key_ref \<Rightarrow> string option" where
  "config_key s ns ref =
     (case GetConfigMap ns (kr_name ref) s of Inl _ \<Rightarrow> None | Inr cm \<Rightarrow> mget (cm_data cm) (kr_key ref))"

definition secret_key :: "store \<Rightarrow> string \<Rightarrow> key_ref \<Rightarrow> string option" where
  "secret_key s ns ref =
     (case GetSecret ns (kr_name ref) s of
        Inl _ \<Rightarrow> None
      | Inr sec \<Rightarrow> (case lget (sec_data sec) (kr_key ref) of
            Some v \<Rightarrow> Some v
          | None \<Rightarrow> lget (sec_stringData sec) (kr_key ref)))"

text \<open>
  The two references of one variable in turn: the variable, and whether its value is a secret.
  A missing optional key leaves the reference in place.
\<close>

definition resolve_secret_ref ::
  "store \<Rightarrow> string \<Rightarrow> env_source \<Rightarrow> env_var \<Rightarrow> env_error + env_var \<times> bool" where
  "resolve_secret_ref s ns src ev =
     (case es_secretKeyRef src of
        None \<Rightarrow> Inr (ev\<lparr>env_valueFrom := None\<rparr>, False)
      | Some ref \<Rightarrow> (case secret_key s ns ref of
          Some v \<Rightarrow> Inr (ev\<lparr>env_value := v, env_valueFrom := None\<rparr>, True)
        | None \<Rightarrow> if is_true (kr_optional ref) then Inr (ev, False)
                  else Inl (MissingKey (env_name ev) (kr_name ref) (kr_key ref))))"

definition resolve_var :: "store \<Rightarrow> string \<Rightarrow> env_var \<Rightarrow> env_error + env_var \<times> bool" where
  "resolve_var s ns ev =
     (case env_valueFrom ev of
        None \<Rightarrow> Inr (ev, False)
      | Some src \<Rightarrow> (case es_configMapKeyRef src of
          None \<Rightarrow> resolve_secret_ref s ns src ev
        | Some ref \<Rightarrow> (case config_key s ns ref of
            Some v \<Rightarrow> resolve_secret_ref s ns src (ev\<lparr>env_value := v\<rparr>)
          | None \<Rightarrow> if is_true (kr_optional ref) then Inr (ev, False)
                    else Inl (MissingKey (env_name ev) (kr_name ref) (kr_key ref)))))"

definition imported :: "string \<Rightarrow> strmap \<Rightarrow> env_var list" where
  "imported prefix m =
     map (\<lambda>(k, v). \<lparr>env_name = prefix @ k, env_value = v, env_valueFrom = None\<rparr>) (sort_key fst m)"

text \<open>One \<open>envFrom\<close> entry: the variables of the config map, then those of the secret.\<close>

definition import_secret :: "store \<Rightarrow> string \<Rightarrow> env_from \<Rightarrow> env_error + env_var list" where
  "import_secret s ns ef =
     (case ef_secretRef ef of
        None \<Rightarrow> Inr []
      | Some (name, opt) \<Rightarrow> (case GetSecret ns name s of
          Inl _ \<Rightarrow> if is_true opt then Inr [] else Inl (MissingObject name)
        | Inr sec \<Rightarrow> Inr (imported (ef_prefix ef) (lmap (sec_data sec))
                        @ imported (ef_prefix ef) (lmap (sec_stringData sec)))))"

definition import_env :: "store \<Rightarrow> string \<Rightarrow> env_from \<Rightarrow> env_error + env_var list \<times> env_var list" where
  "import_env s ns ef =
     (case ef_configMapRef ef of
        None \<Rightarrow> rbind (import_secret s ns ef) (\<lambda>ss. Inr ([], ss))
      | Some (name, opt) \<Rightarrow> (case GetConfigMap ns name s of
          Inl _ \<Rightarrow> if is_true opt then Inr ([], []) else Inl (MissingObject name)
        | Inr cm \<Rightarrow> rbind (import_secret s ns ef) (\<lambda>ss. Inr (imported (ef_prefix ef) (cm_data cm), ss))))"

text \<open>A container with its references resolved, and the names of its secret variables.\<close>

definition resolve_container :: "store \<Rightarrow> string \<Rightarrow> container \<Rightarrow> env_error + container \<times> string list" where
  "resolve_container s ns c =
     rbind (map_result (resolve_var s ns) (c_env c)) (\<lambda>vars.
     rbind (map_result (import_env s ns) (c_envFrom c)) (\<lambda>imports.
       Inr (c\<lparr>c_env := map fst vars @ concat (map (\<lambda>(cs, ss). cs @ ss) imports), c_envFrom := []\<rparr>,
            map (env_name \<circ> fst) (filter snd vars) @ map env_name (concat (map snd imports)))))"

definition resolveContainerEnv ::
  "store \<Rightarrow> string \<Rightarrow> container list \<Rightarrow> env_error + container list \<times> string list" where
  "resolveContainerEnv s ns cs =
     rbind (map_result (resolve_container s ns) cs) (\<lambda>rs. Inr (map fst rs, concat (map snd rs)))"

section \<open>The environment file\<close>

definition secretBaseDir :: "server \<Rightarrow> string" where
  "secretBaseDir sv =
     (if sv_ConfigDir sv = [] then [] else PathJoin [PathDir (sv_ConfigDir sv), ''secrets''])"

definition env_dir :: "server \<Rightarrow> string \<Rightarrow> string" where
  "env_dir sv ns = PathJoin [secretBaseDir sv, ns, ''_env'']"

definition env_file_entry :: "env_var \<Rightarrow> env_error + string" where
  "env_file_entry ev =
     (if list_ex (\<lambda>c. c = newline \<or> c = CHR 0x0D \<or> c = CHR 0x00) (env_value ev)
      then Inl (SecretControl (env_name ev))
      else Inr (ln (env_name ev @ ''='' @ env_value ev)))"

definition writeEnvFile ::
  "server \<Rightarrow> string \<Rightarrow> string \<Rightarrow> container list \<Rightarrow> string list \<Rightarrow> world
    \<Rightarrow> (env_error + container list \<times> string) \<times> world" where
  "writeEnvFile sv ns name cs secretNames w =
     (if length cs = 0 \<or> length secretNames = 0 then (Inr (cs, []), w)
      else case map_result env_file_entry
             (filter (\<lambda>ev. env_name ev \<in> set secretNames) (concat (map c_env cs))) of
        Inl e \<Rightarrow> (Inl e, w)
      | Inr entries \<Rightarrow>
          (let kept = map (\<lambda>c. c\<lparr>c_env := filter (\<lambda>ev. env_name ev \<notin> set secretNames) (c_env c)\<rparr>) cs in
           if length (concat entries) = 0 then (Inr (kept, []), w)
           else if secretBaseDir sv = [] then (Inl NoSecretDir, w)
           else
             (let dir = env_dir sv ns; (ok, w1) = perform sv (MkdirAll dir) w in
              if \<not> ok then (Inl (EnvFileFailed name), w1)
              else
                (let (ok2, w2) = perform sv (WriteFile dir (name @ ''.env'') (concat entries)) w1 in
                 if \<not> ok2 then (Inl (EnvFileFailed name), w2)
                 else (Inr (kept, PathJoin [dir, name @ ''.env'']), w2)))))"

definition resolve_env ::
  "server \<Rightarrow> string \<Rightarrow> string \<Rightarrow> container list \<Rightarrow> world \<Rightarrow> (env_error + container list \<times> string) \<times> world" where
  "resolve_env sv ns name cs w =
     (case resolveContainerEnv (w_store w) ns cs of
        Inl e \<Rightarrow> (Inl e, w)
      | Inr (cs', secretNames) \<Rightarrow> writeEnvFile sv ns name cs' secretNames w)"

definition resolveEnvFrom :: "server \<Rightarrow> pod \<Rightarrow> world \<Rightarrow> (env_error + pod \<times> string) \<times> world" where
  "resolveEnvFrom sv p w =
     (let (r, w1) = resolve_env sv (o_namespace p) (o_name p) (ps_containers (pod_spec p)) w in
      (rbind r (\<lambda>(cs, path). Inr (p\<lparr>pod_spec := (pod_spec p)\<lparr>ps_containers := cs\<rparr>\<rparr>, path)), w1))"

definition with_containers :: "container list \<Rightarrow> pod_template \<Rightarrow> pod_template" where
  "with_containers cs t = t\<lparr>pt_spec := (pt_spec t)\<lparr>ps_containers := cs\<rparr>\<rparr>"

definition resolvedJobEnv :: "server \<Rightarrow> job \<Rightarrow> world \<Rightarrow> (env_error + job \<times> string) \<times> world" where
  "resolvedJobEnv sv j w =
     (let (r, w1) = resolve_env sv (o_namespace j) (o_name j @ ''-job'')
            (ps_containers (pt_spec (job_template j))) w in
      (rbind r (\<lambda>(cs, path). Inr (j\<lparr>job_template := with_containers cs (job_template j)\<rparr>, path)), w1))"

definition resolvedCronJobEnv :: "server \<Rightarrow> cronjob \<Rightarrow> world \<Rightarrow> (env_error + cronjob \<times> string) \<times> world" where
  "resolvedCronJobEnv sv cj w =
     (let (r, w1) = resolve_env sv (o_namespace cj) (o_name cj @ ''-cron'')
            (ps_containers (pt_spec (cj_template cj))) w in
      (rbind r (\<lambda>(cs, path). Inr (cj\<lparr>cj_template := with_containers cs (cj_template cj)\<rparr>, path)), w1))"

end
