(* ===== verification/Selector.thy ===== *)
theory Selector
  imports K8s GoStrings
begin

text \<open>
  internal/server/selector.go: label selectors of list requests and the equality selectors of
  services.
\<close>

datatype selOp = SelEquals | SelNotEquals | SelExists | SelNotExists

record labelRequirement =
  lr_key :: string
  lr_value :: string
  lr_op :: selOp

definition parse_requirement :: "string \<Rightarrow> labelRequirement" where
  "parse_requirement part =
     (case Index part ''!='' of
        Some i \<Rightarrow> \<lparr>lr_key = TrimSpace (take i part), lr_value = TrimSpace (drop (i + 2) part), lr_op = SelNotEquals\<rparr>
      | None \<Rightarrow>
     (if HasPrefix part ''!'' then \<lparr>lr_key = TrimSpace (drop 1 part), lr_value = [], lr_op = SelNotExists\<rparr>
      else case Index part ''=='' of
        Some i \<Rightarrow> \<lparr>lr_key = TrimSpace (take i part), lr_value = TrimSpace (drop (i + 2) part), lr_op = SelEquals\<rparr>
      | None \<Rightarrow>
     (case Index part ''='' of
        Some i \<Rightarrow> \<lparr>lr_key = TrimSpace (take i part), lr_value = TrimSpace (drop (i + 1) part), lr_op = SelEquals\<rparr>
      | None \<Rightarrow> \<lparr>lr_key = part, lr_value = [], lr_op = SelExists\<rparr>)))"

definition parseLabelSelector :: "string \<Rightarrow> labelRequirement list" where
  "parseLabelSelector sel =
     (if sel = [] then []
      else map parse_requirement (filter (\<lambda>p. p \<noteq> []) (map TrimSpace (Split sel (CHR '','')))))"

definition matches_requirement :: "strmap \<Rightarrow> labelRequirement \<Rightarrow> bool" where
  "matches_requirement labels req =
     (let v = mget labels (lr_key req) in
      case lr_op req of
        SelEquals \<Rightarrow> v = Some (lr_value req)
      | SelNotEquals \<Rightarrow> v \<noteq> Some (lr_value req)
      | SelExists \<Rightarrow> v \<noteq> None
      | SelNotExists \<Rightarrow> v = None)"

definition matchesSelector :: "strmap \<Rightarrow> labelRequirement list \<Rightarrow> bool" where
  "matchesSelector labels reqs = list_all (matches_requirement labels) reqs"

text \<open>A missing label reads as the empty string.\<close>

definition label_or_empty :: "strmap \<Rightarrow> string \<Rightarrow> string" where
  "label_or_empty labels k = (case mget labels k of Some v \<Rightarrow> v | None \<Rightarrow> [])"

definition matchesEqualitySelector :: "strmap \<Rightarrow> strmap \<Rightarrow> bool" where
  "matchesEqualitySelector labels selector =
     (if length selector = 0 then False
      else list_all (\<lambda>(k, v). label_or_empty labels k = v) selector)"

section \<open>Printing selectors\<close>

fun print_requirement :: "labelRequirement \<Rightarrow> string" where
  "print_requirement r =
     (case lr_op r of
        SelEquals \<Rightarrow> lr_key r @ ''='' @ lr_value r
      | SelNotEquals \<Rightarrow> lr_key r @ ''!='' @ lr_value r
      | SelExists \<Rightarrow> lr_key r
      | SelNotExists \<Rightarrow> ''!'' @ lr_key r)"

definition print_selector :: "labelRequirement list \<Rightarrow> string" where
  "print_selector reqs = Join (map print_requirement reqs) '',''"

text \<open>The bytes of label keys and values: no separators, no spaces.\<close>

definition label_byte :: "char \<Rightarrow> bool" where
  "label_byte c \<longleftrightarrow> bcode c < 128 \<and> \<not> IsSpace (bcode c) \<and> c \<noteq> CHR '','' \<and> c \<noteq> CHR ''='' \<and> c \<noteq> CHR ''!''"

definition plain_requirement :: "labelRequirement \<Rightarrow> bool" where
  "plain_requirement r \<longleftrightarrow> lr_key r \<noteq> [] \<and> list_all label_byte (lr_key r) \<and> list_all label_byte (lr_value r) \<and>
     (lr_op r \<in> {SelExists, SelNotExists} \<longrightarrow> lr_value r = [])"

lemma go_chunks_all_ascii: "\<forall>c \<in> set s. bcode c < 128 \<Longrightarrow> go_chunks s = map (\<lambda>c. (bcode c, [c])) s"
  by (induction s) auto

lemma TrimSpace_plain: "\<forall>c \<in> set s. bcode c < 128 \<and> \<not> IsSpace (bcode c) \<Longrightarrow> TrimSpace s = s"
proof -
  assume s: "\<forall>c \<in> set s. bcode c < 128 \<and> \<not> IsSpace (bcode c)"
  have "dropWhile (IsSpace \<circ> fst) (go_chunks t) = go_chunks t \<and>
      dropWhile (IsSpace \<circ> fst) (rev (go_chunks t)) = rev (go_chunks t)"
    if "\<forall>c \<in> set t. bcode c < 128 \<and> \<not> IsSpace (bcode c)" for t
  proof -
    have "go_chunks t = map (\<lambda>c. (bcode c, [c])) t" using that by (intro go_chunks_all_ascii) auto
    then show ?thesis using that by (auto simp: dropWhile_eq_self_iff hd_map hd_rev last_map)
  qed
  from this [OF s] show ?thesis by (simp add: TrimSpace_def concat_go_chunks)
qed

lemma Index_absent: "x \<in> set sub \<Longrightarrow> x \<notin> set s \<Longrightarrow> Index s sub = None"
proof (induction s)
  case Nil
  then show ?case by auto
next
  case (Cons c s)
  have "\<not> HasPrefix (c # s) sub"
    using Cons.prems unfolding HasPrefix_def by (metis in_set_takeD)
  with Cons show ?case by simp
qed

lemma Index_first: "x \<notin> set a \<Longrightarrow> Index (a @ x # sub @ t) (x # sub) = Some (length a)"
proof (induction a)
  case Nil
  then show ?case by (simp add: HasPrefix_def)
next
  case (Cons c a)
  then have "\<not> HasPrefix (c # a @ x # sub @ t) (x # sub)" by (auto simp: HasPrefix_def)
  with Cons show ?case by simp
qed

lemma Index_single: "x \<notin> set a \<Longrightarrow> x \<notin> set b \<Longrightarrow> Index (a @ x # b) [x, x] = None"
proof (induction a)
  case Nil
  then have "\<not> HasPrefix (x # b) [x, x]" by (cases b) (auto simp: HasPrefix_def)
  moreover have "Index b [x, x] = None" using Nil by (intro Index_absent) auto
  ultimately show ?case by simp
next
  case (Cons c a)
  then have "\<not> HasPrefix (c # a @ x # b) [x, x]" by (auto simp: HasPrefix_def)
  with Cons show ?case by simp
qed

lemma label_bytes:
  "list_all label_byte s \<Longrightarrow> CHR ''='' \<notin> set s \<and> CHR ''!'' \<notin> set s \<and> CHR '','' \<notin> set s \<and>
    (\<forall>c \<in> set s. bcode c < 128 \<and> \<not> IsSpace (bcode c))"
  by (auto simp: list_all_iff label_byte_def)

lemma parse_print_requirement:
  assumes "plain_requirement r"
  shows "parse_requirement (print_requirement r) = r"
proof -
  obtain k v op where r: "r = \<lparr>lr_key = k, lr_value = v, lr_op = op\<rparr>" by (cases r)
  from assms have k: "k \<noteq> []" "list_all label_byte k" and v: "list_all label_byte v"
    and no_value: "op \<in> {SelExists, SelNotExists} \<Longrightarrow> v = []"
    by (auto simp: plain_requirement_def r)
  note kb = label_bytes [OF k(2)] and vb = label_bytes [OF v]
  have trim: "TrimSpace k = k" "TrimSpace v = v" using TrimSpace_plain kb vb by blast+
  have pre: "\<not> HasPrefix (k @ t) ''!''" for t using k(1) kb by (cases k) (auto simp: HasPrefix_def)
  have "\<not> HasPrefix (CHR ''!'' # k) ''!=''" using kb k(1) by (cases k) (auto simp: HasPrefix_def)
  then have none: "Index k ''!='' = None" "Index k ''=='' = None" "Index k ''='' = None"
    "Index (CHR ''!'' # k) ''!='' = None"
    using kb Index_absent [of "CHR ''=''"] by auto
  show ?thesis
  proof (cases op)
    case SelEquals
    have "Index (k @ CHR ''='' # v) ''!='' = None" using kb vb by (intro Index_absent [of "CHR ''!''"]) auto
    moreover have "Index (k @ CHR ''='' # v) ''=='' = None" using kb vb by (intro Index_single) auto
    moreover have "Index (k @ CHR ''='' # v) ''='' = Some (length k)"
      using Index_first [of "CHR ''=''" k "[]" v] kb by simp
    ultimately show ?thesis using SelEquals trim pre by (simp add: r parse_requirement_def)
  next
    case SelNotEquals
    have "Index (k @ CHR ''!'' # CHR ''='' # v) ''!='' = Some (length k)"
      using Index_first [of "CHR ''!''" k "''=''" v] kb by simp
    then show ?thesis using SelNotEquals trim by (simp add: r parse_requirement_def)
  next
    case SelExists
    then show ?thesis using none pre [of "[]"] no_value by (simp add: r parse_requirement_def)
  next
    case SelNotExists
    then show ?thesis using none trim no_value
      by (simp add: r parse_requirement_def HasPrefix_def)
  qed
qed

lemma print_requirement_bytes:
  assumes "plain_requirement r"
  shows "print_requirement r \<noteq> [] \<and> CHR '','' \<notin> set (print_requirement r) \<and>
    TrimSpace (print_requirement r) = print_requirement r"
proof -
  from assms have b: "\<forall>c \<in> set (lr_key r) \<union> set (lr_value r). label_byte c" and ne: "lr_key r \<noteq> []"
    by (auto simp: plain_requirement_def list_all_iff)
  have "c \<in> set (lr_key r) \<union> set (lr_value r) \<or> c = CHR ''='' \<or> c = CHR ''!''"
    if "c \<in> set (print_requirement r)" for c
    using that by (auto split: selOp.splits)
  then have "bcode c < 128 \<and> \<not> IsSpace (bcode c) \<and> c \<noteq> CHR '',''" if "c \<in> set (print_requirement r)" for c
    using that b by (fastforce simp: label_byte_def IsSpace_def)
  then have "TrimSpace (print_requirement r) = print_requirement r" "CHR '','' \<notin> set (print_requirement r)"
    using TrimSpace_plain by blast+
  with ne show ?thesis by (auto split: selOp.split)
qed

lemma parse_print_selector:
  assumes "list_all plain_requirement reqs"
  shows "parseLabelSelector (print_selector reqs) = reqs"
proof (cases reqs)
  case (Cons r rs)
  have all: "\<forall>r \<in> set reqs. plain_requirement r" using assms by (simp add: list_all_iff)
  have sp: "Split (print_selector reqs) (CHR '','') = map print_requirement reqs"
    unfolding print_selector_def
    using Cons all print_requirement_bytes by (intro Split_Join) auto
  have "print_selector reqs \<noteq> []"
    using sp all print_requirement_bytes Cons by force
  moreover have "map parse_requirement (filter (\<lambda>p. p \<noteq> []) (map TrimSpace (map print_requirement reqs))) = reqs"
    using all
  proof (induction reqs)
    case (Cons r rs)
    then show ?case
      using print_requirement_bytes [of r] parse_print_requirement [of r]
      by (simp del: print_requirement.simps)
  qed simp
  ultimately show ?thesis by (simp add: parseLabelSelector_def sp)
qed (simp add: print_selector_def parseLabelSelector_def)

end
