(* ===== verification/NodePorts.thy ===== *)
theory NodePorts
  imports StoreMachine Selector "HOL-Library.List_Lexorder" "HOL-Library.Char_ord"
begin

text \<open>
  Node ports: the allocation in internal/store/store.go and its users in
  internal/server/handler.go, which keep the ports of NodePort services in range, apart from
  each other and apart from the host ports of pods.
\<close>

section \<open>Allocation in the store\<close>

definition NodePortMin :: int where "NodePortMin = 30000"
definition NodePortMax :: int where "NodePortMax = 32767"

definition publishes :: "podspec \<Rightarrow> int \<Rightarrow> bool" where
  "publishes sp port \<longleftrightarrow> list_ex (\<lambda>c. list_ex (\<lambda>cp. cp_hostPort cp = port) (c_ports c)) (ps_containers sp)"

definition nodePortInUse :: "int \<Rightarrow> nsname \<Rightarrow> store \<Rightarrow> bool" where
  "nodePortInUse port exceptSvc s \<longleftrightarrow>
     list_ex (\<lambda>(key, svc). key \<noteq> exceptSvc \<and> list_ex (\<lambda>sp. sp_nodePort sp = port) (svc_ports svc)) (s_services s) \<or>
     list_ex (\<lambda>(_, p). publishes (pod_spec p) port) (s_pods s)"

text \<open>The search from a port upwards, 0 when the range is exhausted.\<close>

function alloc_from :: "(int \<Rightarrow> bool) \<Rightarrow> int \<Rightarrow> int" where
  "alloc_from in_use p = (if p > NodePortMax then 0 else if \<not> in_use p then p else alloc_from in_use (p + 1))"
  by auto
termination
  by (relation "measure (\<lambda>(_, p). nat (NodePortMax + 1 - p))") auto

declare alloc_from.simps [simp del]

definition AllocateNodePort :: "nsname \<Rightarrow> store \<Rightarrow> int" where
  "AllocateNodePort svc s = alloc_from (\<lambda>p. nodePortInUse p svc s) NodePortMin"

definition NodePortAvailable :: "int \<Rightarrow> nsname \<Rightarrow> store \<Rightarrow> bool" where
  "NodePortAvailable port svc s \<longleftrightarrow>
     (if port < NodePortMin \<or> port > NodePortMax then False else \<not> nodePortInUse port svc s)"

lemma alloc_from_spec:
  "alloc_from in_use p = q \<Longrightarrow> (q = 0 \<and> (\<forall>r. p \<le> r \<and> r \<le> NodePortMax \<longrightarrow> in_use r)) \<or>
    (p \<le> q \<and> q \<le> NodePortMax \<and> \<not> in_use q \<and> (\<forall>r. p \<le> r \<and> r < q \<longrightarrow> in_use r))"
proof (induction in_use p rule: alloc_from.induct)
  case (1 in_use p)
  note unfold = alloc_from.simps [of in_use p]
  consider "p > NodePortMax" | "p \<le> NodePortMax" "\<not> in_use p" | "p \<le> NodePortMax" "in_use p" by linarith
  then show ?case
  proof cases
    case 1
    then have "q = 0" using "1.prems" unfold by simp
    with 1 show ?thesis by (intro disjI1 conjI allI impI) auto
  next
    case 2
    then have "q = p" using "1.prems" unfold by simp
    with 2 show ?thesis by (intro disjI2 conjI allI impI) auto
  next
    case 3
    then have "alloc_from in_use (p + 1) = q" using "1.prems" unfold by simp
    with 3 have IH: "(q = 0 \<and> (\<forall>r. p + 1 \<le> r \<and> r \<le> NodePortMax \<longrightarrow> in_use r)) \<or>
        (p + 1 \<le> q \<and> q \<le> NodePortMax \<and> \<not> in_use q \<and> (\<forall>r. p + 1 \<le> r \<and> r < q \<longrightarrow> in_use r))"
      using "1.IH" by simp
    have low: "in_use r" if "p \<le> r" "\<not> p + 1 \<le> r" for r
      using that 3(2) by (cases "r = p") auto
    from IH show ?thesis
    proof (elim disjE)
      assume "q = 0 \<and> (\<forall>r. p + 1 \<le> r \<and> r \<le> NodePortMax \<longrightarrow> in_use r)"
      then show ?thesis using low by blast
    next
      assume "p + 1 \<le> q \<and> q \<le> NodePortMax \<and> \<not> in_use q \<and> (\<forall>r. p + 1 \<le> r \<and> r < q \<longrightarrow> in_use r)"
      then show ?thesis using low by (intro disjI2) auto
    qed
  qed
qed

section \<open>Assignment by the API server\<close>

datatype nodeport_error =
    PortTaken int
  | RangeExhausted
  | ManyBackingPods nat

definition assign_port :: "nsname \<Rightarrow> store \<Rightarrow> service_port \<Rightarrow> nodeport_error + service_port" where
  "assign_port key s p =
     (if sp_nodePort p \<noteq> 0 then
        (if \<not> NodePortAvailable (sp_nodePort p) key s then Inl (PortTaken (sp_nodePort p)) else Inr p)
      else
        (let alloc = AllocateNodePort key s in
         if alloc = 0 then Inl RangeExhausted else Inr (p\<lparr>sp_nodePort := alloc\<rparr>)))"

definition NodePortType :: string where "NodePortType = ''NodePort''"

definition assignNodePorts :: "store \<Rightarrow> service \<Rightarrow> nodeport_error + service" where
  "assignNodePorts s svc =
     (if svc_type svc \<noteq> NodePortType then Inr svc
      else rbind (map_result (assign_port (okey svc) s) (svc_ports svc)) (\<lambda>ports.
           Inr (svc\<lparr>svc_ports := ports\<rparr>)))"

text \<open>The first host port of a pod that is a node port of the service, with the pod's key.\<close>

definition port_conflicts :: "service \<Rightarrow> podspec \<Rightarrow> int list" where
  "port_conflicts svc sp =
     filter (\<lambda>h. h \<noteq> 0 \<and> list_ex (\<lambda>p. sp_nodePort p \<noteq> 0 \<and> sp_nodePort p = h) (svc_ports svc))
       (map cp_hostPort (concat (map c_ports (ps_containers sp))))"

definition first_conflict :: "(nsname \<times> int list) list \<Rightarrow> (int \<times> nsname) option" where
  "first_conflict xs =
     (case filter (\<lambda>(_, hs). hs \<noteq> []) xs of (k, h # _) # _ \<Rightarrow> Some (h, k) | _ \<Rightarrow> None)"

definition serviceNodePortConflict :: "store \<Rightarrow> service \<Rightarrow> (int \<times> nsname) option" where
  "serviceNodePortConflict s svc =
     (if svc_type svc \<noteq> NodePortType then None
      else first_conflict (map (\<lambda>p. (okey p, port_conflicts svc (pod_spec p))) (AllPods s)))"

definition podNodePortConflict :: "store \<Rightarrow> pod \<Rightarrow> (int \<times> nsname) option" where
  "podNodePortConflict s p =
     first_conflict (map (\<lambda>svc. (okey svc, port_conflicts svc (pod_spec p)))
       (filter (\<lambda>svc. svc_type svc = NodePortType) (AllServices s)))"

definition nodePortBackingPods :: "store \<Rightarrow> service \<Rightarrow> pod list" where
  "nodePortBackingPods s svc =
     filter (\<lambda>p. matchesEqualitySelector (lmap (om_labels (o_meta p))) (svc_selector svc))
       (PodsIn (o_namespace svc) s)"

definition target_port :: "service_port \<Rightarrow> int" where
  "target_port sp =
     (let target = (case sp_targetPort sp of IntPort n \<Rightarrow> n | StrPort _ \<Rightarrow> 0) in
      if target = 0 then sp_port sp else target)"

definition nodePortHostPorts :: "store \<Rightarrow> pod \<Rightarrow> (int, int) gomap" where
  "nodePortHostPorts s p =
     foldl (\<lambda>out svc.
       if svc_type svc \<noteq> NodePortType then out
       else if \<not> matchesEqualitySelector (lmap (om_labels (o_meta p))) (svc_selector svc) then out
       else foldl (\<lambda>out sp. if sp_nodePort sp = 0 then out else mput (target_port sp) (sp_nodePort sp) out)
              out (svc_ports svc))
     [] (ServicesIn (o_namespace p) s)"

definition matchingServiceAliases :: "store \<Rightarrow> string \<Rightarrow> strmap \<Rightarrow> string list" where
  "matchingServiceAliases s ns labels =
     sort (map (\<lambda>svc. o_name svc)
       (filter (\<lambda>svc. matchesEqualitySelector labels (svc_selector svc)) (ServicesIn ns s)))"

section \<open>Deployment instances\<close>

definition deploymentReplicas :: "deployment \<Rightarrow> int" where
  "deploymentReplicas dep =
     (case ds_replicas (dep_spec dep) of None \<Rightarrow> 1 | Some n \<Rightarrow> if n < 0 then 0 else n)"

definition isDeploymentOwned :: "'a kobj_scheme \<Rightarrow> bool" where
  "isDeploymentOwned p \<longleftrightarrow> list_ex (\<lambda>r. or_kind r = ''Deployment'') (om_ownerReferences (o_meta p))"

definition published_port :: "int \<Rightarrow> int \<Rightarrow> container_port" where
  "published_port target nodePort =
     \<lparr>cp_name = [], cp_hostPort = nodePort, cp_containerPort = target, cp_protocol = ''TCP'', cp_hostIP = []\<rparr>"

definition withNodePortPublish :: "store \<Rightarrow> pod \<Rightarrow> pod" where
  "withNodePortPublish s p =
     (let bindings = nodePortHostPorts s p in
      case ps_containers (pod_spec p) of
        [] \<Rightarrow> p
      | c # cs \<Rightarrow>
          if length bindings = 0 then p
          else p\<lparr>pod_spec := (pod_spec p)\<lparr>ps_containers :=
            c\<lparr>c_ports := c_ports c @ map (\<lambda>t. published_port t
                (case mget bindings t of Some n \<Rightarrow> n | None \<Rightarrow> 0)) (sort (map fst bindings))\<rparr> # cs\<rparr>\<rparr>)"

end
