(* ===== verification/YamlText.thy ===== *)
theory YamlText
  imports UnitText
begin

text \<open>
  Quoted text in the generated YAML: Go's \<open>%q\<close> (\<open>strconv.Quote\<close>) and the reading of a
  double-quoted YAML scalar, which inverts it.
\<close>

section \<open>\<open>strconv.Quote\<close>\<close>

fun hex_rune :: "nat \<Rightarrow> nat \<Rightarrow> string" where
  "hex_rune 0 r = []"
| "hex_rune (Suc k) r = hexdigit (r div 16 ^ k mod 16) # hex_rune k r"

text \<open>Which runes beyond ASCII are printable is a table of the unicode package: \<open>isPrint\<close>.\<close>

definition quote_rune :: "(nat \<Rightarrow> bool) \<Rightarrow> nat \<times> string \<Rightarrow> string" where
  "quote_rune isPrint ch =
     (case ch of (r, w) \<Rightarrow>
        if r = RuneError \<and> length w = 1 then backslash # CHR ''x'' # hex_rune 2 (bcode (hd w))
        else if r = 34 \<or> r = 92 then backslash # w
        else if (32 \<le> r \<and> r < 127) \<or> (128 \<le> r \<and> isPrint r) then w
        else if r = 7 then [backslash, CHR ''a'']
        else if r = 8 then [backslash, CHR ''b'']
        else if r = 12 then [backslash, CHR ''f'']
        else if r = 10 then [backslash, CHR ''n'']
        else if r = 13 then [backslash, CHR ''r'']
        else if r = 9 then [backslash, CHR ''t'']
        else if r = 11 then [backslash, CHR ''v'']
        else if r < 32 \<or> r = 127 then backslash # CHR ''x'' # hex_rune 2 r
        else if r < 65536 then backslash # CHR ''u'' # hex_rune 4 r
        else backslash # CHR ''U'' # hex_rune 8 r)"

definition go_quote :: "(nat \<Rightarrow> bool) \<Rightarrow> string \<Rightarrow> string" where
  "go_quote isPrint s = [dquote] @ concat (map (quote_rune isPrint) (go_chunks s)) @ [dquote]"

section \<open>Double-quoted scalars\<close>

definition hex_num :: "string \<Rightarrow> nat" where
  "hex_num ds = foldl (\<lambda>a c. a * 16 + hexval c) 0 ds"

definition yaml_escape :: "char \<Rightarrow> nat option" where
  "yaml_escape d =
     map_of [(CHR ''0'', 0), (CHR ''a'', 7), (CHR ''b'', 8), (CHR ''t'', 9), (CHR ''n'', 10),
       (CHR ''v'', 11), (CHR ''f'', 12), (CHR ''r'', 13), (CHR ''e'', 27), (CHR '' '', 32),
       (dquote, 34), (CHR ''/'', 47), (backslash, 92), (CHR ''N'', 133), (CHR ''_'', 160),
       (CHR ''L'', 8232), (CHR ''P'', 8233)] d"

definition hex_width :: "char \<Rightarrow> nat option" where
  "hex_width d = map_of [(CHR ''x'', 2), (CHR ''u'', 4), (CHR ''U'', 8)] d"

text \<open>From behind the opening quote: the text of the scalar and what follows the closing quote.\<close>

fun yaml_scalar :: "string \<Rightarrow> (string \<times> string) option" where
  "yaml_scalar [] = None"
| "yaml_scalar (c # cs) =
     (if c = dquote then Some ([], cs)
      else if c = backslash then
        (case cs of
           [] \<Rightarrow> None
         | d # ds \<Rightarrow>
             (case hex_width d of
                Some k \<Rightarrow>
                  if length ds < k then None
                  else map_option (\<lambda>(s, t). (EncodeRune (hex_num (take k ds)) @ s, t)) (yaml_scalar (drop k ds))
              | None \<Rightarrow>
                  (case yaml_escape d of
                     None \<Rightarrow> None
                   | Some r \<Rightarrow> map_option (\<lambda>(s, t). (EncodeRune r @ s, t)) (yaml_scalar ds))))
      else map_option (\<lambda>(s, t). (c # s, t)) (yaml_scalar cs))"

declare yaml_scalar.simps(2) [simp del]

lemma length_hex_rune [simp]: "length (hex_rune k r) = k"
  by (induction k) auto

lemma foldl_hex_rune:
  "foldl (\<lambda>a c. a * 16 + hexval c) acc (hex_rune k r) = acc * 16 ^ k + r mod 16 ^ k"
proof (induction k arbitrary: acc)
  case (Suc k)
  have "r mod 16 ^ Suc k = (r div 16 ^ k mod 16) * 16 ^ k + r mod 16 ^ k"
    using mod_mult2_eq [of r "16 ^ k" 16] by (simp add: mult.commute)
  with Suc show ?case by (simp add: hexval_hexdigit algebra_simps)
qed simp

lemma hex_num_rune: "r < 16 ^ k \<Longrightarrow> hex_num (hex_rune k r) = r"
  using foldl_hex_rune [of 0 k r] by (simp add: hex_num_def)

lemma yaml_scalar_plain:
  "\<forall>c \<in> set w. c \<noteq> dquote \<and> c \<noteq> backslash \<Longrightarrow>
    yaml_scalar (w @ X) = map_option (\<lambda>(s, t). (w @ s, t)) (yaml_scalar X)"
  by (cases "yaml_scalar X"; induction w) (auto simp: yaml_scalar.simps)

lemma yaml_scalar_esc:
  "hex_width d = None \<Longrightarrow> yaml_escape d = Some r \<Longrightarrow>
    yaml_scalar (backslash # d # X) = map_option (\<lambda>(s, t). (EncodeRune r @ s, t)) (yaml_scalar X)"
  by (simp add: yaml_scalar.simps backslash_def dquote_def)

lemma yaml_scalar_hex:
  "hex_width d = Some k \<Longrightarrow> r < 16 ^ k \<Longrightarrow>
    yaml_scalar (backslash # d # hex_rune k r @ X) = map_option (\<lambda>(s, t). (EncodeRune r @ s, t)) (yaml_scalar X)"
  by (simp add: yaml_scalar.simps backslash_def dquote_def hex_num_rune)

lemma special_chars: "bcode dquote = 34" "bcode backslash = 92"
  by (simp_all add: dquote_def backslash_def)

lemma bcode_bound: "bcode c < 256"
  by (cases c) (simp add: of_char_def)

lemma DecodeRune_bound: "fst (DecodeRune (c # cs)) < 16 ^ 8"
proof -
  have b: "bcode x - k < 256" for x k using bcode_bound [of x] by (rule less_imp_diff_less)
  have b2: "(bcode c - 192) * 64 + (bcode d - 128) < 16 ^ 8" for d
    using b [of c 192] b [of d 128] by simp
  have b3: "(bcode c - 224) * 4096 + (bcode d - 128) * 64 + (bcode e - 128) < 16 ^ 8" for d e
    using b [of c 224] b [of d 128] b [of e 128] by simp
  have b4: "(bcode c - 240) * 262144 + (bcode d - 128) * 4096 + (bcode e - 128) * 64 + (bcode f - 128) < 16 ^ 8"
    for d e f
    using b [of c 240] b [of d 128] b [of e 128] b [of f 128] by simp
  have err: "RuneError < 16 ^ 8" by simp
  have "fst (decode2 (bcode c) cs) < 16 ^ 8"
    using decode2_cases [of "bcode c" cs] by (elim disjE exE conjE) (simp_all only: fst_conv b2 err)
  moreover have "fst (decode3 (bcode c) cs) < 16 ^ 8"
    using decode3_cases [of "bcode c" cs] by (elim disjE exE conjE) (simp_all only: fst_conv b3 err)
  moreover have "fst (decode4 (bcode c) cs) < 16 ^ 8"
    using decode4_cases [of "bcode c" cs] by (elim disjE exE conjE) (simp_all only: fst_conv b4 err)
  moreover have "bcode c < 16 ^ 8" by (rule less_le_trans [OF bcode_bound]) simp
  ultimately show ?thesis by (simp add: DecodeRune.simps del: decode2.simps decode3.simps decode4.simps)
qed

lemma go_chunk_bound: "(r, w) \<in> set (go_chunks s) \<Longrightarrow> r < 16 ^ 8"
proof (induction s rule: go_chunks.induct)
  case (2 c cs)
  obtain r0 n where dec: "DecodeRune (c # cs) = (r0, n)" by fastforce
  with 2 DecodeRune_bound [of c cs] show ?case by (auto simp: go_chunks.simps(2))
qed simp

lemma escape_tables:
  "hex_width (CHR ''x'') = Some 2" "hex_width (CHR ''u'') = Some 4" "hex_width (CHR ''U'') = Some 8"
  "hex_width dquote = None" "hex_width backslash = None"
  "hex_width (CHR ''a'') = None" "hex_width (CHR ''b'') = None" "hex_width (CHR ''f'') = None"
  "hex_width (CHR ''n'') = None" "hex_width (CHR ''r'') = None" "hex_width (CHR ''t'') = None"
  "hex_width (CHR ''v'') = None"
  "yaml_escape dquote = Some 34" "yaml_escape backslash = Some 92" "yaml_escape (CHR ''a'') = Some 7"
  "yaml_escape (CHR ''b'') = Some 8" "yaml_escape (CHR ''f'') = Some 12" "yaml_escape (CHR ''n'') = Some 10"
  "yaml_escape (CHR ''r'') = Some 13" "yaml_escape (CHR ''t'') = Some 9" "yaml_escape (CHR ''v'') = Some 11"
  by (simp_all add: hex_width_def yaml_escape_def dquote_def backslash_def)

lemma yaml_scalar_rune:
  assumes ch: "(r, w) \<in> set (go_chunks s)" and valid: "valid_utf8 s"
  shows "yaml_scalar (quote_rune p (r, w) @ X) = map_option (\<lambda>(a, b). (w @ a, b)) (yaml_scalar X)"
proof -
  have enc: "EncodeRune r = w" by (rule valid_chunk [OF valid ch])
  have ok: "\<not> (r = RuneError \<and> length w = 1)"
    using valid ch by (auto simp: valid_utf8_def list_all_iff)
  note cases = go_chunks_cases [OF ch]
  define q where "q \<longleftrightarrow> r \<in> {7, 8, 12, 10, 13, 9, 11}"
  consider "r = 34" | "r = 92" | "r \<noteq> 34" "r \<noteq> 92" "(32 \<le> r \<and> r < 127) \<or> (128 \<le> r \<and> p r)"
    | "q" | "\<not> q" "r < 32 \<or> r = 127"
    | "128 \<le> r" "\<not> p r" "r < 65536" | "128 \<le> r" "\<not> p r" "65536 \<le> r"
  proof -
    have "r < 32 \<or> r = 127 \<or> (32 \<le> r \<and> r < 127) \<or> 128 \<le> r" by linarith
    moreover have "r < 65536 \<or> 65536 \<le> r" by linarith
    ultimately show thesis using that by blast
  qed
  then show ?thesis
  proof cases
    case 1
    with enc have "w = [dquote]" by (simp add: EncodeRune_ascii bchr_special)
    with 1 show ?thesis
      using yaml_scalar_esc [OF escape_tables(4,13), of X] by (simp add: quote_rune_def EncodeRune_ascii bchr_special)
  next
    case 2
    with enc have "w = [backslash]" by (simp add: EncodeRune_ascii bchr_special)
    with 2 show ?thesis
      using yaml_scalar_esc [OF escape_tables(5,14), of X] by (simp add: quote_rune_def EncodeRune_ascii bchr_special)
  next
    case 3
    have "c \<noteq> dquote \<and> c \<noteq> backslash" if "c \<in> set w" for c
      using cases
    proof (elim disjE exE conjE)
      fix d
      assume "r = bcode d" "w = [d]"
      then have "bcode c \<noteq> 34" "bcode c \<noteq> 92" using 3(1,2) that by auto
      then show ?thesis using special_chars by metis
    next
      assume "\<forall>x \<in> set w. 128 \<le> bcode x"
      then have "128 \<le> bcode c" using that by blast
      then show ?thesis by (auto simp: special_chars)
    qed
    then have "\<forall>c \<in> set w. c \<noteq> dquote \<and> c \<noteq> backslash" by blast
    moreover have "quote_rune p (r, w) = w" using 3 ok by (auto simp: quote_rune_def)
    ultimately show ?thesis using yaml_scalar_plain by simp
  next
    case 4
    then have "r \<in> {7, 8, 12, 10, 13, 9, 11}" by (simp add: q_def)
    then show ?thesis using enc ok
      by (elim insertE emptyE) (simp_all add: quote_rune_def yaml_scalar_esc escape_tables)
  next
    case 5
    then have "quote_rune p (r, w) = backslash # CHR ''x'' # hex_rune 2 r" and "r < 16 ^ 2"
      using ok by (auto simp: quote_rune_def q_def)
    then show ?thesis using yaml_scalar_hex [OF escape_tables(1), of r X] enc by simp
  next
    case 6
    then have "quote_rune p (r, w) = backslash # CHR ''u'' # hex_rune 4 r" and "r < 16 ^ 4"
      using ok by (auto simp: quote_rune_def)
    then show ?thesis using yaml_scalar_hex [OF escape_tables(2), of r X] enc by simp
  next
    case 7
    then have "quote_rune p (r, w) = backslash # CHR ''U'' # hex_rune 8 r"
      using ok by (auto simp: quote_rune_def)
    then show ?thesis using yaml_scalar_hex [OF escape_tables(3) go_chunk_bound [OF ch]] enc by simp
  qed
qed

lemma yaml_scalar_chunks:
  assumes "\<forall>p \<in> set cs. p \<in> set (go_chunks s)" and "valid_utf8 s"
  shows "yaml_scalar (concat (map (quote_rune isPrint) cs) @ dquote # X) = Some (concat (map snd cs), X)"
  using assms
proof (induction cs)
  case Nil
  show ?case by (simp add: yaml_scalar.simps)
next
  case (Cons p cs)
  obtain r w where p: "p = (r, w)" by fastforce
  from Cons yaml_scalar_rune [of r w s] show ?case by (simp add: p)
qed

text \<open>A quoted text reads back as itself and ends where the quote ends.\<close>

lemma yaml_scalar_quote:
  "valid_utf8 s \<Longrightarrow> yaml_scalar (tl (go_quote isPrint s @ X)) = Some (s, X)"
  using yaml_scalar_chunks [of "go_chunks s" s isPrint X] by (simp add: go_quote_def concat_go_chunks)

lemma hex_rune_newline: "newline \<notin> set (hex_rune k r)"
proof (induction k)
  case (Suc k)
  have "hexdigit (r div 16 ^ k mod 16) \<noteq> newline" by simp
  with Suc show ?case by (metis hex_rune.simps(2) set_ConsD)
qed simp

lemma go_quote_newline: "newline \<notin> set (go_quote isPrint s)"
proof -
  have "newline \<notin> set (quote_rune isPrint (r, w))" if "(r, w) \<in> set (go_chunks s)" for r w
    using go_chunks_cases [OF that] hex_rune_newline
    by (auto simp: quote_rune_def backslash_def dest: not_sym)
  then show ?thesis by (auto simp: go_quote_def dquote_def)
qed

end
