(* ===== verification/IngressConfig.thy ===== *)
theory IngressConfig
  imports NodePorts ServerValidate YamlText
begin

text \<open>
  The Traefik configuration of an ingress, from internal/server/handler.go: the router options
  of the annotations, the backends a service resolves to, and the YAML text of the file.
\<close>

section \<open>Router options\<close>

record traefikRouterOptions =
  ro_entryPoints :: "string list"
  ro_middlewares :: "string list"
  ro_tls :: bool
  ro_certResolver :: string
  ro_priority :: "int option"

definition middlewareReferenceForFileProvider :: "string \<Rightarrow> string" where
  "middlewareReferenceForFileProvider ref =
     (if HasSuffix ref ''@kubernetescrd'' then TrimSuffix ref ''@kubernetescrd'' @ ''@file'' else ref)"

definition annotation_or_empty :: "strmap option \<Rightarrow> string \<Rightarrow> string" where
  "annotation_or_empty annotations k = (case lget annotations k of Some v \<Rightarrow> v | None \<Rightarrow> [])"

definition parseTraefikRouterOptions :: "strmap option \<Rightarrow> traefikRouterOptions" where
  "parseTraefikRouterOptions annotations =
     \<lparr>ro_entryPoints = filter (\<lambda>ep. isOk (validateTraefikName annRouterEntryPoints ep))
        (splitAnnotationList (annotation_or_empty annotations annRouterEntryPoints)),
      ro_middlewares = map middlewareReferenceForFileProvider
        (filter (\<lambda>mw. isOk (validateTraefikMiddlewareRef annRouterMiddlewares mw))
          (splitAnnotationList (annotation_or_empty annotations annRouterMiddlewares))),
      ro_tls = (case lget annotations annRouterTLS of None \<Rightarrow> False | Some v \<Rightarrow> ParseBool v = Some True),
      ro_certResolver = (case lget annotations annRouterTLSCertResolver of
          None \<Rightarrow> []
        | Some v \<Rightarrow> if isOk (validateTraefikName annRouterTLSCertResolver v) then v else []),
      ro_priority = (case lget annotations annRouterPriority of
          None \<Rightarrow> None
        | Some v \<Rightarrow> (case Atoi v of None \<Rightarrow> None | Some n \<Rightarrow> if n \<ge> 0 then Some n else None))\<rparr>"

definition yamlFlowList :: "(nat \<Rightarrow> bool) \<Rightarrow> string list \<Rightarrow> string" where
  "yamlFlowList isPrint items = ''['' @ Join (map (go_quote isPrint) items) '', '' @ '']''"

definition writeRouterLines :: "(nat \<Rightarrow> bool) \<Rightarrow> traefikRouterOptions \<Rightarrow> string" where
  "writeRouterLines isPrint opts =
     (if length (ro_entryPoints opts) > 0
      then ln (''      entryPoints: '' @ yamlFlowList isPrint (ro_entryPoints opts)) else [])
     @ (if length (ro_middlewares opts) > 0
        then ln (''      middlewares: '' @ yamlFlowList isPrint (ro_middlewares opts)) else [])
     @ (case ro_priority opts of Some n \<Rightarrow> ln (''      priority: '' @ Itoa n) | None \<Rightarrow> [])"

section \<open>Backends\<close>

record backendTarget =
  bt_podName :: string
  bt_hostNetwork :: bool
  bt_containerPort :: int
  bt_hostIP :: string
  bt_hostPort :: int

text \<open>The target number and name of the first service port that the reference names.\<close>

definition backend_ref :: "service \<Rightarrow> int \<Rightarrow> string \<Rightarrow> int \<times> string" where
  "backend_ref svc svcPort portName =
     (case find (\<lambda>p. (svcPort \<noteq> 0 \<and> sp_port p = svcPort) \<or> (portName \<noteq> [] \<and> sp_name p = portName)) (svc_ports svc) of
        None \<Rightarrow> (svcPort, [])
      | Some p \<Rightarrow>
          (case sp_targetPort p of
             StrPort n \<Rightarrow> (svcPort, n)
           | IntPort v \<Rightarrow> if v \<noteq> 0 then (v, []) else (svcPort, [])))"

definition container_target :: "pod \<Rightarrow> int \<times> string \<Rightarrow> container \<Rightarrow> backendTarget list" where
  "container_target p target c =
     (case find (\<lambda>cp. cp_containerPort cp = fst target \<or> cp_name cp = snd target) (c_ports c) of
        None \<Rightarrow> []
      | Some cp \<Rightarrow> [\<lparr>bt_podName = o_name p, bt_hostNetwork = ps_hostNetwork (pod_spec p),
          bt_containerPort = cp_containerPort cp, bt_hostIP = cp_hostIP cp, bt_hostPort = cp_hostPort cp\<rparr>])"

definition serviceBackendTargets :: "store \<Rightarrow> string \<Rightarrow> string \<Rightarrow> int \<Rightarrow> string \<Rightarrow> backendTarget list" where
  "serviceBackendTargets s ns svcName svcPort portName =
     (case GetService ns svcName s of
        Inl _ \<Rightarrow> []
      | Inr svc \<Rightarrow>
          concat (map (\<lambda>p. concat (map (container_target p (backend_ref svc svcPort portName))
              (ps_containers (pod_spec p))))
            (filter (\<lambda>p. matchesEqualitySelector (lmap (om_labels (o_meta p))) (svc_selector svc) \<and>
                \<not> (pst_phase (pod_status p) = ''Failed'' \<or> pst_phase (pod_status p) = ''Succeeded''))
              (PodsIn ns s))))"

text \<open>\<open>net.IP.IsUnspecified\<close>: all bytes zero, as an IPv4 or an IPv6 address.\<close>

definition IsUnspecified :: "ip \<Rightarrow> bool" where
  "IsUnspecified i \<longleftrightarrow> To4 i = Some [0, 0, 0, 0] \<or> list_all (\<lambda>b. b = 0) i"

definition backendHostPort :: "string \<Rightarrow> int \<Rightarrow> string" where
  "backendHostPort hostIP port =
     (let host = (case ParseIP hostIP of
          None \<Rightarrow> ''127.0.0.1''
        | Some i \<Rightarrow> if IsUnspecified i then ''127.0.0.1'' else hostIP)
      in JoinHostPort host (Itoa port))"

definition target_url :: "string \<Rightarrow> backendTarget \<Rightarrow> string list" where
  "target_url ns t =
     (if \<not> bt_hostNetwork t
      then [''http://'' @ bt_podName t @ ''.'' @ ns @ '':'' @ Itoa (bt_containerPort t)]
      else if bt_hostPort t \<noteq> 0 then [''http://'' @ backendHostPort (bt_hostIP t) (bt_hostPort t)]
      else [])"

definition ingressBackendServers :: "store \<Rightarrow> string \<Rightarrow> string \<Rightarrow> int \<Rightarrow> string \<Rightarrow> string list" where
  "ingressBackendServers s ns svcName svcPort portName =
     concat (map (target_url ns) (serviceBackendTargets s ns svcName svcPort portName))"

section \<open>The file\<close>

definition tick :: string where "tick = [CHR 0x60]"

definition router_rule :: "string \<Rightarrow> string \<Rightarrow> string" where
  "router_rule host path =
     (let parts = (if host \<noteq> [] then [''Host('' @ tick @ host @ tick @ '')''] else [])
        @ (if path \<noteq> [] \<and> path \<noteq> ''/'' then [''PathPrefix('' @ tick @ path @ tick @ '')''] else [])
      in if length parts > 0 then Join parts '' && '' else ''PathPrefix('' @ tick @ ''/'' @ tick @ '')'')"

text \<open>The paths with a service backend, with the host of their rule.\<close>

definition backend_paths :: "ingress \<Rightarrow> (string \<times> string \<times> string \<times> int \<times> string) list" where
  "backend_paths ing =
     concat (map (\<lambda>rule. case ir_http rule of
         None \<Rightarrow> []
       | Some paths \<Rightarrow> concat (map (\<lambda>p. case ip_service p of
             None \<Rightarrow> []
           | Some (svc, port, portName) \<Rightarrow> [(ir_host rule, ip_path p, svc, port, portName)]) paths))
       (ing_rules ing))"

definition path_servers :: "store \<Rightarrow> string \<Rightarrow> string \<Rightarrow> int \<Rightarrow> string \<Rightarrow> string list" where
  "path_servers s ns svc port portName =
     (let svcPort = (if port \<noteq> 0 then port else 80);
          servers = ingressBackendServers s ns svc svcPort portName
      in if length servers = 0 then [''http://localhost:'' @ Itoa svcPort] else servers)"

definition router_text :: "(nat \<Rightarrow> bool) \<Rightarrow> ingress \<Rightarrow> string \<Rightarrow> string \<Rightarrow> string \<Rightarrow> string" where
  "router_text isPrint ing routerName host path =
     (let opts = parseTraefikRouterOptions (om_annotations (o_meta ing)) in
      ln (''    '' @ routerName @ '':'')
      @ ln (''      rule: '' @ [dquote] @ router_rule host path @ [dquote])
      @ ln (''      service: '' @ routerName)
      @ writeRouterLines isPrint opts
      @ (if ro_certResolver opts \<noteq> []
         then ln ''      tls:'' @ ln (''        certResolver: '' @ go_quote isPrint (ro_certResolver opts))
         else if length (ing_tls ing) > 0 \<or> ro_tls opts then ln ''      tls: {}'' else []))"

definition service_text :: "(nat \<Rightarrow> bool) \<Rightarrow> string \<Rightarrow> string list \<Rightarrow> string" where
  "service_text isPrint routerName servers =
     ln (''    '' @ routerName @ '':'') @ ln ''      loadBalancer:'' @ ln ''        servers:''
     @ concat (map (\<lambda>url. ln (''          - url: '' @ go_quote isPrint url)) servers)"

definition router_name :: "ingress \<Rightarrow> nat \<Rightarrow> string" where
  "router_name ing idx = o_namespace ing @ ''-'' @ o_name ing @ ''-'' @ Itoa (int idx)"

definition traefik_config :: "(nat \<Rightarrow> bool) \<Rightarrow> store \<Rightarrow> ingress \<Rightarrow> string" where
  "traefik_config isPrint s ing =
     (let entries = zip [0..<length (backend_paths ing)] (backend_paths ing) in
      ln ''http:'' @ ln ''  routers:''
      @ concat (map (\<lambda>(idx, host, path, _). router_text isPrint ing (router_name ing idx) host path) entries)
      @ ln ''  services:''
      @ concat (map (\<lambda>(idx, _, _, svc, port, portName).
          service_text isPrint (router_name ing idx) (path_servers s (o_namespace ing) svc port portName)) entries))"

section \<open>What the lines are\<close>

definition config_line :: "string list \<Rightarrow> string \<Rightarrow> bool" where
  "config_line ks l \<longleftrightarrow>
     (case Cut (dropWhile (\<lambda>c. c = CHR '' '') l) (CHR '':'') of (k, _, found) \<Rightarrow> found \<and> k \<in> set ks)"

definition traefik_keys :: "string list" where
  "traefik_keys = [''http'', ''routers'', ''services'', ''rule'', ''service'', ''entryPoints'', ''middlewares'',
     ''priority'', ''tls'', ''certResolver'', ''loadBalancer'', ''servers'', ''- url'']"

lemma dns_label_bytes: "dns_label s \<Longrightarrow> c \<in> set s \<Longrightarrow> is_lalnum c \<or> c = CHR ''-''"
  by (auto simp: dns_label_def list_all_iff)

lemma validateName_Inr [simp]: "validateName what s = Inr u \<longleftrightarrow> dns_label s"
  by (auto simp: validateName_def dns_label_def re_match_nameRE)

lemma host_bytes: "validateHost h = Inr u \<Longrightarrow> c \<in> set h \<Longrightarrow> is_lalnum c \<or> one_of ''-.*'' c"
proof -
  assume "validateHost h = Inr u" "c \<in> set h"
  then have "re_bytes hostRE c" by (auto simp: validateHost_def dest: re_match_bytes split: if_splits)
  then show ?thesis
    by (auto simp: hostRE_def host_label_re_def label_re_def Opt_def Chr_def one_of_def)
qed

lemma path_value_bytes: "validateIngressPath p = Inr u \<Longrightarrow> c \<in> set p \<Longrightarrow> ingress_path_byte c"
proof -
  assume "validateIngressPath p = Inr u" "c \<in> set p"
  then have "re_bytes ingressPathRE c"
    by (auto simp: validateIngressPath_def dest: re_match_bytes split: if_splits)
  then show ?thesis by (auto simp: ingressPathRE_def Chr_def ingress_path_byte_def dquote_def)
qed

text \<open>The bytes of a rule between its backticks.\<close>

lemma router_rule_bytes:
  assumes "host = [] \<or> validateHost host = Inr ()" "validateIngressPath path = Inr ()"
  shows "newline \<notin> set (router_rule host path) \<and> dquote \<notin> set (router_rule host path)"
proof -
  have h: "newline \<notin> set host" "dquote \<notin> set host"
    using assms(1) host_bytes [of host "()"] by (fastforce simp: one_of_def byte_classes dquote_def)+
  have p: "newline \<notin> set path" "dquote \<notin> set path"
    using path_value_bytes [OF assms(2)] by (fastforce simp: ingress_path_byte_def)+
  show ?thesis
    using h p by (auto simp: router_rule_def Let_def tick_def dquote_def)
qed

lemma backend_paths_valid:
  assumes "validateIngress ing = Inr ()" "(host, path, svc, port, portName) \<in> set (backend_paths ing)"
  shows "(host = [] \<or> validateHost host = Inr ()) \<and> validateIngressPath path = Inr ()"
proof -
  from assms(2) obtain rule where rule: "rule \<in> set (ing_rules ing)"
    and e: "(host, path, svc, port, portName) \<in> set (case ir_http rule of None \<Rightarrow> []
       | Some paths \<Rightarrow> concat (map (\<lambda>p. case ip_service p of None \<Rightarrow> []
           | Some (svc, port, portName) \<Rightarrow> [(ir_host rule, ip_path p, svc, port, portName)]) paths))"
    unfolding backend_paths_def by auto
  then obtain paths where paths: "ir_http rule = Some paths"
    by (cases "ir_http rule") auto
  with e obtain p where p: "p \<in> set paths" "host = ir_host rule" "path = ip_path p"
    by (fastforce split: option.splits)
  note r = rule paths p
  from assms(1) r(1) have "rbind (if ir_host rule \<noteq> [] then validateHost (ir_host rule) else Inr ()) (\<lambda>_.
       case ir_http rule of
         None \<Rightarrow> Inr ()
       | Some paths \<Rightarrow> check_all validate_ingress_path_entry paths) = Inr ()"
    by (auto simp: validateIngress_def rbind_laws check_all_Inr)
  with r show ?thesis
    by (auto simp: rbind_laws check_all_Inr validate_ingress_path_entry_def split: if_splits)
qed

end
