(* ===== verification/TraefikFiles.thy ===== *)
theory TraefikFiles
  imports IngressConfig World
begin

text \<open>
  The files of Traefik's file provider, from internal/server/traefik.go and handler.go: what is in
  them, how they are replaced, and when they are regenerated.
\<close>

section \<open>Replacing a file\<close>

definition tmp_name :: "string \<Rightarrow> string" where
  "tmp_name name = name @ ''.tmp''"

definition writeTraefikConfigFile :: "server \<Rightarrow> string \<Rightarrow> string \<Rightarrow> world \<Rightarrow> world" where
  "writeTraefikConfigFile sv name content w =
     (let dir = sv_TraefikDir sv in
      if dir = [] then w
      else
        (let (ok, w1) = perform sv (MkdirAll dir) w in
         if \<not> ok then w1
         else if mget (w_files w1) (dir, name) = Some content then w1
         else
           (let (ok2, w2) = perform sv (WriteFile dir (tmp_name name) content) w1 in
            if \<not> ok2 then w2
            else
              (let (ok3, w3) = perform sv (RenameFile dir (tmp_name name) name) w2 in
               if \<not> ok3 then act sv (RemoveFile dir (tmp_name name)) w3 else w3))))"

definition removeTraefikConfigFile :: "server \<Rightarrow> string \<Rightarrow> world \<Rightarrow> world" where
  "removeTraefikConfigFile sv name w =
     (if sv_TraefikDir sv = [] then w else act sv (RemoveFile (sv_TraefikDir sv) name) w)"

section \<open>Ingresses\<close>

definition ingress_file :: "string \<Rightarrow> string \<Rightarrow> string" where
  "ingress_file ns name = ns @ ''-'' @ name @ ''.yaml''"

definition generateTraefikConfig :: "server \<Rightarrow> ingress \<Rightarrow> world \<Rightarrow> world" where
  "generateTraefikConfig sv ing w =
     (if sv_TraefikDir sv = [] then w
      else writeTraefikConfigFile sv (ingress_file (o_namespace ing) (o_name ing))
             (traefik_config (sv_isPrint sv) (w_store w) ing) w)"

definition removeTraefikConfig :: "server \<Rightarrow> string \<Rightarrow> string \<Rightarrow> world \<Rightarrow> world" where
  "removeTraefikConfig sv ns name w = removeTraefikConfigFile sv (ingress_file ns name) w"

section \<open>Middlewares and TCP routes\<close>

definition middlewareFilename :: "string \<Rightarrow> string \<Rightarrow> string" where
  "middlewareFilename ns name = ''middleware-'' @ ns @ ''-'' @ name @ ''.yaml''"

definition tcpFilename :: "string \<Rightarrow> string \<Rightarrow> string" where
  "tcpFilename ns name = ''tcp-'' @ ns @ ''-'' @ name @ ''.yaml''"

definition middleware_doc :: "middleware \<Rightarrow> traefik_doc" where
  "middleware_doc mw = MiddlewareDocument [(o_namespace mw @ ''-'' @ o_name mw, mw_spec mw)]"

definition generateMiddlewareConfig :: "server \<Rightarrow> middleware \<Rightarrow> world \<Rightarrow> world" where
  "generateMiddlewareConfig sv mw w =
     (if sv_TraefikDir sv = [] then w
      else case sv_yaml sv (middleware_doc mw) of
        None \<Rightarrow> w
      | Some content \<Rightarrow> writeTraefikConfigFile sv (middlewareFilename (o_namespace mw) (o_name mw)) content w)"

definition tcp_address :: "string \<Rightarrow> backendTarget \<Rightarrow> string list" where
  "tcp_address ns t =
     (if \<not> bt_hostNetwork t
      then [JoinHostPort (bt_podName t @ ''.'' @ ns) (Itoa (bt_containerPort t))]
      else if bt_hostPort t \<noteq> 0 then [backendHostPort (bt_hostIP t) (bt_hostPort t)]
      else [])"

definition tcpBackendAddresses :: "store \<Rightarrow> string \<Rightarrow> string \<Rightarrow> int \<Rightarrow> string \<Rightarrow> string list" where
  "tcpBackendAddresses s ns svcName svcPort portName =
     concat (map (tcp_address ns) (serviceBackendTargets s ns svcName svcPort portName))"

definition tcp_router :: "ingress_route_tcp \<Rightarrow> string \<Rightarrow> route_tcp \<Rightarrow> tcpRouter" where
  "tcp_router irt name route =
     \<lparr>tr_entryPoints = irs_entryPoints (irt_spec irt), tr_rule = rt_match route, tr_service = name,
      tr_passthrough = irs_tlsPassthrough (irt_spec irt)\<rparr>"

definition tcp_service :: "store \<Rightarrow> string \<Rightarrow> route_tcp \<Rightarrow> tcpService" where
  "tcp_service s ns route =
     (case rt_services route of
        [b] \<Rightarrow> \<lparr>ts_proxyProtocol = st_proxyProtocol b,
               ts_servers = (case st_port b of
                   StrPort name \<Rightarrow> tcpBackendAddresses s ns (st_name b) 0 name
                 | IntPort n \<Rightarrow> tcpBackendAddresses s ns (st_name b) n [])\<rparr>
      | _ \<Rightarrow> \<lparr>ts_proxyProtocol = None, ts_servers = []\<rparr>)"

definition tcp_name :: "ingress_route_tcp \<Rightarrow> nat \<Rightarrow> string" where
  "tcp_name irt i = o_namespace irt @ ''-'' @ o_name irt @ ''-'' @ Itoa (int i)"

definition tcp_doc :: "store \<Rightarrow> ingress_route_tcp \<Rightarrow> traefik_doc" where
  "tcp_doc s irt =
     (let routes = irs_routes (irt_spec irt); entries = zip [0..<length routes] routes in
      TcpDocument (map (\<lambda>(i, route). (tcp_name irt i, tcp_router irt (tcp_name irt i) route)) entries)
        (map (\<lambda>(i, route). (tcp_name irt i, tcp_service s (o_namespace irt) route)) entries))"

definition generateTCPConfig :: "server \<Rightarrow> ingress_route_tcp \<Rightarrow> world \<Rightarrow> world" where
  "generateTCPConfig sv irt w =
     (if sv_TraefikDir sv = [] then w
      else case sv_yaml sv (tcp_doc (w_store w) irt) of
        None \<Rightarrow> w
      | Some content \<Rightarrow> writeTraefikConfigFile sv (tcpFilename (o_namespace irt) (o_name irt)) content w)"

section \<open>Regenerating\<close>

definition regenerateMiddlewareConfigs :: "server \<Rightarrow> string \<Rightarrow> world \<Rightarrow> world" where
  "regenerateMiddlewareConfigs sv ns w =
     (if sv_TraefikDir sv = [] then w
      else fold (generateMiddlewareConfig sv) (MiddlewaresIn ns (w_store w)) w)"

definition regenerateTCPConfigs :: "server \<Rightarrow> string \<Rightarrow> world \<Rightarrow> world" where
  "regenerateTCPConfigs sv ns w =
     (if sv_TraefikDir sv = [] then w
      else fold (generateTCPConfig sv) (IngressRouteTCPsIn ns (w_store w)) w)"

definition regenerateIngressConfigs :: "server \<Rightarrow> string \<Rightarrow> world \<Rightarrow> world" where
  "regenerateIngressConfigs sv ns w =
     (if sv_TraefikDir sv = [] then w
      else regenerateMiddlewareConfigs sv ns (regenerateTCPConfigs sv ns
             (fold (generateTraefikConfig sv) (IngressesIn ns (w_store w)) w)))"

definition ReconcileIngressConfigs :: "server \<Rightarrow> world \<Rightarrow> world" where
  "ReconcileIngressConfigs sv w =
     (if sv_TraefikDir sv = [] then w
      else fold (\<lambda>n. regenerateIngressConfigs sv (o_name n)) (ListNamespaces (w_store w)) w)"

end
