(* ===== verification/PodDeploy.thy ===== *)
theory PodDeploy
  imports SocketSync NetworkAttach EnvResolve TraefikFiles
begin

text \<open>
  From an object of the store to units on the host, from internal/server/handler.go and
  network.go: rendering a pod with its references resolved, writing its files, starting and
  stopping its units, and the instances of a deployment.
\<close>

section \<open>Rendering\<close>

definition applyNodePorts :: "store \<Rightarrow> pod \<Rightarrow> pod" where
  "applyNodePorts s p =
     (let bindings = nodePortHostPorts s p in
      if length bindings = 0 \<or> length (ps_containers (pod_spec p)) = 0 then p
      else p\<lparr>pod_spec := (pod_spec p)\<lparr>ps_containers := map (\<lambda>c. c\<lparr>c_ports := map (\<lambda>cp.
          case mget bindings (cp_containerPort cp) of
            Some np \<Rightarrow> cp\<lparr>cp_hostPort := np, cp_hostIP := []\<rparr>
          | None \<Rightarrow> cp) (c_ports c)\<rparr>) (ps_containers (pod_spec p))\<rparr>\<rparr>)"

definition podPVCMap :: "store \<Rightarrow> string \<Rightarrow> podspec \<Rightarrow> (string, pvc) gomap" where
  "podPVCMap s ns spec =
     foldl (\<lambda>m vol. case v_pvc vol of
         None \<Rightarrow> m
       | Some (claim, _) \<Rightarrow> (case GetPVC ns claim s of
           Inl _ \<Rightarrow> m
         | Inr p \<Rightarrow> mput (o_name p) p m)) [] (ps_volumes spec)"

datatype deploy_error = ResolveFailed env_error | GenerateFailed unit_error

text \<open>
  The steps every deployment begins with: the references resolved (which may write the
  environment file), the networks looked up, the files rendered.
\<close>

definition render_files ::
  "server \<Rightarrow> string \<Rightarrow> pod \<Rightarrow> string \<Rightarrow> world \<Rightarrow> (unit_error + (string, string) gomap) \<times> world" where
  "render_files sv name p envFile w =
     (let (networks, w1) = networkAttachments sv p w; s = w_store w1; ns = o_namespace p in
      (podQuadletFiles (sv_gen sv) name p (sv_ConfigDir sv)
         (matchingServiceAliases s ns (lmap (om_labels (o_meta p)))) (podPVCMap s ns (pod_spec p))
         envFile networks, w1))"

definition render_resolved ::
  "server \<Rightarrow> string \<Rightarrow> pod \<Rightarrow> world \<Rightarrow> (deploy_error + pod \<times> (string, string) gomap) \<times> world" where
  "render_resolved sv name p w =
     (case resolveEnvFrom sv p w of
        (Inl e, w1) \<Rightarrow> (Inl (ResolveFailed e), w1)
      | (Inr (resolved, envFile), w1) \<Rightarrow>
          (case render_files sv name resolved envFile w1 of
             (Inl e, w2) \<Rightarrow> (Inl (GenerateFailed e), w2)
           | (Inr fs, w2) \<Rightarrow> (Inr (resolved, fs), w2)))"

text \<open>The event of a failed deployment; the text of the error is left out of its message.\<close>

definition stage :: "deploy_error \<Rightarrow> string" where
  "stage e = (case e of ResolveFailed _ \<Rightarrow> ''resolving env references'' | GenerateFailed _ \<Rightarrow> ''generating quadlet'')"

definition podMaterializeFailed :: "server \<Rightarrow> pod \<Rightarrow> deploy_error \<Rightarrow> world \<Rightarrow> world" where
  "podMaterializeFailed sv p e w =
     on_store (recordEvent (sv_now sv) ''Pod'' (o_namespace p) (o_name p) (o_uid p) ''Warning''
       ''MaterializationFailed'' (stage e)) w"

section \<open>Pods\<close>

definition generatePodQuadlet :: "server \<Rightarrow> pod \<Rightarrow> world \<Rightarrow> world" where
  "generatePodQuadlet sv p0 w =
     (if sv_QuadletDir sv = [] then w
      else
        (let p = applyNodePorts (w_store w) p0 in
         case render_resolved sv (o_name p) p w of
           (Inl e, w1) \<Rightarrow> podMaterializeFailed sv p e w1
         | (Inr (resolved, fs), w1) \<Rightarrow>
             (let (_, w2) = deployPodSockets sv resolved (o_name p) w1 in
              deployPodFiles sv (sv_QuadletDir sv) (o_namespace p) (o_name p) fs
                (podUnitNames (o_namespace p) (o_name p) (ps_containers (pod_spec p))) False False w2)))"

definition redeployPodQuadlet :: "server \<Rightarrow> pod \<Rightarrow> world \<Rightarrow> world" where
  "redeployPodQuadlet sv p0 w =
     (if sv_QuadletDir sv = [] then w
      else
        (let p = applyNodePorts (w_store w) p0 in
         case render_resolved sv (o_name p) p w of
           (Inl e, w1) \<Rightarrow> podMaterializeFailed sv p e w1
         | (Inr (resolved, fs), w1) \<Rightarrow>
             (let (socketChanged, w2) = deployPodSockets sv resolved (o_name p) w1 in
              deployPodFiles sv (sv_QuadletDir sv) (o_namespace p) (o_name p) fs
                (podUnitNames (o_namespace p) (o_name p) (ps_containers (pod_spec p))) True socketChanged w2)))"

definition refreshPodQuadlets :: "server \<Rightarrow> string \<Rightarrow> pod \<Rightarrow> world \<Rightarrow> world" where
  "refreshPodQuadlets sv name p0 w =
     (if sv_QuadletDir sv = [] then w
      else
        (let p = applyNodePorts (w_store w) p0 in
         case render_resolved sv name p w of
           (Inl e, w1) \<Rightarrow> w1
         | (Inr (resolved, fs), w1) \<Rightarrow>
             (let (ok, changed, w2) = writeQuadletFilesTracked sv (sv_QuadletDir sv) fs w1 in
              if \<not> ok then w2
              else
                (let (removed, w3) = removeStaleOwnedUnits sv (sv_QuadletDir sv) (o_namespace p) name (map fst fs) w2 in
                 if length changed = 0 \<and> \<not> removed then w3 else manage sv DaemonReload w3))))"

definition stopAndRemoveUnit :: "server \<Rightarrow> string \<Rightarrow> string \<Rightarrow> world \<Rightarrow> world" where
  "stopAndRemoveUnit sv u containerName w = act sv (PodmanRm containerName) (manage sv (StopUnit u) w)"

definition stopPodByName :: "server \<Rightarrow> string \<Rightarrow> string \<Rightarrow> container list \<Rightarrow> world \<Rightarrow> world" where
  "stopPodByName sv ns name containers w =
     (let u = ns @ ''-'' @ name @ ''.service'' in
      if length containers \<le> 1 then stopAndRemoveUnit sv u (ns @ ''-'' @ name) w
      else
        act sv (PodmanPodRm (ns @ ''-'' @ name))
          (manage sv (StopUnit u)
            (fold (\<lambda>c. manage sv (StopUnit (ns @ ''-'' @ name @ ''-'' @ c_name c @ ''.service''))) containers w)))"

definition removePodQuadlet :: "server \<Rightarrow> pod \<Rightarrow> world \<Rightarrow> world" where
  "removePodQuadlet sv p w =
     (if sv_QuadletDir sv = [] then w
      else reloadAfterRemove sv (podQuadletPaths (sv_QuadletDir sv) (o_namespace p) (o_name p)
             (ps_containers (pod_spec p))) w)"

text \<open>A store operation that returns an error or nothing.\<close>

definition store_do :: "(store \<Rightarrow> store_error option \<times> store) \<Rightarrow> world \<Rightarrow> store_error option \<times> world" where
  "store_do f w = (let (e, s) = f (w_store w) in (e, w\<lparr>w_store := s\<rparr>))"

definition store_call :: "(store \<Rightarrow> (store_error + 'a) \<times> store) \<Rightarrow> world \<Rightarrow> (store_error + 'a) \<times> world" where
  "store_call f w = (let (r, s) = f (w_store w) in (r, w\<lparr>w_store := s\<rparr>))"

definition deletePodByName :: "server \<Rightarrow> string \<Rightarrow> string \<Rightarrow> world \<Rightarrow> store_error option \<times> world" where
  "deletePodByName sv ns name w =
     (case GetPod ns name (w_store w) of
        Inl e \<Rightarrow> (Some e, w)
      | Inr p \<Rightarrow>
          (let w1 = stopPodByName sv (o_namespace p) (o_name p) (ps_containers (pod_spec p)) w;
               w2 = removePodQuadlet sv p (removePodSockets sv ns name w1)
           in case store_do (DeletePod (sv_now sv) ns name) w2 of
                (Some e, w3) \<Rightarrow> (Some e, w3)
              | (None, w3) \<Rightarrow> (None, regenerateIngressConfigs sv ns w3)))"

section \<open>Deployment instances\<close>

definition instance_name :: "deployment \<Rightarrow> int \<Rightarrow> string" where
  "instance_name dep i = o_name dep @ ''-'' @ Itoa i"

definition instance_pod :: "deployment \<Rightarrow> int \<Rightarrow> pod" where
  "instance_pod dep i =
     (let tmpl = ds_template (dep_spec dep) in
      \<lparr>o_apiVersion = [], o_kind = [],
       o_meta = empty_meta\<lparr>om_name := instance_name dep i, om_namespace := o_namespace dep,
         om_labels := pt_labels tmpl, om_annotations := pt_annotations tmpl,
         om_ownerReferences := [\<lparr>or_apiVersion = ''apps/v1'', or_kind = ''Deployment'',
           or_name = o_name dep, or_uid = o_uid dep, or_controller = Some True\<rparr>]\<rparr>,
       pod_spec = (pt_spec tmpl)\<lparr>ps_restartPolicy := ''Always''\<rparr>,
       pod_status = \<lparr>pst_phase = [], pst_containerStatuses = [], pst_rest = []\<rparr>\<rparr>)"

definition materializeDeploymentInstance :: "store \<Rightarrow> deployment \<Rightarrow> int \<Rightarrow> pod" where
  "materializeDeploymentInstance s dep i =
     (if i = 0 then withNodePortPublish s (instance_pod dep i) else instance_pod dep i)"

definition syncInstancePod :: "server \<Rightarrow> pod \<Rightarrow> store \<Rightarrow> store" where
  "syncInstancePod sv p s =
     (let (found, s1) = SyncPodTemplate p s in
      if found then s1 else snd (CreatePod (sv_now sv) p s1))"

definition deployDeploymentInstance :: "server \<Rightarrow> bool \<Rightarrow> deployment \<Rightarrow> int \<Rightarrow> world \<Rightarrow> world" where
  "deployDeploymentInstance sv restart dep i w =
     (if sv_QuadletDir sv = [] then w
      else
        (let name = instance_name dep i; p = materializeDeploymentInstance (w_store w) dep i; ns = o_namespace dep in
         case render_resolved sv name p w of
           (Inl e, w1) \<Rightarrow> w1
         | (Inr (resolved, fs), w1) \<Rightarrow>
             (let (socketChanged, w2) = deployPodSockets sv p name w1;
                  (ok, changed, w3) = writeQuadletFilesTracked sv (sv_QuadletDir sv) fs w2 in
              if \<not> ok then w3
              else
                (let (removed, w4) = removeStaleOwnedUnits sv (sv_QuadletDir sv) ns name (map fst fs) w3;
                     w5 = on_store (syncInstancePod sv p) w4 in
                 if restart \<and> length changed = 0 \<and> \<not> removed \<and> \<not> socketChanged then w5
                 else reloadAndRun sv (podUnitNames ns name (ps_containers (pod_spec p))) restart removed
                        socketChanged changed w5))))"

definition generateDeploymentQuadlets :: "server \<Rightarrow> deployment \<Rightarrow> world \<Rightarrow> world" where
  "generateDeploymentQuadlets sv dep w =
     fold (deployDeploymentInstance sv False dep) [0..deploymentReplicas dep - 1] w"

definition stopDeploymentUnits :: "server \<Rightarrow> deployment \<Rightarrow> world \<Rightarrow> world" where
  "stopDeploymentUnits sv dep w =
     fold (\<lambda>i. stopPodByName sv (o_namespace dep) (instance_name dep i)
         (ps_containers (pt_spec (ds_template (dep_spec dep))))) [0..deploymentReplicas dep - 1] w"

definition deleteDeploymentPods :: "server \<Rightarrow> deployment \<Rightarrow> world \<Rightarrow> world" where
  "deleteDeploymentPods sv dep w =
     fold (\<lambda>i. on_store (\<lambda>s. snd (DeletePod (sv_now sv) (o_namespace dep) (instance_name dep i) s)))
       [0..deploymentReplicas dep - 1] w"

definition instance_paths :: "server \<Rightarrow> deployment \<Rightarrow> int \<Rightarrow> (string \<times> string) list" where
  "instance_paths sv dep i =
     podQuadletPaths (sv_QuadletDir sv) (o_namespace dep) (instance_name dep i)
       (ps_containers (pt_spec (ds_template (dep_spec dep))))"

definition removeDeploymentQuadlets :: "server \<Rightarrow> deployment \<Rightarrow> world \<Rightarrow> world" where
  "removeDeploymentQuadlets sv dep w =
     (let is = [0..deploymentReplicas dep - 1];
          w1 = fold (\<lambda>i. removePodSockets sv (o_namespace dep) (instance_name dep i)) is w
      in if sv_QuadletDir sv = [] then w1
         else reloadAfterRemove sv (concat (map (instance_paths sv dep) is)) w1)"

definition scale_down_one :: "server \<Rightarrow> deployment \<Rightarrow> int \<Rightarrow> world \<Rightarrow> world" where
  "scale_down_one sv dep i w =
     (let name = instance_name dep i;
          w1 = stopPodByName sv (o_namespace dep) name (ps_containers (pt_spec (ds_template (dep_spec dep)))) w;
          w2 = reloadAfterRemove sv (instance_paths sv dep i) (removePodSockets sv (o_namespace dep) name w1)
      in on_store (\<lambda>s. snd (DeletePod (sv_now sv) (o_namespace dep) name s)) w2)"

definition scaleDeployment :: "server \<Rightarrow> deployment \<Rightarrow> int \<Rightarrow> int \<Rightarrow> world \<Rightarrow> world" where
  "scaleDeployment sv dep oldR newR w =
     (if sv_QuadletDir sv = [] then w
      else fold (scale_down_one sv dep) [newR..oldR - 1]
             (fold (deployDeploymentInstance sv False dep) [oldR..newR - 1] w))"

definition deleteDeploymentByName :: "server \<Rightarrow> string \<Rightarrow> string \<Rightarrow> world \<Rightarrow> store_error option \<times> world" where
  "deleteDeploymentByName sv ns name w =
     (case GetDeployment ns name (w_store w) of
        Inl e \<Rightarrow> (Some e, w)
      | Inr dep \<Rightarrow>
          (let w1 = deleteDeploymentPods sv dep (removeDeploymentQuadlets sv dep (stopDeploymentUnits sv dep w)) in
           case store_do (DeleteDeployment (sv_now sv) ns name) w1 of
             (Some e, w2) \<Rightarrow> (Some e, w2)
           | (None, w2) \<Rightarrow> (None, regenerateIngressConfigs sv (o_namespace dep) w2)))"

section \<open>Namespace networks\<close>

definition attach_all_pods :: "store \<Rightarrow> pod list" where
  "attach_all_pods s = filter (\<lambda>p. \<not> (ps_hostNetwork (pod_spec p) \<or> \<not> attachAllNetworks p)) (AllPods s)"

definition attachNamespaceNetwork :: "server \<Rightarrow> string \<Rightarrow> world \<Rightarrow> world" where
  "attachNamespaceNetwork sv ns w =
     (let (_, w1) = ensureNetwork sv ns w in
      fold (\<lambda>p w. connectAttachAllPod sv p ns (refreshPodQuadlets sv (o_name p) p w))
        (attach_all_pods (w_store w1)) w1)"

definition detachNamespaceNetwork :: "server \<Rightarrow> string \<Rightarrow> world \<Rightarrow> world" where
  "detachNamespaceNetwork sv ns w =
     dropSubnetCache ns
       (fold (\<lambda>p w. refreshPodQuadlets sv (o_name p) p
           (manage sv (NetworkDisconnect (network_name ns)
             (podContainerName (w_store w) (o_namespace p) (o_name p) [])) w))
         (attach_all_pods (w_store w)) w)"

fun ensure_networks :: "server \<Rightarrow> string list \<Rightarrow> world \<Rightarrow> string list \<times> world" where
  "ensure_networks sv [] w = ([], w)"
| "ensure_networks sv (ns # nss) w =
     (let (ok, w1) = ensureNetwork sv ns w; (ready, w2) = ensure_networks sv nss w1 in
      (if ok then ns # ready else ready, w2))"

definition connect_ready :: "server \<Rightarrow> string \<Rightarrow> string \<Rightarrow> world \<Rightarrow> world" where
  "connect_ready sv containerName ns w =
     (let (a, w1) = namespaceAttachment sv ns w in
      act sv (NetworkConnect (network_name ns) containerName (na_ip a)) w1)"

definition ReconcileNetworkAttachments :: "server \<Rightarrow> world \<Rightarrow> world" where
  "ReconcileNetworkAttachments sv w =
     (if \<not> sv_manager sv then w
      else
        (let (ready, w1) = ensure_networks sv (sorted_namespaces (w_store w)) w in
         fold (\<lambda>p w.
             let w2 = refreshPodQuadlets sv (o_name p) p w in
             fold (connect_ready sv (podContainerName (w_store w2) (o_namespace p) (o_name p) [])) ready w2)
           (attach_all_pods (w_store w1)) w1))"

end
