(* ===== verification/Handlers.thy ===== *)
theory Handlers
  imports PodDeploy
begin

text \<open>
  The state-changing requests of internal/server/handler.go and traefik.go, from the decoded body
  on.  A handler gets the outcome of decoding (or of reading, patching and decoding, for PATCH)
  as an argument: the status code and reason of a failure, or the object.  It returns the
  response and the new world.  The texts of messages are left out.
\<close>

datatype 'a response = Failure nat string | Success nat 'a

type_synonym 'a decoded = "(nat \<times> string) + 'a"

text \<open>Answering a failed check, going on after a passed one.\<close>

definition check_or ::
  "('e + 'u) \<Rightarrow> nat \<Rightarrow> string \<Rightarrow> world \<Rightarrow> 'a response \<times> world \<Rightarrow> 'a response \<times> world" where
  "check_or r code reason w k = (case r of Inl _ \<Rightarrow> (Failure code reason, w) | Inr _ \<Rightarrow> k)"

definition with_decoded ::
  "'a decoded \<Rightarrow> world \<Rightarrow> ('a \<Rightarrow> 'b response \<times> world) \<Rightarrow> 'b response \<times> world" where
  "with_decoded d w f = (case d of Inl (code, reason) \<Rightarrow> (Failure code reason, w) | Inr x \<Rightarrow> f x)"

definition default_namespace :: "string \<Rightarrow> 'a kobj_scheme \<Rightarrow> 'a kobj_scheme" where
  "default_namespace ns x =
     (if o_namespace x = [] then omod (\<lambda>m. m\<lparr>om_namespace := ns\<rparr>) x else x)"

definition default_name :: "string \<Rightarrow> 'a kobj_scheme \<Rightarrow> 'a kobj_scheme" where
  "default_name name x = (if o_name x = [] then omod (\<lambda>m. m\<lparr>om_name := name\<rparr>) x else x)"

text \<open>Deleting every listed object, best effort: how many went.\<close>

definition deleteCollection ::
  "string list \<Rightarrow> (string \<Rightarrow> world \<Rightarrow> store_error option \<times> world) \<Rightarrow> world \<Rightarrow> nat \<times> world" where
  "deleteCollection names del w =
     fold (\<lambda>n (k, w). case del n w of (Some _, w1) \<Rightarrow> (k, w1) | (None, w1) \<Rightarrow> (Suc k, w1)) names (0, w)"

definition deleted_response :: "store_error option \<times> world \<Rightarrow> unit response \<times> world" where
  "deleted_response r =
     (case r of (Some _, w) \<Rightarrow> (Failure 404 ''NotFound'', w) | (None, w) \<Rightarrow> (Success 200 (), w))"

section \<open>Services\<close>

definition reconcileNodePort :: "server \<Rightarrow> service \<Rightarrow> world \<Rightarrow> (nodeport_error + service) \<times> world" where
  "reconcileNodePort sv svc w =
     (if svc_type svc \<noteq> NodePortType then (Inr svc, w)
      else case assignNodePorts (w_store w) svc of
        Inl e \<Rightarrow> (Inl e, w)
      | Inr svc1 \<Rightarrow>
          (let pods = nodePortBackingPods (w_store w) svc1 in
           if length pods > 1 then (Inl (ManyBackingPods (length pods)), w)
           else (Inr svc1, fold (redeployPodQuadlet sv) pods w)))"

text \<open>
  The checks both requests run on a stored service: conflict, assignment, conflict again, the
  backing pod.  \<open>None\<close> is the conflict response.
\<close>

definition settle_node_ports :: "server \<Rightarrow> service \<Rightarrow> world \<Rightarrow> service option \<times> world" where
  "settle_node_ports sv svc w =
     (if serviceNodePortConflict (w_store w) svc \<noteq> None then (None, w)
      else case assignNodePorts (w_store w) svc of
        Inl _ \<Rightarrow> (None, w)
      | Inr svc1 \<Rightarrow>
          if serviceNodePortConflict (w_store w) svc1 \<noteq> None then (None, w)
          else case reconcileNodePort sv svc1 w of
            (Inl _, w1) \<Rightarrow> (None, w1)
          | (Inr svc2, w1) \<Rightarrow> (Some svc2, w1))"

text \<open>The socket files old versions wrote for the ports of a service.\<close>

definition removeLegacyServiceSockets :: "server \<Rightarrow> service \<Rightarrow> world \<Rightarrow> world" where
  "removeLegacyServiceSockets sv svc w =
     (if sv_QuadletDir sv = [] then w
      else
        (let paths = map (\<lambda>p. (sv_QuadletDir sv, o_name svc @ ''-'' @ Itoa (sp_port p) @ ''.socket'')) (svc_ports svc)
         in if length paths > 0 then reloadAfterRemove sv paths w else w))"

definition servicePost :: "server \<Rightarrow> string \<Rightarrow> service decoded \<Rightarrow> world \<Rightarrow> service response \<times> world" where
  "servicePost sv ns body w =
     with_decoded body w (\<lambda>x.
       let svc = default_namespace ns (x\<lparr>o_apiVersion := ''v1'', o_kind := ''Service''\<rparr>) in
       check_or (validateName ''namespace'' (o_namespace svc)) 400 ''Invalid'' w
       (check_or (validateName ''name'' (o_name svc)) 400 ''Invalid'' w
       (case store_call (CreateService (sv_now sv) svc) w of
          (Inl _, w1) \<Rightarrow> (Failure 409 ''AlreadyExists'', w1)
        | (Inr created, w1) \<Rightarrow>
            (case settle_node_ports sv created w1 of
               (None, w2) \<Rightarrow>
                 (Failure 409 ''Conflict'', on_store (\<lambda>s. snd (DeleteService (sv_now sv) ns (o_name created) s)) w2)
             | (Some svc2, w2) \<Rightarrow>
                 (let w3 = on_store (\<lambda>s. snd (UpdateService (sv_now sv) svc2 s)) w2
                  in (Success 201 svc2, regenerateIngressConfigs sv ns w3))))))"

definition servicePatch ::
  "server \<Rightarrow> string \<Rightarrow> string \<Rightarrow> (service \<Rightarrow> service decoded) \<Rightarrow> world \<Rightarrow> service response \<times> world" where
  "servicePatch sv ns name patch w =
     (case GetService ns name (w_store w) of
        Inl _ \<Rightarrow> (Failure 404 ''NotFound'', w)
      | Inr svc \<Rightarrow>
          with_decoded (patch svc) w (\<lambda>patched.
          check_or (validatePatchedIdentity ''service'' (o_namespace patched) (o_name patched) ns name)
            400 ''Invalid'' w
          (case store_call (UpdateService (sv_now sv) patched) w of
             (Inl _, w1) \<Rightarrow> (Failure 500 ''InternalError'', w1)
           | (Inr updated, w1) \<Rightarrow>
               (case settle_node_ports sv updated w1 of
                  (None, w2) \<Rightarrow> (Failure 409 ''Conflict'', w2)
                | (Some svc2, w2) \<Rightarrow>
                    (let w3 = on_store (\<lambda>s. snd (UpdateService (sv_now sv) svc2 s)) w2
                     in (Success 200 svc2,
                         regenerateIngressConfigs sv ns (removeLegacyServiceSockets sv svc w3)))))))"

definition deleteServiceByName :: "server \<Rightarrow> string \<Rightarrow> string \<Rightarrow> world \<Rightarrow> store_error option \<times> world" where
  "deleteServiceByName sv ns name w =
     (case store_do (DeleteService (sv_now sv) ns name) w of
        (Some e, w1) \<Rightarrow> (Some e, w1)
      | (None, w1) \<Rightarrow>
          (None, regenerateIngressConfigs sv ns
            (case GetService ns name (w_store w) of
               Inl _ \<Rightarrow> w1 | Inr svc \<Rightarrow> removeLegacyServiceSockets sv svc w1)))"

definition serviceDelete :: "server \<Rightarrow> string \<Rightarrow> string \<Rightarrow> world \<Rightarrow> unit response \<times> world" where
  "serviceDelete sv ns name w =
     (if name = []
      then (Success 200 (), snd (deleteCollection (map (\<lambda>x. o_name x) (ServicesIn ns (w_store w)))
              (deleteServiceByName sv ns) w))
      else deleted_response (deleteServiceByName sv ns name w))"

section \<open>Pods\<close>

definition default_restart :: "pod \<Rightarrow> pod" where
  "default_restart p =
     (if ps_restartPolicy (pod_spec p) = []
      then p\<lparr>pod_spec := (pod_spec p)\<lparr>ps_restartPolicy := ''Always''\<rparr>\<rparr> else p)"

text \<open>The two checks and the dry run both requests make.\<close>

definition check_pod ::
  "server \<Rightarrow> pod \<Rightarrow> world \<Rightarrow> (world \<Rightarrow> pod response \<times> world) \<Rightarrow> pod response \<times> world" where
  "check_pod sv p w k =
     check_or (validateSingleContainer ''pod spec'' (Some (pod_spec p)) True) 400 ''Invalid'' w
     (check_or (validatePodAnnotations (Some (pod_spec p)) (om_annotations (o_meta p)) 0) 422 ''Invalid'' w
     (case render_files sv (o_name p) p [] w of
        (Inl _, w1) \<Rightarrow> (Failure 400 ''Invalid'', w1)
      | (Inr _, w1) \<Rightarrow> k w1))"

text \<open>The start time of the status is part of its remainder and left out.\<close>

definition pending_pod :: "pod \<Rightarrow> pod" where
  "pending_pod p =
     (omod (\<lambda>m. m\<lparr>om_labels := Some (lmap (om_labels m))\<rparr>) p)
       \<lparr>pod_status := (pod_status p)\<lparr>pst_phase := ''Pending''\<rparr>\<rparr>"

definition podPost :: "server \<Rightarrow> string \<Rightarrow> pod decoded \<Rightarrow> world \<Rightarrow> pod response \<times> world" where
  "podPost sv ns body w =
     with_decoded body w (\<lambda>x.
       let p = default_restart (default_namespace ns (x\<lparr>o_apiVersion := ''v1'', o_kind := ''Pod''\<rparr>)) in
       check_or (validateName ''namespace'' (o_namespace p)) 400 ''Invalid'' w
       (check_or (validateName ''name'' (o_name p)) 400 ''Invalid'' w
       (check_pod sv p w (\<lambda>w1.
         if podNodePortConflict (w_store w1) p \<noteq> None then (Failure 409 ''Conflict'', w1)
         else case store_call (CreatePod (sv_now sv) (pending_pod p)) w1 of
           (Inl _, w2) \<Rightarrow> (Failure 409 ''AlreadyExists'', w2)
         | (Inr created, w2) \<Rightarrow>
             (Success 201 created, regenerateIngressConfigs sv ns (generatePodQuadlet sv created w2))))))"

definition podPatch ::
  "server \<Rightarrow> string \<Rightarrow> string \<Rightarrow> (pod \<Rightarrow> pod decoded) \<Rightarrow> world \<Rightarrow> pod response \<times> world" where
  "podPatch sv ns name patch w =
     (case GetPod ns name (w_store w) of
        Inl _ \<Rightarrow> (Failure 404 ''NotFound'', w)
      | Inr old \<Rightarrow>
          with_decoded (patch old) w (\<lambda>x.
          let p = default_restart x in
          check_or (validatePatchedIdentity ''pod'' (o_namespace p) (o_name p) ns name) 400 ''Invalid'' w
          (check_pod sv p w (\<lambda>w1.
            case store_call (UpdatePod (sv_now sv) p) w1 of
              (Inl _, w2) \<Rightarrow> (Failure 500 ''InternalError'', w2)
            | (Inr updated, w2) \<Rightarrow> (Success 200 updated, redeployPodQuadlet sv updated w2)))))"

definition podDelete :: "server \<Rightarrow> string \<Rightarrow> string \<Rightarrow> world \<Rightarrow> unit response \<times> world" where
  "podDelete sv ns name w =
     (if name = []
      then (Success 200 (), snd (deleteCollection (map (\<lambda>x. o_name x) (PodsIn ns (w_store w)))
              (deletePodByName sv ns) w))
      else deleted_response (deletePodByName sv ns name w))"

section \<open>TCP routes\<close>

definition tcp_object :: "string \<Rightarrow> 'a kobj_scheme \<Rightarrow> 'a kobj_scheme" where
  "tcp_object k x = x\<lparr>o_apiVersion := ''traefik.io/v1alpha1'', o_kind := k\<rparr>"

text \<open>The two checks every request on a route ends with before storing.\<close>

definition check_route ::
  "ingress_route_tcp \<Rightarrow> world \<Rightarrow> ingress_route_tcp response \<times> world
    \<Rightarrow> ingress_route_tcp response \<times> world" where
  "check_route irt w k =
     check_or (validateIngressRouteTCP irt) 422 ''Invalid'' w
     (if ingressRouteTCPConflict (AllIngressRouteTCPs (w_store w)) irt \<noteq> None
      then (Failure 409 ''Conflict'', w) else k)"

definition store_route ::
  "server \<Rightarrow> nat \<Rightarrow> nat \<times> string \<Rightarrow> (store_error + ingress_route_tcp) \<times> world
    \<Rightarrow> ingress_route_tcp response \<times> world" where
  "store_route sv ok failure r =
     (case r of
        (Inl _, w) \<Rightarrow> (Failure (fst failure) (snd failure), w)
      | (Inr x, w) \<Rightarrow> (Success ok x, generateTCPConfig sv x w))"

definition routePost ::
  "server \<Rightarrow> string \<Rightarrow> ingress_route_tcp decoded \<Rightarrow> world \<Rightarrow> ingress_route_tcp response \<times> world" where
  "routePost sv ns body w =
     with_decoded body w (\<lambda>x.
       let irt = default_namespace ns (tcp_object ''IngressRouteTCP'' x) in
       check_or (validateName ''namespace'' (o_namespace irt)) 422 ''Invalid'' w
       (check_or (validateName ''name'' (o_name irt)) 422 ''Invalid'' w
       (check_route irt w
         (store_route sv 201 (409, ''AlreadyExists'') (store_call (CreateIngressRouteTCP (sv_now sv) irt) w)))))"

definition routePut ::
  "server \<Rightarrow> string \<Rightarrow> string \<Rightarrow> ingress_route_tcp decoded \<Rightarrow> world \<Rightarrow> ingress_route_tcp response \<times> world" where
  "routePut sv ns name body w =
     with_decoded body w (\<lambda>x.
       let irt = default_name name (default_namespace ns (tcp_object ''IngressRouteTCP'' x)) in
       check_or (validatePatchedIdentity ''ingressroutetcp'' (o_namespace irt) (o_name irt) ns name) 422 ''Invalid'' w
       (check_route irt w
         (store_route sv 200 (404, ''NotFound'') (store_call (UpdateIngressRouteTCP (sv_now sv) irt) w))))"

definition routePatch ::
  "server \<Rightarrow> string \<Rightarrow> string \<Rightarrow> (ingress_route_tcp \<Rightarrow> ingress_route_tcp decoded) \<Rightarrow> world
    \<Rightarrow> ingress_route_tcp response \<times> world" where
  "routePatch sv ns name patch w =
     (case GetIngressRouteTCP ns name (w_store w) of
        Inl _ \<Rightarrow> (Failure 404 ''NotFound'', w)
      | Inr old \<Rightarrow>
          with_decoded (patch old) w (\<lambda>x.
          check_or (validatePatchedIdentity ''ingressroutetcp'' (o_namespace x) (o_name x) ns name) 422 ''Invalid'' w
          (let irt = tcp_object ''IngressRouteTCP'' x in
           check_route irt w
             (store_route sv 200 (500, ''InternalError'') (store_call (UpdateIngressRouteTCP (sv_now sv) irt) w)))))"

definition deleteIngressRouteTCPByName ::
  "server \<Rightarrow> string \<Rightarrow> string \<Rightarrow> world \<Rightarrow> store_error option \<times> world" where
  "deleteIngressRouteTCPByName sv ns name w =
     (case store_do (DeleteIngressRouteTCP (sv_now sv) ns name) w of
        (Some e, w1) \<Rightarrow> (Some e, w1)
      | (None, w1) \<Rightarrow> (None, removeTraefikConfigFile sv (tcpFilename ns name) w1))"

definition routeDelete :: "server \<Rightarrow> string \<Rightarrow> string \<Rightarrow> world \<Rightarrow> unit response \<times> world" where
  "routeDelete sv ns name w =
     (if name = []
      then (Success 200 (), snd (deleteCollection (map (\<lambda>x. o_name x) (IngressRouteTCPsIn ns (w_store w)))
              (deleteIngressRouteTCPByName sv ns) w))
      else deleted_response (deleteIngressRouteTCPByName sv ns name w))"

section \<open>Middlewares\<close>

definition store_middleware ::
  "server \<Rightarrow> nat \<Rightarrow> nat \<times> string \<Rightarrow> (store_error + middleware) \<times> world \<Rightarrow> middleware response \<times> world" where
  "store_middleware sv ok failure r =
     (case r of
        (Inl _, w) \<Rightarrow> (Failure (fst failure) (snd failure), w)
      | (Inr x, w) \<Rightarrow> (Success ok x, generateMiddlewareConfig sv x w))"

text \<open>\<open>compiles\<close>: whether \<open>regexp.Compile\<close> accepts an expression.\<close>

definition middlewarePost ::
  "server \<Rightarrow> (string \<Rightarrow> bool) \<Rightarrow> string \<Rightarrow> middleware decoded \<Rightarrow> world \<Rightarrow> middleware response \<times> world" where
  "middlewarePost sv compiles ns body w =
     with_decoded body w (\<lambda>x.
       let mw = default_namespace ns (tcp_object ''Middleware'' x) in
       check_or (validateName ''namespace'' (o_namespace mw)) 422 ''Invalid'' w
       (check_or (validateName ''name'' (o_name mw)) 422 ''Invalid'' w
       (check_or (validateMiddleware compiles mw) 422 ''Invalid'' w
         (store_middleware sv 201 (409, ''AlreadyExists'') (store_call (CreateMiddleware (sv_now sv) mw) w)))))"

definition middlewarePut ::
  "server \<Rightarrow> (string \<Rightarrow> bool) \<Rightarrow> string \<Rightarrow> string \<Rightarrow> middleware decoded \<Rightarrow> world \<Rightarrow> middleware response \<times> world" where
  "middlewarePut sv compiles ns name body w =
     with_decoded body w (\<lambda>x.
       let mw = default_name name (default_namespace ns (tcp_object ''Middleware'' x)) in
       check_or (validatePatchedIdentity ''middleware'' (o_namespace mw) (o_name mw) ns name) 422 ''Invalid'' w
       (check_or (validateMiddleware compiles mw) 422 ''Invalid'' w
         (store_middleware sv 200 (404, ''NotFound'') (store_call (UpdateMiddleware (sv_now sv) mw) w))))"

definition middlewarePatch ::
  "server \<Rightarrow> (string \<Rightarrow> bool) \<Rightarrow> string \<Rightarrow> string \<Rightarrow> (middleware \<Rightarrow> middleware decoded) \<Rightarrow> world
    \<Rightarrow> middleware response \<times> world" where
  "middlewarePatch sv compiles ns name patch w =
     (case GetMiddleware ns name (w_store w) of
        Inl _ \<Rightarrow> (Failure 404 ''NotFound'', w)
      | Inr old \<Rightarrow>
          with_decoded (patch old) w (\<lambda>x.
          check_or (validatePatchedIdentity ''middleware'' (o_namespace x) (o_name x) ns name) 422 ''Invalid'' w
          (let mw = tcp_object ''Middleware'' x in
           check_or (validateMiddleware compiles mw) 422 ''Invalid'' w
             (store_middleware sv 200 (500, ''InternalError'') (store_call (UpdateMiddleware (sv_now sv) mw) w)))))"

definition deleteMiddlewareByName ::
  "server \<Rightarrow> string \<Rightarrow> string \<Rightarrow> world \<Rightarrow> store_error option \<times> world" where
  "deleteMiddlewareByName sv ns name w =
     (case store_do (DeleteMiddleware (sv_now sv) ns name) w of
        (Some e, w1) \<Rightarrow> (Some e, w1)
      | (None, w1) \<Rightarrow> (None, removeTraefikConfigFile sv (middlewareFilename ns name) w1))"

definition middlewareDelete :: "server \<Rightarrow> string \<Rightarrow> string \<Rightarrow> world \<Rightarrow> unit response \<times> world" where
  "middlewareDelete sv ns name w =
     (if name = []
      then (Success 200 (), snd (deleteCollection (map (\<lambda>x. o_name x) (MiddlewaresIn ns (w_store w)))
              (deleteMiddlewareByName sv ns) w))
      else deleted_response (deleteMiddlewareByName sv ns name w))"

end
