(* ===== verification/SyncLemmas.thy ===== *)
theory SyncLemmas
  imports QuadletSync
begin

text \<open>
  What synchronising the files of a pod changes: only its own files under any failures, exactly
  its own files without them, and nothing when they are already there.
\<close>

section \<open>Other files stay\<close>

lemma writeQuadletFile_frame:
  "k \<noteq> (dir, name) \<Longrightarrow> mget (w_files (snd (writeQuadletFile sv dir name c w))) k = mget (w_files w) k"
  by (simp add: writeQuadletFile_def case_prod_beta Let_def perform_frame)

lemma write_tracked_frame:
  "k \<notin> Pair dir ` fst ` set xs \<Longrightarrow>
    mget (w_files (snd (snd (write_tracked sv dir xs ch w)))) k = mget (w_files w) k"
proof (induction xs arbitrary: ch w)
  case (Cons x xs)
  then show ?case
    using writeQuadletFile_frame [of k dir "fst x" sv "snd x" w]
    by (cases x) (auto simp: case_prod_beta Let_def)
qed simp

lemma remove_stale_unit_frame:
  assumes "k = (dir, name) \<longrightarrow> name \<in> set keep \<or>
    (\<forall>c. mget (w_files w) k = Some c \<longrightarrow> \<not> ownedByExactLabels c ns podName)"
  shows "mget (w_files (snd (remove_stale_unit sv dir ns podName keep name (r, w)))) k = mget (w_files w) k"
  using assms
  by (auto simp: remove_stale_unit_def Let_def case_prod_beta perform_frame manage_frame split: option.split)

lemma remove_stale_fold_frame:
  assumes "fst k = dir \<longrightarrow> snd k \<in> set keep \<or>
    (\<forall>c. mget (w_files w) k = Some c \<longrightarrow> \<not> ownedByExactLabels c ns podName)"
  shows "mget (w_files (snd (fold (remove_stale_unit sv dir ns podName keep) names (r, w)))) k = mget (w_files w) k"
  using assms
proof (induction names arbitrary: r w)
  case (Cons n names)
  obtain r' w' where s: "remove_stale_unit sv dir ns podName keep n (r, w) = (r', w')" by fastforce
  have "k = (dir, n) \<longrightarrow> n \<in> set keep \<or>
      (\<forall>c. mget (w_files w) k = Some c \<longrightarrow> \<not> ownedByExactLabels c ns podName)"
    using Cons.prems by (cases k) auto
  from remove_stale_unit_frame [OF this, of sv r]
  have "mget (w_files w') k = mget (w_files w) k" by (simp add: s)
  with Cons.IH [of w' r'] Cons.prems show ?case by (simp add: s)
qed simp

lemma removeStaleOwnedUnits_frame:
  assumes "fst k = dir \<longrightarrow> snd k \<in> set keep \<or>
    (\<forall>c. mget (w_files w) k = Some c \<longrightarrow> \<not> ownedByExactLabels c ns podName)"
  shows "mget (w_files (snd (removeStaleOwnedUnits sv dir ns podName keep w))) k = mget (w_files w) k"
  using remove_stale_fold_frame [OF assms]
  by (simp add: removeStaleOwnedUnits_def case_prod_beta Let_def manage_frame)

lemma run_unit_files [simp]: "w_files (run_unit sv restart force ch u w) = w_files w"
  by (simp add: run_unit_def act_def perform_def Let_def)

lemma run_units_files [simp]: "w_files (fold (run_unit sv restart force ch) us w) = w_files w"
  by (induction us arbitrary: w) simp_all

lemma reloadAndRun_files [simp]: "w_files (reloadAndRun sv us restart skip force ch w) = w_files w"
  by (simp add: reloadAndRun_def perform_def Let_def)

lemma deployPodFiles_frame:
  assumes k: "k \<notin> Pair dir ` fst ` set fs"
    and own: "fst k = dir \<longrightarrow> (\<forall>c. mget (w_files w) k = Some c \<longrightarrow> \<not> ownedByExactLabels c ns podName)"
  shows "mget (w_files (deployPodFiles sv dir ns podName fs us restart force w)) k = mget (w_files w) k"
proof -
  obtain ok ch w1 where wr: "writeQuadletFilesTracked sv dir fs w = (ok, ch, w1)" by (metis prod_cases3)
  have w1: "mget (w_files w1) k = mget (w_files w) k"
    using write_tracked_frame [of k dir "sort_key fst fs" sv "[]" w] k wr
    by (simp add: writeQuadletFilesTracked_def)
  obtain removed w2 where rm: "removeStaleOwnedUnits sv dir ns podName (map fst fs) w1 = (removed, w2)" by fastforce
  have "mget (w_files w2) k = mget (w_files w1) k"
    using removeStaleOwnedUnits_frame [of k dir "map fst fs" w1 ns podName sv] own by (simp add: rm w1)
  then show ?thesis by (simp add: deployPodFiles_def wr rm w1)
qed

section \<open>Without failures\<close>

definition no_failures :: "server \<Rightarrow> bool" where
  "no_failures sv \<longleftrightarrow> (\<forall>l op. sv_fails sv l op = Done)"

lemma writeQuadletFile_done:
  "no_failures sv \<Longrightarrow> writeQuadletFile sv dir name c w = (True,
    w\<lparr>w_files := mput (dir, name) c (w_files w), w_log := WriteFile dir name c # MkdirAll dir # w_log w\<rparr>)"
  by (simp add: writeQuadletFile_def perform_def no_failures_def Let_def)

definition current :: "string \<Rightarrow> string \<Rightarrow> string \<Rightarrow> world \<Rightarrow> bool" where
  "current dir n c w \<longleftrightarrow> mget (w_files w) (dir, n) = Some c \<or> sameTemplateHash dir n c w"

lemma sameTemplateHash_cong:
  "mget (w_files w) (dir, n) = mget (w_files w') (dir, n) \<Longrightarrow> sameTemplateHash dir n c w = sameTemplateHash dir n c w'"
  by (simp add: sameTemplateHash_def)

lemma current_cong:
  "mget (w_files w) (dir, n) = mget (w_files w') (dir, n) \<Longrightarrow> current dir n c w = current dir n c w'"
  by (simp add: current_def sameTemplateHash_def)

lemma write_tracked_done:
  assumes "no_failures sv" "distinct (map fst xs)"
  shows "\<exists>ch' w'. write_tracked sv dir xs ch w = (True, ch', w') \<and> (\<forall>(n, c) \<in> set xs. current dir n c w')"
  using assms(2)
proof (induction xs arbitrary: ch w)
  case (Cons x xs)
  obtain n c where x: "x = (n, c)" by fastforce
  define w0 where "w0 = (if sameTemplateHash dir n c w then w else snd (writeQuadletFile sv dir n c w))"
  define ch0 where "ch0 = (if sameTemplateHash dir n c w then ch else n # ch)"
  have step: "write_tracked sv dir (x # xs) ch w = write_tracked sv dir xs ch0 w0"
    by (simp add: x w0_def ch0_def writeQuadletFile_done [OF assms(1)])
  from Cons.IH [of ch0 w0] Cons.prems obtain ch' w' where
    wt: "write_tracked sv dir xs ch0 w0 = (True, ch', w')" and cur: "\<forall>(n, c) \<in> set xs. current dir n c w'"
    by auto
  have "current dir n c w0"
    by (simp add: w0_def current_def writeQuadletFile_done [OF assms(1)] mget_mput)
  moreover have "mget (w_files w') (dir, n) = mget (w_files w0) (dir, n)"
    using write_tracked_frame [of "(dir, n)" dir xs sv ch0 w0] Cons.prems by (auto simp: wt x image_iff)
  ultimately have "current dir n c w'" using current_cong [of w' dir n w0 c] by simp
  with cur step wt show ?case by (auto simp: x)
qed simp

lemma remove_stale_fold_done:
  assumes "no_failures sv" "n \<in> set names" "n \<notin> set keep"
    and "mget (w_files (snd (fold (remove_stale_unit sv dir ns podName keep) names (r, w)))) (dir, n) = Some c"
  shows "\<not> ownedByExactLabels c ns podName"
  using assms(2,4)
proof (induction names arbitrary: r w)
  case (Cons m names)
  obtain r' w' where s: "remove_stale_unit sv dir ns podName keep m (r, w) = (r', w')" by fastforce
  show ?case
  proof (cases "n \<in> set names")
    case True
    with Cons.IH [of r' w'] Cons.prems show ?thesis by (simp add: s)
  next
    case False
    then have m: "m = n" using Cons.prems by simp
    have gone: "mget (w_files w') (dir, n) = Some c' \<Longrightarrow> \<not> ownedByExactLabels c' ns podName" for c'
      using s assms(1,3) unfolding m
      by (auto simp: remove_stale_unit_def Let_def perform_def no_failures_def mget_mdel manage_def act_def
          split: option.splits if_splits)
    have "mget (w_files (snd (fold (remove_stale_unit sv dir ns podName keep) names (r', w')))) (dir, n)
        = mget (w_files w') (dir, n)"
      using gone by (intro remove_stale_fold_frame) auto
    with gone Cons.prems show ?thesis by (simp add: s)
  qed
qed simp

lemma list_dir_iff: "n \<in> set (list_dir d w) \<longleftrightarrow> mget (w_files w) (d, n) \<noteq> None"
  by (force simp: list_dir_def map_of_eq_None_iff image_iff)

lemma remove_stale_done:
  assumes nf: "no_failures sv" and n: "n \<notin> set keep"
    and c: "mget (w_files (snd (removeStaleOwnedUnits sv dir ns podName keep w))) (dir, n) = Some c"
  shows "\<not> ownedByExactLabels c ns podName"
proof -
  let ?f = "fold (remove_stale_unit sv dir ns podName keep) (list_dir dir w) (False, w)"
  have f: "mget (w_files (snd ?f)) (dir, n) = Some c"
    using c by (simp add: removeStaleOwnedUnits_def case_prod_beta Let_def manage_frame split: if_splits)
  show ?thesis
  proof (cases "n \<in> set (list_dir dir w)")
    case True
    from remove_stale_fold_done [OF nf this n f] show ?thesis .
  next
    case False
    then have "mget (w_files w) (dir, n) = None" by (simp add: list_dir_iff)
    moreover from this have "mget (w_files (snd ?f)) (dir, n) = mget (w_files w) (dir, n)"
      by (intro remove_stale_fold_frame) simp
    ultimately show ?thesis using f by simp
  qed
qed

definition synced :: "string \<Rightarrow> string \<Rightarrow> string \<Rightarrow> (string, string) gomap \<Rightarrow> world \<Rightarrow> bool" where
  "synced dir ns podName fs w \<longleftrightarrow> (\<forall>(n, c) \<in> set fs. current dir n c w) \<and>
     (\<forall>n c. n \<notin> fst ` set fs \<longrightarrow> mget (w_files w) (dir, n) = Some c \<longrightarrow> \<not> ownedByExactLabels c ns podName)"

lemma synced_cong: "w_files w = w_files w' \<Longrightarrow> synced dir ns podName fs w = synced dir ns podName fs w'"
  by (simp add: synced_def current_def sameTemplateHash_def)

lemma deployPodFiles_synced:
  assumes nf: "no_failures sv" and wf: "mwf fs"
  shows "synced dir ns podName fs (deployPodFiles sv dir ns podName fs us restart force w)"
proof -
  have "distinct (map fst (sort_key fst fs))"
    using wf by (simp add: mwf_def distinct_map)
  from write_tracked_done [OF nf this, of dir "[]" w] obtain ch w1 where
    wr: "writeQuadletFilesTracked sv dir fs w = (True, ch, w1)" and cur: "\<forall>(n, c) \<in> set fs. current dir n c w1"
    by (auto simp: writeQuadletFilesTracked_def)
  obtain removed w2 where rm: "removeStaleOwnedUnits sv dir ns podName (map fst fs) w1 = (removed, w2)" by fastforce
  have files: "w_files (deployPodFiles sv dir ns podName fs us restart force w) = w_files w2"
    by (simp add: deployPodFiles_def wr rm)
  have "mget (w_files w2) (dir, n) = mget (w_files w1) (dir, n)" if "n \<in> fst ` set fs" for n
    using removeStaleOwnedUnits_frame [of "(dir, n)" dir "map fst fs" w1 ns podName sv] that by (simp add: rm)
  then have "current dir n c w2" if "(n, c) \<in> set fs" for n c
    using cur that current_cong [of w2 dir n w1 c] by (force simp: image_iff)
  moreover have "\<not> ownedByExactLabels c ns podName"
    if "n \<notin> fst ` set fs" "mget (w_files w2) (dir, n) = Some c" for n c
    using remove_stale_done [OF nf, of n "map fst fs" dir ns podName w1 c] that by (simp add: rm)
  ultimately have "synced dir ns podName fs w2" by (auto simp: synced_def)
  with synced_cong [OF files] show ?thesis by simp
qed

section \<open>Nothing to do\<close>

lemma write_tracked_noop:
  "\<forall>(n, c) \<in> set xs. sameTemplateHash dir n c w \<Longrightarrow> write_tracked sv dir xs ch w = (True, ch, w)"
  by (induction xs) auto

lemma remove_stale_noop:
  assumes "\<forall>n c. n \<notin> set keep \<longrightarrow> mget (w_files w) (dir, n) = Some c \<longrightarrow> \<not> ownedByExactLabels c ns podName"
  shows "removeStaleOwnedUnits sv dir ns podName keep w = (False, w)"
proof -
  have "fold (remove_stale_unit sv dir ns podName keep) names (False, w) = (False, w)" for names
    using assms by (induction names) (auto simp: remove_stale_unit_def split: option.split)
  then show ?thesis by (simp add: removeStaleOwnedUnits_def)
qed

lemma deployPodFiles_noop:
  assumes "synced dir ns podName fs w" "\<forall>(n, c) \<in> set fs. templateHashFromContent c \<noteq> []"
  shows "deployPodFiles sv dir ns podName fs us True False w = w"
proof -
  have same: "\<forall>(n, c) \<in> set (sort_key fst fs). sameTemplateHash dir n c w"
  proof -
    have "sameTemplateHash dir n c w" if "(n, c) \<in> set fs" for n c
    proof -
      have "templateHashFromContent c \<noteq> []" "current dir n c w"
        using assms that by (auto simp: synced_def)
      then show ?thesis by (auto simp: current_def sameTemplateHash_def Let_def)
    qed
    then show ?thesis by auto
  qed
  have "removeStaleOwnedUnits sv dir ns podName (map fst fs) w = (False, w)"
    using assms(1) by (intro remove_stale_noop) (auto simp: synced_def)
  then show ?thesis
    by (simp add: deployPodFiles_def writeQuadletFilesTracked_def write_tracked_noop [OF same])
qed

end
