(* ===== verification/DeployDemo.thy ===== *)
theory DeployDemo
  imports PodDeploy SyncLemmas QuadletDemo
begin

text \<open>A server without failures and an empty world, the concrete input of the witnesses.\<close>

definition demo_server :: server where
  "demo_server =
     \<lparr>sv_QuadletDir = ''q'', sv_SystemdDir = ''s'', sv_ConfigDir = ''/c'', sv_TraefikDir = ''t'',
      sv_manager = True, sv_gen = demo_env, sv_isPrint = (\<lambda>_. True), sv_yaml = (\<lambda>_. Some ''doc''),
      sv_now = 0, sv_fails = (\<lambda>_ _. Done), sv_subnet = (\<lambda>_ _. None)\<rparr>"

definition demo_world :: world where
  "demo_world = \<lparr>w_store = NewStore, w_files = [], w_subnets = [], w_log = []\<rparr>"

lemma demo_no_failures [simp]: "no_failures demo_server"
  by (simp add: no_failures_def demo_server_def)

end
