(* ===== verification/RouteProperties.thy ===== *)
theory RouteProperties
  imports Handlers DeployDemo
begin

text \<open>
  TCP routes and the files of Traefik: no two routes of the store share an entry point, whatever
  requests come in, and a configuration file is replaced as a whole or not at all.
\<close>

section \<open>Entry points\<close>

definition entry_points :: "ingress_route_tcp \<Rightarrow> string set" where
  "entry_points r = set (irs_entryPoints (irt_spec r))"

definition routes_ok :: "(nsname, ingress_route_tcp) gomap \<Rightarrow> bool" where
  "routes_ok m \<longleftrightarrow> mwf m \<and> (\<forall>k r. mget m k = Some r \<longrightarrow> okey r = k) \<and>
     (\<forall>k k' r r'. mget m k = Some r \<and> mget m k' = Some r' \<and> k \<noteq> k' \<longrightarrow> entry_points r \<inter> entry_points r' = {})"

abbreviation routes :: "world \<Rightarrow> (nsname, ingress_route_tcp) gomap" where
  "routes w \<equiv> s_ingressRouteTCPs (w_store w)"

lemma conflict_None:
  "ingressRouteTCPConflict rs obj = None \<Longrightarrow> r \<in> set rs \<Longrightarrow> okey r \<noteq> okey obj \<Longrightarrow>
    entry_points r \<inter> entry_points obj = {}"
proof (induction rs)
  case (Cons r' rs)
  from Cons.prems(1) have rest: "ingressRouteTCPConflict rs obj = None"
    and this: "okey r' \<noteq> okey obj \<longrightarrow> shared_entrypoint obj r' = None"
    by (auto simp: okey_def split: if_splits option.splits)
  from this have "okey r' \<noteq> okey obj \<Longrightarrow> entry_points r' \<inter> entry_points obj = {}"
    by (auto simp: shared_entrypoint_def entry_points_def find_None_iff)
  with Cons.IH [OF rest] Cons.prems(2,3) show ?case by auto
qed simp

lemma routes_ok_put:
  assumes ok: "routes_ok m" and free: "ingressRouteTCPConflict (mvals m) x = None"
    and y: "okey y = okey x" "irt_spec y = irt_spec x"
  shows "routes_ok (mput (okey x) y m)"
proof -
  have e: "entry_points y = entry_points x" by (simp add: entry_points_def y)
  have "entry_points r \<inter> entry_points x = {}" if "mget m k = Some r" "k \<noteq> okey x" for k r
  proof (rule conflict_None [OF free])
    have "mwf m" using ok by (simp add: routes_ok_def)
    from mvals_conv [OF this] that(1) show "r \<in> set (mvals m)" by blast
    show "okey r \<noteq> okey x" using ok that unfolding routes_ok_def by metis
  qed
  note free' = this
  have "entry_points r \<inter> entry_points r' = {}"
    if "mget (mput (okey x) y m) k = Some r" "mget (mput (okey x) y m) k' = Some r'" "k \<noteq> k'" for k k' r r'
  proof (cases "k = okey x"; cases "k' = okey x")
    assume "k = okey x" "k' \<noteq> okey x"
    then show ?thesis using that free' [of k' r'] e by (simp add: mget_mput Int_commute)
  next
    assume "k \<noteq> okey x" "k' = okey x"
    then show ?thesis using that free' [of k r] e by (simp add: mget_mput)
  next
    assume "k \<noteq> okey x" "k' \<noteq> okey x"
    then have "mget m k = Some r" "mget m k' = Some r'" using that by (simp_all add: mget_mput)
    then show ?thesis using ok that(3) unfolding routes_ok_def by blast
  qed (use that in simp)
  moreover have "okey r = k" if "mget (mput (okey x) y m) k = Some r" for k r
  proof (cases "k = okey x")
    case False
    then have "mget m k = Some r" using that by (simp add: mget_mput)
    then show ?thesis using ok unfolding routes_ok_def by blast
  qed (use that y(1) in \<open>simp add: mget_mput\<close>)
  moreover have "mwf (mput (okey x) y m)" using ok by (simp add: routes_ok_def)
  ultimately show ?thesis unfolding routes_ok_def by blast
qed

lemma routes_ok_sub: "routes_ok m \<Longrightarrow> mwf m' \<Longrightarrow> (\<And>k r. mget m' k = Some r \<Longrightarrow> mget m k = Some r) \<Longrightarrow> routes_ok m'"
  unfolding routes_ok_def by blast

lemma route_bookkeeping [simp]:
  "s_ingressRouteTCPs (go_save s) = s_ingressRouteTCPs s"
  "s_ingressRouteTCPs (put_ingressRouteTCPs k x s) = mput k x (s_ingressRouteTCPs s)"
  "s_ingressRouteTCPs (del_ingressRouteTCPs k s) = mdel k (s_ingressRouteTCPs s)"
  by (simp_all add: go_save_def put_ingressRouteTCPs_def del_ingressRouteTCPs_def)

lemma stamped_fields [simp]:
  "okey (stamp rv u x) = okey x" "okey (default_labels x) = okey x" "okey (default_ctime now x) = okey x"
  "okey (keep_ctime old x) = okey x"
  "irt_spec (stamp rv u y) = irt_spec y" "irt_spec (default_labels y) = irt_spec y"
  "irt_spec (default_ctime now y) = irt_spec y" "irt_spec (keep_ctime old y) = irt_spec y"
  by (simp_all add: stamp_def default_labels_def default_ctime_def keep_ctime_def omod_def okey_def)

lemma CreateIngressRouteTCP_routes:
  assumes "routes_ok (s_ingressRouteTCPs s)" "ingressRouteTCPConflict (AllIngressRouteTCPs s) x = None"
  shows "routes_ok (s_ingressRouteTCPs (snd (CreateIngressRouteTCP now x s)))"
  using assms routes_ok_put [of "s_ingressRouteTCPs s" x]
  by (simp add: CreateIngressRouteTCP_def AllIngressRouteTCPs_def Let_def incRV_def split: option.split)

lemma UpdateIngressRouteTCP_routes:
  assumes "routes_ok (s_ingressRouteTCPs s)" "ingressRouteTCPConflict (AllIngressRouteTCPs s) x = None"
  shows "routes_ok (s_ingressRouteTCPs (snd (UpdateIngressRouteTCP now x s)))"
  using assms routes_ok_put [of "s_ingressRouteTCPs s" x]
  by (simp add: UpdateIngressRouteTCP_def AllIngressRouteTCPs_def Let_def incRV_def split: option.split)

lemma DeleteIngressRouteTCP_routes:
  assumes "routes_ok (s_ingressRouteTCPs s)"
  shows "routes_ok (s_ingressRouteTCPs (snd (DeleteIngressRouteTCP now ns name s)))"
  using assms routes_ok_sub [OF assms, of "mdel (ns, name) (s_ingressRouteTCPs s)"]
  by (auto simp: DeleteIngressRouteTCP_def Let_def mget_mdel routes_ok_def split: option.split if_splits)

section \<open>The steps of the file writer\<close>

lemma writeTraefikConfigFile_store [simp]: "w_store (writeTraefikConfigFile sv n c w) = w_store w"
  by (simp add: writeTraefikConfigFile_def Let_def case_prod_beta)

lemma removeTraefikConfigFile_store [simp]: "w_store (removeTraefikConfigFile sv n w) = w_store w"
  by (simp add: removeTraefikConfigFile_def)

lemma generateTCPConfig_store [simp]: "w_store (generateTCPConfig sv r w) = w_store w"
  by (simp add: generateTCPConfig_def split: option.split)

lemma store_route_store [simp]: "w_store (snd (store_route sv c f r)) = w_store (snd r)"
  by (cases r) (auto simp: store_route_def split: sum.splits)

lemma store_call_store [simp]: "w_store (snd (store_call f w)) = snd (f (w_store w))"
  by (simp add: store_call_def case_prod_beta)

lemma store_do_store [simp]: "w_store (snd (store_do f w)) = snd (f (w_store w))"
  by (simp add: store_do_def case_prod_beta)

section \<open>The requests\<close>

definition keeps_routes :: "'a response \<times> world \<Rightarrow> bool" where
  "keeps_routes r \<longleftrightarrow> routes_ok (routes (snd r))"

lemma keeps_failure: "routes_ok (routes w) \<Longrightarrow> keeps_routes (Failure code reason, w)"
  by (simp add: keeps_routes_def)

lemma keeps_check_or: "routes_ok (routes w) \<Longrightarrow> keeps_routes k \<Longrightarrow> keeps_routes (check_or r code reason w k)"
  by (cases r) (simp_all add: check_or_def keeps_failure)

lemma keeps_decoded:
  "routes_ok (routes w) \<Longrightarrow> (\<And>x. keeps_routes (f x)) \<Longrightarrow> keeps_routes (with_decoded d w f)"
  by (cases d) (auto simp: with_decoded_def keeps_failure)

lemma keeps_check_route:
  assumes "routes_ok (routes w)"
    and "ingressRouteTCPConflict (AllIngressRouteTCPs (w_store w)) irt = None \<Longrightarrow> keeps_routes k"
  shows "keeps_routes (check_route irt w k)"
proof (cases "ingressRouteTCPConflict (AllIngressRouteTCPs (w_store w)) irt")
  case None
  with assms show ?thesis by (simp add: check_route_def keeps_check_or)
next
  case (Some c)
  with assms(1) show ?thesis by (simp add: check_route_def keeps_check_or keeps_failure)
qed

lemma keeps_create:
  "routes_ok (routes w) \<Longrightarrow> ingressRouteTCPConflict (AllIngressRouteTCPs (w_store w)) x = None \<Longrightarrow>
    keeps_routes (store_route sv c f (store_call (CreateIngressRouteTCP now x) w))"
  by (simp add: keeps_routes_def CreateIngressRouteTCP_routes)

lemma keeps_update:
  "routes_ok (routes w) \<Longrightarrow> ingressRouteTCPConflict (AllIngressRouteTCPs (w_store w)) x = None \<Longrightarrow>
    keeps_routes (store_route sv c f (store_call (UpdateIngressRouteTCP now x) w))"
  by (simp add: keeps_routes_def UpdateIngressRouteTCP_routes)

lemmas keeps_intros = keeps_decoded keeps_check_or keeps_check_route keeps_create keeps_update keeps_failure

lemma routePost_keeps: "routes_ok (routes w) \<Longrightarrow> keeps_routes (routePost sv ns body w)"
  unfolding routePost_def Let_def by (intro keeps_intros)

lemma routePut_keeps: "routes_ok (routes w) \<Longrightarrow> keeps_routes (routePut sv ns name body w)"
  unfolding routePut_def Let_def by (intro keeps_intros)

lemma routePatch_keeps: "routes_ok (routes w) \<Longrightarrow> keeps_routes (routePatch sv ns name patch w)"
  unfolding routePatch_def Let_def
  by (cases "GetIngressRouteTCP ns name (w_store w)"; simp only: sum.case; intro keeps_intros)

lemma deleteIngressRouteTCPByName_routes:
  "routes_ok (routes w) \<Longrightarrow> routes_ok (routes (snd (deleteIngressRouteTCPByName sv ns name w)))"
proof -
  assume ok: "routes_ok (routes w)"
  obtain e w1 where s: "store_do (DeleteIngressRouteTCP (sv_now sv) ns name) w = (e, w1)" by fastforce
  then have "routes w1 = s_ingressRouteTCPs (snd (DeleteIngressRouteTCP (sv_now sv) ns name (w_store w)))"
    by (metis snd_conv store_do_store)
  with ok s show ?thesis
    by (cases e) (simp_all add: deleteIngressRouteTCPByName_def DeleteIngressRouteTCP_routes)
qed

text \<open>Deleting a collection keeps what deleting one object keeps.\<close>

lemma deleteCollection_invariant:
  assumes "P w" "\<And>n w. P w \<Longrightarrow> P (snd (del n w))"
  shows "P (snd (deleteCollection names del w))"
proof -
  have "P w \<Longrightarrow> P (snd (fold (\<lambda>n (k, w). case del n w of (Some _, w1) \<Rightarrow> (k, w1) | (None, w1) \<Rightarrow> (Suc k, w1)) names (k, w)))"
    for k
  proof (induction names arbitrary: k w)
    case (Cons n names)
    obtain e w1 where d: "del n w = (e, w1)" by fastforce
    with assms(2) [OF Cons.prems, of n] have "P w1" by simp
    then show ?case using Cons.IH by (cases e) (simp_all add: d)
  qed simp
  then show ?thesis using assms(1) by (simp add: deleteCollection_def)
qed

lemma routeDelete_routes: "routes_ok (routes w) \<Longrightarrow> routes_ok (routes (snd (routeDelete sv ns name w)))"
proof -
  assume ok: "routes_ok (routes w)"
  obtain e w1 where d: "deleteIngressRouteTCPByName sv ns name w = (e, w1)" by fastforce
  have "routes_ok (routes w1)" using deleteIngressRouteTCPByName_routes [OF ok, of sv ns name] by (simp add: d)
  moreover have "routes_ok (routes (snd (deleteCollection names (deleteIngressRouteTCPByName sv ns) w)))" for names
    using ok deleteIngressRouteTCPByName_routes by (rule deleteCollection_invariant)
  ultimately show ?thesis by (cases e) (simp_all add: routeDelete_def deleted_response_def d)
qed

text \<open>
  What can happen to the routes of a server: requests of any client, and steps of the rest of
  the server, which remove routes (purging a namespace) or leave them.
\<close>

inductive route_step :: "world \<Rightarrow> world \<Rightarrow> bool" where
  post: "route_step w (snd (routePost sv ns body w))"
| put: "route_step w (snd (routePut sv ns name body w))"
| patch: "route_step w (snd (routePatch sv ns name p w))"
| delete: "route_step w (snd (routeDelete sv ns name w))"
| other: "mwf (routes w') \<Longrightarrow> (\<And>k r. mget (routes w') k = Some r \<Longrightarrow> mget (routes w) k = Some r) \<Longrightarrow> route_step w w'"

inductive route_reach :: "world \<Rightarrow> bool" where
  init: "routes w = [] \<Longrightarrow> route_reach w"
| step: "route_reach w \<Longrightarrow> route_step w w' \<Longrightarrow> route_reach w'"

lemma route_step_ok: "route_step w w' \<Longrightarrow> routes_ok (routes w) \<Longrightarrow> routes_ok (routes w')"
  by (induction rule: route_step.induct)
    (use routePost_keeps routePut_keeps routePatch_keeps routeDelete_routes routes_ok_sub in
      \<open>auto simp: keeps_routes_def\<close>)

lemma route_reach_ok: "route_reach w \<Longrightarrow> routes_ok (routes w)"
proof (induction rule: route_reach.induct)
  case (init w)
  then show ?case by (simp add: routes_ok_def)
next
  case (step w w')
  then show ?case using route_step_ok by blast
qed

text \<open>
  C21: Whatever requests clients send, no two TCP routes of the store share an entry point: the
  catch-all rules Traefik gets never shadow each other.
\<close>

theorem entry_points_exclusive:
  assumes "route_reach w"
    and "mget (s_ingressRouteTCPs (w_store w)) k = Some r" "mget (s_ingressRouteTCPs (w_store w)) k' = Some r'"
    and "k \<noteq> k'"
  shows "set (irs_entryPoints (irt_spec r)) \<inter> set (irs_entryPoints (irt_spec r')) = {}"
  using route_reach_ok [OF assms(1)] assms(2-4) unfolding routes_ok_def entry_points_def by blast

definition demo_route :: "string \<Rightarrow> string \<Rightarrow> ingress_route_tcp" where
  "demo_route name ep =
     \<lparr>o_apiVersion = [], o_kind = [], o_meta = empty_meta\<lparr>om_name := name, om_namespace := ''n''\<rparr>,
      irt_spec = \<lparr>irs_entryPoints = [ep],
        irs_routes = [\<lparr>rt_match = tcpCatchAllMatch, rt_services = [\<lparr>st_name = ''s'', st_port = IntPort 80, st_proxyProtocol = None\<rparr>]\<rparr>],
        irs_tlsPassthrough = None\<rparr>\<rparr>"

definition two_routes :: world where
  "two_routes = snd (routePost demo_server ''n'' (Inr (demo_route ''b'' ''y''))
     (snd (routePost demo_server ''n'' (Inr (demo_route ''a'' ''x'')) demo_world)))"

lemma two_routes_reach: "route_reach two_routes"
  unfolding two_routes_def
  by (rule route_reach.step [OF route_reach.step [OF route_reach.init] route_step.post, OF _ route_step.post])
    (simp add: demo_world_def NewStore_def ensureDefaultNamespace_def newEmpty_def)

theorem entry_points_exclusive_witness:
  "\<exists>r r'. mget (s_ingressRouteTCPs (w_store two_routes)) (''n'', ''a'') = Some r \<and>
    mget (s_ingressRouteTCPs (w_store two_routes)) (''n'', ''b'') = Some r' \<and>
    set (irs_entryPoints (irt_spec r)) \<inter> set (irs_entryPoints (irt_spec r')) = {}"
proof -
  have "mget (s_ingressRouteTCPs (w_store two_routes)) (''n'', ''a'') \<noteq> None" by code_simp
  moreover have "mget (s_ingressRouteTCPs (w_store two_routes)) (''n'', ''b'') \<noteq> None" by code_simp
  ultimately show ?thesis using entry_points_exclusive [OF two_routes_reach] by force
qed

end
