(* ===== verification/FileProperties.thy ===== *)
theory FileProperties
  imports DeployDemo
begin

text \<open>
  The files the server keeps on the host: the quadlet files of pods and the configuration files
  of Traefik.
\<close>

section \<open>Quadlet files\<close>

text \<open>
  C5: Deploying the files of a pod, whichever calls fail, touches no file but the ones it
  renders and the ones that carry this pod's ownership labels: hand-written units and the units
  of other pods stay.
\<close>

theorem deploy_keeps_foreign_files:
  assumes "k \<notin> Pair dir ` fst ` set fs"
    and "\<forall>c. fst k = dir \<and> mget (w_files w) k = Some c \<longrightarrow> \<not> ownedByExactLabels c ns podName"
  shows "mget (w_files (deployPodFiles sv dir ns podName fs units restart force w)) k = mget (w_files w) k"
  using assms by (intro deployPodFiles_frame) auto

definition foreign_world :: world where
  "foreign_world = demo_world\<lparr>w_files := [((''q'', ''mine.container''), ''[Container]'')]\<rparr>"

theorem deploy_keeps_foreign_files_witness:
  "mget (w_files (deployPodFiles demo_server ''q'' ''n'' ''p'' [(''n-p.container'', ''x'')] [''n-p.service''] True False
     foreign_world)) (''q'', ''mine.container'') = mget (w_files foreign_world) (''q'', ''mine.container'')"
  by (rule deploy_keeps_foreign_files)
    (simp_all add: foreign_world_def ownedByExactLabels_def hasExactLine_def ManagedByLabel_def)

text \<open>
  C6: When no call fails, a deployment ends with exactly the pod's files: each rendered file is
  there (its content, or an older one with the same template hash), and no other file of the
  directory carries this pod's ownership labels.
\<close>

theorem deploy_converges:
  assumes "no_failures sv" "mwf fs"
  shows "\<forall>n. let w' = deployPodFiles sv dir ns podName fs units restart force w in
    case mget fs n of
      Some c \<Rightarrow> mget (w_files w') (dir, n) = Some c \<or> sameTemplateHash dir n c w'
    | None \<Rightarrow> (case mget (w_files w') (dir, n) of None \<Rightarrow> True | Some c \<Rightarrow> \<not> ownedByExactLabels c ns podName)"
proof
  fix n
  define w' where "w' = deployPodFiles sv dir ns podName fs units restart force w"
  have s: "synced dir ns podName fs w'" unfolding w'_def by (rule deployPodFiles_synced [OF assms])
  have "current dir n c w'" if "mget fs n = Some c" for c
    using s that map_of_SomeD [of fs n c] unfolding synced_def by blast
  moreover have "\<not> ownedByExactLabels c ns podName" if "mget fs n = None" "mget (w_files w') (dir, n) = Some c" for c
    using s that map_of_not_key [of fs n] unfolding synced_def by blast
  ultimately show "let w' = deployPodFiles sv dir ns podName fs units restart force w in
    case mget fs n of
      Some c \<Rightarrow> mget (w_files w') (dir, n) = Some c \<or> sameTemplateHash dir n c w'
    | None \<Rightarrow> (case mget (w_files w') (dir, n) of None \<Rightarrow> True | Some c \<Rightarrow> \<not> ownedByExactLabels c ns podName)"
    by (simp add: w'_def [symmetric] current_def split: option.split)
qed

definition pod_labels :: "string \<Rightarrow> string" where
  "pod_labels name = ln ManagedByLabel @ ln ''Label=io.kubernetes.pod.namespace=n'' @ ln (''Label=io.kubernetes.pod.name='' @ name)"

definition stale_world :: world where
  "stale_world = demo_world\<lparr>w_files := [((''q'', ''n-p-old.container''), pod_labels ''p'')]\<rparr>"

theorem deploy_converges_witness:
  "\<forall>n. let w' = deployPodFiles demo_server ''q'' ''n'' ''p'' [(''n-p.container'', pod_labels ''p'')] [''n-p.service'']
      True False stale_world in
    case mget [(''n-p.container'', pod_labels ''p'')] n of
      Some c \<Rightarrow> mget (w_files w') (''q'', n) = Some c \<or> sameTemplateHash ''q'' n c w'
    | None \<Rightarrow> (case mget (w_files w') (''q'', n) of None \<Rightarrow> True | Some c \<Rightarrow> \<not> ownedByExactLabels c ''n'' ''p'')"
  by (rule deploy_converges) (simp_all add: mwf_def)

text \<open>
  C38: A second deployment of unchanged hashed files does nothing at all: no file is written or
  removed, no unit is restarted, and nothing is reloaded, whichever calls would fail then.
\<close>

theorem redeploy_changes_nothing:
  assumes "no_failures sv" "mwf fs" "\<forall>(n, c) \<in> set fs. templateHashFromContent c \<noteq> []"
  shows "deployPodFiles sv' dir ns podName fs units' True False
      (deployPodFiles sv dir ns podName fs units restart force w)
    = deployPodFiles sv dir ns podName fs units restart force w"
  using deployPodFiles_noop [OF deployPodFiles_synced [OF assms(1,2)] assms(3)] .

definition hashed_file :: string where
  "hashed_file = ln ''[Container]'' @ ln (hash_prefix @ ''0a0b'')"

theorem redeploy_changes_nothing_witness:
  "deployPodFiles demo_server ''q'' ''n'' ''p'' [(''n-p.container'', hashed_file)] [''n-p.service''] True False
      (deployPodFiles demo_server ''q'' ''n'' ''p'' [(''n-p.container'', hashed_file)] [''n-p.service''] False False
        demo_world)
    = deployPodFiles demo_server ''q'' ''n'' ''p'' [(''n-p.container'', hashed_file)] [''n-p.service''] False False
        demo_world"
proof (rule redeploy_changes_nothing)
  have "templateHashFromContent hashed_file = ''0a0b''" by code_simp
  then show "\<forall>(n, c) \<in> set [(''n-p.container'', hashed_file)]. templateHashFromContent c \<noteq> []" by simp
qed (simp_all add: mwf_def)

section \<open>Configuration files\<close>

lemma writeTraefikConfigFile_files:
  assumes "k \<noteq> (sv_TraefikDir sv, tmp_name name)"
  shows "mget (w_files (writeTraefikConfigFile sv name content w)) k =
    (if k = (sv_TraefikDir sv, name) \<and>
        mget (w_files (writeTraefikConfigFile sv name content w)) k \<noteq> mget (w_files w) k
     then Some content else mget (w_files w) k)"
proof -
  let ?d = "sv_TraefikDir sv"
  define w1 where "w1 = snd (perform sv (MkdirAll ?d) w)"
  define w2 where "w2 = snd (perform sv (WriteFile ?d (tmp_name name) content) w1)"
  define w3 where "w3 = snd (perform sv (RenameFile ?d (tmp_name name) name) w2)"
  have f1: "mget (w_files w1) k = mget (w_files w) k" by (simp add: w1_def perform_frame)
  have f2: "mget (w_files w2) k = mget (w_files w1) k"
    using assms by (simp add: w2_def perform_frame)
  have f4: "mget (w_files (act sv (RemoveFile ?d (tmp_name name)) w3)) k = mget (w_files w3) k"
    using assms by (simp add: act_def perform_frame)
  have f3: "mget (w_files w3) k = mget (w_files w2) k \<or>
      (k = (?d, name) \<and> mget (w_files w3) k = mget (w_files w2) (?d, tmp_name name))"
    using assms by (cases "sv_fails sv (w_log w2) (RenameFile ?d (tmp_name name) name)")
      (auto simp: w3_def perform_def Let_def mget_mput mget_mdel split: option.split)
  have tmp: "mget (w_files w2) (?d, tmp_name name) = Some content"
    if "fst (perform sv (WriteFile ?d (tmp_name name) content) w1)"
    using that by (simp add: w2_def perform_def Let_def mget_mput)
  show ?thesis
    using f1 f2 f3 f4 tmp
    by (auto simp: writeTraefikConfigFile_def Let_def case_prod_beta w1_def [symmetric] w2_def [symmetric]
        w3_def [symmetric])
qed

text \<open>
  C39: Whichever calls fail and whatever a failing write leaves behind, the file Traefik reads for
  an ingress holds either what it held before or the complete new configuration, and no other
  file changes but the temporary one.
\<close>

theorem config_file_atomic:
  "\<forall>k. k = (sv_TraefikDir sv, tmp_name (ingress_file (o_namespace ing) (o_name ing))) \<or>
     mget (w_files (generateTraefikConfig sv ing w)) k = mget (w_files w) k \<or>
     (k = (sv_TraefikDir sv, ingress_file (o_namespace ing) (o_name ing)) \<and>
      mget (w_files (generateTraefikConfig sv ing w)) k = Some (traefik_config (sv_isPrint sv) (w_store w) ing))"
proof
  fix k
  show "k = (sv_TraefikDir sv, tmp_name (ingress_file (o_namespace ing) (o_name ing))) \<or>
     mget (w_files (generateTraefikConfig sv ing w)) k = mget (w_files w) k \<or>
     (k = (sv_TraefikDir sv, ingress_file (o_namespace ing) (o_name ing)) \<and>
      mget (w_files (generateTraefikConfig sv ing w)) k = Some (traefik_config (sv_isPrint sv) (w_store w) ing))"
    using writeTraefikConfigFile_files [of k sv "ingress_file (o_namespace ing) (o_name ing)"
        "traefik_config (sv_isPrint sv) (w_store w) ing" w]
    by (auto simp: generateTraefikConfig_def split: if_splits)
qed

text \<open>
  Names are joined with a dash that names may contain: two ingresses, two pods and an ingress
  and a middleware of different namespaces get the same file, so one tenant's objects overwrite
  another's.
\<close>

lemma file_names_collide:
  "ingress_file ''a'' ''b-c'' = ingress_file ''a-b'' ''c'' \<and>
   middlewareFilename ''a'' ''b'' = ingress_file ''middleware-a'' ''b'' \<and>
   podQuadletPaths dir ''a'' ''b-c'' [c] = podQuadletPaths dir ''a-b'' ''c'' [c'] \<and>
   podUnitNames ''a'' ''b-c'' [c] = podUnitNames ''a-b'' ''c'' [c'] \<and>
   validateName what ''a'' = Inr () \<and> validateName what ''a-b'' = Inr () \<and>
   validateName what ''b-c'' = Inr () \<and> validateName what ''c'' = Inr () \<and>
   validateName what ''middleware-a'' = Inr ()"
  by (simp add: ingress_file_def middlewareFilename_def podQuadletPaths_def podUnitNames_def
      dns_label_def byte_classes)

end
