(* ===== verification/Reconcile.thy ===== *)
theory Reconcile
  imports NetworkAttach NodePorts
begin

text \<open>
  The reconcile loop of the main program (cmd/q8s/main.go): importing labelled podman containers
  into the store, pruning deployment pods, and deriving the status of pods, deployments and jobs
  from systemd and podman.  What podman and systemd answer during one pass is the record
  \<open>observed\<close>; the parsing of their output that q8s does itself is modelled
  (internal/podman/podman.go, internal/systemd/manager.go).
\<close>

section \<open>What podman reports\<close>

record container_info =
  ci_Names :: "string list"
  ci_State :: string
  ci_Status :: string
  ci_ExitCode :: int
  ci_Image :: string
  ci_Labels :: strmap

definition ci_label :: "container_info \<Rightarrow> string \<Rightarrow> string" where
  "ci_label c k = (case mget (ci_Labels c) k of None \<Rightarrow> [] | Some v \<Rightarrow> v)"

definition ci_Name :: "container_info \<Rightarrow> string" where
  "ci_Name c = (case ci_Names c of [] \<Rightarrow> [] | n # _ \<Rightarrow> TrimPrefix n ''/'')"

definition PodName :: "container_info \<Rightarrow> string" where
  "PodName c = ci_label c ''io.kubernetes.pod.name''"

definition PodNamespace :: "container_info \<Rightarrow> string" where
  "PodNamespace c = ci_label c ''io.kubernetes.pod.namespace''"

definition PodDeployment :: "container_info \<Rightarrow> string" where
  "PodDeployment c = ci_label c ''io.kubernetes.pod.deployment''"

definition ContainerName :: "container_info \<Rightarrow> string" where
  "ContainerName c = ci_label c ''io.kubernetes.container.name''"

definition Health :: "container_info \<Rightarrow> string" where
  "Health c =
     (let s = ci_Status c in
      if \<not> HasSuffix s '')'' then []
      else case LastIndexByte s (CHR ''('') of
        None \<Rightarrow> []
      | Some i \<Rightarrow>
          (let h = take (length s - 1 - (i + 1)) (drop (i + 1) s) in
           if h = ''healthy'' \<or> h = ''unhealthy'' \<or> h = ''starting'' then h else []))"

text \<open>The containers of \<open>podman ps\<close> that carry both labels; \<open>None\<close> is an error of the call.\<close>

definition ListOwned :: "container_info list option \<Rightarrow> container_info list option" where
  "ListOwned all = map_option (filter (\<lambda>c. PodName c \<noteq> [] \<and> PodNamespace c \<noteq> [])) all"

text \<open>The first IPv4 subnet of the decoded \<open>podman network inspect\<close>.\<close>

definition parseNetworkSubnet :: "string list list \<Rightarrow> string option" where
  "parseNetworkSubnet networks =
     List.find (\<lambda>s. case ParseCIDR s of None \<Rightarrow> False | Some (ip, _) \<Rightarrow> To4 ip \<noteq> None) (concat networks)"

section \<open>What systemd reports\<close>

record unit_state =
  us_Active :: string
  us_Sub :: string
  us_Result :: string
  us_NRestarts :: int
  us_ExitCode :: int

text \<open>
  The value \<open>strconv.Atoi\<close> returns beside its error: zero for a malformed number, the nearest
  bound for one out of range.
\<close>

definition Atoi_value :: "string \<Rightarrow> int" where
  "Atoi_value s =
     (case Atoi s of
        Some i \<Rightarrow> i
      | None \<Rightarrow>
          (let neg = HasPrefix s ''-''; ds = (if neg \<or> HasPrefix s ''+'' then drop 1 s else s) in
           if ds = [] \<or> digits_val 0 ds = None then 0 else if neg then - (2 ^ 63) else 2 ^ 63 - 1))"

definition unit_property :: "string \<Rightarrow> unit_state \<Rightarrow> unit_state" where
  "unit_property l s =
     (case Cut (TrimSpace l) (CHR ''='') of (k, v, found) \<Rightarrow>
        if \<not> found then s
        else if k = ''ActiveState'' then s\<lparr>us_Active := v\<rparr>
        else if k = ''SubState'' then s\<lparr>us_Sub := v\<rparr>
        else if k = ''Result'' then s\<lparr>us_Result := v\<rparr>
        else if k = ''NRestarts'' then s\<lparr>us_NRestarts := Atoi_value v\<rparr>
        else if k = ''ExecMainStatus'' then s\<lparr>us_ExitCode := Atoi_value v\<rparr>
        else s)"

text \<open>
  \<open>UnitState\<close> on the output of \<open>systemctl show\<close>; \<open>None\<close> stands for the nil state, which every
  caller treats like an error of the call.
\<close>

definition UnitState :: "string \<Rightarrow> unit_state option" where
  "UnitState out =
     (let s = fold unit_property (Split out newline)
        \<lparr>us_Active = [], us_Sub = [], us_Result = [], us_NRestarts = 0, us_ExitCode = 0\<rparr> in
      if us_Active s = [] then None else Some s)"

section \<open>The answers of one pass\<close>

text \<open>A unit may be asked for in several stages of a pass, with different answers.\<close>

datatype stage = Prune | PodStatus | DeploymentStatus | JobStatus

record observed =
  ob_ps :: "container_info list option"
  ob_unit :: "stage \<Rightarrow> string \<Rightarrow> unit_state option"
  ob_inspect :: "string \<Rightarrow> (string \<times> int) option"
  ob_now :: time

definition wrap32 :: "int \<Rightarrow> int" where
  "wrap32 v = (v + 2 ^ 31) mod 2 ^ 32 - 2 ^ 31"

section \<open>Names and phases\<close>

definition isValidObjectName :: "string \<Rightarrow> bool" where
  "isValidObjectName s \<longleftrightarrow> length s \<noteq> 0 \<and> length s \<le> 253 \<and>
     list_all (\<lambda>(i, c). is_lower c \<or> is_digit c \<or> c = CHR ''-'' \<and> i > 0 \<and> i < length s - 1)
       (zip [0..<length s] s)"

definition unit_failed :: "string \<Rightarrow> bool" where
  "unit_failed result \<longleftrightarrow>
     result \<in> set [''exit-code'', ''signal'', ''core-dump'', ''watchdog'', ''timeout'']"

definition unitStateToPhase :: "unit_state \<Rightarrow> string" where
  "unitStateToPhase s =
     (if us_Active s = ''active'' then PodRunning
      else if us_Active s = ''activating'' then (if us_NRestarts s > 0 then PodRunning else PodPending)
      else if us_Active s = ''failed'' then PodFailed
      else if us_Active s = ''inactive'' then
        (if us_Result s = ''success'' then PodSucceeded
         else if unit_failed (us_Result s) then PodFailed
         else PodPending)
      else PodPending)"

definition podmanStateToPhase :: "string \<Rightarrow> int \<Rightarrow> string" where
  "podmanStateToPhase state exitCode =
     (if state = ''running'' then PodRunning
      else if state = ''exited'' \<or> state = ''stopped'' then (if exitCode = 0 then PodSucceeded else PodFailed)
      else PodPending)"

text \<open>One container of \<open>podmanContainerStates\<close>: its phase and its health.\<close>

definition container_by_name :: "pod \<Rightarrow> container_info list \<Rightarrow> (string, container_info) gomap" where
  "container_by_name p infos =
     fold (\<lambda>ci m.
       (let n0 = ContainerName ci;
            n = (if n0 = [] then (case ps_containers (pod_spec p) of [c] \<Rightarrow> c_name c | _ \<Rightarrow> n0) else n0)
        in if n = [] then m else mput n ci m)) infos []"

definition member_state :: "(string, container_info) gomap \<Rightarrow> container \<Rightarrow> sync_state" where
  "member_state byName c =
     (case mget byName (c_name c) of
        None \<Rightarrow> \<lparr>ss_phase = PodPending, ss_health = []\<rparr>
      | Some ci \<Rightarrow> \<lparr>ss_phase = podmanStateToPhase (ci_State ci) (ci_ExitCode ci), ss_health = Health ci\<rparr>)"

definition count_phase :: "string \<Rightarrow> sync_state list \<Rightarrow> nat" where
  "count_phase ph sts = length (filter (\<lambda>st. ss_phase st = ph) sts)"

definition podmanContainerStates ::
  "pod \<Rightarrow> container_info list \<Rightarrow> string \<times> (string, sync_state) gomap" where
  "podmanContainerStates p infos =
     (let byName = container_by_name p infos;
          cs = ps_containers (pod_spec p);
          sts = map (member_state byName) cs;
          states = fold (\<lambda>c m. mput (c_name c) (member_state byName c) m) cs [];
          n = length cs
      in (if n > 0 \<and> count_phase PodRunning sts = n then PodRunning
          else if n > 0 \<and> count_phase PodSucceeded sts = n then PodSucceeded
          else if count_phase PodFailed sts > 0 then PodFailed
          else PodPending, states))"

section \<open>Importing and pruning pods\<close>

definition bare_container :: "string \<Rightarrow> string \<Rightarrow> container" where
  "bare_container name img =
     \<lparr>c_name = name, c_image = img, c_command = [], c_args = [], c_workingDir = [], c_ports = [],
      c_env = [], c_envFrom = [], c_volumeMounts = [],
      c_limits = \<lparr>lim_memory = None, lim_cpuMilli = None, lim_gpu = None\<rparr>,
      c_livenessProbe = None, c_readinessProbe = None, c_startupProbe = None, c_imagePullPolicy = [],
      c_runAsUser = None, c_rest = []\<rparr>"

definition bare_spec :: "string \<Rightarrow> string \<Rightarrow> podspec" where
  "bare_spec name img =
     \<lparr>ps_containers = [bare_container name img], ps_initContainers = [], ps_ephemeralContainers = 0,
      ps_volumes = [], ps_hostNetwork = False, ps_restartPolicy = [], ps_rest = []\<rparr>"

definition new_meta :: "time \<Rightarrow> string \<Rightarrow> string \<Rightarrow> objmeta" where
  "new_meta now ns name = empty_meta\<lparr>om_name := name, om_namespace := ns, om_creationTimestamp := Some now\<rparr>"

definition imported_deployment :: "observed \<Rightarrow> container_info \<Rightarrow> deployment" where
  "imported_deployment ob c =
     \<lparr>o_apiVersion = ''apps/v1'', o_kind = ''Deployment'',
      o_meta = new_meta (ob_now ob) (PodNamespace c) (PodDeployment c),
      dep_spec = \<lparr>ds_replicas = Some 1, ds_selector = [],
        ds_template = \<lparr>pt_labels = None, pt_annotations = None,
          pt_spec = bare_spec (PodDeployment c) (ci_Image c)\<rparr>, ds_rest = []\<rparr>,
      dep_status = \<lparr>dst_replicas = 0, dst_readyReplicas = 0, dst_availableReplicas = 0,
        dst_updatedReplicas = 0, dst_observedGeneration = 0\<rparr>\<rparr>"

definition restore_deployment :: "observed \<Rightarrow> container_info \<Rightarrow> store \<Rightarrow> store" where
  "restore_deployment ob c s =
     (if PodDeployment c = [] then s
      else case GetDeployment (PodNamespace c) (PodDeployment c) s of
        Inr _ \<Rightarrow> s
      | Inl _ \<Rightarrow> snd (CreateDeployment (ob_now ob) (imported_deployment ob c) s))"

definition imported_owner :: "container_info \<Rightarrow> store \<Rightarrow> ownerref list" where
  "imported_owner c s =
     (if PodDeployment c = [] then []
      else [\<lparr>or_apiVersion = ''apps/v1'', or_kind = ''Deployment'', or_name = PodDeployment c,
             or_uid = (case GetDeployment (PodNamespace c) (PodDeployment c) s of
                Inl _ \<Rightarrow> [] | Inr d \<Rightarrow> o_uid d),
             or_controller = Some True\<rparr>])"

definition imported_pod :: "observed \<Rightarrow> container_info \<Rightarrow> store \<Rightarrow> pod" where
  "imported_pod ob c s =
     (let containerName = (if isValidObjectName (ContainerName c) then ContainerName c else PodName c) in
      \<lparr>o_apiVersion = ''v1'', o_kind = ''Pod'',
       o_meta = (new_meta (ob_now ob) (PodNamespace c) (PodName c))
         \<lparr>om_ownerReferences := imported_owner c s\<rparr>,
       pod_spec = bare_spec containerName (ci_Image c),
       pod_status = \<lparr>pst_phase = [], pst_containerStatuses = [], pst_rest = []\<rparr>\<rparr>)"

definition import_pod :: "observed \<Rightarrow> container_info \<Rightarrow> store \<Rightarrow> store" where
  "import_pod ob c s =
     (case GetPod (PodNamespace c) (PodName c) s of
        Inr _ \<Rightarrow> s
      | Inl _ \<Rightarrow>
          (case CreatePod (ob_now ob) (imported_pod ob c s) s of
             (Inl _, s1) \<Rightarrow> s1
           | (Inr created, s1) \<Rightarrow>
               UpdatePodPhase (ob_now ob) (o_namespace created) (o_name created)
                 (podmanStateToPhase (ci_State c) (ci_ExitCode c)) (Health c) s1))"

definition pod_path :: "string \<Rightarrow> string \<Rightarrow> string" where
  "pod_path ns name = ns @ ''/'' @ name"

type_synonym live = "(string, container_info list) gomap"

definition live_of :: "live \<Rightarrow> string \<Rightarrow> string \<Rightarrow> container_info list" where
  "live_of lv ns name = (case mget lv (pod_path ns name) of None \<Rightarrow> [] | Some cs \<Rightarrow> cs)"

definition importable :: "container_info \<Rightarrow> bool" where
  "importable c \<longleftrightarrow> PodNamespace c \<noteq> [] \<and> PodName c \<noteq> [] \<and>
     isValidObjectName (PodName c) \<and> isValidObjectName (PodNamespace c)"

definition import_container :: "observed \<Rightarrow> container_info \<Rightarrow> live \<times> store \<Rightarrow> live \<times> store" where
  "import_container ob c st =
     (case st of (lv, s) \<Rightarrow>
        if \<not> importable c then (lv, s)
        else
          (mput (pod_path (PodNamespace c) (PodName c)) (live_of lv (PodNamespace c) (PodName c) @ [c]) lv,
           case GetNamespace (PodNamespace c) s of
             Inl _ \<Rightarrow> s
           | Inr _ \<Rightarrow> import_pod ob c (restore_deployment ob c s)))"

definition pod_unit :: "pod \<Rightarrow> string" where
  "pod_unit p = o_namespace p @ ''-'' @ o_name p @ ''.service''"

definition prune_pod :: "observed \<Rightarrow> bool \<Rightarrow> live \<Rightarrow> pod \<Rightarrow> store \<Rightarrow> store" where
  "prune_pod ob mgr lv p s =
     (if \<not> isDeploymentOwned p then s
      else if mget lv (pod_path (o_namespace p) (o_name p)) \<noteq> None then s
      else if mgr \<and> ob_unit ob Prune (pod_unit p) \<noteq> None then s
      else snd (DeletePod (ob_now ob) (o_namespace p) (o_name p) s))"

text \<open>When listing the containers fails nothing is imported and nothing is pruned.\<close>

definition reconcilePodmanPods :: "observed \<Rightarrow> bool \<Rightarrow> store \<Rightarrow> live \<times> store" where
  "reconcilePodmanPods ob mgr s =
     (case ListOwned (ob_ps ob) of
        None \<Rightarrow> ([], s)
      | Some containers \<Rightarrow>
          (case fold (import_container ob) containers ([], s) of (lv, s1) \<Rightarrow>
             (lv, fold (prune_pod ob mgr lv) (AllPods s1) s1)))"

section \<open>The status of one object\<close>

definition reconcile_pod :: "observed \<Rightarrow> live \<Rightarrow> pod \<Rightarrow> store \<Rightarrow> store" where
  "reconcile_pod ob lv p s =
     (let ns = o_namespace p; name = o_name p; now = ob_now ob;
          infos = live_of lv ns name;
          state = ob_unit ob PodStatus (pod_unit p)
      in if length (ps_containers (pod_spec p)) > 1 then
           (case podmanContainerStates p infos of (phase, states) \<Rightarrow>
              UpdatePodContainerPhases now ns name
                (case (infos, state) of ([], Some us) \<Rightarrow> unitStateToPhase us | _ \<Rightarrow> phase) states s)
         else
           (let health = (case infos of [] \<Rightarrow> [] | ci # _ \<Rightarrow> Health ci) in
            case state of
              None \<Rightarrow>
                (case ob_inspect ob (ns @ ''-'' @ name) of
                   None \<Rightarrow> s
                 | Some (st, code) \<Rightarrow> UpdatePodPhase now ns name (podmanStateToPhase st code) health s)
            | Some us \<Rightarrow>
                UpdatePodRestartInfo ns name (wrap32 (us_NRestarts us)) (wrap32 (us_ExitCode us))
                  (us_Result us \<noteq> [])
                  (UpdatePodPhase now ns name (unitStateToPhase us) health s)))"

definition deployment_ready :: "observed \<Rightarrow> deployment \<Rightarrow> int" where
  "deployment_ready ob d =
     (let n = (case ds_replicas (dep_spec d) of Some r \<Rightarrow> (if r > 1 then r else 1) | None \<Rightarrow> 1) in
      int (length (filter
        (\<lambda>i. case ob_unit ob DeploymentStatus (o_namespace d @ ''-'' @ o_name d @ ''-'' @ Itoa (int i) @ ''.service'') of
               None \<Rightarrow> False | Some us \<Rightarrow> us_Active us = ''active'')
        [0..<nat n])))"

definition reconcile_deployment :: "observed \<Rightarrow> deployment \<Rightarrow> store \<Rightarrow> store" where
  "reconcile_deployment ob d s =
     UpdateDeploymentStatus (ob_now ob) (o_namespace d) (o_name d) (deployment_ready ob d) s"

text \<open>The counters active, succeeded and failed of a job.\<close>

definition job_counters :: "unit_state \<Rightarrow> int \<times> int \<times> int" where
  "job_counters us =
     (if us_Active us = ''active'' \<or> us_Active us = ''activating'' then (1, 0, 0)
      else if us_Active us = ''inactive'' then
        (if us_Result us = ''success'' then (0, 1, 0)
         else if unit_failed (us_Result us) then (0, 0, 1) else (0, 0, 0))
      else if us_Active us = ''failed'' then (0, 0, 1)
      else (0, 0, 0))"

definition reconcile_job :: "observed \<Rightarrow> job \<Rightarrow> store \<Rightarrow> store" where
  "reconcile_job ob j s =
     (case ob_unit ob JobStatus (o_namespace j @ ''-'' @ o_name j @ ''-job.service'') of
        None \<Rightarrow> s
      | Some us \<Rightarrow>
          (case job_counters us of (active, succeeded, failed) \<Rightarrow>
             UpdateJobStatus (ob_now ob) (o_namespace j) (o_name j) active succeeded failed s))"

section \<open>One pass\<close>

definition reconcileOnce :: "observed \<Rightarrow> store \<Rightarrow> store" where
  "reconcileOnce ob s =
     (case reconcilePodmanPods ob True s of (lv, s1) \<Rightarrow>
        let s2 = fold (reconcile_pod ob lv) (AllPods s1) s1;
            s3 = fold (reconcile_deployment ob) (AllDeployments s2) s2
        in fold (reconcile_job ob) (AllJobs s3) s3)"

end
