(* ===== verification/ReconcileLemmas.thy ===== *)
theory ReconcileLemmas
  imports Reconcile ServerValidate StoreProperties
begin

text \<open>What one reconcile pass does to the pods of the store.\<close>

text \<open>Keys of maps are pairs that stay whole in the proofs.\<close>

declare split_paired_All [simp del] split_paired_Ex [simp del]

section \<open>Valid names\<close>

lemma name_bytes_zip:
  "list_all (\<lambda>(i, c). P c \<or> Q c \<and> i > 0 \<and> i < length s - 1) (zip [0..<length s] s) \<longleftrightarrow>
     (\<forall>i < length s. P (s ! i) \<or> Q (s ! i) \<and> i > 0 \<and> i < length s - 1)"
  by (simp add: list_all_length)

lemma isValidObjectName_label: "isValidObjectName s \<longleftrightarrow> dns_label s"
proof (cases "s = []")
  case False
  let ?dash = "\<lambda>c. c = CHR ''-''"
  have dash: "\<not> is_lalnum CHR ''-''" by (simp add: is_lalnum_def byte_classes)
  have split: "is_lower c \<or> is_digit c \<or> R \<longleftrightarrow> is_lalnum c \<or> R" for c R by (auto simp: is_lalnum_def)
  have "isValidObjectName s \<longleftrightarrow> length s \<le> 253 \<and>
      (\<forall>i < length s. is_lalnum (s ! i) \<or> ?dash (s ! i) \<and> i > 0 \<and> i < length s - 1)"
    using False unfolding isValidObjectName_def split name_bytes_zip by simp
  also have "\<dots> \<longleftrightarrow> length s \<le> 253 \<and> (\<forall>c \<in> set s. is_lalnum c \<or> ?dash c) \<and> is_lalnum (s ! 0) \<and>
      is_lalnum (s ! (length s - 1))"
  proof -
    have "i > 0 \<and> i < length s - 1" if "s ! i = CHR ''-''" "i < length s" "is_lalnum (s ! 0)"
      "is_lalnum (s ! (length s - 1))" for i
    proof -
      have "i \<noteq> 0" "i \<noteq> length s - 1" using that dash by metis+
      with that(2) show ?thesis by simp
    qed
    moreover have "0 < length s" "length s - 1 < length s" using False by simp_all
    ultimately show ?thesis unfolding all_set_conv_all_nth by (metis less_irrefl)
  qed
  finally show ?thesis using False by (simp add: dns_label_def hd_conv_nth last_conv_nth conj_ac)
qed (simp add: isValidObjectName_def dns_label_def)

section \<open>Frames of the imports\<close>

lemma finish_phase_other [simp]:
  "k \<noteq> (ns, name) \<Longrightarrow> mget (s_pods (finish_phase now ns name phase pc ch p s)) k = mget (s_pods s) k"
  by (simp add: finish_phase_def Let_def incRV_def mget_mput split: option.split prod.split)

lemma UpdatePodPhase_other:
  "k \<noteq> (ns, name) \<Longrightarrow> mget (s_pods (UpdatePodPhase now ns name phase health s)) k = mget (s_pods s) k"
  by (cases "mget (s_pods s) (ns, name)") (simp_all add: UpdatePodPhase_Some UpdatePodPhase_def Let_def)

lemma UpdatePodPhase_kept:
  "(mget (s_pods (UpdatePodPhase now ns name phase health s)) k = None) = (mget (s_pods s) k = None)"
proof (cases "k = (ns, name)")
  case True
  then show ?thesis
    by (cases "mget (s_pods s) (ns, name)")
      (auto simp: UpdatePodPhase_Some UpdatePodPhase_def [of _ ns name phase health s] finish_phase_def Let_def incRV_def mget_mput
        split: option.split prod.split)
qed (simp add: UpdatePodPhase_other)

text \<open>The maps of the store a pod update leaves alone.\<close>

lemma bookkeeping_maps [simp]:
  "s_namespaces (go_save s) = s_namespaces s" "s_deployments (go_save s) = s_deployments s"
  "s_jobs (go_save s) = s_jobs s"
  "s_namespaces (recordEvent now kd ns name uid et r m s) = s_namespaces s"
  "s_deployments (recordEvent now kd ns name uid et r m s) = s_deployments s"
  "s_jobs (recordEvent now kd ns name uid et r m s) = s_jobs s"
  "s_namespaces (put_pods k p s) = s_namespaces s" "s_deployments (put_pods k p s) = s_deployments s"
  "s_jobs (put_pods k p s) = s_jobs s"
  "s_namespaces (put_deployments k d s) = s_namespaces s" "s_pods (put_deployments k d s) = s_pods s"
  "s_jobs (put_deployments k d s) = s_jobs s"
  by (simp_all add: go_save_def recordEvent_def notifyChanged_def Let_def put_pods_def put_deployments_def)

lemma finish_phase_maps [simp]:
  "s_namespaces (finish_phase now ns name phase pc ch p s) = s_namespaces s"
  "s_deployments (finish_phase now ns name phase pc ch p s) = s_deployments s"
  "s_jobs (finish_phase now ns name phase pc ch p s) = s_jobs s"
  by (simp_all add: finish_phase_def Let_def incRV_def split: option.split prod.split)

lemma UpdatePodPhase_maps [simp]:
  "s_namespaces (UpdatePodPhase now ns name phase health s) = s_namespaces s"
  "s_deployments (UpdatePodPhase now ns name phase health s) = s_deployments s"
  "s_jobs (UpdatePodPhase now ns name phase health s) = s_jobs s"
  by (cases "mget (s_pods s) (ns, name)"; simp add: UpdatePodPhase_def Let_def)+

lemma restore_deployment_maps [simp]:
  "s_pods (restore_deployment ob c s) = s_pods s"
  "s_namespaces (restore_deployment ob c s) = s_namespaces s"
  by (simp_all add: restore_deployment_def CreateDeployment_def Let_def incRV_def split: sum.split option.split)

lemma imported_pod_key [simp]: "okey (imported_pod ob c s) = (PodNamespace c, PodName c)"
  "o_namespace (imported_pod ob c s) = PodNamespace c" "o_name (imported_pod ob c s) = PodName c"
  by (simp_all add: imported_pod_def Let_def okey_def new_meta_def empty_meta_def)

lemma import_pod_maps [simp]: "s_namespaces (import_pod ob c s) = s_namespaces s"
  by (simp add: import_pod_def CreatePod_def Let_def incRV_def split: sum.split option.split)

text \<open>Importing adds the pod of the container when there is none, and changes no other pod.\<close>

definition pods_keyed :: "store \<Rightarrow> bool" where
  "pods_keyed s \<longleftrightarrow> mwf (s_pods s) \<and> (\<forall>k p. mget (s_pods s) k = Some p \<longrightarrow> okey p = k)"

lemma pods_keyed_inv: "store_inv s \<Longrightarrow> pods_keyed s"
proof -
  assume inv: "store_inv s"
  have "okey p = k" if "mget (s_pods s) k = Some p" for k p
    using store_invD(1) [OF inv, of KPod k "UPod p"] that by simp
  with store_invD(5) [OF inv] show ?thesis by (simp add: pods_keyed_def maps_wf_def)
qed

lemma okey_pod_frame [simp]:
  "okey (omod (om_resourceVersion_update f) p) = okey p" "okey (phase_pod ph h p) = okey p"
  by (simp_all add: okey_def omod_def phase_pod_def)

lemma finish_phase_wf [simp]: "mwf (s_pods s) \<Longrightarrow> mwf (s_pods (finish_phase now ns name phase pc ch p s))"
  by (simp add: finish_phase_def Let_def incRV_def split: option.split prod.split)

lemma pods_keyed_phase:
  assumes "pods_keyed s" shows "pods_keyed (UpdatePodPhase now ns name phase health s)"
proof (cases "mget (s_pods s) (ns, name)")
  case (Some p)
  obtain pc ch where eq: "UpdatePodPhase now ns name phase health s =
      finish_phase now ns name phase pc ch (phase_pod phase health p) s"
    using UpdatePodPhase_Some [OF Some] by blast
  obtain rv where q: "mget (s_pods (UpdatePodPhase now ns name phase health s)) (ns, name) =
      Some (omod (om_resourceVersion_update (\<lambda>_. rv)) (phase_pod phase health p))"
    unfolding eq by (rule finish_phase_pod)
  have "okey p = (ns, name)" using assms Some unfolding pods_keyed_def by blast
  with q have at: "mget (s_pods (UpdatePodPhase now ns name phase health s)) (ns, name) = Some p' \<Longrightarrow>
      okey p' = (ns, name)" for p' by auto
  have "okey p' = k" if "mget (s_pods (UpdatePodPhase now ns name phase health s)) k = Some p'" for k p'
  proof (cases "k = (ns, name)")
    case False
    with that UpdatePodPhase_other have "mget (s_pods s) k = Some p'" by metis
    with assms show ?thesis unfolding pods_keyed_def by blast
  qed (use that at in simp)
  moreover have "mwf (s_pods (UpdatePodPhase now ns name phase health s))"
    using assms unfolding eq by (simp add: pods_keyed_def)
  ultimately show ?thesis unfolding pods_keyed_def by blast
qed (use assms in \<open>simp add: UpdatePodPhase_def\<close>)

lemma CreatePod_result:
  assumes "mget (s_pods s) (okey x) = None" "pods_keyed s"
  obtains y s1 where "CreatePod now x s = (Inr y, s1)" "okey y = okey x"
    "s_pods s1 = mput (okey x) y (s_pods s)" "pods_keyed s1"
proof -
  define y where "y = default_ctime now (default_labels (stamp (Itoa (s_resourceVer s + 1))
    (''q8s-pod-'' @ o_namespace x @ ''-'' @ o_name x) (x\<lparr>o_apiVersion := ''v1'', o_kind := ''Pod''\<rparr>)))"
  define s1 where "s1 = snd (CreatePod now x s)"
  have key: "okey y = okey x"
    by (simp add: y_def default_ctime_def default_labels_def stamp_def okey_def omod_def)
  have eq: "CreatePod now x s = (Inr y, s1)"
    using assms(1) by (simp add: s1_def y_def CreatePod_def Let_def incRV_def)
  have p: "s_pods s1 = mput (okey x) y (s_pods s)"
    using assms(1) by (simp add: s1_def y_def CreatePod_def Let_def incRV_def)
  have "okey p' = k" if "mget (s_pods s1) k = Some p'" for k p'
    using that assms(2) key unfolding p pods_keyed_def by (cases "k = okey x") (auto simp: mget_mput)
  moreover have "mwf (s_pods s1)" using assms(2) by (simp add: p pods_keyed_def)
  ultimately show thesis using that eq key p unfolding pods_keyed_def by blast
qed

lemma import_pod_spec:
  assumes "pods_keyed s"
  shows "pods_keyed (import_pod ob c s)"
    and "mget (s_pods s) k = Some p \<Longrightarrow> mget (s_pods (import_pod ob c s)) k = Some p"
    and "(mget (s_pods (import_pod ob c s)) k = None) \<longleftrightarrow>
      (mget (s_pods s) k = None \<and> k \<noteq> (PodNamespace c, PodName c))"
proof -
  let ?k = "(PodNamespace c, PodName c)"
  have "pods_keyed (import_pod ob c s) \<and>
      (mget (s_pods s) k = Some p \<longrightarrow> mget (s_pods (import_pod ob c s)) k = Some p) \<and>
      ((mget (s_pods (import_pod ob c s)) k = None) \<longleftrightarrow> (mget (s_pods s) k = None \<and> k \<noteq> ?k))"
  proof (cases "mget (s_pods s) ?k")
    case None
    let ?x = "imported_pod ob c s"
    have "mget (s_pods s) (okey ?x) = None" using None by simp
    from CreatePod_result [OF this assms, of "ob_now ob"] obtain y s1 where
      y: "CreatePod (ob_now ob) ?x s = (Inr y, s1)" "okey y = okey ?x"
        "s_pods s1 = mput (okey ?x) y (s_pods s)" "pods_keyed s1" .
    from y(2) have n: "o_namespace y = PodNamespace c" "o_name y = PodName c" by (simp_all add: okey_def)
    have imp: "import_pod ob c s = UpdatePodPhase (ob_now ob) (PodNamespace c) (PodName c)
        (podmanStateToPhase (ci_State c) (ci_ExitCode c)) (Health c) s1"
      using None by (simp add: import_pod_def GetPod_def y(1) n)
    have "mget (s_pods (import_pod ob c s)) k = Some p" if "mget (s_pods s) k = Some p"
    proof -
      have "k \<noteq> ?k" using that None by auto
      with that show ?thesis unfolding imp by (simp add: UpdatePodPhase_other y(3) mget_mput)
    qed
    moreover have "(mget (s_pods (import_pod ob c s)) k = None) \<longleftrightarrow> (mget (s_pods s) k = None \<and> k \<noteq> ?k)"
      unfolding imp UpdatePodPhase_kept by (simp add: y(3) mget_mput)
    ultimately show ?thesis unfolding imp using pods_keyed_phase [OF y(4)] by simp
  next
    case (Some q)
    then have "import_pod ob c s = s" by (simp add: import_pod_def GetPod_def)
    with Some assms show ?thesis by auto
  qed
  then show "pods_keyed (import_pod ob c s)"
    and "mget (s_pods s) k = Some p \<Longrightarrow> mget (s_pods (import_pod ob c s)) k = Some p"
    and "(mget (s_pods (import_pod ob c s)) k = None) \<longleftrightarrow> (mget (s_pods s) k = None \<and> k \<noteq> ?k)"
    by blast+
qed

section \<open>The whole import\<close>

definition imports_to :: "store \<Rightarrow> container_info \<Rightarrow> nsname \<Rightarrow> bool" where
  "imports_to s c k \<longleftrightarrow> importable c \<and> k = (PodNamespace c, PodName c) \<and>
     mget (s_namespaces s) ([], PodNamespace c) \<noteq> None"

lemma import_container_spec:
  assumes "pods_keyed s" and r: "import_container ob c (lv, s) = (lv', s')"
  shows "pods_keyed s'" "s_namespaces s' = s_namespaces s"
    and "mget (s_pods s) k = Some p \<Longrightarrow> mget (s_pods s') k = Some p"
    and "(mget (s_pods s') k = None) \<longleftrightarrow> (mget (s_pods s) k = None \<and> \<not> imports_to s c k)"
    and "(mget lv' path = None) \<longleftrightarrow>
      (mget lv path = None \<and> \<not> (importable c \<and> path = pod_path (PodNamespace c) (PodName c)))"
proof -
  let ?r = "restore_deployment ob c s"
  have keyed: "pods_keyed ?r" using assms(1) by (simp add: pods_keyed_def)
  note spec = import_pod_spec [OF keyed]
  show "pods_keyed s'" "s_namespaces s' = s_namespaces s"
    using r assms(1) spec(1)
    by (auto simp: import_container_def GetNamespace_def Let_def split: if_splits option.splits)
  show "mget (s_pods s) k = Some p \<Longrightarrow> mget (s_pods s') k = Some p"
    using r spec(2) [of k p ob c]
    by (auto simp: import_container_def GetNamespace_def Let_def split: if_splits option.splits)
  show "(mget (s_pods s') k = None) \<longleftrightarrow> (mget (s_pods s) k = None \<and> \<not> imports_to s c k)"
    using r spec(3) [of ob c k]
    by (auto simp: import_container_def imports_to_def GetNamespace_def Let_def split: if_splits option.splits)
  show "(mget lv' path = None) \<longleftrightarrow>
      (mget lv path = None \<and> \<not> (importable c \<and> path = pod_path (PodNamespace c) (PodName c)))"
    using r by (auto simp: import_container_def mget_mput split: if_splits)
qed

lemma import_all_spec:
  assumes "pods_keyed s" and "fold (import_container ob) cs (lv, s) = (lv', s')"
  shows "pods_keyed s' \<and> s_namespaces s' = s_namespaces s \<and>
    (\<forall>k p. mget (s_pods s) k = Some p \<longrightarrow> mget (s_pods s') k = Some p) \<and>
    (\<forall>k. (mget (s_pods s') k = None) \<longleftrightarrow> (mget (s_pods s) k = None \<and> \<not> (\<exists>c \<in> set cs. imports_to s c k))) \<and>
    (\<forall>path. (mget lv' path = None) \<longleftrightarrow> (mget lv path = None \<and>
       \<not> (\<exists>c \<in> set cs. importable c \<and> path = pod_path (PodNamespace c) (PodName c))))"
  using assms
proof (induction cs arbitrary: lv s)
  case (Cons c cs)
  obtain lv1 s1 where c: "import_container ob c (lv, s) = (lv1, s1)" by fastforce
  note one = import_container_spec [OF Cons.prems(1) c]
  have ns: "imports_to s1 d k = imports_to s d k" for d k by (simp add: imports_to_def one(2))
  from Cons.prems(2) have "fold (import_container ob) cs (lv1, s1) = (lv', s')" by (simp add: c)
  note rest = Cons.IH [OF one(1) this]
  show ?case
    using rest one(2-5) unfolding ns by (auto simp: conj_ac)
qed simp

section \<open>Pruning\<close>

definition prunable :: "observed \<Rightarrow> bool \<Rightarrow> live \<Rightarrow> pod \<Rightarrow> bool" where
  "prunable ob mgr lv p \<longleftrightarrow> isDeploymentOwned p \<and> mget lv (pod_path (o_namespace p) (o_name p)) = None \<and>
     \<not> (mgr \<and> ob_unit ob Prune (pod_unit p) \<noteq> None)"

lemma DeletePod_pods [simp]: "s_pods (snd (DeletePod now ns name s)) = mdel (ns, name) (s_pods s)"
proof (cases "mget (s_pods s) (ns, name)")
  case None
  then have "mdel (ns, name) (s_pods s) = s_pods s"
    by (simp add: AList.delete_id map_of_not_key)
  then show ?thesis using None by (simp add: DeletePod_def)
qed (simp add: DeletePod_def del_pods_def)

lemma prune_pod_eq:
  "prune_pod ob mgr lv p s = (if prunable ob mgr lv p then snd (DeletePod (ob_now ob) (o_namespace p) (o_name p) s) else s)"
  by (auto simp: prune_pod_def prunable_def)

lemma prune_all_pods:
  "mget (s_pods (fold (prune_pod ob mgr lv) ps s)) k =
     (if \<exists>p \<in> set ps. okey p = k \<and> prunable ob mgr lv p then None else mget (s_pods s) k)"
proof (induction ps arbitrary: s)
  case (Cons p ps)
  then show ?case by (auto simp: prune_pod_eq mget_mdel okey_def)
qed simp

lemma reconcile_pods_spec:
  assumes inv: "pods_keyed s" and ls: "ListOwned (ob_ps ob) = Some cs"
    and r: "reconcilePodmanPods ob mgr s = (lv, s')"
  shows "mget (s_pods s) k = Some p \<Longrightarrow> mget (s_pods s') k = (if prunable ob mgr lv p then None else Some p)"
    and "mget (s_pods s) k = None \<Longrightarrow> (mget (s_pods s') k \<noteq> None) \<longleftrightarrow> (\<exists>c \<in> set cs. imports_to s c k)"
    and "(mget lv path = None) \<longleftrightarrow>
      \<not> (\<exists>c \<in> set cs. importable c \<and> path = pod_path (PodNamespace c) (PodName c))"
proof -
  obtain s1 where f: "fold (import_container ob) cs ([], s) = (lv, s1)"
    and s': "s' = fold (prune_pod ob mgr lv) (AllPods s1) s1"
    using r ls by (auto simp: reconcilePodmanPods_def split: prod.splits)
  note spec = import_all_spec [OF inv f]
  have keyed: "pods_keyed s1" using spec by blast
  have at: "(\<exists>q \<in> set (AllPods s1). okey q = k \<and> prunable ob mgr lv q) \<longleftrightarrow>
      (\<exists>q. mget (s_pods s1) k = Some q \<and> prunable ob mgr lv q)" for k
  proof -
    have "q \<in> set (AllPods s1) \<and> okey q = k \<longleftrightarrow> mget (s_pods s1) k = Some q" for q
      using keyed mvals_conv [of "s_pods s1" q] unfolding pods_keyed_def AllPods_def by metis
    then show ?thesis by blast
  qed
  show path: "(mget lv path = None) \<longleftrightarrow>
      \<not> (\<exists>c \<in> set cs. importable c \<and> path = pod_path (PodNamespace c) (PodName c))" for path
    using spec by simp
  show "mget (s_pods s') k = (if prunable ob mgr lv p then None else Some p)" if "mget (s_pods s) k = Some p"
  proof -
    have "mget (s_pods s1) k = Some p" using spec that by blast
    then show ?thesis unfolding s' prune_all_pods at by simp
  qed
  show "(mget (s_pods s') k \<noteq> None) \<longleftrightarrow> (\<exists>c \<in> set cs. imports_to s c k)" if "mget (s_pods s) k = None"
  proof -
    have "(mget (s_pods s1) k = None) \<longleftrightarrow> (mget (s_pods s) k = None \<and> \<not> (\<exists>c \<in> set cs. imports_to s c k))"
      using spec by blast
    then have new: "(mget (s_pods s1) k \<noteq> None) \<longleftrightarrow> (\<exists>c \<in> set cs. imports_to s c k)" using that by simp
    have "\<not> prunable ob mgr lv q" if "mget (s_pods s1) k = Some q" for q
    proof -
      from that new obtain c where c: "c \<in> set cs" "imports_to s c k" by auto
      have "okey q = k" using keyed that unfolding pods_keyed_def by blast
      with c path [of "pod_path (o_namespace q) (o_name q)"] show ?thesis
        by (auto simp: prunable_def imports_to_def okey_def)
    qed
    then show ?thesis unfolding s' prune_all_pods at using new by auto
  qed
qed

end
