(* ===== verification/ReconcileSettle.thy ===== *)
theory ReconcileSettle
  imports ReconcileLemmas
begin

text \<open>
  Repeated reconcile passes over an unchanged host: the status of every pod is a function of the
  stored pod and of what the host answers, and that function is settled after two rounds.
\<close>

section \<open>Updating every object of a map once\<close>

text \<open>
  \<open>upd x\<close> changes the object under the key of \<open>x\<close> only, to one that \<open>res x\<close> describes.
\<close>

locale object_status =
  fixes objs :: "store \<Rightarrow> (nsname, 'a) gomap"
    and key :: "'a \<Rightarrow> nsname"
    and upd :: "'a \<Rightarrow> store \<Rightarrow> store"
    and res :: "'a \<Rightarrow> 'a \<Rightarrow> bool"
  assumes other: "k \<noteq> key x \<Longrightarrow> mget (objs (upd x s)) k = mget (objs s) k"
    and own: "mget (objs s) (key x) = Some x \<Longrightarrow> \<exists>y. mget (objs (upd x s)) (key x) = Some y \<and> res x y"
    and same_key: "res x y \<Longrightarrow> key y = key x"
    and wf: "mwf (objs s) \<Longrightarrow> mwf (objs (upd x s))"
begin

definition keyed :: "store \<Rightarrow> bool" where
  "keyed s \<longleftrightarrow> mwf (objs s) \<and> (\<forall>k x. mget (objs s) k = Some x \<longrightarrow> key x = k)"

lemma fold_list:
  assumes "distinct (map key xs)" "\<forall>x \<in> set xs. mget (objs s) (key x) = Some x" "mwf (objs s)"
  shows "mwf (objs (fold upd xs s)) \<and>
    (\<forall>k. k \<notin> key ` set xs \<longrightarrow> mget (objs (fold upd xs s)) k = mget (objs s) k) \<and>
    (\<forall>x \<in> set xs. \<exists>y. mget (objs (fold upd xs s)) (key x) = Some y \<and> res x y)"
  using assms
proof (induction xs arbitrary: s)
  case (Cons x xs)
  have fresh: "key x \<notin> key ` set xs" using Cons.prems(1) by simp
  have "\<forall>z \<in> set xs. mget (objs (upd x s)) (key z) = Some z"
    using Cons.prems(2) fresh other by (metis image_eqI list.set_intros(2))
  then have IH: "mwf (objs (fold upd xs (upd x s))) \<and>
      (\<forall>k. k \<notin> key ` set xs \<longrightarrow> mget (objs (fold upd xs (upd x s))) k = mget (objs (upd x s)) k) \<and>
      (\<forall>z \<in> set xs. \<exists>y. mget (objs (fold upd xs (upd x s))) (key z) = Some y \<and> res z y)"
    using Cons.prems(1,3) wf by (intro Cons.IH) simp_all
  obtain y where "mget (objs (upd x s)) (key x) = Some y" "res x y" using own [of s x] Cons.prems(2) by auto
  then have "\<exists>y. mget (objs (fold upd xs (upd x s))) (key x) = Some y \<and> res x y" using IH fresh by auto
  with IH other show ?case by simp
qed simp

lemma keyed_vals: "keyed s \<Longrightarrow> x \<in> set (mvals (objs s)) \<longleftrightarrow> mget (objs s) (key x) = Some x"
  using mvals_conv [of "objs s" x] unfolding keyed_def by metis

lemma keyed_distinct:
  assumes "keyed s" shows "distinct (map key (mvals (objs s)))"
proof -
  have "key x = k" if "(k, x) \<in> set (objs s)" for k x
    using assms that mwf_set_conv [of "objs s" k x] unfolding keyed_def by blast
  then have "map key (mvals (objs s)) = map fst (objs s)" by (auto simp: map_eq_conv)
  moreover have "distinct (map fst (objs s))" using assms by (simp add: keyed_def mwf_def)
  ultimately show ?thesis by (simp only:)
qed

lemma fold_all:
  assumes "keyed s"
  shows "keyed (fold upd (mvals (objs s)) s)"
    and "mget (objs (fold upd (mvals (objs s)) s)) k = Some y \<Longrightarrow> \<exists>x. mget (objs s) k = Some x \<and> res x y"
    and "(mget (objs (fold upd (mvals (objs s)) s)) k = None) = (mget (objs s) k = None)"
proof -
  let ?t = "fold upd (mvals (objs s)) s"
  have "\<forall>x \<in> set (mvals (objs s)). mget (objs s) (key x) = Some x" using keyed_vals [OF assms] by blast
  with keyed_distinct [OF assms] assms have spec: "mwf (objs ?t) \<and>
      (\<forall>k. k \<notin> key ` set (mvals (objs s)) \<longrightarrow> mget (objs ?t) k = mget (objs s) k) \<and>
      (\<forall>x \<in> set (mvals (objs s)). \<exists>y. mget (objs ?t) (key x) = Some y \<and> res x y)"
    by (intro fold_list) (simp_all add: keyed_def)
  have at: "case mget (objs s) k of None \<Rightarrow> mget (objs ?t) k = None
      | Some x \<Rightarrow> \<exists>y. mget (objs ?t) k = Some y \<and> res x y" for k
  proof (cases "mget (objs s) k")
    case None
    then have "k \<notin> key ` set (mvals (objs s))" using keyed_vals [OF assms] by fastforce
    with spec None show ?thesis by simp
  next
    case (Some x)
    then have "key x = k" using assms unfolding keyed_def by blast
    with Some keyed_vals [OF assms] have "x \<in> set (mvals (objs s))" by simp
    with spec \<open>key x = k\<close> Some show ?thesis by auto
  qed
  show one: "\<exists>x. mget (objs s) k = Some x \<and> res x y" if "mget (objs ?t) k = Some y" for k y
    using at [of k] that by (cases "mget (objs s) k") auto
  show "(mget (objs ?t) k = None) = (mget (objs s) k = None)"
    using at [of k] by (cases "mget (objs s) k") auto
  have "key y = k" if "mget (objs ?t) k = Some y" for k y
    using one [OF that] same_key assms unfolding keyed_def by metis
  with spec show "keyed ?t" unfolding keyed_def by blast
qed

lemma fold_settled:
  assumes "keyed s" "\<And>k x. mget (objs s) k = Some x \<Longrightarrow> upd x s = s"
  shows "fold upd (mvals (objs s)) s = s"
proof -
  have "\<forall>x \<in> set (mvals (objs s)). upd x s = s" using keyed_vals [OF assms(1)] assms(2) by blast
  then have "fold upd xs s = s" if "set xs \<subseteq> set (mvals (objs s))" for xs
    using that by (induction xs) auto
  then show ?thesis by blast
qed

end

section \<open>The status of a pod\<close>

definition members_pod :: "string \<Rightarrow> (string, sync_state) gomap \<Rightarrow> pod \<Rightarrow> pod" where
  "members_pod phase states p = p\<lparr>pod_status := (pod_status p)\<lparr>pst_phase := phase, pst_containerStatuses :=
     map fst (map (sync_container (fold (\<lambda>cs m. mput (cs_name cs) cs m) (pst_containerStatuses (pod_status p)) [])
       states) (ps_containers (pod_spec p)))\<rparr>\<rparr>"

definition pod_target :: "observed \<Rightarrow> live \<Rightarrow> pod \<Rightarrow> string \<times> (string, sync_state) gomap" where
  "pod_target ob lv p =
     (let infos = live_of lv (o_namespace p) (o_name p) in
      case podmanContainerStates p infos of (phase, states) \<Rightarrow>
        (case (infos, ob_unit ob PodStatus (pod_unit p)) of ([], Some us) \<Rightarrow> unitStateToPhase us | _ \<Rightarrow> phase, states))"

definition pod_health :: "live \<Rightarrow> pod \<Rightarrow> string" where
  "pod_health lv p = (case live_of lv (o_namespace p) (o_name p) of [] \<Rightarrow> [] | ci # _ \<Rightarrow> Health ci)"

definition status_pod :: "observed \<Rightarrow> live \<Rightarrow> pod \<Rightarrow> pod" where
  "status_pod ob lv p =
     (if length (ps_containers (pod_spec p)) > 1 then
        (case pod_target ob lv p of (phase, states) \<Rightarrow> members_pod phase states p)
      else case ob_unit ob PodStatus (pod_unit p) of
        None \<Rightarrow>
          (case ob_inspect ob (o_namespace p @ ''-'' @ o_name p) of
             None \<Rightarrow> p
           | Some (st, code) \<Rightarrow> phase_pod (podmanStateToPhase st code) (pod_health lv p) p)
      | Some us \<Rightarrow>
          restart_pod (wrap32 (us_NRestarts us)) (wrap32 (us_ExitCode us)) (us_Result us \<noteq> [])
            (phase_pod (unitStateToPhase us) (pod_health lv p) p))"

abbreviation with_rv :: "string \<Rightarrow> pod \<Rightarrow> pod" where
  "with_rv rv \<equiv> omod (om_resourceVersion_update (\<lambda>_. rv))"

definition pod_result :: "observed \<Rightarrow> live \<Rightarrow> pod \<Rightarrow> pod \<Rightarrow> bool" where
  "pod_result ob lv p q \<longleftrightarrow> (\<exists>rv. q = with_rv rv (status_pod ob lv p))"

lemma with_rv_simps [simp]:
  "with_rv rv (with_rv rv' p) = with_rv rv p"
  "phase_pod ph h (with_rv rv p) = with_rv rv (phase_pod ph h p)"
  "restart_pod rc ec ex (with_rv rv p) = with_rv rv (restart_pod rc ec ex p)"
  "members_pod ph st (with_rv rv p) = with_rv rv (members_pod ph st p)"
  by (simp_all add: omod_def phase_pod_def restart_pod_def members_pod_def init_statuses_def)

lemma with_own_rv: "p = with_rv (o_rv p) p"
  by (simp add: omod_def)

lemma UpdatePodContainerPhases_Some:
  assumes "mget (s_pods s) (ns, name) = Some p"
  obtains pc ch where "UpdatePodContainerPhases now ns name phase states s =
    finish_phase now ns name phase pc ch (members_pod phase states p) s"
  using assms that unfolding UpdatePodContainerPhases_def Let_def members_pod_def by auto

lemma reconcile_pod_own:
  assumes "mget (s_pods s) (okey p) = Some p"
  shows "\<exists>q. mget (s_pods (reconcile_pod ob lv p s)) (okey p) = Some q \<and> pod_result ob lv p q"
proof -
  let ?ns = "o_namespace p" and ?name = "o_name p"
  have m: "mget (s_pods s) (?ns, ?name) = Some p" using assms by (simp add: okey_def)
  have multi_eq: "reconcile_pod ob lv p s = (case pod_target ob lv p of (phase, states) \<Rightarrow>
      UpdatePodContainerPhases (ob_now ob) ?ns ?name phase states s)"
    if "length (ps_containers (pod_spec p)) > 1"
    using that by (cases "podmanContainerStates p (live_of lv ?ns ?name)") (simp add: reconcile_pod_def pod_target_def Let_def)
  have phase: "\<exists>rv. mget (s_pods (UpdatePodPhase now ?ns ?name ph h s)) (?ns, ?name) = Some (with_rv rv (phase_pod ph h p))"
    for now ph h unfolding UpdatePodPhase_Some [OF m] by (rule finish_phase_pod) blast
  have restart: "\<exists>rv. mget (s_pods (UpdatePodRestartInfo ?ns ?name rc ec ex t)) (?ns, ?name) =
      Some (with_rv rv (restart_pod rc ec ex q))"
    if "mget (s_pods t) (?ns, ?name) = Some (with_rv rv' q)" for rc ec ex t rv' q
    unfolding UpdatePodRestartInfo_Some [OF that] by (auto simp: incRV_def mget_mput simp del: omod_omod)
  consider (multi) "length (ps_containers (pod_spec p)) > 1"
    | (none) "\<not> length (ps_containers (pod_spec p)) > 1" "ob_unit ob PodStatus (pod_unit p) = None"
    | (unit) us where "\<not> length (ps_containers (pod_spec p)) > 1" "ob_unit ob PodStatus (pod_unit p) = Some us"
    by fastforce
  then show ?thesis
  proof cases
    case multi
    obtain phase states where t: "pod_target ob lv p = (phase, states)" by fastforce
    then have "reconcile_pod ob lv p s = UpdatePodContainerPhases (ob_now ob) ?ns ?name phase states s"
      using multi_eq [OF multi] by simp
    moreover obtain pc ch where "UpdatePodContainerPhases (ob_now ob) ?ns ?name phase states s =
        finish_phase (ob_now ob) ?ns ?name phase pc ch (members_pod phase states p) s"
      by (rule UpdatePodContainerPhases_Some [OF m])
    ultimately have eq: "reconcile_pod ob lv p s =
        finish_phase (ob_now ob) ?ns ?name phase pc ch (members_pod phase states p) s" by simp
    obtain rv where "mget (s_pods (reconcile_pod ob lv p s)) (?ns, ?name) = Some (with_rv rv (members_pod phase states p))"
      unfolding eq by (rule finish_phase_pod)
    then show ?thesis using multi t by (auto simp: pod_result_def status_pod_def okey_def)
  next
    case none
    show ?thesis
    proof (cases "ob_inspect ob (?ns @ ''-'' @ ?name)")
      case None
      then have "reconcile_pod ob lv p s = s" using none by (simp add: reconcile_pod_def Let_def)
      moreover have "pod_result ob lv p p" unfolding pod_result_def using none None with_own_rv
        by (auto simp: status_pod_def)
      ultimately show ?thesis using assms by auto
    next
      case (Some r)
      obtain st code where r: "r = (st, code)" by fastforce
      have "reconcile_pod ob lv p s = UpdatePodPhase (ob_now ob) ?ns ?name (podmanStateToPhase st code) (pod_health lv p) s"
        using none Some by (simp add: reconcile_pod_def pod_health_def Let_def r)
      moreover have "status_pod ob lv p = phase_pod (podmanStateToPhase st code) (pod_health lv p) p"
        using none Some by (simp add: status_pod_def r)
      ultimately show ?thesis using phase [of "ob_now ob"] by (fastforce simp: pod_result_def okey_def)
    qed
  next
    case (unit us)
    let ?s1 = "UpdatePodPhase (ob_now ob) ?ns ?name (unitStateToPhase us) (pod_health lv p) s"
    obtain rv' where "mget (s_pods ?s1) (?ns, ?name) = Some (with_rv rv' (phase_pod (unitStateToPhase us) (pod_health lv p) p))"
      using phase by blast
    note restart [OF this, of "wrap32 (us_NRestarts us)" "wrap32 (us_ExitCode us)" "us_Result us \<noteq> []"]
    moreover have "reconcile_pod ob lv p s = UpdatePodRestartInfo ?ns ?name (wrap32 (us_NRestarts us))
        (wrap32 (us_ExitCode us)) (us_Result us \<noteq> []) ?s1"
      using unit by (simp add: reconcile_pod_def pod_health_def Let_def)
    moreover have "status_pod ob lv p = restart_pod (wrap32 (us_NRestarts us)) (wrap32 (us_ExitCode us))
        (us_Result us \<noteq> []) (phase_pod (unitStateToPhase us) (pod_health lv p) p)"
      using unit by (simp add: status_pod_def)
    ultimately show ?thesis by (auto simp: pod_result_def okey_def)
  qed
qed

lemma reconcile_pod_other:
  assumes "k \<noteq> okey p"
  shows "mget (s_pods (reconcile_pod ob lv p s)) k = mget (s_pods s) k"
proof -
  have k: "k \<noteq> (o_namespace p, o_name p)" using assms by (simp add: okey_def)
  have "mget (s_pods (UpdatePodContainerPhases now (o_namespace p) (o_name p) ph st s)) k = mget (s_pods s) k"
    for now ph st s
  proof (cases "mget (s_pods s) (o_namespace p, o_name p)")
    case (Some q)
    show ?thesis by (rule UpdatePodContainerPhases_Some [OF Some, of now ph st]) (simp add: k)
  qed (simp add: UpdatePodContainerPhases_def)
  moreover have "mget (s_pods (UpdatePodRestartInfo (o_namespace p) (o_name p) rc ec ex s)) k = mget (s_pods s) k"
    for rc ec ex s
    using k by (cases "mget (s_pods s) (o_namespace p, o_name p)")
      (simp_all add: UpdatePodRestartInfo_Some UpdatePodRestartInfo_def Let_def incRV_def mget_mput)
  moreover note UpdatePodPhase_other [OF k]
  ultimately show ?thesis by (simp add: reconcile_pod_def Let_def split: prod.split option.split)
qed

lemma reconcile_pod_maps [simp]:
  "s_namespaces (reconcile_pod ob lv p s) = s_namespaces s"
  "s_deployments (reconcile_pod ob lv p s) = s_deployments s"
  "s_jobs (reconcile_pod ob lv p s) = s_jobs s"
proof -
  have c: "s_namespaces (UpdatePodContainerPhases now ns name ph st s) = s_namespaces s \<and>
      s_deployments (UpdatePodContainerPhases now ns name ph st s) = s_deployments s \<and>
      s_jobs (UpdatePodContainerPhases now ns name ph st s) = s_jobs s" for now ns name ph st s
  proof (cases "mget (s_pods s) (ns, name)")
    case (Some q)
    show ?thesis by (rule UpdatePodContainerPhases_Some [OF Some, of now ph st]) simp
  qed (simp add: UpdatePodContainerPhases_def)
  have r: "s_namespaces (UpdatePodRestartInfo ns name rc ec ex s) = s_namespaces s \<and>
      s_deployments (UpdatePodRestartInfo ns name rc ec ex s) = s_deployments s \<and>
      s_jobs (UpdatePodRestartInfo ns name rc ec ex s) = s_jobs s" for ns name rc ec ex s
    by (cases "mget (s_pods s) (ns, name)") (simp_all add: UpdatePodRestartInfo_Some UpdatePodRestartInfo_def Let_def incRV_def)
  show "s_namespaces (reconcile_pod ob lv p s) = s_namespaces s"
    "s_deployments (reconcile_pod ob lv p s) = s_deployments s" "s_jobs (reconcile_pod ob lv p s) = s_jobs s"
    by (simp_all add: reconcile_pod_def Let_def c r split: prod.split option.split)
qed

lemma reconcile_pod_wf:
  assumes "mwf (s_pods s)"
  shows "mwf (s_pods (reconcile_pod ob lv p s))"
proof -
  have c: "mwf (s_pods (UpdatePodContainerPhases now ns name ph st s))" for now ns name ph st
  proof (cases "mget (s_pods s) (ns, name)")
    case (Some q)
    show ?thesis by (rule UpdatePodContainerPhases_Some [OF Some, of now ph st]) (simp add: assms)
  qed (simp add: UpdatePodContainerPhases_def assms)
  have ph: "mwf (s_pods (UpdatePodPhase now ns name ph h s))" for now ns name ph h
    by (cases "mget (s_pods s) (ns, name)") (simp_all add: UpdatePodPhase_Some UpdatePodPhase_def Let_def assms)
  have r: "mwf (s_pods (UpdatePodRestartInfo ns name rc ec ex t))" if "mwf (s_pods t)" for ns name rc ec ex t
    using that by (cases "mget (s_pods t) (ns, name)")
      (simp_all add: UpdatePodRestartInfo_Some UpdatePodRestartInfo_def Let_def incRV_def)
  show ?thesis using assms by (simp add: reconcile_pod_def Let_def c ph r split: prod.split option.split)
qed

lemma status_pod_key [simp]: "okey (status_pod ob lv p) = okey p"
  by (simp add: status_pod_def members_pod_def restart_pod_def phase_pod_def okey_def split: prod.split option.split)

lemma okey_with_rv [simp]: "okey (with_rv rv p) = okey p"
  by (simp add: okey_def omod_def)

interpretation pods: object_status s_pods okey "reconcile_pod ob lv" "pod_result ob lv" for ob lv
  using reconcile_pod_own by unfold_locales (auto simp: reconcile_pod_other reconcile_pod_wf pod_result_def)

section \<open>Two rounds settle a pod\<close>

lemma restart_container_exited:
  "fst (restart_container rc ec True cs) = cs\<lparr>cs_restartCount := rc,
     cs_terminated := Some (ec, if ec \<noteq> 0 then ''Error'' else ''Completed''),
     cs_ready := (cs_ready cs \<and> \<not> (rc > 0 \<and> ec \<noteq> 0))\<rparr>"
  by (cases cs) (auto simp: restart_container_def Let_def)

lemma restart_ready:
  fixes rc ec :: int and ph h :: string
  defines "g \<equiv> \<lambda>cs. fst (restart_container rc ec True cs)" and "f \<equiv> \<lambda>cs. cs\<lparr>cs_ready := should_be_ready ph h cs\<rparr>"
  shows "f (g (f (g cs))) = g (f (g cs))"
  by (cases "0 < rc") (simp_all add: f_def g_def restart_container_exited should_be_ready_def crashLooping_def)

lemma init_statuses_Nil: "init_statuses p = [] \<Longrightarrow> ps_containers (pod_spec p) = []"
  by (auto simp: init_statuses_def split: if_splits)

lemma init_statuses_frame [simp]:
  "init_statuses (with_rv rv p) = init_statuses p"
  "init_statuses (phase_pod ph h p) = map (\<lambda>cs. cs\<lparr>cs_ready := should_be_ready ph h cs\<rparr>) (init_statuses p)"
  "init_statuses (restart_pod rc ec ex p) = map (\<lambda>cs. fst (restart_container rc ec ex cs)) (init_statuses p)"
proof -
  show "init_statuses (with_rv rv p) = init_statuses p" by (simp add: init_statuses_def)
  show "init_statuses (phase_pod ph h p) = map (\<lambda>cs. cs\<lparr>cs_ready := should_be_ready ph h cs\<rparr>) (init_statuses p)"
    unfolding init_statuses_def [of "phase_pod ph h p"] using init_statuses_Nil [of p] by (simp add: phase_pod_def)
  show "init_statuses (restart_pod rc ec ex p) = map (\<lambda>cs. fst (restart_container rc ec ex cs)) (init_statuses p)"
    unfolding init_statuses_def [of "restart_pod rc ec ex p"] using init_statuses_Nil [of p]
    by (simp add: restart_pod_def o_def)
qed

lemma stored_statuses [simp]:
  "pst_containerStatuses (pod_status (phase_pod ph h p)) = init_statuses (phase_pod ph h p)"
  "pst_containerStatuses (pod_status (restart_pod rc ec ex p)) = init_statuses (restart_pod rc ec ex p)"
  "pst_phase (pod_status (phase_pod ph h p)) = ph"
  "pst_phase (pod_status (restart_pod rc ec ex p)) = pst_phase (pod_status p)"
  unfolding init_statuses_frame by (simp_all add: phase_pod_def restart_pod_def o_def)

lemma phase_fixed:
  assumes "mget (s_pods s) (ns, name) = Some q" "pst_phase (pod_status q) = ph"
    and "pst_containerStatuses (pod_status q) = init_statuses q"
    and ready: "\<And>cs. cs \<in> set (init_statuses q) \<Longrightarrow> cs\<lparr>cs_ready := should_be_ready ph h cs\<rparr> = cs"
  shows "UpdatePodPhase now ns name ph h s = s"
proof -
  have "map (\<lambda>cs. cs\<lparr>cs_ready := should_be_ready ph h cs\<rparr>) (init_statuses q) = init_statuses q"
    using ready by (simp add: map_idI)
  then have "phase_pod ph h q = q" using assms(2,3) by (simp add: phase_pod_def)
  moreover have "cs_ready cs = should_be_ready ph h cs" if "cs \<in> set (init_statuses q)" for cs
    using ready [OF that] by (cases cs) simp
  ultimately show ?thesis
    using assms(1,2) by (simp add: UpdatePodPhase_Some finish_phase_def list_ex_iff put_pods_same)
qed

lemma restart_fixed:
  assumes "mget (s_pods s) (ns, name) = Some q"
    and "pst_containerStatuses (pod_status q) = init_statuses q"
    and again: "\<And>cs. cs \<in> set (init_statuses q) \<Longrightarrow> \<exists>c. cs = fst (restart_container rc ec ex c)"
  shows "UpdatePodRestartInfo ns name rc ec ex s = s"
proof -
  have r: "restart_container rc ec ex cs = (cs, False)" if "cs \<in> set (init_statuses q)" for cs
    using again [OF that] restart_container_again by metis
  have "map fst (map (restart_container rc ec ex) (init_statuses q)) = init_statuses q"
    using r by (simp add: map_idI)
  then have "restart_pod rc ec ex q = q" using assms(2) by (simp add: restart_pod_def)
  moreover have "\<not> list_ex snd (map (restart_container rc ec ex) (init_statuses q))" using r by (auto simp: list_ex_iff)
  ultimately show ?thesis using assms(1) by (simp add: UpdatePodRestartInfo_Some put_pods_same)
qed

lemma unit_settled:
  assumes q: "q = with_rv rv (restart_pod rc ec True (phase_pod ph h (restart_pod rc ec True (phase_pod ph h p))))"
    and m: "mget (s_pods s) (ns, name) = Some q"
  shows "UpdatePodRestartInfo ns name rc ec True (UpdatePodPhase now ns name ph h s) = s"
proof -
  have st: "pst_containerStatuses (pod_status q) = init_statuses q" "pst_phase (pod_status q) = ph"
    by (simp_all add: q)
  have "UpdatePodPhase now ns name ph h s = s"
    using restart_ready by (intro phase_fixed [OF m st(2,1)]) (auto simp: q)
  moreover have "UpdatePodRestartInfo ns name rc ec True s = s"
    by (intro restart_fixed [OF m st(1)]) (auto simp: q)
  ultimately show ?thesis by simp
qed

section \<open>Members of a pod\<close>

definition index_statuses :: "container_status list \<Rightarrow> (string, container_status) gomap" where
  "index_statuses sts = fold (\<lambda>cs m. mput (cs_name cs) cs m) sts []"

definition old_status :: "(string, container_status) gomap \<Rightarrow> container \<Rightarrow> container_status" where
  "old_status old c = (case mget old (c_name c) of None \<Rightarrow> fresh_status c | Some cs \<Rightarrow> cs)"

definition synced_status :: "(string, sync_state) gomap \<Rightarrow> container \<Rightarrow> container_status \<Rightarrow> container_status" where
  "synced_status states c cs0 =
     (let cs1 = (if cs_image cs0 = [] then cs0\<lparr>cs_image := c_image c\<rparr> else cs0);
          state = (case mget states (c_name c) of None \<Rightarrow> \<lparr>ss_phase = [], ss_health = []\<rparr> | Some st \<Rightarrow> st)
      in cs1\<lparr>cs_ready := should_be_ready (ss_phase state) (ss_health state) cs1\<rparr>)"

lemma sync_container_status: "fst (sync_container old states c) = synced_status states c (old_status old c)"
  by (simp add: sync_container_def synced_status_def old_status_def Let_def split: option.split)

lemma synced_status_again: "synced_status states c (synced_status states c cs) = synced_status states c cs"
  by (simp add: synced_status_def Let_def should_be_ready_def crashLooping_def)

lemma find_append: "List.find P (xs @ ys) = (case List.find P xs of None \<Rightarrow> List.find P ys | Some x \<Rightarrow> Some x)"
  by (induction xs) auto

lemma mget_index:
  "mget (index_statuses sts) n = List.find (\<lambda>cs. cs_name cs = n) (rev sts)"
proof -
  have "mget (fold (\<lambda>cs m. mput (cs_name cs) cs m) sts m) n =
      (case List.find (\<lambda>cs. cs_name cs = n) (rev sts) of None \<Rightarrow> mget m n | Some cs \<Rightarrow> Some cs)" for m
  proof (induction sts arbitrary: m)
    case (Cons a sts)
    then show ?case by (simp add: find_append mget_mput split: option.split)
  qed simp
  then show ?thesis by (simp add: index_statuses_def split: option.split)
qed

lemma find_map: "List.find P (map h xs) = map_option h (List.find (P \<circ> h) xs)"
  by (induction xs) auto

lemma index_names:
  "mget (index_statuses sts) n = Some cs \<Longrightarrow> cs_name cs = n"
  by (auto simp: mget_index find_Some_iff)

lemma old_status_name: "cs_name (old_status (index_statuses sts) c) = c_name c"
  by (auto simp: old_status_def fresh_status_def split: option.split dest: index_names)

lemma synced_name [simp]: "cs_name (synced_status states c cs) = cs_name cs"
  by (simp add: synced_status_def Let_def)

text \<open>After two rounds the indexed statuses are those of the round before.\<close>

lemma members_twice:
  fixes cs :: "container list" and states :: "(string, sync_state) gomap"
  defines "F \<equiv> \<lambda>sts. map (\<lambda>c. synced_status states c (old_status (index_statuses sts) c)) cs"
  assumes c: "c \<in> set cs"
  shows "mget (index_statuses (F (F sts))) (c_name c) = mget (index_statuses (F sts)) (c_name c)"
    and "\<exists>c' x. mget (index_statuses (F sts)) (c_name c) = Some (synced_status states c' x) \<and> c_name c' = c_name c"
proof -
  let ?last = "List.find (\<lambda>c'. c_name c' = c_name c) (rev cs)"
  have at: "mget (index_statuses (F sts)) (c_name c) =
      map_option (\<lambda>c'. synced_status states c' (old_status (index_statuses sts) c')) ?last" for sts
    by (simp add: F_def mget_index rev_map find_map o_def old_status_name)
  obtain l where l: "?last = Some l" using c by (cases ?last) (auto simp: find_None_iff)
  then have n: "c_name l = c_name c" by (auto simp: find_Some_iff)
  let ?x = "old_status (index_statuses sts) l"
  from at l have one: "mget (index_statuses (F sts)) (c_name c) = Some (synced_status states l ?x)" by simp
  with n show "\<exists>c' x. mget (index_statuses (F sts)) (c_name c) = Some (synced_status states c' x) \<and> c_name c' = c_name c"
    by blast
  have "old_status (index_statuses (F sts)) l = synced_status states l ?x" using one n by (simp add: old_status_def)
  with at [of "F sts"] l one show "mget (index_statuses (F (F sts))) (c_name c) = mget (index_statuses (F sts)) (c_name c)"
    by (simp add: synced_status_again)
qed

lemma members_settled:
  assumes q: "q = with_rv rv (members_pod ph states (with_rv rv' (members_pod ph states p)))"
    and m: "mget (s_pods s) (ns, name) = Some q"
  shows "UpdatePodContainerPhases now ns name ph states s = s"
proof -
  let ?cs = "ps_containers (pod_spec p)"
  define F where "F sts = map (\<lambda>c. synced_status states c (old_status (index_statuses sts) c)) ?cs" for sts
  define sts0 where "sts0 = pst_containerStatuses (pod_status p)"
  have st: "pst_containerStatuses (pod_status q) = F (F sts0)" "pod_spec q = pod_spec p" "pst_phase (pod_status q) = ph"
    by (simp_all add: q members_pod_def sync_container_status F_def sts0_def index_statuses_def o_def)
  let ?old = "index_statuses (F (F sts0))"
  have old: "mget ?old (c_name c) = mget (index_statuses (F sts0)) (c_name c)" if "c \<in> set ?cs" for c
    using members_twice(1) [OF that, of states sts0] by (simp add: F_def)
  then have os: "old_status ?old c = old_status (index_statuses (F sts0)) c" if "c \<in> set ?cs" for c
    using that by (simp add: old_status_def)
  have "fst (sync_container ?old states c) = synced_status states c (old_status (index_statuses (F sts0)) c)"
    if "c \<in> set ?cs" for c using os [OF that] by (simp add: sync_container_status)
  then have same: "map fst (map (sync_container ?old states) ?cs) = F (F sts0)"
    by (simp add: F_def [of "F sts0"])
  have flag: "\<not> snd (sync_container ?old states c)" if c: "c \<in> set ?cs" for c
  proof -
    obtain c' x where "mget (index_statuses (F sts0)) (c_name c) = Some (synced_status states c' x)" "c_name c' = c_name c"
      using members_twice(2) [OF c, of states sts0] by (auto simp: F_def)
    with old [OF c] show ?thesis
      by (auto simp: sync_container_def synced_status_def Let_def should_be_ready_def crashLooping_def split: option.split)
  qed
  have p': "q\<lparr>pod_status := (pod_status q)\<lparr>pst_phase := ph, pst_containerStatuses := F (F sts0)\<rparr>\<rparr> = q"
    using st by simp
  have "\<not> list_ex snd (map (sync_container ?old states) ?cs)" using flag by (auto simp: list_ex_iff)
  then show ?thesis
    unfolding UpdatePodContainerPhases_def m option.case Let_def st index_statuses_def [symmetric] same p'
    using put_pods_same [OF m] by (simp add: finish_phase_def)
qed

section \<open>Deployments and jobs\<close>

definition deployment_result :: "observed \<Rightarrow> deployment \<Rightarrow> deployment \<Rightarrow> bool" where
  "deployment_result ob d e \<longleftrightarrow> okey e = okey d \<and> dst_readyReplicas (dep_status e) = deployment_ready ob e \<and>
     dst_observedGeneration (dep_status e) = om_generation (o_meta e)"

lemma more_bookkeeping [simp]:
  "s_deployments (put_deployments k d s) = mput k d (s_deployments s)"
  "s_jobs (put_jobs k j s) = mput k j (s_jobs s)"
  "s_pods (put_jobs k j s) = s_pods s" "s_deployments (put_jobs k j s) = s_deployments s"
  "s_namespaces (put_jobs k j s) = s_namespaces s"
  by (simp_all add: put_deployments_def put_jobs_def)

lemma reconcile_deployment_maps [simp]:
  "s_pods (reconcile_deployment ob d s) = s_pods s" "s_jobs (reconcile_deployment ob d s) = s_jobs s"
  "s_namespaces (reconcile_deployment ob d s) = s_namespaces s"
  by (simp_all add: reconcile_deployment_def UpdateDeploymentStatus_def Let_def incRV_def split: option.split)

lemma deployment_ready_frame [simp]:
  "deployment_ready ob (omod (om_resourceVersion_update f) (d\<lparr>dep_status := st\<rparr>)) = deployment_ready ob d"
  by (simp add: deployment_ready_def omod_def)

lemma reconcile_deployment_own:
  assumes "mget (s_deployments s) (okey d) = Some d"
  shows "\<exists>e. mget (s_deployments (reconcile_deployment ob d s)) (okey d) = Some e \<and> deployment_result ob d e"
proof (cases "dst_readyReplicas (dep_status d) \<noteq> deployment_ready ob d \<or>
    dst_observedGeneration (dep_status d) \<noteq> om_generation (o_meta d)")
  case True
  then show ?thesis using assms
    by (simp add: reconcile_deployment_def UpdateDeploymentStatus_def Let_def incRV_def mget_mput okey_def
        deployment_result_def) (simp add: omod_def)
next
  case False
  then have "reconcile_deployment ob d s = s" using assms
    by (simp add: reconcile_deployment_def UpdateDeploymentStatus_def okey_def)
  with False assms show ?thesis by (simp add: deployment_result_def)
qed

lemma reconcile_deployment_rest:
  "k \<noteq> okey d \<Longrightarrow> mget (s_deployments (reconcile_deployment ob d s)) k = mget (s_deployments s) k"
  "mwf (s_deployments s) \<Longrightarrow> mwf (s_deployments (reconcile_deployment ob d s))"
  by (simp_all add: reconcile_deployment_def UpdateDeploymentStatus_def Let_def incRV_def mget_mput okey_def
      split: option.split)

interpretation deployments: object_status s_deployments okey "reconcile_deployment ob" "deployment_result ob" for ob
  using reconcile_deployment_own by unfold_locales (auto simp: reconcile_deployment_rest deployment_result_def)

lemma deployment_settled:
  "deployment_result ob d e \<Longrightarrow> mget (s_deployments s) (okey e) = Some e \<Longrightarrow> reconcile_deployment ob e s = s"
  by (simp add: reconcile_deployment_def UpdateDeploymentStatus_def deployment_result_def okey_def)

definition job_unit :: "job \<Rightarrow> string" where
  "job_unit j = o_namespace j @ ''-'' @ o_name j @ ''-job.service''"

definition job_result :: "observed \<Rightarrow> job \<Rightarrow> job \<Rightarrow> bool" where
  "job_result ob j e \<longleftrightarrow> okey e = okey j \<and>
     (case ob_unit ob JobStatus (job_unit e) of
        None \<Rightarrow> True | Some us \<Rightarrow> (job_active e, job_succeeded e, job_failed e) = job_counters us)"

lemma reconcile_job_maps [simp]:
  "s_pods (reconcile_job ob j s) = s_pods s" "s_deployments (reconcile_job ob j s) = s_deployments s"
  "s_namespaces (reconcile_job ob j s) = s_namespaces s"
  by (simp_all add: reconcile_job_def UpdateJobStatus_def Let_def incRV_def split: option.split prod.split)

lemma reconcile_job_eq:
  "reconcile_job ob j s = (case ob_unit ob JobStatus (job_unit j) of None \<Rightarrow> s
    | Some us \<Rightarrow> (case job_counters us of (a, sc, f) \<Rightarrow> UpdateJobStatus (ob_now ob) (o_namespace j) (o_name j) a sc f s))"
  by (simp add: reconcile_job_def job_unit_def split: option.split)

lemma UpdateJobStatus_own:
  assumes "mget (s_jobs s) (ns, name) = Some j"
  shows "\<exists>e. mget (s_jobs (UpdateJobStatus now ns name a sc f s)) (ns, name) = Some e \<and>
    (job_active e, job_succeeded e, job_failed e) = (a, sc, f) \<and> o_namespace e = o_namespace j \<and> o_name e = o_name j"
  using assms
  by (auto simp: UpdateJobStatus_def Let_def incRV_def mget_mput omod_def)

lemma reconcile_job_own:
  assumes "mget (s_jobs s) (okey j) = Some j"
  shows "\<exists>e. mget (s_jobs (reconcile_job ob j s)) (okey j) = Some e \<and> job_result ob j e"
proof (cases "ob_unit ob JobStatus (job_unit j)")
  case None
  then show ?thesis using assms by (simp add: reconcile_job_eq job_result_def)
next
  case (Some us)
  obtain a sc f where c: "job_counters us = (a, sc, f)" by (metis prod_cases3)
  from UpdateJobStatus_own [of s "o_namespace j" "o_name j" j "ob_now ob" a sc f] assms obtain e where
    "mget (s_jobs (UpdateJobStatus (ob_now ob) (o_namespace j) (o_name j) a sc f s)) (okey j) = Some e"
    "(job_active e, job_succeeded e, job_failed e) = (a, sc, f)" "o_namespace e = o_namespace j" "o_name e = o_name j"
    by (auto simp: okey_def)
  with Some c show ?thesis by (auto simp: reconcile_job_eq job_result_def job_unit_def okey_def)
qed

lemma reconcile_job_rest:
  "k \<noteq> okey j \<Longrightarrow> mget (s_jobs (reconcile_job ob j s)) k = mget (s_jobs s) k"
  "mwf (s_jobs s) \<Longrightarrow> mwf (s_jobs (reconcile_job ob j s))"
  by (simp_all add: reconcile_job_def UpdateJobStatus_def Let_def incRV_def mget_mput okey_def
      split: option.split prod.split)

interpretation jobs: object_status s_jobs okey "reconcile_job ob" "job_result ob" for ob
  using reconcile_job_own by unfold_locales (auto simp: reconcile_job_rest job_result_def)

lemma job_settled:
  assumes "job_result ob j e" "mget (s_jobs s) (okey e) = Some e"
  shows "reconcile_job ob e s = s"
proof (cases "ob_unit ob JobStatus (job_unit e)")
  case (Some us)
  with assms show ?thesis
    by (auto simp: reconcile_job_eq job_result_def UpdateJobStatus_def okey_def split: prod.split)
qed (simp add: reconcile_job_eq)

lemma podmanContainerStates_cong:
  "pod_spec q = pod_spec p \<Longrightarrow> podmanContainerStates q infos = podmanContainerStates p infos"
  unfolding podmanContainerStates_def container_by_name_def by (simp only:)

lemma pod_settled:
  assumes results: "\<forall>u us. ob_unit ob PodStatus u = Some us \<longrightarrow> us_Result us \<noteq> []"
    and r: "pod_result ob lv p0 p1" "pod_result ob lv p1 q" and m: "mget (s_pods s) (okey q) = Some q"
  shows "reconcile_pod ob lv q s = s"
proof -
  obtain rv where p1: "p1 = with_rv rv (status_pod ob lv p0)" using r(1) by (auto simp: pod_result_def)
  obtain rv' where q: "q = with_rv rv' (status_pod ob lv p1)" using r(2) by (auto simp: pod_result_def)
  have spec: "pod_spec (status_pod ob lv x) = pod_spec x" "o_namespace (status_pod ob lv x) = o_namespace x"
    "o_name (status_pod ob lv x) = o_name x" for x
    by (simp_all add: status_pod_def members_pod_def restart_pod_def phase_pod_def split: prod.split option.split)
  have frame: "pod_spec q = pod_spec p0" "pod_spec p1 = pod_spec p0" "o_namespace q = o_namespace p0"
    "o_namespace p1 = o_namespace p0" "o_name q = o_name p0" "o_name p1 = o_name p0"
    by (simp_all add: p1 q omod_def spec)
  have states: "podmanContainerStates q = podmanContainerStates p0" "podmanContainerStates p1 = podmanContainerStates p0"
    by (intro ext podmanContainerStates_cong; simp add: frame)+
  have same: "pod_unit q = pod_unit p0" "pod_unit p1 = pod_unit p0" "pod_health lv q = pod_health lv p0"
    "pod_health lv p1 = pod_health lv p0" "pod_target ob lv q = pod_target ob lv p0"
    "pod_target ob lv p1 = pod_target ob lv p0"
    by (simp_all add: pod_unit_def pod_health_def pod_target_def states frame)
  have mq: "mget (s_pods s) (o_namespace p0, o_name p0) = Some q" using m by (simp add: okey_def frame)
  consider (multi) "length (ps_containers (pod_spec p0)) > 1"
    | (none) "\<not> length (ps_containers (pod_spec p0)) > 1" "ob_unit ob PodStatus (pod_unit p0) = None"
    | (unit) us where "\<not> length (ps_containers (pod_spec p0)) > 1" "ob_unit ob PodStatus (pod_unit p0) = Some us"
    by fastforce
  then show ?thesis
  proof cases
    case multi
    obtain phase states where t: "pod_target ob lv p0 = (phase, states)" by fastforce
    have st: "status_pod ob lv p0 = members_pod phase states p0" "status_pod ob lv p1 = members_pod phase states p1"
      using multi t by (simp_all add: status_pod_def same frame)
    have "q = with_rv rv' (members_pod phase states (with_rv rv (members_pod phase states p0)))"
      by (subst q, subst st(2), subst p1, subst st(1)) (rule refl)
    then have "UpdatePodContainerPhases (ob_now ob) (o_namespace p0) (o_name p0) phase states s = s"
      by (rule members_settled [OF _ mq])
    then show ?thesis
      using multi t by (cases "podmanContainerStates p0 (live_of lv (o_namespace p0) (o_name p0))")
        (simp add: reconcile_pod_def same frame Let_def pod_target_def states)
  next
    case none
    show ?thesis
    proof (cases "ob_inspect ob (o_namespace p0 @ ''-'' @ o_name p0)")
      case (Some x)
      obtain st code where x: "x = (st, code)" by fastforce
      have "status_pod ob lv p1 = phase_pod (podmanStateToPhase st code) (pod_health lv p0) p1"
        using none Some x by (simp add: status_pod_def same frame)
      with q have "q = with_rv rv' (phase_pod (podmanStateToPhase st code) (pod_health lv p0) p1)" by (simp only:)
      then have "UpdatePodPhase (ob_now ob) (o_namespace p0) (o_name p0) (podmanStateToPhase st code) (pod_health lv p0) s = s"
        by (rule UpdatePodPhase_settled [OF _ mq])
      then show ?thesis using none Some x by (simp add: reconcile_pod_def same frame Let_def pod_health_def)
    qed (use none in \<open>simp add: reconcile_pod_def same frame Let_def\<close>)
  next
    case (unit us)
    have ex: "(us_Result us \<noteq> []) = True" using results unit by simp
    define F where "F x = restart_pod (wrap32 (us_NRestarts us)) (wrap32 (us_ExitCode us)) True
      (phase_pod (unitStateToPhase us) (pod_health lv p0) x)" for x
    have st: "status_pod ob lv p0 = F p0" "status_pod ob lv p1 = F p1"
      using unit by (simp_all add: status_pod_def same frame ex F_def)
    have "q = with_rv rv' (F (with_rv rv (F p0)))" by (subst q, subst st(2), subst p1, subst st(1)) (rule refl)
    also have "\<dots> = with_rv rv' (F (F p0))" by (simp add: F_def del: omod_omod)
    finally have "UpdatePodRestartInfo (o_namespace p0) (o_name p0) (wrap32 (us_NRestarts us)) (wrap32 (us_ExitCode us)) True
        (UpdatePodPhase (ob_now ob) (o_namespace p0) (o_name p0) (unitStateToPhase us) (pod_health lv p0) s) = s"
      unfolding F_def by (rule unit_settled [OF _ mq])
    then show ?thesis using unit by (simp add: reconcile_pod_def same frame Let_def pod_health_def ex)
  qed
qed

end
