(* ===== verification/ReconcileProperties.thy ===== *)
theory ReconcileProperties
  imports ReconcileSettle DeployDemo
begin

text \<open>
  What the reconcile loop guarantees: which pods it imports and prunes, and that repeated passes
  over an unchanged host come to rest.
\<close>

declare split_paired_All [simp del] split_paired_Ex [simp del]

section \<open>A pass over an imported store imports nothing\<close>

definition live_step :: "container_info \<Rightarrow> live \<Rightarrow> live" where
  "live_step c lv = (if importable c
     then mput (pod_path (PodNamespace c) (PodName c)) (live_of lv (PodNamespace c) (PodName c) @ [c]) lv else lv)"

definition imported_in :: "store \<Rightarrow> container_info \<Rightarrow> bool" where
  "imported_in s c \<longleftrightarrow> (importable c \<longrightarrow> mget (s_namespaces s) ([], PodNamespace c) \<noteq> None \<longrightarrow>
     mget (s_pods s) (PodNamespace c, PodName c) \<noteq> None \<and>
     (PodDeployment c = [] \<or> mget (s_deployments s) (PodNamespace c, PodDeployment c) \<noteq> None))"

lemma live_fold: "fst (fold (import_container ob) cs (lv, s)) = fold live_step cs lv"
proof (induction cs arbitrary: lv s)
  case (Cons c cs)
  have "import_container ob c (lv, s) = (live_step c lv, snd (import_container ob c (lv, s)))"
    by (simp add: import_container_def live_step_def)
  with Cons.IH show ?case by (metis fold_simps(2))
qed simp

lemma import_noop: "imported_in s c \<Longrightarrow> import_container ob c (lv, s) = (live_step c lv, s)"
  by (auto simp: import_container_def live_step_def imported_in_def GetNamespace_def restore_deployment_def
      GetDeployment_def import_pod_def GetPod_def Let_def split: option.split)

lemma import_all_noop:
  "\<forall>c \<in> set cs. imported_in s c \<Longrightarrow> fold (import_container ob) cs (lv, s) = (fold live_step cs lv, s)"
  by (induction cs arbitrary: lv) (simp_all add: import_noop)

lemma import_pod_deployments [simp]: "s_deployments (import_pod ob c s) = s_deployments s"
  by (simp add: import_pod_def CreatePod_def Let_def incRV_def split: sum.split option.split)

lemma import_pod_jobs [simp]: "s_jobs (import_pod ob c s) = s_jobs s"
  by (simp add: import_pod_def CreatePod_def Let_def incRV_def split: sum.split option.split)

lemma restore_deployment_jobs [simp]: "s_jobs (restore_deployment ob c s) = s_jobs s"
  by (simp add: restore_deployment_def CreateDeployment_def Let_def incRV_def split: sum.split option.split)

lemma CreateDeployment_result:
  assumes "mget (s_deployments s) (okey x) = None"
  shows "\<exists>y. okey y = okey x \<and> s_deployments (snd (CreateDeployment now x s)) = mput (okey x) y (s_deployments s)"
proof -
  define y where "y = omod (om_generation_update (\<lambda>_. 1)) (default_ctime now (default_labels
    (stamp (Itoa (s_resourceVer s + 1)) (''q8s-dep-'' @ o_namespace x @ ''-'' @ o_name x) x)))"
  have "okey y = okey x" by (simp add: y_def default_ctime_def default_labels_def stamp_def okey_def omod_def)
  moreover have "s_deployments (snd (CreateDeployment now x s)) = mput (okey x) y (s_deployments s)"
    using assms by (simp add: CreateDeployment_def Let_def incRV_def y_def)
  ultimately show ?thesis by blast
qed

lemma restore_deployment_deployments:
  shows "(mget (s_deployments (restore_deployment ob c s)) k = None) \<longleftrightarrow>
     (mget (s_deployments s) k = None \<and> \<not> (PodDeployment c \<noteq> [] \<and> k = (PodNamespace c, PodDeployment c)))"
    and "deployments.keyed s \<Longrightarrow> deployments.keyed (restore_deployment ob c s)"
proof -
  let ?k = "(PodNamespace c, PodDeployment c)"
  have key: "okey (imported_deployment ob c) = ?k"
    by (simp add: imported_deployment_def okey_def new_meta_def empty_meta_def)
  consider (same) "restore_deployment ob c s = s" "PodDeployment c = [] \<or> mget (s_deployments s) ?k \<noteq> None"
    | (new) d where "PodDeployment c \<noteq> []" "mget (s_deployments s) ?k = None" "okey d = ?k"
        "s_deployments (restore_deployment ob c s) = mput ?k d (s_deployments s)"
  proof (cases "PodDeployment c = [] \<or> mget (s_deployments s) ?k \<noteq> None")
    case True
    then have "restore_deployment ob c s = s" by (auto simp: restore_deployment_def GetDeployment_def)
    with True same show thesis by blast
  next
    case False
    then have "restore_deployment ob c s = snd (CreateDeployment (ob_now ob) (imported_deployment ob c) s)"
      by (simp add: restore_deployment_def GetDeployment_def)
    with False CreateDeployment_result [of s "imported_deployment ob c" "ob_now ob"] key new show thesis by auto
  qed
  note effect = this
  show "(mget (s_deployments (restore_deployment ob c s)) k = None) \<longleftrightarrow>
     (mget (s_deployments s) k = None \<and> \<not> (PodDeployment c \<noteq> [] \<and> k = ?k))"
    by (rule effect) (auto simp: mget_mput)
  show "deployments.keyed (restore_deployment ob c s)" if "deployments.keyed s"
    by (rule effect) (use that in \<open>auto simp: deployments.keyed_def mget_mput split: if_splits\<close>)
qed

lemma import_container_deployments:
  assumes "import_container ob c (lv, s) = (lv', s')"
  shows "mget (s_deployments s) k \<noteq> None \<Longrightarrow> mget (s_deployments s') k \<noteq> None"
    and "deployments.keyed s \<Longrightarrow> deployments.keyed s'" and "s_jobs s' = s_jobs s"
    and "importable c \<Longrightarrow> mget (s_namespaces s) ([], PodNamespace c) \<noteq> None \<Longrightarrow> PodDeployment c \<noteq> [] \<Longrightarrow>
      mget (s_deployments s') (PodNamespace c, PodDeployment c) \<noteq> None"
proof -
  have "s' = s \<or> s' = import_pod ob c (restore_deployment ob c s)"
    using assms by (auto simp: import_container_def split: if_splits sum.splits)
  then show "mget (s_deployments s) k \<noteq> None \<Longrightarrow> mget (s_deployments s') k \<noteq> None"
    and "deployments.keyed s \<Longrightarrow> deployments.keyed s'" and "s_jobs s' = s_jobs s"
  proof -
    have "s_deployments s' = s_deployments s \<or> s_deployments s' = s_deployments (restore_deployment ob c s)"
      using \<open>s' = s \<or> _\<close> by auto
    then consider (a) "s_deployments s' = s_deployments s"
      | (b) "s_deployments s' = s_deployments (restore_deployment ob c s)" by blast
    note eff = this
    show "mget (s_deployments s') k \<noteq> None" if "mget (s_deployments s) k \<noteq> None"
    proof (cases rule: eff)
      case b
      with that restore_deployment_deployments(1) [of ob c s k] show ?thesis by argo
    qed (use that in argo)
    show "deployments.keyed s'" if "deployments.keyed s"
    proof (cases rule: eff)
      case b
      with restore_deployment_deployments(2) [OF that, of ob c] show ?thesis unfolding deployments.keyed_def b by blast
    next
      case a
      with that show ?thesis unfolding deployments.keyed_def a by blast
    qed
    show "s_jobs s' = s_jobs s" using \<open>s' = s \<or> _\<close> by auto
  qed
  assume "importable c" "mget (s_namespaces s) ([], PodNamespace c) \<noteq> None" "PodDeployment c \<noteq> []"
  moreover from this have "s' = import_pod ob c (restore_deployment ob c s)"
    using assms by (auto simp: import_container_def GetNamespace_def Let_def)
  ultimately show "mget (s_deployments s') (PodNamespace c, PodDeployment c) \<noteq> None"
    using restore_deployment_deployments(1) [of ob c s] by simp
qed

lemma import_all_deployments:
  assumes "pods_keyed s" "fold (import_container ob) cs (lv, s) = (lv', s')"
  shows "(\<forall>k. mget (s_deployments s) k \<noteq> None \<longrightarrow> mget (s_deployments s') k \<noteq> None) \<and>
    (deployments.keyed s \<longrightarrow> deployments.keyed s') \<and> s_jobs s' = s_jobs s \<and> (\<forall>c \<in> set cs. imported_in s' c)"
  using assms
proof (induction cs arbitrary: lv s)
  case (Cons c cs)
  obtain lv1 s1 where c: "import_container ob c (lv, s) = (lv1, s1)" by fastforce
  note one = import_container_spec [OF Cons.prems(1) c] and deps = import_container_deployments [OF c]
  have rest_eq: "fold (import_container ob) cs (lv1, s1) = (lv', s')" using Cons.prems(2) by (simp add: c)
  note rest = Cons.IH [OF one(1) rest_eq] and pods = import_all_spec [OF one(1) rest_eq]
  have "imported_in s' c"
    unfolding imported_in_def
  proof (intro impI conjI)
    assume i: "importable c" "mget (s_namespaces s') ([], PodNamespace c) \<noteq> None"
    have ns: "mget (s_namespaces s) ([], PodNamespace c) \<noteq> None" using i(2) pods one(2) by simp
    have "imports_to s c (PodNamespace c, PodName c)" using i(1) ns by (simp add: imports_to_def)
    then have "mget (s_pods s1) (PodNamespace c, PodName c) \<noteq> None" using one(4) by blast
    then show "mget (s_pods s') (PodNamespace c, PodName c) \<noteq> None" using pods by auto
    show "PodDeployment c = [] \<or> mget (s_deployments s') (PodNamespace c, PodDeployment c) \<noteq> None"
      using deps(4) [OF i(1) ns] rest by blast
  qed
  with rest deps show ?case by auto
qed simp

section \<open>A pass that changes no object\<close>

lemma prune_maps [simp]:
  "s_deployments (fold (prune_pod ob mgr lv) ps s) = s_deployments s"
  "s_jobs (fold (prune_pod ob mgr lv) ps s) = s_jobs s"
  "s_namespaces (fold (prune_pod ob mgr lv) ps s) = s_namespaces s"
proof -
  have one: "s_deployments (prune_pod ob mgr lv p s) = s_deployments s \<and> s_jobs (prune_pod ob mgr lv p s) = s_jobs s \<and>
      s_namespaces (prune_pod ob mgr lv p s) = s_namespaces s" for p s
    by (simp add: prune_pod_eq DeletePod_def del_pods_def Let_def split: option.split)
  then have "s_deployments (fold (prune_pod ob mgr lv) ps s) = s_deployments s \<and>
      s_jobs (fold (prune_pod ob mgr lv) ps s) = s_jobs s \<and>
      s_namespaces (fold (prune_pod ob mgr lv) ps s) = s_namespaces s"
    by (induction ps arbitrary: s) simp_all
  then show "s_deployments (fold (prune_pod ob mgr lv) ps s) = s_deployments s"
    "s_jobs (fold (prune_pod ob mgr lv) ps s) = s_jobs s"
    "s_namespaces (fold (prune_pod ob mgr lv) ps s) = s_namespaces s" by blast+
qed

lemma prune_keyed: "pods_keyed s \<Longrightarrow> pods_keyed (fold (prune_pod ob mgr lv) ps s)"
proof -
  have one: "pods_keyed (prune_pod ob mgr lv p s)" if "pods_keyed s" for p s
    using that by (auto simp: pods_keyed_def prune_pod_eq mget_mdel split: if_splits)
  show "pods_keyed s \<Longrightarrow> pods_keyed (fold (prune_pod ob mgr lv) ps s)"
    by (induction ps arbitrary: s) (simp_all add: one)
qed

lemma pods_keyed_eq: "pods.keyed s = pods_keyed s"
  by (simp add: pods.keyed_def pods_keyed_def)

text \<open>What the import leaves behind and what the status updates keep.\<close>

definition at_rest :: "observed \<Rightarrow> live \<Rightarrow> store \<Rightarrow> bool" where
  "at_rest ob lv s \<longleftrightarrow> pods_keyed s \<and>
     (case ListOwned (ob_ps ob) of
        None \<Rightarrow> lv = []
      | Some cs \<Rightarrow> lv = fold live_step cs [] \<and> (\<forall>c \<in> set cs. imported_in s c) \<and>
          (\<forall>k p. mget (s_pods s) k = Some p \<longrightarrow> \<not> prunable ob True lv p))"

lemma at_rest_noop:
  assumes "at_rest ob lv s"
  shows "reconcilePodmanPods ob True s = (lv, s)"
proof (cases "ListOwned (ob_ps ob)")
  case None
  with assms show ?thesis by (simp add: at_rest_def reconcilePodmanPods_def)
next
  case (Some cs)
  have lv: "lv = fold live_step cs []" and imp: "\<forall>c \<in> set cs. imported_in s c"
    and np: "\<forall>k p. mget (s_pods s) k = Some p \<longrightarrow> \<not> prunable ob True lv p" and keyed: "pods.keyed s"
    using assms unfolding at_rest_def Some option.case pods_keyed_eq by blast+
  have "\<forall>p \<in> set (AllPods s). prune_pod ob True lv p s = s"
    using np pods.keyed_vals [OF keyed] unfolding AllPods_def prune_pod_eq by metis
  then have "fold (prune_pod ob True lv) ps s = s" if "set ps \<subseteq> set (AllPods s)" for ps
    using that by (induction ps) auto
  then have "fold (prune_pod ob True lv) (AllPods s) s = s" by blast
  then show ?thesis using Some by (simp add: reconcilePodmanPods_def import_all_noop [OF imp] lv [symmetric])
qed

lemma reconcilePodmanPods_rests:
  assumes "pods_keyed s" "deployments.keyed s" "reconcilePodmanPods ob True s = (lv, s')"
  shows "at_rest ob lv s'" and "deployments.keyed s'" and "s_jobs s' = s_jobs s"
proof -
  have "at_rest ob lv s' \<and> deployments.keyed s' \<and> s_jobs s' = s_jobs s"
  proof (cases "ListOwned (ob_ps ob)")
    case None
    with assms show ?thesis by (auto simp: at_rest_def reconcilePodmanPods_def)
  next
    case (Some cs)
    obtain s1 where f: "fold (import_container ob) cs ([], s) = (lv, s1)"
      and s': "s' = fold (prune_pod ob True lv) (AllPods s1) s1"
      using assms(3) Some by (auto simp: reconcilePodmanPods_def split: prod.splits)
    have lv: "lv = fold live_step cs []" using live_fold [of ob cs "[]" s] f by simp
    note spec = import_all_spec [OF assms(1) f] and deps = import_all_deployments [OF assms(1) f]
    have depk: "deployments.keyed s1" "s_jobs s1 = s_jobs s" using deps assms(2) by blast+
    have keyed: "pods.keyed s1" using spec by (simp add: pods_keyed_eq)
    have dep: "s_deployments s' = s_deployments s1" "s_jobs s' = s_jobs s1" "s_namespaces s' = s_namespaces s1"
      by (simp_all add: s')
    have at: "mget (s_pods s') k = Some p \<Longrightarrow> mget (s_pods s1) k = Some p \<and> \<not> prunable ob True lv p" for k p
    proof -
      assume a: "mget (s_pods s') k = Some p"
      then have m: "mget (s_pods s1) k = Some p" and n: "\<not> (\<exists>q \<in> set (AllPods s1). okey q = k \<and> prunable ob True lv q)"
        unfolding s' prune_all_pods by (simp_all split: if_splits)
      have "okey p = k" using keyed m unfolding pods.keyed_def by blast
      with m n pods.keyed_vals [OF keyed, of p] show ?thesis by (auto simp: AllPods_def)
    qed
    have kept: "mget (s_pods s') k = Some p" if "mget (s_pods s1) k = Some p" "\<not> prunable ob True lv p" for k p
    proof -
      have "q = p" if "q \<in> set (AllPods s1)" "okey q = k" for q
        using that pods.keyed_vals [OF keyed, of q] \<open>mget (s_pods s1) k = Some p\<close> by (simp add: AllPods_def)
      with that show ?thesis unfolding s' prune_all_pods by auto
    qed
    have "imported_in s' c" if c: "c \<in> set cs" for c
      unfolding imported_in_def
    proof (intro impI conjI)
      assume i: "importable c" "mget (s_namespaces s') ([], PodNamespace c) \<noteq> None"
      let ?k = "(PodNamespace c, PodName c)"
      have "imported_in s1 c" using deps c by blast
      with i have r: "mget (s_pods s1) ?k \<noteq> None"
        "PodDeployment c = [] \<or> mget (s_deployments s1) (PodNamespace c, PodDeployment c) \<noteq> None"
        by (simp_all add: imported_in_def dep)
      then obtain p where p: "mget (s_pods s1) ?k = Some p" by blast
      then have "okey p = ?k" using keyed unfolding pods.keyed_def by blast
      moreover have "mget lv (pod_path (PodNamespace c) (PodName c)) \<noteq> None" using spec c i(1) by auto
      ultimately have "\<not> prunable ob True lv p" by (simp add: prunable_def okey_def)
      with kept p show "mget (s_pods s') ?k \<noteq> None" by simp
      show "PodDeployment c = [] \<or> mget (s_deployments s') (PodNamespace c, PodDeployment c) \<noteq> None"
        using r(2) by (simp add: dep)
    qed
    moreover have "pods_keyed s'" unfolding s' by (rule prune_keyed) (use spec in blast)
    moreover have "deployments.keyed s'" using depk(1) by (simp add: deployments.keyed_def dep)
    ultimately have "at_rest ob lv s'" unfolding at_rest_def Some option.case
    proof (intro conjI ballI allI impI)
      show "lv = fold live_step cs []" by (rule lv)
      show "\<not> prunable ob True lv p" if "mget (s_pods s') k = Some p" for k p using at [OF that] by (rule conjunct2)
    qed
    with \<open>deployments.keyed s'\<close> depk(2) show ?thesis by (simp add: dep)
  qed
  then show "at_rest ob lv s'" "deployments.keyed s'" "s_jobs s' = s_jobs s" by blast+
qed

text \<open>The three rounds of status updates of one pass.\<close>

definition status_round :: "observed \<Rightarrow> live \<Rightarrow> store \<Rightarrow> store" where
  "status_round ob lv s =
     (let s2 = fold (reconcile_pod ob lv) (AllPods s) s;
          s3 = fold (reconcile_deployment ob) (AllDeployments s2) s2
      in fold (reconcile_job ob) (AllJobs s3) s3)"

lemma reconcileOnce_eq:
  "reconcilePodmanPods ob True s = (lv, s1) \<Longrightarrow> reconcileOnce ob s = status_round ob lv s1"
  by (simp add: reconcileOnce_def status_round_def)

lemma fold_frame:
  "(\<And>x s. f (g x s) = f s) \<Longrightarrow> f (fold g xs s) = f s"
  by (induction xs arbitrary: s) simp_all

lemma status_round_spec:
  fixes ob :: observed and lv :: live
  assumes "pods_keyed s" "deployments.keyed s" "jobs.keyed s"
  defines "t \<equiv> status_round ob lv s"
  shows "pods_keyed t" "deployments.keyed t" "jobs.keyed t" "s_namespaces t = s_namespaces s"
    and "mget (s_pods t) k = Some q \<Longrightarrow> \<exists>p. mget (s_pods s) k = Some p \<and> pod_result ob lv p q"
    and "(mget (s_pods t) k = None) = (mget (s_pods s) k = None)"
    and "(mget (s_deployments t) k = None) = (mget (s_deployments s) k = None)"
    and "mget (s_deployments t) k = Some e \<Longrightarrow> \<exists>d. deployment_result ob d e"
    and "mget (s_jobs t) k = Some j' \<Longrightarrow> \<exists>j. job_result ob j j'"
proof -
  define s2 where "s2 = fold (reconcile_pod ob lv) (AllPods s) s"
  define s3 where "s3 = fold (reconcile_deployment ob) (AllDeployments s2) s2"
  have t: "t = fold (reconcile_job ob) (AllJobs s3) s3"
    by (simp add: t_def status_round_def s2_def s3_def Let_def)
  have f2: "s_deployments s2 = s_deployments s" "s_jobs s2 = s_jobs s" "s_namespaces s2 = s_namespaces s"
    unfolding s2_def by (rule fold_frame, simp)+
  have f3: "s_pods s3 = s_pods s2" "s_jobs s3 = s_jobs s2" "s_namespaces s3 = s_namespaces s2"
    unfolding s3_def by (rule fold_frame, simp)+
  have f4: "s_pods t = s_pods s3" "s_deployments t = s_deployments s3" "s_namespaces t = s_namespaces s3"
    unfolding t by (rule fold_frame, simp)+
  have k1: "pods.keyed s" using assms(1) by (simp add: pods_keyed_eq)
  have k2: "deployments.keyed s2" using assms(2) by (simp add: deployments.keyed_def f2)
  have k3: "jobs.keyed s3" using assms(3) by (simp add: jobs.keyed_def f2 f3)
  note p = pods.fold_all [OF k1, of ob lv, folded AllPods_def, folded s2_def]
    and d = deployments.fold_all [OF k2, of ob, folded AllDeployments_def, folded s3_def]
    and j = jobs.fold_all [OF k3, of ob, folded AllJobs_def, folded t]
  show "pods_keyed t" using p(1) by (simp add: pods_keyed_eq [symmetric] pods.keyed_def f3 f4)
  show "deployments.keyed t" using d(1) by (simp add: deployments.keyed_def f4)
  show "jobs.keyed t" by (rule j(1))
  show "s_namespaces t = s_namespaces s" by (simp add: f2 f3 f4)
  show "mget (s_pods t) k = Some q \<Longrightarrow> \<exists>p. mget (s_pods s) k = Some p \<and> pod_result ob lv p q"
    using p(2) by (simp add: f3 f4)
  show "(mget (s_pods t) k = None) = (mget (s_pods s) k = None)" using p(3) by (simp add: f3 f4)
  show "(mget (s_deployments t) k = None) = (mget (s_deployments s) k = None)" using d(3) by (simp add: f2 f4)
  show "mget (s_deployments t) k = Some e \<Longrightarrow> \<exists>d. deployment_result ob d e" using d(2) [of k e] unfolding f4 by blast
  show "mget (s_jobs t) k = Some j' \<Longrightarrow> \<exists>j. job_result ob j j'" using j(2) by blast
qed

lemma pod_result_owner:
  "pod_result ob lv p q \<Longrightarrow> prunable ob m lv q = prunable ob m lv p"
proof -
  have "o_meta (status_pod ob lv p) = o_meta p"
    by (simp add: status_pod_def members_pod_def restart_pod_def phase_pod_def split: prod.split option.split)
  then show "pod_result ob lv p q \<Longrightarrow> prunable ob m lv q = prunable ob m lv p"
    by (auto simp: pod_result_def prunable_def isDeploymentOwned_def pod_unit_def omod_def)
qed

lemma at_rest_round:
  assumes rest: "at_rest ob lv s" and keyed: "deployments.keyed s" "jobs.keyed s"
  shows "at_rest ob lv (status_round ob lv s)"
proof -
  have "pods_keyed s" using rest by (simp add: at_rest_def)
  note spec = status_round_spec [OF this keyed, of ob lv]
  have imp: "imported_in (status_round ob lv s) c" if "imported_in s c" for c
    using that unfolding imported_in_def spec(4,6,7) .
  have "\<not> prunable ob True lv q" if q: "mget (s_pods (status_round ob lv s)) k = Some q"
    and np: "\<forall>k p. mget (s_pods s) k = Some p \<longrightarrow> \<not> prunable ob True lv p" for k q
    using spec(5) [OF q] np pod_result_owner by blast
  note np = this
  show ?thesis
  proof (cases "ListOwned (ob_ps ob)")
    case None
    with rest spec(1) show ?thesis by (simp add: at_rest_def)
  next
    case (Some cs)
    from rest have "lv = fold live_step cs []" "\<forall>c \<in> set cs. imported_in s c"
      "\<forall>k p. mget (s_pods s) k = Some p \<longrightarrow> \<not> prunable ob True lv p"
      unfolding at_rest_def Some option.case by blast+
    with imp np spec(1) show ?thesis unfolding at_rest_def Some option.case by blast
  qed
qed

lemma round_settled:
  assumes keyed: "pods_keyed s" "deployments.keyed s" "jobs.keyed s"
    and pods: "\<And>k p s'. mget (s_pods s) k = Some p \<Longrightarrow> mget (s_pods s') (okey p) = Some p \<Longrightarrow> reconcile_pod ob lv p s' = s'"
    and deps: "\<And>k e. mget (s_deployments s) k = Some e \<Longrightarrow> \<exists>d. deployment_result ob d e"
    and jbs: "\<And>k e. mget (s_jobs s) k = Some e \<Longrightarrow> \<exists>j. job_result ob j e"
  shows "status_round ob lv s = s"
proof -
  have k: "pods.keyed s" using keyed(1) by (simp add: pods_keyed_eq)
  have "fold (reconcile_pod ob lv) (AllPods s) s = s"
    unfolding AllPods_def
  proof (rule pods.fold_settled [OF k])
    fix k' p assume m: "mget (s_pods s) k' = Some p"
    then have "okey p = k'" using k unfolding pods.keyed_def by blast
    with pods m show "reconcile_pod ob lv p s = s" by blast
  qed
  moreover have "fold (reconcile_deployment ob) (AllDeployments s) s = s"
    unfolding AllDeployments_def
  proof (rule deployments.fold_settled [OF keyed(2)])
    fix k' e assume m: "mget (s_deployments s) k' = Some e"
    then have "okey e = k'" using keyed(2) unfolding deployments.keyed_def by blast
    with deps [OF m] m show "reconcile_deployment ob e s = s" using deployment_settled by blast
  qed
  moreover have "fold (reconcile_job ob) (AllJobs s) s = s"
    unfolding AllJobs_def
  proof (rule jobs.fold_settled [OF keyed(3)])
    fix k' e assume m: "mget (s_jobs s) k' = Some e"
    then have "okey e = k'" using keyed(3) unfolding jobs.keyed_def by blast
    with jbs [OF m] m show "reconcile_job ob e s = s" using job_settled by blast
  qed
  ultimately show ?thesis by (simp add: status_round_def Let_def)
qed

lemma store_inv_keyed:
  assumes "store_inv s"
  shows "pods_keyed s" "deployments.keyed s" "jobs.keyed s"
proof -
  show "pods_keyed s" using assms by (rule pods_keyed_inv)
  have "okey d = k" if "mget (s_deployments s) k = Some d" for k d
    using store_invD(1) [OF assms, of KDeployment k "UDeployment d"] that by simp
  moreover have "okey j = k" if "mget (s_jobs s) k = Some j" for k j
    using store_invD(1) [OF assms, of KJob k "UJob j"] that by simp
  ultimately show "deployments.keyed s" "jobs.keyed s"
    using store_invD(5) [OF assms] by (simp_all add: deployments.keyed_def jobs.keyed_def maps_wf_def)
qed

section \<open>Properties\<close>

text \<open>
  The name check of the import path, a loop over the bytes, accepts exactly the names that
  the API boundary accepts with its regular expression.
\<close>

lemma object_names_agree: "isValidObjectName s = isOk (validateName what s)"
  by (auto simp: isValidObjectName_label validateName_def dns_label_def re_match_nameRE)

text \<open>
  C10: Importing and pruning never changes a pod that is in the store, and removes exactly the
  pods of deployments that have neither a labelled container nor a unit: standalone pods stay.
\<close>

theorem reconcile_prunes_exactly:
  assumes "store_inv s" "ListOwned (ob_ps ob) = Some cs" "mget (s_pods s) k = Some p"
  shows "mget (s_pods (snd (reconcilePodmanPods ob mgr s))) k =
    (if isDeploymentOwned p \<and> \<not> (mgr \<and> ob_unit ob Prune (pod_unit p) \<noteq> None) \<and>
        \<not> (\<exists>c \<in> set cs. importable c \<and>
             pod_path (PodNamespace c) (PodName c) = pod_path (o_namespace p) (o_name p))
     then None else Some p)"
proof -
  obtain lv s' where r: "reconcilePodmanPods ob mgr s = (lv, s')" by fastforce
  note spec = reconcile_pods_spec [OF pods_keyed_inv [OF assms(1)] assms(2) r]
  show ?thesis
    using spec(1) [OF assms(3)] spec(3) [of "pod_path (o_namespace p) (o_name p)"]
    by (auto simp: r prunable_def)
qed

definition demo_container :: container_info where
  "demo_container = \<lparr>ci_Names = [''c''], ci_State = ''running'', ci_Status = ''Up 2 minutes (healthy)'', ci_ExitCode = 0,
     ci_Image = ''img'', ci_Labels = [(''io.kubernetes.pod.name'', ''p''), (''io.kubernetes.pod.namespace'', ''default''),
       (''io.kubernetes.pod.deployment'', ''d'')]\<rparr>"

definition host_with :: "container_info list \<Rightarrow> observed" where
  "host_with cs = \<lparr>ob_ps = Some cs, ob_unit = (\<lambda>_ _. None), ob_inspect = (\<lambda>_. None), ob_now = 0\<rparr>"

definition stale_store :: store where
  "stale_store = snd (CreatePod 0 (imported_pod (host_with []) demo_container NewStore) NewStore)"

theorem reconcile_prunes_exactly_witness:
  "\<exists>p. mget (s_pods stale_store) (''default'', ''p'') = Some p \<and>
    mget (s_pods (snd (reconcilePodmanPods (host_with []) True stale_store))) (''default'', ''p'') = None"
proof -
  define p where "p = the (mget (s_pods stale_store) (''default'', ''p''))"
  have "mget (s_pods stale_store) (''default'', ''p'') \<noteq> None" by code_simp
  then have m: "mget (s_pods stale_store) (''default'', ''p'') = Some p" by (auto simp: p_def)
  have own: "isDeploymentOwned p" unfolding p_def by code_simp
  have inv: "store_inv stale_store" unfolding stale_store_def by (rule podk.create_inv [OF store_inv_new])
  have ls: "ListOwned (ob_ps (host_with [])) = Some []" by (simp add: ListOwned_def host_with_def)
  show ?thesis using reconcile_prunes_exactly [OF inv ls m, of True] own m by (simp add: host_with_def)
qed

text \<open>
  C11: A pass creates a pod exactly for the labelled containers whose pod and namespace labels
  are valid names and whose namespace exists.
\<close>

theorem reconcile_imports_exactly:
  assumes "store_inv s" "ListOwned (ob_ps ob) = Some cs" "mget (s_pods s) (ns, name) = None"
  shows "(mget (s_pods (snd (reconcilePodmanPods ob mgr s))) (ns, name) \<noteq> None) \<longleftrightarrow>
    isOk (validateName ''namespace'' ns) \<and> isOk (validateName ''name'' name) \<and>
    mget (s_namespaces s) ([], ns) \<noteq> None \<and> (\<exists>c \<in> set cs. PodNamespace c = ns \<and> PodName c = name)"
proof -
  obtain lv s' where r: "reconcilePodmanPods ob mgr s = (lv, s')" by fastforce
  have valid: "isValidObjectName x = isOk (validateName what x)" for what x
    by (auto simp: isValidObjectName_label validateName_def dns_label_def re_match_nameRE)
  have "isValidObjectName x \<Longrightarrow> x \<noteq> []" for x by (simp add: isValidObjectName_def)
  then show ?thesis
    using reconcile_pods_spec(2) [OF pods_keyed_inv [OF assms(1)] assms(2) r assms(3)]
    unfolding valid [symmetric] by (auto simp: r imports_to_def importable_def)
qed

theorem reconcile_imports_exactly_witness:
  "mget (s_pods (snd (reconcilePodmanPods (host_with [demo_container]) True NewStore))) (''default'', ''p'') \<noteq> None"
proof -
  have ls: "ListOwned (ob_ps (host_with [demo_container])) = Some [demo_container]" by code_simp
  have fresh: "mget (s_pods NewStore) (''default'', ''p'') = None" by code_simp
  have "isOk (validateName ''namespace'' ''default'')" "isOk (validateName ''name'' ''p'')"
    "mget (s_namespaces NewStore) ([], ''default'') \<noteq> None" "PodNamespace demo_container = ''default''"
    "PodName demo_container = ''p''" by code_simp+
  then show ?thesis using reconcile_imports_exactly [OF store_inv_new ls fresh, of True] by simp
qed

definition evil_container :: container_info where
  "evil_container = \<lparr>ci_Names = [''c''], ci_State = ''running'', ci_Status = ''Up 2 minutes (healthy)'', ci_ExitCode = 0,
     ci_Image = ''img'', ci_Labels = [(''io.kubernetes.pod.name'', ''p''), (''io.kubernetes.pod.namespace'', ''default''),
       (''io.kubernetes.pod.deployment'', ''../x'' @ [newline] @ ''y'')]\<rparr>"

text \<open>
  The deployment label of a container is imported unchecked, although a comment of the
  function calls labels attacker-controllable: a name with a line break, which the API refuses,
  becomes a deployment of the store and the name of its container.
\<close>

lemma import_trusts_deployment_label:
  "let s = snd (reconcilePodmanPods (host_with [evil_container]) True NewStore); d = PodDeployment evil_container in
    mget (s_deployments s) (''default'', d) \<noteq> None \<and> \<not> isOk (validateName ''name'' d) \<and>
    newline \<in> set d"
  by code_simp

text \<open>
  C3: Over an unchanged host the reconcile loop comes to rest: whatever the store holds, the
  third pass changes nothing, so no resource version, event or save is produced for ever, as long
  as systemd gives units a result.
\<close>

theorem reconcile_comes_to_rest:
  assumes inv: "store_inv s" and results: "\<forall>u us. ob_unit ob PodStatus u = Some us \<longrightarrow> us_Result us \<noteq> []"
  shows "reconcileOnce ob (reconcileOnce ob (reconcileOnce ob s)) = reconcileOnce ob (reconcileOnce ob s)"
proof -
  obtain lv s1 where r: "reconcilePodmanPods ob True s = (lv, s1)" by fastforce
  note keyed = store_inv_keyed [OF inv] and rest = reconcilePodmanPods_rests [OF _ _ r]
  have k1: "pods_keyed s1" "deployments.keyed s1" "jobs.keyed s1"
    using rest keyed by (simp_all add: at_rest_def jobs.keyed_def)
  define s2 where "s2 = status_round ob lv s1"
  note spec1 = status_round_spec [OF k1, of ob lv, folded s2_def]
  have one: "reconcileOnce ob s = s2" unfolding s2_def by (rule reconcileOnce_eq [OF r])
  have rest2: "at_rest ob lv s2" unfolding s2_def using rest(1) keyed k1 by (intro at_rest_round) simp_all
  define s3 where "s3 = status_round ob lv s2"
  note spec2 = status_round_spec [OF spec1(1-3), of ob lv, folded s3_def]
  have two: "reconcileOnce ob s2 = s3" unfolding s3_def by (rule reconcileOnce_eq [OF at_rest_noop [OF rest2]])
  have rest3: "at_rest ob lv s3" unfolding s3_def using rest2 spec1 by (intro at_rest_round) simp_all
  have "status_round ob lv s3 = s3"
  proof (rule round_settled [OF spec2(1-3)])
    show "reconcile_pod ob lv q s' = s'" if "mget (s_pods s3) k = Some q" "mget (s_pods s') (okey q) = Some q" for k q s'
      using spec2(5) [OF that(1)] spec1(5) pod_settled [OF results] that(2) by blast
  qed (use spec2(8,9) in blast)+
  then have "reconcileOnce ob s3 = s3" using reconcileOnce_eq [OF at_rest_noop [OF rest3]] by simp
  then show ?thesis by (simp only: one two)
qed

definition busy_unit :: unit_state where
  "busy_unit = \<lparr>us_Active = ''active'', us_Sub = ''running'', us_Result = ''success'', us_NRestarts = 3, us_ExitCode = 1\<rparr>"

definition busy_host :: observed where
  "busy_host = (host_with [demo_container])\<lparr>ob_unit := (\<lambda>_ _. Some busy_unit)\<rparr>"

theorem reconcile_comes_to_rest_witness:
  "reconcileOnce busy_host (reconcileOnce busy_host (reconcileOnce busy_host NewStore)) =
     reconcileOnce busy_host (reconcileOnce busy_host NewStore)"
proof (rule reconcile_comes_to_rest [OF store_inv_new], intro allI impI)
  fix u us assume "ob_unit busy_host PodStatus u = Some us"
  then have "us = busy_unit" by (simp add: busy_host_def)
  then show "us_Result us \<noteq> []" by (simp add: busy_unit_def)
qed

text \<open>
  \<open>systemctl show\<close> succeeds for a unit that does not exist and prints the state of a unit that
  never ran: \<open>UnitState\<close> takes it for a known one, although its comment says it returns nil
  then, so a pod without unit counts as succeeded and a deployment pod is not pruned.
\<close>

definition absent_unit_output :: string where
  "absent_unit_output = ''ActiveState=inactive'' @ [newline] @ ''SubState=dead'' @ [newline] @ ''Result=success'' @ [newline] @
     ''NRestarts=0'' @ [newline] @ ''ExecMainStatus=0'' @ [newline]"

lemma plain_line: "\<forall>c \<in> set l. is_alnum c \<or> c = CHR ''='' \<or> c = CHR ''-'' \<Longrightarrow> TrimSpace l = l"
  by (rule TrimSpace_plain) (auto simp: is_alnum_def byte_classes IsSpace_def)

lemma show_lines:
  "unit_property ''ActiveState=inactive'' s = s\<lparr>us_Active := ''inactive''\<rparr>"
  "unit_property ''SubState=dead'' s = s\<lparr>us_Sub := ''dead''\<rparr>"
  "unit_property ''Result=success'' s = s\<lparr>us_Result := ''success''\<rparr>"
  "unit_property ''NRestarts=0'' s = s\<lparr>us_NRestarts := Atoi_value ''0''\<rparr>"
  "unit_property ''ExecMainStatus=0'' s = s\<lparr>us_ExitCode := Atoi_value ''0''\<rparr>"
  "unit_property [] s = s"
  by (simp_all add: unit_property_def plain_line is_alnum_def byte_classes)

lemma show_split: "Split absent_unit_output newline =
  [''ActiveState=inactive'', ''SubState=dead'', ''Result=success'', ''NRestarts=0'', ''ExecMainStatus=0'', []]"
  by code_simp

lemma absent_unit_counts_as_succeeded:
  "case UnitState absent_unit_output of
     None \<Rightarrow> False
   | Some us \<Rightarrow> unitStateToPhase us = PodSucceeded \<and> job_counters us = (0, 1, 0)"
  by (simp add: UnitState_def show_split show_lines unitStateToPhase_def job_counters_def)

end
