(* ===== verification/Workloads.thy ===== *)
theory Workloads
  imports Handlers Cron
begin

text \<open>
  What internal/server/handler.go keeps on the host for claims, jobs, cron jobs, namespaces,
  config maps and secrets, and how deleting those objects and purging a namespace take it away.
\<close>

section \<open>Volumes of claims\<close>

definition recordPVCEvent :: "server \<Rightarrow> pvc \<Rightarrow> string \<Rightarrow> string \<Rightarrow> string \<Rightarrow> world \<Rightarrow> world" where
  "recordPVCEvent sv p eventType reason message w =
     on_store (recordEvent (sv_now sv) ''PersistentVolumeClaim'' (o_namespace p) (o_name p) (o_uid p)
       eventType reason message) w"

definition provisioning_failed :: "server \<Rightarrow> pvc \<Rightarrow> string \<Rightarrow> world \<Rightarrow> world" where
  "provisioning_failed sv p what w = recordPVCEvent sv p ''Warning'' ''ProvisioningFailed'' what w"

definition volume_file :: "pvc \<Rightarrow> string" where
  "volume_file p = o_namespace p @ ''-'' @ o_name p @ ''.volume''"

definition volume_unit :: "pvc \<Rightarrow> string" where
  "volume_unit p = o_namespace p @ ''-'' @ o_name p @ ''-volume.service''"

text \<open>Rendering a volume cannot fail; the text of the failed call is left out of the event.\<close>

definition generatePVCVolume :: "server \<Rightarrow> pvc \<Rightarrow> world \<Rightarrow> world" where
  "generatePVCVolume sv p w =
     (if sv_QuadletDir sv = [] then w
      else case VolumeFile p of
        None \<Rightarrow> w
      | Some content \<Rightarrow>
          (let (ok, w1) = writeQuadletFile sv (sv_QuadletDir sv) (volume_file p) content w in
           if \<not> ok then provisioning_failed sv p ''writing quadlet volume'' w1
           else if \<not> sv_manager sv then w1
           else
             (let (ok2, w2) = perform sv DaemonReload w1 in
              if \<not> ok2 then provisioning_failed sv p ''daemon-reload'' w2
              else
                (let (ok3, w3) = perform sv (RestartUnit (volume_unit p)) w2 in
                 if \<not> ok3 then provisioning_failed sv p ''starting volume unit'' w3 else w3))))"

definition removePVCVolume :: "server \<Rightarrow> pvc \<Rightarrow> world \<Rightarrow> world" where
  "removePVCVolume sv p w =
     (if sv_QuadletDir sv = [] then w
      else manage sv DaemonReload (act sv (RemoveFile (sv_QuadletDir sv) (volume_file p)) w))"

section \<open>Jobs and cron jobs\<close>

definition job_file :: "'a kobj_scheme \<Rightarrow> string" where
  "job_file j = o_namespace j @ ''-'' @ o_name j @ ''-job.container''"

definition job_service :: "'a kobj_scheme \<Rightarrow> string" where
  "job_service j = o_namespace j @ ''-'' @ o_name j @ ''-job.service''"

text \<open>The unit file of a job with its references resolved; \<open>None\<close> is an error of either step.\<close>

definition render_job :: "server \<Rightarrow> job \<Rightarrow> world \<Rightarrow> string option \<times> world" where
  "render_job sv j w =
     (case resolvedJobEnv sv j w of
        (Inl _, w1) \<Rightarrow> (None, w1)
      | (Inr (resolved, envFile), w1) \<Rightarrow>
          (case JobContainer (sv_gen sv) (o_name resolved) resolved (sv_ConfigDir sv)
                  (podPVCMap (w_store w1) (o_namespace resolved) (pt_spec (job_template resolved))) envFile of
             Inl _ \<Rightarrow> (None, w1)
           | Inr content \<Rightarrow> (Some content, w1)))"

definition generateJobQuadlet :: "server \<Rightarrow> job \<Rightarrow> world \<Rightarrow> world" where
  "generateJobQuadlet sv j w =
     (if sv_QuadletDir sv = [] then w
      else case render_job sv j w of
        (None, w1) \<Rightarrow> w1
      | (Some content, w1) \<Rightarrow> deployUnit sv (sv_QuadletDir sv) (job_file j) content (job_service j) w1)"

definition stopJobUnit :: "server \<Rightarrow> job \<Rightarrow> world \<Rightarrow> world" where
  "stopJobUnit sv j w = manage sv (StopUnit (job_service j)) w"

definition removeJobQuadlet :: "server \<Rightarrow> job \<Rightarrow> world \<Rightarrow> world" where
  "removeJobQuadlet sv j w =
     (if sv_QuadletDir sv = [] then w else reloadAfterRemove sv [(sv_QuadletDir sv, job_file j)] w)"

definition timer_dir :: "server \<Rightarrow> string" where
  "timer_dir sv = (if sv_SystemdDir sv = [] then sv_QuadletDir sv else sv_SystemdDir sv)"

definition cron_file :: "'a kobj_scheme \<Rightarrow> string" where
  "cron_file cj = o_namespace cj @ ''-'' @ o_name cj @ ''-cron.container''"

definition cron_timer_file :: "'a kobj_scheme \<Rightarrow> string" where
  "cron_timer_file cj = o_namespace cj @ ''-'' @ o_name cj @ ''-cron.timer''"

definition render_cron :: "server \<Rightarrow> cronjob \<Rightarrow> world \<Rightarrow> string option \<times> world" where
  "render_cron sv cj w =
     (case resolvedCronJobEnv sv cj w of
        (Inl _, w1) \<Rightarrow> (None, w1)
      | (Inr (resolved, envFile), w1) \<Rightarrow>
          (case CronContainer (sv_gen sv) (o_name resolved) resolved (sv_ConfigDir sv)
                  (podPVCMap (w_store w1) (o_namespace resolved) (pt_spec (cj_template resolved))) envFile of
             Inl _ \<Rightarrow> (None, w1)
           | Inr content \<Rightarrow> (Some content, w1)))"

text \<open>The timer of a cron job; rendering it always ends (\<open>cron_terminates\<close>).\<close>

definition render_timer :: "cronjob \<Rightarrow> string option" where
  "render_timer cj = (case CronTimer (o_name cj) cj of Some (Inr content) \<Rightarrow> Some content | _ \<Rightarrow> None)"

definition generateCronJobQuadlets :: "server \<Rightarrow> cronjob \<Rightarrow> world \<Rightarrow> world" where
  "generateCronJobQuadlets sv cj w =
     (if sv_QuadletDir sv = [] then w
      else case render_cron sv cj w of
        (None, w1) \<Rightarrow> w1
      | (Some containerContent, w1) \<Rightarrow>
          (case render_timer cj of
             None \<Rightarrow> w1
           | Some timerContent \<Rightarrow>
               (let (ok, _, w2) = writeQuadletFilesTracked sv (sv_QuadletDir sv) [(cron_file cj, containerContent)] w1 in
                if \<not> ok then w2
                else deployUnit sv (timer_dir sv) (cron_timer_file cj) timerContent (cron_timer_file cj) w2)))"

definition removeCronJobQuadlets :: "server \<Rightarrow> cronjob \<Rightarrow> world \<Rightarrow> world" where
  "removeCronJobQuadlets sv cj w =
     (if sv_QuadletDir sv = [] then w
      else reloadAfterRemove sv [(sv_QuadletDir sv, cron_file cj), (timer_dir sv, cron_timer_file cj)]
             (manage sv (StopUnit (cron_timer_file cj)) w))"

section \<open>Networks of namespaces\<close>

definition network_file :: "string \<Rightarrow> string" where
  "network_file ns = ''q8s-'' @ ns @ ''.network''"

definition generateNamespaceNetwork :: "server \<Rightarrow> string \<Rightarrow> world \<Rightarrow> world" where
  "generateNamespaceNetwork sv ns w =
     (if sv_QuadletDir sv = [] then w
      else deployUnit sv (sv_QuadletDir sv) (network_file ns) (NetworkFile ns) [] w)"

definition removeNamespaceNetwork :: "server \<Rightarrow> string \<Rightarrow> world \<Rightarrow> world" where
  "removeNamespaceNetwork sv ns w =
     (if sv_QuadletDir sv = [] then w else reloadAfterRemove sv [(sv_QuadletDir sv, network_file ns)] w)"

section \<open>Files of config maps and secrets\<close>

text \<open>A failed write is logged and the next key written.\<close>

definition write_keys :: "server \<Rightarrow> string \<Rightarrow> strmap \<Rightarrow> world \<Rightarrow> world" where
  "write_keys sv dir m w = fold (\<lambda>(k, v). act sv (WriteFile dir k v)) m w"

definition configmap_dir :: "server \<Rightarrow> 'a kobj_scheme \<Rightarrow> string" where
  "configmap_dir sv cm = PathJoin [sv_ConfigDir sv, o_namespace cm, o_name cm]"

definition writeConfigMapFiles :: "server \<Rightarrow> configmap \<Rightarrow> world \<Rightarrow> world" where
  "writeConfigMapFiles sv cm w =
     (if sv_ConfigDir sv = [] then w
      else
        (let dir = configmap_dir sv cm; (ok, w1) = perform sv (MkdirAll dir) w in
         if \<not> ok then w1
         else write_keys sv dir (cm_binaryData cm) (write_keys sv dir (cm_data cm) w1)))"

definition removeConfigMapFiles :: "server \<Rightarrow> configmap \<Rightarrow> world \<Rightarrow> world" where
  "removeConfigMapFiles sv cm w =
     (if sv_ConfigDir sv = [] then w else act sv (RemoveAll (configmap_dir sv cm)) w)"

text \<open>\<open>normalizeSecret\<close> of the server: the string data folded into the data.\<close>

definition fold_string_data :: "secret \<Rightarrow> secret" where
  "fold_string_data sec =
     (case sec_stringData sec of
        None \<Rightarrow> sec
      | Some sd \<Rightarrow>
          if length sd = 0 then sec
          else sec\<lparr>sec_data := Some (fold (\<lambda>(k, v). mput k v) sd (lmap (sec_data sec))), sec_stringData := None\<rparr>)"

definition secret_dir :: "server \<Rightarrow> 'a kobj_scheme \<Rightarrow> string" where
  "secret_dir sv sec = PathJoin [secretBaseDir sv, o_namespace sec, o_name sec]"

definition writeSecretFiles :: "server \<Rightarrow> secret \<Rightarrow> world \<Rightarrow> world" where
  "writeSecretFiles sv sec w =
     (if secretBaseDir sv = [] then w
      else
        (let dir = secret_dir sv sec; (ok, w1) = perform sv (MkdirAll dir) w in
         if \<not> ok then w1 else write_keys sv dir (lmap (sec_data sec)) w1))"

definition remove_dead_key :: "server \<Rightarrow> string \<Rightarrow> string list \<Rightarrow> string \<Rightarrow> world \<Rightarrow> world" where
  "remove_dead_key sv dir keys name w = (if name \<in> set keys then w else act sv (RemoveFile dir name) w)"

definition removeStaleSecretFiles :: "server \<Rightarrow> secret \<Rightarrow> world \<Rightarrow> world" where
  "removeStaleSecretFiles sv sec w =
     (if secretBaseDir sv = [] then w
      else
        (let dir = secret_dir sv sec;
             live = map fst (lmap (sec_data sec)) @ map fst (lmap (sec_stringData sec))
         in fold (remove_dead_key sv dir live) (list_dir dir w) w))"

definition removeSecretFiles :: "server \<Rightarrow> secret \<Rightarrow> world \<Rightarrow> world" where
  "removeSecretFiles sv sec w =
     (if secretBaseDir sv = [] then w else act sv (RemoveAll (secret_dir sv sec)) w)"

section \<open>Deleting one object\<close>

definition deletePVCByName :: "server \<Rightarrow> string \<Rightarrow> string \<Rightarrow> world \<Rightarrow> store_error option \<times> world" where
  "deletePVCByName sv ns name w =
     (case store_do (DeletePVC (sv_now sv) ns name) w of
        (Some e, w1) \<Rightarrow> (Some e, w1)
      | (None, w1) \<Rightarrow>
          (None, case GetPVC ns name (w_store w) of Inl _ \<Rightarrow> w1 | Inr p \<Rightarrow> removePVCVolume sv p w1))"

definition deleteConfigMapByName :: "server \<Rightarrow> string \<Rightarrow> string \<Rightarrow> world \<Rightarrow> store_error option \<times> world" where
  "deleteConfigMapByName sv ns name w =
     (case store_do (DeleteConfigMap (sv_now sv) ns name) w of
        (Some e, w1) \<Rightarrow> (Some e, w1)
      | (None, w1) \<Rightarrow>
          (None, case GetConfigMap ns name (w_store w) of Inl _ \<Rightarrow> w1 | Inr cm \<Rightarrow> removeConfigMapFiles sv cm w1))"

definition deleteSecretByName :: "server \<Rightarrow> string \<Rightarrow> string \<Rightarrow> world \<Rightarrow> store_error option \<times> world" where
  "deleteSecretByName sv ns name w =
     (case store_do (DeleteSecret (sv_now sv) ns name) w of
        (Some e, w1) \<Rightarrow> (Some e, w1)
      | (None, w1) \<Rightarrow>
          (None, case GetSecret ns name (w_store w) of Inl _ \<Rightarrow> w1 | Inr sec \<Rightarrow> removeSecretFiles sv sec w1))"

definition deleteJobByName :: "server \<Rightarrow> string \<Rightarrow> string \<Rightarrow> world \<Rightarrow> store_error option \<times> world" where
  "deleteJobByName sv ns name w =
     (case GetJob ns name (w_store w) of
        Inl e \<Rightarrow> (Some e, w)
      | Inr j \<Rightarrow> store_do (DeleteJob (sv_now sv) ns name) (removeJobQuadlet sv j (stopJobUnit sv j w)))"

definition deleteCronJobByName :: "server \<Rightarrow> string \<Rightarrow> string \<Rightarrow> world \<Rightarrow> store_error option \<times> world" where
  "deleteCronJobByName sv ns name w =
     (case GetCronJob ns name (w_store w) of
        Inl e \<Rightarrow> (Some e, w)
      | Inr cj \<Rightarrow> store_do (DeleteCronJob (sv_now sv) ns name) (removeCronJobQuadlets sv cj w))"

definition deleteIngressByName :: "server \<Rightarrow> string \<Rightarrow> string \<Rightarrow> world \<Rightarrow> store_error option \<times> world" where
  "deleteIngressByName sv ns name w =
     (case store_do (DeleteIngress (sv_now sv) ns name) w of
        (Some e, w1) \<Rightarrow> (Some e, w1)
      | (None, w1) \<Rightarrow> (None, removeTraefikConfig sv ns name w1))"

section \<open>Purging a namespace\<close>

text \<open>The objects of a kind in the namespace, each taken off the host.\<close>

definition each_in :: "(store \<Rightarrow> 'a list) \<Rightarrow> ('a \<Rightarrow> world \<Rightarrow> world) \<Rightarrow> world \<Rightarrow> world" where
  "each_in objs f w = fold f (objs (w_store w)) w"

definition purge_pod :: "server \<Rightarrow> string \<Rightarrow> pod \<Rightarrow> world \<Rightarrow> world" where
  "purge_pod sv ns p w =
     removePodQuadlet sv p
       (removePodSockets sv ns (o_name p)
         (stopPodByName sv (o_namespace p) (o_name p) (ps_containers (pod_spec p)) w))"

definition purgeNamespaceResources :: "server \<Rightarrow> string \<Rightarrow> world \<Rightarrow> world" where
  "purgeNamespaceResources sv ns w0 =
     (let w1 = each_in (PodsIn ns) (purge_pod sv ns) w0;
          w2 = each_in (DeploymentsIn ns) (\<lambda>d w. removeDeploymentQuadlets sv d (stopDeploymentUnits sv d w)) w1;
          w3 = each_in (JobsIn ns) (\<lambda>j w. removeJobQuadlet sv j (stopJobUnit sv j w)) w2;
          w4 = each_in (CronJobsIn ns) (removeCronJobQuadlets sv) w3;
          w5 = each_in (ConfigMapsIn ns) (removeConfigMapFiles sv) w4;
          w6 = each_in (SecretsIn ns) (removeSecretFiles sv) w5;
          w7 = each_in (PVCsIn ns) (removePVCVolume sv) w6;
          w8 = each_in (IngressesIn ns) (\<lambda>i. removeTraefikConfig sv (o_namespace i) (o_name i)) w7;
          w9 = each_in (MiddlewaresIn ns)
                 (\<lambda>m. removeTraefikConfigFile sv (middlewareFilename (o_namespace m) (o_name m))) w8;
          w10 = each_in (IngressRouteTCPsIn ns)
                 (\<lambda>r. removeTraefikConfigFile sv (tcpFilename (o_namespace r) (o_name r))) w9;
          w11 = each_in (ServicesIn ns) (removeLegacyServiceSockets sv) w10;
          w12 = (if secretBaseDir sv = [] then w11 else act sv (RemoveAll (PathJoin [secretBaseDir sv, ns])) w11)
      in on_store (PurgeNamespace ns) w12)"

section \<open>Sockets of old versions\<close>

text \<open>The sweep at start-up: whether it removed anything.\<close>

definition sweep_socket :: "server \<Rightarrow> string \<Rightarrow> bool \<times> world \<Rightarrow> bool \<times> world" where
  "sweep_socket sv name rw =
     (let (removed, w) = rw; (ok, w1) = perform sv (RemoveFile (sv_QuadletDir sv) name) w in (removed \<or> ok, w1))"

definition sweepOrphanedSockets :: "server \<Rightarrow> world \<Rightarrow> bool \<times> world" where
  "sweepOrphanedSockets sv w =
     (if sv_QuadletDir sv = [] then (False, w)
      else fold (sweep_socket sv) (filter (\<lambda>n. HasSuffix n ''.socket'') (list_dir (sv_QuadletDir sv) w)) (False, w))"

end
