(* ===== verification/WorkloadHandlers.thy ===== *)
theory WorkloadHandlers
  imports Workloads
begin

text \<open>
  The requests of internal/server/handler.go that change claims, config maps, secrets,
  deployments, namespaces, jobs, cron jobs and ingresses, from the decoded body on, in the form of
  theory Handlers.
\<close>

text \<open>What every handler does with a body first: its kind, namespace and name.\<close>

definition typed :: "string \<Rightarrow> string \<Rightarrow> 'a kobj_scheme \<Rightarrow> 'a kobj_scheme" where
  "typed apiVersion k x = x\<lparr>o_apiVersion := apiVersion, o_kind := k\<rparr>"

definition check_names :: "'a kobj_scheme \<Rightarrow> world \<Rightarrow> 'b response \<times> world \<Rightarrow> 'b response \<times> world" where
  "check_names x w k =
     check_or (validateName ''namespace'' (o_namespace x)) 400 ''Invalid'' w
     (check_or (validateName ''name'' (o_name x)) 400 ''Invalid'' w k)"

text \<open>The answer of a store operation, and what follows when it succeeds.\<close>

definition answer ::
  "nat \<Rightarrow> nat \<times> string \<Rightarrow> (store_error + 'a) \<times> world \<Rightarrow> ('a \<Rightarrow> world \<Rightarrow> world) \<Rightarrow> 'a response \<times> world" where
  "answer ok failure r k =
     (case r of
        (Inl _, w) \<Rightarrow> (Failure (fst failure) (snd failure), w)
      | (Inr x, w) \<Rightarrow> (Success ok x, k x w))"

definition delete_request ::
  "(store \<Rightarrow> 'a kobj_scheme list) \<Rightarrow> (string \<Rightarrow> world \<Rightarrow> store_error option \<times> world) \<Rightarrow> string \<Rightarrow> world
    \<Rightarrow> unit response \<times> world" where
  "delete_request objs del name w =
     (if name = [] then (Success 200 (), snd (deleteCollection (map (\<lambda>x. o_name x) (objs (w_store w))) del w))
      else deleted_response (del name w))"

section \<open>Claims\<close>

definition pvcPost :: "server \<Rightarrow> string \<Rightarrow> pvc decoded \<Rightarrow> world \<Rightarrow> pvc response \<times> world" where
  "pvcPost sv ns body w =
     with_decoded body w (\<lambda>x.
       let p = default_namespace ns (typed ''v1'' ''PersistentVolumeClaim'' x) in
       check_names p w
         (answer 201 (409, ''AlreadyExists'') (store_call (CreatePVC (sv_now sv) p) w) (generatePVCVolume sv)))"

definition pvcPatch ::
  "server \<Rightarrow> string \<Rightarrow> string \<Rightarrow> (pvc \<Rightarrow> pvc decoded) \<Rightarrow> world \<Rightarrow> pvc response \<times> world" where
  "pvcPatch sv ns name patch w =
     (case GetPVC ns name (w_store w) of
        Inl _ \<Rightarrow> (Failure 404 ''NotFound'', w)
      | Inr old \<Rightarrow>
          with_decoded (patch old) w (\<lambda>p.
          check_or (validatePatchedIdentity ''persistentvolumeclaim'' (o_namespace p) (o_name p) ns name) 400 ''Invalid'' w
          (answer 200 (500, ''InternalError'') (store_call (UpdatePVC (sv_now sv) p) w) (\<lambda>_ w. w))))"

definition pvcDelete :: "server \<Rightarrow> string \<Rightarrow> string \<Rightarrow> world \<Rightarrow> unit response \<times> world" where
  "pvcDelete sv ns name w = delete_request (PVCsIn ns) (deletePVCByName sv ns) name w"

section \<open>Config maps\<close>

definition check_config_keys :: "configmap \<Rightarrow> world \<Rightarrow> 'b response \<times> world \<Rightarrow> 'b response \<times> world" where
  "check_config_keys cm w k =
     check_or (validateDataKeys (map fst (cm_data cm)) (map fst (cm_binaryData cm))) 400 ''Invalid'' w k"

definition configMapPost :: "server \<Rightarrow> string \<Rightarrow> configmap decoded \<Rightarrow> world \<Rightarrow> configmap response \<times> world" where
  "configMapPost sv ns body w =
     with_decoded body w (\<lambda>x.
       let cm = default_namespace ns (typed ''v1'' ''ConfigMap'' x) in
       check_names cm w (check_config_keys cm w
         (answer 201 (409, ''AlreadyExists'') (store_call (CreateConfigMap (sv_now sv) cm) w) (writeConfigMapFiles sv))))"

definition configMapPut ::
  "server \<Rightarrow> string \<Rightarrow> string \<Rightarrow> configmap decoded \<Rightarrow> world \<Rightarrow> configmap response \<times> world" where
  "configMapPut sv ns name body w =
     with_decoded body w (\<lambda>x.
       let cm = default_name name (default_namespace ns (typed ''v1'' ''ConfigMap'' x)) in
       check_names cm w (check_config_keys cm w
         (answer 200 (404, ''NotFound'') (store_call (UpdateConfigMap (sv_now sv) cm) w) (writeConfigMapFiles sv))))"

definition configMapPatch ::
  "server \<Rightarrow> string \<Rightarrow> string \<Rightarrow> (configmap \<Rightarrow> configmap decoded) \<Rightarrow> world \<Rightarrow> configmap response \<times> world" where
  "configMapPatch sv ns name patch w =
     (case GetConfigMap ns name (w_store w) of
        Inl _ \<Rightarrow> (Failure 404 ''NotFound'', w)
      | Inr old \<Rightarrow>
          with_decoded (patch old) w (\<lambda>cm.
          check_or (validatePatchedIdentity ''configmap'' (o_namespace cm) (o_name cm) ns name) 400 ''Invalid'' w
          (check_config_keys cm w
            (answer 200 (500, ''InternalError'') (store_call (UpdateConfigMap (sv_now sv) cm) w) (writeConfigMapFiles sv)))))"

definition configMapDelete :: "server \<Rightarrow> string \<Rightarrow> string \<Rightarrow> world \<Rightarrow> unit response \<times> world" where
  "configMapDelete sv ns name w = delete_request (ConfigMapsIn ns) (deleteConfigMapByName sv ns) name w"

section \<open>Secrets\<close>

definition check_secret_keys :: "secret \<Rightarrow> world \<Rightarrow> 'b response \<times> world \<Rightarrow> 'b response \<times> world" where
  "check_secret_keys sec w k =
     check_or (validateDataKeys (map fst (lmap (sec_stringData sec))) (map fst (lmap (sec_data sec)))) 400 ''Invalid'' w k"

definition secretPost :: "server \<Rightarrow> string \<Rightarrow> secret decoded \<Rightarrow> world \<Rightarrow> secret response \<times> world" where
  "secretPost sv ns body w =
     with_decoded body w (\<lambda>x.
       let sec = default_namespace ns (typed ''v1'' ''Secret'' x) in
       check_names sec w (check_secret_keys sec w
         (answer 201 (409, ''AlreadyExists'') (store_call (CreateSecret (sv_now sv) (fold_string_data sec)) w)
           (writeSecretFiles sv))))"

definition secretPatch ::
  "server \<Rightarrow> string \<Rightarrow> string \<Rightarrow> (secret \<Rightarrow> secret decoded) \<Rightarrow> world \<Rightarrow> secret response \<times> world" where
  "secretPatch sv ns name patch w =
     (case GetSecret ns name (w_store w) of
        Inl _ \<Rightarrow> (Failure 404 ''NotFound'', w)
      | Inr old \<Rightarrow>
          with_decoded (patch old) w (\<lambda>sec.
          check_or (validatePatchedIdentity ''secret'' (o_namespace sec) (o_name sec) ns name) 400 ''Invalid'' w
          (check_secret_keys sec w
            (answer 200 (500, ''InternalError'') (store_call (UpdateSecret (sv_now sv) (fold_string_data sec)) w)
              (\<lambda>updated w. writeSecretFiles sv updated (removeStaleSecretFiles sv updated w))))))"

definition secretDelete :: "server \<Rightarrow> string \<Rightarrow> string \<Rightarrow> world \<Rightarrow> unit response \<times> world" where
  "secretDelete sv ns name w = delete_request (SecretsIn ns) (deleteSecretByName sv ns) name w"

section \<open>Deployments\<close>

abbreviation template_spec :: "deployment \<Rightarrow> podspec" where
  "template_spec d \<equiv> pt_spec (ds_template (dep_spec d))"

definition check_template :: "deployment \<Rightarrow> world \<Rightarrow> 'b response \<times> world \<Rightarrow> 'b response \<times> world" where
  "check_template d w k =
     check_or (validateSingleContainer ''deployment spec.template.spec'' (Some (template_spec d)) True) 400 ''Invalid'' w
     (check_or (validatePodAnnotations (Some (template_spec d)) (pt_annotations (ds_template (dep_spec d)))
        (deploymentReplicas d)) 422 ''Invalid'' w k)"

text \<open>After an update: either the number of instances changed, or every instance is redeployed.\<close>

definition roll_out :: "server \<Rightarrow> string \<Rightarrow> int \<Rightarrow> deployment \<Rightarrow> world \<Rightarrow> world" where
  "roll_out sv ns oldR d w =
     regenerateIngressConfigs sv ns
       (if deploymentReplicas d \<noteq> oldR then scaleDeployment sv d oldR (deploymentReplicas d) w
        else fold (deployDeploymentInstance sv True d) [0..deploymentReplicas d - 1] w)"

definition deploymentPost :: "server \<Rightarrow> string \<Rightarrow> deployment decoded \<Rightarrow> world \<Rightarrow> deployment response \<times> world" where
  "deploymentPost sv ns body w =
     with_decoded body w (\<lambda>x.
       let d = default_namespace ns (typed ''apps/v1'' ''Deployment'' x) in
       check_names d w (check_template d w
         (answer 201 (409, ''AlreadyExists'') (store_call (CreateDeployment (sv_now sv) d) w)
           (\<lambda>created w. regenerateIngressConfigs sv ns (generateDeploymentQuadlets sv created w)))))"

definition deploymentPut ::
  "server \<Rightarrow> string \<Rightarrow> string \<Rightarrow> deployment decoded \<Rightarrow> world \<Rightarrow> deployment response \<times> world" where
  "deploymentPut sv ns name body w =
     with_decoded body w (\<lambda>x.
       let d = default_name name (default_namespace ns (typed ''apps/v1'' ''Deployment'' x)) in
       check_names d w (check_template d w
       (check_or (validatePatchedIdentity ''deployment'' (o_namespace d) (o_name d) ns name) 400 ''Invalid'' w
       (case GetDeployment ns name (w_store w) of
          Inl _ \<Rightarrow> (Failure 404 ''NotFound'', w)
        | Inr old \<Rightarrow>
            answer 200 (404, ''NotFound'') (store_call (UpdateDeployment (sv_now sv) d) w)
              (roll_out sv ns (deploymentReplicas old))))))"

definition deploymentPatch ::
  "server \<Rightarrow> string \<Rightarrow> string \<Rightarrow> (deployment \<Rightarrow> deployment decoded) \<Rightarrow> world \<Rightarrow> deployment response \<times> world" where
  "deploymentPatch sv ns name patch w =
     (case GetDeployment ns name (w_store w) of
        Inl _ \<Rightarrow> (Failure 404 ''NotFound'', w)
      | Inr old \<Rightarrow>
          with_decoded (patch old) w (\<lambda>d.
          check_or (validatePatchedIdentity ''deployment'' (o_namespace d) (o_name d) ns name) 400 ''Invalid'' w
          (check_template d w
            (answer 200 (500, ''InternalError'') (store_call (UpdateDeployment (sv_now sv) d) w)
              (roll_out sv ns (deploymentReplicas old))))))"

text \<open>
  The scale subresource; the body is the number of replicas, \<open>None\<close> when it has none or cannot be
  decoded.
\<close>

definition deploymentScale ::
  "server \<Rightarrow> string \<Rightarrow> string \<Rightarrow> int option decoded \<Rightarrow> world \<Rightarrow> deployment response \<times> world" where
  "deploymentScale sv ns name body w =
     (case GetDeployment ns name (w_store w) of
        Inl _ \<Rightarrow> (Failure 404 ''NotFound'', w)
      | Inr old \<Rightarrow>
          with_decoded body w (\<lambda>replicas.
          let d = (case replicas of None \<Rightarrow> old | Some n \<Rightarrow> old\<lparr>dep_spec := (dep_spec old)\<lparr>ds_replicas := Some n\<rparr>\<rparr>) in
          check_or (validatePodAnnotations (Some (template_spec d)) (pt_annotations (ds_template (dep_spec d)))
            (deploymentReplicas d)) 422 ''Invalid'' w
          (answer 200 (500, ''InternalError'') (store_call (UpdateDeployment (sv_now sv) d) w)
            (\<lambda>updated w. regenerateIngressConfigs sv ns
               (scaleDeployment sv updated (deploymentReplicas old) (deploymentReplicas updated) w)))))"

definition deploymentDelete :: "server \<Rightarrow> string \<Rightarrow> string \<Rightarrow> world \<Rightarrow> unit response \<times> world" where
  "deploymentDelete sv ns name w = delete_request (DeploymentsIn ns) (deleteDeploymentByName sv ns) name w"

text \<open>The status a client reads: derived from the instances' pods.\<close>

definition instance_running :: "store \<Rightarrow> deployment \<Rightarrow> int \<Rightarrow> bool" where
  "instance_running s d i =
     (case GetPod (o_namespace d) (instance_name d i) s of
        Inl _ \<Rightarrow> False | Inr p \<Rightarrow> pst_phase (pod_status p) = PodRunning)"

definition withDeploymentStatus :: "store \<Rightarrow> deployment \<Rightarrow> deployment" where
  "withDeploymentStatus s d =
     (let desired = deploymentReplicas d;
          ready = int (length (filter (instance_running s d) [0..desired - 1]))
      in d\<lparr>dep_status := \<lparr>dst_replicas = desired, dst_readyReplicas = ready, dst_availableReplicas = ready,
             dst_updatedReplicas = desired, dst_observedGeneration = om_generation (o_meta d)\<rparr>\<rparr>)"

section \<open>Namespaces\<close>

definition namespacePatch ::
  "server \<Rightarrow> string \<Rightarrow> (namespace \<Rightarrow> namespace decoded) \<Rightarrow> world \<Rightarrow> namespace response \<times> world" where
  "namespacePatch sv name patch w =
     (case GetNamespace name (w_store w) of
        Inl _ \<Rightarrow> (Failure 404 ''NotFound'', w)
      | Inr old \<Rightarrow>
          with_decoded (patch old) w (\<lambda>n.
          if o_name n \<noteq> name \<or> o_namespace n \<noteq> [] then (Failure 400 ''Invalid'', w)
          else answer 200 (500, ''InternalError'') (store_call (UpdateNamespace (sv_now sv) n) w) (\<lambda>_ w. w)))"

definition namespaceCreate :: "server \<Rightarrow> namespace decoded \<Rightarrow> world \<Rightarrow> namespace response \<times> world" where
  "namespaceCreate sv body w =
     with_decoded body w (\<lambda>x.
       let n = typed ''v1'' ''Namespace'' x in
       check_or (validateName ''name'' (o_name n)) 400 ''Invalid'' w
       (answer 201 (409, ''AlreadyExists'') (store_call (CreateNamespace (sv_now sv) n) w)
         (\<lambda>created w. attachNamespaceNetwork sv (o_name created) (generateNamespaceNetwork sv (o_name created) w))))"

definition namespaceDelete :: "server \<Rightarrow> string \<Rightarrow> world \<Rightarrow> unit response \<times> world" where
  "namespaceDelete sv name w =
     (case GetNamespace name (w_store w) of
        Inl _ \<Rightarrow> (Failure 404 ''NotFound'', w)
      | Inr _ \<Rightarrow>
          (case store_do (DeleteNamespace (sv_now sv) name) (purgeNamespaceResources sv name w) of
             (Some _, w1) \<Rightarrow> (Failure 404 ''NotFound'', w1)
           | (None, w1) \<Rightarrow>
               (Success 200 (), removeNamespaceNetwork sv name (detachNamespaceNetwork sv name w1))))"

section \<open>Jobs and cron jobs\<close>

definition check_job :: "podspec \<Rightarrow> world \<Rightarrow> 'b response \<times> world \<Rightarrow> 'b response \<times> world" where
  "check_job spec w k =
     check_or (validateSingleContainer ''spec.template.spec'' (Some spec) False) 400 ''Invalid'' w
     (check_or (validatePodProbes (Some spec)) 422 ''Invalid'' w k)"

definition jobPost :: "server \<Rightarrow> string \<Rightarrow> job decoded \<Rightarrow> world \<Rightarrow> job response \<times> world" where
  "jobPost sv ns body w =
     with_decoded body w (\<lambda>x.
       let j = default_namespace ns (typed ''batch/v1'' ''Job'' x) in
       check_names j w (check_job (pt_spec (job_template j)) w
         (answer 201 (409, ''AlreadyExists'') (store_call (CreateJob (sv_now sv) j) w) (generateJobQuadlet sv))))"

text \<open>A patched job gets its new file, but nothing is reloaded.\<close>

definition rewrite_job :: "server \<Rightarrow> job \<Rightarrow> world \<Rightarrow> world" where
  "rewrite_job sv j w =
     (if sv_QuadletDir sv = [] then w
      else case render_job sv j w of
        (None, w1) \<Rightarrow> w1
      | (Some content, w1) \<Rightarrow> snd (snd (writeQuadletFilesTracked sv (sv_QuadletDir sv) [(job_file j, content)] w1)))"

definition jobPatch ::
  "server \<Rightarrow> string \<Rightarrow> string \<Rightarrow> (job \<Rightarrow> job decoded) \<Rightarrow> world \<Rightarrow> job response \<times> world" where
  "jobPatch sv ns name patch w =
     (case GetJob ns name (w_store w) of
        Inl _ \<Rightarrow> (Failure 404 ''NotFound'', w)
      | Inr old \<Rightarrow>
          with_decoded (patch old) w (\<lambda>j.
          check_or (validatePatchedIdentity ''job'' (o_namespace j) (o_name j) ns name) 400 ''Invalid'' w
          (check_job (pt_spec (job_template j)) w
            (answer 200 (500, ''InternalError'') (store_call (UpdateJob (sv_now sv) j) w) (rewrite_job sv)))))"

definition jobDelete :: "server \<Rightarrow> string \<Rightarrow> string \<Rightarrow> world \<Rightarrow> unit response \<times> world" where
  "jobDelete sv ns name w = delete_request (JobsIn ns) (deleteJobByName sv ns) name w"

definition cronJobPost :: "server \<Rightarrow> string \<Rightarrow> cronjob decoded \<Rightarrow> world \<Rightarrow> cronjob response \<times> world" where
  "cronJobPost sv ns body w =
     with_decoded body w (\<lambda>x.
       let cj = default_namespace ns (typed ''batch/v1'' ''CronJob'' x) in
       check_names cj w (check_job (pt_spec (cj_template cj)) w
         (answer 201 (409, ''AlreadyExists'') (store_call (CreateCronJob (sv_now sv) cj) w)
           (generateCronJobQuadlets sv))))"

definition cronJobPatch ::
  "server \<Rightarrow> string \<Rightarrow> string \<Rightarrow> (cronjob \<Rightarrow> cronjob decoded) \<Rightarrow> world \<Rightarrow> cronjob response \<times> world" where
  "cronJobPatch sv ns name patch w =
     (case GetCronJob ns name (w_store w) of
        Inl _ \<Rightarrow> (Failure 404 ''NotFound'', w)
      | Inr old \<Rightarrow>
          with_decoded (patch old) w (\<lambda>cj.
          check_or (validatePatchedIdentity ''cronjob'' (o_namespace cj) (o_name cj) ns name) 400 ''Invalid'' w
          (check_job (pt_spec (cj_template cj)) w
            (answer 200 (500, ''InternalError'') (store_call (UpdateCronJob (sv_now sv) cj) w)
              (generateCronJobQuadlets sv)))))"

definition cronJobDelete :: "server \<Rightarrow> string \<Rightarrow> string \<Rightarrow> world \<Rightarrow> unit response \<times> world" where
  "cronJobDelete sv ns name w = delete_request (CronJobsIn ns) (deleteCronJobByName sv ns) name w"

section \<open>Ingresses\<close>

definition ingressPost :: "server \<Rightarrow> string \<Rightarrow> ingress decoded \<Rightarrow> world \<Rightarrow> ingress response \<times> world" where
  "ingressPost sv ns body w =
     with_decoded body w (\<lambda>x.
       let i = default_namespace ns (typed ''networking.k8s.io/v1'' ''Ingress'' x) in
       check_names i w (check_or (validateIngress i) 400 ''Invalid'' w
         (answer 201 (409, ''AlreadyExists'') (store_call (CreateIngress (sv_now sv) i) w) (generateTraefikConfig sv))))"

definition ingressPut ::
  "server \<Rightarrow> string \<Rightarrow> string \<Rightarrow> ingress decoded \<Rightarrow> world \<Rightarrow> ingress response \<times> world" where
  "ingressPut sv ns name body w =
     with_decoded body w (\<lambda>x.
       let i = default_name name (default_namespace ns (typed ''networking.k8s.io/v1'' ''Ingress'' x)) in
       check_names i w (check_or (validateIngress i) 400 ''Invalid'' w
         (answer 200 (404, ''NotFound'') (store_call (UpdateIngress (sv_now sv) i) w) (generateTraefikConfig sv))))"

definition ingressPatch ::
  "server \<Rightarrow> string \<Rightarrow> string \<Rightarrow> (ingress \<Rightarrow> ingress decoded) \<Rightarrow> world \<Rightarrow> ingress response \<times> world" where
  "ingressPatch sv ns name patch w =
     (case GetIngress ns name (w_store w) of
        Inl _ \<Rightarrow> (Failure 404 ''NotFound'', w)
      | Inr old \<Rightarrow>
          with_decoded (patch old) w (\<lambda>i.
          check_or (validatePatchedIdentity ''ingress'' (o_namespace i) (o_name i) ns name) 400 ''Invalid'' w
          (check_or (validateIngress i) 400 ''Invalid'' w
            (answer 200 (500, ''InternalError'') (store_call (UpdateIngress (sv_now sv) i) w) (generateTraefikConfig sv)))))"

definition ingressDelete :: "server \<Rightarrow> string \<Rightarrow> string \<Rightarrow> world \<Rightarrow> unit response \<times> world" where
  "ingressDelete sv ns name w = delete_request (IngressesIn ns) (deleteIngressByName sv ns) name w"

end
