(* ===== verification/SecretProperties.thy ===== *)
theory SecretProperties
  imports Workloads WorkloadHandlers DeployDemo
begin

text \<open>
  Secrets and config maps on the host: the files of a secret follow its keys, the files of a
  config map do not, and no unit file depends on the value of a secret.
\<close>

declare split_paired_All [simp del] split_paired_Ex [simp del]

section \<open>Files of keys\<close>

lemma lget_lmap: "lget m k = mget (lmap m) k"
  by (cases m) (simp_all add: lmap_def)

lemma in_keys: "k \<in> set (map fst m) \<longleftrightarrow> mget m k \<noteq> None"
  by (simp add: map_of_eq_None_iff)

lemma act_done:
  "no_failures sv \<Longrightarrow> act sv op w = w\<lparr>w_files := io_effect op Done (w_files w), w_log := op # w_log w\<rparr>"
  by (simp add: act_def perform_def no_failures_def Let_def)

lemma write_keys_rest [simp]: "w_store (write_keys sv dir m w) = w_store w"
  unfolding write_keys_def by (induction m arbitrary: w) auto

lemma write_keys_files:
  assumes "no_failures sv" "mwf m"
  shows "mget (w_files (write_keys sv dir m w)) (d, k) =
    (if d = dir \<and> mget m k \<noteq> None then mget m k else mget (w_files w) (d, k))"
  using assms(2) unfolding write_keys_def
proof (induction m arbitrary: w)
  case (Cons x m)
  obtain k' v where x: "x = (k', v)" by fastforce
  have "mget m k' = None" and "mwf m"
    using Cons.prems by (auto simp: x mwf_def map_of_eq_None_iff)
  then show ?case
    using Cons.IH [of "act sv (WriteFile dir k' v) w"]
    by (auto simp: x act_done [OF assms(1)] mget_mput)
qed simp

lemma remove_dead_keys_files:
  assumes "no_failures sv"
  shows "mget (w_files (fold (remove_dead_key sv dir keys) names w)) (d, k) =
    (if d = dir \<and> k \<in> set names \<and> k \<notin> set keys then None else mget (w_files w) (d, k))"
proof (induction names arbitrary: w)
  case (Cons n names)
  show ?case
    unfolding fold_Cons comp_def Cons.IH
    by (auto simp: remove_dead_key_def act_done [OF assms(1)] mget_mdel)
qed simp

lemma removeStaleSecretFiles_files:
  assumes "no_failures sv" "secretBaseDir sv \<noteq> []" "length (lmap (sec_stringData sec)) = 0"
  shows "mget (w_files (removeStaleSecretFiles sv sec w)) (secret_dir sv sec, k) =
    (if lget (sec_data sec) k = None then None else mget (w_files w) (secret_dir sv sec, k))"
proof (cases "k \<in> set (list_dir (secret_dir sv sec) w)")
  case True
  then show ?thesis
    using assms by (simp add: removeStaleSecretFiles_def Let_def remove_dead_keys_files lget_lmap in_keys del: set_map)
next
  case False
  then have "mget (w_files w) (secret_dir sv sec, k) = None" by (simp add: list_dir_iff)
  with False show ?thesis
    using assms by (simp add: removeStaleSecretFiles_def Let_def remove_dead_keys_files)
qed

lemma writeSecretFiles_files:
  assumes "no_failures sv" "secretBaseDir sv \<noteq> []" "mwf (lmap (sec_data sec))"
  shows "mget (w_files (writeSecretFiles sv sec w)) (secret_dir sv sec, k) =
    (if lget (sec_data sec) k = None then mget (w_files w) (secret_dir sv sec, k) else lget (sec_data sec) k)"
proof -
  have "perform sv (MkdirAll (secret_dir sv sec)) w = (True, act sv (MkdirAll (secret_dir sv sec)) w)"
    using assms(1) by (simp add: act_def perform_def no_failures_def Let_def)
  then show ?thesis
    using assms by (simp add: writeSecretFiles_def Let_def write_keys_files act_done lget_lmap)
qed

section \<open>Answers\<close>

lemma check_or_Success [rbind_laws]:
  "check_or r code reason w k = (Success n x, w') \<longleftrightarrow> isOk r \<and> k = (Success n x, w')"
  by (auto simp: check_or_def split: sum.split)

lemma with_decoded_Success [rbind_laws]:
  "with_decoded d w f = (Success n x, w') \<longleftrightarrow> (\<exists>y. d = Inr y \<and> f y = (Success n x, w'))"
  by (auto simp: with_decoded_def split: sum.split)

lemma answer_Success [rbind_laws]:
  "answer ok e (store_call g w) k = (Success n x, w') \<longleftrightarrow>
     n = ok \<and> fst (g (w_store w)) = Inr x \<and> w' = k x (w\<lparr>w_store := snd (g (w_store w))\<rparr>)"
  by (auto simp: answer_def store_call_def Let_def case_prod_beta split: sum.split)

section \<open>Secrets\<close>

lemma fold_string_data_done: "length (lmap (sec_stringData (fold_string_data sec))) = 0"
  by (auto simp: fold_string_data_def lmap_def split: option.split)

lemma UpdateSecret_data:
  "fst (UpdateSecret now x s) = Inr y \<Longrightarrow> sec_data y = sec_data x \<and> sec_stringData y = sec_stringData x"
  by (auto simp: UpdateSecret_def Let_def stamp_def omod_def case_prod_beta split: option.splits)

text \<open>
  C23: When no call fails, an accepted patch of a secret leaves in the secret's directory exactly
  the keys of the new secret with their values: removed keys are gone and nothing else is there.
\<close>

theorem secret_files_follow_secret:
  assumes "no_failures sv" "secretBaseDir sv \<noteq> []"
    and ok: "secretPatch sv ns name patch w = (Success 200 sec, w')" and "mwf (lmap (sec_data sec))"
  shows "\<forall>k. mget (w_files w') (secret_dir sv sec, k) = lget (sec_data sec) k"
proof -
  obtain x w1 where "fst (UpdateSecret (sv_now sv) (fold_string_data x) (w_store w)) = Inr sec"
    and w': "w' = writeSecretFiles sv sec (removeStaleSecretFiles sv sec w1)"
    using ok by (auto simp: secretPatch_def check_secret_keys_def rbind_laws split: sum.splits)
  then have "length (lmap (sec_stringData sec)) = 0"
    using UpdateSecret_data fold_string_data_done by metis
  with assms w' show ?thesis
    by (simp add: writeSecretFiles_files removeStaleSecretFiles_files)
qed

definition demo_secret :: "strmap \<Rightarrow> secret" where
  "demo_secret m =
     \<lparr>o_apiVersion = ''v1'', o_kind = ''Secret'', o_meta = empty_meta\<lparr>om_name := ''s'', om_namespace := ''n''\<rparr>,
      sec_data = Some m, sec_stringData = None, sec_rest = []\<rparr>"

definition secret_world :: world where
  "secret_world = snd (secretPost demo_server ''n'' (Inr (demo_secret [(''a'', ''1''), (''b'', ''2'')])) demo_world)"

definition patched_secret :: "secret response \<times> world" where
  "patched_secret = secretPatch demo_server ''n'' ''s'' (\<lambda>_. Inr (demo_secret [(''b'', ''3'')])) secret_world"

theorem secret_files_follow_secret_witness:
  "\<exists>sec. fst patched_secret = Success 200 sec \<and> lget (sec_data sec) ''b'' = Some ''3'' \<and>
     (\<forall>k. mget (w_files (snd patched_secret)) (secret_dir demo_server sec, k) = lget (sec_data sec) k)"
proof -
  have "case fst patched_secret of Success n sec \<Rightarrow> n = 200 \<and> sec_data sec = Some [(''b'', ''3'')] | Failure _ _ \<Rightarrow> False"
    by code_simp
  then obtain sec where r: "fst patched_secret = Success 200 sec" and d: "sec_data sec = Some [(''b'', ''3'')]"
    by (auto split: response.splits)
  have "secretBaseDir demo_server \<noteq> []" by code_simp
  moreover have "secretPatch demo_server ''n'' ''s'' (\<lambda>_. Inr (demo_secret [(''b'', ''3'')])) secret_world
      = (Success 200 sec, snd patched_secret)"
    using r unfolding patched_secret_def by (metis prod.collapse)
  ultimately have "\<forall>k. mget (w_files (snd patched_secret)) (secret_dir demo_server sec, k) = lget (sec_data sec) k"
    using secret_files_follow_secret [OF demo_no_failures] d by (simp add: mwf_def lmap_def)
  with r d show ?thesis by simp
qed

section \<open>Config maps\<close>

definition kept_files :: "world \<Rightarrow> world \<Rightarrow> bool" where
  "kept_files w w' \<longleftrightarrow> (\<forall>k. mget (w_files w) k \<noteq> None \<longrightarrow> mget (w_files w') k \<noteq> None)"

lemma kept_files_write:
  "kept_files w (snd (perform sv (MkdirAll d) w))" "kept_files w (act sv (WriteFile d n c) w)"
  by (cases "sv_fails sv (w_log w) (WriteFile d n c)"; auto simp: kept_files_def act_def perform_def Let_def mget_mput)+

lemma kept_files_trans: "kept_files w w1 \<Longrightarrow> kept_files w1 w2 \<Longrightarrow> kept_files w w2"
  by (auto simp: kept_files_def)

lemma kept_files_keys: "kept_files w (write_keys sv dir m w)"
  unfolding write_keys_def
proof (induction m arbitrary: w)
  case (Cons x m)
  then show ?case
    by (cases x) (use kept_files_trans kept_files_write(2) in fastforce)
qed (simp add: kept_files_def)

lemma kept_files_configmap: "w_files w0 = w_files w \<Longrightarrow> kept_files w (writeConfigMapFiles sv cm w0)"
  unfolding writeConfigMapFiles_def Let_def case_prod_beta
  using kept_files_trans [OF kept_files_write(1) kept_files_trans [OF kept_files_keys kept_files_keys]]
    kept_files_write(1)
  by (fastforce simp: kept_files_def)

text \<open>
  Updating a config map by PUT or PATCH never removes a file, whatever its outcome: a key that
  the new object no longer has stays readable in the pods that mount the directory, unlike the key of
  a secret.
\<close>

lemma configmap_files_only_grow:
  "kept_files w (snd (configMapPut sv ns name body w)) \<and> kept_files w (snd (configMapPatch sv ns name patch w))"
proof -
  have "kept_files w w" by (simp add: kept_files_def)
  then show ?thesis
    by (auto simp: configMapPut_def configMapPatch_def check_names_def check_config_keys_def check_or_def
        with_decoded_def answer_def store_call_def Let_def case_prod_beta kept_files_configmap
        split: sum.split) (simp_all add: kept_files_def)
qed

section \<open>What units see of secrets\<close>

text \<open>Two stores that agree on config maps and on the keys of secrets, in whatever order.\<close>

definition same_keys :: "strmap \<Rightarrow> strmap \<Rightarrow> bool" where
  "same_keys m m' \<longleftrightarrow> sort (map fst m) = sort (map fst m')"

definition same_secret_keys :: "store \<Rightarrow> store \<Rightarrow> bool" where
  "same_secret_keys s s' \<longleftrightarrow> s_configmaps s = s_configmaps s' \<and>
     (\<forall>ns name. case (GetSecret ns name s, GetSecret ns name s') of
        (Inr a, Inr b) \<Rightarrow> same_keys (lmap (sec_data a)) (lmap (sec_data b)) \<and>
          same_keys (lmap (sec_stringData a)) (lmap (sec_stringData b))
      | (Inl _, Inl _) \<Rightarrow> True
      | _ \<Rightarrow> False)"

lemma same_keys_get: "same_keys m m' \<Longrightarrow> (mget m k = None) = (mget m' k = None)"
  unfolding same_keys_def by (metis in_keys set_sort)

lemma map_sort_key: "map f (sort_key f xs) = sort (map f xs)"
proof (induction xs)
  case (Cons x xs)
  have "map f (insort_key f x ys) = insort (f x) (map f ys)" for ys
    by (induction ys) auto
  with Cons show ?case by simp
qed simp

lemma imported_names: "same_keys m m' \<Longrightarrow> map env_name (imported p m) = map env_name (imported p m')"
proof -
  assume "same_keys m m'"
  then have "map fst (sort_key fst m) = map fst (sort_key fst m')" by (simp add: same_keys_def map_sort_key)
  then have "map ((@) p) (map fst (sort_key fst m)) = map ((@) p) (map fst (sort_key fst m'))" by simp
  then show ?thesis by (simp add: imported_def comp_def case_prod_beta)
qed

lemma map_result_rel:
  assumes "map_result f xs = Inr ys" "map_result g xs = Inr zs"
    and "\<And>x y z. x \<in> set xs \<Longrightarrow> f x = Inr y \<Longrightarrow> g x = Inr z \<Longrightarrow> R y z"
  shows "list_all2 R ys zs"
  using assms
proof (induction xs arbitrary: ys zs)
  case (Cons x xs)
  then obtain y ys' z zs' where yz: "ys = y # ys'" "zs = z # zs'" "f x = Inr y" "g x = Inr z"
    "map_result f xs = Inr ys'" "map_result g xs = Inr zs'"
    by (auto simp: rbind_Inr_iff)
  with Cons.prems(3) have "list_all2 R ys' zs'" by (intro Cons.IH) auto
  with yz Cons.prems(3) [of x y z] show ?case by simp
qed simp

lemma GetSecret_rel:
  assumes "same_secret_keys s s'"
  obtains (absent) e e' where "GetSecret ns name s = Inl e" "GetSecret ns name s' = Inl e'"
  | (present) x y where "GetSecret ns name s = Inr x" "GetSecret ns name s' = Inr y"
      "same_keys (lmap (sec_data x)) (lmap (sec_data y))"
      "same_keys (lmap (sec_stringData x)) (lmap (sec_stringData y))"
proof -
  have "case (GetSecret ns name s, GetSecret ns name s') of
        (Inr a, Inr b) \<Rightarrow> same_keys (lmap (sec_data a)) (lmap (sec_data b)) \<and>
          same_keys (lmap (sec_stringData a)) (lmap (sec_stringData b))
      | (Inl _, Inl _) \<Rightarrow> True
      | _ \<Rightarrow> False"
    using assms by (simp add: same_secret_keys_def)
  then show ?thesis using absent present by (auto split: sum.splits)
qed

lemma secret_key_None:
  "secret_key s ns ref = None \<longleftrightarrow> (case GetSecret ns (kr_name ref) s of Inl _ \<Rightarrow> True
     | Inr sec \<Rightarrow> mget (lmap (sec_data sec)) (kr_key ref) = None \<and>
         mget (lmap (sec_stringData sec)) (kr_key ref) = None)"
  by (auto simp: secret_key_def lget_lmap split: sum.splits option.splits)

lemma secret_key_rel:
  assumes "same_secret_keys s s'"
  shows "secret_key s ns ref = None \<longleftrightarrow> secret_key s' ns ref = None"
  using assms
proof (cases rule: GetSecret_rel [of s s' ns "kr_name ref"])
  case (present x y)
  then show ?thesis using same_keys_get [of _ _ "kr_key ref"] by (simp add: secret_key_None)
qed (simp add: secret_key_None)

text \<open>Variables that differ at most in their values, and then carry a secret name.\<close>

definition alike :: "string list \<Rightarrow> env_var \<Rightarrow> env_var \<Rightarrow> bool" where
  "alike secrets e e' \<longleftrightarrow> env_name e = env_name e' \<and> (e = e' \<or> env_name e \<in> set secrets)"

lemma resolve_secret_ref_rel:
  assumes "same_secret_keys s s'"
    and "resolve_secret_ref s ns src e = Inr (y, b)" "resolve_secret_ref s' ns src e = Inr (y', b')"
  shows "b = b' \<and> env_name y = env_name e \<and> env_name y' = env_name e \<and> (\<not> b \<longrightarrow> y = y')"
proof (cases "es_secretKeyRef src")
  case (Some ref)
  show ?thesis
  proof (cases "secret_key s ns ref")
    case None
    then have "secret_key s' ns ref = None" using secret_key_rel [OF assms(1)] by blast
    with None Some assms(2,3) show ?thesis by (auto simp: resolve_secret_ref_def split: if_splits)
  next
    case (Some v)
    then obtain v' where "secret_key s' ns ref = Some v'" using secret_key_rel [OF assms(1), of ns ref] by fastforce
    with Some \<open>es_secretKeyRef src = Some ref\<close> assms(2,3) show ?thesis by (auto simp: resolve_secret_ref_def)
  qed
qed (use assms(2,3) in \<open>auto simp: resolve_secret_ref_def\<close>)

lemma GetConfigMap_rel: "same_secret_keys s s' \<Longrightarrow> GetConfigMap ns name s = GetConfigMap ns name s'"
  by (simp add: same_secret_keys_def GetConfigMap_def)

lemma resolve_var_rel:
  assumes "same_secret_keys s s'" "resolve_var s ns e = Inr (y, b)" "resolve_var s' ns e = Inr (y', b')"
  shows "b = b' \<and> env_name y = env_name y' \<and> (\<not> b \<longrightarrow> y = y')"
proof -
  have cm: "config_key s' ns = config_key s ns"
    using GetConfigMap_rel [OF assms(1)] by (simp add: config_key_def fun_eq_iff)
  note ref = resolve_secret_ref_rel [OF assms(1), of ns]
  show ?thesis
  proof (cases "env_valueFrom e")
    case (Some src)
    show ?thesis
    proof (cases "es_configMapKeyRef src")
      case None
      with Some assms(2,3) show ?thesis
        using ref [of src e y b y' b'] by (simp add: resolve_var_def)
    next
      case (Some r)
      with \<open>env_valueFrom e = Some src\<close> assms(2,3) show ?thesis
        using ref [of src _ y b y' b']
        by (cases "config_key s ns r") (fastforce simp: resolve_var_def cm split: if_splits)+
    qed
  qed (use assms(2,3) in \<open>simp add: resolve_var_def\<close>)
qed

lemma import_secret_rel:
  assumes "same_secret_keys s s'" "import_secret s ns ef = Inr y" "import_secret s' ns ef = Inr y'"
  shows "map env_name y = map env_name y'"
proof (cases "ef_secretRef ef")
  case (Some r)
  obtain name opt where r: "r = (name, opt)" by fastforce
  show ?thesis
    using assms(1)
  proof (cases rule: GetSecret_rel [of s s' ns name])
    case absent
    with assms(2,3) Some r show ?thesis by (simp add: import_secret_def split: if_splits)
  next
    case (present x x')
    with assms(2,3) Some r imported_names show ?thesis by (auto simp: import_secret_def)
  qed
qed (use assms in \<open>simp add: import_secret_def\<close>)

lemma import_env_rel:
  assumes "same_secret_keys s s'" "import_env s ns ef = Inr y" "import_env s' ns ef = Inr y'"
  shows "fst y = fst y' \<and> map env_name (snd y) = map env_name (snd y')"
  using assms(2,3) import_secret_rel [OF assms(1)] GetConfigMap_rel [OF assms(1)]
  by (auto simp: import_env_def rbind_Inr_iff split: option.splits sum.splits if_splits)

text \<open>Two results of resolving a container: the same secret names, and variables alike.\<close>

definition alike_result :: "container \<times> string list \<Rightarrow> container \<times> string list \<Rightarrow> bool" where
  "alike_result r r' \<longleftrightarrow> snd r = snd r' \<and> (fst r)\<lparr>c_env := []\<rparr> = (fst r')\<lparr>c_env := []\<rparr> \<and>
     list_all2 (alike (snd r)) (c_env (fst r)) (c_env (fst r'))"

definition rel_var :: "env_var \<times> bool \<Rightarrow> env_var \<times> bool \<Rightarrow> bool" where
  "rel_var x y \<longleftrightarrow> snd x = snd y \<and> env_name (fst x) = env_name (fst y) \<and> (\<not> snd x \<longrightarrow> fst x = fst y)"

definition rel_import :: "env_var list \<times> env_var list \<Rightarrow> env_var list \<times> env_var list \<Rightarrow> bool" where
  "rel_import x y \<longleftrightarrow> fst x = fst y \<and> map env_name (snd x) = map env_name (snd y)"

lemma alike_mono: "alike ns e e' \<Longrightarrow> set ns \<subseteq> set ns' \<Longrightarrow> alike ns' e e'"
  by (auto simp: alike_def)

lemma rel_vars_names:
  "list_all2 rel_var xs ys \<Longrightarrow> map (env_name \<circ> fst) (filter snd xs) = map (env_name \<circ> fst) (filter snd ys)"
  by (induction rule: list_all2_induct) (auto simp: rel_var_def)

lemma rel_vars_alike:
  "list_all2 rel_var xs ys \<Longrightarrow> set (map (env_name \<circ> fst) (filter snd xs)) \<subseteq> set ns \<Longrightarrow>
    list_all2 (alike ns) (map fst xs) (map fst ys)"
  by (induction rule: list_all2_induct) (auto simp: rel_var_def alike_def split: if_splits)

lemma rel_imports_names:
  "list_all2 rel_import xs ys \<Longrightarrow> map env_name (concat (map snd xs)) = map env_name (concat (map snd ys))"
  by (induction rule: list_all2_induct) (auto simp: rel_import_def)

lemma same_names_alike:
  "map env_name xs = map env_name ys \<Longrightarrow> set (map env_name xs) \<subseteq> set ns \<Longrightarrow> list_all2 (alike ns) xs ys"
proof (induction xs arbitrary: ys)
  case (Cons x xs)
  then show ?case by (cases ys) (auto simp: alike_def)
qed simp

lemma alike_refl: "list_all2 (alike ns) xs xs"
  by (simp add: list_all2_same alike_def)

lemma rel_imports_alike:
  "list_all2 rel_import xs ys \<Longrightarrow> set (map env_name (concat (map snd xs))) \<subseteq> set ns \<Longrightarrow>
    list_all2 (alike ns) (concat (map (\<lambda>(cs, ss). cs @ ss) xs)) (concat (map (\<lambda>(cs, ss). cs @ ss) ys))"
proof (induction rule: list_all2_induct)
  case (Cons x xs y ys)
  have "list_all2 (alike ns) (snd x) (snd y)"
    using Cons.hyps(1) Cons.prems by (intro same_names_alike) (auto simp: rel_import_def)
  with Cons show ?case
    by (auto simp: rel_import_def case_prod_beta intro!: list_all2_appendI alike_refl)
qed simp

lemma resolve_container_rel:
  assumes "same_secret_keys s s'" "resolve_container s ns c = Inr r" "resolve_container s' ns c = Inr r'"
  shows "alike_result r r'"
proof -
  obtain vars imps where 1: "map_result (resolve_var s ns) (c_env c) = Inr vars"
      "map_result (import_env s ns) (c_envFrom c) = Inr imps"
      "r = (c\<lparr>c_env := map fst vars @ concat (map (\<lambda>(cs, ss). cs @ ss) imps), c_envFrom := []\<rparr>,
            map (env_name \<circ> fst) (filter snd vars) @ map env_name (concat (map snd imps)))"
    using assms(2) unfolding resolve_container_def rbind_Inr_iff by blast
  obtain vars' imps' where 2: "map_result (resolve_var s' ns) (c_env c) = Inr vars'"
      "map_result (import_env s' ns) (c_envFrom c) = Inr imps'"
      "r' = (c\<lparr>c_env := map fst vars' @ concat (map (\<lambda>(cs, ss). cs @ ss) imps'), c_envFrom := []\<rparr>,
            map (env_name \<circ> fst) (filter snd vars') @ map env_name (concat (map snd imps')))"
    using assms(3) unfolding resolve_container_def rbind_Inr_iff by blast
  have v: "list_all2 rel_var vars vars'"
    using 1(1) 2(1) by (rule map_result_rel) (auto simp: rel_var_def dest: resolve_var_rel [OF assms(1)])
  have i: "list_all2 rel_import imps imps'"
    using 1(2) 2(2) by (rule map_result_rel) (use import_env_rel [OF assms(1)] in \<open>simp add: rel_import_def\<close>)
  show ?thesis
    using rel_vars_names [OF v] rel_imports_names [OF i]
    by (auto simp: alike_result_def 1(3) 2(3) intro!: list_all2_appendI rel_vars_alike [OF v] rel_imports_alike [OF i])
qed

lemma resolveContainerEnv_rel:
  assumes "same_secret_keys s s'"
    and "resolveContainerEnv s ns cs = Inr (cs1, ns1)" "resolveContainerEnv s' ns cs = Inr (cs2, ns2)"
  shows "ns1 = ns2 \<and> list_all2 (\<lambda>c c'. c\<lparr>c_env := []\<rparr> = c'\<lparr>c_env := []\<rparr> \<and>
    list_all2 (alike ns1) (c_env c) (c_env c')) cs1 cs2"
proof -
  obtain rs where 1: "map_result (resolve_container s ns) cs = Inr rs" "cs1 = map fst rs" "ns1 = concat (map snd rs)"
    using assms(2) by (auto simp: resolveContainerEnv_def rbind_Inr_iff)
  obtain rs' where 2: "map_result (resolve_container s' ns) cs = Inr rs'" "cs2 = map fst rs'" "ns2 = concat (map snd rs')"
    using assms(3) by (auto simp: resolveContainerEnv_def rbind_Inr_iff)
  have rel: "list_all2 alike_result rs rs'"
    using 1(1) 2(1) by (rule map_result_rel) (use resolve_container_rel [OF assms(1)] in blast)
  have names: "concat (map snd rs) = concat (map snd rs')"
    using rel by (induction rule: list_all2_induct) (auto simp: alike_result_def)
  have "list_all2 (\<lambda>c c'. c\<lparr>c_env := []\<rparr> = c'\<lparr>c_env := []\<rparr> \<and> list_all2 (alike ns') (c_env c) (c_env c'))
      (map fst rs) (map fst rs')" if "set (concat (map snd rs)) \<subseteq> set ns'" for ns'
    using rel that
  proof (induction rule: list_all2_induct)
    case (Cons r rs r' rs')
    then show ?case
      by (auto simp: alike_result_def elim!: list_all2_mono alike_mono)
  qed simp
  with names 1 2 show ?thesis by simp
qed

text \<open>What a successful run of \<open>writeEnvFile\<close> returns.\<close>

definition env_result ::
  "server \<Rightarrow> string \<Rightarrow> string \<Rightarrow> container list \<Rightarrow> string list \<Rightarrow> container list \<times> string" where
  "env_result sv ns name cs secrets =
     (if length cs = 0 \<or> length secrets = 0 then (cs, [])
      else (map (\<lambda>c. c\<lparr>c_env := filter (\<lambda>ev. env_name ev \<notin> set secrets) (c_env c)\<rparr>) cs,
        if filter (\<lambda>ev. env_name ev \<in> set secrets) (concat (map c_env cs)) = [] then []
        else PathJoin [env_dir sv ns, name @ ''.env'']))"

lemma entries_empty:
  assumes "map_result env_file_entry xs = Inr entries"
  shows "concat entries = [] \<longleftrightarrow> xs = []"
proof (cases xs)
  case (Cons x xs')
  then obtain e es where "entries = e # es" "env_file_entry x = Inr e"
    using assms by (auto simp: rbind_Inr_iff)
  then show ?thesis using Cons by (auto simp: env_file_entry_def ln_def split: if_splits)
qed (use assms in simp)

lemma writeEnvFile_result:
  assumes "writeEnvFile sv ns name cs secrets w = (Inr r, w')"
  shows "r = env_result sv ns name cs secrets"
proof (cases "length cs = 0 \<or> length secrets = 0")
  case True
  then show ?thesis using assms by (auto simp: writeEnvFile_def env_result_def)
next
  case False
  then obtain entries where
    "map_result env_file_entry (filter (\<lambda>ev. env_name ev \<in> set secrets) (concat (map c_env cs))) = Inr entries"
    using assms unfolding writeEnvFile_def
    by (cases "map_result env_file_entry (filter (\<lambda>ev. env_name ev \<in> set secrets) (concat (map c_env cs)))") auto
  with False assms entries_empty [OF this] show ?thesis
    by (auto simp: writeEnvFile_def env_result_def Let_def case_prod_beta split: if_splits)
qed

lemma alike_filter:
  "list_all2 (alike ns) xs ys \<Longrightarrow>
    filter (\<lambda>e. env_name e \<notin> set ns) xs = filter (\<lambda>e. env_name e \<notin> set ns) ys \<and>
    map env_name (filter (\<lambda>e. env_name e \<in> set ns) xs) = map env_name (filter (\<lambda>e. env_name e \<in> set ns) ys)"
  by (induction rule: list_all2_induct) (auto simp: alike_def)

lemma alike_nil: "list_all2 (alike []) xs ys \<Longrightarrow> xs = ys"
  by (induction rule: list_all2_induct) (auto simp: alike_def)

lemma same_but_env:
  fixes c c' :: container
  shows "c\<lparr>c_env := []\<rparr> = c'\<lparr>c_env := []\<rparr> \<Longrightarrow> c\<lparr>c_env := xs\<rparr> = c'\<lparr>c_env := xs\<rparr>"
  by (cases c; cases c') simp

lemma same_container:
  fixes c c' :: container
  shows "c\<lparr>c_env := []\<rparr> = c'\<lparr>c_env := []\<rparr> \<Longrightarrow> c_env c = c_env c' \<Longrightarrow> c = c'"
  by (cases c; cases c') simp

lemma env_result_rel:
  assumes "list_all2 (\<lambda>c c'. c\<lparr>c_env := []\<rparr> = c'\<lparr>c_env := []\<rparr> \<and> list_all2 (alike secrets) (c_env c) (c_env c')) cs cs'"
  shows "env_result sv ns name cs secrets = env_result sv ns name cs' secrets"
proof -
  let ?keep = "\<lambda>c. c\<lparr>c_env := filter (\<lambda>ev. env_name ev \<notin> set secrets) (c_env c)\<rparr>"
  let ?hidden = "\<lambda>cs. map env_name (filter (\<lambda>ev. env_name ev \<in> set secrets) (concat (map c_env cs)))"
  have "map ?keep cs = map ?keep cs' \<and> ?hidden cs = ?hidden cs'"
    using assms
  proof (induction rule: list_all2_induct)
    case (Cons c cs c' cs')
    have "filter (\<lambda>ev. env_name ev \<notin> set secrets) (c_env c) = filter (\<lambda>ev. env_name ev \<notin> set secrets) (c_env c')"
      and "map env_name (filter (\<lambda>ev. env_name ev \<in> set secrets) (c_env c))
        = map env_name (filter (\<lambda>ev. env_name ev \<in> set secrets) (c_env c'))"
      using alike_filter [OF conjunct2 [OF Cons.hyps(1)]] by simp_all
    with Cons.IH same_but_env [OF conjunct1 [OF Cons.hyps(1)]] show ?case by simp
  qed simp
  then have kept: "map ?keep cs = map ?keep cs'" and hidden: "?hidden cs = ?hidden cs'" by blast+
  have "cs = cs'" if "secrets = []"
    using assms
  proof (induction rule: list_all2_induct)
    case (Cons c cs c' cs')
    then have "c_env c = c_env c'" using alike_nil that by blast
    with Cons same_container [of c c'] show ?case by blast
  qed simp
  moreover have "cs = [] \<longleftrightarrow> cs' = []" using list_all2_lengthD [OF assms] by auto
  moreover have "filter (\<lambda>ev. env_name ev \<in> set secrets) (concat (map c_env cs)) = [] \<longleftrightarrow>
      filter (\<lambda>ev. env_name ev \<in> set secrets) (concat (map c_env cs')) = []"
    using arg_cong [OF hidden, of length] by (simp only: length_map length_0_conv [symmetric])
  ultimately show ?thesis
    unfolding env_result_def kept by (cases "secrets = []") simp_all
qed

text \<open>
  C22: The pod that is rendered into unit files, and the path of its environment file, do not
  depend on the value of any secret: from two stores with the same config maps and the same
  keys of secrets, resolving a pod's references gives the same pod whenever it succeeds.
\<close>

theorem units_independent_of_secret_values:
  assumes "same_secret_keys (w_store w1) (w_store w2)"
    and "resolveEnvFrom sv p w1 = (Inr r1, w1')" "resolveEnvFrom sv p w2 = (Inr r2, w2')"
  shows "r1 = r2"
proof -
  let ?ns = "o_namespace p" and ?name = "o_name p" and ?cs = "ps_containers (pod_spec p)"
  obtain cs1 n1 x1 v1 where 1: "resolveContainerEnv (w_store w1) ?ns ?cs = Inr (cs1, n1)"
      "writeEnvFile sv ?ns ?name cs1 n1 w1 = (Inr x1, v1)"
      "r1 = (p\<lparr>pod_spec := (pod_spec p)\<lparr>ps_containers := fst x1\<rparr>\<rparr>, snd x1)"
    using assms(2) unfolding resolveEnvFrom_def resolve_env_def
    by (auto simp: Let_def case_prod_beta rbind_Inr_iff prod_eq_iff split: sum.splits)
  obtain cs2 n2 x2 v2 where 2: "resolveContainerEnv (w_store w2) ?ns ?cs = Inr (cs2, n2)"
      "writeEnvFile sv ?ns ?name cs2 n2 w2 = (Inr x2, v2)"
      "r2 = (p\<lparr>pod_spec := (pod_spec p)\<lparr>ps_containers := fst x2\<rparr>\<rparr>, snd x2)"
    using assms(3) unfolding resolveEnvFrom_def resolve_env_def
    by (auto simp: Let_def case_prod_beta rbind_Inr_iff prod_eq_iff split: sum.splits)
  note rel = resolveContainerEnv_rel [OF assms(1) 1(1) 2(1)]
  have "x1 = env_result sv ?ns ?name cs1 n1" "x2 = env_result sv ?ns ?name cs2 n2"
    using writeEnvFile_result 1(2) 2(2) by blast+
  then have "x1 = x2" using env_result_rel [OF conjunct2 [OF rel]] conjunct1 [OF rel] by simp
  with 1(3) 2(3) show ?thesis by simp
qed

definition secret_pod :: pod where
  "secret_pod = demo_pod\<lparr>o_meta := (demo_meta ''a'')\<lparr>om_namespace := ''n''\<rparr>, pod_spec := demo_spec\<lparr>ps_containers :=
     [demo_container\<lparr>c_envFrom :=
        [\<lparr>ef_prefix = ''X_'', ef_configMapRef = None, ef_secretRef = Some (''s'', None)\<rparr>]\<rparr>]\<rparr>\<rparr>"

definition rotated_world :: world where
  "rotated_world = snd (secretPost demo_server ''n'' (Inr (demo_secret [(''b'', ''8''), (''a'', ''9'')])) demo_world)"

lemma rotated_keys: "same_secret_keys (w_store secret_world) (w_store rotated_world)"
proof -
  have k: "map fst (s_secrets (w_store secret_world)) = [(''n'', ''s'')]"
      "map fst (s_secrets (w_store rotated_world)) = [(''n'', ''s'')]"
    and cm: "s_configmaps (w_store secret_world) = [] \<and> s_configmaps (w_store rotated_world) = []"
    by code_simp+
  then have n: "s_configmaps (w_store secret_world) = s_configmaps (w_store rotated_world)" by simp
  have here: "case (GetSecret ''n'' ''s'' (w_store secret_world), GetSecret ''n'' ''s'' (w_store rotated_world)) of
      (Inr a, Inr b) \<Rightarrow> same_keys (lmap (sec_data a)) (lmap (sec_data b)) \<and>
          same_keys (lmap (sec_stringData a)) (lmap (sec_stringData b))
      | (Inl _, Inl _) \<Rightarrow> True
      | _ \<Rightarrow> False"
    by code_simp
  have "case (GetSecret ns name (w_store secret_world), GetSecret ns name (w_store rotated_world)) of
      (Inr a, Inr b) \<Rightarrow> same_keys (lmap (sec_data a)) (lmap (sec_data b)) \<and>
          same_keys (lmap (sec_stringData a)) (lmap (sec_stringData b))
      | (Inl _, Inl _) \<Rightarrow> True
      | _ \<Rightarrow> False" for ns name
  proof (cases "(ns, name) = (''n'', ''s'')")
    case False
    then have "mget (s_secrets (w_store secret_world)) (ns, name) = None"
        "mget (s_secrets (w_store rotated_world)) (ns, name) = None"
      using k in_keys [of "(ns, name)"] by (metis empty_iff empty_set set_ConsD)+
    then show ?thesis by (simp add: GetSecret_def)
  qed (use here in simp)
  with n show ?thesis by (simp add: same_secret_keys_def)
qed

theorem units_independent_of_secret_values_witness:
  "\<exists>r. fst (resolveEnvFrom demo_server secret_pod secret_world) = Inr r \<and>
     fst (resolveEnvFrom demo_server secret_pod rotated_world) = Inr r"
proof -
  have "isOk (fst (resolveEnvFrom demo_server secret_pod secret_world))"
      "isOk (fst (resolveEnvFrom demo_server secret_pod rotated_world))"
    by code_simp+
  then obtain r1 r2 where "resolveEnvFrom demo_server secret_pod secret_world =
        (Inr r1, snd (resolveEnvFrom demo_server secret_pod secret_world))"
      "resolveEnvFrom demo_server secret_pod rotated_world =
        (Inr r2, snd (resolveEnvFrom demo_server secret_pod rotated_world))"
    by (metis isOk_iff prod.collapse)
  with units_independent_of_secret_values [OF rotated_keys this] show ?thesis by (metis fst_conv)
qed

end
