(* ===== verification/RolloutProperties.thy ===== *)
theory RolloutProperties
  imports ReconcileSettle SecretProperties
begin

text \<open>
  What an accepted change of a deployment or a service does on the host: scaling down only takes
  away, and node ports stay in their range.
\<close>

declare split_paired_All [simp del] split_paired_Ex [simp del]

section \<open>Steps that only take away\<close>

text \<open>No file is written but in the directory of Traefik, and no unit is started.\<close>

fun removing :: "server \<Rightarrow> io \<Rightarrow> bool" where
  "removing sv (WriteFile d _ _) = (d = sv_TraefikDir sv)"
| "removing sv (RenameFile d _ _) = (d = sv_TraefikDir sv)"
| "removing sv (StartUnit _) = False"
| "removing sv (RestartUnit _) = False"
| "removing sv (EnableUnit _) = False"
| "removing sv _ = True"

definition takes_away :: "server \<Rightarrow> world \<Rightarrow> world \<Rightarrow> bool" where
  "takes_away sv w w' \<longleftrightarrow> (\<exists>ops. w_log w' = ops @ w_log w \<and> list_all (removing sv) ops) \<and>
     (\<forall>k c. fst k \<noteq> sv_TraefikDir sv \<and> mget (w_files w') k = Some c \<longrightarrow> mget (w_files w) k = Some c) \<and>
     s_deployments (w_store w') = s_deployments (w_store w)"

named_theorems away \<open>which steps only take away\<close>

lemma takes_away_refl [away]: "takes_away sv w w"
  by (auto simp: takes_away_def intro: exI [of _ "[]"])

lemma takes_away_trans: "takes_away sv w w1 \<Longrightarrow> takes_away sv w1 w2 \<Longrightarrow> takes_away sv w w2"
  unfolding takes_away_def by (elim conjE exE, intro conjI) (auto simp: list_all_append)

lemma removing_effect:
  "removing sv op \<Longrightarrow> fst k \<noteq> sv_TraefikDir sv \<Longrightarrow> mget (io_effect op r fs) k = Some c \<Longrightarrow> mget fs k = Some c"
  by (cases op; cases r; cases k) (auto simp: mget_mput mget_mdel mget_mdrop split: option.splits if_splits)

lemma takes_away_perform [away]: "removing sv op \<Longrightarrow> takes_away sv w (snd (perform sv op w))"
  unfolding takes_away_def
  by (intro conjI exI [of _ "[op]"]) (auto simp: perform_def Let_def dest: removing_effect)

lemma takes_away_act [away]: "removing sv op \<Longrightarrow> takes_away sv w (act sv op w)"
  by (simp add: act_def takes_away_perform)

lemma takes_away_manage [away]: "removing sv op \<Longrightarrow> takes_away sv w (manage sv op w)"
  by (simp add: manage_def takes_away_act takes_away_refl)

lemma takes_away_on_store [away]:
  "s_deployments (f (w_store w)) = s_deployments (w_store w) \<Longrightarrow> takes_away sv w (on_store f w)"
  by (auto simp: takes_away_def intro: exI [of _ "[]"])

lemma takes_away_fold:
  "(\<And>x w. x \<in> set xs \<Longrightarrow> takes_away sv w (f x w)) \<Longrightarrow> takes_away sv w (fold f xs w)"
  by (induction xs arbitrary: w) (auto intro: takes_away_refl takes_away_trans)

lemma takes_away_reloadAfterRemove [away]: "takes_away sv w (reloadAfterRemove sv paths w)"
  unfolding reloadAfterRemove_def
  by (rule takes_away_trans [OF takes_away_fold takes_away_manage]) (auto intro: away)

lemma takes_away_stopPodByName [away]: "takes_away sv w (stopPodByName sv ns name cs w)"
  unfolding stopPodByName_def stopAndRemoveUnit_def Let_def
  by (auto intro!: takes_away_trans [OF _ takes_away_act] takes_away_trans [OF takes_away_fold takes_away_manage]
      takes_away_manage)

lemma takes_away_remove_socket:
  assumes "\<forall>n. list_all (removing sv) (before n)"
  shows "takes_away sv (snd rw) (snd (remove_socket sv before dir ns p keep name rw))"
proof -
  have "takes_away sv w (fold (manage sv) (before name) w)" for w
    using assms by (intro takes_away_fold takes_away_manage) (auto simp: list_all_iff)
  then have "takes_away sv w (snd (perform sv (RemoveFile dir name) (fold (manage sv) (before name) w)))" for w
    by (rule takes_away_trans) (simp add: takes_away_perform)
  then show ?thesis
    by (auto simp: remove_socket_def Let_def case_prod_beta takes_away_refl split: option.split)
qed

lemma takes_away_remove_sockets:
  "\<forall>n. list_all (removing sv) (before n) \<Longrightarrow>
    takes_away sv (snd rw) (snd (fold (remove_socket sv before dir ns p keep) names rw))"
proof (induction names arbitrary: rw)
  case (Cons n names)
  show ?case
    using takes_away_trans [OF takes_away_remove_socket [OF Cons.prems] Cons.IH [OF Cons.prems]] by simp
qed (simp add: takes_away_refl)

lemma takes_away_removePodSockets [away]: "takes_away sv w (removePodSockets sv ns p w)"
proof -
  have "takes_away sv w (snd (fold (remove_socket sv (\<lambda>n. [StopUnit n, DisableUnit n]) dir ns p []) names (False, w)))"
    for dir names
    using takes_away_remove_sockets [of sv "\<lambda>n. [StopUnit n, DisableUnit n]" "(False, w)"] by simp
  then show ?thesis
    by (auto simp: removePodSockets_def case_prod_beta Let_def takes_away_refl
        intro: takes_away_trans [OF _ takes_away_manage])
qed

section \<open>Scaling down\<close>

lemma DeletePod_deployments: "s_deployments (snd (DeletePod now ns name s)) = s_deployments s"
  by (simp add: DeletePod_def Let_def del_pods_def split: option.split)

lemma UpdateDeployment_stored:
  assumes "fst (UpdateDeployment now x s) = Inr d"
  shows "mget (s_deployments (snd (UpdateDeployment now x s))) (o_namespace d, o_name d) = Some d"
proof (cases "mget (s_deployments s) (okey x)")
  case (Some old)
  obtain rv s1 where "incRV s = (rv, s1)" by fastforce
  with assms Some show ?thesis
    by (auto simp: UpdateDeployment_def Let_def mget_mput okey_def stamp_meta keep_ctime_meta)
qed (use assms in \<open>simp add: UpdateDeployment_def Let_def\<close>)

lemma takes_away_scale_down_one [away]: "takes_away sv w (scale_down_one sv d i w)"
  unfolding scale_down_one_def Let_def
  by (rule takes_away_trans [OF takes_away_trans [OF takes_away_trans [OF takes_away_stopPodByName
        takes_away_removePodSockets] takes_away_reloadAfterRemove] takes_away_on_store])
    (simp add: DeletePod_deployments)

lemma takes_away_writeTraefik [away]: "takes_away sv w (writeTraefikConfigFile sv name content w)"
proof -
  let ?d = "sv_TraefikDir sv" and ?tmp = "tmp_name name"
  define w1 where "w1 = snd (perform sv (MkdirAll ?d) w)"
  define w2 where "w2 = snd (perform sv (WriteFile ?d ?tmp content) w1)"
  define w3 where "w3 = snd (perform sv (RenameFile ?d ?tmp name) w2)"
  have 1: "takes_away sv w w1" unfolding w1_def by (rule takes_away_perform) simp
  have 2: "takes_away sv w w2"
    unfolding w2_def by (rule takes_away_trans [OF 1 takes_away_perform]) simp
  have 3: "takes_away sv w w3"
    unfolding w3_def by (rule takes_away_trans [OF 2 takes_away_perform]) simp
  have 4: "takes_away sv w (act sv (RemoveFile ?d ?tmp) w3)"
    by (rule takes_away_trans [OF 3 takes_away_act]) simp
  show ?thesis
    using takes_away_refl 1 2 3 4
    by (simp add: writeTraefikConfigFile_def Let_def case_prod_beta w1_def [symmetric] w2_def [symmetric]
        w3_def [symmetric])
qed

lemma takes_away_regenerate [away]: "takes_away sv w (regenerateIngressConfigs sv ns w)"
proof -
  have g: "takes_away sv w (generateTraefikConfig sv ing w)" "takes_away sv w (generateTCPConfig sv irt w)"
      "takes_away sv w (generateMiddlewareConfig sv mw w)" for ing irt mw w
    using takes_away_refl takes_away_writeTraefik
    by (simp_all add: generateTraefikConfig_def generateTCPConfig_def generateMiddlewareConfig_def
        split: option.split)
  have f: "takes_away sv w (fold (generateTraefikConfig sv) ings w)"
      "takes_away sv w (fold (generateTCPConfig sv) irts w)"
      "takes_away sv w (fold (generateMiddlewareConfig sv) mws w)" for ings irts mws w
    by (simp_all add: takes_away_fold g)
  show ?thesis
    using takes_away_refl takes_away_trans [OF takes_away_trans [OF f(1) f(2)] f(3)]
    by (simp add: regenerateIngressConfigs_def regenerateMiddlewareConfigs_def regenerateTCPConfigs_def)
qed

text \<open>
  An accepted patch that lowers the number of replicas only takes instances away, even when it
  changes the template as well: the new deployment is stored, but outside the directory of Traefik
  every file that is left is an old one with its old content, and no unit is started or restarted.
\<close>

lemma scale_down_rolls_nothing_out:
  assumes "GetDeployment ns name (w_store w) = Inr old"
    and "deploymentPatch sv ns name patch w = (Success n d, w')"
    and "deploymentReplicas d < deploymentReplicas old"
  shows "GetDeployment (o_namespace d) (o_name d) (w_store w') = Inr d \<and>
    (\<forall>k c. fst k \<noteq> sv_TraefikDir sv \<and> mget (w_files w') k = Some c \<longrightarrow> mget (w_files w) k = Some c) \<and>
    (\<exists>ops. w_log w' = ops @ w_log w \<and> list_all (removing sv) ops)"
proof -
  obtain x where up: "fst (UpdateDeployment (sv_now sv) x (w_store w)) = Inr d"
    and w': "w' = roll_out sv ns (deploymentReplicas old) d
      (w\<lparr>w_store := snd (UpdateDeployment (sv_now sv) x (w_store w))\<rparr>)" (is "_ = roll_out _ _ _ _ ?w1")
    using assms(1,2) by (auto simp: deploymentPatch_def check_template_def rbind_laws)
  have "takes_away sv ?w1 w'"
    using assms(3) unfolding w' roll_out_def scaleDeployment_def
    by (auto intro!: takes_away_trans [OF takes_away_fold takes_away_regenerate]
        takes_away_regenerate takes_away_scale_down_one)
  moreover have "GetDeployment (o_namespace d) (o_name d) (w_store ?w1) = Inr d"
    using UpdateDeployment_stored [OF up] by (simp add: GetDeployment_def)
  ultimately show ?thesis
    unfolding takes_away_def GetDeployment_def by auto
qed

definition demo_deployment :: "int \<Rightarrow> string \<Rightarrow> deployment" where
  "demo_deployment replicas img =
     \<lparr>o_apiVersion = ''apps/v1'', o_kind = ''Deployment'', o_meta = (demo_meta ''d'')\<lparr>om_namespace := ''n''\<rparr>,
      dep_spec = \<lparr>ds_replicas = Some replicas, ds_selector = [],
        ds_template = \<lparr>pt_labels = None, pt_annotations = None,
          pt_spec = demo_spec\<lparr>ps_containers := [demo_container\<lparr>c_image := img\<rparr>]\<rparr>\<rparr>, ds_rest = []\<rparr>,
      dep_status = \<lparr>dst_replicas = 0, dst_readyReplicas = 0, dst_availableReplicas = 0,
        dst_updatedReplicas = 0, dst_observedGeneration = 0\<rparr>\<rparr>"

definition deployed_world :: world where
  "deployed_world = demo_world\<lparr>w_store := snd (CreateDeployment 0 (demo_deployment 2 ''i'') NewStore),
     w_files := [((''q'', ''n-d-0.container''), ''old''), ((''q'', ''n-d-1.container''), ''old'')]\<rparr>"

definition scaled_down :: "deployment response \<times> world" where
  "scaled_down = deploymentPatch demo_server ''n'' ''d'' (\<lambda>_. Inr (demo_deployment 1 ''new'')) deployed_world"

lemma scale_down_rolls_nothing_out_witness:
  "\<exists>d. fst scaled_down = Success 200 d \<and> map c_image (ps_containers (template_spec d)) = [''new''] \<and>
    GetDeployment (o_namespace d) (o_name d) (w_store (snd scaled_down)) = Inr d \<and>
    (\<forall>k c. fst k \<noteq> sv_TraefikDir demo_server \<and> mget (w_files (snd scaled_down)) k = Some c \<longrightarrow>
      mget (w_files deployed_world) k = Some c) \<and>
    (\<exists>ops. w_log (snd scaled_down) = ops @ w_log deployed_world \<and> list_all (removing demo_server) ops)"
proof -
  have "case fst scaled_down of Success n d \<Rightarrow> n = 200 \<and> deploymentReplicas d = 1 \<and>
      map c_image (ps_containers (template_spec d)) = [''new''] | Failure _ _ \<Rightarrow> False"
    by code_simp
  then obtain d where d: "fst scaled_down = Success 200 d" "deploymentReplicas d = 1"
      "map c_image (ps_containers (template_spec d)) = [''new'']"
    by (auto split: response.splits)
  have "case GetDeployment ''n'' ''d'' (w_store deployed_world) of
      Inr old \<Rightarrow> deploymentReplicas old = 2 | Inl _ \<Rightarrow> False"
    by code_simp
  then obtain old where old: "GetDeployment ''n'' ''d'' (w_store deployed_world) = Inr old" "deploymentReplicas old = 2"
    by (auto split: sum.splits)
  have "deploymentPatch demo_server ''n'' ''d'' (\<lambda>_. Inr (demo_deployment 1 ''new'')) deployed_world
      = (Success 200 d, snd scaled_down)"
    using d(1) unfolding scaled_down_def by (metis prod.collapse)
  from scale_down_rolls_nothing_out [OF old(1) this] d old(2) show ?thesis by simp
qed

section \<open>Node ports\<close>

lemma in_use_iff: "alloc_from in_use p = q \<Longrightarrow> q \<noteq> 0 \<Longrightarrow>
    p \<le> q \<and> q \<le> NodePortMax \<and> \<not> in_use q \<and> (\<forall>r. p \<le> r \<and> r < q \<longrightarrow> in_use r)"
  using alloc_from_spec by blast

text \<open>What a port of a service becomes.\<close>

definition assigned :: "nsname \<Rightarrow> store \<Rightarrow> service_port \<Rightarrow> service_port \<Rightarrow> bool" where
  "assigned key s p q \<longleftrightarrow>
     30000 \<le> sp_nodePort q \<and> sp_nodePort q \<le> 32767 \<and> \<not> nodePortInUse (sp_nodePort q) key s \<and>
     q = p\<lparr>sp_nodePort := sp_nodePort q\<rparr> \<and>
     (if sp_nodePort p \<noteq> 0 then sp_nodePort q = sp_nodePort p
      else \<forall>r. 30000 \<le> r \<and> r < sp_nodePort q \<longrightarrow> nodePortInUse r key s)"

lemma assign_port_assigned:
  assumes "assign_port key s p = Inr q"
  shows "assigned key s p q"
proof (cases "sp_nodePort p = 0")
  case True
  let ?a = "AllocateNodePort key s"
  have q: "?a \<noteq> 0" "q = p\<lparr>sp_nodePort := ?a\<rparr>"
    using assms True by (auto simp: assign_port_def Let_def split: if_splits)
  have "alloc_from (\<lambda>r. nodePortInUse r key s) NodePortMin = ?a" by (simp add: AllocateNodePort_def)
  from in_use_iff [OF this q(1)] q(2) True show ?thesis
    by (simp add: assigned_def NodePortMin_def NodePortMax_def)
next
  case False
  with assms show ?thesis
    by (auto simp: assign_port_def assigned_def NodePortAvailable_def NodePortMin_def NodePortMax_def
        split: if_splits)
qed

lemma assigned_alike:
  "assigned key s p q \<Longrightarrow> assigned key s p' q' \<Longrightarrow> sp_nodePort p = 0 \<Longrightarrow> sp_nodePort p' = 0 \<Longrightarrow>
    sp_nodePort q = sp_nodePort q'"
  unfolding assigned_def by (metis linorder_neqE_linordered_idom)

text \<open>
  C37: When node ports are assigned to a NodePort service, every port gets a number within 30000
  and 32767 that no other stored service and no stored pod uses; a number the client chose is kept, one it
  left open is the least free one.  So all that were left open get the same number.
\<close>

theorem node_ports_in_range:
  assumes "svc_type svc = NodePortType" "assignNodePorts s svc = Inr svc'"
  shows "svc' = svc\<lparr>svc_ports := svc_ports svc'\<rparr> \<and>
    list_all2 (assigned (okey svc) s) (svc_ports svc) (svc_ports svc') \<and>
    (\<forall>i < length (svc_ports svc). \<forall>j < length (svc_ports svc).
      sp_nodePort (svc_ports svc ! i) = 0 \<and> sp_nodePort (svc_ports svc ! j) = 0 \<longrightarrow>
      sp_nodePort (svc_ports svc' ! i) = sp_nodePort (svc_ports svc' ! j))"
proof -
  obtain qs where qs: "map_result (assign_port (okey svc) s) (svc_ports svc) = Inr qs" "svc' = svc\<lparr>svc_ports := qs\<rparr>"
    using assms by (auto simp: assignNodePorts_def rbind_Inr_iff)
  have all: "list_all2 (assigned (okey svc) s) (svc_ports svc) qs"
    using qs(1) unfolding map_result_Inr by (rule list_all2_mono) (rule assign_port_assigned)
  have ports: "svc_ports svc' = qs" by (simp add: qs(2))
  show ?thesis
    unfolding ports
  proof (intro conjI allI impI)
    show "svc' = svc\<lparr>svc_ports := qs\<rparr>" by (rule qs(2))
    show "list_all2 (assigned (okey svc) s) (svc_ports svc) qs" by (rule all)
    fix i j
    assume "i < length (svc_ports svc)" "j < length (svc_ports svc)"
      "sp_nodePort (svc_ports svc ! i) = 0 \<and> sp_nodePort (svc_ports svc ! j) = 0"
    then show "sp_nodePort (qs ! i) = sp_nodePort (qs ! j)"
      using assigned_alike [OF list_all2_nthD [OF all] list_all2_nthD [OF all]] by blast
  qed
qed

definition demo_service :: service where
  "demo_service =
     \<lparr>o_apiVersion = ''v1'', o_kind = ''Service'', o_meta = (demo_meta ''s'')\<lparr>om_namespace := ''n''\<rparr>,
      svc_type = NodePortType, svc_clusterIP = [], svc_clusterIPs = [], svc_selector = [],
      svc_ports = map (\<lambda>n. \<lparr>sp_name = [], sp_protocol = ''TCP'', sp_port = 80, sp_targetPort = IntPort 80,
        sp_nodePort = n\<rparr>) [0, 30005, 0], svc_rest = []\<rparr>"

theorem node_ports_in_range_witness:
  "\<exists>svc'. assignNodePorts NewStore demo_service = Inr svc' \<and>
     map sp_nodePort (svc_ports svc') = [30000, 30005, 30000] \<and>
     list_all2 (assigned (okey demo_service) NewStore) (svc_ports demo_service) (svc_ports svc')"
proof -
  have free: "\<not> nodePortInUse port key NewStore" for port key
  proof -
    have "s_services NewStore = [] \<and> s_pods NewStore = []" by code_simp
    then show ?thesis by (simp add: nodePortInUse_def)
  qed
  have "AllocateNodePort key NewStore = 30000" for key
    by (simp add: AllocateNodePort_def NodePortMin_def NodePortMax_def alloc_from.simps free)
  then have "case assignNodePorts NewStore demo_service of
      Inr svc' \<Rightarrow> map sp_nodePort (svc_ports svc') = [30000, 30005, 30000] | Inl _ \<Rightarrow> False"
    by (simp add: assignNodePorts_def demo_service_def assign_port_def NodePortAvailable_def NodePortMin_def
        NodePortMax_def free)
  then obtain svc' where s: "assignNodePorts NewStore demo_service = Inr svc'"
      "map sp_nodePort (svc_ports svc') = [30000, 30005, 30000]"
    by (auto split: sum.splits)
  have "svc_type demo_service = NodePortType" by (simp add: demo_service_def)
  note r = node_ports_in_range [OF this s(1)]
  show ?thesis
    by (intro exI [of _ svc'] conjI s conjunct1 [OF conjunct2 [OF r]])
qed

end
