(* ===== verification/Startup.thy ===== *)
theory Startup
  imports WorkloadHandlers Reconcile
begin

text \<open>
  What a starting server rebuilds from its store (cmdServe of cmd/q8s/main.go, RestoreEnvFiles and
  ReconcileQuadlets of internal/server/handler.go): files of config maps and secrets, environment
  files, networks, missing quadlet files, sockets, ingress configurations, and the pods podman
  knows.
\<close>

section \<open>Config maps and secrets\<close>

definition slash_path :: "string \<Rightarrow> string \<Rightarrow> string \<Rightarrow> string" where
  "slash_path dir ns name = dir @ ''/'' @ ns @ ''/'' @ name"

definition restore_dir :: "server \<Rightarrow> string \<Rightarrow> strmap \<Rightarrow> world \<Rightarrow> world" where
  "restore_dir sv dir m w =
     (let (ok, w1) = perform sv (MkdirAll dir) w in if \<not> ok then w1 else write_keys sv dir m w1)"

definition restoreSecretFiles :: "server \<Rightarrow> string \<Rightarrow> world \<Rightarrow> world" where
  "restoreSecretFiles sv secretDir w =
     (if secretDir = [] then w
      else fold (\<lambda>sec. restore_dir sv (slash_path secretDir (o_namespace sec) (o_name sec)) (lmap (sec_data sec)))
             (AllSecrets (w_store w)) w)"

definition restoreConfigMapFiles :: "server \<Rightarrow> string \<Rightarrow> world \<Rightarrow> world" where
  "restoreConfigMapFiles sv configDir w =
     (if configDir = [] then w
      else fold (\<lambda>cm. restore_dir sv (slash_path configDir (o_namespace cm) (o_name cm)) (cm_data cm))
             (AllConfigMaps (w_store w)) w)"

section \<open>Environment files\<close>

definition restore_deployment_env :: "server \<Rightarrow> deployment \<Rightarrow> world \<Rightarrow> world" where
  "restore_deployment_env sv d w =
     fold (\<lambda>i w. snd (resolveEnvFrom sv (materializeDeploymentInstance (w_store w) d i) w))
       [0..deploymentReplicas d - 1] w"

definition restore_pod_env :: "server \<Rightarrow> pod \<Rightarrow> world \<Rightarrow> world" where
  "restore_pod_env sv p w = (if isDeploymentOwned p then w else snd (resolveEnvFrom sv p w))"

text \<open>The pods are those of the namespace with the empty name, as the code asks for them.\<close>

definition RestoreEnvFiles :: "server \<Rightarrow> world \<Rightarrow> world" where
  "RestoreEnvFiles sv w0 =
     (if secretBaseDir sv = [] then w0
      else
        (let w1 = each_in AllDeployments (restore_deployment_env sv) w0;
             w2 = each_in (PodsIn []) (restore_pod_env sv) w1;
             w3 = each_in AllJobs (\<lambda>j w. snd (resolvedJobEnv sv j w)) w2
         in each_in AllCronJobs (\<lambda>cj w. snd (resolvedCronJobEnv sv cj w)) w3))"

section \<open>Networks\<close>

definition ensure_network_file :: "server \<Rightarrow> string \<Rightarrow> string \<Rightarrow> bool \<times> world \<Rightarrow> bool \<times> world" where
  "ensure_network_file sv quadletDir ns rw =
     (let (needReload, w) = rw in
      if mget (w_files w) (quadletDir, network_file ns) \<noteq> None then rw
      else
        (let (ok, w1) = perform sv (MkdirAll quadletDir) w in
         if \<not> ok then (needReload, w1)
         else
           (let (ok2, w2) = perform sv (WriteFile quadletDir (network_file ns) (NetworkFile ns)) w1
            in (needReload \<or> ok2, w2))))"

definition ensureNamespaceNetworks :: "server \<Rightarrow> string \<Rightarrow> world \<Rightarrow> world" where
  "ensureNamespaceNetworks sv quadletDir w =
     (if quadletDir = [] then w
      else
        (let (needReload, w1) =
               fold (\<lambda>n. ensure_network_file sv quadletDir (o_name n)) (ListNamespaces (w_store w)) (False, w)
         in if needReload then manage sv DaemonReload w1 else w1))"

section \<open>Missing quadlet files\<close>

text \<open>What ReconcileQuadlets collects while it goes through the store.\<close>

record startup =
  su_world :: world
  su_reload :: bool
  su_start :: "string list"
  su_sockets :: "string list"

definition su_on :: "(world \<Rightarrow> world) \<Rightarrow> startup \<Rightarrow> startup" where
  "su_on f st = st\<lparr>su_world := f (su_world st)\<rparr>"

definition missing :: "startup \<Rightarrow> string \<Rightarrow> string \<Rightarrow> bool" where
  "missing st dir name \<longleftrightarrow> mget (w_files (su_world st)) (dir, name) = None"

definition su_write :: "server \<Rightarrow> string \<Rightarrow> string \<Rightarrow> string \<Rightarrow> string \<Rightarrow> startup \<Rightarrow> bool \<times> startup" where
  "su_write sv dir name content u st =
     (let (ok, changed, w1) = writeQuadletFilesTracked sv dir [(name, content)] (su_world st);
          st1 = st\<lparr>su_world := w1\<rparr>
      in if \<not> ok \<or> name \<notin> set changed then (False, st1)
         else (True, st1\<lparr>su_reload := True, su_start := su_start st @ (if u \<noteq> [] then [u] else [])\<rparr>))"

definition su_pod_sockets :: "server \<Rightarrow> pod \<Rightarrow> string \<Rightarrow> startup \<Rightarrow> startup" where
  "su_pod_sockets sv p name st =
     (let ((units, changed), w1) = reconcilePodSockets sv p name (su_world st) in
      st\<lparr>su_world := w1, su_sockets := su_sockets st @ units, su_reload := su_reload st \<or> changed\<rparr>)"

definition main_file :: "string \<Rightarrow> string \<Rightarrow> container list \<Rightarrow> string" where
  "main_file ns name cs = ns @ ''-'' @ name @ (if length cs > 1 then ''.pod'' else ''.container'')"

definition unit_of_file :: "string \<Rightarrow> string" where
  "unit_of_file f = (if HasSuffix f ''.container'' then TrimSuffix f ''.container'' @ ''.service'' else [])"

text \<open>The files of a pod whose main file is missing.\<close>

definition su_pod_files :: "server \<Rightarrow> pod \<Rightarrow> string \<Rightarrow> startup \<Rightarrow> startup" where
  "su_pod_files sv p name st =
     (if \<not> missing st (sv_QuadletDir sv) (main_file (o_namespace p) name (ps_containers (pod_spec p))) then st
      else case render_resolved sv name p (su_world st) of
        (Inl _, w1) \<Rightarrow> st\<lparr>su_world := w1\<rparr>
      | (Inr (_, fs), w1) \<Rightarrow>
          (let st1 = fold (\<lambda>(f, content). snd \<circ> su_write sv (sv_QuadletDir sv) f content (unit_of_file f)) fs
                 (st\<lparr>su_world := w1\<rparr>);
               (removed, w2) = removeStaleOwnedUnits sv (sv_QuadletDir sv) (o_namespace p) name (map fst fs) (su_world st1)
           in st1\<lparr>su_world := w2, su_reload := su_reload st1 \<or> removed\<rparr>))"

definition su_instance :: "server \<Rightarrow> deployment \<Rightarrow> int \<Rightarrow> startup \<Rightarrow> startup" where
  "su_instance sv d i st =
     (let p = materializeDeploymentInstance (w_store (su_world st)) d i; name = instance_name d i;
          st1 = su_on (on_store (syncInstancePod sv p)) st
      in su_pod_files sv p name (su_pod_sockets sv p name st1))"

definition su_deployment :: "server \<Rightarrow> deployment \<Rightarrow> startup \<Rightarrow> startup" where
  "su_deployment sv d st = fold (su_instance sv d) [0..deploymentReplicas d - 1] st"

definition su_pod :: "server \<Rightarrow> pod \<Rightarrow> startup \<Rightarrow> startup" where
  "su_pod sv p st =
     su_pod_files sv p (o_name p) (if isDeploymentOwned p then st else su_pod_sockets sv p (o_name p) st)"

text \<open>A claim is bound, gets the standard class and its namespaced volume.\<close>

definition heal_pvc :: "pvc \<Rightarrow> pvc" where
  "heal_pvc p =
     (let p1 = (if pvc_phase p \<noteq> ''Bound'' then p\<lparr>pvc_phase := ''Bound''\<rparr> else p);
          p2 = (if pvc_storageClassName p1 = None \<or> pvc_storageClassName p1 = Some []
                then p1\<lparr>pvc_storageClassName := Some StorageClassStandard\<rparr> else p1);
          want = PVCVolumeName (o_namespace p2) (o_name p2)
      in if pvc_storageClassName p2 \<noteq> Some StorageClassHostPath \<and> pvc_volumeName p2 \<noteq> want
         then p2\<lparr>pvc_volumeName := want\<rparr> else p2)"

definition su_pvc :: "server \<Rightarrow> pvc \<Rightarrow> startup \<Rightarrow> startup" where
  "su_pvc sv p0 st =
     (let p = heal_pvc p0;
          st1 = (if p \<noteq> p0 then su_on (on_store (\<lambda>s. snd (UpdatePVC (sv_now sv) p s))) st else st)
      in case VolumeFile p of
           None \<Rightarrow> st1
         | Some content \<Rightarrow>
             if mget (w_files (su_world st1)) (sv_QuadletDir sv, volume_file p) = Some content then st1
             else snd (su_write sv (sv_QuadletDir sv) (volume_file p) content (volume_unit p) st1))"

definition su_job :: "server \<Rightarrow> job \<Rightarrow> startup \<Rightarrow> startup" where
  "su_job sv j st =
     (if \<not> missing st (sv_QuadletDir sv) (job_file j) then st
      else case render_job sv j (su_world st) of
        (None, w1) \<Rightarrow> st\<lparr>su_world := w1\<rparr>
      | (Some content, w1) \<Rightarrow>
          snd (su_write sv (sv_QuadletDir sv) (job_file j) content (job_service j) (st\<lparr>su_world := w1\<rparr>)))"

text \<open>The two files of a cron job; \<open>None\<close>: an error ended the step.\<close>

definition su_cron_container :: "server \<Rightarrow> cronjob \<Rightarrow> startup \<Rightarrow> bool option \<times> startup" where
  "su_cron_container sv cj st =
     (if \<not> missing st (sv_QuadletDir sv) (cron_file cj) then (Some False, st)
      else case render_cron sv cj (su_world st) of
        (None, w1) \<Rightarrow> (None, st\<lparr>su_world := w1\<rparr>)
      | (Some content, w1) \<Rightarrow>
          (let (wrote, st1) = su_write sv (sv_QuadletDir sv) (cron_file cj) content [] (st\<lparr>su_world := w1\<rparr>)
           in (Some wrote, st1)))"

definition su_cron_timer :: "server \<Rightarrow> cronjob \<Rightarrow> startup \<Rightarrow> bool option \<times> startup" where
  "su_cron_timer sv cj st =
     (if \<not> missing st (timer_dir sv) (cron_timer_file cj) then (Some False, st)
      else case render_timer cj of
        None \<Rightarrow> (None, st)
      | Some content \<Rightarrow>
          (let (wrote, st1) = su_write sv (timer_dir sv) (cron_timer_file cj) content [] st in (Some wrote, st1)))"

definition su_cron :: "server \<Rightarrow> cronjob \<Rightarrow> startup \<Rightarrow> startup" where
  "su_cron sv cj st =
     (case su_cron_container sv cj st of
        (None, st1) \<Rightarrow> st1
      | (Some a, st1) \<Rightarrow>
          (case su_cron_timer sv cj st1 of
             (None, st2) \<Rightarrow> st2
           | (Some b, st2) \<Rightarrow> if a \<or> b then st2\<lparr>su_start := su_start st2 @ [cron_timer_file cj]\<rparr> else st2))"

definition su_each :: "(store \<Rightarrow> 'a list) \<Rightarrow> ('a \<Rightarrow> startup \<Rightarrow> startup) \<Rightarrow> startup \<Rightarrow> startup" where
  "su_each objs f st = fold f (objs (w_store (su_world st))) st"

definition su_finish :: "server \<Rightarrow> startup \<Rightarrow> world" where
  "su_finish sv st =
     (if \<not> sv_manager sv then su_world st
      else
        (let (ok, w1) = (if su_reload st then perform sv DaemonReload (su_world st) else (True, su_world st)) in
         if \<not> ok then w1
         else fold (\<lambda>u. act sv (StartUnit u)) (su_start st) (startSocketUnits sv (su_sockets st) w1)))"

definition ReconcileQuadlets :: "server \<Rightarrow> world \<Rightarrow> world" where
  "ReconcileQuadlets sv w =
     (if sv_QuadletDir sv = [] then w
      else
        (let (swept, w0) = sweepOrphanedSockets sv w;
             st0 = \<lparr>su_world = w0, su_reload = swept, su_start = [], su_sockets = []\<rparr>;
             st1 = su_each AllDeployments (su_deployment sv) st0;
             st2 = su_each AllPods (su_pod sv) st1;
             st3 = su_each AllPVCs (su_pvc sv) st2;
             st4 = su_each AllJobs (su_job sv) st3;
             st5 = su_each AllCronJobs (su_cron sv) st4
         in su_finish sv st5))"

section \<open>The start of the server\<close>

definition start_up :: "server \<Rightarrow> string \<Rightarrow> observed \<Rightarrow> world \<Rightarrow> world" where
  "start_up sv secretDir ob w =
     on_store (\<lambda>s. snd (reconcilePodmanPods ob (sv_manager sv) s))
       (ReconcileIngressConfigs sv
         (ReconcileNetworkAttachments sv
           (ReconcileQuadlets sv
             (ensureNamespaceNetworks sv (sv_QuadletDir sv)
               (RestoreEnvFiles sv
                 (restoreSecretFiles sv secretDir
                   (restoreConfigMapFiles sv (sv_ConfigDir sv) w)))))))"

end
