(* ===== verification/HostLemmas.thy ===== *)
theory HostLemmas
  imports Startup RouteProperties SyncLemmas
begin

text \<open>What the host operations leave of the store: all of it.\<close>

declare split_paired_All [simp del] split_paired_Ex [simp del]

lemma fold_keeps: "(\<And>x w. x \<in> set xs \<Longrightarrow> g (f x w) = g w) \<Longrightarrow> g (fold f xs w) = g w"
  by (induction xs arbitrary: w) simp_all

section \<open>Files and units\<close>

lemma writeQuadletFile_store [simp]: "w_store (snd (writeQuadletFile sv dir n c w)) = w_store w"
  by (simp add: writeQuadletFile_def Let_def case_prod_beta)

lemma write_tracked_store [simp]: "w_store (snd (snd (write_tracked sv dir xs ch w))) = w_store w"
  by (induction xs arbitrary: ch w) (auto simp: Let_def case_prod_beta)

lemma writeQuadletFilesTracked_store [simp]: "w_store (snd (snd (writeQuadletFilesTracked sv dir fs w))) = w_store w"
  by (simp add: writeQuadletFilesTracked_def)

lemma remove_stale_unit_store [simp]:
  "w_store (snd (remove_stale_unit sv dir ns p keep n rw)) = w_store (snd rw)"
  by (auto simp: remove_stale_unit_def Let_def case_prod_beta split: option.split)

lemma removeStaleOwnedUnits_store [simp]: "w_store (snd (removeStaleOwnedUnits sv dir ns p keep w)) = w_store w"
  by (simp add: removeStaleOwnedUnits_def Let_def case_prod_beta fold_keeps [where g = "w_store \<circ> snd", simplified])

lemma reloadAfterRemove_store [simp]: "w_store (reloadAfterRemove sv paths w) = w_store w"
  by (simp add: reloadAfterRemove_def fold_keeps case_prod_beta)

lemma run_unit_store [simp]: "w_store (run_unit sv r f ch u w) = w_store w"
  by (simp add: run_unit_def)

lemma reloadAndRun_store [simp]: "w_store (reloadAndRun sv us r sk f ch w) = w_store w"
  by (simp add: reloadAndRun_def Let_def case_prod_beta fold_keeps)

lemma deployFiles_store [simp]: "w_store (deployFiles sv dir fs us w) = w_store w"
  by (simp add: deployFiles_def Let_def case_prod_beta)

lemma deployUnit_store [simp]: "w_store (deployUnit sv dir n c u w) = w_store w"
  by (simp add: deployUnit_def)

lemma deployPodFiles_store [simp]: "w_store (deployPodFiles sv dir ns p fs us r f w) = w_store w"
  by (simp add: deployPodFiles_def Let_def case_prod_beta)

lemma write_sockets_store [simp]: "w_store (snd (snd (write_sockets sv dir xs ch w))) = w_store w"
  by (induction xs arbitrary: ch w) (auto simp: Let_def case_prod_beta)

lemma remove_socket_store [simp]:
  "w_store (snd (remove_socket sv before dir ns p keep n rw)) = w_store (snd rw)"
  by (auto simp: remove_socket_def Let_def case_prod_beta fold_keeps split: option.split)

lemma remove_sockets_store [simp]:
  "w_store (snd (fold (remove_socket sv before dir ns p keep) ns' rw)) = w_store (snd rw)"
  by (rule fold_keeps [where g = "w_store \<circ> snd", simplified]) simp

lemma deployPodSockets_store [simp]: "w_store (snd (deployPodSockets sv p n w)) = w_store w"
  by (simp add: deployPodSockets_def Let_def case_prod_beta writeSocketFilesTracked_def removeStalePodSockets_def
      deploy_socket_def fold_keeps split: sum.split)

lemma reconcilePodSockets_store [simp]: "w_store (snd (reconcilePodSockets sv p n w)) = w_store w"
  by (simp add: reconcilePodSockets_def Let_def case_prod_beta writeSocketFilesTracked_def
      removeStalePodSockets_def split: sum.split)

lemma startSocketUnits_store [simp]: "w_store (startSocketUnits sv us w) = w_store w"
  by (simp add: startSocketUnits_def fold_keeps)

lemma removePodSockets_store [simp]: "w_store (removePodSockets sv ns p w) = w_store w"
  by (simp add: removePodSockets_def Let_def case_prod_beta)

section \<open>Rendering\<close>

lemma writeEnvFile_store [simp]: "w_store (snd (writeEnvFile sv ns n cs ss w)) = w_store w"
  by (simp add: writeEnvFile_def Let_def case_prod_beta split: sum.split)

lemma resolve_env_store [simp]: "w_store (snd (resolve_env sv ns n cs w)) = w_store w"
  by (simp add: resolve_env_def case_prod_beta split: sum.split)

lemma resolve_store [simp]:
  "w_store (snd (resolveEnvFrom sv p w)) = w_store w" "w_store (snd (resolvedJobEnv sv j w)) = w_store w"
  "w_store (snd (resolvedCronJobEnv sv cj w)) = w_store w"
  by (simp_all add: resolveEnvFrom_def resolvedJobEnv_def resolvedCronJobEnv_def Let_def case_prod_beta)

lemma namespaceAttachment_store [simp]: "w_store (snd (namespaceAttachment sv ns w)) = w_store w"
  by (simp add: namespaceAttachment_def subnetForNamespace_def Let_def case_prod_beta split: option.split)

lemma attachments_store [simp]: "w_store (snd (attachments sv nss w)) = w_store w"
  by (induction nss arbitrary: w) (simp_all add: Let_def case_prod_beta)

lemma networkAttachments_store [simp]: "w_store (snd (networkAttachments sv p w)) = w_store w"
  by (simp add: networkAttachments_def)

lemma render_files_store [simp]: "w_store (snd (render_files sv n p e w)) = w_store w"
  by (simp add: render_files_def Let_def case_prod_beta)

lemma render_resolved_store [simp]: "w_store (snd (render_resolved sv n p w)) = w_store w"
proof -
  have "w_store (snd (case render_files sv n r e w1 of
      (Inl e, w2) \<Rightarrow> (Inl (GenerateFailed e), w2) | (Inr fs, w2) \<Rightarrow> (Inr (r, fs), w2))) = w_store w1" for r e w1
    by (cases "render_files sv n r e w1"; cases "fst (render_files sv n r e w1)")
      (use render_files_store [of sv n r e w1] in auto)
  then show ?thesis
    using resolve_store(1) [of sv p w]
    by (cases "resolveEnvFrom sv p w"; cases "fst (resolveEnvFrom sv p w)")
      (auto simp: render_resolved_def split: prod.splits)
qed

lemma refreshPodQuadlets_store [simp]: "w_store (refreshPodQuadlets sv n p w) = w_store w"
proof -
  obtain r w1 where r: "render_resolved sv n (applyNodePorts (w_store w) p) w = (r, w1)" by fastforce
  then have "w_store w1 = w_store w" using render_resolved_store by (metis snd_conv)
  then show ?thesis
    by (cases r) (simp_all add: refreshPodQuadlets_def Let_def case_prod_beta r)
qed

lemma connectAttachAllPod_store [simp]: "w_store (connectAttachAllPod sv p ns w) = w_store w"
  by (simp add: connectAttachAllPod_def Let_def case_prod_beta split: option.split)

section \<open>Removing\<close>

lemma stopPodByName_store [simp]: "w_store (stopPodByName sv ns n cs w) = w_store w"
  by (simp add: stopPodByName_def stopAndRemoveUnit_def Let_def fold_keeps)

lemma removePodQuadlet_store [simp]: "w_store (removePodQuadlet sv p w) = w_store w"
  by (simp add: removePodQuadlet_def)

lemma deployment_units_store [simp]:
  "w_store (stopDeploymentUnits sv d w) = w_store w" "w_store (removeDeploymentQuadlets sv d w) = w_store w"
  by (simp_all add: stopDeploymentUnits_def removeDeploymentQuadlets_def Let_def fold_keeps)

lemma workload_files_store [simp]:
  "w_store (stopJobUnit sv j w) = w_store w" "w_store (removeJobQuadlet sv j w) = w_store w"
  "w_store (removeCronJobQuadlets sv cj w) = w_store w" "w_store (removeConfigMapFiles sv cm w) = w_store w"
  "w_store (removeSecretFiles sv sec w) = w_store w" "w_store (removePVCVolume sv p w) = w_store w"
  "w_store (removeTraefikConfig sv ns n w) = w_store w" "w_store (removeLegacyServiceSockets sv svc w) = w_store w"
  "w_store (removeNamespaceNetwork sv ns w) = w_store w" "w_store (generateNamespaceNetwork sv ns w) = w_store w"
  by (simp_all add: stopJobUnit_def removeJobQuadlet_def removeCronJobQuadlets_def removeConfigMapFiles_def
      removeSecretFiles_def removePVCVolume_def removeTraefikConfig_def removeLegacyServiceSockets_def
      removeNamespaceNetwork_def generateNamespaceNetwork_def)

lemma each_in_store: "(\<And>x w. w_store (f x w) = w_store w) \<Longrightarrow> w_store (each_in objs f w) = w_store w"
  by (simp add: each_in_def fold_keeps)

lemma purgeNamespaceResources_store [simp]:
  "w_store (purgeNamespaceResources sv ns w) = PurgeNamespace ns (w_store w)"
  by (simp add: purgeNamespaceResources_def Let_def each_in_store purge_pod_def)

lemma detachNamespaceNetwork_store [simp]: "w_store (detachNamespaceNetwork sv ns w) = w_store w"
  by (simp add: detachNamespaceNetwork_def dropSubnetCache_def fold_keeps)

end
