(* ===== verification/StartupProperties.thy ===== *)
theory StartupProperties
  imports HostLemmas SecretProperties
begin

text \<open>
  Deleting a namespace, and what a starting server finds again: the store survives, the files in
  memory and the missing unit files are rendered anew.
\<close>

declare split_paired_All [simp del] split_paired_Ex [simp del]

section \<open>Deleting a namespace\<close>

lemma DeleteNamespace_contents:
  "fst (DeleteNamespace now name s) = None \<Longrightarrow>
    contents (snd (DeleteNamespace now name s)) = (contents s)((KNamespace, ([], name)) := None)"
  by (auto simp: DeleteNamespace_def Let_def split: option.splits)

text \<open>
  C36: Deleting a namespace removes the namespace and every object in it from the store, and no
  other object, whichever of the host operations on the way fail.
\<close>

theorem namespace_delete_complete:
  assumes "namespaceDelete sv name w = (Success 200 u, w')"
  shows "contents (w_store w') (kd, k) =
    (if kd = KNamespace \<and> k = ([], name) \<or> kd \<noteq> KNamespace \<and> fst k = name then None
     else contents (w_store w) (kd, k))"
proof -
  let ?s = "PurgeNamespace name (w_store w)"
  have del: "fst (DeleteNamespace (sv_now sv) name ?s) = None"
    and w': "w_store w' = snd (DeleteNamespace (sv_now sv) name ?s)"
    using assms
    by (auto simp: namespaceDelete_def store_do_def Let_def case_prod_beta split: sum.splits option.splits)
  show ?thesis
    unfolding w' DeleteNamespace_contents [OF del] by (simp add: contents_purge)
qed

definition tenant_world :: world where
  "tenant_world = demo_world\<lparr>w_store := snd (CreateSecret 0
     \<lparr>o_apiVersion = [], o_kind = [], o_meta = (demo_meta ''s'')\<lparr>om_namespace := ''x''\<rparr>, sec_data = Some [],
       sec_stringData = None, sec_rest = []\<rparr>
     (snd (CreateNamespace 0 \<lparr>o_apiVersion = [], o_kind = [],
       o_meta = (demo_meta ''x'')\<lparr>om_namespace := []\<rparr>, ns_phase = [], ns_rest = []\<rparr> NewStore)))\<rparr>"

theorem namespace_delete_complete_witness:
  "contents (w_store (snd (namespaceDelete demo_server ''x'' tenant_world))) (KSecret, (''x'', ''s'')) = None \<and>
   contents (w_store tenant_world) (KSecret, (''x'', ''s'')) \<noteq> None"
proof
  have "fst (namespaceDelete demo_server ''x'' tenant_world) = Success 200 ()" by code_simp
  then have "namespaceDelete demo_server ''x'' tenant_world
      = (Success 200 (), snd (namespaceDelete demo_server ''x'' tenant_world))"
    by (metis prod.collapse)
  from namespace_delete_complete [OF this, of KSecret "(''x'', ''s'')"]
  show "contents (w_store (snd (namespaceDelete demo_server ''x'' tenant_world))) (KSecret, (''x'', ''s'')) = None"
    by simp
  have "s_secrets (w_store tenant_world) \<noteq> [] \<and> map fst (s_secrets (w_store tenant_world)) = [(''x'', ''s'')]"
    by code_simp
  then show "contents (w_store tenant_world) (KSecret, (''x'', ''s'')) \<noteq> None"
    by (cases "s_secrets (w_store tenant_world)") auto
qed

section \<open>Environment files after a restart\<close>

text \<open>
  The environment files of standalone pods are not rendered anew when the server starts: with
  no other workload stored, restoring them does nothing at all, although every stored pod has a
  namespace and its unit names the file.
\<close>

lemma standalone_env_files_lost:
  assumes "AllDeployments (w_store w) = []" "AllJobs (w_store w) = []" "AllCronJobs (w_store w) = []"
    and "\<forall>(k, p) \<in> set (s_pods (w_store w)). fst k \<noteq> []"
  shows "RestoreEnvFiles sv w = w"
proof -
  have "filter (\<lambda>(k, _). fst k = []) (s_pods (w_store w)) = []"
    using assms(4) by (auto simp: filter_empty_conv)
  then show ?thesis
    using assms(1-3) by (simp add: RestoreEnvFiles_def Let_def each_in_def PodsIn_def)
qed

definition restarted_world :: world where
  "restarted_world = on_store (\<lambda>s. snd (CreatePod 0 secret_pod s)) (secret_world\<lparr>w_files := []\<rparr>)"

lemma standalone_env_files_lost_witness:
  "RestoreEnvFiles demo_server restarted_world = restarted_world \<and>
   w_files restarted_world = [] \<and>
   (case fst (resolveEnvFrom demo_server secret_pod restarted_world) of
      Inr (_, path) \<Rightarrow> path = ''/secrets/n/_env/a.env'' | Inl _ \<Rightarrow> False)"
proof (intro conjI)
  have "AllDeployments (w_store restarted_world) = []" "AllJobs (w_store restarted_world) = []"
      "AllCronJobs (w_store restarted_world) = []"
      "\<forall>(k, p) \<in> set (s_pods (w_store restarted_world)). fst k \<noteq> []"
    by code_simp+
  then show "RestoreEnvFiles demo_server restarted_world = restarted_world" by (rule standalone_env_files_lost)
  show "w_files restarted_world = []" by (simp add: restarted_world_def)
  show "case fst (resolveEnvFrom demo_server secret_pod restarted_world) of
      Inr (_, path) \<Rightarrow> path = ''/secrets/n/_env/a.env'' | Inl _ \<Rightarrow> False"
    by code_simp
qed

end
