(* ===== verification/ClaimProperties.thy ===== *)
theory ClaimProperties
  imports StoreProperties HostLemmas DeployDemo
begin

text \<open>
  What ReconcileQuadlets does for claims when the server starts: every stored claim is bound and
  has the volume unit its pods mount.
\<close>

declare split_paired_All [simp del] split_paired_Ex [simp del]

section \<open>Healing one claim\<close>

lemma heal_pvc_meta [simp]: "o_meta (heal_pvc p) = o_meta p"
  by (simp add: heal_pvc_def Let_def)

lemma class_consts: "StorageClassStandard \<noteq> []" "StorageClassStandard \<noteq> StorageClassHostPath"
  by (simp_all add: StorageClassStandard_def StorageClassHostPath_def)

lemma heal_pvc_fields:
  "pvc_phase (heal_pvc p) = ''Bound''"
  "pvc_storageClassName (heal_pvc p) =
    (if pvc_storageClassName p = None \<or> pvc_storageClassName p = Some [] then Some StorageClassStandard
     else pvc_storageClassName p)"
  "pvc_volumeName (heal_pvc p) = (if pvc_storageClassName (heal_pvc p) \<noteq> Some StorageClassHostPath
     then PVCVolumeName (o_namespace p) (o_name p) else pvc_volumeName p)"
  by (auto simp: heal_pvc_def Let_def)

lemma heal_pvc_rest: "o_apiVersion (heal_pvc p) = o_apiVersion p" "o_kind (heal_pvc p) = o_kind p"
  "pvc_rest (heal_pvc p) = pvc_rest p"
  by (simp_all add: heal_pvc_def Let_def)

lemma pvc_eqI:
  fixes p q :: pvc
  assumes "o_apiVersion p = o_apiVersion q" "o_kind p = o_kind q" "o_meta p = o_meta q"
    "pvc_storageClassName p = pvc_storageClassName q" "pvc_volumeName p = pvc_volumeName q" "pvc_phase p = pvc_phase q"
    "pvc_rest p = pvc_rest q"
  shows "p = q"
  using assms by (cases p; cases q) simp

lemma heal_pvc_fixed:
  "pvc_phase p = ''Bound'' \<Longrightarrow> pvc_storageClassName p \<noteq> None \<Longrightarrow> pvc_storageClassName p \<noteq> Some [] \<Longrightarrow>
    (pvc_storageClassName p \<noteq> Some StorageClassHostPath \<Longrightarrow> pvc_volumeName p = PVCVolumeName (o_namespace p) (o_name p)) \<Longrightarrow>
    heal_pvc p = p"
  unfolding heal_pvc_def Let_def by simp

lemma heal_pvc_idem [simp]: "heal_pvc (heal_pvc p) = heal_pvc p"
  using class_consts(1) by (intro heal_pvc_fixed) (auto simp: heal_pvc_fields)

text \<open>
  Healing binds a claim as creating one does (\<open>bound_claim\<close>).  \<open>settled_form\<close> is that claim without
  its version: what no step of the start changes.
\<close>

lemma heal_is_bound: "heal_pvc p = bound_claim p"
  by (rule pvc_eqI) (auto simp: heal_pvc_fields bound_claim_def StorageClassStandard_def StorageClassHostPath_def
      PVCVolumeName_def heal_pvc_rest Let_def split: if_splits)

definition settled_form :: "pvc \<Rightarrow> pvc" where
  "settled_form p = omod (om_resourceVersion_update (\<lambda>_. [])) (bound_claim p)"

lemma settled_form_heal: "settled_form (heal_pvc p) = settled_form p"
  unfolding settled_form_def heal_is_bound [symmetric] heal_pvc_idem by (rule refl)

lemma settled_form_stamp: "settled_form (stamp rv (o_uid p) p) = settled_form p"
  by (simp add: settled_form_def bound_claim_def stamp_def omod_def Let_def)

lemma settled_form_eq:
  assumes "settled_form p = settled_form p0" "heal_pvc p = p"
  shows "p = omod (om_resourceVersion_update (\<lambda>_. o_rv p)) (bound_claim p0)"
proof -
  have "omod (om_resourceVersion_update (\<lambda>_. o_rv p)) (settled_form p) = p"
    using assms(2) unfolding settled_form_def heal_is_bound by (simp add: omod_def)
  then show ?thesis unfolding assms(1) by (simp add: settled_form_def omod_def)
qed

lemma heal_pvc_stamp: "heal_pvc (stamp rv uid p) = stamp rv uid (heal_pvc p)"
  by (simp add: heal_pvc_def Let_def stamp_def omod_def)

lemma VolumeFile_stamp: "VolumeFile (stamp rv uid p) = VolumeFile p"
  by (simp add: VolumeFile_def pvcStorageClass_def stamp_def omod_def)

lemma volume_file_stamp: "volume_file (stamp rv uid p) = volume_file p"
  by (simp add: volume_file_def)

text \<open>Claims that share a file share its content.\<close>

lemma VolumeFile_shared:
  "VolumeFile p = Some c \<Longrightarrow> VolumeFile q = Some c' \<Longrightarrow> volume_file p = volume_file q \<Longrightarrow> c = c'"
  by (auto simp: VolumeFile_def volume_file_def PVCVolumeName_def split: if_splits)

text \<open>A claim is settled when it is healed and its file is there.\<close>

definition claim_ok :: "server \<Rightarrow> world \<Rightarrow> pvc \<Rightarrow> bool" where
  "claim_ok sv w p \<longleftrightarrow> heal_pvc p = p \<and>
     (\<forall>c. VolumeFile p = Some c \<longrightarrow> mget (w_files w) (sv_QuadletDir sv, volume_file p) = Some c)"

definition plain_claim :: "pvc \<Rightarrow> bool" where
  "plain_claim p \<longleftrightarrow> newline \<notin> set (o_namespace p) \<and> newline \<notin> set (o_name p)"

lemma VolumeFile_hash:
  assumes "VolumeFile p = Some c" "plain_claim p"
  shows "templateHashFromContent c = []"
proof -
  let ?lines = "[''[Volume]'', ''VolumeName='' @ PVCVolumeName (o_namespace p) (o_name p), ManagedByLabel, []]"
  have "c = ''[Volume]'' @ nl @ ''VolumeName='' @ PVCVolumeName (o_namespace p) (o_name p) @ nl @ ManagedByLabel @ nl"
    using assms(1) unfolding VolumeFile_def by (metis option.distinct(1) option.inject)
  then have "c = Join ?lines nl" by (simp only: Join.simps append_assoc append_Nil2)
  moreover have "Split (Join ?lines nl) newline = ?lines"
    by (rule Split_Join) (use assms(2) in \<open>simp_all add: plain_claim_def PVCVolumeName_def ManagedByLabel_def\<close>)
  ultimately have "Split c newline = ?lines" by (simp only:)
  then show ?thesis
    by (simp add: templateHashFromContent_def hash_prefix_def TemplateHashLabel_def HasPrefix_def ManagedByLabel_def)
qed

section \<open>One step\<close>

lemma su_write_done:
  assumes "no_failures sv" "templateHashFromContent c = []"
  shows "w_files (su_world (snd (su_write sv dir n c u st))) = mput (dir, n) c (w_files (su_world st)) \<and>
    w_store (su_world (snd (su_write sv dir n c u st))) = w_store (su_world st)"
  using assms
  by (simp add: su_write_def writeQuadletFilesTracked_def sameTemplateHash_def writeQuadletFile_done Let_def)

definition pvc_map :: "startup \<Rightarrow> nsname \<Rightarrow> pvc option" where
  "pvc_map st = mget (s_pvcs (w_store (su_world st)))"

lemma UpdatePVC_found:
  "mget (s_pvcs s) (okey p) = Some old \<Longrightarrow>
    \<exists>rv. mget (s_pvcs (snd (UpdatePVC now p s))) = (mget (s_pvcs s))(okey p \<mapsto> stamp rv (o_uid old) p)"
  by (auto simp: UpdatePVC_def Let_def incRV_def go_save_def put_pvcs_def update_conv' fun_upd_def)

lemma su_pvc_step:
  assumes nf: "no_failures sv" and p0: "pvc_map st (okey p0) = Some p0" and plain: "plain_claim p0"
  shows "\<exists>p1. pvc_map (su_pvc sv p0 st) = (pvc_map st)(okey p0 \<mapsto> p1) \<and> settled_form p1 = settled_form p0 \<and>
    claim_ok sv (su_world (su_pvc sv p0 st)) p1 \<and>
    (\<forall>q. claim_ok sv (su_world st) q \<longrightarrow> claim_ok sv (su_world (su_pvc sv p0 st)) q)"
proof -
  let ?h = "heal_pvc p0"
  define st1 where "st1 = (if ?h \<noteq> p0 then su_on (on_store (\<lambda>s. snd (UpdatePVC (sv_now sv) ?h s))) st else st)"
  obtain p1 where m: "pvc_map st1 = (pvc_map st)(okey p0 \<mapsto> p1)" and h: "heal_pvc p1 = p1" "settled_form p1 = settled_form p0"
    "VolumeFile p1 = VolumeFile ?h" "volume_file p1 = volume_file ?h"
  proof (cases "?h = p0")
    case True
    then have "pvc_map st1 = (pvc_map st)(okey p0 \<mapsto> p0)" using p0 by (auto simp: st1_def)
    with True show ?thesis using that [of p0] by simp
  next
    case False
    have "mget (s_pvcs (w_store (su_world st))) (okey ?h) = Some p0" using p0 by (simp add: pvc_map_def okey_def)
    from UpdatePVC_found [OF this, of "sv_now sv"] obtain rv where
      "pvc_map st1 = (pvc_map st)(okey ?h \<mapsto> stamp rv (o_uid p0) ?h)"
      using False by (auto simp: st1_def su_on_def pvc_map_def)
    then show ?thesis
      using that [of "stamp rv (o_uid p0) ?h"] settled_form_stamp [of rv ?h]
      by (simp add: heal_pvc_stamp VolumeFile_stamp volume_file_stamp settled_form_heal okey_def)
  qed
  have files: "w_files (su_world st1) = w_files (su_world st)" by (simp add: st1_def su_on_def)
  let ?st2 = "su_pvc sv p0 st"
  have st2: "?st2 = (case VolumeFile ?h of None \<Rightarrow> st1 | Some content \<Rightarrow>
      if mget (w_files (su_world st1)) (sv_QuadletDir sv, volume_file ?h) = Some content then st1
      else snd (su_write sv (sv_QuadletDir sv) (volume_file ?h) content (volume_unit ?h) st1))"
    unfolding su_pvc_def Let_def st1_def by (rule refl)
  have store: "pvc_map ?st2 = pvc_map st1"
    and got: "VolumeFile ?h = None \<Longrightarrow> w_files (su_world ?st2) = w_files (su_world st)"
    and put: "VolumeFile ?h = Some c \<Longrightarrow> mget (w_files (su_world ?st2)) k =
      (if k = (sv_QuadletDir sv, volume_file ?h) then Some c else mget (w_files (su_world st)) k)" for c k
    using su_write_done [OF nf VolumeFile_hash [of ?h]] plain
    by (auto simp: plain_claim_def st2 files pvc_map_def mget_mput split: option.split)
  have "claim_ok sv (su_world ?st2) p1"
    unfolding claim_ok_def using h put by simp
  moreover have "claim_ok sv (su_world ?st2) q" if "claim_ok sv (su_world st) q" for q
  proof (cases "VolumeFile ?h")
    case None
    with that got show ?thesis by (simp add: claim_ok_def)
  next
    case (Some c)
    have "mget (w_files (su_world ?st2)) (sv_QuadletDir sv, volume_file q) = Some c'" if "VolumeFile q = Some c'" for c'
    proof (cases "volume_file q = volume_file ?h")
      case True
      with VolumeFile_shared [OF Some that] put [OF Some] show ?thesis by simp
    next
      case False
      with put [OF Some] \<open>claim_ok sv (su_world st) q\<close> that show ?thesis by (simp add: claim_ok_def)
    qed
    with that show ?thesis by (simp add: claim_ok_def)
  qed
  ultimately show ?thesis using m h(2) unfolding store by blast
qed

section \<open>All claims\<close>

lemma su_pvcs:
  assumes nf: "no_failures sv"
    and "distinct (map okey ps)" "\<forall>p \<in> set ps. pvc_map st (okey p) = Some p \<and> plain_claim p"
    and "\<forall>k p. pvc_map st k = Some p \<longrightarrow> k \<in> okey ` set ps \<or> claim_ok sv (su_world st) p"
  shows "(\<forall>k p. pvc_map (fold (su_pvc sv) ps st) k = Some p \<longrightarrow> claim_ok sv (su_world (fold (su_pvc sv) ps st)) p) \<and>
    (\<forall>k. map_option settled_form (pvc_map (fold (su_pvc sv) ps st) k) = map_option settled_form (pvc_map st k))"
  using assms(2-)
proof (induction ps arbitrary: st)
  case (Cons p0 ps)
  have p0: "pvc_map st (okey p0) = Some p0" "plain_claim p0" using Cons.prems(2) by simp_all
  from su_pvc_step [OF nf p0] obtain p1 where
    m: "pvc_map (su_pvc sv p0 st) = (pvc_map st)(okey p0 \<mapsto> p1)"
    and form: "settled_form p1 = settled_form p0"
    and ok: "claim_ok sv (su_world (su_pvc sv p0 st)) p1"
    and keep: "\<And>q. claim_ok sv (su_world st) q \<Longrightarrow> claim_ok sv (su_world (su_pvc sv p0 st)) q"
    by blast
  have "\<forall>p \<in> set ps. pvc_map (su_pvc sv p0 st) (okey p) = Some p \<and> plain_claim p"
  proof
    fix p assume p: "p \<in> set ps"
    then have "okey p \<noteq> okey p0" using Cons.prems(1) by (auto simp: image_iff)
    with p Cons.prems(2) show "pvc_map (su_pvc sv p0 st) (okey p) = Some p \<and> plain_claim p" by (simp add: m)
  qed
  moreover have "\<forall>k p. pvc_map (su_pvc sv p0 st) k = Some p \<longrightarrow>
      k \<in> okey ` set ps \<or> claim_ok sv (su_world (su_pvc sv p0 st)) p"
  proof (intro allI impI)
    fix k p assume k: "pvc_map (su_pvc sv p0 st) k = Some p"
    show "k \<in> okey ` set ps \<or> claim_ok sv (su_world (su_pvc sv p0 st)) p"
    proof (cases "k = okey p0")
      case True
      with k ok show ?thesis by (simp add: m)
    next
      case False
      with k have "pvc_map st k = Some p" by (simp add: m)
      with Cons.prems(3) False keep show ?thesis by auto
    qed
  qed
  ultimately have "(\<forall>k p. pvc_map (fold (su_pvc sv) (p0 # ps) st) k = Some p \<longrightarrow>
        claim_ok sv (su_world (fold (su_pvc sv) (p0 # ps) st)) p) \<and>
      (\<forall>k. map_option settled_form (pvc_map (fold (su_pvc sv) (p0 # ps) st) k) =
        map_option settled_form (pvc_map (su_pvc sv p0 st) k))"
    using Cons.IH [of "su_pvc sv p0 st"] Cons.prems(1) by simp
  moreover have "map_option settled_form (pvc_map (su_pvc sv p0 st) k) = map_option settled_form (pvc_map st k)" for k
    using p0(1) form by (simp add: m)
  ultimately show ?case by simp
qed simp

section \<open>The other stages\<close>

text \<open>No other stage touches a claim or a volume file.\<close>

fun no_volume :: "io \<Rightarrow> bool" where
  "no_volume (WriteFile d n c) = (\<not> HasSuffix n ''.volume'')"
| "no_volume (RemoveFile d n) = False"
| "no_volume (RemoveAll d) = False"
| "no_volume (RenameFile d a b) = False"
| "no_volume _ = True"

definition volumes_kept :: "startup \<Rightarrow> startup \<Rightarrow> bool" where
  "volumes_kept st st' \<longleftrightarrow> w_store (su_world st') = w_store (su_world st) \<and> only_io no_volume (su_world st) (su_world st')"

lemma volumes_kept_ok:
  assumes "volumes_kept st st'" "claim_ok sv (su_world st) p"
  shows "claim_ok sv (su_world st') p"
proof -
  have "HasSuffix (volume_file p) ''.volume''" by (simp add: volume_file_def HasSuffix_def HasPrefix_def)
  then have "\<not> touches op (sv_QuadletDir sv, volume_file p)" if "no_volume op" for op
    using that by (cases op) auto
  then have "mget (w_files (su_world st')) (sv_QuadletDir sv, volume_file p)
      = mget (w_files (su_world st)) (sv_QuadletDir sv, volume_file p)"
    using assms(1) unfolding volumes_kept_def only_io_def by blast
  with assms(2) show ?thesis by (simp add: claim_ok_def)
qed

lemma volumes_kept_refl: "volumes_kept st st"
  by (simp add: volumes_kept_def)

lemma volumes_kept_trans: "volumes_kept st st1 \<Longrightarrow> volumes_kept st1 st2 \<Longrightarrow> volumes_kept st st2"
  unfolding volumes_kept_def using only_io_trans by metis

lemma volumes_kept_fold: "(\<And>x st. volumes_kept st (f x st)) \<Longrightarrow> volumes_kept st (fold f xs st)"
  by (induction xs arbitrary: st) (auto intro: volumes_kept_refl volumes_kept_trans)

lemma only_io_then: "only_io P w w1 \<Longrightarrow> P op \<Longrightarrow> only_io P w (snd (perform sv op w1))"
  by (rule only_io_trans [OF _ only_io_perform])

lemma only_io_write: "no_volume (WriteFile d n c) \<Longrightarrow> only_io no_volume w (snd (writeQuadletFile sv d n c w))"
  by (simp add: writeQuadletFile_def Let_def case_prod_beta only_io_perform only_io_then)

lemma only_io_env:
  "only_io no_volume w (snd (writeEnvFile sv ns n cs ss w))"
  "only_io no_volume w (snd (resolve_env sv ns n cs' w))"
proof -
  have s: "\<not> HasSuffix (n @ ''.env'') ''.volume''" for n by (simp add: HasSuffix_def HasPrefix_def)
  show e: "only_io no_volume w (snd (writeEnvFile sv ns n cs ss w))" for cs ss
    by (simp add: writeEnvFile_def Let_def case_prod_beta only_io_perform only_io_then s split: sum.split)
  show "only_io no_volume w (snd (resolve_env sv ns n cs' w))"
    by (simp add: resolve_env_def case_prod_beta e split: sum.split)
qed

lemma write_tracked_io:
  "\<forall>(n, c) \<in> set xs. \<not> HasSuffix n ''.volume'' \<Longrightarrow> only_io no_volume w (snd (snd (write_tracked sv dir xs ch w)))"
proof (induction xs arbitrary: ch w)
  case (Cons x xs)
  obtain n c where x: "x = (n, c)" by fastforce
  have 1: "only_io no_volume w (snd (writeQuadletFile sv dir n c w))"
    using Cons.prems by (simp add: x only_io_write)
  have 2: "only_io no_volume w (snd (snd (write_tracked sv dir xs ch' w)))" for ch' w
    using Cons by simp
  show ?case
    using 1 2 only_io_trans [OF 1 2] by (simp add: x Let_def case_prod_beta)
qed simp

lemma volumes_kept_write: "\<not> HasSuffix n ''.volume'' \<Longrightarrow> volumes_kept st (snd (su_write sv dir n c u st))"
  using write_tracked_io [of "[(n, c)]" "su_world st" sv dir "[]"]
  by (simp add: volumes_kept_def su_write_def writeQuadletFilesTracked_def Let_def case_prod_beta del: write_tracked.simps)

lemma render_io:
  "only_io no_volume w (snd (render_job sv j w))" "w_store (snd (render_job sv j w)) = w_store w"
  "only_io no_volume w (snd (render_cron sv cj w))" "w_store (snd (render_cron sv cj w)) = w_store w"
proof -
  have "snd (render_job sv j w) = snd (resolvedJobEnv sv j w)"
    by (auto simp: render_job_def split: prod.split sum.split)
  moreover have "snd (render_cron sv cj w) = snd (resolvedCronJobEnv sv cj w)"
    by (auto simp: render_cron_def split: prod.split sum.split)
  ultimately show
    "only_io no_volume w (snd (render_job sv j w))" "w_store (snd (render_job sv j w)) = w_store w"
    "only_io no_volume w (snd (render_cron sv cj w))" "w_store (snd (render_cron sv cj w)) = w_store w"
    by (simp_all add: resolvedJobEnv_def resolvedCronJobEnv_def Let_def case_prod_beta only_io_env)
qed

lemma volumes_kept_world:
  "only_io no_volume (su_world st) w1 \<Longrightarrow> w_store w1 = w_store (su_world st) \<Longrightarrow> volumes_kept st (st\<lparr>su_world := w1\<rparr>)"
  by (simp add: volumes_kept_def)

lemma names_no_volume:
  "\<not> HasSuffix (job_file j) ''.volume''" "\<not> HasSuffix (cron_file cj) ''.volume''"
  "\<not> HasSuffix (cron_timer_file cj) ''.volume''"
  by (simp_all add: job_file_def cron_file_def cron_timer_file_def HasSuffix_def HasPrefix_def)

lemma volumes_kept_job: "volumes_kept st (su_job sv j st)"
proof -
  obtain r w1 where r: "render_job sv j (su_world st) = (r, w1)" by fastforce
  have w1: "volumes_kept st (st\<lparr>su_world := w1\<rparr>)"
    using render_io(1) [where w = "su_world st"] render_io(2) [where w = "su_world st"] r
    by (metis snd_conv volumes_kept_world)
  then show ?thesis
    using volumes_kept_trans [OF w1 volumes_kept_write [OF names_no_volume(1) [of j]]] volumes_kept_refl
    by (cases r) (simp_all add: su_job_def r)
qed

lemma volumes_kept_cron: "volumes_kept st (su_cron sv cj st)"
proof -
  have container: "volumes_kept st (snd (su_cron_container sv cj st))" for st
  proof -
    obtain r w1 where r: "render_cron sv cj (su_world st) = (r, w1)" by fastforce
    have w1: "volumes_kept st (st\<lparr>su_world := w1\<rparr>)"
      using render_io(3) [where w = "su_world st"] render_io(4) [where w = "su_world st"] r
      by (metis snd_conv volumes_kept_world)
    then show ?thesis
      using volumes_kept_trans [OF w1 volumes_kept_write [OF names_no_volume(2) [of cj]]] volumes_kept_refl
      by (cases r) (simp_all add: su_cron_container_def r Let_def case_prod_beta)
  qed
  have timer: "volumes_kept st (snd (su_cron_timer sv cj st))" for st
    using volumes_kept_write [OF names_no_volume(3) [of cj]] volumes_kept_refl
    by (simp add: su_cron_timer_def Let_def case_prod_beta split: option.split)
  have start: "volumes_kept st st2 \<Longrightarrow> volumes_kept st (st2\<lparr>su_start := us\<rparr>)" for st2 us
    by (simp add: volumes_kept_def)
  obtain a st1 where 1: "su_cron_container sv cj st = (a, st1)" by fastforce
  obtain b st2 where 2: "su_cron_timer sv cj st1 = (b, st2)" by fastforce
  have k1: "volumes_kept st st1" using container [of st] by (simp add: 1)
  have k2: "volumes_kept st st2" using volumes_kept_trans [OF k1] timer [of st1] by (simp add: 2)
  show ?thesis
    using k1 k2 start [OF k2] by (cases a; cases b) (simp_all add: su_cron_def 1 2)
qed

lemma su_finish_io: "only_io no_volume (su_world st) (su_finish sv st)" "w_store (su_finish sv st) = w_store (su_world st)"
proof -
  have s: "only_io no_volume w (startSocketUnits sv us w)" for us w
    unfolding startSocketUnits_def
    by (auto intro!: only_io_fold only_io_trans [OF only_io_act only_io_act])
  have f: "only_io no_volume w (fold (\<lambda>u. act sv (StartUnit u)) us w)" for us w
    by (intro only_io_fold only_io_act) simp
  have sf: "only_io no_volume w (fold (\<lambda>u. act sv (StartUnit u)) us (startSocketUnits sv us' w))" for us us' w
    by (rule only_io_trans [OF s f])
  have d: "only_io no_volume w (snd (perform sv DaemonReload w))" for w by (simp add: only_io_perform)
  show "only_io no_volume (su_world st) (su_finish sv st)"
    using sf only_io_trans [OF d sf] d by (simp add: su_finish_def Let_def case_prod_beta)
  show "w_store (su_finish sv st) = w_store (su_world st)"
    by (simp add: su_finish_def Let_def case_prod_beta fold_keeps)
qed

section \<open>The stages before\<close>

lemma CreatePod_pvcs: "s_pvcs (snd (CreatePod now p s)) = s_pvcs s"
  by (simp add: CreatePod_def Let_def incRV_def put_pods_def go_save_def recordEvent_def notifyChanged_def
      split: option.split)

lemma SyncPodTemplate_pvcs: "s_pvcs (snd (SyncPodTemplate p s)) = s_pvcs s"
  by (simp add: SyncPodTemplate_def Let_def incRV_def put_pods_def go_save_def split: option.split)

lemma syncInstancePod_pvcs: "s_pvcs (syncInstancePod sv p s) = s_pvcs s"
  by (simp add: syncInstancePod_def Let_def case_prod_beta CreatePod_pvcs SyncPodTemplate_pvcs)

definition pvcs_of :: "startup \<Rightarrow> (nsname, pvc) gomap" where
  "pvcs_of st = s_pvcs (w_store (su_world st))"

lemma su_pod_sockets_pvcs: "pvcs_of (su_pod_sockets sv p n st) = pvcs_of st"
proof -
  have "w_store (snd (reconcilePodSockets sv p n (su_world st))) = w_store (su_world st)" by simp
  then show ?thesis
    by (cases "reconcilePodSockets sv p n (su_world st)") (simp add: su_pod_sockets_def pvcs_of_def case_prod_beta Let_def)
qed

lemma su_write_pvcs: "pvcs_of (snd (su_write sv dir n c u st)) = pvcs_of st"
  by (simp add: su_write_def pvcs_of_def Let_def case_prod_beta)

lemma su_pod_files_pvcs: "pvcs_of (su_pod_files sv p n st) = pvcs_of st"
proof -
  obtain r w1 where r: "render_resolved sv n p (su_world st) = (r, w1)" by fastforce
  have w1: "w_store w1 = w_store (su_world st)" using render_resolved_store [of sv n p "su_world st"] by (simp add: r)
  have f: "pvcs_of (fold (\<lambda>(f, content). snd \<circ> su_write sv dir f content (unit_of_file f)) fs st') = pvcs_of st'"
    for dir fs st'
    by (rule fold_keeps) (auto simp: su_write_pvcs)
  show ?thesis
    using w1 f [of _ _ "st\<lparr>su_world := w1\<rparr>"]
    by (cases r) (simp_all add: su_pod_files_def r pvcs_of_def Let_def case_prod_beta)
qed

lemma su_instance_pvcs: "pvcs_of (su_instance sv d i st) = pvcs_of st"
proof -
  have "pvcs_of (su_on (on_store (syncInstancePod sv p)) st) = pvcs_of st" for p
    by (simp add: su_on_def pvcs_of_def syncInstancePod_pvcs)
  then show ?thesis by (simp add: su_instance_def Let_def su_pod_files_pvcs su_pod_sockets_pvcs)
qed

lemma su_before_pvcs:
  "pvcs_of (su_deployment sv d st) = pvcs_of st" "pvcs_of (su_pod sv p st) = pvcs_of st"
  by (simp_all add: su_deployment_def su_pod_def su_instance_pvcs su_pod_files_pvcs su_pod_sockets_pvcs fold_keeps)

lemma sweep_store: "w_store (snd (sweepOrphanedSockets sv w)) = w_store w"
  by (simp add: sweepOrphanedSockets_def sweep_socket_def Let_def case_prod_beta
      fold_keeps [where g = "w_store \<circ> snd", simplified])

section \<open>Every claim after a start\<close>

lemma claims_settled:
  assumes nf: "no_failures sv" and wf: "mwf (pvcs_of st)"
    and claims: "\<forall>k p. mget (pvcs_of st) k = Some p \<longrightarrow> okey p = k \<and> plain_claim p"
  shows "(\<forall>k p. pvc_map (su_each AllPVCs (su_pvc sv) st) k = Some p \<longrightarrow>
      claim_ok sv (su_world (su_each AllPVCs (su_pvc sv) st)) p) \<and>
    (\<forall>k. map_option settled_form (pvc_map (su_each AllPVCs (su_pvc sv) st) k) =
      map_option settled_form (pvc_map st k))"
proof -
  have m: "pvc_map st = mget (pvcs_of st)" and all: "AllPVCs (w_store (su_world st)) = map snd (pvcs_of st)"
    by (simp_all add: pvc_map_def pvcs_of_def AllPVCs_def)
  have keyed: "map okey (map snd (pvcs_of st)) = map fst (pvcs_of st)"
    using claims wf by (auto simp: mwf_set_conv)
  show ?thesis
    unfolding su_each_def all
  proof (rule su_pvcs [OF nf])
    show "distinct (map okey (map snd (pvcs_of st)))"
      using wf unfolding keyed mwf_def .
    show "\<forall>p \<in> set (map snd (pvcs_of st)). pvc_map st (okey p) = Some p \<and> plain_claim p"
      using claims wf by (auto simp: m mwf_set_conv)
    show "\<forall>k p. pvc_map st k = Some p \<longrightarrow> k \<in> okey ` set (map snd (pvcs_of st)) \<or> claim_ok sv (su_world st) p"
      using claims by (force simp: m dest: map_of_SomeD)
  qed
qed

lemma settled_claim:
  assumes "claim_ok sv w p" "settled_form p = settled_form p0"
  shows "\<exists>rv p'. p' = omod (om_resourceVersion_update (\<lambda>_. rv)) (bound_claim p0) \<and> p = p' \<and>
    (pvc_storageClassName p' = Some ''hostpath'' \<or>
     mget (w_files w) (sv_QuadletDir sv, o_namespace p0 @ ''-'' @ o_name p0 @ ''.volume'') =
       Some (''[Volume]'' @ nl @ ''VolumeName='' @ o_namespace p0 @ ''-'' @ o_name p0 @ nl
         @ ''Label=app.kubernetes.io/managed-by=q8s'' @ nl))"
proof -
  have h: "heal_pvc p = p" using assms(1) by (simp add: claim_ok_def)
  have eq: "p = omod (om_resourceVersion_update (\<lambda>_. o_rv p)) (bound_claim p0)" by (rule settled_form_eq [OF assms(2) h])
  have names: "o_namespace p = o_namespace p0" "o_name p = o_name p0"
    by (subst eq, simp add: omod_def bound_claim_def Let_def)+
  have "pvc_storageClassName p = Some ''hostpath'' \<or>
      mget (w_files w) (sv_QuadletDir sv, volume_file p) = VolumeFile p \<and> VolumeFile p \<noteq> None"
  proof (cases "VolumeFile p")
    case None
    then have "pvcStorageClass p = ''hostpath''" by (simp add: VolumeFile_def StorageClassHostPath_def split: if_splits)
    then show ?thesis by (auto simp: pvcStorageClass_def StorageClassStandard_def split: option.splits if_splits)
  next
    case (Some c)
    then show ?thesis using assms(1) by (simp add: claim_ok_def)
  qed
  then have "pvc_storageClassName p = Some ''hostpath'' \<or>
      mget (w_files w) (sv_QuadletDir sv, o_namespace p0 @ ''-'' @ o_name p0 @ ''.volume'') =
       Some (''[Volume]'' @ nl @ ''VolumeName='' @ o_namespace p0 @ ''-'' @ o_name p0 @ nl
         @ ''Label=app.kubernetes.io/managed-by=q8s'' @ nl)"
    unfolding VolumeFile_def volume_file_def names PVCVolumeName_def ManagedByLabel_def
    by (cases "pvcStorageClass p = StorageClassHostPath") (simp_all only: append_assoc if_True if_False simp_thms, blast)
  with eq show ?thesis by blast
qed

text \<open>
  C35: When no call fails, ReconcileQuadlets binds every stored claim, whatever its phase was: it has a
  storage class (its own, or standard), the phase Bound and, unless it is a host path, the name of the
  volume of its namespace and name; everything but its version is as before, and no claim is added or
  lost.  The volume file of every claim that is no host path holds exactly the text of that claim,
  whether it was missing, stale or written by an older version.
\<close>

theorem restart_settles_claims:
  assumes "no_failures sv" "sv_QuadletDir sv \<noteq> []" "store_inv (w_store w)"
    and "\<forall>p \<in> set (AllPVCs (w_store w)). newline \<notin> set (o_namespace p) \<and> newline \<notin> set (o_name p)"
  shows "case mget (s_pvcs (w_store w)) k of
      None \<Rightarrow> mget (s_pvcs (w_store (ReconcileQuadlets sv w))) k = None
    | Some p0 \<Rightarrow> \<exists>rv p. p = omod (om_resourceVersion_update (\<lambda>_. rv)) (bound_claim p0) \<and>
        mget (s_pvcs (w_store (ReconcileQuadlets sv w))) k = Some p \<and>
        (pvc_storageClassName p = Some ''hostpath'' \<or>
         mget (w_files (ReconcileQuadlets sv w)) (sv_QuadletDir sv, o_namespace p0 @ ''-'' @ o_name p0 @ ''.volume'') =
           Some (''[Volume]'' @ nl @ ''VolumeName='' @ o_namespace p0 @ ''-'' @ o_name p0 @ nl
             @ ''Label=app.kubernetes.io/managed-by=q8s'' @ nl))"
proof -
  obtain swept w0 where sw: "sweepOrphanedSockets sv w = (swept, w0)" by fastforce
  define st0 where "st0 = \<lparr>su_world = w0, su_reload = swept, su_start = [], su_sockets = []\<rparr>"
  define st2 where "st2 = su_each AllPods (su_pod sv) (su_each AllDeployments (su_deployment sv) st0)"
  define st3 where "st3 = su_each AllPVCs (su_pvc sv) st2"
  define st5 where "st5 = su_each AllCronJobs (su_cron sv) (su_each AllJobs (su_job sv) st3)"
  have r: "ReconcileQuadlets sv w = su_finish sv st5"
    using assms(2) by (simp add: ReconcileQuadlets_def sw Let_def st0_def st2_def st3_def st5_def)
  have "w_store w0 = w_store w" using sweep_store [of sv w] by (simp add: sw)
  then have pvcs: "pvcs_of st2 = s_pvcs (w_store w)"
    by (simp add: st2_def su_each_def su_before_pvcs fold_keeps) (simp add: st0_def pvcs_of_def)
  have key: "okey p = k" if "mget (s_pvcs (w_store w)) k = Some p" for k p
    using store_invD(1) [OF assms(3), of KPVC k "UPVC p"] that by simp
  have wf: "mwf (s_pvcs (w_store w))" using store_invD(5) [OF assms(3)] by (simp add: maps_wf_def)
  have settled: "(\<forall>k p. pvc_map st3 k = Some p \<longrightarrow> claim_ok sv (su_world st3) p) \<and>
      (\<forall>k. map_option settled_form (pvc_map st3 k) = map_option settled_form (pvc_map st2 k))"
    unfolding st3_def
  proof (rule claims_settled [OF assms(1)])
    show "mwf (pvcs_of st2)" using wf by (simp add: pvcs)
    show "\<forall>k p. mget (pvcs_of st2) k = Some p \<longrightarrow> okey p = k \<and> plain_claim p"
      using key wf assms(4) by (auto simp: pvcs plain_claim_def AllPVCs_def mwf_set_conv [symmetric])
  qed
  have fin: "volumes_kept st5 (st5\<lparr>su_world := su_finish sv st5\<rparr>)"
    by (simp add: volumes_kept_def su_finish_io)
  have "volumes_kept st3 st5"
    unfolding st5_def su_each_def
    by (rule volumes_kept_trans [OF volumes_kept_fold volumes_kept_fold])
      (rule volumes_kept_job, rule volumes_kept_cron)
  then have kept: "volumes_kept st3 (st5\<lparr>su_world := su_finish sv st5\<rparr>)" by (rule volumes_kept_trans [OF _ fin])
  have same: "mget (s_pvcs (w_store (su_finish sv st5))) k = pvc_map st3 k"
    using kept by (simp add: volumes_kept_def pvc_map_def)
  have forms: "map_option settled_form (pvc_map st3 k) = map_option settled_form (mget (s_pvcs (w_store w)) k)"
    using settled pvcs by (simp add: pvc_map_def pvcs_of_def)
  show ?thesis
  proof (cases "mget (s_pvcs (w_store w)) k")
    case None
    then show ?thesis using forms unfolding r same by simp
  next
    case (Some p0)
    then obtain p where p: "pvc_map st3 k = Some p" "settled_form p = settled_form p0"
      using forms by (cases "pvc_map st3 k") auto
    have "claim_ok sv (su_finish sv st5) p" using settled p(1) volumes_kept_ok [OF kept, of sv p] by simp
    then show ?thesis
      unfolding r same Some p(1) option.case option.inject using settled_claim [OF _ p(2)] by blast
  qed
qed

definition old_claim :: pvc where
  "old_claim = \<lparr>o_apiVersion = [], o_kind = [], o_meta = (demo_meta ''c'')\<lparr>om_namespace := ''n''\<rparr>,
     pvc_storageClassName = None, pvc_volumeName = ''c'', pvc_phase = ''Pending'', pvc_rest = []\<rparr>"

definition stale_claim :: pvc where
  "stale_claim = stamp ''2'' ''q8s-pvc-n-c'' old_claim"

definition claim_world :: world where
  "claim_world = demo_world\<lparr>w_store :=
     exec (OpUpdate 0 (UPVC old_claim)) (exec (OpCreate 0 (UPVC old_claim)) NewStore)\<rparr>"

theorem restart_settles_claims_witness:
  "mget (s_pvcs (w_store claim_world)) (''n'', ''c'') = Some stale_claim \<and> pvc_phase stale_claim = ''Pending'' \<and>
   (\<exists>p. mget (s_pvcs (w_store (ReconcileQuadlets demo_server claim_world))) (''n'', ''c'') = Some p \<and>
      pvc_phase p = ''Bound'' \<and> pvc_storageClassName p = Some ''standard'' \<and> pvc_volumeName p = ''n-c'') \<and>
   mget (w_files (ReconcileQuadlets demo_server claim_world)) (''q'', ''n-c.volume'') =
     Some (''[Volume]'' @ nl @ ''VolumeName=n-c'' @ nl @ ''Label=app.kubernetes.io/managed-by=q8s'' @ nl)"
proof -
  have inv: "store_inv (w_store claim_world)"
    by (simp add: claim_world_def exec_inv store_inv_new del: exec.simps)
  have dir: "sv_QuadletDir demo_server \<noteq> []" by (simp add: demo_server_def)
  have names: "\<forall>p \<in> set (AllPVCs (w_store claim_world)). newline \<notin> set (o_namespace p) \<and> newline \<notin> set (o_name p)"
    by code_simp
  have stored: "mget (s_pvcs (w_store claim_world)) (''n'', ''c'') = Some stale_claim" by code_simp
  have "no_failures demo_server" by simp
  note all = restart_settles_claims [OF this dir inv names, of "(''n'', ''c'')", unfolded stored option.case]
  have "bound_claim stale_claim = stale_claim\<lparr>pvc_storageClassName := Some ''standard'', pvc_phase := ''Bound'',
      pvc_volumeName := ''n-c''\<rparr>" and "o_namespace stale_claim = ''n''" and "o_name stale_claim = ''c''"
    and "sv_QuadletDir demo_server = ''q''" and "pvc_phase stale_claim = ''Pending''"
    by code_simp+
  with all stored show ?thesis by (auto simp: omod_def)
qed

end
