(* ===== verification/Json.thy ===== *)
theory Json
  imports GoStrings "HOL-Library.List_Lexorder" "HOL-Library.Char_ord"
begin

text \<open>
  Decoded JSON documents, the \<open>interface{}\<close> values of encoding/json: an object is a Go map, a
  number is represented by the text \<open>json.Marshal\<close> prints for it.
\<close>

datatype json =
    JNull
  | JBool bool
  | JNum string
  | JStr string
  | JArr "json list"
  | JObj "(string \<times> json) list"

type_synonym jobj = "(string, json) gomap"

text \<open>
  The canonical form of a value: objects with sorted keys.  Values are \<open>reflect.DeepEqual\<close>, and
  marshal to the same bytes, when their canonical forms are equal.
\<close>

fun canon :: "json \<Rightarrow> json" where
  "canon (JArr xs) = JArr (map canon xs)"
| "canon (JObj m) = JObj (sort_key fst (map (\<lambda>(k, v). (k, canon v)) m))"
| "canon v = v"

definition DeepEqual :: "json \<Rightarrow> json \<Rightarrow> bool" where
  "DeepEqual a b \<longleftrightarrow> canon a = canon b"

text \<open>Type assertions with a default: \<open>s, _ := v.(string)\<close> and the like, of a map entry.\<close>

definition jstring :: "json option \<Rightarrow> string" where
  "jstring v = (case v of Some (JStr s) \<Rightarrow> s | _ \<Rightarrow> [])"

definition jmember :: "jobj \<Rightarrow> string \<Rightarrow> json" where
  "jmember m k = (case mget m k of None \<Rightarrow> JNull | Some v \<Rightarrow> v)"

text \<open>What the decoder gives and every operation keeps: an object has each of its keys once.\<close>

fun json_wf :: "json \<Rightarrow> bool" where
  "json_wf (JArr xs) = list_all json_wf xs"
| "json_wf (JObj m) = (mwf m \<and> list_all (\<lambda>(k, v). json_wf v) m)"
| "json_wf _ = True"

lemma jobj_wf_iff: "json_wf (JObj m) \<longleftrightarrow> mwf m \<and> (\<forall>k v. mget m k = Some v \<longrightarrow> json_wf v)"
  by (auto simp: list_all_iff mwf_set_conv)

lemma jobj_wf_Nil [simp]: "json_wf (JObj [])"
  by simp

lemma jobj_wf_entry: "json_wf (JObj m) \<Longrightarrow> x \<in> set m \<Longrightarrow> json_wf (snd x)"
  by (auto simp: list_all_iff)

declare json_wf.simps(2) [simp del]

lemma jobj_wf_mput: "json_wf (JObj m) \<Longrightarrow> json_wf v \<Longrightarrow> json_wf (JObj (mput k v m))"
  unfolding jobj_wf_iff by (auto simp: mget_mput split: if_splits)

lemma jobj_wf_mdel: "json_wf (JObj m) \<Longrightarrow> json_wf (JObj (mdel k m))"
  unfolding jobj_wf_iff by (auto simp: mget_mdel split: if_splits)

lemma jobj_wf_mdrop: "json_wf (JObj m) \<Longrightarrow> json_wf (JObj (mdrop p m))"
  unfolding jobj_wf_iff by (auto simp: mget_mdrop split: if_splits)

lemma jobj_wf_get: "json_wf (JObj m) \<Longrightarrow> mget m k = Some v \<Longrightarrow> json_wf v"
  unfolding jobj_wf_iff by blast

lemma jobj_wf_member: "json_wf (JObj m) \<Longrightarrow> json_wf (jmember m k)"
  by (auto simp: jmember_def dest: jobj_wf_get split: option.split)

lemmas jobj_wf_intros = jobj_wf_mput jobj_wf_mdel jobj_wf_mdrop

end
