(* ===== verification/JsonPatch.thy ===== *)
theory JsonPatch
  imports Json
begin

text \<open>
  JSON Patch, internal/server/jsonpatch.go, and the patch server-side apply is turned into,
  internal/server/apply.go.
\<close>

datatype patch_error =
    BadPath string
  | BadEscape
  | NoMember string
  | NoElement string
  | BadDash
  | CannotDescend
  | WholeDocument
  | TestFailed
  | UnsupportedOp string

section \<open>Paths\<close>

fun unescape_segment :: "string \<Rightarrow> patch_error + string" where
  "unescape_segment [] = Inr []"
| "unescape_segment (c # s) =
     (if c \<noteq> CHR ''~'' then rbind (unescape_segment s) (\<lambda>r. Inr (c # r))
      else case s of
        [] \<Rightarrow> Inl BadEscape
      | d # s' \<Rightarrow>
          if d = CHR ''0'' then rbind (unescape_segment s') (\<lambda>r. Inr (CHR ''~'' # r))
          else if d = CHR ''1'' then rbind (unescape_segment s') (\<lambda>r. Inr (CHR ''/'' # r))
          else Inl BadEscape)"

definition parsePath :: "string \<Rightarrow> patch_error + string list" where
  "parsePath path =
     (case path of
        [] \<Rightarrow> Inr []
      | c # rest \<Rightarrow>
          if c \<noteq> CHR ''/'' then Inl (BadPath path)
          else map_result unescape_segment (Split rest (CHR ''/'')))"

section \<open>Operations on a document\<close>

definition array_index :: "string \<Rightarrow> 'a list \<Rightarrow> patch_error + nat" where
  "array_index seg c =
     (case Atoi seg of
        None \<Rightarrow> Inl (NoElement seg)
      | Some i \<Rightarrow> if i < 0 \<or> i \<ge> int (length c) then Inl (NoElement seg) else Inr (nat i))"

fun patchGet :: "json \<Rightarrow> string list \<Rightarrow> patch_error + json" where
  "patchGet cur [] = Inr cur"
| "patchGet cur (seg # segs) =
     (case cur of
        JObj c \<Rightarrow> (case mget c seg of None \<Rightarrow> Inl (NoMember seg) | Some v \<Rightarrow> patchGet v segs)
      | JArr c \<Rightarrow> rbind (array_index seg c) (\<lambda>i. patchGet (c ! i) segs)
      | _ \<Rightarrow> Inl CannotDescend)"

fun patchSet :: "json \<Rightarrow> string list \<Rightarrow> json \<Rightarrow> bool \<Rightarrow> patch_error + json" where
  "patchSet cur [] v add = Inl WholeDocument"
| "patchSet cur (seg # segs) v add =
     (case cur of
        JObj c \<Rightarrow>
          if segs = [] then
            (if mget c seg = None \<and> \<not> add then Inl (NoMember seg) else Inr (JObj (mput seg v c)))
          else (case mget c seg of
              None \<Rightarrow> Inl (NoMember seg)
            | Some child \<Rightarrow> rbind (patchSet child segs v add) (\<lambda>new. Inr (JObj (mput seg new c))))
      | JArr c \<Rightarrow>
          if seg = ''-'' then (if segs \<noteq> [] \<or> \<not> add then Inl BadDash else Inr (JArr (c @ [v])))
          else rbind (array_index seg c) (\<lambda>i.
            rbind (patchSet (c ! i) segs v add) (\<lambda>new. Inr (JArr (c[i := new]))))
      | _ \<Rightarrow> Inl CannotDescend)"

fun patchRemove :: "json \<Rightarrow> string list \<Rightarrow> patch_error + json \<times> json" where
  "patchRemove cur [] = Inl WholeDocument"
| "patchRemove cur (seg # segs) =
     (case cur of
        JObj c \<Rightarrow> (case mget c seg of
            None \<Rightarrow> Inl (NoMember seg)
          | Some child \<Rightarrow>
              if segs = [] then Inr (JObj (mdel seg c), child)
              else rbind (patchRemove child segs) (\<lambda>(new, removed). Inr (JObj (mput seg new c), removed)))
      | JArr c \<Rightarrow> rbind (array_index seg c) (\<lambda>i.
          if segs = [] then Inr (JArr (take i c @ drop (Suc i) c), c ! i)
          else rbind (patchRemove (c ! i) segs) (\<lambda>(new, removed). Inr (JArr (c[i := new]), removed)))
      | _ \<Rightarrow> Inl CannotDescend)"

section \<open>Patches\<close>

definition op_path :: "jobj \<Rightarrow> string \<Rightarrow> patch_error + string list" where
  "op_path op k = parsePath (jstring (mget op k))"

definition apply_op :: "json \<Rightarrow> jobj \<Rightarrow> patch_error + json" where
  "apply_op doc op =
     (let typ = jstring (mget op ''op''); v = jmember op ''value'' in
      if typ = ''add'' then rbind (op_path op ''path'') (\<lambda>segs. patchSet doc segs v True)
      else if typ = ''replace'' then rbind (op_path op ''path'') (\<lambda>segs. patchSet doc segs v False)
      else if typ = ''remove'' then
        rbind (op_path op ''path'') (\<lambda>segs. rbind (patchRemove doc segs) (\<lambda>(new, _). Inr new))
      else if typ = ''test'' then
        rbind (op_path op ''path'') (\<lambda>segs. rbind (patchGet doc segs) (\<lambda>cur.
          if \<not> DeepEqual cur v then Inl TestFailed else Inr doc))
      else if typ = ''move'' then
        rbind (op_path op ''from'') (\<lambda>from. rbind (op_path op ''path'') (\<lambda>to.
          rbind (patchRemove doc from) (\<lambda>(new, removed). patchSet new to removed True)))
      else if typ = ''copy'' then
        rbind (op_path op ''from'') (\<lambda>from. rbind (op_path op ''path'') (\<lambda>to.
          rbind (patchGet doc from) (\<lambda>v. patchSet doc to v True)))
      else Inl (UnsupportedOp typ))"

text \<open>
  In Go a copied object or array is shared between its two places: an operation after such a copy may
  edit both, and a copy into itself makes a cycle.  That is outside the model: the result is \<open>None\<close>.
\<close>

definition composite :: "json \<Rightarrow> bool" where
  "composite v \<longleftrightarrow> (case v of JObj _ \<Rightarrow> True | JArr _ \<Rightarrow> True | _ \<Rightarrow> False)"

definition shares :: "json \<Rightarrow> jobj \<Rightarrow> bool \<Rightarrow> bool" where
  "shares doc op is_last \<longleftrightarrow> jstring (mget op ''op'') = ''copy'' \<and>
     (case rbind (op_path op ''from'') (\<lambda>from. rbind (op_path op ''path'') (\<lambda>to.
             rbind (patchGet doc from) (\<lambda>v. Inr (composite v \<and> (\<not> is_last \<or> take (length from) to = from))))) of
        Inl _ \<Rightarrow> False
      | Inr b \<Rightarrow> b)"

fun apply_ops :: "json \<Rightarrow> jobj list \<Rightarrow> (patch_error + json) option" where
  "apply_ops doc [] = Some (Inr doc)"
| "apply_ops doc (op # ops) =
     (case apply_op doc op of
        Inl e \<Rightarrow> Some (Inl e)
      | Inr new \<Rightarrow> if shares doc op (ops = []) then None else apply_ops new ops)"

definition applyJSONPatch :: "jobj \<Rightarrow> jobj list \<Rightarrow> (patch_error + json) option" where
  "applyJSONPatch doc patch = apply_ops (JObj doc) patch"

section \<open>Server-side apply\<close>

definition set_op :: "string \<Rightarrow> json \<Rightarrow> jobj" where
  "set_op path v = [(''op'', JStr ''add''), (''path'', JStr path), (''value'', v)]"

definition remove_op :: "string \<Rightarrow> jobj" where
  "remove_op path = [(''op'', JStr ''remove''), (''path'', JStr path)]"

definition section_op :: "jobj \<Rightarrow> jobj \<Rightarrow> string \<Rightarrow> jobj list" where
  "section_op current applied field =
     (case mget applied field of
        Some v \<Rightarrow> [set_op (''/'' @ field) v]
      | None \<Rightarrow>
          if mget current field \<noteq> None \<and> mget current field \<noteq> Some JNull \<and> field \<noteq> ''spec''
          then [remove_op (''/'' @ field)] else [])"

definition metadata_op :: "jobj \<Rightarrow> jobj \<Rightarrow> string \<Rightarrow> jobj list" where
  "metadata_op currentMetadata appliedMetadata field =
     (if mget appliedMetadata field \<noteq> None \<and> mget appliedMetadata field \<noteq> Some JNull
      then [set_op (''/metadata/'' @ field) (jmember appliedMetadata field)]
      else if mget currentMetadata field \<noteq> None \<and> mget currentMetadata field \<noteq> Some JNull
      then [remove_op (''/metadata/'' @ field)]
      else [])"

definition applyPatchOps :: "jobj \<Rightarrow> jobj \<Rightarrow> jobj list" where
  "applyPatchOps current applied =
     (let appliedMetadata = (case mget applied ''metadata'' of Some (JObj m) \<Rightarrow> m | _ \<Rightarrow> []);
          sections = concat (map (section_op current applied) [''spec'', ''data'', ''binaryData'', ''stringData''])
      in case mget current ''metadata'' of
           Some (JObj m) \<Rightarrow>
             sections @ concat (map (metadata_op m appliedMetadata) [''labels'', ''annotations''])
         | _ \<Rightarrow>
             sections @ [set_op ''/metadata'' (JObj [])]
               @ concat (map (metadata_op [] appliedMetadata) [''labels'', ''annotations'']))"

text \<open>The namespace of the URL of an object.\<close>

definition namespaceFromURLPath :: "string \<Rightarrow> string" where
  "namespaceFromURLPath urlPath =
     (case Index urlPath ''/namespaces/'' of
        None \<Rightarrow> []
      | Some i \<Rightarrow>
          (let parts = Split (TrimPrefix (drop (i + length ''/namespaces/'') urlPath) ''/'') (CHR ''/'')
           in if length parts \<ge> 3 then hd parts else []))"

definition isJSONPatch :: "string \<Rightarrow> bool" where
  "isJSONPatch ct =
     ((case IndexByte ct (CHR '';'') of Some i \<Rightarrow> TrimSpace (take i ct) | None \<Rightarrow> ct) = ''application/json-patch+json'')"

text \<open>
  Server-side apply of an object: what is made of the request.  The body is the JSON the YAML decodes to
  (\<open>None\<close>: it does not decode), the existing object is what the GET handler answers at the same
  URL, its status with its body decoded.
\<close>

definition media_type :: "string \<Rightarrow> string" where
  "media_type ct = (case IndexByte ct (CHR '';'') of Some i \<Rightarrow> take i ct | None \<Rightarrow> ct)"

definition isApplyPatch :: "string \<Rightarrow> bool" where
  "isApplyPatch ct = EqualFold (TrimSpace (media_type ct)) ''application/apply-patch+yaml''"

definition PathBase :: "string \<Rightarrow> string" where
  "PathBase p =
     (if p = [] then ''.''
      else let q = rev (dropWhile (\<lambda>c. c = CHR ''/'') (rev p)) in
        if q = [] then ''/'' else last (Split q (CHR ''/'')))"

datatype apply_action =
    Reject nat string
  | CreateAt string jobj
  | Relay nat
  | PatchWith "jobj list"

definition json_map :: "json option \<Rightarrow> jobj option" where
  "json_map v = (case v of Some (JObj m) \<Rightarrow> Some m | _ \<Rightarrow> None)"

definition handleApply :: "bool \<Rightarrow> string \<Rightarrow> json option \<Rightarrow> nat \<times> json option \<Rightarrow> apply_action" where
  "handleApply dryRun url body existing =
     (if dryRun then Reject 400 ''dryRun is not supported'' else
      case json_map body of None \<Rightarrow> Reject 400 ''apply body must be a JSON object'' | Some applied \<Rightarrow>
      if jstring (mget applied ''apiVersion'') = [] \<or> jstring (mget applied ''kind'') = []
      then Reject 400 ''apply body must contain apiVersion and kind'' else
      case json_map (mget applied ''metadata'') of
        None \<Rightarrow> Reject 400 ''apply body must contain metadata'' | Some metadata \<Rightarrow>
      let urlPath = TrimSuffix url ''/''; urlName = PathBase urlPath;
          name = jstring (mget metadata ''name''); namespace = jstring (mget metadata ''namespace'') in
      case LastIndexByte urlPath (CHR ''/'') of None \<Rightarrow> Reject 400 ''invalid object URL'' | Some lastSlash \<Rightarrow>
      if name = [] \<or> name \<noteq> urlName then Reject 400 ''metadata.name does not match URL name''
      else if namespace \<noteq> [] \<and> namespace \<noteq> namespaceFromURLPath urlPath
      then Reject 400 ''metadata.namespace does not match URL namespace''
      else if fst existing = 404 then CreateAt (take lastSlash urlPath) applied
      else if fst existing \<noteq> 200 then Relay (fst existing)
      else case snd existing of
          Some (JObj current) \<Rightarrow> PatchWith (applyPatchOps current applied)
        | Some JNull \<Rightarrow> PatchWith (applyPatchOps [] applied)
        | _ \<Rightarrow> Reject 500 ''decode existing object'')"

end
