(* ===== verification/StrategicMerge.thy ===== *)
theory StrategicMerge
  imports Json
begin

text \<open>
  Merge patches, \<open>jsonMerge\<close> of internal/server/handler.go: objects are merged member by member,
  lists of named objects element by element, and the directives of strategic merge patches are
  carried out and never stored.  Go changes the base in place; here it is returned.  \<open>None\<close> is
  the panic of a type assertion.
\<close>

section \<open>Loops that may panic\<close>

primrec loop :: "('a \<Rightarrow> 's \<Rightarrow> 's option) \<Rightarrow> 'a list \<Rightarrow> 's \<Rightarrow> 's option" where
  "loop f [] s = Some s"
| "loop f (x # xs) s = Option.bind (f x s) (loop f xs)"

lemma loop_cong [fundef_cong]:
  "xs = ys \<Longrightarrow> s = t \<Longrightarrow> (\<And>x u. x \<in> set ys \<Longrightarrow> f x u = g x u) \<Longrightarrow> loop f xs s = loop g ys t"
proof (induction xs arbitrary: ys s t)
  case (Cons x xs)
  have "f x s = g x t" using Cons.prems by auto
  moreover have "loop f xs = loop g xs" using Cons.prems by (intro ext Cons.IH) auto
  ultimately show ?case using Cons.prems(1,2) by auto
qed simp

section \<open>Lists\<close>

definition patch_marker :: "json \<Rightarrow> json option" where
  "patch_marker el = (case el of JObj m \<Rightarrow> mget m ''$patch'' | _ \<Rightarrow> None)"

definition listWithoutPatchMarkers :: "json list \<Rightarrow> json list" where
  "listWithoutPatchMarkers xs = filter (\<lambda>el. patch_marker el = None) xs"

text \<open>The key of an element: its name, or its JSON text, which is equal for equal canonical forms.\<close>

datatype element_key = ByName string | ByValue json

definition element_name :: "json \<Rightarrow> string option" where
  "element_name el =
     (case el of JObj m \<Rightarrow> (case mget m ''name'' of Some (JStr n) \<Rightarrow> Some n | _ \<Rightarrow> None) | _ \<Rightarrow> None)"

definition elementKey :: "json \<Rightarrow> element_key" where
  "elementKey el = (case element_name el of Some n \<Rightarrow> ByName n | None \<Rightarrow> ByValue (canon el))"

definition order_rank :: "json list \<Rightarrow> json \<Rightarrow> nat" where
  "order_rank order el =
     (case find (\<lambda>i. elementKey (order ! i) = elementKey el) (rev [0..<length order]) of
        Some i \<Rightarrow> i
      | None \<Rightarrow> length order)"

definition orderElements :: "json list \<Rightarrow> json list \<Rightarrow> json list" where
  "orderElements xs order = sort_key (order_rank order) xs"

definition deletePrimitiveValues :: "json list \<Rightarrow> json list \<Rightarrow> json list" where
  "deletePrimitiveValues xs remove = filter (\<lambda>el. \<not> list_ex (DeepEqual el) remove) xs"

section \<open>Lists of named objects\<close>

text \<open>The named elements seen so far: by name, in order, and the names to take out at the end.\<close>

type_synonym named = "(string, jobj) gomap \<times> string list \<times> string list"

definition deletes_element :: "json \<Rightarrow> bool" where
  "deletes_element el \<longleftrightarrow> patch_marker el = Some (JStr ''delete'')"

definition deleted_names :: "json list \<Rightarrow> string list" where
  "deleted_names overlay = List.map_filter element_name (filter deletes_element overlay)"

definition index_base :: "string list \<Rightarrow> json list \<Rightarrow> named" where
  "index_base deleted base =
     fold (\<lambda>el (byName, order, removed). case (el, element_name el) of
         (JObj m, Some n) \<Rightarrow>
           if n \<in> set deleted then (byName, order, removed) else (mput n m byName, order @ [n], removed)
       | _ \<Rightarrow> (byName, order, removed)) base ([], [], [])"

definition merge_element ::
  "(jobj \<Rightarrow> jobj \<Rightarrow> (bool \<times> jobj) option) \<Rightarrow> string list \<Rightarrow> json \<Rightarrow> named \<Rightarrow> named option" where
  "merge_element rec deleted el st =
     (if deletes_element el then Some st
      else case el of
        JObj m \<Rightarrow>
          (case mget m ''name'' of
             Some (JStr n) \<Rightarrow>
               (let (byName, order, removed) = st in
                if n \<in> set deleted then Some st
                else case mget byName n of
                  Some existing \<Rightarrow>
                    Option.bind (rec existing m) (\<lambda>(remove, new).
                      Some (mput n new byName, order, if remove then n # removed else removed))
                | None \<Rightarrow>
                    Option.bind (rec [] m) (\<lambda>(_, new). Some (mput n new byName, order @ [n], removed)))
           | _ \<Rightarrow> None)
      | _ \<Rightarrow> None)"

fun pick_elements :: "(string, jobj) gomap \<Rightarrow> string list \<Rightarrow> string list \<Rightarrow> json list" where
  "pick_elements byName skip [] = []"
| "pick_elements byName skip (n # ns) =
     (if n \<in> set skip then pick_elements byName skip ns
      else case mget byName n of
        Some m \<Rightarrow> JObj m # pick_elements byName (n # skip) ns
      | None \<Rightarrow> pick_elements byName skip ns)"

text \<open>\<open>Some None\<close>: the nil list, which asks for replacing.\<close>

definition mergeNamedArray ::
  "(jobj \<Rightarrow> jobj \<Rightarrow> (bool \<times> jobj) option) \<Rightarrow> json list \<Rightarrow> json list \<Rightarrow> json list option option" where
  "mergeNamedArray rec base overlay =
     (if list_ex (\<lambda>el. patch_marker el = Some (JStr ''replace'')) overlay
      then Some (Some (listWithoutPatchMarkers overlay))
      else if list_ex (\<lambda>el. case el of JObj _ \<Rightarrow> False | _ \<Rightarrow> True) overlay then Some None
      else if list_ex (\<lambda>el. case el of JObj m \<Rightarrow> mget m ''name'' = None | _ \<Rightarrow> True)
                (filter (\<lambda>el. \<not> deletes_element el) overlay) then Some None
      else if list_ex (\<lambda>el. element_name el = None) base then Some None
      else
        (let deleted = deleted_names overlay in
         Option.bind (loop (merge_element rec deleted) overlay (index_base deleted base))
           (\<lambda>(byName, order, removed). Some (Some (pick_elements byName removed order)))))"

lemma merge_element_cong [fundef_cong]:
  assumes "d = d'" "el = el'" "st = st'" "\<And>b m. el' = JObj m \<Longrightarrow> rec b m = rec' b m"
  shows "merge_element rec d el st = merge_element rec' d' el' st'"
  using assms by (cases el') (auto simp: merge_element_def Let_def split: option.split json.split prod.split)

lemma mergeNamedArray_cong [fundef_cong]:
  assumes "base = base'" "overlay = overlay'" "\<And>b m. JObj m \<in> set overlay' \<Longrightarrow> rec b m = rec' b m"
  shows "mergeNamedArray rec base overlay = mergeNamedArray rec' base' overlay'"
proof -
  have "loop (merge_element rec d) overlay st = loop (merge_element rec' d) overlay st" for d st
    by (rule loop_cong) (use assms in \<open>auto intro!: merge_element_cong\<close>)
  then show ?thesis by (simp add: mergeNamedArray_def Let_def assms(1,2))
qed

section \<open>Objects\<close>

definition merge_field ::
  "(jobj \<Rightarrow> jobj \<Rightarrow> (bool \<times> jobj) option) \<Rightarrow> string \<Rightarrow> json \<Rightarrow> jobj \<Rightarrow> jobj option" where
  "merge_field rec k v base =
     (if HasPrefix k ''$'' then Some base
      else case v of
        JNull \<Rightarrow> Some (mdel k base)
      | JObj om \<Rightarrow>
          Option.bind (rec (case mget base k of Some (JObj bm) \<Rightarrow> bm | _ \<Rightarrow> []) om) (\<lambda>(remove, new).
            Some (if remove then mdel k base else mput k (JObj new) base))
      | JArr oa \<Rightarrow>
          (case mget base k of
             Some (JArr ba) \<Rightarrow>
               Option.bind (mergeNamedArray rec ba oa) (\<lambda>merged.
                 Some (mput k (JArr (case merged of Some xs \<Rightarrow> xs | None \<Rightarrow> listWithoutPatchMarkers oa)) base))
           | _ \<Rightarrow> Some (mput k (JArr (listWithoutPatchMarkers oa)) base))
      | _ \<Rightarrow> Some (mput k v base))"

lemma merge_field_cong [fundef_cong]:
  assumes "k = k'" "v = v'" "base = base'" "\<And>b om. v' = JObj om \<Longrightarrow> rec b om = rec' b om"
    and "\<And>b oa m. v' = JArr oa \<Longrightarrow> JObj m \<in> set oa \<Longrightarrow> rec b m = rec' b m"
  shows "merge_field rec k v base = merge_field rec' k' v' base'"
proof (cases v')
  case (JArr oa)
  then have "mergeNamedArray rec ba oa = mergeNamedArray rec' ba oa" for ba
    using assms(5) by (intro mergeNamedArray_cong) auto
  with JArr assms(1-3) show ?thesis by (auto simp: merge_field_def split: option.split json.split)
qed (use assms in \<open>auto simp: merge_field_def\<close>)

text \<open>The lists of a directive: the field after the prefix of its key, with its values.\<close>

definition directive_lists :: "string \<Rightarrow> jobj \<Rightarrow> (string \<times> json list) list" where
  "directive_lists prefix overlay =
     List.map_filter (\<lambda>(k, v). case v of
         JArr xs \<Rightarrow> if HasPrefix k prefix then Some (TrimPrefix k prefix, xs) else None
       | _ \<Rightarrow> None) overlay"

definition on_list :: "(json list \<Rightarrow> json list \<Rightarrow> json list) \<Rightarrow> string \<times> json list \<Rightarrow> jobj \<Rightarrow> jobj" where
  "on_list f fv base =
     (case mget base (fst fv) of Some (JArr xs) \<Rightarrow> mput (fst fv) (JArr (f xs (snd fv))) base | _ \<Rightarrow> base)"

definition retained :: "jobj \<Rightarrow> jobj \<Rightarrow> jobj" where
  "retained overlay base =
     (case mget overlay ''$retainKeys'' of
        Some (JArr keys) \<Rightarrow> mdrop (\<lambda>k. JStr k \<notin> set keys) base
      | _ \<Rightarrow> base)"

definition finish_merge :: "jobj \<Rightarrow> jobj \<Rightarrow> jobj" where
  "finish_merge overlay base =
     retained overlay
       (fold (on_list orderElements) (directive_lists ''$setElementOrder/'' overlay)
         (fold (on_list deletePrimitiveValues) (directive_lists ''$deleteFromPrimitiveList/'' overlay) base))"

lemma size_entry: "(k, v) \<in> set o' \<Longrightarrow> size v < size (JObj o')"
proof -
  assume "(k, v) \<in> set o'"
  then have "size_prod (\<lambda>_. 0) size (k, v) \<le> size_list (size_prod (\<lambda>_. 0) size) o'"
    by (rule size_list_estimation') simp
  then show ?thesis by simp
qed

lemma size_element: "v \<in> set xs \<Longrightarrow> size v < size (JArr xs)"
  using size_list_estimation' [of v xs "size v" size] by simp

function jsonMerge :: "jobj \<Rightarrow> jobj \<Rightarrow> (bool \<times> jobj) option" where
  "jsonMerge base overlay =
     (if mget overlay ''$patch'' = Some (JStr ''delete'') then Some (True, base)
      else Option.bind
        (loop (\<lambda>x. merge_field jsonMerge (fst x) (snd x)) overlay
          (if mget overlay ''$patch'' = Some (JStr ''replace'') then [] else base))
        (\<lambda>b. Some (False, finish_merge overlay b)))"
  by pat_completeness auto
termination
  apply (relation "measure (\<lambda>(_, o'). size (JObj o'))")
    apply (rule wf_measure)
  apply (simp_all only: in_measure prod.case)
  subgoal by (metis prod.collapse size_entry)
  subgoal by (metis prod.collapse size_entry size_element order.strict_trans)
  done

declare jsonMerge.simps [simp del]

end
