(* ===== verification/PatchTypes.thy ===== *)
theory PatchTypes
  imports JsonPatch StrategicMerge
begin

text \<open>
  Patching and merging keep JSON documents well formed: what goes in with every key once comes out
  with every key once, through every operation, list merge and directive.  A merge never stores a
  null or a directive.
\<close>

declare split_paired_All [simp del] split_paired_Ex [simp del]

section \<open>JSON Patch\<close>

lemma array_index_bound: "array_index seg c = Inr i \<Longrightarrow> i < length c"
  by (auto simp: array_index_def split: option.splits if_splits)

lemma json_wf_nth: "list_all json_wf c \<Longrightarrow> array_index seg c = Inr i \<Longrightarrow> json_wf (c ! i)"
  by (auto simp: list_all_iff dest: array_index_bound)

lemma list_all_update: "list_all P c \<Longrightarrow> P v \<Longrightarrow> list_all P (c[i := v])"
  using set_update_subset_insert [of c i v] by (auto simp: list_all_iff)

lemma list_all_cut: "list_all P c \<Longrightarrow> list_all P (take i c)" "list_all P c \<Longrightarrow> list_all P (drop i c)"
  by (metis append_take_drop_id list_all_append)+

lemma patchGet_wf: "patchGet doc segs = Inr v \<Longrightarrow> json_wf doc \<Longrightarrow> json_wf v"
  by (induction doc segs rule: patchGet.induct)
    (auto simp: rbind_Inr_iff json_wf_nth split: json.splits option.splits
      dest: jobj_wf_get)

lemma patchSet_wf: "patchSet doc segs v add = Inr new \<Longrightarrow> json_wf doc \<Longrightarrow> json_wf v \<Longrightarrow> json_wf new"
proof (induction doc segs v add arbitrary: new rule: patchSet.induct)
  case (2 cur seg segs v add)
  show ?case
  proof (cases cur)
    case (JArr c)
    then show ?thesis
      using "2.prems" "2.IH"(1) [OF JArr]
      by (auto simp: rbind_Inr_iff json_wf_nth split: if_splits intro!: list_all_update)
  next
    case (JObj c)
    then show ?thesis
      using "2.prems" "2.IH"(2) [OF JObj]
      by (auto simp: rbind_Inr_iff split: if_splits option.splits
          intro!: jobj_wf_mput dest: jobj_wf_get)
  qed (use "2.prems" in simp_all)
qed simp

lemma patchRemove_wf:
  "patchRemove doc segs = Inr (new, r) \<Longrightarrow> json_wf doc \<Longrightarrow> json_wf new \<and> json_wf r"
proof (induction doc segs arbitrary: new r rule: patchRemove.induct)
  case (2 cur seg segs)
  show ?case
  proof (cases cur)
    case (JArr c)
    then obtain i where i: "array_index seg c = Inr i" using "2.prems"(1) by (auto simp: rbind_Inr_iff)
    have wf: "list_all json_wf c" using "2.prems"(2) JArr by simp
    show ?thesis
    proof (cases "segs = []")
      case True
      with "2.prems"(1) JArr i wf show ?thesis
        by (auto simp: rbind_Inr_iff list_all_cut json_wf_nth)
    next
      case False
      with "2.prems"(1) JArr i obtain n where "patchRemove (c ! i) segs = Inr (n, r)" "new = JArr (c[i := n])"
        by (auto simp: rbind_Inr_iff)
      with "2.IH"(1) [OF JArr False] wf i show ?thesis by (simp add: json_wf_nth list_all_update)
    qed
  next
    case (JObj c)
    then obtain child where child: "mget c seg = Some child" using "2.prems" by (auto split: option.splits)
    have wf: "json_wf (JObj c)" "json_wf child" using "2.prems"(2) JObj child by (auto dest: jobj_wf_get)
    show ?thesis
    proof (cases "segs = []")
      case True
      with "2.prems"(1) JObj child wf jobj_wf_mdel [of c seg] show ?thesis by auto
    next
      case False
      with "2.prems"(1) JObj child obtain n where n: "patchRemove child segs = Inr (n, r)"
        "new = JObj (mput seg n c)"
        by (auto simp: rbind_Inr_iff)
      with "2.IH"(2) [OF JObj child False n(1) wf(2)] wf(1) show ?thesis by (simp add: jobj_wf_mput)
    qed
  qed (use "2.prems" in simp_all)
qed simp

lemma apply_op_wf:
  assumes "apply_op doc op = Inr new" "json_wf doc" "json_wf (JObj op)"
  shows "json_wf new"
proof -
  have v: "json_wf (jmember op ''value'')" using assms(3) by (rule jobj_wf_member)
  show ?thesis
    using assms(1,2) v
    by (auto simp: apply_op_def Let_def rbind_Inr_iff split: if_splits
        dest: patchSet_wf patchRemove_wf patchGet_wf)
qed

lemma apply_ops_wf:
  "apply_ops doc ops = Some (Inr new) \<Longrightarrow> json_wf doc \<Longrightarrow> list_all (\<lambda>op. json_wf (JObj op)) ops \<Longrightarrow> json_wf new"
  by (induction doc ops rule: apply_ops.induct)
    (auto split: sum.splits if_splits dest: apply_op_wf)

section \<open>Merging\<close>

lemma loop_inv:
  assumes "loop f xs s = Some t" "P s" "\<And>x u v. x \<in> set xs \<Longrightarrow> P u \<Longrightarrow> f x u = Some v \<Longrightarrow> P v"
  shows "P t"
  using assms
proof (induction xs arbitrary: s)
  case (Cons x xs)
  then obtain u where "f x s = Some u" "loop f xs u = Some t" by (auto simp: bind_eq_Some_conv)
  with Cons.prems(2,3) show ?case by (intro Cons.IH [of u]) auto
qed simp

definition named_wf :: "named \<Rightarrow> bool" where
  "named_wf st \<longleftrightarrow> (\<forall>n m. mget (fst st) n = Some m \<longrightarrow> json_wf (JObj m))"

lemma named_wf_put: "named_wf (b, ord, rm) \<Longrightarrow> json_wf (JObj m) \<Longrightarrow> named_wf (mput n m b, ord', rm')"
  by (auto simp: named_wf_def mget_mput split: if_splits)

lemma named_wf_get: "named_wf (b, ord, rm) \<Longrightarrow> mget b n = Some m \<Longrightarrow> json_wf (JObj m)"
  by (simp add: named_wf_def)

lemma index_base_wf: "list_all json_wf base \<Longrightarrow> named_wf (index_base deleted base)"
proof -
  have "named_wf (fold (\<lambda>el (byName, ord, removed). case (el, element_name el) of
         (JObj m, Some n) \<Rightarrow>
           if n \<in> set deleted then (byName, ord, removed) else (mput n m byName, ord @ [n], removed)
       | _ \<Rightarrow> (byName, ord, removed)) base st)" if "list_all json_wf base" "named_wf st" for st
    using that
  proof (induction base arbitrary: st)
    case (Cons el base)
    have "named_wf ((\<lambda>(byName, ord, removed). case (el, element_name el) of
         (JObj m, Some n) \<Rightarrow>
           if n \<in> set deleted then (byName, ord, removed) else (mput n m byName, ord @ [n], removed)
       | _ \<Rightarrow> (byName, ord, removed)) st)"
      using Cons.prems by (cases st) (auto split: json.split option.split intro: named_wf_put)
    then show ?case using Cons by simp
  qed simp
  moreover have "named_wf ([], [], [])" by (simp add: named_wf_def)
  ultimately show "named_wf (index_base deleted base)" if "list_all json_wf base"
    using that unfolding index_base_def by blast
qed

lemma pick_elements_wf: "named_wf (b, ord, rm) \<Longrightarrow> list_all json_wf (pick_elements b skip ns)"
  by (induction b skip ns rule: pick_elements.induct)
    (auto simp: named_wf_def split: option.split)

definition keeps_wf :: "(jobj \<Rightarrow> jobj \<Rightarrow> (bool \<times> jobj) option) \<Rightarrow> jobj \<Rightarrow> bool" where
  "keeps_wf rec m \<longleftrightarrow> (\<forall>b r new. json_wf (JObj b) \<longrightarrow> rec b m = Some (r, new) \<longrightarrow> json_wf (JObj new))"

lemma merge_element_wf:
  assumes "merge_element rec deleted el st = Some st'" "named_wf st" "json_wf el" "\<And>m. el = JObj m \<Longrightarrow> keeps_wf rec m"
  shows "named_wf st'"
proof -
  obtain b ord rm where st: "st = (b, ord, rm)" by (cases st)
  have "json_wf (JObj new)" if "rec [] m = Some (r, new)" "el = JObj m" for m r new
    using assms(4) [OF that(2)] that(1) jobj_wf_Nil unfolding keeps_wf_def by blast
  then show ?thesis
    using assms
    by (auto simp: merge_element_def st Let_def bind_eq_Some_conv keeps_wf_def
        split: if_splits json.splits option.splits intro!: named_wf_put dest: named_wf_get)
qed

lemma markers_wf: "list_all json_wf xs \<Longrightarrow> list_all json_wf (listWithoutPatchMarkers xs)"
  by (simp add: listWithoutPatchMarkers_def list_all_iff)

lemma mergeNamedArray_wf:
  assumes "mergeNamedArray rec base overlay = Some (Some xs)" "list_all json_wf base" "list_all json_wf overlay"
    "\<And>m. JObj m \<in> set overlay \<Longrightarrow> keeps_wf rec m"
  shows "list_all json_wf xs"
proof (cases "list_ex (\<lambda>el. patch_marker el = Some (JStr ''replace'')) overlay")
  case True
  with assms(1) have "xs = listWithoutPatchMarkers overlay" by (simp add: mergeNamedArray_def)
  with assms(3) show ?thesis by (simp add: markers_wf)
next
  case False
  let ?d = "deleted_names overlay"
  obtain b ord rm where l: "loop (merge_element rec ?d) overlay (index_base ?d base) = Some (b, ord, rm)"
    and xs: "xs = pick_elements b rm ord"
    using assms(1) False by (auto simp: mergeNamedArray_def Let_def bind_eq_Some_conv split: if_splits)
  have "named_wf (b, ord, rm)"
    using l index_base_wf [OF assms(2)]
    by (rule loop_inv [where P = named_wf]) (use assms(3,4) in \<open>auto simp: list_all_iff intro: merge_element_wf\<close>)
  then show ?thesis unfolding xs by (rule pick_elements_wf)
qed

lemma merge_field_wf:
  assumes "merge_field rec k v base = Some new" "json_wf (JObj base)" "json_wf v"
    "\<And>m. v = JObj m \<Longrightarrow> keeps_wf rec m" "\<And>xs m. v = JArr xs \<Longrightarrow> JObj m \<in> set xs \<Longrightarrow> keeps_wf rec m"
  shows "json_wf (JObj new)"
proof (cases "HasPrefix k ''$''")
  case False
  show ?thesis
  proof (cases v)
    case (JObj om)
    let ?b = "case mget base k of Some (JObj bm) \<Rightarrow> bm | _ \<Rightarrow> []"
    have "json_wf (JObj ?b)" using assms(2) by (auto split: option.split json.split dest: jobj_wf_get)
    then show ?thesis
      using assms(1,2) assms(4) [OF JObj] False JObj
      by (auto simp: merge_field_def bind_eq_Some_conv keeps_wf_def split: if_splits
          intro!: jobj_wf_intros)
  next
    case (JArr oa)
    have oa: "list_all json_wf (listWithoutPatchMarkers oa)" using assms(3) JArr by (simp add: markers_wf)
    show ?thesis
    proof (cases "\<exists>ba. mget base k = Some (JArr ba)")
      case True
      then obtain ba where ba: "mget base k = Some (JArr ba)" by blast
      then have wfba: "list_all json_wf ba" using jobj_wf_get [OF assms(2) ba] by simp
      obtain merged where m: "mergeNamedArray rec ba oa = Some merged"
        and new: "new = mput k (JArr (case merged of Some xs \<Rightarrow> xs | None \<Rightarrow> listWithoutPatchMarkers oa)) base"
        using assms(1) False JArr ba by (auto simp: merge_field_def bind_eq_Some_conv)
      have "list_all json_wf (case merged of Some xs \<Rightarrow> xs | None \<Rightarrow> listWithoutPatchMarkers oa)"
        using m oa wfba assms(3) assms(5) [OF JArr] JArr
        by (auto split: option.split intro: mergeNamedArray_wf)
      then show ?thesis unfolding new using assms(2) by (intro jobj_wf_mput) simp_all
    next
      case other: False
      then have "new = mput k (JArr (listWithoutPatchMarkers oa)) base"
        using assms(1) False JArr by (auto simp: merge_field_def split: option.splits json.splits)
      then show ?thesis using assms(2) oa by (metis jobj_wf_mput json_wf.simps(1))
    qed
  qed (use assms(1,2) False in \<open>auto simp: merge_field_def intro!: jobj_wf_intros\<close>)
qed (use assms in \<open>simp add: merge_field_def\<close>)

lemma on_list_wf:
  assumes "\<And>xs ys. set (f xs ys) \<subseteq> set xs" "json_wf (JObj base)"
  shows "json_wf (JObj (on_list f fv base))"
proof -
  have "list_all json_wf (f xs (snd fv))" if "mget base (fst fv) = Some (JArr xs)" for xs
    using jobj_wf_get [OF assms(2) that] assms(1) [of xs "snd fv"] by (auto simp: list_all_iff)
  with assms(2) show ?thesis
    by (auto simp: on_list_def split: option.split json.split intro!: jobj_wf_mput)
qed

lemma fold_on_list_wf:
  "(\<And>xs ys. set (f xs ys) \<subseteq> set xs) \<Longrightarrow> json_wf (JObj base) \<Longrightarrow> json_wf (JObj (fold (on_list f) fvs base))"
  by (induction fvs arbitrary: base) (simp_all add: on_list_wf)

lemma finish_merge_wf: "json_wf (JObj base) \<Longrightarrow> json_wf (JObj (finish_merge overlay base))"
proof -
  assume "json_wf (JObj base)"
  then have "json_wf (JObj (fold (on_list orderElements) (directive_lists ''$setElementOrder/'' overlay)
         (fold (on_list deletePrimitiveValues) (directive_lists ''$deleteFromPrimitiveList/'' overlay) base)))"
    by (intro fold_on_list_wf) (auto simp: orderElements_def deletePrimitiveValues_def)
  then show ?thesis
    by (auto simp: finish_merge_def retained_def split: option.split json.split intro: jobj_wf_mdrop)
qed

lemma jsonMerge_wf: "json_wf (JObj overlay) \<Longrightarrow> keeps_wf jsonMerge overlay"
proof (induction overlay rule: measure_induct_rule [where f = "\<lambda>p. size (JObj p)"])
  case (less overlay)
  have field: "json_wf (JObj new)"
    if "x \<in> set overlay" "json_wf (JObj b)" "merge_field jsonMerge (fst x) (snd x) b = Some new" for x b new
  proof (rule merge_field_wf [OF that(3,2)])
    have e: "(fst x, snd x) \<in> set overlay" using that(1) by simp
    show wf: "json_wf (snd x)" using less.prems that(1) by (rule jobj_wf_entry)
    fix m
    assume "snd x = JObj m"
    then show "keeps_wf jsonMerge m"
      using size_entry [OF e] wf by (intro less.IH) simp_all
  next
    have e: "(fst x, snd x) \<in> set overlay" using that(1) by simp
    fix xs m
    assume xs: "snd x = JArr xs" and m: "JObj m \<in> set xs"
    have "json_wf (JObj m)"
      using jobj_wf_entry [OF less.prems that(1)] xs m by (auto simp: list_all_iff)
    moreover have "size (JObj m) < size (JObj overlay)"
      using size_entry [OF e] size_element [OF m] xs by simp
    ultimately show "keeps_wf jsonMerge m" by (intro less.IH)
  qed
  show ?case
    unfolding keeps_wf_def
  proof (intro allI impI)
    fix b r new
    assume b: "json_wf (JObj b)" and merged: "jsonMerge b overlay = Some (r, new)"
    let ?b = "if mget overlay ''$patch'' = Some (JStr ''replace'') then [] else b"
    show "json_wf (JObj new)"
    proof (cases "mget overlay ''$patch'' = Some (JStr ''delete'')")
      case True
      with merged b show ?thesis by (subst (asm) jsonMerge.simps) simp
    next
      case False
      then obtain c where c: "loop (\<lambda>x. merge_field jsonMerge (fst x) (snd x)) overlay ?b = Some c"
        and new: "new = finish_merge overlay c"
        using merged by (subst (asm) jsonMerge.simps) (auto simp: bind_eq_Some_conv)
      have "json_wf (JObj ?b)" using b by simp
      with c have "json_wf (JObj c)"
        by (rule loop_inv [where P = "\<lambda>m. json_wf (JObj m)"]) (rule field)
      then show ?thesis unfolding new by (rule finish_merge_wf)
    qed
  qed
qed

lemma patches_keep_documents_well_formed:
  assumes "json_wf (JObj doc)" "json_wf (JObj overlay)" "list_all (\<lambda>op. json_wf (JObj op)) ops"
  shows "(\<forall>r m. jsonMerge doc overlay = Some (r, m) \<longrightarrow> json_wf (JObj m)) \<and>
    (\<forall>new. applyJSONPatch doc ops = Some (Inr new) \<longrightarrow> json_wf new)"
  using jsonMerge_wf [OF assms(2)] assms(1,3) apply_ops_wf [of "JObj doc" ops]
  unfolding keeps_wf_def applyJSONPatch_def by blast

section \<open>What a merge never stores\<close>

text \<open>
  A document without leftovers of a patch: down through its objects no member is null and none is a
  directive, and no element of a list that is a member carries a patch marker.
\<close>

fun clean :: "json \<Rightarrow> bool" where
  "clean (JObj m) = list_all (\<lambda>(k, v). \<not> HasPrefix k ''$'' \<and> v \<noteq> JNull \<and> clean v) m"
| "clean (JArr xs) = list_all (\<lambda>x. patch_marker x = None) xs"
| "clean _ = True"

lemma clean_object_iff:
  "clean (JObj m) \<longleftrightarrow> (\<forall>(k, v) \<in> set m. \<not> HasPrefix k ''$'' \<and> v \<noteq> JNull \<and> clean v)"
  by (auto simp: list_all_iff)

lemma set_mput: "set (mput k v m) \<subseteq> insert (k, v) (set m)"
  by (induction m) auto

lemma clean_mput: "clean (JObj m) \<Longrightarrow> \<not> HasPrefix k ''$'' \<Longrightarrow> v \<noteq> JNull \<Longrightarrow> clean v \<Longrightarrow> clean (JObj (mput k v m))"
  using set_mput [of k v m] unfolding clean_object_iff by blast

lemma clean_mdel: "clean (JObj m) \<Longrightarrow> clean (JObj (mdel k m))"
  unfolding clean_object_iff by (auto simp: AList.delete_eq)

lemma clean_mdrop: "clean (JObj m) \<Longrightarrow> clean (JObj (mdrop p m))"
  unfolding clean_object_iff by (auto simp: mdrop_def)

lemma clean_get: "clean (JObj m) \<Longrightarrow> mget m k = Some v \<Longrightarrow> \<not> HasPrefix k ''$'' \<and> v \<noteq> JNull \<and> clean v"
  using map_of_SomeD [of m k v] unfolding clean_object_iff by blast

text \<open>What merging into one object keeps: being clean, and having no patch marker.\<close>

definition unmarked :: "jobj \<Rightarrow> bool" where
  "unmarked m \<longleftrightarrow> mget m ''$patch'' = None"

definition keeps_clean :: "(jobj \<Rightarrow> jobj \<Rightarrow> (bool \<times> jobj) option) \<Rightarrow> jobj \<Rightarrow> bool" where
  "keeps_clean rec m \<longleftrightarrow> (\<forall>b r new. rec b m = Some (r, new) \<longrightarrow>
     (clean (JObj b) \<longrightarrow> clean (JObj new)) \<and> (unmarked b \<longrightarrow> unmarked new))"

lemma keeps_cleanD:
  assumes "keeps_clean rec m" "rec b m = Some (r, new)"
  shows "clean (JObj b) \<Longrightarrow> clean (JObj new)" and "unmarked b \<Longrightarrow> unmarked new"
  using assms unfolding keeps_clean_def by blast+

lemma unmarked_Nil [simp]: "unmarked []"
  by (simp add: unmarked_def)

lemma marker_unmarked [simp]: "patch_marker (JObj m) = None \<longleftrightarrow> unmarked m"
  by (simp add: patch_marker_def unmarked_def)

lemma directive_not_marker: "\<not> HasPrefix k ''$'' \<Longrightarrow> k \<noteq> ''$patch''"
  by (auto simp: HasPrefix_def)

lemma unmarked_mput: "unmarked m \<Longrightarrow> k \<noteq> ''$patch'' \<Longrightarrow> unmarked (mput k v m)"
  by (simp add: unmarked_def mget_mput)

lemma unmarked_mdel: "unmarked m \<Longrightarrow> unmarked (mdel k m)"
  by (simp add: unmarked_def mget_mdel)

lemma unmarked_mdrop: "unmarked m \<Longrightarrow> unmarked (mdrop p m)"
  by (simp add: unmarked_def mget_mdrop)

definition named_unmarked :: "named \<Rightarrow> bool" where
  "named_unmarked st \<longleftrightarrow> (\<forall>n m. mget (fst st) n = Some m \<longrightarrow> unmarked m)"

lemma named_unmarked_put: "named_unmarked (b, ord, rm) \<Longrightarrow> unmarked m \<Longrightarrow> named_unmarked (mput n m b, ord', rm')"
  by (auto simp: named_unmarked_def mget_mput split: if_splits)

lemma named_unmarked_get: "named_unmarked (b, ord, rm) \<Longrightarrow> mget b n = Some m \<Longrightarrow> unmarked m"
  by (simp add: named_unmarked_def)

lemma index_base_unmarked:
  assumes "clean (JArr base)"
  shows "named_unmarked (index_base deleted base)"
proof -
  have "named_unmarked (fold (\<lambda>el (byName, ord, removed). case (el, element_name el) of
         (JObj m, Some n) \<Rightarrow>
           if n \<in> set deleted then (byName, ord, removed) else (mput n m byName, ord @ [n], removed)
       | _ \<Rightarrow> (byName, ord, removed)) base st)" if "clean (JArr base)" "named_unmarked st" for st
    using that
  proof (induction base arbitrary: st)
    case (Cons el base)
    have "named_unmarked ((\<lambda>(byName, ord, removed). case (el, element_name el) of
         (JObj m, Some n) \<Rightarrow>
           if n \<in> set deleted then (byName, ord, removed) else (mput n m byName, ord @ [n], removed)
       | _ \<Rightarrow> (byName, ord, removed)) st)"
      using Cons.prems by (cases st) (auto split: json.split option.split intro: named_unmarked_put)
    then show ?case using Cons by simp
  qed simp
  moreover have "named_unmarked ([], [], [])" by (simp add: named_unmarked_def)
  ultimately show ?thesis using assms unfolding index_base_def by blast
qed

lemma pick_elements_clean: "named_unmarked (b, ord, rm) \<Longrightarrow> clean (JArr (pick_elements b skip ns))"
  by (induction b skip ns rule: pick_elements.induct)
    (auto simp: named_unmarked_def split: option.split)

lemma merge_element_unmarked:
  assumes "merge_element rec deleted el st = Some st'" "named_unmarked st" "\<And>m. el = JObj m \<Longrightarrow> keeps_clean rec m"
  shows "named_unmarked st'"
proof -
  obtain b ord rm where st: "st = (b, ord, rm)" by (cases st)
  have "unmarked new" if "rec x m = Some (r, new)" "el = JObj m" "unmarked x" for x m r new
    using keeps_cleanD(2) [OF assms(3) [OF that(2)] that(1,3)] .
  then show ?thesis
    using assms(1,2)
    by (auto simp: merge_element_def st Let_def bind_eq_Some_conv
        split: if_splits json.splits option.splits intro!: named_unmarked_put dest: named_unmarked_get)
qed

lemma markers_clean: "clean (JArr (listWithoutPatchMarkers xs))"
  by (simp add: listWithoutPatchMarkers_def list_all_iff)

lemma mergeNamedArray_clean:
  assumes "mergeNamedArray rec base overlay = Some (Some xs)" "clean (JArr base)"
    "\<And>m. JObj m \<in> set overlay \<Longrightarrow> keeps_clean rec m"
  shows "clean (JArr xs)"
proof (cases "list_ex (\<lambda>el. patch_marker el = Some (JStr ''replace'')) overlay")
  case True
  with assms(1) have "xs = listWithoutPatchMarkers overlay" by (simp add: mergeNamedArray_def)
  then show ?thesis using markers_clean by blast
next
  case False
  let ?d = "deleted_names overlay"
  obtain b ord rm where l: "loop (merge_element rec ?d) overlay (index_base ?d base) = Some (b, ord, rm)"
    and xs: "xs = pick_elements b rm ord"
    using assms(1) False by (auto simp: mergeNamedArray_def Let_def bind_eq_Some_conv split: if_splits)
  have "named_unmarked (b, ord, rm)"
    using l index_base_unmarked [OF assms(2)]
    by (rule loop_inv [where P = named_unmarked]) (use assms(3) in \<open>auto intro: merge_element_unmarked\<close>)
  then show ?thesis unfolding xs by (rule pick_elements_clean)
qed

lemma merge_field_clean:
  assumes "merge_field rec k v base = Some new"
    "\<And>m. v = JObj m \<Longrightarrow> keeps_clean rec m" "\<And>xs m. v = JArr xs \<Longrightarrow> JObj m \<in> set xs \<Longrightarrow> keeps_clean rec m"
  shows "(clean (JObj base) \<longrightarrow> clean (JObj new)) \<and> (unmarked base \<longrightarrow> unmarked new)"
proof (cases "HasPrefix k ''$''")
  case False
  note k = False directive_not_marker [OF False]
  show ?thesis
  proof (cases v)
    case (JObj om)
    let ?b = "case mget base k of Some (JObj bm) \<Rightarrow> bm | _ \<Rightarrow> []"
    obtain r n where rec: "rec ?b om = Some (r, n)" and new: "new = (if r then mdel k base else mput k (JObj n) base)"
      using assms(1) False JObj by (auto simp: merge_field_def bind_eq_Some_conv)
    have "clean (JObj base) \<Longrightarrow> clean (JObj ?b)"
    proof (cases "\<exists>bm. mget base k = Some (JObj bm)")
      case True
      then obtain bm where bm: "mget base k = Some (JObj bm)" by blast
      assume "clean (JObj base)"
      from clean_get [OF this bm] show "clean (JObj ?b)" unfolding bm option.case json.case by (elim conjE)
    next
      case no: False
      then have "?b = []" by (auto split: option.split json.split)
      then show "clean (JObj ?b)" by simp
    qed
    then have "clean (JObj base) \<Longrightarrow> clean (JObj n)" using keeps_cleanD(1) [OF assms(2) [OF JObj] rec] by blast
    then show ?thesis unfolding new using k
      by (auto simp del: clean.simps intro: clean_mdel clean_mput unmarked_mdel unmarked_mput)
  next
    case (JArr oa)
    obtain zs where new: "new = mput k (JArr zs) base" and zs: "clean (JObj base) \<Longrightarrow> clean (JArr zs)"
    proof (cases "\<exists>ba. mget base k = Some (JArr ba)")
      case True
      then obtain ba where ba: "mget base k = Some (JArr ba)" by blast
      obtain merged where m: "mergeNamedArray rec ba oa = Some merged"
        and new: "new = mput k (JArr (case merged of Some xs \<Rightarrow> xs | None \<Rightarrow> listWithoutPatchMarkers oa)) base"
        using assms(1) False JArr ba by (auto simp: merge_field_def bind_eq_Some_conv)
      have "clean (JArr (case merged of Some xs \<Rightarrow> xs | None \<Rightarrow> listWithoutPatchMarkers oa))" if "clean (JObj base)"
        using m markers_clean [of oa] mergeNamedArray_clean [of rec ba oa] assms(3) [OF JArr] clean_get [OF that ba]
        by (cases merged) (simp_all del: clean.simps)
      with new show thesis by (rule that)
    next
      case other: False
      then have "new = mput k (JArr (listWithoutPatchMarkers oa)) base"
        using assms(1) False JArr by (auto simp: merge_field_def split: option.splits json.splits)
      then show thesis using markers_clean that by blast
    qed
    then show ?thesis unfolding new using k by (auto simp del: clean.simps intro: clean_mput unmarked_mput)
  next
    case JNull
    then have "new = mdel k base" using assms(1) False by (simp add: merge_field_def)
    then show ?thesis by (simp del: clean.simps add: clean_mdel unmarked_mdel)
  qed (use assms(1) k in \<open>auto simp: merge_field_def simp del: clean.simps(1) intro!: clean_mput unmarked_mput\<close>)
qed (use assms(1) in \<open>simp add: merge_field_def\<close>)

lemma on_list_clean:
  assumes "\<And>xs ys. set (f xs ys) \<subseteq> set xs"
  shows "clean (JObj base) \<Longrightarrow> clean (JObj (on_list f fv base))" and "unmarked base \<Longrightarrow> unmarked (on_list f fv base)"
proof -
  show "clean (JObj (on_list f fv base))" if "clean (JObj base)"
  proof (cases "\<exists>xs. mget base (fst fv) = Some (JArr xs)")
    case True
    then obtain xs where xs: "mget base (fst fv) = Some (JArr xs)" by blast
    have "clean (JArr (f xs (snd fv)))"
      using clean_get [OF that xs] assms [of xs "snd fv"] by (auto simp: list_all_iff)
    then show ?thesis
      using that clean_get [OF that xs] xs by (auto simp: on_list_def simp del: clean.simps intro: clean_mput)
  qed (use that in \<open>auto simp: on_list_def simp del: clean.simps split: option.split json.split\<close>)
  show "unmarked (on_list f fv base)" if "unmarked base"
    using that by (auto simp: on_list_def unmarked_def mget_mput split: option.split json.split)
qed

lemma fold_on_list_clean:
  assumes "\<And>xs ys. set (f xs ys) \<subseteq> set xs"
  shows "clean (JObj base) \<Longrightarrow> clean (JObj (fold (on_list f) fvs base))"
    and "unmarked base \<Longrightarrow> unmarked (fold (on_list f) fvs base)"
  by (induction fvs arbitrary: base) (simp_all del: clean.simps add: on_list_clean [OF assms])

lemma finish_merge_clean:
  "clean (JObj base) \<Longrightarrow> clean (JObj (finish_merge overlay base))" "unmarked base \<Longrightarrow> unmarked (finish_merge overlay base)"
proof -
  have o: "set (orderElements xs ys) \<subseteq> set xs" "set (deletePrimitiveValues xs ys) \<subseteq> set xs" for xs ys
    by (auto simp: orderElements_def deletePrimitiveValues_def)
  have r: "clean (JObj b) \<Longrightarrow> clean (JObj (retained overlay b))" "unmarked b \<Longrightarrow> unmarked (retained overlay b)" for b
    by (auto simp: retained_def simp del: clean.simps split: option.split json.split
        intro: clean_mdrop unmarked_mdrop)
  show "clean (JObj base) \<Longrightarrow> clean (JObj (finish_merge overlay base))"
    unfolding finish_merge_def by (intro r fold_on_list_clean o)
  show "unmarked base \<Longrightarrow> unmarked (finish_merge overlay base)"
    unfolding finish_merge_def by (intro r fold_on_list_clean o)
qed

lemma jsonMerge_clean: "keeps_clean jsonMerge overlay"
proof (induction overlay rule: measure_induct_rule [where f = "\<lambda>p. size (JObj p)"])
  case (less overlay)
  have field: "(clean (JObj b) \<longrightarrow> clean (JObj new)) \<and> (unmarked b \<longrightarrow> unmarked new)"
    if "x \<in> set overlay" "merge_field jsonMerge (fst x) (snd x) b = Some new" for x b new
  proof (rule merge_field_clean [OF that(2)])
    have e: "(fst x, snd x) \<in> set overlay" using that(1) by simp
    fix m
    assume "snd x = JObj m"
    then show "keeps_clean jsonMerge m" using size_entry [OF e] by (intro less.IH) simp_all
  next
    have e: "(fst x, snd x) \<in> set overlay" using that(1) by simp
    fix xs m
    assume xs: "snd x = JArr xs" and m: "JObj m \<in> set xs"
    have "size (JObj m) < size (JObj overlay)" using size_entry [OF e] size_element [OF m] xs by simp
    then show "keeps_clean jsonMerge m" by (intro less.IH)
  qed
  show ?case
    unfolding keeps_clean_def
  proof (intro allI impI)
    fix b r new
    assume merged: "jsonMerge b overlay = Some (r, new)"
    let ?b = "if mget overlay ''$patch'' = Some (JStr ''replace'') then [] else b"
    show "(clean (JObj b) \<longrightarrow> clean (JObj new)) \<and> (unmarked b \<longrightarrow> unmarked new)"
    proof (cases "mget overlay ''$patch'' = Some (JStr ''delete'')")
      case True
      with merged show ?thesis by (subst (asm) jsonMerge.simps) simp
    next
      case False
      then obtain c where c: "loop (\<lambda>x. merge_field jsonMerge (fst x) (snd x)) overlay ?b = Some c"
        and new: "new = finish_merge overlay c"
        using merged by (subst (asm) jsonMerge.simps) (auto simp: bind_eq_Some_conv)
      have "clean (JObj ?b) \<Longrightarrow> clean (JObj c)"
        using c by (rule loop_inv [where P = "\<lambda>m. clean (JObj m)"]) (use field in blast)+
      moreover have "unmarked ?b \<Longrightarrow> unmarked c"
        using c by (rule loop_inv [where P = unmarked]) (use field in blast)+
      ultimately show ?thesis unfolding new using finish_merge_clean [of c overlay] by (auto split: if_splits)
    qed
  qed
qed

text \<open>
  C27: Merging any patch, strategic directives included, into a document without leftovers of a patch
  leaves none: the nulls and the $ directives of the patch are carried out, at whatever depth of
  objects, and never stored.  (Elements of lists are only promised to carry no patch marker: a list
  that replaces another is stored as it was sent.)
\<close>

theorem merges_store_no_nulls_or_directives:
  assumes "clean (JObj doc)" and "jsonMerge doc overlay = Some (r, m)"
  shows "clean (JObj m)"
  using keeps_cleanD(1) [OF jsonMerge_clean assms(2,1)] .

definition dirty_overlay :: jobj where
  "dirty_overlay =
     [(''$retainKeys'', JArr [JStr ''a'', JStr ''l'']),
      (''a'', JObj [(''b'', JNull), (''c'', JObj [(''d'', JNull), (''$patch'', JStr ''replace'')])]),
      (''l'', JArr [JObj [(''name'', JStr ''x''), (''v'', JNull)], JObj [(''name'', JStr ''y''), (''$patch'', JStr ''delete'')]])]"

definition clean_doc :: jobj where
  "clean_doc =
     [(''a'', JObj [(''b'', JNum ''1'')]), (''gone'', JBool True),
      (''l'', JArr [JObj [(''name'', JStr ''x''), (''v'', JNum ''2'')], JObj [(''name'', JStr ''y'')]])]"

lemma dirty_merge:
  "jsonMerge clean_doc dirty_overlay =
     Some (False, [(''a'', JObj [(''c'', JObj [])]), (''l'', JArr [JObj [(''name'', JStr ''x'')]])])"
  by code_simp

theorem merges_store_no_nulls_or_directives_witness:
  "clean (JObj [(''a'', JObj [(''c'', JObj [])]), (''l'', JArr [JObj [(''name'', JStr ''x'')]])])"
proof (rule merges_store_no_nulls_or_directives [OF _ dirty_merge])
  show "clean (JObj clean_doc)" by code_simp
qed

end
