(* ===== verification/PatchProperties.thy ===== *)
theory PatchProperties
  imports PatchTypes
begin

text \<open>
  What patches do to a document: merge patches follow RFC 7386, JSON Patch operations read what
  they wrote, and server-side apply replaces the sections of the user and nothing else.
\<close>

declare split_paired_All [simp del] split_paired_Ex [simp del]

section \<open>Merge patches\<close>

text \<open>The algorithm of RFC 7386.\<close>

definition target_object :: "json \<Rightarrow> jobj" where
  "target_object t = (case t of JObj m \<Rightarrow> m | _ \<Rightarrow> [])"

function merge_patch :: "json \<Rightarrow> json \<Rightarrow> json" where
  "merge_patch target patch =
     (case patch of
        JObj p \<Rightarrow> JObj (fold (\<lambda>x t. if snd x = JNull then mdel (fst x) t
                 else mput (fst x) (merge_patch (jmember t (fst x)) (snd x)) t) p (target_object target))
      | _ \<Rightarrow> patch)"
  by pat_completeness auto
termination
proof (relation "measure (\<lambda>(_, p). size p)", goal_cases)
  case (2 target patch p x t)
  then have "size (snd x) < size (JObj p)" by (intro size_entry [of "fst x"]) simp
  with 2 show ?case by (simp only: in_measure prod.case)
qed simp

declare merge_patch.simps [simp del]

text \<open>
  A patch without directives and whose lists are neither empty nor hold objects: what a client sends
  that does not count on strategic merging.
\<close>

fun plain_patch :: "json \<Rightarrow> bool" where
  "plain_patch (JObj m) = list_all (\<lambda>(k, v). \<not> HasPrefix k ''$'' \<and> plain_patch v) m"
| "plain_patch (JArr xs) = (xs \<noteq> [] \<and> list_all (\<lambda>x. case x of JObj _ \<Rightarrow> False | _ \<Rightarrow> True) xs)"
| "plain_patch _ = True"

lemma plain_no_directive:
  assumes "plain_patch (JObj overlay)" "HasPrefix k ''$''"
  shows "mget overlay k = None"
proof (rule ccontr)
  assume "mget overlay k \<noteq> None"
  then obtain v where "(k, v) \<in> set overlay" by (auto dest: map_of_SomeD)
  with assms show False by (auto simp: list_all_iff)
qed

lemma HasPrefix_dollar: "HasPrefix k p \<Longrightarrow> HasPrefix p ''$'' \<Longrightarrow> HasPrefix k ''$''"
  unfolding HasPrefix_def by (cases p; cases k) auto

lemma plain_directive_lists:
  assumes "plain_patch (JObj overlay)" "HasPrefix p ''$''"
  shows "directive_lists p overlay = []"
proof -
  have "(case x of (k, v) \<Rightarrow> (case v of JArr xs \<Rightarrow> if HasPrefix k p then Some (TrimPrefix k p, xs) else None
      | _ \<Rightarrow> None)) = None" if "x \<in> set overlay" for x
    using assms that HasPrefix_dollar [of "fst x" p] by (cases x) (auto simp: list_all_iff split: json.split)
  then show ?thesis by (simp add: directive_lists_def map_filter_def)
qed

lemma finish_plain: "plain_patch (JObj overlay) \<Longrightarrow> finish_merge overlay base = base"
  by (simp add: finish_merge_def plain_directive_lists retained_def plain_no_directive HasPrefix_def)

lemma plain_list:
  assumes "plain_patch (JArr xs)"
  shows "listWithoutPatchMarkers xs = xs" "mergeNamedArray rec base xs = Some None"
proof -
  have m: "patch_marker x = None" if "x \<in> set xs" for x
    using that assms by (auto simp: list_all_iff patch_marker_def split: json.splits)
  then show "listWithoutPatchMarkers xs = xs" by (simp add: listWithoutPatchMarkers_def)
  have "\<not> list_ex (\<lambda>el. patch_marker el = Some (JStr ''replace'')) xs" using m by (auto simp: list_ex_iff)
  moreover have "list_ex (\<lambda>el. case el of JObj _ \<Rightarrow> False | _ \<Rightarrow> True) xs"
    using assms by (cases xs) (auto split: json.splits)
  ultimately show "mergeNamedArray rec base xs = Some None" by (simp add: mergeNamedArray_def)
qed

lemma jsonMerge_plain:
  assumes "plain_patch (JObj overlay)"
  shows "jsonMerge base overlay =
    Option.bind (loop (\<lambda>x. merge_field jsonMerge (fst x) (snd x)) overlay base) (\<lambda>b. Some (False, b))"
  using plain_no_directive [OF assms, of "''$patch''"]
  by (subst jsonMerge.simps) (simp add: finish_plain [OF assms] HasPrefix_def)

lemma merge_field_plain:
  assumes "\<not> HasPrefix k ''$''" "plain_patch v"
    and IH: "\<And>o' b. v = JObj o' \<Longrightarrow> jsonMerge b o' = Some (False, target_object (merge_patch (JObj b) (JObj o')))"
  shows "merge_field jsonMerge k v base =
    Some (if v = JNull then mdel k base else mput k (merge_patch (jmember base k) v) base)"
proof (cases v)
  case (JObj o')
  let ?b = "case mget base k of Some (JObj bm) \<Rightarrow> bm | _ \<Rightarrow> []"
  have "JObj (target_object (merge_patch (JObj ?b) (JObj o'))) = merge_patch (JObj ?b) (JObj o')"
    by (subst (2) merge_patch.simps, subst merge_patch.simps) (simp add: target_object_def)
  also have "merge_patch (JObj ?b) (JObj o') = merge_patch (jmember base k) (JObj o')"
    by (subst (1 2) merge_patch.simps) (simp add: target_object_def jmember_def split: option.split json.split)
  finally show ?thesis
    using JObj assms(1) IH [OF JObj, of ?b] by (simp add: merge_field_def)
next
  case (JArr xs)
  with assms(1,2) plain_list [of xs] show ?thesis
    by (auto simp: merge_field_def merge_patch.simps split: option.split json.split)
qed (use assms(1) in \<open>simp_all add: merge_field_def merge_patch.simps\<close>)

lemma loop_fold: "(\<And>x s. x \<in> set xs \<Longrightarrow> f x s = Some (g x s)) \<Longrightarrow> loop f xs s = Some (fold g xs s)"
  by (induction xs arbitrary: s) simp_all

lemma jsonMerge_rfc:
  "plain_patch (JObj overlay) \<Longrightarrow>
    jsonMerge base overlay = Some (False, target_object (merge_patch (JObj base) (JObj overlay)))"
proof (induction overlay arbitrary: base rule: measure_induct_rule [where f = "\<lambda>p. size (JObj p)"])
  case (less overlay)
  have step: "merge_field jsonMerge (fst x) (snd x) b = Some (if snd x = JNull then mdel (fst x) b
      else mput (fst x) (merge_patch (jmember b (fst x)) (snd x)) b)" if x: "x \<in> set overlay" for x b
  proof (rule merge_field_plain)
    show "\<not> HasPrefix (fst x) ''$''" "plain_patch (snd x)"
      using less.prems x by (auto simp: list_all_iff)
    fix o' b assume o': "snd x = JObj o'"
    then have "size (JObj o') < size (JObj overlay)"
      using x size_entry [of "fst x" "snd x" overlay] by (metis prod.collapse)
    moreover have "plain_patch (JObj o')" using \<open>plain_patch (snd x)\<close> o' by simp
    ultimately show "jsonMerge b o' = Some (False, target_object (merge_patch (JObj b) (JObj o')))"
      by (rule less.IH)
  qed
  have "loop (\<lambda>x. merge_field jsonMerge (fst x) (snd x)) overlay base
      = Some (fold (\<lambda>x t. if snd x = JNull then mdel (fst x) t
          else mput (fst x) (merge_patch (jmember t (fst x)) (snd x)) t) overlay base)"
    by (rule loop_fold) (rule step)
  then show ?case
    unfolding jsonMerge_plain [OF less.prems]
    by (subst merge_patch.simps) (simp add: target_object_def)
qed

lemma merge_patch_object: "merge_patch t (JObj p) = JObj (target_object (merge_patch t (JObj p)))"
  by (subst (1 2) merge_patch.simps) (simp add: target_object_def)

text \<open>
  C8: Merging a patch without directives, in which every list is non-empty and holds no object, never
  panics and is exactly the merge of RFC 7386: null removes a member, an object is merged into what
  is there, and everything else replaces, lists included.  Lists of objects are merged by name (C25),
  and an empty list may leave the old one in place (empty_list_keeps_base).
\<close>

theorem merge_is_rfc7386:
  assumes "plain_patch (JObj overlay)"
  shows "\<exists>m. jsonMerge base overlay = Some (False, m) \<and> merge_patch (JObj base) (JObj overlay) = JObj m"
  using jsonMerge_rfc [OF assms] merge_patch_object by blast

definition demo_base :: jobj where
  "demo_base = [(''a'', JObj [(''x'', JNum ''1''), (''y'', JNum ''2'')]), (''b'', JStr ''s'')]"

definition demo_overlay :: jobj where
  "demo_overlay = [(''a'', JObj [(''x'', JNull), (''z'', JArr [JNum ''3''])]), (''b'', JObj [(''c'', JBool True)])]"

theorem merge_is_rfc7386_witness:
  "\<exists>m. jsonMerge demo_base demo_overlay = Some (False, m) \<and>
     merge_patch (JObj demo_base) (JObj demo_overlay) = JObj m"
proof (rule merge_is_rfc7386)
  show "plain_patch (JObj demo_overlay)" by code_simp
qed

section \<open>Lists of named objects\<close>

lemma merge_fold_get:
  "distinct (map fst p) \<Longrightarrow>
    mget (fold (\<lambda>x t. if snd x = JNull then mdel (fst x) t
        else mput (fst x) (merge_patch (jmember t (fst x)) (snd x)) t) p t) k =
    (case mget p k of
       None \<Rightarrow> mget t k
     | Some v \<Rightarrow> if v = JNull then None else Some (merge_patch (jmember t k) v))"
proof (induction p arbitrary: t)
  case (Cons x p)
  obtain k' v where x: "x = (k', v)" by (cases x)
  have "mget p k' = None" using Cons.prems x by (simp add: map_of_eq_None_iff)
  then show ?case
    using Cons.prems x Cons.IH
    by (auto simp: mget_mput mget_mdel jmember_def split: option.split)
qed simp

lemma merge_patch_get:
  "mwf p \<Longrightarrow> mget (target_object (merge_patch t (JObj p))) k =
    (case mget p k of
       None \<Rightarrow> mget (target_object t) k
     | Some v \<Rightarrow> if v = JNull then None else Some (merge_patch (jmember (target_object t) k) v))"
  by (subst merge_patch.simps) (simp add: target_object_def [of "JObj _"] merge_fold_get mwf_def)

text \<open>The reference: an element is merged into the one of its name, or appended.\<close>

definition upsert_named :: "json \<Rightarrow> json list \<Rightarrow> json list" where
  "upsert_named el xs =
     (if element_name el \<in> set (map element_name xs)
      then map (\<lambda>x. if element_name x = element_name el then merge_patch x el else x) xs
      else xs @ [merge_patch (JObj []) el])"

text \<open>The state of the loop and the list it stands for.\<close>

definition stands_for :: "named \<Rightarrow> json list \<Rightarrow> bool" where
  "stands_for st xs \<longleftrightarrow> (\<exists>byName ord. st = (byName, ord, []) \<and> distinct ord \<and>
     xs = map (\<lambda>n. JObj (the (mget byName n))) ord \<and>
     (\<forall>n. mget byName n \<noteq> None \<longleftrightarrow> n \<in> set ord) \<and>
     (\<forall>n \<in> set ord. element_name (JObj (the (mget byName n))) = Some n))"

lemma element_nameE:
  assumes "element_name el = Some n"
  obtains m where "el = JObj m" "mget m ''name'' = Some (JStr n)"
  using assms by (auto simp: element_name_def split: json.splits option.splits)

lemma stands_for_put:
  assumes "stands_for (byName, ord, []) xs" "element_name (JObj m) = Some n"
  shows "stands_for (mput n m byName, if n \<in> set ord then ord else ord @ [n], [])
    (if n \<in> set ord then map (\<lambda>x. if element_name x = Some n then JObj m else x) xs else xs @ [JObj m])"
  using assms by (auto simp: stands_for_def mget_mput)

lemma index_base_stands_for:
  "list_all (\<lambda>el. element_name el \<noteq> None) base \<Longrightarrow> distinct (map element_name base) \<Longrightarrow>
    stands_for (index_base [] base) base"
proof (induction base rule: rev_induct)
  case Nil
  then show ?case by (simp add: index_base_def stands_for_def)
next
  case (snoc el base)
  obtain n where n: "element_name el = Some n" using snoc.prems(1) by auto
  obtain m where el: "el = JObj m" "element_name el = Some n" using element_nameE [OF n] n by metis
  have st: "stands_for (index_base [] base) base" using snoc by simp
  then obtain byName ord where ib: "index_base [] base = (byName, ord, [])" by (auto simp: stands_for_def)
  with st have "map element_name base = map Some ord" by (auto simp: stands_for_def)
  moreover have "Some n \<notin> set (map element_name base)" using snoc.prems(2) el by auto
  ultimately have "n \<notin> set ord" by auto
  then have "stands_for (mput n m byName, ord @ [n], []) (base @ [el])"
    using stands_for_put [OF st [unfolded ib], of m n] el by simp
  moreover have "index_base [] (base @ [el]) = (mput n m byName, ord @ [n], [])"
    using ib el by (simp add: index_base_def)
  ultimately show ?case by simp
qed

lemma pick_all:
  "distinct ns \<Longrightarrow> set ns \<inter> set skip = {} \<Longrightarrow> (\<forall>n \<in> set ns. mget byName n \<noteq> None) \<Longrightarrow>
    pick_elements byName skip ns = map (\<lambda>n. JObj (the (mget byName n))) ns"
  by (induction byName skip ns rule: pick_elements.induct) auto

lemma stands_for_pick: "stands_for (byName, ord, rm) xs \<Longrightarrow> pick_elements byName rm ord = xs"
  by (auto simp: stands_for_def pick_all)

definition plain_element :: "json \<Rightarrow> bool" where
  "plain_element el \<longleftrightarrow> element_name el \<noteq> None \<and> plain_patch el \<and> json_wf el"

lemma plain_element_no_marker: "plain_element el \<Longrightarrow> patch_marker el = None"
  using plain_no_directive [of _ "''$patch''"]
  by (auto simp: plain_element_def patch_marker_def HasPrefix_def split: json.split)

lemma merge_element_upserts:
  assumes "stands_for st xs" "plain_element el"
  shows "\<exists>st'. merge_element jsonMerge [] el st = Some st' \<and> stands_for st' (upsert_named el xs)"
proof -
  obtain byName ord where st: "st = (byName, ord, [])" using assms(1) by (auto simp: stands_for_def)
  obtain n where n: "element_name el = Some n" using assms(2) by (auto simp: plain_element_def)
  obtain m where el: "el = JObj m" "mget m ''name'' = Some (JStr n)" "element_name el = Some n"
    using element_nameE [OF n] n by metis
  have wf: "mwf m" using assms(2) el(1) by (simp add: plain_element_def jobj_wf_iff)
  have merged: "jsonMerge b m = Some (False, target_object (merge_patch (JObj b) (JObj m)))" for b
    using assms(2) el(1) by (intro jsonMerge_rfc) (simp add: plain_element_def)
  have name: "element_name (merge_patch t el) = Some n" for t
  proof -
    have "mget (target_object (merge_patch t (JObj m))) ''name'' = Some (JStr n)"
      using el(2) by (simp add: merge_patch_get [OF wf] merge_patch.simps [of _ "JStr n"])
    then show ?thesis unfolding el(1) by (subst merge_patch_object) (simp add: element_name_def)
  qed
  have names: "map element_name xs = map Some ord" using assms(1) st by (auto simp: stands_for_def)
  have marker: "\<not> deletes_element el" using plain_element_no_marker [OF assms(2)] by (simp add: deletes_element_def)
  show ?thesis
  proof (cases "n \<in> set ord")
    case True
    then obtain b where b: "mget byName n = Some b" using assms(1) st by (auto simp: stands_for_def)
    let ?new = "target_object (merge_patch (JObj b) (JObj m))"
    have new: "JObj ?new = merge_patch (JObj b) el" using merge_patch_object el(1) by simp
    have "upsert_named el xs = map (\<lambda>x. if element_name x = Some n then JObj ?new else x) xs"
    proof -
      have "element_name el \<in> set (map element_name xs)" using True el(3) names by simp
      moreover have "merge_patch x el = JObj ?new" if "x \<in> set xs" "element_name x = Some n" for x
        using assms(1) st that b by (auto simp: stands_for_def new)
      ultimately show ?thesis by (simp add: upsert_named_def el(3))
    qed
    moreover have "merge_element jsonMerge [] el st = Some (mput n ?new byName, ord, [])"
      using el marker st b by (simp add: merge_element_def merged)
    ultimately show ?thesis
      using stands_for_put [OF assms(1) [unfolded st], of ?new n] name [of "JObj b"] new True by simp
  next
    case False
    then have b: "mget byName n = None" using assms(1) st by (auto simp: stands_for_def)
    let ?new = "target_object (merge_patch (JObj []) (JObj m))"
    have new: "JObj ?new = merge_patch (JObj []) el" using merge_patch_object el(1) by simp
    have "upsert_named el xs = xs @ [JObj ?new]" using False el(3) names by (auto simp: upsert_named_def new)
    moreover have "merge_element jsonMerge [] el st = Some (mput n ?new byName, ord @ [n], [])"
      using el marker st b by (simp add: merge_element_def merged)
    ultimately show ?thesis
      using stands_for_put [OF assms(1) [unfolded st], of ?new n] name [of "JObj []"] new False by simp
  qed
qed

lemma merge_loop_upserts:
  "stands_for st xs \<Longrightarrow> list_all plain_element overlay \<Longrightarrow>
    \<exists>st'. loop (merge_element jsonMerge []) overlay st = Some st' \<and> stands_for st' (fold upsert_named overlay xs)"
proof (induction overlay arbitrary: st xs)
  case (Cons el overlay)
  then obtain st1 where "merge_element jsonMerge [] el st = Some st1" "stands_for st1 (upsert_named el xs)"
    using merge_element_upserts by fastforce
  then show ?case using Cons by simp
qed simp

text \<open>
  C25: A list of named objects without directives is merged element by element: each goes into the
  one of its name, the others keep their place, and new names are appended in order, never with a
  panic.
\<close>

theorem lists_merge_by_name:
  assumes "list_all (\<lambda>el. element_name el \<noteq> None) base" "distinct (map element_name base)"
    "list_all plain_element overlay"
  shows "mergeNamedArray jsonMerge base overlay = Some (Some (fold upsert_named overlay base))"
proof -
  have "\<not> deletes_element el" if "el \<in> set overlay" for el
    using assms(3) that plain_element_no_marker by (fastforce simp: list_all_iff deletes_element_def)
  then have none: "filter deletes_element overlay = []" "filter (\<lambda>el. \<not> deletes_element el) overlay = overlay"
    by (auto simp: filter_empty_conv filter_id_conv)
  have no_replace: "\<not> list_ex (\<lambda>el. patch_marker el = Some (JStr ''replace'')) overlay"
    using assms(3) plain_element_no_marker by (fastforce simp: list_all_iff list_ex_iff)
  have objects: "\<not> list_ex (\<lambda>el. case el of JObj _ \<Rightarrow> False | _ \<Rightarrow> True) overlay"
    "\<not> list_ex (\<lambda>el. case el of JObj m \<Rightarrow> mget m ''name'' = None | _ \<Rightarrow> True) overlay"
    using assms(3) by (auto simp: list_all_iff list_ex_iff plain_element_def element_name_def split: json.splits option.splits)
  have named: "\<not> list_ex (\<lambda>el. element_name el = None) base"
    using assms(1) by (auto simp: list_all_iff list_ex_iff)
  obtain byName ord rm where l: "loop (merge_element jsonMerge []) overlay (index_base [] base) = Some (byName, ord, rm)"
      and st: "stands_for (byName, ord, rm) (fold upsert_named overlay base)"
    using merge_loop_upserts [OF index_base_stands_for [OF assms(1,2)] assms(3)] by auto
  have "deleted_names overlay = []" using none(1) by (simp add: deleted_names_def List.map_filter_def)
  then show ?thesis
    using no_replace objects named none(2) l stands_for_pick [OF st] by (simp add: mergeNamedArray_def)
qed

theorem lists_merge_by_name_witness:
  "mergeNamedArray jsonMerge
     [JObj [(''name'', JStr ''app''), (''image'', JStr ''v1'')], JObj [(''name'', JStr ''side''), (''image'', JStr ''s'')]]
     [JObj [(''name'', JStr ''new'')], JObj [(''name'', JStr ''app''), (''image'', JStr ''v2'')]] =
   Some (Some
     [JObj [(''name'', JStr ''app''), (''image'', JStr ''v2'')], JObj [(''name'', JStr ''side''), (''image'', JStr ''s'')],
      JObj [(''name'', JStr ''new'')]])"
proof (subst lists_merge_by_name)
qed (code_simp+)

text \<open>
  An empty list does not replace a list of named objects but merges nothing into it, which is not
  RFC 7386.
\<close>

lemma empty_list_keeps_base:
  assumes "list_all (\<lambda>el. element_name el \<noteq> None) base" "distinct (map element_name base)"
  shows "mergeNamedArray jsonMerge base [] = Some (Some base)"
proof -
  obtain byName ord rm where ib: "index_base [] base = (byName, ord, rm)" by (cases "index_base [] base")
  then have "pick_elements byName rm ord = base" using index_base_stands_for [OF assms] by (simp add: stands_for_pick)
  moreover have "\<not> list_ex (\<lambda>el. element_name el = None) base" using assms(1) by (auto simp: list_all_iff list_ex_iff)
  ultimately show ?thesis using ib by (simp add: mergeNamedArray_def deleted_names_def List.map_filter_def)
qed

text \<open>A name that is no string makes the type assertion of the merge panic.\<close>

lemma merge_panics_on_numeric_name:
  "mergeNamedArray jsonMerge base [JObj [(''name'', JNum n)]] = None" if "list_all (\<lambda>el. element_name el \<noteq> None) base"
  using that
  by (auto simp: mergeNamedArray_def patch_marker_def deletes_element_def deleted_names_def element_name_def
      list_all_iff list_ex_iff merge_element_def List.map_filter_def)

section \<open>JSON Patch\<close>

lemma array_index_update [simp]: "array_index seg (c[i := v]) = array_index seg c"
  by (simp add: array_index_def split: option.split)

lemma set_then_get:
  "patchSet doc segs v add = Inr doc' \<Longrightarrow> last segs \<noteq> ''-'' \<Longrightarrow> patchGet doc' segs = Inr v"
proof (induction doc segs v add arbitrary: doc' rule: patchSet.induct)
  case (2 cur seg segs v add)
  show ?case
  proof (cases cur)
    case (JArr c)
    then have "seg \<noteq> ''-''" using "2.prems" by (auto split: if_splits)
    then obtain i new where i: "array_index seg c = Inr i" "patchSet (c ! i) segs v add = Inr new"
      "doc' = JArr (c[i := new])"
      using "2.prems" JArr by (auto simp: rbind_Inr_iff)
    then have "segs \<noteq> []" by auto
    with "2.prems" i "2.IH"(1) [OF JArr \<open>seg \<noteq> ''-''\<close>, of i new] array_index_bound [OF i(1)] show ?thesis
      by (simp add: rbind_Inr_iff)
  next
    case (JObj c)
    show ?thesis
    proof (cases "segs = []")
      case True
      with "2.prems" JObj show ?thesis by (auto simp: mget_mput split: if_splits)
    next
      case False
      then obtain child new where "mget c seg = Some child" "patchSet child segs v add = Inr new"
        "doc' = JObj (mput seg new c)"
        using "2.prems" JObj by (auto simp: rbind_Inr_iff split: option.splits)
      with "2.prems" False "2.IH"(2) [OF JObj False] show ?thesis by (simp add: mget_mput)
    qed
  qed (use "2.prems" in simp_all)
qed simp

lemma remove_returns:
  "patchRemove doc segs = Inr (doc', v) \<Longrightarrow> patchGet doc segs = Inr v"
proof (induction doc segs arbitrary: doc' v rule: patchRemove.induct)
  case (2 cur seg segs)
  show ?case
  proof (cases cur)
    case (JArr c)
    then obtain i where i: "array_index seg c = Inr i" using "2.prems" by (auto simp: rbind_Inr_iff)
    show ?thesis
    proof (cases "segs = []")
      case True
      with "2.prems" JArr i show ?thesis by (simp add: rbind_Inr_iff)
    next
      case False
      with "2.prems" JArr i obtain new where "patchRemove (c ! i) segs = Inr (new, v)"
        by (auto simp: rbind_Inr_iff)
      with "2.IH"(1) [OF JArr False] JArr i show ?thesis by (simp add: rbind_Inr_iff)
    qed
  next
    case (JObj c)
    then obtain child where child: "mget c seg = Some child" using "2.prems" by (auto split: option.splits)
    show ?thesis
    proof (cases "segs = []")
      case True
      with "2.prems" JObj child show ?thesis by simp
    next
      case False
      with "2.prems" JObj child obtain new where "patchRemove child segs = Inr (new, v)"
        by (auto simp: rbind_Inr_iff)
      with "2.IH"(2) [OF JObj child False] JObj child show ?thesis by simp
    qed
  qed (use "2.prems" in simp_all)
qed simp

text \<open>
  C26: A value that was set at a path (other than by appending) is found there, and a value that was
  removed from a path was found there before: an add or replace is seen by a test, and a move takes
  what a test would have seen.
\<close>

theorem patch_reads_what_it_wrote:
  "(\<forall>doc'. patchSet doc segs v add = Inr doc' \<longrightarrow> last segs \<noteq> ''-'' \<longrightarrow> patchGet doc' segs = Inr v) \<and>
   (\<forall>doc' r. patchRemove doc segs = Inr (doc', r) \<longrightarrow> patchGet doc segs = Inr r)"
  using set_then_get remove_returns by blast

theorem patch_reads_what_it_wrote_witness:
  "\<exists>doc'. patchSet (JObj demo_base) [''a'', ''x''] (JStr ''new'') False = Inr doc' \<and>
     patchGet doc' [''a'', ''x''] = Inr (JStr ''new'')"
proof -
  have "isOk (patchSet (JObj demo_base) [''a'', ''x''] (JStr ''new'') False)" by code_simp
  then obtain doc' where "patchSet (JObj demo_base) [''a'', ''x''] (JStr ''new'') False = Inr doc'"
    by (auto simp: isOk_iff)
  then show ?thesis using patch_reads_what_it_wrote [of "JObj demo_base" "[''a'', ''x'']"] by fastforce
qed

text \<open>
  An element of an array cannot be set by its index, although the operations are documented to work
  on arrays: the last segment of a path into an array can only append.
\<close>

lemma patchSet_nothing: "patchSet v [] x add = Inl WholeDocument"
  by simp

lemma array_element_never_set:
  "patchSet (JArr c) [seg] v add = Inr doc' \<Longrightarrow> seg = ''-'' \<and> add \<and> doc' = JArr (c @ [v])"
  by (auto simp: rbind_Inr_iff split: if_splits)

section \<open>Server-side apply\<close>

definition plain_segment :: "string \<Rightarrow> bool" where
  "plain_segment s \<longleftrightarrow> CHR ''/'' \<notin> set s \<and> CHR ''~'' \<notin> set s"

lemma unescape_plain_segment: "CHR ''~'' \<notin> set s \<Longrightarrow> unescape_segment s = Inr s"
  by (induction s) (auto simp: rbind_Inr_iff)

lemma parsePath_one: "plain_segment f \<Longrightarrow> parsePath (''/'' @ f) = Inr [f]"
  by (simp add: parsePath_def plain_segment_def Split_atom unescape_plain_segment)

lemma parsePath_two:
  "plain_segment f \<Longrightarrow> parsePath (''/metadata/'' @ f) = Inr [''metadata'', f]"
proof -
  assume f: "plain_segment f"
  have "Split (''metadata'' @ CHR ''/'' # f) (CHR ''/'') = [''metadata'', f]"
    using f by (subst Split_append) (simp_all add: plain_segment_def Split_atom)
  then show ?thesis
    using f unescape_plain_segment [of "''metadata''"] unescape_plain_segment [of f]
    by (simp add: parsePath_def plain_segment_def)
qed

lemma not_shares: "\<not> shares doc (set_op p v) b" "\<not> shares doc (remove_op p) b"
  by (simp_all add: shares_def set_op_def remove_op_def jstring_def)

lemma apply_set: "parsePath p = Inr segs \<Longrightarrow> apply_op doc (set_op p v) = patchSet doc segs v True"
  by (simp add: apply_op_def set_op_def jstring_def jmember_def op_path_def)

lemma apply_remove:
  "parsePath p = Inr segs \<Longrightarrow> patchRemove doc segs = Inr (new, r) \<Longrightarrow> apply_op doc (remove_op p) = Inr new"
  by (simp add: apply_op_def remove_op_def jstring_def op_path_def)

lemma apply_ops_set:
  "parsePath p = Inr segs \<Longrightarrow> patchSet doc segs v True = Inr new \<Longrightarrow>
    apply_ops doc (set_op p v # ops) = apply_ops new ops"
  by (simp add: apply_set not_shares)

lemma apply_ops_remove:
  "parsePath p = Inr segs \<Longrightarrow> patchRemove doc segs = Inr (new, r) \<Longrightarrow>
    apply_ops doc (remove_op p # ops) = apply_ops new ops"
  by (simp add: apply_remove not_shares)

text \<open>What the operations of one section make of a document.\<close>

definition section_done :: "jobj \<Rightarrow> jobj \<Rightarrow> string \<Rightarrow> jobj \<Rightarrow> jobj" where
  "section_done current applied f doc =
     (case mget applied f of
        Some v \<Rightarrow> mput f v doc
      | None \<Rightarrow> if mget current f \<noteq> None \<and> mget current f \<noteq> Some JNull \<and> f \<noteq> ''spec'' then mdel f doc else doc)"

lemma section_done_get:
  "mget (section_done current applied f doc) g = (if g \<noteq> f then mget doc g
    else case mget applied f of
        Some v \<Rightarrow> Some v
      | None \<Rightarrow> if mget current f \<noteq> None \<and> mget current f \<noteq> Some JNull \<and> f \<noteq> ''spec'' then None else mget doc f)"
  by (auto simp: section_done_def mget_mput mget_mdel split: option.split)

lemma apply_section:
  assumes "plain_segment f" "mget doc f = mget current f"
  shows "apply_ops (JObj doc) (section_op current applied f @ ops) =
    apply_ops (JObj (section_done current applied f doc)) ops"
proof (cases "mget applied f")
  case (Some v)
  then show ?thesis
    using apply_set [OF parsePath_one [OF assms(1)]] not_shares(1)
    by (simp add: section_op_def section_done_def)
next
  case None
  show ?thesis
  proof (cases "mget current f \<noteq> None \<and> mget current f \<noteq> Some JNull \<and> f \<noteq> ''spec''")
    case True
    then obtain r where "mget doc f = Some r" using assms(2) by auto
    then have "patchRemove (JObj doc) [f] = Inr (JObj (mdel f doc), r)" by simp
    from apply_remove [OF parsePath_one [OF assms(1)] this] True None show ?thesis
      using not_shares(2) by (simp add: section_op_def section_done_def)
  qed (use None in \<open>auto simp: section_op_def section_done_def\<close>)
qed

definition metadata_done :: "jobj \<Rightarrow> jobj \<Rightarrow> string \<Rightarrow> jobj \<Rightarrow> jobj" where
  "metadata_done cm am f m =
     (if mget am f \<noteq> None \<and> mget am f \<noteq> Some JNull then mput f (jmember am f) m
      else if mget cm f \<noteq> None \<and> mget cm f \<noteq> Some JNull then mdel f m else m)"

lemma apply_metadata:
  assumes "plain_segment f" "mget doc ''metadata'' = Some (JObj m)" "mget m f = mget cm f"
  shows "apply_ops (JObj doc) (metadata_op cm am f @ ops) =
    apply_ops (JObj (if metadata_op cm am f = [] then doc
      else mput ''metadata'' (JObj (metadata_done cm am f m)) doc)) ops"
proof -
  consider "mget am f \<noteq> None \<and> mget am f \<noteq> Some JNull"
    | "\<not> (mget am f \<noteq> None \<and> mget am f \<noteq> Some JNull)" "mget cm f \<noteq> None \<and> mget cm f \<noteq> Some JNull"
    | "\<not> (mget am f \<noteq> None \<and> mget am f \<noteq> Some JNull)" "\<not> (mget cm f \<noteq> None \<and> mget cm f \<noteq> Some JNull)"
    by blast
  then show ?thesis
  proof cases
    case 1
    then have op: "metadata_op cm am f = [set_op (''/metadata/'' @ f) (jmember am f)]"
      and new: "metadata_done cm am f m = mput f (jmember am f) m"
      by (simp_all only: metadata_op_def metadata_done_def if_True simp_thms)
    have "patchSet (JObj doc) [''metadata'', f] (jmember am f) True
        = Inr (JObj (mput ''metadata'' (JObj (mput f (jmember am f) m)) doc))"
      using assms(2) by simp
    from apply_ops_set [OF parsePath_two [OF assms(1)] this] show ?thesis
      by (simp only: op new append_Cons append_Nil list.distinct if_False)
  next
    case 2
    then have op: "metadata_op cm am f = [remove_op (''/metadata/'' @ f)]"
      and new: "metadata_done cm am f m = mdel f m"
      by (simp_all only: metadata_op_def metadata_done_def if_True if_False simp_thms)
    obtain r where "mget m f = Some r" using 2 assms(3) by auto
    then have "patchRemove (JObj doc) [''metadata'', f] = Inr (JObj (mput ''metadata'' (JObj (mdel f m)) doc), r)"
      using assms(2) by simp
    from apply_ops_remove [OF parsePath_two [OF assms(1)] this] show ?thesis
      by (simp only: op new append_Cons append_Nil list.distinct if_False)
  next
    case 3
    then have "metadata_op cm am f = []" by (simp_all only: metadata_op_def if_False simp_thms)
    then show ?thesis by (simp only: append_Nil if_True simp_thms)
  qed
qed

lemma apply_sections:
  assumes "distinct fs" "list_all plain_segment fs" "\<forall>f \<in> set fs. mget doc f = mget current f"
  shows "apply_ops (JObj doc) (concat (map (section_op current applied) fs) @ ops) =
    apply_ops (JObj (fold (section_done current applied) fs doc)) ops"
  using assms
proof (induction fs arbitrary: doc)
  case (Cons f fs)
  have "\<forall>g \<in> set fs. mget (section_done current applied f doc) g = mget current g"
    using Cons.prems(1,3) by (auto simp: section_done_get)
  then have "apply_ops (JObj (section_done current applied f doc)) (concat (map (section_op current applied) fs) @ ops)
      = apply_ops (JObj (fold (section_done current applied) fs (section_done current applied f doc))) ops"
    using Cons.prems(1,2) by (intro Cons.IH) simp_all
  then show ?case using Cons.prems(2,3) apply_section [of f doc current applied] by simp
qed simp

lemma fold_sections_get:
  "distinct fs \<Longrightarrow> mget (fold (section_done current applied) fs doc) g =
    (if g \<in> set fs then mget (section_done current applied g doc) g else mget doc g)"
  by (induction fs arbitrary: doc) (auto simp: section_done_get split: option.split)

lemma metadata_done_get:
  "mget (metadata_done cm am f m) g = (if g \<noteq> f then mget m g
    else if mget am f \<noteq> None \<and> mget am f \<noteq> Some JNull then mget am f
    else if mget cm f \<noteq> None \<and> mget cm f \<noteq> Some JNull then None else mget m f)"
  by (auto simp: metadata_done_def jmember_def mget_mput mget_mdel)

lemma metadata_done_none: "metadata_op cm am f = [] \<Longrightarrow> metadata_done cm am f m = m"
  unfolding metadata_op_def metadata_done_def by (metis list.distinct(1))

lemma apply_metadata_fields:
  assumes "distinct fs" "list_all plain_segment fs" "mget doc ''metadata'' = Some (JObj m)"
    "\<forall>f \<in> set fs. mget m f = mget cm f"
  shows "\<exists>doc'. apply_ops (JObj doc) (concat (map (metadata_op cm am) fs)) = Some (Inr (JObj doc')) \<and>
    (\<forall>g. mget doc' g = (if g = ''metadata'' then Some (JObj (fold (metadata_done cm am) fs m)) else mget doc g))"
  using assms
proof (induction fs arbitrary: doc m)
  case (Cons f fs)
  let ?m = "metadata_done cm am f m"
  let ?doc = "if metadata_op cm am f = [] then doc else mput ''metadata'' (JObj ?m) doc"
  have doc: "mget ?doc g = (if g = ''metadata'' then Some (JObj ?m) else mget doc g)" for g
    using Cons.prems(3) by (simp add: metadata_done_none mget_mput)
  have "\<forall>g \<in> set fs. mget ?m g = mget cm g" using Cons.prems(1,4) by (auto simp: metadata_done_get)
  then obtain doc' where "apply_ops (JObj ?doc) (concat (map (metadata_op cm am) fs)) = Some (Inr (JObj doc'))"
    "\<forall>g. mget doc' g = (if g = ''metadata'' then Some (JObj (fold (metadata_done cm am) fs ?m)) else mget ?doc g)"
    using Cons.IH [of ?doc ?m] Cons.prems(1,2) doc [of "''metadata''"] by (simp only: distinct.simps list.pred_inject if_True simp_thms) blast
  moreover have "apply_ops (JObj doc) (concat (map (metadata_op cm am) (f # fs)))
      = apply_ops (JObj ?doc) (concat (map (metadata_op cm am) fs))"
    using Cons.prems(2-4) apply_metadata [of f doc m cm am] by simp
  ultimately show ?case using doc by (intro exI [of _ doc']) (simp add: mget_mput)
qed simp

lemma user_fields_plain:
  "distinct [''spec'', ''data'', ''binaryData'', ''stringData''] \<and>
   list_all plain_segment [''spec'', ''data'', ''binaryData'', ''stringData'']"
  "distinct [''labels'', ''annotations''] \<and> list_all plain_segment [''labels'', ''annotations'']"
  by code_simp+

definition applied_section :: "jobj \<Rightarrow> jobj \<Rightarrow> string \<Rightarrow> json option" where
  "applied_section current applied f =
     (case mget applied f of
        Some v \<Rightarrow> Some v
      | None \<Rightarrow> if f = ''spec'' \<or> mget current f = Some JNull then mget current f else None)"

definition applied_metadata :: "jobj \<Rightarrow> jobj \<Rightarrow> string \<Rightarrow> json option" where
  "applied_metadata cm am f =
     (if jmember am f \<noteq> JNull then Some (jmember am f)
      else if mget cm f = Some JNull then Some JNull else None)"

text \<open>
  C28: The patch that server-side apply is turned into always succeeds, and its result is the current object
  in which the applied object owns the user sections: spec, data, binaryData and stringData are
  those applied (an omitted spec stays, the other omitted ones go), labels and annotations are
  those applied, and every other member of the object and of its metadata is unchanged.
\<close>

theorem apply_owns_user_sections:
  "\<exists>doc m. applyJSONPatch current (applyPatchOps current applied) = Some (Inr (JObj doc)) \<and>
    (\<forall>f. mget doc f =
       (if f \<in> {''spec'', ''data'', ''binaryData'', ''stringData''} then applied_section current applied f
        else if f = ''metadata'' then Some (JObj m) else mget current f)) \<and>
    (\<forall>f. mget m f =
       (if f \<in> {''labels'', ''annotations''}
        then applied_metadata (target_object (jmember current ''metadata'')) (target_object (jmember applied ''metadata'')) f
        else mget (target_object (jmember current ''metadata'')) f))"
proof -
  let ?ss = "[''spec'', ''data'', ''binaryData'', ''stringData'']" and ?ms = "[''labels'', ''annotations'']"
  define am where "am = target_object (jmember applied ''metadata'')"
  define cm where "cm = target_object (jmember current ''metadata'')"
  define sections where "sections = concat (map (section_op current applied) ?ss)"
  define doc1 where "doc1 = fold (section_done current applied) ?ss current"
  have one: "apply_ops (JObj current) (sections @ ops) = apply_ops (JObj doc1) ops" for ops
    unfolding sections_def doc1_def using user_fields_plain(1) by (intro apply_sections) simp_all
  have get1: "mget doc1 f = (if f \<in> set ?ss then applied_section current applied f else mget current f)" for f
    unfolding doc1_def using user_fields_plain(1)
    by (subst fold_sections_get) (auto simp: section_done_get applied_section_def split: option.split)
  have ops: "\<exists>doc2. applyJSONPatch current (applyPatchOps current applied) =
        apply_ops (JObj doc2) (concat (map (metadata_op cm am) ?ms)) \<and>
      (\<forall>f. mget doc2 f = (if f = ''metadata'' then Some (JObj cm) else mget doc1 f))"
  proof (cases "\<exists>m. mget current ''metadata'' = Some (JObj m)")
    case True
    then have "applyPatchOps current applied = sections @ concat (map (metadata_op cm am) ?ms)"
      "mget current ''metadata'' = Some (JObj cm)"
      by (auto simp: applyPatchOps_def sections_def cm_def am_def target_object_def jmember_def Let_def
          simp del: concat.simps list.map split: option.split json.split)
    then show ?thesis using one get1 by (intro exI [of _ doc1]) (simp add: applyJSONPatch_def)
  next
    case False
    then have "applyPatchOps current applied = sections @ set_op ''/metadata'' (JObj []) # concat (map (metadata_op cm am) ?ms)"
      "cm = []"
      by (auto simp: applyPatchOps_def sections_def cm_def am_def target_object_def jmember_def Let_def
          simp del: concat.simps list.map split: option.split json.split)
    moreover have "apply_ops (JObj doc1) (set_op (''/'' @ ''metadata'') (JObj []) # ops)
        = apply_ops (JObj (mput ''metadata'' (JObj []) doc1)) ops" for ops
      by (rule apply_ops_set [OF parsePath_one]) (simp_all add: plain_segment_def)
    ultimately show ?thesis using one
      by (intro exI [of _ "mput ''metadata'' (JObj []) doc1"]) (simp add: applyJSONPatch_def mget_mput)
  qed
  then obtain doc2 where doc2: "applyJSONPatch current (applyPatchOps current applied) =
        apply_ops (JObj doc2) (concat (map (metadata_op cm am) ?ms))"
      "\<forall>f. mget doc2 f = (if f = ''metadata'' then Some (JObj cm) else mget doc1 f)" by blast
  obtain doc where doc: "apply_ops (JObj doc2) (concat (map (metadata_op cm am) ?ms)) = Some (Inr (JObj doc))"
      "\<forall>g. mget doc g = (if g = ''metadata'' then Some (JObj (fold (metadata_done cm am) ?ms cm)) else mget doc2 g)"
    using apply_metadata_fields [of ?ms doc2 cm cm am] user_fields_plain(2) doc2(2) by auto
  have "mget (fold (metadata_done cm am) ?ms cm) f =
      (if f \<in> {''labels'', ''annotations''} then applied_metadata cm am f else mget cm f)" for f
    by (auto simp: metadata_done_get applied_metadata_def jmember_def split: option.split)
  then show ?thesis
    using doc doc2 get1
    by (intro exI [of _ doc] exI [of _ "fold (metadata_done cm am) ?ms cm"])
      (simp add: am_def [symmetric] cm_def [symmetric])
qed

end
