(* ===== verification/WebSocket.thy ===== *)
theory WebSocket
  imports NetworkAttach Json "HOL-Library.Word"
begin

text \<open>
  Exec streams, internal/server/exec.go: WebSocket frames, the channels of the Kubernetes exec
  protocol, the loop that feeds the client's frames to the command and the final status.  A byte
  is an \<open>8 word\<close>, a connection the list of bytes that are still to be read.
\<close>

unbundle bit_operations_syntax

type_synonym bytes = "8 word list"

section \<open>Numbers on the wire\<close>

text \<open>encoding/binary, \<open>BigEndian.PutUintN\<close> and \<open>BigEndian.UintN\<close> with N = 8 * k.\<close>

definition PutUint :: "nat \<Rightarrow> nat \<Rightarrow> bytes" where
  "PutUint k n = map (\<lambda>i. of_nat (n div 256 ^ i)) (rev [0..<k])"

definition Uint :: "bytes \<Rightarrow> nat" where
  "Uint bs = foldl (\<lambda>n b. n * 256 + unat b) 0 bs"

text \<open>The conversion of a \<open>uint64\<close> to an \<open>int64\<close>.\<close>

definition int64 :: "nat \<Rightarrow> int" where
  "int64 n = (if n < 2 ^ 63 then int n else int n - 2 ^ 64)"

text \<open>\<open>io.ReadFull\<close> of n bytes: what was read and what is left; \<open>None\<close> when there are fewer.\<close>

definition ReadFull :: "nat \<Rightarrow> bytes \<Rightarrow> (bytes \<times> bytes) option" where
  "ReadFull n r = (if length r < n then None else Some (take n r, drop n r))"

section \<open>Frames\<close>

definition wsOpBinary :: "8 word" where "wsOpBinary = 0x2"
definition wsOpClose :: "8 word" where "wsOpClose = 0x8"
definition wsOpPing :: "8 word" where "wsOpPing = 0x9"
definition wsOpPong :: "8 word" where "wsOpPong = 0xA"

definition chanStdin :: "8 word" where "chanStdin = 0"
definition chanStdout :: "8 word" where "chanStdout = 1"
definition chanStderr :: "8 word" where "chanStderr = 2"
definition chanError :: "8 word" where "chanError = 3"

definition maxWSFrameBytes :: int where "maxWSFrameBytes = 2 ^ 20"

lemmas ws_consts = wsOpBinary_def wsOpClose_def wsOpPing_def wsOpPong_def
  chanStdin_def chanStdout_def chanStderr_def chanError_def maxWSFrameBytes_def

definition writeFrame :: "8 word \<Rightarrow> bytes \<Rightarrow> bytes" where
  "writeFrame op payload =
     (let n = length payload in
      (0x80 OR op) #
      (if n \<le> 125 then [of_nat n]
       else if n \<le> 65535 then 126 # PutUint 2 n
       else 127 # PutUint 8 n) @ payload)"

definition writeChan :: "8 word \<Rightarrow> bytes \<Rightarrow> bytes" where
  "writeChan ch data = writeFrame wsOpBinary (ch # data)"

definition ping :: bytes where
  "ping = writeFrame wsOpPing []"

definition pong :: "bytes \<Rightarrow> bytes" where
  "pong payload = writeFrame wsOpPong payload"

text \<open>
  What reading a frame ends in: a read error, a length over the limit, a panic (\<open>make\<close> with a
  negative length), or the frame with what is left to read.
\<close>

datatype frame_result = ReadError | OverLimit int | MakePanics | Frame "8 word" bytes bytes

definition unmask :: "bytes \<Rightarrow> bytes \<Rightarrow> bytes" where
  "unmask key payload = map (\<lambda>i. payload ! i XOR key ! (i mod 4)) [0..<length payload]"

definition frame_length :: "8 word \<Rightarrow> bytes \<Rightarrow> (int \<times> bytes) option" where
  "frame_length len7 r =
     (if len7 = 126 then map_option (\<lambda>(ext, r). (int (Uint ext), r)) (ReadFull 2 r)
      else if len7 = 127 then map_option (\<lambda>(ext, r). (int64 (Uint ext), r)) (ReadFull 8 r)
      else Some (uint len7, r))"

definition readFrame :: "bytes \<Rightarrow> frame_result" where
  "readFrame r =
     (case ReadFull 2 r of None \<Rightarrow> ReadError | Some (hdr, r1) \<Rightarrow>
      let op = hdr ! 0 AND 0x0F; masked = (hdr ! 1 AND 0x80 \<noteq> 0) in
      case frame_length (hdr ! 1 AND 0x7F) r1 of None \<Rightarrow> ReadError | Some (plen, r2) \<Rightarrow>
      case (if masked then ReadFull 4 r2 else Some ([0, 0, 0, 0], r2)) of None \<Rightarrow> ReadError | Some (maskKey, r3) \<Rightarrow>
      if plen > maxWSFrameBytes then OverLimit plen
      else if plen < 0 then MakePanics
      else case ReadFull (nat plen) r3 of None \<Rightarrow> ReadError | Some (payload, r4) \<Rightarrow>
        Frame op (if masked then unmask maskKey payload else payload) r4)"

section \<open>Output\<close>

text \<open>The chunks a reader delivers, each of them sent as it comes.\<close>

definition pipe :: "8 word \<Rightarrow> bytes list \<Rightarrow> bytes list" where
  "pipe ch reads = map (writeChan ch) (filter (\<lambda>b. b \<noteq> []) reads)"

section \<open>Input\<close>

text \<open>
  What the goroutine that reads the client's frames does: the writes to the command's standard
  input and the frames it answers with, in order, and whether it ends by a panic.
\<close>

datatype stdin_event = StdinWrite bytes | Answer bytes

lemma readFrame_shorter: "readFrame r = Frame op payload rest \<Longrightarrow> length rest < length r"
  by (auto simp: readFrame_def frame_length_def ReadFull_def Let_def split: option.splits if_splits prod.splits)

function stdin_loop :: "bytes \<Rightarrow> stdin_event list \<times> bool" where
  "stdin_loop r =
     (case readFrame r of
        ReadError \<Rightarrow> ([], False)
      | OverLimit _ \<Rightarrow> ([], False)
      | MakePanics \<Rightarrow> ([], True)
      | Frame op payload rest \<Rightarrow>
          if op = wsOpClose then ([], False)
          else
            (let (evs, panics) = stdin_loop rest in
             ((if op = wsOpBinary then
                 (if payload \<noteq> [] \<and> hd payload = chanStdin then [StdinWrite (tl payload)] else [])
               else if op = wsOpPing then [Answer (pong payload)]
               else []) @ evs, panics)))"
  by pat_completeness auto
termination by (relation "measure length") (auto dest: readFrame_shorter)

declare stdin_loop.simps [simp del]

section \<open>The request\<close>

text \<open>The query and headers an exec request is checked by.\<close>

record exec_request =
  ex_commands :: "string list"
  ex_stdin :: string
  ex_tty :: string
  ex_container :: string
  ex_method :: string
  ex_upgrade :: string
  ex_key :: string
  ex_protocols :: string

definition exec_refused :: "exec_request \<Rightarrow> nat option" where
  "exec_refused q =
     (if ex_commands q = [] then Some 400
      else if ex_method q \<noteq> ''GET'' then Some 405
      else if \<not> EqualFold (ex_upgrade q) ''websocket'' then Some 426
      else if ex_key q = [] then Some 400
      else None)"

definition exec_protocol :: "exec_request \<Rightarrow> string" where
  "exec_protocol q =
     (case find (\<lambda>p. p = ''v5.channel.k8s.io'' \<or> p = ''v4.channel.k8s.io'')
             (map TrimSpace (Split (ex_protocols q) (CHR '',''))) of
        Some p \<Rightarrow> p
      | None \<Rightarrow> [])"

definition exec_args :: "store \<Rightarrow> string \<Rightarrow> string \<Rightarrow> exec_request \<Rightarrow> string list" where
  "exec_args s ns name q =
     [''exec'', ''-i''] @ (if ex_tty q = ''true'' then [''-t''] else []) @
     [podContainerName s ns name (ex_container q)] @ ex_commands q"

section \<open>The status\<close>

text \<open>
  How the command ended: without an error, with the exit code of an \<open>ExitError\<close>, or with any
  other error.
\<close>

datatype exit_error = Exited | ExitCode int | OtherFailure

definition execStatus :: "exit_error \<Rightarrow> json" where
  "execStatus exitErr =
     (if exitErr = Exited then
        JObj [(''apiVersion'', JStr ''v1''), (''kind'', JStr ''Status''), (''status'', JStr ''Success''),
          (''code'', JNum (Itoa 200))]
      else
        (let code = (case exitErr of ExitCode c \<Rightarrow> c | _ \<Rightarrow> 1) in
         JObj [(''apiVersion'', JStr ''v1''), (''kind'', JStr ''Status''), (''status'', JStr ''Failure''),
          (''message'', JStr (''command terminated with exit code '' @ Itoa code)),
          (''reason'', JStr ''NonZeroExitCode''),
          (''details'', JObj [(''causes'', JArr [JObj [(''reason'', JStr ''ExitCode''), (''message'', JStr (Itoa code))]])]),
          (''code'', JNum (Itoa 500))]))"

text \<open>What a whole exec sends once both pipes are drained: the status, then a normal closure.\<close>

definition exec_ending :: "(json \<Rightarrow> bytes) \<Rightarrow> exit_error \<Rightarrow> bytes list" where
  "exec_ending marshal exitErr =
     [writeChan chanError (marshal (execStatus exitErr)), writeFrame wsOpClose [0x03, 0xE8]]"

text \<open>
  The request as a whole, up to the streams: \<open>accept\<close> is the digest of the key with the GUID that
  proves the handshake, \<open>starts\<close> says whether the pipes and the command could be set up.
\<close>

definition wsGUID :: string where
  "wsGUID = ''258EAFA5-E914-47DA-95CA-C5AB0DC85B11''"

definition crlf :: string where
  "crlf = [CHR 0x0D, CHR 0x0A]"

definition handshake :: "(string \<Rightarrow> string) \<Rightarrow> exec_request \<Rightarrow> string" where
  "handshake accept q =
     (let proto = exec_protocol q in
      ''HTTP/1.1 101 Switching Protocols'' @ crlf @ ''Upgrade: websocket'' @ crlf @ ''Connection: Upgrade'' @ crlf @
      ''Sec-WebSocket-Accept: '' @ accept (ex_key q @ wsGUID) @ crlf @
      (if proto \<noteq> [] then ''Sec-WebSocket-Protocol: '' @ proto @ crlf else []) @ crlf)"

datatype exec_outcome = ExecRefused nat | ExecFailed string bytes | ExecStarted string "string list"

definition handlePodExec ::
  "(string \<Rightarrow> string) \<Rightarrow> (json \<Rightarrow> bytes) \<Rightarrow> (string list \<Rightarrow> bool) \<Rightarrow> store \<Rightarrow> string \<Rightarrow> string \<Rightarrow> exec_request \<Rightarrow> exec_outcome" where
  "handlePodExec accept marshal starts s ns name q =
     (case exec_refused q of
        Some code \<Rightarrow> ExecRefused code
      | None \<Rightarrow>
          (let args = exec_args s ns name q in
           if \<not> starts args then ExecFailed (handshake accept q) (writeChan chanError (marshal (execStatus OtherFailure)))
           else ExecStarted (handshake accept q) args))"

section \<open>Logs\<close>

record log_request =
  lr_container :: string
  lr_follow :: string
  lr_tailLines :: string
  lr_timestamps :: string

definition log_args :: "store \<Rightarrow> string \<Rightarrow> string \<Rightarrow> log_request \<Rightarrow> string list" where
  "log_args s ns name q =
     [''logs''] @ (if lr_follow q = ''true'' then [''--follow''] else []) @
     (if lr_tailLines q \<noteq> [] \<and> Atoi (lr_tailLines q) \<noteq> None then [''--tail'', lr_tailLines q] else []) @
     (if lr_timestamps q = ''true'' then [''--timestamps''] else []) @
     [podContainerName s ns name (lr_container q)]"

text \<open>Without following: \<open>failed\<close> and \<open>out\<close> are how podman ended and what it printed.\<close>

definition log_answer :: "bool \<Rightarrow> string \<Rightarrow> nat + string" where
  "log_answer failed out = (if failed \<and> out = [] then Inl 500 else Inr out)"

end
