(* ===== verification/WebSocketProperties.thy ===== *)
theory WebSocketProperties
  imports WebSocket
begin

text \<open>
  Exec streams: frames are read back as they were written, however the goroutines interleave their
  frames each channel carries exactly its bytes, the command is fed exactly what the client sent,
  and the one length that gets past the limit.
\<close>

declare split_paired_All [simp del] split_paired_Ex [simp del]

section \<open>Numbers\<close>

lemma length_PutUint [simp]: "length (PutUint k n) = k"
  by (simp add: PutUint_def)

lemma Uint_Cons_foldl: "foldl (\<lambda>n b. n * 256 + unat b) a bs = a * 256 ^ length bs + Uint bs" for bs :: bytes
proof (induction bs arbitrary: a)
  case (Cons b bs)
  show ?case using Cons [of "a * 256 + unat b"] Cons [of "unat b"] by (simp add: Uint_def algebra_simps)
qed (simp add: Uint_def)

lemma Uint_Cons: "Uint (b # bs) = unat b * 256 ^ length bs + Uint bs"
  using Uint_Cons_foldl [of "unat b" bs] by (simp add: Uint_def)

lemma PutUint_Suc: "PutUint (Suc k) n = of_nat (n div 256 ^ k) # PutUint k n"
  by (simp add: PutUint_def)

lemma unat_byte: "unat (of_nat m :: 8 word) = m mod 256"
  by (simp add: unat_of_nat)

lemma Uint_PutUint: "Uint (PutUint k n) = n mod 256 ^ k"
proof (induction k)
  case (Suc k)
  have "n mod (256 ^ k * 256) = 256 ^ k * (n div 256 ^ k mod 256) + n mod 256 ^ k" by (rule mod_mult2_eq)
  with Suc show ?case
    by (simp only: PutUint_Suc Uint_Cons unat_byte length_PutUint power_Suc mult.commute [of 256] mult.commute [of "_ mod _"])
qed (simp add: PutUint_def Uint_def)

section \<open>Header bytes\<close>

lemma and_mask_small: "unat w < 2 ^ k \<Longrightarrow> w AND mask k = w" for w :: "8 word"
  unfolding take_bit_eq_mask [symmetric] word_unat_eq_iff
  by (simp add: unsigned_take_bit_eq take_bit_nat_eq_self)

lemma seven_bits:
  assumes "n < 128"
  shows "(of_nat n :: 8 word) AND 0x7F = of_nat n" "(of_nat n :: 8 word) AND 0x80 = 0"
proof -
  have m: "(0x7F :: 8 word) = mask 7" by (simp add: mask_eq_exp_minus_1)
  show "(of_nat n :: 8 word) AND 0x7F = of_nat n"
    unfolding m by (rule and_mask_small) (use assms in \<open>simp add: unat_byte\<close>)
  have "\<not> bit n 7" using assms by (simp add: bit_iff_odd)
  then have "\<not> bit (of_nat n :: 8 word) 7" by (simp add: bit_of_nat_iff)
  then have "(of_nat n :: 8 word) AND 2 ^ 7 = 0" by (simp only: and_exp_eq_0_iff_not_bit simp_thms)
  then show "(of_nat n :: 8 word) AND 0x80 = 0" by simp
qed

lemma masked_bits:
  assumes "n < 128"
  shows "(0x80 OR of_nat n :: 8 word) AND 0x7F = of_nat n" "(0x80 OR of_nat n :: 8 word) AND 0x80 \<noteq> 0"
  using seven_bits [OF assms] by (simp_all add: bit.conj_disj_distrib2)

lemma opcode_bits:
  assumes "op < (16 :: 8 word)"
  shows "(0x80 OR op) AND 0x0F = op"
proof -
  have m: "(0x0F :: 8 word) = mask 4" by (simp add: mask_eq_exp_minus_1)
  have "op AND 0x0F = op"
    unfolding m by (rule and_mask_small) (use assms in \<open>simp add: word_less_nat_alt\<close>)
  then show ?thesis by (simp add: bit.conj_disj_distrib2)
qed

lemma of_nat_byte_eq: "m < 256 \<Longrightarrow> k < 256 \<Longrightarrow> (of_nat m :: 8 word) = of_nat k \<longleftrightarrow> m = k"
  using unat_byte [of m] unat_byte [of k] by (metis mod_less)

section \<open>Frames\<close>

definition length_field :: "nat \<Rightarrow> nat \<times> bytes" where
  "length_field n = (if n \<le> 125 then (n, []) else if n \<le> 65535 then (126, PutUint 2 n) else (127, PutUint 8 n))"

lemma length_field_small: "fst (length_field n) < 128"
  by (simp add: length_field_def)

lemma writeFrame_field:
  "writeFrame op payload =
    (0x80 OR op) # of_nat (fst (length_field (length payload))) # snd (length_field (length payload)) @ payload"
  by (simp add: writeFrame_def length_field_def Let_def)

lemma ReadFull_append: "length bs = n \<Longrightarrow> ReadFull n (bs @ r) = Some (bs, r)"
  by (simp add: ReadFull_def)

lemma frame_length_field:
  assumes "n < 2 ^ 63"
  shows "frame_length (of_nat (fst (length_field n))) (snd (length_field n) @ r) = Some (int n, r)"
proof -
  have "(of_nat n :: 8 word) \<noteq> 126" "(of_nat n :: 8 word) \<noteq> 127" if "n \<le> 125"
    using that of_nat_byte_eq [of n 126] of_nat_byte_eq [of n 127] by simp_all
  moreover have "uint (of_nat n :: 8 word) = int n" if "n \<le> 125"
    using that unat_byte [of n] by (simp add: uint_nat)
  moreover have "int64 (n mod 256 ^ 8) = int n" using assms by (simp add: int64_def)
  ultimately show ?thesis
    by (auto simp: frame_length_def length_field_def ReadFull_append Uint_PutUint)
qed

lemma ReadFull_2: "ReadFull 2 (a # b # r) = Some ([a, b], r)"
  by (simp add: ReadFull_def eval_nat_numeral)

lemma frame_read:
  assumes "op < 16" "int (length payload) \<le> maxWSFrameBytes"
  shows "readFrame (writeFrame op payload @ rest) = Frame op payload rest"
proof -
  let ?n = "length payload"
  have n: "?n < 2 ^ 63" using assms(2) by (simp add: maxWSFrameBytes_def)
  show ?thesis
    using seven_bits [OF length_field_small [of ?n]] opcode_bits [OF assms(1)] assms(2)
      frame_length_field [OF n, of "payload @ rest"]
    by (simp add: readFrame_def writeFrame_field ReadFull_2 Let_def ReadFull_append)
qed

text \<open>
  C29: A frame is read back as it was written, opcode and payload, whatever follows it, for every payload
  up to the limit of a MiB: the three length encodings are decoded to the length they encode.
\<close>

theorem frame_roundtrip:
  assumes "op < 16" "int (length payload) \<le> maxWSFrameBytes"
  shows "readFrame (writeFrame op payload @ rest) = Frame op payload rest"
  using assms by (rule frame_read)

theorem frame_roundtrip_witness:
  "readFrame (writeFrame wsOpBinary (replicate 300 0x61) @ [0x82, 0x00]) =
     Frame wsOpBinary (replicate 300 0x61) [0x82, 0x00]"
  by (rule frame_roundtrip) (simp_all add: ws_consts)

text \<open>
  A frame as a client sends it (RFC 6455, 5.2 and 5.3): masked by a key of four bytes, which the client
  goes round as often as the payload needs it.
\<close>

fun masked :: "bytes \<Rightarrow> bytes \<Rightarrow> bytes" where
  "masked key [] = []"
| "masked key (b # bs) = (b XOR hd key) # masked (rotate1 key) bs"

definition client_frame :: "bytes \<Rightarrow> 8 word \<Rightarrow> bytes \<Rightarrow> bytes" where
  "client_frame key op payload =
    (0x80 OR op) # (0x80 OR of_nat (fst (length_field (length payload))))
      # snd (length_field (length payload)) @ key @ masked key payload"

lemma length_unmask [simp]: "length (unmask key payload) = length payload"
  by (simp add: unmask_def)

lemma length_masked [simp]: "length (masked key payload) = length payload"
  by (induction key payload rule: masked.induct) simp_all

lemma masked_nth: "key \<noteq> [] \<Longrightarrow> i < length payload \<Longrightarrow> masked key payload ! i = payload ! i XOR key ! (i mod length key)"
proof (induction key payload arbitrary: i rule: masked.induct)
  case (2 key b bs)
  then show ?case
    by (cases i) (simp_all add: hd_conv_nth nth_rotate1 mod_Suc_eq)
qed simp

lemma unmask_masked:
  assumes "length key = 4"
  shows "unmask key (masked key payload) = payload"
proof -
  have "key \<noteq> []" using assms by auto
  then show ?thesis by (intro nth_equalityI) (simp_all add: unmask_def masked_nth assms xor.assoc)
qed

lemma client_frame_read:
  assumes "op < 16" "length key = 4" "int (length payload) \<le> maxWSFrameBytes"
  shows "readFrame (client_frame key op payload @ rest) = Frame op payload rest"
proof -
  let ?n = "length payload"
  have n: "?n < 2 ^ 63" using assms(3) by (simp add: maxWSFrameBytes_def)
  show ?thesis
    using masked_bits [OF length_field_small [of ?n]] opcode_bits [OF assms(1)] assms(2,3)
      frame_length_field [OF n, of "key @ masked key payload @ rest"]
    by (simp add: readFrame_def client_frame_def ReadFull_2 Let_def ReadFull_append unmask_masked)
qed

section \<open>Feeding the command\<close>

text \<open>What the frames of a client ask for, one after the other, until it closes.\<close>

definition stdin_of_frame :: "8 word \<times> bytes \<Rightarrow> stdin_event list" where
  "stdin_of_frame f =
     (case f of (op, payload) \<Rightarrow>
        if op = wsOpBinary \<and> take 1 payload = [chanStdin] then [StdinWrite (tl payload)]
        else if op = wsOpPing then [Answer (writeFrame wsOpPong payload)] else [])"

definition client_ok :: "bytes \<times> 8 word \<times> bytes \<Rightarrow> bool" where
  "client_ok f \<longleftrightarrow> (case f of (key, op, payload) \<Rightarrow>
     length key = 4 \<and> op < 16 \<and> op \<noteq> wsOpClose \<and> int (length payload) \<le> maxWSFrameBytes)"

lemma stdin_frame:
  assumes "client_ok (key, op, payload)"
  shows "stdin_loop (client_frame key op payload @ rest) =
    (stdin_of_frame (op, payload) @ fst (stdin_loop rest), snd (stdin_loop rest))"
proof -
  have "readFrame (client_frame key op payload @ rest) = Frame op payload rest"
    using assms by (intro client_frame_read) (auto simp: client_ok_def)
  moreover have "take 1 payload = [chanStdin] \<longleftrightarrow> payload \<noteq> [] \<and> hd payload = chanStdin"
    by (cases payload) auto
  ultimately show ?thesis
    using assms
    by (subst stdin_loop.simps)
      (simp add: client_ok_def stdin_of_frame_def pong_def wsOpBinary_def wsOpPing_def split: prod.split)
qed

text \<open>
  C30: Whatever keys and chunking the client uses, the command's standard input gets exactly the
  bytes of the stdin channel, in order, every ping is answered with its payload, the frames of other
  channels are dropped, and reading stops at the close frame without a panic.
\<close>

theorem stdin_is_fed_exactly:
  assumes "list_all client_ok frames" "length key = 4" "int (length reason) \<le> maxWSFrameBytes"
  shows "stdin_loop (concat (map (\<lambda>(key, op, payload). client_frame key op payload) frames)
      @ client_frame key wsOpClose reason @ rest) =
    (concat (map (\<lambda>(key, f). stdin_of_frame f) frames), False)"
  using assms(1)
proof (induction frames)
  case Nil
  have "readFrame (client_frame key wsOpClose reason @ rest) = Frame wsOpClose reason rest"
    using assms(2,3) by (intro client_frame_read) (simp_all add: wsOpClose_def)
  then show ?case by (subst stdin_loop.simps) simp
next
  case (Cons f frames)
  obtain k op payload where f: "f = (k, op, payload)" by (cases f)
  show ?case using Cons stdin_frame [of k op payload] by (simp add: f)
qed

theorem stdin_is_fed_exactly_witness:
  "stdin_loop (client_frame [1, 2, 3, 4] wsOpBinary [0, 0x68, 0x69] @ client_frame [9, 9, 9, 9] wsOpBinary [4, 0x7B]
      @ client_frame [7, 7, 7, 7] wsOpPing [5] @ client_frame [0, 0, 0, 0] wsOpClose [])
    = ([StdinWrite [0x68, 0x69], Answer (writeFrame wsOpPong [5])], False)"
  using stdin_is_fed_exactly [of "[([1, 2, 3, 4], wsOpBinary, [0, 0x68, 0x69]), ([9, 9, 9, 9], wsOpBinary, [4, 0x7B]),
      ([7, 7, 7, 7], wsOpPing, [5])]" "[0, 0, 0, 0]" "[]" "[]"]
  by (simp add: client_ok_def ws_consts stdin_of_frame_def)

section \<open>Output\<close>

text \<open>The client's view of a stream: the payloads of the binary frames of a channel, put together.\<close>

function frames_of :: "bytes \<Rightarrow> (8 word \<times> bytes) list" where
  "frames_of r = (case readFrame r of Frame op payload rest \<Rightarrow> (op, payload) # frames_of rest | _ \<Rightarrow> [])"
  by pat_completeness auto
termination by (relation "measure length") (auto dest: readFrame_shorter)

declare frames_of.simps [simp del]

definition channel_bytes :: "8 word \<Rightarrow> bytes \<Rightarrow> bytes" where
  "channel_bytes ch r =
     concat (map (tl \<circ> snd) (filter (\<lambda>(op, payload). op = wsOpBinary \<and> take 1 payload = [ch]) (frames_of r)))"

lemma frames_of_Nil [simp]: "frames_of [] = []"
  by (subst frames_of.simps) (simp add: readFrame_def ReadFull_def)

lemma frames_of_write:
  "op < 16 \<Longrightarrow> int (length payload) \<le> maxWSFrameBytes \<Longrightarrow>
    frames_of (writeFrame op payload @ rest) = (op, payload) # frames_of rest"
  by (subst frames_of.simps) (simp add: frame_read)

lemma channel_bytes_Nil [simp]: "channel_bytes ch [] = []"
  by (simp add: channel_bytes_def)

lemma channel_bytes_write:
  "op < 16 \<Longrightarrow> int (length payload) \<le> maxWSFrameBytes \<Longrightarrow>
    channel_bytes ch (writeFrame op payload @ rest) =
    (if op = wsOpBinary \<and> take 1 payload = [ch] then tl payload else []) @ channel_bytes ch rest"
  by (simp add: channel_bytes_def frames_of_write)

text \<open>Every frame the server sends: data on a channel, a ping or the answer to one, the closure.\<close>

definition server_frame :: "bytes \<Rightarrow> bool" where
  "server_frame f \<longleftrightarrow> (\<exists>op payload. f = writeFrame op payload \<and> op < 16 \<and> int (length payload) \<le> maxWSFrameBytes)"

definition control_frame :: "bytes \<Rightarrow> bool" where
  "control_frame f \<longleftrightarrow> f = ping \<or> (\<exists>payload. f = pong payload \<and> int (length payload) \<le> maxWSFrameBytes)"

lemma server_frameI: "op < 16 \<Longrightarrow> int (length payload) \<le> maxWSFrameBytes \<Longrightarrow> server_frame (writeFrame op payload)"
  by (auto simp: server_frame_def)

lemma control_server_frame: "control_frame f \<Longrightarrow> server_frame f"
proof -
  have "wsOpPing < 16" "wsOpPong < 16" by (simp_all add: ws_consts)
  moreover have "int (length ([] :: bytes)) \<le> maxWSFrameBytes" by (simp add: ws_consts)
  ultimately show "control_frame f \<Longrightarrow> server_frame f"
    by (auto simp: control_frame_def ping_def pong_def intro: server_frameI)
qed

lemma channel_bytes_control: "control_frame f \<Longrightarrow> channel_bytes ch f = []"
  using channel_bytes_write [of _ _ ch "[]"] by (auto simp: control_frame_def ping_def pong_def ws_consts)

lemma channel_bytes_chan:
  "length data < 2 ^ 20 \<Longrightarrow> channel_bytes ch (writeChan c data) = (if c = ch then data else [])"
  using channel_bytes_write [of wsOpBinary "c # data" ch "[]"] by (simp add: writeChan_def ws_consts)

lemma chan_server_frame: "length data < 2 ^ 20 \<Longrightarrow> server_frame (writeChan c data)"
  unfolding server_frame_def writeChan_def by (intro exI [of _ wsOpBinary] exI [of _ "c # data"]) (simp add: ws_consts)

lemma channel_bytes_append: "server_frame f \<Longrightarrow> channel_bytes ch (f @ rest) = channel_bytes ch f @ channel_bytes ch rest"
  using channel_bytes_write [of _ _ ch "[]"] by (auto simp: server_frame_def channel_bytes_write)

lemma channel_bytes_concat:
  "list_all server_frame fs \<Longrightarrow>
    channel_bytes ch (concat fs @ rest) = concat (map (channel_bytes ch) fs) @ channel_bytes ch rest"
  by (induction fs) (simp_all add: channel_bytes_append)

lemma concat_nonempty: "concat (filter (\<lambda>b. b \<noteq> []) xs) = concat xs"
  by (induction xs) auto

lemma pipe_bytes:
  assumes "list_all (\<lambda>b. length b \<le> 4096) reads"
  shows "concat (map (channel_bytes ch) (pipe c reads)) = (if c = ch then concat reads else [])"
    and "list_all server_frame (pipe c reads)"
proof -
  have small: "length b < 2 ^ 20" if "b \<in> set reads" for b using assms that by (auto simp: list_all_iff)
  have "map (channel_bytes ch) (pipe c reads) = map (\<lambda>b. if c = ch then b else []) (filter (\<lambda>b. b \<noteq> []) reads)"
    unfolding pipe_def map_map comp_def by (rule map_cong) (auto simp: channel_bytes_chan [OF small])
  then show "concat (map (channel_bytes ch) (pipe c reads)) = (if c = ch then concat reads else [])"
    by (simp add: concat_nonempty)
  show "list_all server_frame (pipe c reads)"
    by (auto simp: pipe_def list_all_iff intro: chan_server_frame [OF small])
qed

lemma concat_shuffles:
  "zs \<in> shuffles xs ys \<Longrightarrow> concat (map g ys) = [] \<Longrightarrow> concat (map g zs) = concat (map g xs)"
  by (induction xs ys arbitrary: zs rule: shuffles.induct) auto

lemma list_all_shuffles: "zs \<in> shuffles xs ys \<Longrightarrow> list_all P zs \<longleftrightarrow> list_all P xs \<and> list_all P ys"
  using set_shuffles [of zs xs ys] by (auto simp: list_all_iff)

text \<open>
  C31: However the two pipes, the keepalive pings and the answers to the client's pings interleave,
  the client gets on the output channel exactly the bytes of standard output, on the error channel
  exactly those of standard error, and on the status channel exactly the final status.
\<close>

theorem output_channels_are_exact:
  assumes "list_all (\<lambda>b. length b \<le> 4096) out" "list_all (\<lambda>b. length b \<le> 4096) err"
    and "data \<in> shuffles (pipe chanStdout out) (pipe chanStderr err)"
    and "list_all control_frame controls" "sent \<in> shuffles data controls"
    and "length (marshal (execStatus result)) < 2 ^ 20"
  shows "channel_bytes chanStdout (concat (sent @ exec_ending marshal result)) = concat out \<and>
    channel_bytes chanStderr (concat (sent @ exec_ending marshal result)) = concat err \<and>
    channel_bytes chanError (concat (sent @ exec_ending marshal result)) = marshal (execStatus result)"
proof -
  let ?status = "marshal (execStatus result)"
  have frames: "list_all server_frame sent"
    using pipe_bytes(2) [OF assms(1), of chanStdout] pipe_bytes(2) [OF assms(2), of chanStderr] assms(4)
      list_all_shuffles [OF assms(3), of server_frame] list_all_shuffles [OF assms(5), of server_frame]
    by (auto simp: list_all_iff control_server_frame)
  have silent: "concat (map (channel_bytes ch) controls) = []" for ch
    using assms(4) by (induction controls) (simp_all add: channel_bytes_control)
  have sent: "concat (map (channel_bytes ch) sent) = concat (map (channel_bytes ch) data)" for ch
    using concat_shuffles [OF assms(5) silent] .
  have out: "concat (map (channel_bytes ch) data) = concat (map (channel_bytes ch) (pipe chanStdout out))" if "ch \<noteq> chanStderr" for ch
    using concat_shuffles [OF assms(3)] pipe_bytes(1) [OF assms(2), of ch chanStderr] that by simp
  have err: "concat (map (channel_bytes ch) data) = concat (map (channel_bytes ch) (pipe chanStderr err))" if "ch \<noteq> chanStdout" for ch
    using concat_shuffles [OF assms(3) [unfolded shuffles_commutes [of "pipe chanStdout out"]]]
      pipe_bytes(1) [OF assms(1), of ch chanStdout] that by simp
  have "channel_bytes ch (writeFrame wsOpClose [0x03, 0xE8]) = []" for ch
    using channel_bytes_write [of wsOpClose "[0x03, 0xE8]" ch "[]"] by (simp add: ws_consts)
  then have ending: "channel_bytes ch (concat (exec_ending marshal result)) = (if ch = chanError then ?status else [])" for ch
    using channel_bytes_append [OF chan_server_frame [OF assms(6)], of ch chanError] channel_bytes_chan [OF assms(6), of ch chanError]
    by (auto simp: exec_ending_def)
  have all: "channel_bytes ch (concat (sent @ exec_ending marshal result)) =
      concat (map (channel_bytes ch) data) @ (if ch = chanError then ?status else [])" for ch
    using channel_bytes_concat [OF frames] sent ending by simp
  show ?thesis
    unfolding all
    using out [of chanStdout] err [of chanStderr] out [of chanError]
      pipe_bytes(1) [OF assms(1)] pipe_bytes(1) [OF assms(2)]
    by (simp_all add: chanStdout_def chanStderr_def chanError_def)
qed

theorem output_channels_are_exact_witness:
  "channel_bytes chanStdout (concat ([writeChan chanStdout [0x68], ping, writeChan chanStderr [0x21],
      writeChan chanStdout [0x69]] @ exec_ending (\<lambda>_. [0x7B, 0x7D]) (ExitCode 2))) = [0x68, 0x69] \<and>
   channel_bytes chanStderr (concat ([writeChan chanStdout [0x68], ping, writeChan chanStderr [0x21],
      writeChan chanStdout [0x69]] @ exec_ending (\<lambda>_. [0x7B, 0x7D]) (ExitCode 2))) = [0x21] \<and>
   channel_bytes chanError (concat ([writeChan chanStdout [0x68], ping, writeChan chanStderr [0x21],
      writeChan chanStdout [0x69]] @ exec_ending (\<lambda>_. [0x7B, 0x7D]) (ExitCode 2))) = [0x7B, 0x7D]"
  using output_channels_are_exact [of "[[0x68], [0x69]]" "[[0x21]]"
      "[writeChan chanStdout [0x68], writeChan chanStderr [0x21], writeChan chanStdout [0x69]]" "[ping]"
      "[writeChan chanStdout [0x68], ping, writeChan chanStderr [0x21], writeChan chanStdout [0x69]]"
      "\<lambda>_. [0x7B, 0x7D]" "ExitCode 2"]
  by (simp add: pipe_def control_frame_def Cons_in_shuffles_iff)

section \<open>The length that gets past the limit\<close>

text \<open>
  The limit is compared with the length as a signed number: a length of 2 ^ 63 or more is negative
  there, passes, and allocating the payload panics in the goroutine, which ends the whole server.
\<close>

lemma Uint_bound: "Uint bs < 256 ^ length bs"
proof (induction bs)
  case (Cons b bs)
  have "unat b < 2 ^ LENGTH(8)" by (rule unsigned_less)
  then have b: "unat b + 1 \<le> 256" by simp
  have "unat b * 256 ^ length bs + Uint bs < (unat b + 1) * 256 ^ length bs" using Cons by simp
  also have "\<dots> \<le> 256 * 256 ^ length bs" using b by (intro mult_right_mono) simp_all
  finally show ?case by (simp add: Uint_Cons)
qed (simp add: Uint_def)

lemma huge_length_panics:
  assumes "length ext = 8" "hd ext \<ge> 128"
  shows "readFrame (b # 127 # ext @ rest) = MakePanics"
    "snd (stdin_loop (b # 127 # ext @ rest))"
proof -
  obtain e es where e: "ext = e # es" "length es = 7" using assms(1) by (cases ext) auto
  have "2 ^ 63 \<le> Uint ext"
  proof -
    have "128 \<le> unat e" using assms(2) e by (simp add: word_le_nat_alt)
    then have "128 * 256 ^ 7 \<le> unat e * 256 ^ 7" by (intro mult_right_mono) simp_all
    then show ?thesis by (simp add: e Uint_Cons)
  qed
  moreover have "Uint ext < 256 ^ 8" using Uint_bound [of ext] assms(1) by simp
  ultimately have neg: "int64 (Uint ext) < 0" by (simp add: int64_def)
  moreover have "(127 :: 8 word) AND 0x7F = 127" "(127 :: 8 word) AND 0x80 = 0" by simp_all
  ultimately show panic: "readFrame (b # 127 # ext @ rest) = MakePanics"
    using assms(1) by (simp add: readFrame_def ReadFull_2 Let_def frame_length_def ReadFull_append maxWSFrameBytes_def)
  show "snd (stdin_loop (b # 127 # ext @ rest))" by (subst stdin_loop.simps) (simp add: panic)
qed

end
