(* ===== verification/Tables.thy ===== *)
theory Tables
  imports Handlers
begin

text \<open>
  The tables kubectl prints, internal/server/table.go, with those of the Traefik resources
  (traefik.go) and of the custom resource definitions (crds.go).  A time is a number of
  nanoseconds; \<open>now\<close> is \<open>time.Now()\<close>.  The fields of an object that only its table shows are in a
  record next to it.
\<close>

section \<open>Tables\<close>

record columnDef =
  cd_Name :: string
  cd_Type :: string
  cd_Format :: string
  cd_Description :: string
  cd_Priority :: int

datatype cell = Text string | Num int | Flag bool

record partialMeta =
  pm_Kind :: string
  pm_APIVersion :: string
  pm_Metadata :: objmeta

record tableRow =
  tr_Cells :: "cell list"
  tr_Object :: partialMeta

record table =
  tb_Kind :: string
  tb_APIVersion :: string
  tb_resourceVersion :: string
  tb_ColumnDefinitions :: "columnDef list"
  tb_Rows :: "tableRow list"

definition isTableRequest :: "string \<Rightarrow> bool" where
  "isTableRequest accept = Contains accept ''as=Table''"

definition newTable :: "string \<Rightarrow> columnDef list \<Rightarrow> table" where
  "newTable rv cols = \<lparr>tb_Kind = ''Table'', tb_APIVersion = ''meta.k8s.io/v1'', tb_resourceVersion = rv,
     tb_ColumnDefinitions = cols, tb_Rows = []\<rparr>"

definition col :: "string \<Rightarrow> string \<Rightarrow> string \<Rightarrow> string \<Rightarrow> int \<Rightarrow> columnDef" where
  "col name typ format description priority =
     \<lparr>cd_Name = name, cd_Type = typ, cd_Format = format, cd_Description = description, cd_Priority = priority\<rparr>"

definition name_col :: columnDef where
  "name_col = col ''Name'' ''string'' ''name'' [] 0"

definition text_col :: "string \<Rightarrow> columnDef" where
  "text_col name = col name ''string'' [] [] 0"

definition int_col :: "string \<Rightarrow> columnDef" where
  "int_col name = col name ''integer'' [] [] 0"

text \<open>Every table is built by appending a row for each object.\<close>

definition add_rows :: "('a \<Rightarrow> cell list \<times> partialMeta) \<Rightarrow> 'a list \<Rightarrow> table \<Rightarrow> table" where
  "add_rows row xs t =
     foldl (\<lambda>t x. t\<lparr>tb_Rows := tb_Rows t @ [\<lparr>tr_Cells = fst (row x), tr_Object = snd (row x)\<rparr>]\<rparr>) t xs"

definition object_of :: "string \<Rightarrow> string \<Rightarrow> objmeta \<Rightarrow> partialMeta" where
  "object_of kind apiVersion m = \<lparr>pm_Kind = kind, pm_APIVersion = apiVersion, pm_Metadata = m\<rparr>"

section \<open>Ages\<close>

definition second :: int where "second = 1000000000"
definition minute :: int where "minute = 60 * second"
definition hour :: int where "hour = 60 * minute"
definition day :: int where "day = 24 * hour"

text \<open>\<open>Time.Sub\<close>: the difference, saturated to the 64 bits of a duration.\<close>

definition time_sub :: "time \<Rightarrow> time \<Rightarrow> int" where
  "time_sub a b = max (- (2 ^ 63)) (min (2 ^ 63 - 1) (a - b))"

definition duration_text :: "int \<Rightarrow> string" where
  "duration_text d =
     (if d < minute then Itoa (if d < 0 then - (- d div second) else d div second) @ ''s''
      else if d < hour then Itoa (d div minute) @ ''m''
      else if d < day then Itoa (d div hour) @ ''h''
      else Itoa (d div day) @ ''d'')"

definition age :: "time \<Rightarrow> time option \<Rightarrow> string" where
  "age now t = (case t of None \<Rightarrow> ''<unknown>'' | Some t \<Rightarrow> duration_text (time_sub now t))"

definition age_of :: "time \<Rightarrow> 'a kobj_scheme \<Rightarrow> cell" where
  "age_of now x = Text (age now (om_creationTimestamp (o_meta x)))"

section \<open>Pods\<close>

text \<open>The columns of nodes, whose list is built in discovery.go.\<close>

definition nodeColumns :: "columnDef list" where
  "nodeColumns =
     [col ''Name'' ''string'' ''name'' ''Node name'' 0,
      col ''Status'' ''string'' [] ''Node status'' 0,
      col ''Roles'' ''string'' [] ''Node roles'' 0,
      col ''Age'' ''string'' [] ''Time since creation'' 0,
      col ''Version'' ''string'' [] ''Kubelet version'' 0,
      col ''Internal-IP'' ''string'' [] ''Internal IP address'' 1,
      col ''External-IP'' ''string'' [] ''External IP address'' 1,
      col ''OS-Image'' ''string'' [] ''OS image'' 1,
      col ''Kernel-Version'' ''string'' [] ''Kernel version'' 1,
      col ''Container-Runtime'' ''string'' [] ''Container runtime'' 1]"

definition podColumns :: "columnDef list" where
  "podColumns =
     [col ''Name'' ''string'' ''name'' ''Pod name'' 0,
      col ''Ready'' ''string'' [] ''Containers ready'' 0,
      col ''Status'' ''string'' [] ''Pod phase'' 0,
      col ''Restarts'' ''integer'' [] ''Restart count'' 0,
      col ''Age'' ''string'' [] ''Time since creation'' 0]"

text \<open>
  What a pod's table shows besides: whether it is being deleted, and of each container status the
  reasons it waits or was terminated for.
\<close>

record pod_shown =
  psh_deleted :: bool
  psh_states :: "(string option \<times> string option) list"

definition crashed :: "container_status \<Rightarrow> bool" where
  "crashed cs \<longleftrightarrow> cs_restartCount cs > 0 \<and>
     (case cs_terminated cs of Some (exitCode, _) \<Rightarrow> exitCode \<noteq> 0 | None \<Rightarrow> False)"

fun state_reason :: "(string option \<times> string option) list \<Rightarrow> string option" where
  "state_reason [] = None"
| "state_reason ((waiting, terminated) # sts) =
     (if waiting \<noteq> None \<and> waiting \<noteq> Some [] then waiting
      else if terminated \<noteq> None \<and> terminated \<noteq> Some [] then terminated
      else state_reason sts)"

definition podStatus :: "pod \<Rightarrow> pod_shown \<Rightarrow> string" where
  "podStatus p v =
     (if psh_deleted v then ''Terminating''
      else if list_ex crashed (pst_containerStatuses (pod_status p)) then ''CrashLoopBackOff''
      else case state_reason (psh_states v) of
          Some reason \<Rightarrow> reason
        | None \<Rightarrow> if pst_phase (pod_status p) \<noteq> [] then pst_phase (pod_status p) else ''Pending'')"

definition pod_row :: "time \<Rightarrow> pod \<times> pod_shown \<Rightarrow> cell list \<times> partialMeta" where
  "pod_row now pv =
     (let (p, v) = pv; css = pst_containerStatuses (pod_status p);
          ready = length (filter cs_ready css);
          total = (if css = [] then length (ps_containers (pod_spec p)) else length css)
      in ([Text (o_name p), Text (Itoa (int ready) @ ''/'' @ Itoa (int total)), Text (podStatus p v),
           Num (sum_list (map cs_restartCount css)), age_of now p],
          object_of ''Pod'' ''v1'' (o_meta p)))"

definition podsToTable :: "time \<Rightarrow> (pod \<times> pod_shown) list \<Rightarrow> string \<Rightarrow> table" where
  "podsToTable now pods rv = add_rows (pod_row now) pods (newTable rv podColumns)"

section \<open>Services\<close>

definition svcColumns :: "columnDef list" where
  "svcColumns = [name_col, text_col ''Type'', text_col ''Cluster-IP'', text_col ''Port(s)'', text_col ''Age'']"

definition port_text :: "string \<Rightarrow> service_port \<Rightarrow> string" where
  "port_text svcType p =
     (if sp_nodePort p \<noteq> 0 \<and> (svcType = ''NodePort'' \<or> svcType = ''LoadBalancer'')
      then Itoa (sp_port p) @ '':'' @ Itoa (sp_nodePort p) @ ''/'' @ sp_protocol p
      else Itoa (sp_port p) @ ''/'' @ sp_protocol p)"

definition svc_row :: "time \<Rightarrow> service \<Rightarrow> cell list \<times> partialMeta" where
  "svc_row now s =
     ([Text (o_name s), Text (svc_type s), Text (svc_clusterIP s),
       Text (Join (map (port_text (svc_type s)) (svc_ports s)) '',''), age_of now s],
      object_of ''Service'' ''v1'' (o_meta s))"

definition svcsToTable :: "time \<Rightarrow> service list \<Rightarrow> string \<Rightarrow> table" where
  "svcsToTable now svcs rv = add_rows (svc_row now) svcs (newTable rv svcColumns)"

section \<open>Namespaces, claims, configuration\<close>

definition nsColumns :: "columnDef list" where
  "nsColumns = [name_col, text_col ''Status'', text_col ''Age'']"

definition ns_row :: "time \<Rightarrow> namespace \<Rightarrow> cell list \<times> partialMeta" where
  "ns_row now ns =
     ([Text (o_name ns), Text (if ns_phase ns \<noteq> [] then ns_phase ns else ''Active''), age_of now ns],
      object_of ''Namespace'' ''v1'' (o_meta ns))"

definition namespacesToTable :: "time \<Rightarrow> namespace list \<Rightarrow> string \<Rightarrow> table" where
  "namespacesToTable now nss rv = add_rows (ns_row now) nss (newTable rv nsColumns)"

definition pvcColumns :: "columnDef list" where
  "pvcColumns = [name_col, text_col ''Status'', text_col ''Volume'', text_col ''Capacity'', text_col ''Access Modes'', text_col ''Age'']"

text \<open>The requested storage as the quantity prints, and the access modes.\<close>

record pvc_shown =
  pcs_storage :: "string option"
  pcs_accessModes :: "string list"

definition pvc_row :: "time \<Rightarrow> pvc \<times> pvc_shown \<Rightarrow> cell list \<times> partialMeta" where
  "pvc_row now pv =
     (let (p, v) = pv in
      ([Text (o_name p), Text (pvc_phase p), Text (pvc_volumeName p),
        Text (case pcs_storage v of Some q \<Rightarrow> q | None \<Rightarrow> []), Text (Join (pcs_accessModes v) '',''), age_of now p],
       object_of ''PersistentVolumeClaim'' ''v1'' (o_meta p)))"

definition pvcsToTable :: "time \<Rightarrow> (pvc \<times> pvc_shown) list \<Rightarrow> string \<Rightarrow> table" where
  "pvcsToTable now pvcs rv = add_rows (pvc_row now) pvcs (newTable rv pvcColumns)"

definition cmColumns :: "columnDef list" where
  "cmColumns = [name_col, int_col ''Data'', text_col ''Age'']"

definition cm_row :: "time \<Rightarrow> configmap \<Rightarrow> cell list \<times> partialMeta" where
  "cm_row now c =
     ([Text (o_name c), Num (int (length (cm_data c))), age_of now c], object_of ''ConfigMap'' ''v1'' (o_meta c))"

definition configMapsToTable :: "time \<Rightarrow> configmap list \<Rightarrow> string \<Rightarrow> table" where
  "configMapsToTable now cms rv = add_rows (cm_row now) cms (newTable rv cmColumns)"

definition secretColumns :: "columnDef list" where
  "secretColumns = [name_col, text_col ''Type'', int_col ''Data'', text_col ''Age'']"

definition secret_row :: "time \<Rightarrow> secret \<times> string \<Rightarrow> cell list \<times> partialMeta" where
  "secret_row now st =
     (let (s, typ) = st in
      ([Text (o_name s), Text typ, Num (int (length (case sec_data s of Some d \<Rightarrow> d | None \<Rightarrow> []))), age_of now s],
       object_of ''Secret'' ''v1'' (o_meta s)))"

definition secretsToTable :: "time \<Rightarrow> (secret \<times> string) list \<Rightarrow> string \<Rightarrow> table" where
  "secretsToTable now secrets rv = add_rows (secret_row now) secrets (newTable rv secretColumns)"

section \<open>Workloads\<close>

definition deploymentColumns :: "columnDef list" where
  "deploymentColumns = [name_col, text_col ''Ready'', int_col ''Up-to-date'', int_col ''Available'', text_col ''Age'']"

definition deployment_row :: "time \<Rightarrow> deployment \<Rightarrow> cell list \<times> partialMeta" where
  "deployment_row now d =
     (let desired = (case ds_replicas (dep_spec d) of Some n \<Rightarrow> n | None \<Rightarrow> 1); st = dep_status d in
      ([Text (o_name d), Text (Itoa (dst_readyReplicas st) @ ''/'' @ Itoa desired),
        Num (dst_updatedReplicas st), Num (dst_availableReplicas st), age_of now d],
       object_of ''Deployment'' ''apps/v1'' (o_meta d)))"

definition deploymentsToTable :: "time \<Rightarrow> deployment list \<Rightarrow> string \<Rightarrow> table" where
  "deploymentsToTable now deps rv = add_rows (deployment_row now) deps (newTable rv deploymentColumns)"

definition daemonsetColumns :: "columnDef list" where
  "daemonsetColumns = [name_col, int_col ''Desired'', int_col ''Current'', int_col ''Ready'', text_col ''Age'']"

definition daemonsetsToTable :: "string \<Rightarrow> table" where
  "daemonsetsToTable rv = newTable rv daemonsetColumns"

definition statefulsetColumns :: "columnDef list" where
  "statefulsetColumns = [name_col, text_col ''Ready'', text_col ''Age'']"

definition statefulsetsToTable :: "string \<Rightarrow> table" where
  "statefulsetsToTable rv = newTable rv statefulsetColumns"

definition replicasetColumns :: "columnDef list" where
  "replicasetColumns = [name_col, int_col ''Desired'', int_col ''Current'', int_col ''Ready'', text_col ''Age'']"

definition replicasetsToTable :: "string \<Rightarrow> table" where
  "replicasetsToTable rv = newTable rv replicasetColumns"

definition jobColumns :: "columnDef list" where
  "jobColumns = [name_col, text_col ''Completions'', text_col ''Duration'', text_col ''Age'']"

text \<open>The start and the completion of a job.  \<open>end.Add(-end.Sub(start))\<close> is written as it stands.\<close>

definition job_duration :: "time \<Rightarrow> time option \<Rightarrow> time option \<Rightarrow> string" where
  "job_duration now start completion =
     (case start of
        None \<Rightarrow> []
      | Some s \<Rightarrow>
          (let stop = (case completion of Some c \<Rightarrow> c | None \<Rightarrow> now) in age now (Some (stop + - time_sub stop s))))"

definition job_row :: "time \<Rightarrow> job \<times> time option \<times> time option \<Rightarrow> cell list \<times> partialMeta" where
  "job_row now jv =
     (let (j, start, completion) = jv in
      ([Text (o_name j), Text (Itoa (job_succeeded j) @ ''/1''), Text (job_duration now start completion), age_of now j],
       object_of ''Job'' ''batch/v1'' (o_meta j)))"

definition jobsToTable :: "time \<Rightarrow> (job \<times> time option \<times> time option) list \<Rightarrow> string \<Rightarrow> table" where
  "jobsToTable now jobs rv = add_rows (job_row now) jobs (newTable rv jobColumns)"

definition cronJobColumns :: "columnDef list" where
  "cronJobColumns =
     [name_col, text_col ''Schedule'', col ''Suspend'' ''boolean'' [] [] 0, int_col ''Active'', text_col ''Last Schedule'', text_col ''Age'']"

record cronjob_shown =
  cjs_suspend :: "bool option"
  cjs_active :: nat
  cjs_last :: "time option"

definition cronjob_row :: "time \<Rightarrow> cronjob \<times> cronjob_shown \<Rightarrow> cell list \<times> partialMeta" where
  "cronjob_row now cv =
     (let (c, v) = cv in
      ([Text (o_name c), Text (cj_schedule c), Flag (cjs_suspend v = Some True), Num (int (cjs_active v)),
        Text (if cjs_last v \<noteq> None then age now (cjs_last v) else ''<none>''), age_of now c],
       object_of ''CronJob'' ''batch/v1'' (o_meta c)))"

definition cronJobsToTable :: "time \<Rightarrow> (cronjob \<times> cronjob_shown) list \<Rightarrow> string \<Rightarrow> table" where
  "cronJobsToTable now cjs rv = add_rows (cronjob_row now) cjs (newTable rv cronJobColumns)"

section \<open>Ingresses and events\<close>

definition ingressColumns :: "columnDef list" where
  "ingressColumns = [name_col, text_col ''Class'', text_col ''Hosts'', text_col ''Address'', text_col ''Ports'', text_col ''Age'']"

text \<open>The class, and the IP and hostname of each load balancer address.\<close>

record ingress_shown =
  ish_class :: "string option"
  ish_addresses :: "(string \<times> string) list"

definition ingress_row :: "time \<Rightarrow> ingress \<times> ingress_shown \<Rightarrow> cell list \<times> partialMeta" where
  "ingress_row now iv =
     (let (i, v) = iv; hosts = filter (\<lambda>h. h \<noteq> []) (map ir_host (ing_rules i));
          addrs = concat (map (\<lambda>(ip, hostname). (if ip \<noteq> [] then [ip] else []) @ (if hostname \<noteq> [] then [hostname] else []))
                    (ish_addresses v))
      in ([Text (o_name i), Text (case ish_class v of Some c \<Rightarrow> c | None \<Rightarrow> ''<none>''),
           Text (if hosts \<noteq> [] then Join hosts '','' else ''*''), Text (Join addrs '',''),
           Text (if ing_tls i \<noteq> [] then ''80, 443'' else ''80''), age_of now i],
          object_of ''Ingress'' ''networking.k8s.io/v1'' (o_meta i)))"

definition ingressesToTable :: "time \<Rightarrow> (ingress \<times> ingress_shown) list \<Rightarrow> string \<Rightarrow> table" where
  "ingressesToTable now ings rv = add_rows (ingress_row now) ings (newTable rv ingressColumns)"

definition eventColumns :: "columnDef list" where
  "eventColumns = [text_col ''Last Seen'', text_col ''Type'', text_col ''Reason'', text_col ''Object'', text_col ''Message'']"

definition event_meta :: "event \<Rightarrow> objmeta" where
  "event_meta e = empty_meta\<lparr>om_name := ev_name e, om_namespace := ev_namespace e, om_uid := ev_uid e,
     om_resourceVersion := ev_resourceVersion e, om_creationTimestamp := Some (ev_time e)\<rparr>"

text \<open>The kinds of events are ASCII.\<close>

definition event_row :: "time \<Rightarrow> event \<Rightarrow> cell list \<times> partialMeta" where
  "event_row now e =
     ([Text (age now (Some (ev_time e))), Text (ev_type e), Text (ev_reason e),
       Text (map (\<lambda>c. if is_upper c then bchr (bcode c + 32) else c) (ev_objKind e) @ ''/'' @ ev_objName e), Text (ev_message e)],
      object_of ''Event'' ''v1'' (event_meta e))"

definition eventsToTable :: "time \<Rightarrow> event list \<Rightarrow> string \<Rightarrow> table" where
  "eventsToTable now evs rv = add_rows (event_row now) evs (newTable rv eventColumns)"

section \<open>Custom resources\<close>

definition middlewareColumns :: "columnDef list" where
  "middlewareColumns = [col ''Name'' ''string'' ''name'' ''Middleware name'' 0, col ''Age'' ''string'' [] ''Time since creation'' 0]"

definition traefikAPIVersion :: string where
  "traefikAPIVersion = ''traefik.io/v1alpha1''"

definition middleware_row :: "time \<Rightarrow> middleware \<Rightarrow> cell list \<times> partialMeta" where
  "middleware_row now m = ([Text (o_name m), age_of now m], object_of ''Middleware'' traefikAPIVersion (o_meta m))"

definition middlewaresToTable :: "time \<Rightarrow> middleware list \<Rightarrow> string \<Rightarrow> table" where
  "middlewaresToTable now items rv = add_rows (middleware_row now) items (newTable rv middlewareColumns)"

definition ingressRouteTCPColumns :: "columnDef list" where
  "ingressRouteTCPColumns =
     [col ''Name'' ''string'' ''name'' ''IngressRouteTCP name'' 0, col ''Age'' ''string'' [] ''Time since creation'' 0]"

definition ingressRouteTCP_row :: "time \<Rightarrow> ingress_route_tcp \<Rightarrow> cell list \<times> partialMeta" where
  "ingressRouteTCP_row now x = ([Text (o_name x), age_of now x], object_of ''IngressRouteTCP'' traefikAPIVersion (o_meta x))"

definition ingressRouteTCPsToTable :: "time \<Rightarrow> ingress_route_tcp list \<Rightarrow> string \<Rightarrow> table" where
  "ingressRouteTCPsToTable now items rv = add_rows (ingressRouteTCP_row now) items (newTable rv ingressRouteTCPColumns)"

definition crdColumns :: "columnDef list" where
  "crdColumns =
     [col ''Name'' ''string'' ''name'' ''Custom resource definition name'' 0, col ''Created At'' ''string'' [] ''Time since creation'' 0]"

definition crd_row :: "time \<Rightarrow> objmeta \<Rightarrow> cell list \<times> partialMeta" where
  "crd_row now m =
     ([Text (om_name m), Text (age now (om_creationTimestamp m))],
      object_of ''CustomResourceDefinition'' ''apiextensions.k8s.io/v1'' m)"

definition crdsToTable :: "time \<Rightarrow> objmeta list \<Rightarrow> string \<Rightarrow> table" where
  "crdsToTable now items rv = add_rows (crd_row now) items (newTable rv crdColumns)"

end
