(* ===== verification/TableProperties.thy ===== *)
theory TableProperties
  imports Tables
begin

text \<open>
  Every table is well typed: each row has a cell for each column, of the type the column declares,
  and the rows are those of the listed objects, in order.
\<close>

declare split_paired_All [simp del] split_paired_Ex [simp del]

lemma add_rows_map:
  "tb_Rows (add_rows row xs t) = tb_Rows t @ map (\<lambda>x. \<lparr>tr_Cells = fst (row x), tr_Object = snd (row x)\<rparr>) xs"
  "tb_ColumnDefinitions (add_rows row xs t) = tb_ColumnDefinitions t"
proof -
  have "tb_Rows (add_rows row xs t) = tb_Rows t @ map (\<lambda>x. \<lparr>tr_Cells = fst (row x), tr_Object = snd (row x)\<rparr>) xs \<and>
      tb_ColumnDefinitions (add_rows row xs t) = tb_ColumnDefinitions t"
    unfolding add_rows_def by (induction xs arbitrary: t) simp_all
  then show "tb_Rows (add_rows row xs t) = tb_Rows t @ map (\<lambda>x. \<lparr>tr_Cells = fst (row x), tr_Object = snd (row x)\<rparr>) xs"
    "tb_ColumnDefinitions (add_rows row xs t) = tb_ColumnDefinitions t" by simp_all
qed

definition cell_fits :: "cell \<Rightarrow> columnDef \<Rightarrow> bool" where
  "cell_fits c d \<longleftrightarrow> cd_Type d = (case c of Text _ \<Rightarrow> ''string'' | Num _ \<Rightarrow> ''integer'' | Flag _ \<Rightarrow> ''boolean'')"

definition well_typed :: "table \<Rightarrow> bool" where
  "well_typed t \<longleftrightarrow> list_all (\<lambda>r. list_all2 cell_fits (tr_Cells r) (tb_ColumnDefinitions t)) (tb_Rows t)"

lemma well_typed_rows:
  assumes "\<And>x. list_all2 cell_fits (fst (row x)) cols"
  shows "well_typed (add_rows row xs (newTable rv cols))"
  using assms by (simp add: well_typed_def add_rows_map newTable_def list_all_iff)

lemmas cols = name_col_def text_col_def int_col_def col_def cell_fits_def age_of_def Let_def

lemma object_tables_typed:
  "well_typed (svcsToTable now svcs rv)" "well_typed (namespacesToTable now nss rv)"
  "well_typed (configMapsToTable now cms rv)" "well_typed (deploymentsToTable now deps rv)"
  "well_typed (eventsToTable now evs rv)" "well_typed (middlewaresToTable now mws rv)"
  "well_typed (ingressRouteTCPsToTable now irts rv)" "well_typed (crdsToTable now crds rv)"
  unfolding svcsToTable_def namespacesToTable_def configMapsToTable_def deploymentsToTable_def eventsToTable_def
    middlewaresToTable_def ingressRouteTCPsToTable_def crdsToTable_def
  by (rule well_typed_rows, simp add: cols svcColumns_def svc_row_def nsColumns_def ns_row_def cmColumns_def cm_row_def
      deploymentColumns_def deployment_row_def eventColumns_def event_row_def middlewareColumns_def middleware_row_def
      ingressRouteTCPColumns_def ingressRouteTCP_row_def crdColumns_def crd_row_def)+

lemma shown_tables_typed:
  "well_typed (podsToTable now pods rv)" "well_typed (pvcsToTable now pvcs rv)"
  "well_typed (secretsToTable now secrets rv)" "well_typed (jobsToTable now jobs rv)"
  "well_typed (cronJobsToTable now cjs rv)" "well_typed (ingressesToTable now ings rv)"
  unfolding podsToTable_def pvcsToTable_def secretsToTable_def jobsToTable_def cronJobsToTable_def ingressesToTable_def
  by (rule well_typed_rows, simp add: cols podColumns_def pod_row_def pvcColumns_def pvc_row_def secretColumns_def secret_row_def
      jobColumns_def job_row_def cronJobColumns_def cronjob_row_def ingressColumns_def ingress_row_def split: prod.split)+

text \<open>
  In every table the server answers with, each row has exactly one cell for each column and the
  cell has the type the column declares, whatever the objects are.
\<close>

lemma tables_are_well_typed:
  "well_typed (podsToTable now pods rv) \<and> well_typed (svcsToTable now svcs rv) \<and>
   well_typed (namespacesToTable now nss rv) \<and> well_typed (pvcsToTable now pvcs rv) \<and>
   well_typed (configMapsToTable now cms rv) \<and> well_typed (secretsToTable now secrets rv) \<and>
   well_typed (deploymentsToTable now deps rv) \<and> well_typed (jobsToTable now jobs rv) \<and>
   well_typed (cronJobsToTable now cjs rv) \<and> well_typed (ingressesToTable now ings rv) \<and>
   well_typed (eventsToTable now evs rv) \<and> well_typed (middlewaresToTable now mws rv) \<and>
   well_typed (ingressRouteTCPsToTable now irts rv) \<and> well_typed (crdsToTable now crds rv)"
  by (simp add: object_tables_typed shown_tables_typed)

text \<open>
  The duration of a job is the time since its start, also after it has completed: the completion
  time cancels out.
\<close>

lemma job_duration_ignores_completion:
  assumes "\<bar>stop - start\<bar> < 2 ^ 63"
  shows "job_duration now (Some start) (Some stop) = age now (Some start)"
  using assms by (simp add: job_duration_def time_sub_def)

lemma finished_job_still_counts:
  "job_duration (3 * hour) (Some 0) (Some (5 * minute)) = ''3h''"
  by code_simp

end
