(* ===== verification/Routing.thy ===== *)
theory Routing
  imports Handlers
begin

text \<open>
  From a request to the operation that serves it: the patterns of internal/server/server.go, the
  path parsers, the dispatch on resource and method of the entry points, and the discovery
  documents of discovery.go and metrics.go that tell clients what is served.
\<close>

section \<open>Paths\<close>

text \<open>\<open>strings.SplitN(s, d, n)\<close> for n > 0 and \<open>strings.Trim(s, "/")\<close>.\<close>

definition SplitN :: "nat \<Rightarrow> string \<Rightarrow> char \<Rightarrow> string list" where
  "SplitN n s d =
     (let ws = Split s d in
      if length ws \<le> n then ws else take (n - 1) ws @ [Join (drop (n - 1) ws) [d]])"

definition TrimSlashes :: "string \<Rightarrow> string" where
  "TrimSlashes s = (let slash = (\<lambda>c. c = CHR ''/'') in rev (dropWhile slash (rev (dropWhile slash s))))"

definition namespace_resource :: "string \<Rightarrow> string \<Rightarrow> (string \<times> string \<times> string) option" where
  "namespace_resource prefix path =
     (if \<not> HasPrefix path prefix then None
      else
        (let parts = TrimSuffix (TrimPrefix path prefix) ''/'' in
         if parts = [] then None
         else case SplitN 3 parts (CHR ''/'') of
             [ns] \<Rightarrow> Some (ns, [], [])
           | [ns, resource] \<Rightarrow> Some (ns, resource, [])
           | [ns, resource, name] \<Rightarrow> Some (ns, resource, name)
           | _ \<Rightarrow> None))"

definition parseNamespaceResource :: "string \<Rightarrow> (string \<times> string \<times> string) option" where
  "parseNamespaceResource = namespace_resource ''/api/v1/namespaces/''"

definition parseBatchNamespaceResource :: "string \<Rightarrow> (string \<times> string \<times> string) option" where
  "parseBatchNamespaceResource = namespace_resource ''/apis/batch/v1/namespaces/''"

definition parseTraefikNamespaceResource :: "string \<Rightarrow> (string \<times> string \<times> string) option" where
  "parseTraefikNamespaceResource = namespace_resource ''/apis/traefik.io/v1alpha1/namespaces/''"

definition parseNetworkingNamespaceResource :: "string \<Rightarrow> (string \<times> string \<times> string) option" where
  "parseNetworkingNamespaceResource = namespace_resource ''/apis/networking.k8s.io/v1/namespaces/''"

section \<open>Operations\<close>

datatype operation = ListOp | GetOp | CreateOp | UpdateOp | PatchOp | DeleteOp | DeleteCollectionOp

text \<open>
  What a request comes to: a fixed document, an operation on (group, resource, namespace, name), a
  subresource, or a refusal.
\<close>

datatype answer =
    Document string
  | Served operation string string string string
  | PodLogs string string
  | PodExec string string
  | ScaleOp string string string
  | MethodNotAllowed
  | BadRequest
  | NotFound
  | Redirect string

text \<open>
  The method switch every resource handler has: GET and DELETE look at the name, PUT is there for
  some kinds only.
\<close>

definition object_action :: "bool \<Rightarrow> string \<Rightarrow> string \<Rightarrow> string \<Rightarrow> string \<Rightarrow> string \<Rightarrow> answer" where
  "object_action has_put gv resource m ns name =
     (if m = ''GET'' then Served (if name = [] then ListOp else GetOp) gv resource ns name
      else if m = ''POST'' then Served CreateOp gv resource ns name
      else if m = ''PUT'' \<and> has_put then Served UpdateOp gv resource ns name
      else if m = ''PATCH'' then Served PatchOp gv resource ns name
      else if m = ''DELETE'' then Served (if name = [] then DeleteCollectionOp else DeleteOp) gv resource ns name
      else MethodNotAllowed)"

definition get_only :: "string \<Rightarrow> answer \<Rightarrow> answer" where
  "get_only m a = (if m \<noteq> ''GET'' then MethodNotAllowed else a)"

definition handlePods :: "string \<Rightarrow> string \<Rightarrow> string \<Rightarrow> answer" where
  "handlePods m ns name =
     (case IndexByte name (CHR ''/'') of
        Some i \<Rightarrow>
          (let podName = take i name; sub = drop (i + 1) name in
           if sub = ''log'' then PodLogs ns podName
           else if sub = ''exec'' then PodExec ns podName
           else NotFound)
      | None \<Rightarrow> object_action False ''v1'' ''pods'' m ns name)"

definition handleDeployments :: "string \<Rightarrow> string \<Rightarrow> string \<Rightarrow> answer" where
  "handleDeployments m ns name =
     (case IndexByte name (CHR ''/'') of
        Some i \<Rightarrow>
          (let depName = take i name; sub = drop (i + 1) name in
           if sub = ''scale'' then
             (if m = ''GET'' \<or> m = ''PATCH'' \<or> m = ''PUT'' then ScaleOp m ns depName else MethodNotAllowed)
           else NotFound)
      | None \<Rightarrow> object_action True ''apps/v1'' ''deployments'' m ns name)"

definition handleEvents :: "string \<Rightarrow> string \<Rightarrow> answer" where
  "handleEvents m ns = get_only m (Served ListOp ''v1'' ''events'' ns [])"

definition handleNamespaced :: "string \<Rightarrow> string \<Rightarrow> answer" where
  "handleNamespaced m path =
     (case parseNamespaceResource path of
        None \<Rightarrow> BadRequest
      | Some (ns, resource, name) \<Rightarrow>
          if resource = [] then
            (if m = ''GET'' then Served GetOp ''v1'' ''namespaces'' [] ns
             else if m = ''PATCH'' then Served PatchOp ''v1'' ''namespaces'' [] ns
             else if m = ''DELETE'' then Served DeleteOp ''v1'' ''namespaces'' [] ns
             else MethodNotAllowed)
          else if resource = ''pods'' then handlePods m ns name
          else if resource = ''services'' then object_action False ''v1'' ''services'' m ns name
          else if resource = ''persistentvolumeclaims'' then object_action False ''v1'' ''persistentvolumeclaims'' m ns name
          else if resource = ''configmaps'' then object_action True ''v1'' ''configmaps'' m ns name
          else if resource = ''secrets'' then object_action False ''v1'' ''secrets'' m ns name
          else if resource = ''events'' then handleEvents m ns
          else NotFound)"

definition handleAppsStub :: "string \<Rightarrow> string \<Rightarrow> answer" where
  "handleAppsStub m resource = get_only m (Served ListOp ''apps/v1'' resource [] [])"

definition handleAppsNamespaced :: "string \<Rightarrow> string \<Rightarrow> answer" where
  "handleAppsNamespaced m path =
     (let pieces = SplitN 3 (TrimSuffix (TrimPrefix path ''/apis/apps/v1/namespaces/'') ''/'') (CHR ''/'') in
      if length pieces < 2 then BadRequest
      else
        (let ns = pieces ! 0; resource = pieces ! 1; name = (if length pieces = 3 then pieces ! 2 else []) in
         if resource = ''deployments'' then handleDeployments m ns name
         else if resource \<in> {''daemonsets'', ''statefulsets'', ''replicasets''} then handleAppsStub m resource
         else NotFound))"

definition handleBatchNamespaced :: "string \<Rightarrow> string \<Rightarrow> answer" where
  "handleBatchNamespaced m path =
     (case parseBatchNamespaceResource path of
        None \<Rightarrow> BadRequest
      | Some (ns, resource, name) \<Rightarrow>
          if resource = ''jobs'' then object_action False ''batch/v1'' ''jobs'' m ns name
          else if resource = ''cronjobs'' then object_action False ''batch/v1'' ''cronjobs'' m ns name
          else NotFound)"

definition handleNetworkingNamespaced :: "string \<Rightarrow> string \<Rightarrow> answer" where
  "handleNetworkingNamespaced m path =
     (case parseNetworkingNamespaceResource path of
        None \<Rightarrow> BadRequest
      | Some (ns, resource, name) \<Rightarrow>
          if resource = ''ingresses'' then object_action True ''networking.k8s.io/v1'' ''ingresses'' m ns name
          else NotFound)"

definition handleTraefikNamespaced :: "string \<Rightarrow> string \<Rightarrow> answer" where
  "handleTraefikNamespaced m path =
     (case parseTraefikNamespaceResource path of
        None \<Rightarrow> BadRequest
      | Some (ns, resource, name) \<Rightarrow>
          if resource = ''middlewares'' then object_action True ''traefik.io/v1alpha1'' ''middlewares'' m ns name
          else if resource = ''ingressroutetcps'' then object_action True ''traefik.io/v1alpha1'' ''ingressroutetcps'' m ns name
          else NotFound)"

text \<open>The machine's host name and the names in the embedded list of custom resource definitions.\<close>

record route_env =
  re_hostname :: string
  re_crds :: "string list"

definition crdPath :: string where
  "crdPath = ''/apis/apiextensions.k8s.io/v1/customresourcedefinitions''"

definition handleCRDs :: "route_env \<Rightarrow> string \<Rightarrow> string \<Rightarrow> answer" where
  "handleCRDs env m path =
     get_only m
       (let name = TrimSlashes (TrimPrefix path crdPath); gv = ''apiextensions.k8s.io/v1''; res = ''customresourcedefinitions'' in
        if name = [] then Served ListOp gv res [] []
        else if name \<in> set (re_crds env) then Served GetOp gv res [] name
        else NotFound)"

definition handleNodeGet :: "route_env \<Rightarrow> string \<Rightarrow> string \<Rightarrow> answer" where
  "handleNodeGet env m path =
     get_only m
       (let name = TrimSuffix (TrimPrefix path ''/api/v1/nodes/'') ''/'' in
        if name \<noteq> re_hostname env then NotFound else Served GetOp ''v1'' ''nodes'' [] name)"

definition handlePodMetrics :: "string \<Rightarrow> string \<Rightarrow> answer" where
  "handlePodMetrics m path =
     get_only m
       (let nsFilter = (if Contains path ''/namespaces/''
                        then hd (Split (TrimPrefix path ''/apis/metrics.k8s.io/v1beta1/namespaces/'') (CHR ''/'')) else [])
        in Served ListOp ''metrics.k8s.io/v1beta1'' ''pods'' nsFilter [])"

definition handleLease :: "route_env \<Rightarrow> string \<Rightarrow> string \<Rightarrow> answer" where
  "handleLease env m path =
     get_only m
       (let parts = SplitN 3 (TrimPrefix path ''/apis/coordination.k8s.io/v1/namespaces/'') (CHR ''/''); gv = ''coordination.k8s.io/v1'' in
        if length parts < 3 \<or> parts ! 2 = [] then Served ListOp gv ''leases'' [] []
        else if parts ! 2 \<noteq> re_hostname env then NotFound
        else Served GetOp gv ''leases'' [] (parts ! 2))"

definition storage_classes :: "string list" where
  "storage_classes = [StorageClassStandard, StorageClassShared, StorageClassHostPath]"

definition handleStorageClasses :: "string \<Rightarrow> string \<Rightarrow> answer" where
  "handleStorageClasses m path =
     get_only m
       (let name = TrimSlashes (TrimPrefix path ''/apis/storage.k8s.io/v1/storageclasses''); gv = ''storage.k8s.io/v1'' in
        if name = [] then Served ListOp gv ''storageclasses'' [] []
        else if name \<in> set storage_classes then Served GetOp gv ''storageclasses'' [] name
        else NotFound)"

definition handleNamespaceCollection :: "string \<Rightarrow> answer" where
  "handleNamespaceCollection m =
     (if m = ''GET'' then Served ListOp ''v1'' ''namespaces'' [] []
      else if m = ''POST'' then Served CreateOp ''v1'' ''namespaces'' [] []
      else MethodNotAllowed)"

section \<open>The patterns\<close>

type_synonym route = "string \<times> (route_env \<Rightarrow> string \<Rightarrow> string \<Rightarrow> answer)"

definition document_route :: "string \<Rightarrow> route" where
  "document_route path = (path, \<lambda>_ _ _. Document path)"

definition cluster_list :: "string \<Rightarrow> string \<Rightarrow> route" where
  "cluster_list gv_path resource =
     (gv_path @ ''/'' @ resource,
      \<lambda>_ m _. get_only m (Served ListOp (if gv_path = ''/api/v1'' then ''v1'' else TrimPrefix gv_path ''/apis/'') resource [] []))"

definition routes :: "route list" where
  "routes =
     map document_route
       [''/api'', ''/api/v1'', ''/apis'', ''/apis/apps'', ''/apis/apps/v1'', ''/apis/batch'', ''/apis/batch/v1'',
        ''/apis/networking.k8s.io'', ''/apis/networking.k8s.io/v1'', ''/apis/traefik.io'', ''/apis/traefik.io/v1alpha1'',
        ''/apis/apiextensions.k8s.io'', ''/apis/apiextensions.k8s.io/v1''] @
     [(crdPath, handleCRDs), (crdPath @ ''/'', handleCRDs)] @
     map document_route [''/version'', ''/version/'', ''/healthz'', ''/openapi/v2''] @
     map (\<lambda>p. (p, \<lambda>_ _ _. NotFound)) [''/openapi/v3'', ''/openapi/v3/''] @
     map (cluster_list ''/api/v1'') [''pods'', ''services'', ''persistentvolumeclaims'', ''configmaps'', ''secrets'', ''events''] @
     [(''/api/v1/nodes'', \<lambda>_ m _. get_only m (Served ListOp ''v1'' ''nodes'' [] [])),
      (''/api/v1/nodes/'', handleNodeGet),
      (''/api/v1/namespaces/'', \<lambda>_. handleNamespaced),
      (''/api/v1/namespaces'', \<lambda>_ m _. handleNamespaceCollection m)] @
     map (cluster_list ''/apis/apps/v1'') [''deployments'', ''daemonsets'', ''statefulsets'', ''replicasets''] @
     [(''/apis/apps/v1/namespaces/'', \<lambda>_. handleAppsNamespaced)] @
     map (cluster_list ''/apis/batch/v1'') [''jobs'', ''cronjobs''] @
     [(''/apis/batch/v1/namespaces/'', \<lambda>_. handleBatchNamespaced),
      cluster_list ''/apis/networking.k8s.io/v1'' ''ingresses'',
      (''/apis/networking.k8s.io/v1/namespaces/'', \<lambda>_. handleNetworkingNamespaced)] @
     map (cluster_list ''/apis/traefik.io/v1alpha1'') [''middlewares'', ''ingressroutetcps''] @
     [(''/apis/traefik.io/v1alpha1/namespaces/'', \<lambda>_. handleTraefikNamespaced)] @
     map document_route [''/apis/metrics.k8s.io'', ''/apis/metrics.k8s.io/v1beta1''] @
     [(''/apis/metrics.k8s.io/v1beta1/nodes'', \<lambda>_ m _. get_only m (Served ListOp ''metrics.k8s.io/v1beta1'' ''nodes'' [] [])),
      (''/apis/metrics.k8s.io/v1beta1/pods'', \<lambda>_. handlePodMetrics),
      (''/apis/metrics.k8s.io/v1beta1/namespaces/'', \<lambda>_. handlePodMetrics)] @
     map document_route [''/apis/coordination.k8s.io'', ''/apis/coordination.k8s.io/v1''] @
     [(''/apis/coordination.k8s.io/v1/namespaces/'', handleLease)] @
     map document_route [''/apis/storage.k8s.io'', ''/apis/storage.k8s.io/v1''] @
     [(''/apis/storage.k8s.io/v1/storageclasses'', \<lambda>_. handleStorageClasses),
      (''/apis/storage.k8s.io/v1/storageclasses/'', \<lambda>_. handleStorageClasses)]"

text \<open>
  \<open>http.ServeMux\<close> on a clean path: the pattern that is the path, else the longest pattern that ends
  in a slash and is a prefix of it; a path that only lacks the slash of such a pattern is redirected.
\<close>

definition longest :: "(string \<times> 'h) list \<Rightarrow> (string \<times> 'h) option" where
  "longest rs = fold (\<lambda>r best. case best of
       Some b \<Rightarrow> if length (fst b) < length (fst r) then Some r else best
     | None \<Rightarrow> Some r) rs None"

definition subtree :: "string \<Rightarrow> bool" where
  "subtree p \<longleftrightarrow> HasSuffix p ''/''"

definition ServeMux :: "(string \<times> 'h) list \<Rightarrow> string \<Rightarrow> (string + 'h) option" where
  "ServeMux rs path =
     (case find (\<lambda>r. fst r = path) rs of
        Some r \<Rightarrow> Some (Inr (snd r))
      | None \<Rightarrow>
          if list_ex (\<lambda>r. fst r = path @ ''/'') rs then Some (Inl (path @ ''/''))
          else map_option (\<lambda>r. Inr (snd r)) (longest (filter (\<lambda>r. subtree (fst r) \<and> HasPrefix path (fst r)) rs)))"

definition dispatch :: "route_env \<Rightarrow> string \<Rightarrow> string \<Rightarrow> answer" where
  "dispatch env m path =
     (case ServeMux routes path of
        None \<Rightarrow> NotFound
      | Some (Inl p) \<Rightarrow> Redirect p
      | Some (Inr h) \<Rightarrow> h env m path)"

section \<open>Client certificates\<close>

text \<open>
  The middleware in front: \<open>verify\<close> is the verification of the first certificate of the peer against
  the CA.
\<close>

definition AuthHandler :: "bool \<Rightarrow> ('cert \<Rightarrow> bool) \<Rightarrow> 'cert list \<Rightarrow> 'a \<Rightarrow> 'a option" where
  "AuthHandler enabled verify peers served =
     (if \<not> enabled then Some served
      else case peers of
          [] \<Rightarrow> None
        | cert # _ \<Rightarrow> if verify cert then Some served else None)"

section \<open>Discovery\<close>

record api_resource =
  ar_name :: string
  ar_singular :: string
  ar_namespaced :: bool
  ar_kind :: string
  ar_verbs :: "string list"
  ar_short :: "string list"
  ar_categories :: "string list"

definition apiResource :: "string \<Rightarrow> string \<Rightarrow> bool \<Rightarrow> string \<Rightarrow> string list \<Rightarrow> string list \<Rightarrow> string list \<Rightarrow> api_resource" where
  "apiResource name singular namespaced kind verbs short categories =
     \<lparr>ar_name = name, ar_singular = singular, ar_namespaced = namespaced, ar_kind = kind, ar_verbs = verbs,
      ar_short = short, ar_categories = categories\<rparr>"

definition verbList :: "string list" where
  "verbList = [''get'', ''list'', ''watch'', ''create'', ''update'', ''patch'', ''delete'', ''deletecollection'']"

definition handleAPIV1 :: "api_resource list" where
  "handleAPIV1 =
     [apiResource ''nodes'' ''node'' False ''Node'' [''get'', ''list''] [''no''] [],
      apiResource ''pods'' ''pod'' True ''Pod'' verbList [''po''] [''all''],
      apiResource ''services'' ''service'' True ''Service'' verbList [''svc''] [''all''],
      apiResource ''namespaces'' ''namespace'' False ''Namespace'' verbList [''ns''] [],
      apiResource ''persistentvolumeclaims'' ''persistentvolumeclaim'' True ''PersistentVolumeClaim'' verbList [''pvc''] [],
      apiResource ''configmaps'' ''configmap'' True ''ConfigMap'' verbList [''cm''] [],
      apiResource ''secrets'' ''secret'' True ''Secret'' verbList [] [],
      apiResource ''events'' ''event'' True ''Event'' [''get'', ''list'', ''watch''] [''ev''] []]"

definition handleAppsV1 :: "api_resource list" where
  "handleAppsV1 =
     [apiResource ''deployments'' ''deployment'' True ''Deployment'' verbList [''deploy''] [''all''],
      apiResource ''deployments/scale'' [] True ''Scale'' [''get'', ''patch'', ''update''] [] [],
      apiResource ''daemonsets'' ''daemonset'' True ''DaemonSet'' [''get'', ''list'', ''watch''] [''ds''] [''all''],
      apiResource ''statefulsets'' ''statefulset'' True ''StatefulSet'' [''get'', ''list'', ''watch''] [''sts''] [''all''],
      apiResource ''replicasets'' ''replicaset'' True ''ReplicaSet'' [''get'', ''list'', ''watch''] [''rs''] [''all'']]"

definition handleBatchV1 :: "api_resource list" where
  "handleBatchV1 =
     [apiResource ''jobs'' ''job'' True ''Job'' verbList [] [''all''],
      apiResource ''cronjobs'' ''cronjob'' True ''CronJob'' verbList [''cj''] [''all'']]"

definition handleNetworkingV1 :: "api_resource list" where
  "handleNetworkingV1 = [apiResource ''ingresses'' ''ingress'' True ''Ingress'' verbList [''ing''] []]"

definition handleTraefikV1Alpha1 :: "api_resource list" where
  "handleTraefikV1Alpha1 =
     [apiResource ''middlewares'' ''middleware'' True ''Middleware'' verbList [] [],
      apiResource ''ingressroutetcps'' ''ingressroutetcp'' True ''IngressRouteTCP'' verbList [] []]"

definition handleAPIExtensionsV1 :: "api_resource list" where
  "handleAPIExtensionsV1 =
     [apiResource ''customresourcedefinitions'' ''customresourcedefinition'' False ''CustomResourceDefinition''
        [''get'', ''list''] [''crd'', ''crds''] []]"

definition handleMetricsV1beta1 :: "api_resource list" where
  "handleMetricsV1beta1 =
     [apiResource ''nodes'' ''node'' False ''NodeMetrics'' [''get'', ''list''] [] [],
      apiResource ''pods'' ''pod'' True ''PodMetrics'' [''get'', ''list''] [] []]"

definition handleCoordinationV1 :: "api_resource list" where
  "handleCoordinationV1 = [apiResource ''leases'' ''lease'' True ''Lease'' [''get'', ''list''] [] []]"

definition handleStorageV1 :: "api_resource list" where
  "handleStorageV1 = [apiResource ''storageclasses'' ''storageclass'' False ''StorageClass'' [''get'', ''list''] [''sc''] []]"

text \<open>The groups of \<open>/apis\<close>, in the order they are listed, each with its one version.\<close>

definition handleAPIsRoot :: "(string \<times> string) list" where
  "handleAPIsRoot =
     [(''apiextensions.k8s.io'', ''apiextensions.k8s.io/v1''), (''apps'', ''apps/v1''), (''batch'', ''batch/v1''),
      (''networking.k8s.io'', ''networking.k8s.io/v1''), (''traefik.io'', ''traefik.io/v1alpha1''),
      (''metrics.k8s.io'', ''metrics.k8s.io/v1beta1''), (''coordination.k8s.io'', ''coordination.k8s.io/v1''),
      (''storage.k8s.io'', ''storage.k8s.io/v1'')]"

definition api_resources :: "(string \<times> api_resource list) list" where
  "api_resources =
     [(''v1'', handleAPIV1), (''apiextensions.k8s.io/v1'', handleAPIExtensionsV1), (''apps/v1'', handleAppsV1),
      (''batch/v1'', handleBatchV1), (''networking.k8s.io/v1'', handleNetworkingV1),
      (''traefik.io/v1alpha1'', handleTraefikV1Alpha1), (''metrics.k8s.io/v1beta1'', handleMetricsV1beta1),
      (''coordination.k8s.io/v1'', handleCoordinationV1), (''storage.k8s.io/v1'', handleStorageV1)]"

end
