(* ===== verification/RoutingProperties.thy ===== *)
theory RoutingProperties
  imports Routing
begin

text \<open>
  The URL of an object reaches the handler of its kind with its namespace and name, whatever those
  are, and the verbs that discovery advertises are compared with those that are served.
\<close>

declare split_paired_All [simp del] split_paired_Ex [simp del]

section \<open>The patterns\<close>

lemma longest_step:
  "longest (rs @ [r]) = (case longest rs of
     Some b \<Rightarrow> if length (fst b) < length (fst r) then Some r else Some b
   | None \<Rightarrow> Some r)"
  by (simp add: longest_def split: option.split)

lemma longest_max:
  "(rs = [] \<longrightarrow> longest rs = None) \<and>
   (rs \<noteq> [] \<longrightarrow> (\<exists>b \<in> set rs. longest rs = Some b \<and> (\<forall>r \<in> set rs. length (fst r) \<le> length (fst b))))"
proof (induction rs rule: rev_induct)
  case Nil
  then show ?case by (simp add: longest_def)
next
  case (snoc r rs)
  show ?case
  proof (cases "rs = []")
    case True
    then show ?thesis by (simp add: longest_def)
  next
    case False
    then obtain b where "b \<in> set rs" "longest rs = Some b" "\<forall>r \<in> set rs. length (fst r) \<le> length (fst b)"
      using snoc by blast
    then show ?thesis by (auto simp: longest_step intro: order.trans less_imp_le)
  qed
qed

lemma longest_nonempty:
  assumes "r \<in> set rs"
  obtains b where "b \<in> set rs" "longest rs = Some b" "\<forall>r \<in> set rs. length (fst r) \<le> length (fst b)"
proof -
  have "rs \<noteq> []" using assms by (cases rs) simp_all
  then show ?thesis using longest_max [of rs] that by blast
qed

lemma prefix_cases: "HasPrefix (p @ x) q \<Longrightarrow> HasPrefix p q \<or> HasPrefix q p"
proof (cases "length q \<le> length p")
  case False
  assume "HasPrefix (p @ x) q"
  then have "q = p @ take (length q - length p) x" using False by (simp add: HasPrefix_def)
  then have "HasPrefix q p" by (metis HasPrefix_append)
  then show ?thesis ..
qed (simp add: HasPrefix_def)

lemma HasPrefix_self: "HasPrefix (p @ x) p"
  by (simp add: HasPrefix_def)

lemma HasPrefix_length: "HasPrefix p q \<Longrightarrow> length q \<le> length p \<and> (length p \<le> length q \<longrightarrow> p = q)"
  unfolding HasPrefix_def by (metis length_take min.bounded_iff min_def order_refl take_all)

lemma mux_subtree:
  assumes "(p, h) \<in> set rs" "distinct (map fst rs)" "subtree p"
    and others: "list_all (\<lambda>q. q = p \<or> \<not> HasPrefix q p) (map fst rs)" and "x \<noteq> []"
  shows "ServeMux rs (p @ x) = Some (Inr h)"
proof -
  have other: "fst r = p" if "r \<in> set rs" "HasPrefix (fst r) p" for r
    using others that by (auto simp: list_all_iff)
  have longer: "fst r \<noteq> p @ y" if "r \<in> set rs" "y \<noteq> []" for r y
    using other [OF that(1)] that(2) by auto
  have "find (\<lambda>r. fst r = p @ x) rs = None"
    unfolding find_None_iff by (intro notI) (elim exE conjE, erule (1) longer [OF _ assms(5), THEN notE])
  moreover have "\<not> list_ex (\<lambda>r. fst r = (p @ x) @ ''/'') rs"
  proof -
    have "fst r \<noteq> (p @ x) @ ''/''" if "r \<in> set rs" for r
      unfolding append_assoc using that by (rule longer) simp
    then show ?thesis unfolding list_ex_iff by blast
  qed
  moreover have "longest (filter (\<lambda>r. subtree (fst r) \<and> HasPrefix (p @ x) (fst r)) rs) = Some (p, h)"
  proof -
    let ?rs = "filter (\<lambda>r. subtree (fst r) \<and> HasPrefix (p @ x) (fst r)) rs"
    have mem: "(p, h) \<in> set ?rs" using assms(1,3) by (simp add: HasPrefix_self)
    obtain b where b: "b \<in> set ?rs" "longest ?rs = Some b" "\<forall>r \<in> set ?rs. length (fst r) \<le> length (fst b)"
      using longest_nonempty [OF mem] .
    have "fst b = p"
    proof (cases "HasPrefix (fst b) p")
      case True
      with b(1) other show ?thesis by simp
    next
      case False
      then have "HasPrefix p (fst b)" using b(1) prefix_cases by auto
      moreover have "length p \<le> length (fst b)" using b(3) mem by fastforce
      ultimately show ?thesis using HasPrefix_length by metis
    qed
    moreover have "b \<in> set rs" using b(1) by simp
    ultimately have "b = (p, h)"
      using assms(1,2) by (metis eq_key_imp_eq_value prod.collapse)
    with b(2) show ?thesis by simp
  qed
  ultimately show ?thesis by (simp add: ServeMux_def)
qed

lemma routes_distinct: "distinct (map fst routes)"
  by code_simp

definition lone_subtree :: "string \<Rightarrow> bool" where
  "lone_subtree p \<longleftrightarrow> subtree p \<and> list_all (\<lambda>q. q = p \<or> \<not> HasPrefix q p) (map fst routes)"

lemma dispatch_subtree:
  "(p, h) \<in> set routes \<Longrightarrow> lone_subtree p \<Longrightarrow> x \<noteq> [] \<Longrightarrow> dispatch env m (p @ x) = h env m (p @ x)"
  using mux_subtree [OF _ routes_distinct, of p h x] by (simp add: lone_subtree_def dispatch_def)

lemma namespaced_patterns:
  "lone_subtree ''/api/v1/namespaces/''" "lone_subtree ''/apis/apps/v1/namespaces/''"
  "lone_subtree ''/apis/batch/v1/namespaces/''" "lone_subtree ''/apis/networking.k8s.io/v1/namespaces/''"
  "lone_subtree ''/apis/traefik.io/v1alpha1/namespaces/''"
  by code_simp+

lemma namespaced_routes:
  "(''/api/v1/namespaces/'', \<lambda>_. handleNamespaced) \<in> set routes"
  "(''/apis/apps/v1/namespaces/'', \<lambda>_. handleAppsNamespaced) \<in> set routes"
  "(''/apis/batch/v1/namespaces/'', \<lambda>_. handleBatchNamespaced) \<in> set routes"
  "(''/apis/networking.k8s.io/v1/namespaces/'', \<lambda>_. handleNetworkingNamespaced) \<in> set routes"
  "(''/apis/traefik.io/v1alpha1/namespaces/'', \<lambda>_. handleTraefikNamespaced) \<in> set routes"
  unfolding routes_def by (simp_all only: set_append Un_iff list.set insert_iff simp_thms)

section \<open>Parsing\<close>

definition segment :: "string \<Rightarrow> bool" where
  "segment s \<longleftrightarrow> s \<noteq> [] \<and> CHR ''/'' \<notin> set s"

definition tail_of :: "string \<Rightarrow> string \<Rightarrow> string \<Rightarrow> string" where
  "tail_of ns resource name = ns @ CHR ''/'' # resource @ (if name = [] then [] else CHR ''/'' # name)"

lemma TrimSuffix_keeps: "t \<noteq> [] \<Longrightarrow> last t \<noteq> d \<Longrightarrow> TrimSuffix t [d] = t"
  by (cases t rule: rev_cases) (simp_all add: TrimSuffix_def HasSuffix_def HasPrefix_def)

lemma last_segment: "segment s \<Longrightarrow> last s \<noteq> CHR ''/''"
  unfolding segment_def by (metis last_in_set)

lemma tail_trim:
  "segment resource \<Longrightarrow> name = [] \<or> segment name \<Longrightarrow> TrimSuffix (tail_of ns resource name) ''/'' = tail_of ns resource name"
  by (rule TrimSuffix_keeps) (auto simp: tail_of_def last_segment segment_def dest: last_in_set)

lemma tail_split:
  assumes "segment ns" "segment resource" "name = [] \<or> segment name"
  shows "SplitN 3 (tail_of ns resource name) (CHR ''/'') = [ns, resource] @ (if name = [] then [] else [name])"
proof -
  have "Split (tail_of ns resource name) (CHR ''/'') = [ns, resource] @ (if name = [] then [] else [name])"
    using assms by (auto simp: tail_of_def segment_def Split_append Split_atom)
  then show ?thesis by (simp add: SplitN_def)
qed

lemma namespace_resource_tail:
  assumes "segment ns" "segment resource" "name = [] \<or> segment name"
  shows "namespace_resource p (p @ tail_of ns resource name) = Some (ns, resource, name)"
  using assms tail_trim [of resource name ns] tail_split [OF assms]
  by (simp add: namespace_resource_def HasPrefix_self TrimPrefix_def) (simp add: tail_of_def)

section \<open>Objects\<close>

text \<open>The kinds with objects: the path of the group, group and version, resource, whether it has PUT.\<close>

definition object_kinds :: "(string \<times> string \<times> string \<times> bool) list" where
  "object_kinds =
     [(''/api/v1'', ''v1'', ''pods'', False), (''/api/v1'', ''v1'', ''services'', False),
      (''/api/v1'', ''v1'', ''persistentvolumeclaims'', False), (''/api/v1'', ''v1'', ''configmaps'', True),
      (''/api/v1'', ''v1'', ''secrets'', False), (''/apis/apps/v1'', ''apps/v1'', ''deployments'', True),
      (''/apis/batch/v1'', ''batch/v1'', ''jobs'', False), (''/apis/batch/v1'', ''batch/v1'', ''cronjobs'', False),
      (''/apis/networking.k8s.io/v1'', ''networking.k8s.io/v1'', ''ingresses'', True),
      (''/apis/traefik.io/v1alpha1'', ''traefik.io/v1alpha1'', ''middlewares'', True),
      (''/apis/traefik.io/v1alpha1'', ''traefik.io/v1alpha1'', ''ingressroutetcps'', True)]"

definition object_url :: "string \<Rightarrow> string \<Rightarrow> string \<Rightarrow> string \<Rightarrow> string" where
  "object_url base ns resource name =
     base @ ''/namespaces/'' @ ns @ ''/'' @ resource @ (if name = [] then [] else ''/'' @ name)"

lemma object_url_tail: "object_url base ns resource name = (base @ ''/namespaces/'') @ tail_of ns resource name"
  by (simp add: object_url_def tail_of_def)

lemma tail_not_Nil: "tail_of ns resource name \<noteq> []"
  by (simp add: tail_of_def)

lemma no_subresource: "name = [] \<or> segment name \<Longrightarrow> IndexByte name (CHR ''/'') = None"
  by (auto simp: IndexByte_None segment_def)

lemma core_urls:
  assumes "segment ns" "name = [] \<or> segment name"
    and "(resource, has_put) \<in> {(''pods'', False), (''services'', False), (''persistentvolumeclaims'', False),
      (''configmaps'', True), (''secrets'', False)}"
  shows "dispatch env m (''/api/v1/namespaces/'' @ tail_of ns resource name) = object_action has_put ''v1'' resource m ns name"
proof -
  have "segment resource" using assms(3) by (auto simp: segment_def)
  then have "parseNamespaceResource (''/api/v1/namespaces/'' @ tail_of ns resource name) = Some (ns, resource, name)"
    unfolding parseNamespaceResource_def using assms(1,2) by (intro namespace_resource_tail)
  moreover have "dispatch env m (''/api/v1/namespaces/'' @ tail_of ns resource name)
      = handleNamespaced m (''/api/v1/namespaces/'' @ tail_of ns resource name)"
    by (rule dispatch_subtree [OF namespaced_routes(1) namespaced_patterns(1) tail_not_Nil])
  ultimately show ?thesis
    using assms(3) no_subresource [OF assms(2)]
    by (elim insertE) (simp_all add: handleNamespaced_def handlePods_def)
qed

lemma apps_urls:
  assumes "segment ns" "name = [] \<or> segment name"
  shows "dispatch env m (''/apis/apps/v1/namespaces/'' @ tail_of ns ''deployments'' name) =
    object_action True ''apps/v1'' ''deployments'' m ns name"
proof -
  have d: "segment ''deployments''" by (simp add: segment_def)
  have "dispatch env m (''/apis/apps/v1/namespaces/'' @ tail_of ns ''deployments'' name)
      = handleAppsNamespaced m (''/apis/apps/v1/namespaces/'' @ tail_of ns ''deployments'' name)"
    by (rule dispatch_subtree [OF namespaced_routes(2) namespaced_patterns(2) tail_not_Nil])
  moreover have "TrimPrefix (''/apis/apps/v1/namespaces/'' @ t) ''/apis/apps/v1/namespaces/'' = t" for t
    by (simp only: TrimPrefix_def HasPrefix_append if_True append_eq_conv_conj [symmetric] drop_append) simp
  ultimately show ?thesis
    using tail_trim [OF d assms(2), of ns] tail_split [OF assms(1) d assms(2)] no_subresource [OF assms(2)]
    by (auto simp: handleAppsNamespaced_def Let_def handleDeployments_def)
qed

lemma batch_urls:
  assumes "segment ns" "name = [] \<or> segment name" "resource \<in> {''jobs'', ''cronjobs''}"
  shows "dispatch env m (''/apis/batch/v1/namespaces/'' @ tail_of ns resource name) = object_action False ''batch/v1'' resource m ns name"
proof -
  have "segment resource" using assms(3) by (auto simp: segment_def)
  then have "parseBatchNamespaceResource (''/apis/batch/v1/namespaces/'' @ tail_of ns resource name) = Some (ns, resource, name)"
    unfolding parseBatchNamespaceResource_def using assms(1,2) by (intro namespace_resource_tail)
  moreover have "dispatch env m (''/apis/batch/v1/namespaces/'' @ tail_of ns resource name)
      = handleBatchNamespaced m (''/apis/batch/v1/namespaces/'' @ tail_of ns resource name)"
    by (rule dispatch_subtree [OF namespaced_routes(3) namespaced_patterns(3) tail_not_Nil])
  ultimately show ?thesis using assms(3) by (elim insertE) (simp_all add: handleBatchNamespaced_def)
qed

lemma networking_urls:
  assumes "segment ns" "name = [] \<or> segment name"
  shows "dispatch env m (''/apis/networking.k8s.io/v1/namespaces/'' @ tail_of ns ''ingresses'' name) =
    object_action True ''networking.k8s.io/v1'' ''ingresses'' m ns name"
proof -
  have "segment ''ingresses''" by (simp add: segment_def)
  then have "parseNetworkingNamespaceResource (''/apis/networking.k8s.io/v1/namespaces/'' @ tail_of ns ''ingresses'' name)
      = Some (ns, ''ingresses'', name)"
    unfolding parseNetworkingNamespaceResource_def using assms(1,2) by (intro namespace_resource_tail)
  moreover have "dispatch env m (''/apis/networking.k8s.io/v1/namespaces/'' @ tail_of ns ''ingresses'' name)
      = handleNetworkingNamespaced m (''/apis/networking.k8s.io/v1/namespaces/'' @ tail_of ns ''ingresses'' name)"
    by (rule dispatch_subtree [OF namespaced_routes(4) namespaced_patterns(4) tail_not_Nil])
  ultimately show ?thesis by (simp add: handleNetworkingNamespaced_def)
qed

lemma traefik_urls:
  assumes "segment ns" "name = [] \<or> segment name" "resource \<in> {''middlewares'', ''ingressroutetcps''}"
  shows "dispatch env m (''/apis/traefik.io/v1alpha1/namespaces/'' @ tail_of ns resource name) =
    object_action True ''traefik.io/v1alpha1'' resource m ns name"
proof -
  have "segment resource" using assms(3) by (auto simp: segment_def)
  then have "parseTraefikNamespaceResource (''/apis/traefik.io/v1alpha1/namespaces/'' @ tail_of ns resource name)
      = Some (ns, resource, name)"
    unfolding parseTraefikNamespaceResource_def using assms(1,2) by (intro namespace_resource_tail)
  moreover have "dispatch env m (''/apis/traefik.io/v1alpha1/namespaces/'' @ tail_of ns resource name)
      = handleTraefikNamespaced m (''/apis/traefik.io/v1alpha1/namespaces/'' @ tail_of ns resource name)"
    by (rule dispatch_subtree [OF namespaced_routes(5) namespaced_patterns(5) tail_not_Nil])
  ultimately show ?thesis using assms(3) by (elim insertE) (simp_all add: handleTraefikNamespaced_def)
qed

lemma object_urls:
  assumes "(base, gv, resource, has_put) \<in> set object_kinds" "segment ns" "name = [] \<or> segment name"
  shows "dispatch env m (object_url base ns resource name) = object_action has_put gv resource m ns name"
proof -
  note rules = core_urls [OF assms(2,3), of resource has_put] apps_urls [OF assms(2,3)]
    batch_urls [OF assms(2,3), of resource] networking_urls [OF assms(2,3)] traefik_urls [OF assms(2,3), of resource]
  show ?thesis
    using assms(1) rules unfolding object_kinds_def object_url_tail list.set
    by (elim insertE emptyE) simp_all
qed

text \<open>
  C24: Whatever the namespace and the name are, the URL of an object of any of the eleven namespaced
  kinds reaches the operations of that kind with exactly that namespace and name, for every method,
  and the URL of the collection does with an empty name: no pattern shadows another.
\<close>

theorem object_urls_reach_their_handler:
  assumes "(base, gv, resource, has_put) \<in> set object_kinds" "segment ns" "name = [] \<or> segment name"
  shows "dispatch env m (object_url base ns resource name) = object_action has_put gv resource m ns name"
  using assms by (rule object_urls)

definition routing_demo :: route_env where
  "routing_demo = \<lparr>re_hostname = ''h'', re_crds = [''h'']\<rparr>"

theorem object_urls_reach_their_handler_witness:
  "dispatch routing_demo ''DELETE'' (object_url ''/apis/apps/v1'' ''namespaces'' ''deployments'' ''web'') =
     Served DeleteOp ''apps/v1'' ''deployments'' ''namespaces'' ''web''"
  using object_urls_reach_their_handler [of "''/apis/apps/v1''" "''apps/v1''" "''deployments''" True "''namespaces''" "''web''"
      routing_demo "''DELETE''"]
  by (simp add: object_kinds_def segment_def object_action_def)

section \<open>Discovery\<close>

text \<open>The request a client makes for a verb: method, whether it names an object, and what it expects.\<close>

definition verb_request :: "string \<Rightarrow> (string \<times> bool \<times> operation) option" where
  "verb_request verb =
     (if verb = ''get'' then Some (''GET'', True, GetOp)
      else if verb = ''list'' \<or> verb = ''watch'' then Some (''GET'', False, ListOp)
      else if verb = ''create'' then Some (''POST'', False, CreateOp)
      else if verb = ''update'' then Some (''PUT'', True, UpdateOp)
      else if verb = ''patch'' then Some (''PATCH'', True, PatchOp)
      else if verb = ''delete'' then Some (''DELETE'', True, DeleteOp)
      else if verb = ''deletecollection'' then Some (''DELETE'', False, DeleteCollectionOp)
      else None)"

definition resource_url :: "string \<Rightarrow> api_resource \<Rightarrow> string \<Rightarrow> string \<Rightarrow> string" where
  "resource_url gv r ns name =
     (if gv = ''v1'' then ''/api/v1'' else ''/apis/'' @ gv) @
     (if ar_namespaced r then ''/namespaces/'' @ ns else []) @ ''/'' @ hd (Split (ar_name r) (CHR ''/'')) @ name @
     (case tl (Split (ar_name r) (CHR ''/'')) of [] \<Rightarrow> [] | sub # _ \<Rightarrow> ''/'' @ sub)"

definition verb_served :: "string \<Rightarrow> api_resource \<Rightarrow> string \<Rightarrow> string \<Rightarrow> bool" where
  "verb_served gv r name verb =
     (case verb_request verb of None \<Rightarrow> False | Some (m, named, op) \<Rightarrow>
       (case dispatch routing_demo m (resource_url gv r ''n'' (if named then ''/'' @ name else [])) of
          Served op' gv' res _ name' \<Rightarrow> op' = op \<and> gv' = gv \<and> res = ar_name r \<and> name' = (if named then name else [])
        | ScaleOp _ _ _ \<Rightarrow> ar_name r = ''deployments/scale''
        | _ \<Rightarrow> False))"

definition sample_name :: "string \<Rightarrow> string" where
  "sample_name res = (if res = ''storageclasses'' then StorageClassStandard else ''h'')"

definition unserved_of :: "string \<Rightarrow> api_resource \<Rightarrow> (string \<times> string \<times> string) list" where
  "unserved_of gv r =
     map (\<lambda>v. (gv, ar_name r, v)) (filter (\<lambda>v. \<not> verb_served gv r (sample_name (ar_name r)) v) (ar_verbs r))"

definition unserved_verbs :: "(string \<times> string \<times> string) list" where
  "unserved_verbs = concat (map (\<lambda>(gv, rs). concat (map (unserved_of gv) rs)) api_resources)"

lemma object_kind_facts:
  assumes "(base, gv, res, has_put) \<in> set object_kinds"
  shows "segment res" "base = (if gv = ''v1'' then ''/api/v1'' else ''/apis/'' @ gv)"
    "sample_name res = ''h''" "res \<noteq> ''deployments/scale''"
  using assms unfolding object_kinds_def list.set
  by (elim insertE emptyE; simp add: segment_def sample_name_def)+

lemma object_resource_url:
  assumes "(base, gv, res, has_put) \<in> set object_kinds" "ar_name r = res" "ar_namespaced r"
  shows "resource_url gv r ''n'' (if named then ''/h'' else []) = object_url base ''n'' res (if named then ''h'' else [])"
proof -
  have "Split res (CHR ''/'') = [res]" using object_kind_facts(1) [OF assms(1)] by (simp add: segment_def Split_atom)
  then show ?thesis using assms(2,3) object_kind_facts(2) [OF assms(1)] by (simp add: resource_url_def object_url_def)
qed

lemma object_dispatch:
  assumes "(base, gv, res, has_put) \<in> set object_kinds" "ar_name r = res" "ar_namespaced r"
  shows "dispatch routing_demo m (resource_url gv r ''n'' (if named then ''/h'' else [])) =
    object_action has_put gv res m ''n'' (if named then ''h'' else [])"
  unfolding object_resource_url [OF assms]
  by (rule object_urls [OF assms(1)]) (auto simp: segment_def)

lemma object_verb_served:
  assumes "(base, gv, res, has_put) \<in> set object_kinds" "ar_name r = res" "ar_namespaced r" "v \<in> set verbList"
  shows "verb_served gv r ''h'' v \<longleftrightarrow> v \<noteq> ''update'' \<or> has_put"
proof -
  note d = object_dispatch [OF assms(1-3), of _ True, simplified] object_dispatch [OF assms(1-3), of _ False, simplified]
  show ?thesis
    using assms(2,4) d unfolding verbList_def list.set
    by (elim insertE emptyE) (simp_all add: verb_served_def verb_request_def object_action_def)
qed

lemma object_unserved:
  assumes "(base, gv, res, has_put) \<in> set object_kinds" "ar_name r = res" "ar_namespaced r" "ar_verbs r = verbList"
  shows "unserved_of gv r = (if has_put then [] else [(gv, res, ''update'')])"
proof -
  have "filter (\<lambda>v. \<not> verb_served gv r (sample_name (ar_name r)) v) (ar_verbs r) = filter (\<lambda>v. v = ''update'' \<and> \<not> has_put) verbList"
    unfolding assms(2,4) object_kind_facts(3) [OF assms(1)]
    by (rule filter_cong) (simp_all add: object_verb_served [OF assms(1-3)])
  then show ?thesis by (simp add: unserved_of_def assms(2) verbList_def)
qed

lemma other_core_unserved:
  "unserved_of ''v1'' (handleAPIV1 ! 0) = []"
  "unserved_of ''v1'' (handleAPIV1 ! 3) = [(''v1'', ''namespaces'', ''update''), (''v1'', ''namespaces'', ''deletecollection'')]"
  "unserved_of ''v1'' (handleAPIV1 ! 7) = [(''v1'', ''events'', ''get'')]"
  by code_simp+

lemma other_apps_unserved:
  "concat (map (unserved_of ''apps/v1'') (tl handleAppsV1)) =
    [(''apps/v1'', ''daemonsets'', ''get''), (''apps/v1'', ''statefulsets'', ''get''), (''apps/v1'', ''replicasets'', ''get'')]"
  by code_simp

lemma other_groups_unserved:
  "concat (map (unserved_of ''apiextensions.k8s.io/v1'') handleAPIExtensionsV1) = []"
  "concat (map (unserved_of ''metrics.k8s.io/v1beta1'') handleMetricsV1beta1) =
    [(''metrics.k8s.io/v1beta1'', ''nodes'', ''get''), (''metrics.k8s.io/v1beta1'', ''pods'', ''get'')]"
  "concat (map (unserved_of ''coordination.k8s.io/v1'') handleCoordinationV1) = []"
  "concat (map (unserved_of ''storage.k8s.io/v1'') handleStorageV1) = []"
  by code_simp+

lemma core_unserved:
  "concat (map (unserved_of ''v1'') handleAPIV1) =
    [(''v1'', ''pods'', ''update''), (''v1'', ''services'', ''update''), (''v1'', ''namespaces'', ''update''),
     (''v1'', ''namespaces'', ''deletecollection''), (''v1'', ''persistentvolumeclaims'', ''update''),
     (''v1'', ''secrets'', ''update''), (''v1'', ''events'', ''get'')]"
proof -
  have e: "handleAPIV1 = [handleAPIV1 ! 0, handleAPIV1 ! 1, handleAPIV1 ! 2, handleAPIV1 ! 3, handleAPIV1 ! 4,
      handleAPIV1 ! 5, handleAPIV1 ! 6, handleAPIV1 ! 7]" by (simp add: handleAPIV1_def)
  have "unserved_of ''v1'' (handleAPIV1 ! 1) = [(''v1'', ''pods'', ''update'')]"
    by (subst object_unserved [of "''/api/v1''" _ "''pods''" False]) (simp_all add: object_kinds_def handleAPIV1_def apiResource_def)
  moreover have "unserved_of ''v1'' (handleAPIV1 ! 2) = [(''v1'', ''services'', ''update'')]"
    by (subst object_unserved [of "''/api/v1''" _ "''services''" False]) (simp_all add: object_kinds_def handleAPIV1_def apiResource_def)
  moreover have "unserved_of ''v1'' (handleAPIV1 ! 4) = [(''v1'', ''persistentvolumeclaims'', ''update'')]"
    by (subst object_unserved [of "''/api/v1''" _ "''persistentvolumeclaims''" False]) (simp_all add: object_kinds_def handleAPIV1_def apiResource_def)
  moreover have "unserved_of ''v1'' (handleAPIV1 ! 5) = []"
    by (subst object_unserved [of "''/api/v1''" _ "''configmaps''" True]) (simp_all add: object_kinds_def handleAPIV1_def apiResource_def)
  moreover have "unserved_of ''v1'' (handleAPIV1 ! 6) = [(''v1'', ''secrets'', ''update'')]"
    by (subst object_unserved [of "''/api/v1''" _ "''secrets''" False]) (simp_all add: object_kinds_def handleAPIV1_def apiResource_def)
  ultimately show ?thesis
    using other_core_unserved by (subst e) (simp only: list.map concat.simps append_Cons append_Nil)
qed

lemma apps_unserved:
  "concat (map (unserved_of ''apps/v1'') handleAppsV1) =
    [(''apps/v1'', ''daemonsets'', ''get''), (''apps/v1'', ''statefulsets'', ''get''), (''apps/v1'', ''replicasets'', ''get'')]"
proof -
  have e: "handleAppsV1 = hd handleAppsV1 # tl handleAppsV1" by (simp add: handleAppsV1_def)
  have "unserved_of ''apps/v1'' (hd handleAppsV1) = []"
    by (subst object_unserved [of "''/apis/apps/v1''" _ "''deployments''" True]) (simp_all add: object_kinds_def handleAppsV1_def apiResource_def)
  then show ?thesis using other_apps_unserved by (subst e) (simp only: list.map concat.simps append_Nil)
qed

lemma object_groups_unserved:
  "concat (map (unserved_of ''batch/v1'') handleBatchV1) = [(''batch/v1'', ''jobs'', ''update''), (''batch/v1'', ''cronjobs'', ''update'')]"
  "concat (map (unserved_of ''networking.k8s.io/v1'') handleNetworkingV1) = []"
  "concat (map (unserved_of ''traefik.io/v1alpha1'') handleTraefikV1Alpha1) = []"
proof -
  have u: "unserved_of gv (apiResource res sing True kind verbList short cats) = (if has_put then [] else [(gv, res, ''update'')])"
    if "(base, gv, res, has_put) \<in> set object_kinds" for base gv res has_put sing kind short cats
    using object_unserved [OF that] by (simp add: apiResource_def)
  have kinds: "(''/apis/batch/v1'', ''batch/v1'', ''jobs'', False) \<in> set object_kinds"
    "(''/apis/batch/v1'', ''batch/v1'', ''cronjobs'', False) \<in> set object_kinds"
    "(''/apis/networking.k8s.io/v1'', ''networking.k8s.io/v1'', ''ingresses'', True) \<in> set object_kinds"
    "(''/apis/traefik.io/v1alpha1'', ''traefik.io/v1alpha1'', ''middlewares'', True) \<in> set object_kinds"
    "(''/apis/traefik.io/v1alpha1'', ''traefik.io/v1alpha1'', ''ingressroutetcps'', True) \<in> set object_kinds"
    by (simp_all add: object_kinds_def)
  show "concat (map (unserved_of ''batch/v1'') handleBatchV1) = [(''batch/v1'', ''jobs'', ''update''), (''batch/v1'', ''cronjobs'', ''update'')]"
    "concat (map (unserved_of ''networking.k8s.io/v1'') handleNetworkingV1) = []"
    "concat (map (unserved_of ''traefik.io/v1alpha1'') handleTraefikV1Alpha1) = []"
    unfolding handleBatchV1_def handleNetworkingV1_def handleTraefikV1Alpha1_def
    by (simp_all add: u [OF kinds(1)] u [OF kinds(2)] u [OF kinds(3)] u [OF kinds(4)] u [OF kinds(5)])
qed

text \<open>
  Of all verbs that discovery advertises, exactly these are not served: updating by PUT pods,
  services, namespaces, claims, secrets, jobs and cron jobs, deleting the collection of namespaces,
  and getting by name events, the empty stub kinds and metrics.
\<close>

lemma discovery_against_routes:
  "unserved_verbs =
     [(''v1'', ''pods'', ''update''), (''v1'', ''services'', ''update''), (''v1'', ''namespaces'', ''update''),
      (''v1'', ''namespaces'', ''deletecollection''), (''v1'', ''persistentvolumeclaims'', ''update''),
      (''v1'', ''secrets'', ''update''), (''v1'', ''events'', ''get''),
      (''apps/v1'', ''daemonsets'', ''get''), (''apps/v1'', ''statefulsets'', ''get''), (''apps/v1'', ''replicasets'', ''get''),
      (''batch/v1'', ''jobs'', ''update''), (''batch/v1'', ''cronjobs'', ''update''),
      (''metrics.k8s.io/v1beta1'', ''nodes'', ''get''), (''metrics.k8s.io/v1beta1'', ''pods'', ''get'')]"
  by (simp only: unserved_verbs_def api_resources_def list.map prod.case concat.simps append_Nil append_Nil2 append_Cons
      core_unserved apps_unserved object_groups_unserved other_groups_unserved)

end
