(* ===== verification/Watch.thy ===== *)
theory Watch
  imports Tables Selector
begin

text \<open>
  Lists and watches, internal/server/handler.go: the response of a list request and the events a
  watch sends, by comparing what was sent with the objects there are whenever the store changes.
\<close>

section \<open>Lists\<close>

text \<open>The part of a request a list looks at: the query and whether a table is wanted.\<close>

record list_request =
  lr_labelSelector :: string
  lr_watch :: string
  lr_accept :: string

definition selected :: "list_request \<Rightarrow> 'a kobj_scheme list \<Rightarrow> 'a kobj_scheme list" where
  "selected r items =
     (let reqs = parseLabelSelector (lr_labelSelector r) in
      if reqs = [] then items
      else filter (\<lambda>x. matchesSelector (case om_labels (o_meta x) of Some m \<Rightarrow> m | None \<Rightarrow> []) reqs) items)"

datatype 'a list_response = WatchResponse | TableResponse table | ListResponse "'a list"

definition respondList ::
  "list_request \<Rightarrow> string \<Rightarrow> ('a kobj_scheme list \<Rightarrow> string \<Rightarrow> table) \<Rightarrow> 'a kobj_scheme list \<Rightarrow> 'a kobj_scheme list_response" where
  "respondList r rv toTable items =
     (if lr_watch r = ''true'' then WatchResponse
      else if isTableRequest (lr_accept r) then TableResponse (toTable (selected r items) rv)
      else ListResponse (selected r items))"

section \<open>Watches\<close>

datatype 'a watch_event = Added 'a | Modified 'a | Deleted 'a

type_synonym 'a seen = "(string, string \<times> 'a) gomap"

definition watch_key :: "'a kobj_scheme \<Rightarrow> string" where
  "watch_key x = o_namespace x @ ''/'' @ o_name x"

definition watch_start :: "'a kobj_scheme list \<Rightarrow> 'a kobj_scheme seen" where
  "watch_start items = fold (\<lambda>x m. mput (watch_key x) (o_rv x, x) m) items []"

definition watch_item ::
  "'a kobj_scheme \<Rightarrow> 'a kobj_scheme watch_event list \<times> 'a kobj_scheme seen \<Rightarrow>
   'a kobj_scheme watch_event list \<times> 'a kobj_scheme seen" where
  "watch_item x st =
     (let (evs, seen) = st; k = watch_key x in
      case mget seen k of
        Some (rv, _) \<Rightarrow> if rv = o_rv x then st else (evs @ [Modified x], mput k (o_rv x, x) seen)
      | None \<Rightarrow> (evs @ [Added x], mput k (o_rv x, x) seen))"

text \<open>What one change of the store makes the watch send, with the new state of what was sent.\<close>

definition watch_round ::
  "'a kobj_scheme list \<Rightarrow> 'a kobj_scheme seen \<Rightarrow> 'a kobj_scheme watch_event list \<times> 'a kobj_scheme seen" where
  "watch_round current seen =
     (let (evs, seen1) = fold watch_item current ([], seen);
          currentKeys = map watch_key current
      in (evs @ map (\<lambda>(k, e). Deleted (snd e)) (filter (\<lambda>(k, e). k \<notin> set currentKeys) seen1),
          mdrop (\<lambda>k. k \<notin> set currentKeys) seen1))"

fun watch_rounds :: "'a kobj_scheme seen \<Rightarrow> 'a kobj_scheme list list \<Rightarrow> 'a kobj_scheme watch_event list" where
  "watch_rounds seen [] = []"
| "watch_rounds seen (current # rest) =
     (let (evs, seen1) = watch_round current seen in evs @ watch_rounds seen1 rest)"

definition serveWatch :: "'a kobj_scheme list \<Rightarrow> 'a kobj_scheme list list \<Rightarrow> 'a kobj_scheme watch_event list" where
  "serveWatch first snapshots = watch_rounds (watch_start first) snapshots"

end
