(* ===== verification/Lists.thy ===== *)
theory Lists
  imports Watch Routing WorkloadHandlers StoreProperties DeployDemo
begin

text \<open>
  What a list request finds in the store: the cluster-wide lists of handler.go and traefik.go and the
  lists of one namespace, kind by kind, and that the second are the parts of the first.
\<close>

declare split_paired_All [simp del] split_paired_Ex [simp del]

section \<open>The lists\<close>

text \<open>The list documents, with the objects in the order of the store.\<close>

datatype listing =
    PodList "pod list"
  | ServiceList "service list"
  | PersistentVolumeClaimList "pvc list"
  | ConfigMapList "configmap list"
  | SecretList "secret list"
  | EventList "event list"
  | NamespaceList "namespace list"
  | DeploymentList "deployment list"
  | StubList string
  | JobList "job list"
  | CronJobList "cronjob list"
  | IngressList "ingress list"
  | MiddlewareList "middleware list"
  | IngressRouteTCPList "ingress_route_tcp list"

definition handleClusterList :: "string \<Rightarrow> store \<Rightarrow> listing option" where
  "handleClusterList res s =
     (if res = ''pods'' then Some (PodList (AllPods s))
      else if res = ''services'' then Some (ServiceList (AllServices s))
      else if res = ''persistentvolumeclaims'' then Some (PersistentVolumeClaimList (AllPVCs s))
      else if res = ''configmaps'' then Some (ConfigMapList (AllConfigMaps s))
      else if res = ''secrets'' then Some (SecretList (AllSecrets s))
      else if res = ''events'' then Some (EventList (AllEvents s))
      else None)"

definition handleNamespaceList :: "store \<Rightarrow> listing" where
  "handleNamespaceList s = NamespaceList (ListNamespaces s)"

definition stub_list :: "string \<Rightarrow> listing option" where
  "stub_list res =
     (if res = ''daemonsets'' then Some (StubList ''DaemonSetList'')
      else if res = ''statefulsets'' then Some (StubList ''StatefulSetList'')
      else if res = ''replicasets'' then Some (StubList ''ReplicaSetList'')
      else None)"

definition handleAppsClusterList :: "string \<Rightarrow> store \<Rightarrow> listing option" where
  "handleAppsClusterList res s = (if res = ''deployments'' then Some (DeploymentList (AllDeployments s)) else stub_list res)"

definition handleBatchClusterList :: "string \<Rightarrow> store \<Rightarrow> listing option" where
  "handleBatchClusterList res s =
     (if res = ''jobs'' then Some (JobList (AllJobs s))
      else if res = ''cronjobs'' then Some (CronJobList (AllCronJobs s))
      else None)"

definition handleNetworkingClusterList :: "string \<Rightarrow> store \<Rightarrow> listing option" where
  "handleNetworkingClusterList res s = (if res = ''ingresses'' then Some (IngressList (AllIngresses s)) else None)"

definition handleTraefikClusterList :: "string \<Rightarrow> store \<Rightarrow> listing option" where
  "handleTraefikClusterList res s =
     (if res = ''middlewares'' then Some (MiddlewareList (AllMiddlewares s))
      else if res = ''ingressroutetcps'' then Some (IngressRouteTCPList (AllIngressRouteTCPs s))
      else None)"

definition cluster_listing :: "string \<Rightarrow> string \<Rightarrow> store \<Rightarrow> listing option" where
  "cluster_listing gv res s =
     (if gv = ''v1'' then (if res = ''namespaces'' then Some (handleNamespaceList s) else handleClusterList res s)
      else if gv = ''apps/v1'' then handleAppsClusterList res s
      else if gv = ''batch/v1'' then handleBatchClusterList res s
      else if gv = ''networking.k8s.io/v1'' then handleNetworkingClusterList res s
      else if gv = ''traefik.io/v1alpha1'' then handleTraefikClusterList res s
      else None)"

text \<open>GET without a name in the handlers of a namespace; the status of a deployment is computed on the way.\<close>

definition namespaced_listing :: "string \<Rightarrow> string \<Rightarrow> string \<Rightarrow> store \<Rightarrow> listing option" where
  "namespaced_listing gv res ns s =
     (if gv = ''v1'' then
        (if res = ''pods'' then Some (PodList (PodsIn ns s))
         else if res = ''services'' then Some (ServiceList (ServicesIn ns s))
         else if res = ''persistentvolumeclaims'' then Some (PersistentVolumeClaimList (PVCsIn ns s))
         else if res = ''configmaps'' then Some (ConfigMapList (ConfigMapsIn ns s))
         else if res = ''secrets'' then Some (SecretList (SecretsIn ns s))
         else if res = ''events'' then Some (EventList (EventsIn ns s))
         else None)
      else if gv = ''apps/v1'' then
        (if res = ''deployments'' then Some (DeploymentList (map (withDeploymentStatus s) (DeploymentsIn ns s))) else stub_list res)
      else if gv = ''batch/v1'' then
        (if res = ''jobs'' then Some (JobList (JobsIn ns s))
         else if res = ''cronjobs'' then Some (CronJobList (CronJobsIn ns s)) else None)
      else if gv = ''networking.k8s.io/v1'' then (if res = ''ingresses'' then Some (IngressList (IngressesIn ns s)) else None)
      else if gv = ''traefik.io/v1alpha1'' then
        (if res = ''middlewares'' then Some (MiddlewareList (MiddlewaresIn ns s))
         else if res = ''ingressroutetcps'' then Some (IngressRouteTCPList (IngressRouteTCPsIn ns s)) else None)
      else None)"

text \<open>The metadata of what a list holds.\<close>

fun list_metas :: "listing \<Rightarrow> objmeta list" where
  "list_metas (PodList xs) = map (\<lambda>x. o_meta x) xs"
| "list_metas (ServiceList xs) = map (\<lambda>x. o_meta x) xs"
| "list_metas (PersistentVolumeClaimList xs) = map (\<lambda>x. o_meta x) xs"
| "list_metas (ConfigMapList xs) = map (\<lambda>x. o_meta x) xs"
| "list_metas (SecretList xs) = map (\<lambda>x. o_meta x) xs"
| "list_metas (EventList xs) = map event_meta xs"
| "list_metas (NamespaceList xs) = map (\<lambda>x. o_meta x) xs"
| "list_metas (DeploymentList xs) = map (\<lambda>x. o_meta x) xs"
| "list_metas (StubList k) = []"
| "list_metas (JobList xs) = map (\<lambda>x. o_meta x) xs"
| "list_metas (CronJobList xs) = map (\<lambda>x. o_meta x) xs"
| "list_metas (IngressList xs) = map (\<lambda>x. o_meta x) xs"
| "list_metas (MiddlewareList xs) = map (\<lambda>x. o_meta x) xs"
| "list_metas (IngressRouteTCPList xs) = map (\<lambda>x. o_meta x) xs"

section \<open>One namespace\<close>

definition keyed :: "(string \<times> string, 'a kobj_scheme) gomap \<Rightarrow> bool" where
  "keyed m \<longleftrightarrow> (\<forall>(k, x) \<in> set m. o_namespace x = fst k)"

lemma keyed_part:
  "keyed m \<Longrightarrow> map (\<lambda>x. o_meta x) (map snd (filter (\<lambda>(k, _). fst k = ns) m)) =
    filter (\<lambda>mt. om_namespace mt = ns) (map (\<lambda>x. o_meta x) (mvals m))"
  by (induction m) (auto simp: keyed_def)

lemma keyedI:
  assumes inv: "store_inv s" and wf: "mwf m"
    and held: "\<And>k x. mget m k = Some x \<Longrightarrow> contents s (kd, k) = Some (c x)" and key: "\<And>x. u_key (c x) = okey x"
  shows "keyed m"
  unfolding keyed_def
proof clarify
  fix a b x
  assume "((a, b), x) \<in> set m"
  then have "contents s (kd, (a, b)) = Some (c x)" by (intro held) (simp add: mwf_set_conv [OF wf, symmetric])
  from store_invD(1) [OF inv this] show "o_namespace x = fst (a, b)" by (simp add: key okey_def)
qed

lemma store_keyed:
  assumes "store_inv s"
  shows "keyed (s_pods s)" "keyed (s_services s)" "keyed (s_pvcs s)" "keyed (s_configmaps s)" "keyed (s_secrets s)"
    "keyed (s_jobs s)" "keyed (s_cronjobs s)" "keyed (s_deployments s)" "keyed (s_ingresses s)" "keyed (s_middlewares s)"
    "keyed (s_ingressRouteTCPs s)"
proof -
  note wf = store_invD(5) [OF assms, unfolded maps_wf_def]
  show "keyed (s_pods s)" by (rule keyedI [OF assms, where kd = KPod and c = UPod]) (simp_all add: wf)
  show "keyed (s_services s)" by (rule keyedI [OF assms, where kd = KService and c = UService]) (simp_all add: wf)
  show "keyed (s_pvcs s)" by (rule keyedI [OF assms, where kd = KPVC and c = UPVC]) (simp_all add: wf)
  show "keyed (s_configmaps s)" by (rule keyedI [OF assms, where kd = KConfigMap and c = UConfigMap]) (simp_all add: wf)
  show "keyed (s_secrets s)" by (rule keyedI [OF assms, where kd = KSecret and c = USecret]) (simp_all add: wf)
  show "keyed (s_jobs s)" by (rule keyedI [OF assms, where kd = KJob and c = UJob]) (simp_all add: wf)
  show "keyed (s_cronjobs s)" by (rule keyedI [OF assms, where kd = KCronJob and c = UCronJob]) (simp_all add: wf)
  show "keyed (s_deployments s)" by (rule keyedI [OF assms, where kd = KDeployment and c = UDeployment]) (simp_all add: wf)
  show "keyed (s_ingresses s)" by (rule keyedI [OF assms, where kd = KIngress and c = UIngress]) (simp_all add: wf)
  show "keyed (s_middlewares s)" by (rule keyedI [OF assms, where kd = KMiddleware and c = UMiddleware]) (simp_all add: wf)
  show "keyed (s_ingressRouteTCPs s)" by (rule keyedI [OF assms, where kd = KIngressRouteTCP and c = UIngressRouteTCP]) (simp_all add: wf)
qed

lemma events_part: "map event_meta (EventsIn ns s) = filter (\<lambda>mt. om_namespace mt = ns) (map event_meta (AllEvents s))"
  by (simp add: EventsIn_def AllEvents_def filter_map comp_def event_meta_def)

lemma status_meta [simp]: "o_meta (withDeploymentStatus s d) = o_meta d"
  by (simp add: withDeploymentStatus_def Let_def)

text \<open>
  In every reachable store the list of a namespace holds the same objects, in the same order, as
  the part of the cluster-wide list that lies in the namespace; both are served for the same resources,
  namespaces themselves apart.
\<close>

lemma namespaced_lists_are_parts:
  assumes "store_inv s" "res \<noteq> ''namespaces''"
  shows "map_option list_metas (namespaced_listing gv res ns s) =
    map_option (\<lambda>l. filter (\<lambda>mt. om_namespace mt = ns) (list_metas l)) (cluster_listing gv res s)"
  using store_keyed [OF assms(1), THEN keyed_part, of ns] assms(2) events_part [of ns s]
  by (simp add: namespaced_listing_def cluster_listing_def handleClusterList_def handleAppsClusterList_def
      handleBatchClusterList_def handleNetworkingClusterList_def handleTraefikClusterList_def stub_list_def
      PodsIn_def ServicesIn_def PVCsIn_def ConfigMapsIn_def SecretsIn_def JobsIn_def CronJobsIn_def DeploymentsIn_def
      IngressesIn_def MiddlewaresIn_def IngressRouteTCPsIn_def AllPods_def AllServices_def AllPVCs_def AllConfigMaps_def
      AllSecrets_def AllJobs_def AllCronJobs_def AllDeployments_def AllIngresses_def AllMiddlewares_def AllIngressRouteTCPs_def
      comp_def)

definition two_pods :: store where
  "two_pods = exec (OpCreate 7 (UPod (demo_pod\<lparr>o_meta := demo_meta ''a''\<rparr>)))
     (exec (OpCreate 7 (UPod (demo_pod\<lparr>o_meta := (demo_meta ''x'')\<lparr>om_namespace := ''c''\<rparr>\<rparr>))) NewStore)"

lemma namespaced_lists_are_parts_witness:
  "map_option (map om_name \<circ> list_metas) (namespaced_listing ''v1'' ''pods'' ''b'' two_pods) = Some [''a''] \<and>
   map_option (length \<circ> list_metas) (cluster_listing ''v1'' ''pods'' two_pods) = Some 2"
proof
  have inv: "store_inv two_pods" unfolding two_pods_def by (intro exec_inv store_inv_new)
  have "map_option (\<lambda>l. map om_name (filter (\<lambda>mt. om_namespace mt = ''b'') (list_metas l))) (cluster_listing ''v1'' ''pods'' two_pods) = Some [''a'']"
    by code_simp
  then show "map_option (map om_name \<circ> list_metas) (namespaced_listing ''v1'' ''pods'' ''b'' two_pods) = Some [''a'']"
    using arg_cong [OF namespaced_lists_are_parts [OF inv, of "''pods''" "''v1''" "''b''"], of "map_option (map om_name)"]
    by (simp add: option.map_comp comp_def)
  show "map_option (length \<circ> list_metas) (cluster_listing ''v1'' ''pods'' two_pods) = Some 2"
    by code_simp
qed

text \<open>
  The objects are not always the same: the cluster-wide list of deployments shows the status that was
  stored at the last pass of the reconcile loop, the list of the namespace computes it.
\<close>

lemma cluster_list_shows_stored_status:
  assumes "s_deployments s = [((''n'', ''d''), d)]"
  shows "cluster_listing ''apps/v1'' ''deployments'' s = Some (DeploymentList [d]) \<and>
    namespaced_listing ''apps/v1'' ''deployments'' ''n'' s = Some (DeploymentList [withDeploymentStatus s d])"
  using assms by (simp add: cluster_listing_def namespaced_listing_def handleAppsClusterList_def AllDeployments_def DeploymentsIn_def)

end
