(* ===== verification/WatchProperties.thy ===== *)
theory WatchProperties
  imports Lists
begin

text \<open>
  A client that starts from the first snapshot and follows the events of a watch always has exactly
  the objects of the last snapshot, and every event is one it can apply; and along any run of the
  store the snapshots a watch takes are such snapshots.  The locale \<open>listed_kind\<close> says what a
  watch relies on; every kind but pods and namespaces provides it.  Pods do not: their status is
  completed in place without a new version.
\<close>

declare split_paired_All [simp del] split_paired_Ex [simp del]

type_synonym 'a view = "string \<Rightarrow> 'a option"

text \<open>A strict client: it fails on an addition of what it has and on a change of what it has not.\<close>

fun client_step :: "'a kobj_scheme watch_event \<Rightarrow> 'a kobj_scheme view option \<Rightarrow> 'a kobj_scheme view option" where
  "client_step ev None = None"
| "client_step (Added x) (Some v) = (if v (watch_key x) = None then Some (v(watch_key x \<mapsto> x)) else None)"
| "client_step (Modified x) (Some v) = (if v (watch_key x) = None then None else Some (v(watch_key x \<mapsto> x)))"
| "client_step (Deleted x) (Some v) = (if v (watch_key x) = None then None else Some (v(watch_key x := None)))"

definition view_of :: "'a kobj_scheme list \<Rightarrow> 'a kobj_scheme view" where
  "view_of items k = find (\<lambda>x. watch_key x = k) items"

definition seen_view :: "'a kobj_scheme seen \<Rightarrow> 'a kobj_scheme view" where
  "seen_view seen k = map_option snd (mget seen k)"

definition seen_ok :: "'a kobj_scheme seen \<Rightarrow> bool" where
  "seen_ok seen \<longleftrightarrow> mwf seen \<and> (\<forall>k rv x. mget seen k = Some (rv, x) \<longrightarrow> rv = o_rv x \<and> watch_key x = k)"

definition agrees :: "'a kobj_scheme \<Rightarrow> 'a kobj_scheme view \<Rightarrow> bool" where
  "agrees x v \<longleftrightarrow> (\<forall>y. v (watch_key x) = Some y \<longrightarrow> o_rv y = o_rv x \<longrightarrow> y = x)"

lemma seen_ok_put: "seen_ok seen \<Longrightarrow> seen_ok (mput (watch_key x) (o_rv x, x) seen)"
  by (auto simp: seen_ok_def mget_mput split: if_splits)

lemma seen_view_put: "seen_view (mput (watch_key x) (o_rv x, x) seen) = (seen_view seen)(watch_key x \<mapsto> x)"
  by (auto simp: seen_view_def mget_mput)

lemma watch_item_step:
  assumes "seen_ok seen" "agrees x (seen_view seen)"
  obtains evs' seen' where "\<And>evs. watch_item x (evs, seen) = (evs @ evs', seen')" "seen_ok seen'"
    "seen_view seen' = (seen_view seen)(watch_key x \<mapsto> x)"
    "fold client_step evs' (Some (seen_view seen)) = Some (seen_view seen')"
proof (cases "mget seen (watch_key x)")
  case None
  then show ?thesis
    by (intro that [of "[Added x]" "mput (watch_key x) (o_rv x, x) seen"])
      (simp_all add: watch_item_def seen_ok_put [OF assms(1)] seen_view_put, simp add: seen_view_def)
next
  case (Some e)
  then obtain y where e: "e = (o_rv y, y)" "watch_key y = watch_key x"
    using assms(1) by (cases e) (auto simp: seen_ok_def)
  show ?thesis
  proof (cases "o_rv y = o_rv x")
    case True
    then have "y = x" using assms(2) Some e by (simp add: agrees_def seen_view_def)
    then show ?thesis
      using Some e True assms(1)
      by (intro that [of "[]" seen]) (auto simp: watch_item_def seen_view_def fun_eq_iff)
  next
    case False
    then show ?thesis
      using Some e
      by (intro that [of "[Modified x]" "mput (watch_key x) (o_rv x, x) seen"])
        (simp_all add: watch_item_def seen_ok_put [OF assms(1)] seen_view_put, simp add: seen_view_def)
  qed
qed

lemma view_of_Cons: "view_of (x # xs) = (view_of xs)(watch_key x \<mapsto> x)"
  by (auto simp: view_of_def)

lemma view_of_None: "view_of items k = None \<longleftrightarrow> k \<notin> set (map watch_key items)"
  by (force simp: view_of_def find_None_iff image_iff)

lemma watch_items:
  assumes "seen_ok seen" "distinct (map watch_key shown)" "\<forall>x \<in> set shown. agrees x (seen_view seen)"
  obtains evs' seen' where "\<And>evs. fold watch_item shown (evs, seen) = (evs @ evs', seen')" "seen_ok seen'"
    "seen_view seen' = seen_view seen ++ view_of shown"
    "fold client_step evs' (Some (seen_view seen)) = Some (seen_view seen')"
  using assms
proof (induction shown arbitrary: seen thesis)
  case Nil
  show ?case by (rule Nil.prems(1) [of "[]" seen]) (use Nil.prems in \<open>simp_all add: view_of_def fun_eq_iff map_add_def\<close>)
next
  case (Cons x shown)
  obtain evs1 seen1 where one: "\<And>evs. watch_item x (evs, seen) = (evs @ evs1, seen1)" "seen_ok seen1"
    "seen_view seen1 = (seen_view seen)(watch_key x \<mapsto> x)"
    "fold client_step evs1 (Some (seen_view seen)) = Some (seen_view seen1)"
    using watch_item_step [of seen x] Cons.prems(2,4) by auto
  have other: "watch_key y \<noteq> watch_key x" if "y \<in> set shown" for y
    using Cons.prems(3) that by (metis distinct.simps(2) image_eqI list.set_map list.simps(9))
  then have "\<forall>y \<in> set shown. agrees y (seen_view seen1)"
    using Cons.prems(4) one(3) by (simp add: agrees_def)
  then obtain evs2 seen2 where two: "\<And>evs. fold watch_item shown (evs, seen1) = (evs @ evs2, seen2)" "seen_ok seen2"
    "seen_view seen2 = seen_view seen1 ++ view_of shown"
    "fold client_step evs2 (Some (seen_view seen1)) = Some (seen_view seen2)"
    using Cons.IH [of seen1] one(2) Cons.prems(3) by auto
  have "view_of shown (watch_key x) = None"
    using Cons.prems(3) by (simp add: view_of_None)
  then have "seen_view seen2 = seen_view seen ++ view_of (x # shown)"
    using two(3) one(3) by (auto simp: view_of_Cons map_add_def fun_eq_iff split: option.split)
  then show ?case
    using one two by (intro Cons.prems(1) [of "evs1 @ evs2" seen2]) simp_all
qed

text \<open>The deletions at the end of a round.\<close>

lemma client_deletes:
  "distinct (map fst dels) \<Longrightarrow> (\<forall>(k, e) \<in> set dels. v k = Some (snd e) \<and> watch_key (snd e) = k) \<Longrightarrow>
    fold client_step (map (\<lambda>(k, e). Deleted (snd e)) dels) (Some v) = Some (\<lambda>k. if k \<in> fst ` set dels then None else v k)"
proof (induction dels arbitrary: v)
  case (Cons d dels)
  obtain k e where d: "d = (k, e)" by (cases d)
  have k: "v k = Some (snd e)" "watch_key (snd e) = k" using Cons.prems(2) d by auto
  have "k \<notin> fst ` set dels" using Cons.prems(1) d by simp
  then have "\<forall>(k', e) \<in> set dels. (v(k := None)) k' = Some (snd e) \<and> watch_key (snd e) = k'"
    using Cons.prems(2) by (auto simp: image_iff split_beta)
  then have "fold client_step (map (\<lambda>(k, e). Deleted (snd e)) dels) (Some (v(k := None)))
      = Some (\<lambda>k'. if k' \<in> fst ` set dels then None else (v(k := None)) k')"
    using Cons.prems(1) by (intro Cons.IH) simp_all
  then show ?case using d k by (auto simp: fun_eq_iff)
qed simp

lemma watch_round_step:
  assumes "seen_ok seen" "distinct (map watch_key shown)" "\<forall>x \<in> set shown. agrees x (seen_view seen)"
  obtains evs' seen' where "watch_round shown seen = (evs', seen')" "seen_ok seen'"
    "seen_view seen' = view_of shown"
    "fold client_step evs' (Some (seen_view seen)) = Some (seen_view seen')"
proof -
  obtain evs1 seen1 where one: "\<And>evs. fold watch_item shown (evs, seen) = (evs @ evs1, seen1)" "seen_ok seen1"
    "seen_view seen1 = seen_view seen ++ view_of shown"
    "fold client_step evs1 (Some (seen_view seen)) = Some (seen_view seen1)"
    using watch_items [OF assms] by blast
  let ?keys = "set (map watch_key shown)"
  define dels where "dels = filter (\<lambda>(k, e). k \<notin> ?keys) seen1"
  define seen2 where "seen2 = mdrop (\<lambda>k. k \<notin> ?keys) seen1"
  have wf: "mwf seen1" using one(2) by (simp add: seen_ok_def)
  have ok: "seen_ok seen2" using one(2) by (auto simp: seen2_def seen_ok_def mget_mdrop split: if_splits)
  have none: "view_of shown k = None \<longleftrightarrow> k \<notin> ?keys" for k by (rule view_of_None)
  have view: "seen_view seen2 = view_of shown"
  proof
    fix k
    show "seen_view seen2 k = view_of shown k"
      using none [of k] fun_cong [OF one(3), of k]
      by (auto simp: seen2_def seen_view_def mget_mdrop map_add_def split: option.splits)
  qed
  have "fold client_step (map (\<lambda>(k, e). Deleted (snd e)) dels) (Some (seen_view seen1))
      = Some (\<lambda>k. if k \<in> fst ` set dels then None else seen_view seen1 k)"
  proof (rule client_deletes)
    show "distinct (map fst dels)" using wf by (auto simp: dels_def mwf_def distinct_map_filter)
    show "\<forall>(k, e) \<in> set dels. seen_view seen1 k = Some (snd e) \<and> watch_key (snd e) = k"
      using one(2) wf by (auto simp: dels_def seen_view_def seen_ok_def mwf_set_conv)
  qed
  moreover have "(\<lambda>k. if k \<in> fst ` set dels then None else seen_view seen1 k) = seen_view seen2"
  proof
    fix k
    have "k \<in> fst ` set dels \<longleftrightarrow> k \<notin> ?keys \<and> mget seen1 k \<noteq> None"
      using wf by (force simp: dels_def mwf_set_conv image_iff)
    then show "(if k \<in> fst ` set dels then None else seen_view seen1 k) = seen_view seen2 k"
      by (auto simp: seen2_def seen_view_def mget_mdrop)
  qed
  ultimately show ?thesis
    using one ok view
    by (intro that [of "evs1 @ map (\<lambda>(k, e). Deleted (snd e)) dels" seen2])
      (simp_all add: watch_round_def dels_def seen2_def)
qed

lemma watch_start_ok:
  "distinct (map watch_key items) \<Longrightarrow> seen_ok (watch_start items) \<and> seen_view (watch_start items) = view_of items"
proof -
  have "seen_ok (fold (\<lambda>x m. mput (watch_key x) (o_rv x, x) m) items m) \<and>
      seen_view (fold (\<lambda>x m. mput (watch_key x) (o_rv x, x) m) items m) = seen_view m ++ view_of items"
    if "seen_ok m" "distinct (map watch_key items)" for m
    using that
  proof (induction items arbitrary: m)
    case (Cons x items)
    have "view_of items (watch_key x) = None" using Cons.prems(2) by (simp add: view_of_None)
    then show ?case
      using Cons.IH [OF seen_ok_put [OF Cons.prems(1), of x]] Cons.prems(2)
      by (auto simp: seen_view_put view_of_Cons map_add_def fun_eq_iff split: option.split)
  qed (simp add: view_of_def map_add_def fun_eq_iff)
  moreover have "seen_ok []" by (simp add: seen_ok_def)
  ultimately show "distinct (map watch_key items) \<Longrightarrow> ?thesis"
    unfolding watch_start_def by (fastforce simp: seen_view_def map_add_def fun_eq_iff split: option.split)
qed

text \<open>
  What the store promises: a snapshot has one object for each namespace and name, and a changed
  object has a new resource version.
\<close>

definition snapshots_ok :: "'a kobj_scheme list list \<Rightarrow> bool" where
  "snapshots_ok ss \<longleftrightarrow> (\<forall>s \<in> set ss. distinct (map watch_key s)) \<and>
     (\<forall>s \<in> set ss. \<forall>t \<in> set ss. \<forall>x \<in> set s. \<forall>y \<in> set t. watch_key x = watch_key y \<longrightarrow> o_rv x = o_rv y \<longrightarrow> x = y)"

lemma watch_rounds_follow:
  "snapshots_ok (first # ss) \<Longrightarrow> seen_ok seen \<Longrightarrow> seen_view seen = view_of first \<Longrightarrow>
    fold client_step (watch_rounds seen ss) (Some (view_of first)) = Some (view_of (last (first # ss)))"
proof (induction ss arbitrary: first seen)
  case (Cons s ss)
  have "\<forall>x \<in> set s. agrees x (seen_view seen)"
  proof (intro ballI, unfold agrees_def, intro allI impI)
    fix x y assume x: "x \<in> set s" and y: "seen_view seen (watch_key x) = Some y" "o_rv y = o_rv x"
    then have "y \<in> set first" "watch_key y = watch_key x"
      using Cons.prems(3) by (auto simp: view_of_def find_Some_iff)
    then show "y = x" using Cons.prems(1) x y(2) unfolding snapshots_ok_def by (metis list.set_intros)
  qed
  then obtain evs seen1 where r: "watch_round s seen = (evs, seen1)" "seen_ok seen1" "seen_view seen1 = view_of s"
    "fold client_step evs (Some (seen_view seen)) = Some (seen_view seen1)"
    using watch_round_step [OF Cons.prems(2), of s] Cons.prems(1) unfolding snapshots_ok_def by (metis list.set_intros)
  have "snapshots_ok (s # ss)" using Cons.prems(1) unfolding snapshots_ok_def by simp
  then show ?case using Cons.IH [OF _ r(2,3)] Cons.prems(3) r by simp
qed simp

text \<open>
  A client that has the objects of the first snapshot and applies the events of the watch, one
  after the other, always can apply them and ends with exactly the objects of the last snapshot,
  however many objects came, changed and went in between, if changed objects have new versions.
\<close>

lemma watch_follows_snapshots:
  assumes "snapshots_ok (first # snapshots)"
  shows "fold client_step (serveWatch first snapshots) (Some (view_of first)) =
    Some (view_of (last (first # snapshots)))"
  using watch_rounds_follow [OF assms] watch_start_ok [of first] assms
  unfolding serveWatch_def snapshots_ok_def by simp

definition watched :: "string \<Rightarrow> string \<Rightarrow> kobj" where
  "watched name rv = \<lparr>o_apiVersion = ''v1'', o_kind = ''Secret'',
     o_meta = empty_meta\<lparr>om_namespace := ''n'', om_name := name, om_resourceVersion := rv\<rparr>\<rparr>"

lemma watch_follows_snapshots_witness:
  "fold client_step
     (serveWatch [watched ''a'' ''1'', watched ''b'' ''2'']
        [[watched ''a'' ''3'', watched ''c'' ''4''], [watched ''c'' ''4'', watched ''b'' ''5'']])
     (Some (view_of [watched ''a'' ''1'', watched ''b'' ''2''])) =
   Some (view_of [watched ''c'' ''4'', watched ''b'' ''5''])"
proof -
  have "snapshots_ok [[watched ''a'' ''1'', watched ''b'' ''2''],
      [watched ''a'' ''3'', watched ''c'' ''4''], [watched ''c'' ''4'', watched ''b'' ''5'']]"
    by code_simp
  from watch_follows_snapshots [OF this] show ?thesis by simp
qed

section \<open>Objects change with their version\<close>

text \<open>After a step an object has a version from the step, or it is a pod, or it is as it was.\<close>

definition stamped_step :: "store \<Rightarrow> store \<Rightarrow> bool" where
  "stamped_step s s' \<longleftrightarrow> s_resourceVer s \<le> s_resourceVer s' \<and>
     (\<forall>a v. contents s' a = Some v \<longrightarrow> fst a = KPod \<or> fresh_rv s s' (u_rv v) \<or> contents s a = Some v)"

lemma stamped_stepD:
  "stamped_step s s' \<Longrightarrow> contents s' a = Some v \<Longrightarrow> fst a \<noteq> KPod \<Longrightarrow>
    fresh_rv s s' (u_rv v) \<or> contents s a = Some v"
  by (auto simp: stamped_step_def)

lemma stamped_refl [simp]: "stamped_step s s"
  by (simp add: stamped_step_def)

lemma stamped_trans:
  assumes "stamped_step a b" "stamped_step b c"
  shows "stamped_step a c"
proof -
  have le: "s_resourceVer a \<le> s_resourceVer b" "s_resourceVer b \<le> s_resourceVer c"
    using assms by (simp_all add: stamped_step_def)
  have "fresh_rv a c (u_rv v) \<or> contents a k = Some v" if k: "contents c k = Some v" "fst k \<noteq> KPod" for k v
    using stamped_stepD [OF assms(2) k] stamped_stepD [OF assms(1), of k v] k(2) le
      fresh_rv_mono [of b c "u_rv v" a c] fresh_rv_mono [of a b "u_rv v" a c] by auto
  then show ?thesis using le by (auto simp: stamped_step_def)
qed

lemma stamped_put:
  assumes "contents s' = (contents s)(a \<mapsto> u)" "s_resourceVer s' = s_resourceVer s + 1"
    "u_rv u = Itoa (s_resourceVer s + 1)"
  shows "stamped_step s s'"
proof -
  have "fresh_rv s s' (u_rv u)"
    unfolding fresh_rv_def assms(2,3) by (rule exI [of _ "s_resourceVer s + 1"]) simp
  then show ?thesis using assms by (auto simp: stamped_step_def)
qed

lemma stamped_sub:
  assumes "\<And>a u. contents s' a = Some u \<Longrightarrow> contents s a = Some u" "s_resourceVer s \<le> s_resourceVer s'"
  shows "stamped_step s s'"
  using assms by (simp add: stamped_step_def)

text \<open>An update of pods: the other kinds are untouched.\<close>

lemma stamped_pods:
  assumes "\<And>a. fst a \<noteq> KPod \<Longrightarrow> contents s' a = contents s a" "s_resourceVer s \<le> s_resourceVer s'"
  shows "stamped_step s s'"
  using assms by (auto simp: stamped_step_def)

context object_kind
begin

lemma create_stamped: "stamped_step s (snd (create t x s))"
proof (cases "contents s (kd, kof (key x))")
  case None
  with create_free [OF this, of t] obtain y s'
    where "create t x s = (Inr y, s')" and "stored kd (kof (key x)) (inj y) s s'" by blast
  then show ?thesis by (auto simp: stored_def intro: stamped_put [of _ _ "(kd, kof (key x))" "inj y"])
qed (simp add: create_taken)

lemma update_stamped: "stamped_step s (snd (update t x s))"
proof (cases "contents s (kd, kof (key x))")
  case (Some u)
  with update_present [OF this, of t] obtain y s'
    where "update t x s = (Inr y, s')" and "stored kd (kof (key x)) (inj y) s s'" by blast
  then show ?thesis by (auto simp: stored_def intro: stamped_put [of _ _ "(kd, kof (key x))" "inj y"])
qed (simp add: update_absent)

lemma delete_stamped: "stamped_step s (snd (delete t k s))"
proof (cases "contents s (kd, kof k)")
  case (Some u)
  with delete_present [OF this, of t] obtain s'
    where "delete t k s = (None, s')" and "removed kd (kof k) s s'" by blast
  then show ?thesis by (auto simp: removed_def split: if_splits intro!: stamped_sub)
qed (simp add: delete_absent)

end

lemmas delete_stamped_nsname =
  nsk.delete_stamped [where k = "n" for n, simplified]
  podk.delete_stamped [where k = "(ns, n)" for ns n, simplified]
  svck.delete_stamped [where k = "(ns, n)" for ns n, simplified]
  pvck.delete_stamped [where k = "(ns, n)" for ns n, simplified]
  cmk.delete_stamped [where k = "(ns, n)" for ns n, simplified]
  seck.delete_stamped [where k = "(ns, n)" for ns n, simplified]
  jobk.delete_stamped [where k = "(ns, n)" for ns n, simplified]
  cjk.delete_stamped [where k = "(ns, n)" for ns n, simplified]
  depk.delete_stamped [where k = "(ns, n)" for ns n, simplified]
  ingk.delete_stamped [where k = "(ns, n)" for ns n, simplified]
  mwk.delete_stamped [where k = "(ns, n)" for ns n, simplified]
  irtk.delete_stamped [where k = "(ns, n)" for ns n, simplified]

lemma create_obj_stamped: "stamped_step s (create_obj t x s)"
  by (cases x) (simp_all add: nsk.create_stamped podk.create_stamped svck.create_stamped pvck.create_stamped
      cmk.create_stamped seck.create_stamped jobk.create_stamped cjk.create_stamped depk.create_stamped
      ingk.create_stamped mwk.create_stamped irtk.create_stamped)

lemma update_obj_stamped: "stamped_step s (update_obj t x s)"
  by (cases x) (simp_all add: nsk.update_stamped podk.update_stamped svck.update_stamped pvck.update_stamped
      cmk.update_stamped seck.update_stamped jobk.update_stamped cjk.update_stamped depk.update_stamped
      ingk.update_stamped mwk.update_stamped irtk.update_stamped)

lemma delete_obj_stamped: "stamped_step s (delete_obj t kd ns n s)"
  by (cases kd) (simp_all add: delete_stamped_nsname)

section \<open>The updates of the reconcile loop\<close>

lemma stamped_contents: "contents t = contents s \<Longrightarrow> s_resourceVer t = s_resourceVer s \<Longrightarrow>
    stamped_step u t = stamped_step u s"
  by (simp add: stamped_step_def fresh_rv_def)

lemma stamped_recordEvent [simp]: "stamped_step s (recordEvent now k ns name uid et r m s') = stamped_step s s'"
  by (rule stamped_contents) simp_all

lemma stamped_put_pods: "s_resourceVer s \<le> s_resourceVer s' \<Longrightarrow> contents s' = contents s \<Longrightarrow>
    stamped_step s (put_pods k p s')"
  by (rule stamped_pods) auto

lemma stamped_finish_phase: "stamped_step s (finish_phase now ns name phase pc ch p s)"
  by (auto simp: finish_phase_def incRV_def Let_def split: option.splits intro!: stamped_pods)

lemma pod_updates_stamped:
  "stamped_step s (snd (SyncPodTemplate p s))"
  "stamped_step s (UpdatePodPhase now ns name phase health s)"
  "stamped_step s (UpdatePodContainerPhases now ns name phase states s)"
  "stamped_step s (UpdatePodRestartInfo ns name rc ec ex s)"
  by (auto simp: SyncPodTemplate_def UpdatePodPhase_def UpdatePodContainerPhases_def UpdatePodRestartInfo_def
      incRV_def Let_def stamped_finish_phase split: option.splits intro!: stamped_pods)

lemma UpdateJobStatus_stamped: "stamped_step s (UpdateJobStatus now ns name a sc f s)"
proof (cases "mget (s_jobs s) (ns, name)")
  case (Some j)
  have "stamped_step s (go_save (put_jobs (ns, name) (omod (om_resourceVersion_update
      (\<lambda>_. Itoa (s_resourceVer s + 1))) (j\<lparr>job_active := a, job_succeeded := sc, job_failed := f\<rparr>))
      (s\<lparr>s_resourceVer := s_resourceVer s + 1\<rparr>)))"
    by (rule stamped_put [of _ _ "(KJob, ns, name)" "UJob (omod (om_resourceVersion_update
      (\<lambda>_. Itoa (s_resourceVer s + 1))) (j\<lparr>job_active := a, job_succeeded := sc, job_failed := f\<rparr>))"]) auto
  with Some show ?thesis by (simp add: UpdateJobStatus_def incRV_def Let_def)
qed (simp add: UpdateJobStatus_def)

lemma UpdateDeploymentStatus_stamped: "stamped_step s (UpdateDeploymentStatus now ns name ready s)"
proof (cases "mget (s_deployments s) (ns, name)")
  case (Some d)
  have "stamped_step s (go_save (put_deployments (ns, name) (omod (om_resourceVersion_update
      (\<lambda>_. Itoa (s_resourceVer s + 1))) (d\<lparr>dep_status := st\<rparr>))
      (s\<lparr>s_resourceVer := s_resourceVer s + 1\<rparr>)))" for st
    by (rule stamped_put [of _ _ "(KDeployment, ns, name)" "UDeployment (omod
      (om_resourceVersion_update (\<lambda>_. Itoa (s_resourceVer s + 1))) (d\<lparr>dep_status := st\<rparr>))"]) auto
  with Some show ?thesis by (simp add: UpdateDeploymentStatus_def incRV_def Let_def)
qed (simp add: UpdateDeploymentStatus_def)

lemma PurgeNamespace_stamped: "stamped_step s (PurgeNamespace name s)"
proof (rule stamped_sub)
  show "contents s a = Some u" if "contents (PurgeNamespace name s) a = Some u" for a u
    using that by (cases a) (simp add: contents_purge split: if_splits)
  show "s_resourceVer s \<le> s_resourceVer (PurgeNamespace name s)"
    by (simp add: PurgeNamespace_def Let_def go_save_def)
qed

lemma exec_stamped: "stamped_step s (exec op s)"
  using create_obj_stamped update_obj_stamped delete_obj_stamped
  by (cases op) (simp_all add: PurgeNamespace_stamped pod_updates_stamped UpdateJobStatus_stamped
      UpdateDeploymentStatus_stamped)

lemma run_stamped: "run s s' \<Longrightarrow> stamped_step s s'"
  by (induction rule: run.induct) (auto intro: stamped_trans exec_stamped)

text \<open>So one version of an object that is no pod is one object, whenever it was seen.\<close>

lemma same_version_same_object:
  assumes "store_inv s" "run s s'" "kd \<noteq> KPod" "contents s (kd, k) = Some u" "contents s' (kd, k) = Some v"
    "u_rv u = u_rv v"
  shows "u = v"
proof -
  have "rv_issued s (u_rv u)" using store_invD(2) [OF assms(1,4)] .
  then have "\<not> fresh_rv s s' (u_rv v)"
    using assms(6) Itoa_not_Nil [THEN not_sym] by (auto simp: rv_issued_def fresh_rv_def Itoa_inject)
  then show ?thesis using stamped_stepD [OF run_stamped [OF assms(2)] assms(5)] assms(3,4) by simp
qed

section \<open>What a watch relies on\<close>

locale listed_kind =
  fixes kd :: kind
    and listed :: "store \<Rightarrow> 'a kobj_scheme list"
    and wrap :: "'a kobj_scheme \<Rightarrow> uobj"
  assumes not_pod: "kd \<notin> {KPod, KNamespace}"
    and listed_held: "store_inv s \<Longrightarrow> x \<in> set (listed s) \<Longrightarrow> contents s (kd, okey x) = Some (wrap x)"
    and listed_once: "store_inv s \<Longrightarrow> distinct (map okey (listed s))"
    and wrap_eq: "wrap x = wrap y \<Longrightarrow> x = y"
    and wrap_rv: "u_rv (wrap x) = o_rv x"

text \<open>Namespaces without a slash make the keys of a watch as distinct as those of the store.\<close>

definition slash_free :: "store \<Rightarrow> bool" where
  "slash_free s \<longleftrightarrow> list_all (\<lambda>ns. CHR ''/'' \<notin> set ns) (used_namespaces s)"

lemma append_sep_eq:
  "c \<notin> set xs \<Longrightarrow> c \<notin> set ys \<Longrightarrow> xs @ c # us = ys @ c # vs \<longleftrightarrow> xs = ys \<and> us = vs"
  by (auto simp: append_eq_append_conv2 Cons_eq_append_conv append_eq_Cons_conv)

lemma watch_key_okey:
  assumes "CHR ''/'' \<notin> set (o_namespace x)" "CHR ''/'' \<notin> set (o_namespace y)"
  shows "watch_key x = watch_key y \<longleftrightarrow> okey x = okey y"
  using append_sep_eq [OF assms] by (simp add: watch_key_def okey_def)

context listed_kind
begin

lemma no_slash: "store_inv s \<Longrightarrow> slash_free s \<Longrightarrow> x \<in> set (listed s) \<Longrightarrow> CHR ''/'' \<notin> set (o_namespace x)"
  using listed_held [of s x] not_pod used_namespaces_iff [of "o_namespace x" s]
  by (force simp: slash_free_def list_all_iff okey_def)

lemma keys_once:
  assumes "store_inv s" "slash_free s"
  shows "distinct (map watch_key (listed s))"
proof -
  have "inj_on watch_key (set (listed s))"
  proof (rule inj_onI)
    fix x y assume xy: "x \<in> set (listed s)" "y \<in> set (listed s)" "watch_key x = watch_key y"
    then have "okey x = okey y"
      using watch_key_okey [OF no_slash [OF assms] no_slash [OF assms]] by blast
    then show "x = y"
      using listed_once [OF assms(1)] xy(1,2) by (simp add: distinct_map inj_on_def)
  qed
  then show ?thesis using listed_once [OF assms(1)] by (simp add: distinct_map)
qed

lemma same_version_same:
  assumes "store_inv s" "run s t" "slash_free s" "slash_free t" "x \<in> set (listed s)" "y \<in> set (listed t)"
    "watch_key x = watch_key y" "o_rv x = o_rv y"
  shows "x = y"
proof -
  have t: "store_inv t" using run_inv [OF assms(2,1)] .
  have "okey x = okey y"
    using watch_key_okey [OF no_slash [OF assms(1,3,5)] no_slash [OF t assms(4,6)]] assms(7) by blast
  then have "wrap x = wrap y"
    using same_version_same_object [OF assms(1,2) _ listed_held [OF assms(1,5)], of "wrap y"]
      listed_held [OF t assms(6)] assms(8) not_pod by (simp add: wrap_rv)
  then show ?thesis by (rule wrap_eq)
qed

lemma snapshots:
  assumes "store_inv (hd ss)" "sorted_wrt run ss" "\<forall>s \<in> set ss. slash_free s" "ss \<noteq> []"
  shows "snapshots_ok (map (\<lambda>s. filter P (listed s)) ss)"
proof -
  have inv: "store_inv s" if "s \<in> set ss" for s
    using that assms(1,2,4) by (cases ss) (auto intro: run_inv)
  have chain: "run s t \<or> run t s" if st: "s \<in> set ss" "t \<in> set ss" for s t
  proof -
    obtain i j where ij: "i < length ss" "ss ! i = s" "j < length ss" "ss ! j = t"
      using st by (auto simp: in_set_conv_nth)
    then show ?thesis
      using assms(2) by (cases i j rule: linorder_cases) (auto simp: sorted_wrt_iff_nth_less intro: run_refl)
  qed
  have "x = y" if "s \<in> set ss" "t \<in> set ss" "x \<in> set (listed s)" "y \<in> set (listed t)"
    "watch_key x = watch_key y" "o_rv x = o_rv y" for s t x y
    using chain [OF that(1,2)] same_version_same [of s t x y] same_version_same [of t s y x] inv that assms(3) by metis
  then show ?thesis
    using keys_once inv assms(3) by (auto simp: snapshots_ok_def distinct_map_filter)
qed

end

section \<open>The kinds\<close>

text \<open>A kind whose list is all of its map provides it.\<close>

lemma listed_kindI:
  assumes "kd \<notin> {KPod, KNamespace}" and wf: "\<And>s. store_inv s \<Longrightarrow> mwf (m s)" and all: "\<And>s. listed s = mvals (m s)"
    and held: "\<And>s k x. mget (m s) k = Some x \<Longrightarrow> contents s (kd, k) = Some (wrap x)"
    and key: "\<And>x. u_key (wrap x) = okey x"
    and "\<And>x y. wrap x = wrap y \<Longrightarrow> x = y" "\<And>x. u_rv (wrap x) = o_rv x"
  shows "listed_kind kd listed wrap"
proof
  fix s assume s: "store_inv s"
  have k: "okey x = k" if "mget (m s) k = Some x" for k x
    using store_invD(1) [OF s held [OF that]] by (simp add: key)
  show "contents s (kd, okey x) = Some (wrap x)" if x: "x \<in> set (listed s)" for x
  proof -
    obtain k where "mget (m s) k = Some x" using x unfolding all mvals_conv [OF wf [OF s]] by blast
    then show ?thesis using k held by blast
  qed
  have "okey (snd e) = fst e" if "e \<in> set (m s)" for e
    using k [of "fst e" "snd e"] that wf [OF s] by (simp add: mwf_set_conv [symmetric])
  then have keys: "map okey (mvals (m s)) = map fst (m s)" by simp
  show "distinct (map okey (listed s))" unfolding all keys using wf [OF s] unfolding mwf_def .
qed (use assms in simp_all)

lemmas store_maps_wf = store_invD(5) [unfolded maps_wf_def]

interpretation svc_list: listed_kind KService AllServices UService
  by (rule listed_kindI [where m = s_services]) (simp_all add: AllServices_def store_maps_wf)

interpretation pvc_list: listed_kind KPVC AllPVCs UPVC
  by (rule listed_kindI [where m = s_pvcs]) (simp_all add: AllPVCs_def store_maps_wf)

interpretation cm_list: listed_kind KConfigMap AllConfigMaps UConfigMap
  by (rule listed_kindI [where m = s_configmaps]) (simp_all add: AllConfigMaps_def store_maps_wf)

interpretation sec_list: listed_kind KSecret AllSecrets USecret
  by (rule listed_kindI [where m = s_secrets]) (simp_all add: AllSecrets_def store_maps_wf)

interpretation job_list: listed_kind KJob AllJobs UJob
  by (rule listed_kindI [where m = s_jobs]) (simp_all add: AllJobs_def store_maps_wf)

interpretation cj_list: listed_kind KCronJob AllCronJobs UCronJob
  by (rule listed_kindI [where m = s_cronjobs]) (simp_all add: AllCronJobs_def store_maps_wf)

interpretation dep_list: listed_kind KDeployment AllDeployments UDeployment
  by (rule listed_kindI [where m = s_deployments]) (simp_all add: AllDeployments_def store_maps_wf)

interpretation ing_list: listed_kind KIngress AllIngresses UIngress
  by (rule listed_kindI [where m = s_ingresses]) (simp_all add: AllIngresses_def store_maps_wf)

interpretation mw_list: listed_kind KMiddleware AllMiddlewares UMiddleware
  by (rule listed_kindI [where m = s_middlewares]) (simp_all add: AllMiddlewares_def store_maps_wf)

interpretation irt_list: listed_kind KIngressRouteTCP AllIngressRouteTCPs UIngressRouteTCP
  by (rule listed_kindI [where m = s_ingressRouteTCPs]) (simp_all add: AllIngressRouteTCPs_def store_maps_wf)

section \<open>Watches of the store\<close>

text \<open>
  What a client of a watch ends with, when the store is seen in the states of the list: the request's
  selector filters every snapshot.
\<close>

definition watch_result :: "list_request \<Rightarrow> (store \<Rightarrow> 'a kobj_scheme list) \<Rightarrow> store list \<Rightarrow> 'a kobj_scheme view option" where
  "watch_result r listed ss =
     (let snapshots = map (\<lambda>s. selected r (listed s)) ss
      in fold client_step (serveWatch (hd snapshots) (tl snapshots)) (Some (view_of (hd snapshots))))"

definition stored_view :: "list_request \<Rightarrow> (store \<Rightarrow> 'a kobj_scheme list) \<Rightarrow> store \<Rightarrow> 'a kobj_scheme view" where
  "stored_view r listed s = view_of (selected r (listed s))"

lemma selected_filter: "selected r items = filter (\<lambda>x. parseLabelSelector (lr_labelSelector r) = [] \<or>
    matchesSelector (case om_labels (o_meta x) of Some m \<Rightarrow> m | None \<Rightarrow> []) (parseLabelSelector (lr_labelSelector r))) items"
  by (auto simp: selected_def Let_def)

lemma watch_result_last:
  "snapshots_ok (map (\<lambda>s. selected r (listed s)) (s # ss)) \<Longrightarrow>
    watch_result r listed (s # ss) = Some (stored_view r listed (last (s # ss)))"
  using watch_rounds_follow [of "selected r (listed s)" "map (\<lambda>s. selected r (listed s)) ss"]
    watch_start_ok [of "selected r (listed s)"]
  by (auto simp: watch_result_def stored_view_def serveWatch_def snapshots_ok_def last_map)

context listed_kind
begin

lemma watch_ends_with_last:
  assumes "store_inv s" "sorted_wrt run (s # ss)" "\<forall>t \<in> set (s # ss). slash_free t"
  shows "watch_result r listed (s # ss) = Some (stored_view r listed (last (s # ss)))"
proof (rule watch_result_last)
  show "snapshots_ok (map (\<lambda>s. selected r (listed s)) (s # ss))"
    unfolding selected_filter by (rule snapshots) (use assms in simp_all)
qed

end

text \<open>
  C9: However the store runs on and whenever a watch looks at it, a client that has the objects of the
  first look, of the selected labels, and applies the events of the watch can apply every one of
  them and ends with exactly the objects of the last look: for services, claims, config maps,
  secrets, jobs, cron jobs, deployments, ingresses, middlewares and TCP routes.
\<close>

theorem watch_follows_store:
  assumes "store_inv s" "sorted_wrt run (s # ss)" "\<forall>t \<in> set (s # ss). slash_free t"
  shows "watch_result r AllServices (s # ss) = Some (stored_view r AllServices (last (s # ss))) \<and>
    watch_result r AllPVCs (s # ss) = Some (stored_view r AllPVCs (last (s # ss))) \<and>
    watch_result r AllConfigMaps (s # ss) = Some (stored_view r AllConfigMaps (last (s # ss))) \<and>
    watch_result r AllSecrets (s # ss) = Some (stored_view r AllSecrets (last (s # ss))) \<and>
    watch_result r AllJobs (s # ss) = Some (stored_view r AllJobs (last (s # ss))) \<and>
    watch_result r AllCronJobs (s # ss) = Some (stored_view r AllCronJobs (last (s # ss))) \<and>
    watch_result r AllDeployments (s # ss) = Some (stored_view r AllDeployments (last (s # ss))) \<and>
    watch_result r AllIngresses (s # ss) = Some (stored_view r AllIngresses (last (s # ss))) \<and>
    watch_result r AllMiddlewares (s # ss) = Some (stored_view r AllMiddlewares (last (s # ss))) \<and>
    watch_result r AllIngressRouteTCPs (s # ss) = Some (stored_view r AllIngressRouteTCPs (last (s # ss)))"
  using assms by (intro conjI svc_list.watch_ends_with_last pvc_list.watch_ends_with_last cm_list.watch_ends_with_last sec_list.watch_ends_with_last job_list.watch_ends_with_last cj_list.watch_ends_with_last dep_list.watch_ends_with_last ing_list.watch_ends_with_last mw_list.watch_ends_with_last irt_list.watch_ends_with_last)

definition demo_cm :: "string \<Rightarrow> string \<Rightarrow> configmap" where
  "demo_cm name v = kobj.extend (watched name []) \<lparr>cm_data = [(''k'', v)], cm_binaryData = [], cm_rest = []\<rparr>"

definition look0 :: store where "look0 = exec (OpCreate 7 (UConfigMap (demo_cm ''a'' ''1''))) NewStore"

definition look1 :: store where "look1 = exec (OpUpdate 8 (UConfigMap (demo_cm ''a'' ''2''))) look0"

definition look2 :: store where
  "look2 = exec (OpCreate 9 (UConfigMap (demo_cm ''b'' ''3''))) (exec (OpDelete 9 KConfigMap ''n'' ''a'') look1)"

theorem watch_follows_store_witness:
  "map_option (\<lambda>v. (map_option cm_data (v ''n/a''), map_option cm_data (v ''n/b'')))
     (watch_result \<lparr>lr_labelSelector = [], lr_watch = ''true'', lr_accept = []\<rparr> AllConfigMaps [look0, look1, look2]) =
   Some (None, Some [(''k'', ''3'')])" (is "map_option ?f (watch_result ?r _ _) = _")
proof -
  have inv: "store_inv look0" unfolding look0_def by (intro exec_inv store_inv_new)
  have step: "run look0 look1" "run look1 look2" "run look0 look2"
    unfolding look1_def look2_def by (rule run.intros)+
  then have chain: "sorted_wrt run [look0, look1, look2]" by simp
  have free: "\<forall>t \<in> set [look0, look1, look2]. slash_free t" by code_simp
  have "map_option ?f (Some (stored_view ?r AllConfigMaps look2)) = Some (None, Some [(''k'', ''3'')])"
    by code_simp
  with watch_follows_store [OF inv chain free, of ?r, THEN conjunct2, THEN conjunct2, THEN conjunct1]
  show ?thesis by simp
qed

text \<open>
  Pods are different: the reconcile loop fills in the status of the containers without a new version when
  nothing else changes, and a watch sends nothing.
\<close>

definition look_pod :: store where
  "look_pod = exec (OpCreate 7 (UPod demo_pod)) NewStore"

lemma pod_status_filled_unseen:
  "let phase = pst_phase (pod_status (hd (AllPods look_pod)));
       s' = UpdatePodPhase 8 (o_namespace demo_pod) (o_name demo_pod) phase [] look_pod
   in serveWatch (AllPods look_pod) [AllPods s'] = [] \<and>
     map (\<lambda>p. pst_containerStatuses (pod_status p)) (AllPods look_pod) = [[]] \<and>
     map (\<lambda>p. map cs_name (pst_containerStatuses (pod_status p))) (AllPods s') = [map c_name (ps_containers (pod_spec demo_pod))]"
  by code_simp

end
