(* ===== verification/Install.thy ===== *)
theory Install
  imports World
begin

text \<open>
  The installer, pkg/install/install.go: where things go, the merge of the flags with the persisted
  configuration, the certificates and the units.  A certificate is what the installer knows of it: which
  run made it, the subject alternative names, and when it ends (\<open>None\<close>: the file does not parse).
  The configuration file is kept decoded.
\<close>

section \<open>Configuration\<close>

record InstallConfig =
  ic_Rootful :: bool
  ic_Home :: string
  ic_Name :: string
  ic_Port :: int
  ic_ServerURL :: string
  ic_ExtraSANIPs :: "ip list"
  ic_ExtraSANDNS :: "string list"
  ic_RegenerateCerts :: bool

record PersistentConfig =
  pc_Name :: string
  pc_Port :: int
  pc_ServerURL :: string
  pc_ExtraSANIPs :: "string list"
  pc_ExtraSANDNS :: "string list"

definition zero_config :: PersistentConfig where
  "zero_config = \<lparr>pc_Name = [], pc_Port = 0, pc_ServerURL = [], pc_ExtraSANIPs = [], pc_ExtraSANDNS = []\<rparr>"

definition ConfigPath :: "string \<Rightarrow> string" where
  "ConfigPath dataDir = PathJoin [dataDir, ''config.json'']"

definition DefaultPort :: int where
  "DefaultPort = 6443"

text \<open>\<open>home\<close> is the given home or, when that is empty, HOME.\<close>

definition binInstallPath :: "bool \<Rightarrow> string \<Rightarrow> string" where
  "binInstallPath rootful home =
     (if rootful then ''/usr/local/bin/q8s'' else PathJoin [home, ''.local'', ''bin'', ''q8s''])"

definition install_dataDir :: "bool \<Rightarrow> string \<Rightarrow> string option" where
  "install_dataDir rootful home =
     (if rootful then Some ''/etc/q8s''
      else if home = [] then None
      else Some (PathJoin [home, ''.local'', ''share'', ''q8s'']))"

text \<open>The file as it is found: missing, not to be decoded, or a configuration.\<close>

datatype config_file = ConfigMissing | ConfigBroken | ConfigFile PersistentConfig

definition LoadConfig :: "config_file \<Rightarrow> PersistentConfig option" where
  "LoadConfig f = (case f of ConfigMissing \<Rightarrow> Some zero_config | ConfigBroken \<Rightarrow> None | ConfigFile p \<Rightarrow> Some p)"

section \<open>Sets of names\<close>

definition sameStrings :: "string list \<Rightarrow> string list \<Rightarrow> bool" where
  "sameStrings a b \<longleftrightarrow> length a = length b \<and> list_all (\<lambda>s. s \<in> set a) b"

definition appendStrings :: "string list \<Rightarrow> string list \<Rightarrow> string list" where
  "appendStrings base extra = base @ filter (\<lambda>s. s \<notin> set base) extra"

definition appendIPs :: "ip list \<Rightarrow> ip list \<Rightarrow> ip list" where
  "appendIPs base extra = base @ filter (\<lambda>i. IPString i \<notin> set (map IPString base)) extra"

text \<open>Adding what was not added before.\<close>

definition add_new :: "('a \<Rightarrow> string) \<Rightarrow> 'a list \<Rightarrow> 'a list \<Rightarrow> 'a list" where
  "add_new key xs acc =
     fold (\<lambda>x acc. if key x \<in> set (map key acc) then acc else acc @ [x]) xs acc"

section \<open>The environment of a run\<close>

record cert =
  ct_run :: nat
  ct_ips :: "string list"
  ct_dns :: "string list"
  ct_notAfter :: "time option"

type_synonym certs = "(string, cert) gomap"

text \<open>
  What a run finds and how its steps turn out: the clock, the host name (\<open>None\<close> when
  \<open>os.Hostname\<close> fails), the address of the default route, whether generating keys fails, the order a map of files is written in, the outcome of
  each write, and the URL normalisation (package net/url).
\<close>

record install_env =
  ie_now :: time
  ie_run :: nat
  ie_hostname :: "string option"
  ie_routeIP :: "ip option"
  ie_keygen :: bool
  ie_order :: "string list \<Rightarrow> string list"
  ie_write :: "string \<Rightarrow> outcome"
  ie_normalize :: "string \<Rightarrow> int \<Rightarrow> string"

record host =
  h_certs :: certs
  h_config :: config_file

section \<open>Certificates\<close>

definition cert_names :: "string list" where
  "cert_names = [''ca.crt'', ''ca.key'', ''server.crt'', ''server.key'', ''client.crt'', ''client.key'']"

definition allCertsPresent :: "host \<Rightarrow> bool" where
  "allCertsPresent h \<longleftrightarrow> list_all (\<lambda>n. mget (h_certs h) n \<noteq> None) cert_names"

definition certExpiry :: "host \<Rightarrow> string \<Rightarrow> time option" where
  "certExpiry h n = (case mget (h_certs h) n of None \<Rightarrow> None | Some c \<Rightarrow> ct_notAfter c)"

definition certRenewWindow :: int where
  "certRenewWindow = 30 * 24 * 3600 * 1000000000"

definition certsNeedRegen :: "install_env \<Rightarrow> host \<Rightarrow> bool \<Rightarrow> bool \<Rightarrow> PersistentConfig \<Rightarrow> PersistentConfig \<Rightarrow> bool" where
  "certsNeedRegen env h certsExist force merged existing =
     (if \<not> certsExist \<or> force then True
      else if \<not> sameStrings (pc_ExtraSANIPs merged) (pc_ExtraSANIPs existing)
            \<or> \<not> sameStrings (pc_ExtraSANDNS merged) (pc_ExtraSANDNS existing) then True
      else case certExpiry h ''server.crt'' of
          None \<Rightarrow> True
        | Some notAfter \<Rightarrow> notAfter - ie_now env < certRenewWindow)"

definition localIPs :: "install_env \<Rightarrow> ip list" where
  "localIPs env =
     [v4_prefix @ [127, 0, 0, 1], replicate 15 0 @ [1]] @ (case ie_routeIP env of Some i \<Rightarrow> [i] | None \<Rightarrow> [])"

definition localDNSNames :: "install_env \<Rightarrow> string list" where
  "localDNSNames env =
     [''localhost''] @
     (case ie_hostname env of Some h \<Rightarrow> if h \<noteq> ''localhost'' then [h] else [] | None \<Rightarrow> [])"

definition certValidity :: int where
  "certValidity = 365 * 24 * 3600 * 1000000000"

text \<open>\<open>None\<close>: a key or certificate could not be generated.\<close>

definition generateCerts :: "install_env \<Rightarrow> ip list \<Rightarrow> string list \<Rightarrow> certs option" where
  "generateCerts env extraIPs extraDNS =
     (if \<not> ie_keygen env then None
      else
        (let notAfter = Some (ie_now env + certValidity);
             plain = \<lparr>ct_run = ie_run env, ct_ips = [], ct_dns = [], ct_notAfter = notAfter\<rparr>;
             server = plain\<lparr>ct_ips := map IPString (appendIPs (localIPs env) extraIPs),
                            ct_dns := appendStrings (localDNSNames env) extraDNS\<rparr>
         in Some (map (\<lambda>n. (n, if n = ''server.crt'' then server else plain)) cert_names)))"

text \<open>Writing stops at the first error; a torn write leaves a file that does not parse.\<close>

fun write_cert_files :: "install_env \<Rightarrow> certs \<Rightarrow> string list \<Rightarrow> host \<Rightarrow> bool \<times> host" where
  "write_cert_files env cs [] h = (True, h)"
| "write_cert_files env cs (n # ns) h =
     (case mget cs n of
        None \<Rightarrow> write_cert_files env cs ns h
      | Some c \<Rightarrow>
          (case ie_write env n of
             Done \<Rightarrow> write_cert_files env cs ns (h\<lparr>h_certs := mput n c (h_certs h)\<rparr>)
           | Fails \<Rightarrow> (False, h)
           | Torn _ \<Rightarrow> (False, h\<lparr>h_certs := mput n (c\<lparr>ct_notAfter := None\<rparr>) (h_certs h)\<rparr>)))"

definition writeCerts :: "install_env \<Rightarrow> certs \<Rightarrow> host \<Rightarrow> bool \<times> host" where
  "writeCerts env cs h = write_cert_files env cs (ie_order env cert_names) h"

definition SaveConfig :: "install_env \<Rightarrow> PersistentConfig \<Rightarrow> host \<Rightarrow> bool \<times> host" where
  "SaveConfig env p h =
     (case ie_write env ''config.json'' of
        Done \<Rightarrow> (True, h\<lparr>h_config := ConfigFile p\<rparr>)
      | Fails \<Rightarrow> (False, h)
      | Torn _ \<Rightarrow> (False, h\<lparr>h_config := ConfigBroken\<rparr>))"

section \<open>Installing\<close>

definition merged_ips :: "InstallConfig \<Rightarrow> PersistentConfig \<Rightarrow> ip list" where
  "merged_ips cfg existing =
     add_new IPString (ic_ExtraSANIPs cfg @ List.map_filter ParseIP (pc_ExtraSANIPs existing)) []"

definition merged_dns :: "InstallConfig \<Rightarrow> PersistentConfig \<Rightarrow> string list" where
  "merged_dns cfg existing = add_new (\<lambda>s. s) (ic_ExtraSANDNS cfg @ pc_ExtraSANDNS existing) []"

definition mergedConfig :: "install_env \<Rightarrow> InstallConfig \<Rightarrow> PersistentConfig \<Rightarrow> PersistentConfig" where
  "mergedConfig env cfg existing =
     (let port = (if ic_Port cfg = 0 then DefaultPort else ic_Port cfg) in
      \<lparr>pc_Name = (if ic_Name cfg \<noteq> [] then ic_Name cfg
                  else if pc_Name existing \<noteq> [] then pc_Name existing
                  else (case ie_hostname env of Some h \<Rightarrow> h | None \<Rightarrow> [])),
       pc_Port = port,
       pc_ServerURL = (if ic_ServerURL cfg \<noteq> [] then ie_normalize env (ic_ServerURL cfg) port
                       else if pc_ServerURL existing \<noteq> [] then pc_ServerURL existing
                       else ''https://localhost:'' @ Itoa port),
       pc_ExtraSANIPs = map IPString (merged_ips cfg existing),
       pc_ExtraSANDNS = merged_dns cfg existing\<rparr>)"

datatype install_error = KeygenFailed | CertWriteFailed | ConfigWriteFailed

text \<open>Install up to the saved configuration; what follows copies the binary and writes the units.\<close>

definition install_certs_and_config ::
  "install_env \<Rightarrow> InstallConfig \<Rightarrow> host \<Rightarrow> install_error option \<times> host" where
  "install_certs_and_config env cfg h =
     (let existing = (case LoadConfig (h_config h) of Some p \<Rightarrow> p | None \<Rightarrow> zero_config);
          pcfg = mergedConfig env cfg existing in
      let (err, h1) =
        (if certsNeedRegen env h (allCertsPresent h) (ic_RegenerateCerts cfg) pcfg existing then
           (case generateCerts env (merged_ips cfg existing) (pc_ExtraSANDNS pcfg) of
              None \<Rightarrow> (Some KeygenFailed, h)
            | Some cs \<Rightarrow>
                (let (ok, h1) = writeCerts env cs h in (if ok then None else Some CertWriteFailed, h1)))
         else (None, h))
      in case err of
          Some e \<Rightarrow> (Some e, h1)
        | None \<Rightarrow> (let (ok, h2) = SaveConfig env pcfg h1 in (if ok then None else Some ConfigWriteFailed, h2)))"

section \<open>Units\<close>

definition q8s_socket :: "int \<Rightarrow> string" where
  "q8s_socket port =
     ''[Unit]'' @ nl @ ''Description=q8s API Server Socket'' @ nl @ nl @
     ''[Socket]'' @ nl @ ''ListenStream='' @ Itoa port @ nl @ ''ListenStream=%t/q8s/api.sock'' @ nl @
     ''Service=q8s-api.service'' @ nl @ ''RemoveOnStop=yes'' @ nl @ nl @
     ''[Install]'' @ nl @ ''WantedBy=sockets.target'' @ nl"

text \<open>\<open>busLine\<close> is the environment line of the session bus, which only the rootless service has.\<close>

definition q8s_service :: "bool \<Rightarrow> string \<Rightarrow> string \<Rightarrow> string" where
  "q8s_service rootful binaryPath busLine =
     ''[Unit]'' @ nl @ ''Description=q8s API Server'' @ nl @ ''Requires=q8s.socket'' @ nl @ ''After=q8s.socket'' @ nl @ nl @
     ''[Service]'' @ nl @ ''Type=notify'' @ nl @ ''ExecStart='' @ binaryPath @ '' serve'' @ nl @
     ''NotifyAccess=main'' @ nl @ ''Restart=on-failure'' @ nl @ ''RuntimeDirectory=q8s'' @ nl @
     (if rootful then ''User=root'' @ nl @ ''Group=root'' @ nl else busLine) @
     nl @ ''[Install]'' @ nl @ ''WantedBy=multi-user.target'' @ nl"

text \<open>The port in the socket unit, which resolvePort falls back to.\<close>

definition unit_port :: "string \<Rightarrow> int option" where
  "unit_port text =
     (case List.map_filter
         (\<lambda>line. let l = TrimSpace line in
           if \<not> HasPrefix l ''ListenStream='' then None
           else case Atoi (TrimPrefix l ''ListenStream='') of
               Some p \<Rightarrow> if p > 0 then Some p else None
             | None \<Rightarrow> None)
         (Split text newline) of
        [] \<Rightarrow> None
      | p # _ \<Rightarrow> Some p)"

text \<open>Q8S_PORT, the configuration, and the socket unit when it can be read.\<close>

definition resolvePort :: "string \<Rightarrow> config_file \<Rightarrow> string option \<Rightarrow> int" where
  "resolvePort q8s_port config unit_text =
     (let candidates =
        [if q8s_port \<noteq> [] then Atoi q8s_port else None, map_option pc_Port (LoadConfig config), Option.bind unit_text unit_port]
      in case find (\<lambda>p. p > 0) (List.map_filter (\<lambda>x. x) candidates) of Some p \<Rightarrow> p | None \<Rightarrow> DefaultPort)"

end
