(* ===== verification/InstallProperties.thy ===== *)
theory InstallProperties
  imports Install
begin

text \<open>
  Installing again and again, with any step failing, never leaves a configuration that promises a name or
  address the server certificate lacks; a run that succeeds leaves a complete, valid set.
\<close>

declare split_paired_All [simp del] split_paired_Ex [simp del]

section \<open>Names\<close>

lemma sameStrings_set: "sameStrings a b \<Longrightarrow> distinct b \<Longrightarrow> set a = set b"
proof -
  assume s: "sameStrings a b" and d: "distinct b"
  have sub: "set b \<subseteq> set a" using s by (auto simp: sameStrings_def list_all_iff)
  have "card (set a) \<le> card (set b)" using s d card_length [of a] by (simp add: sameStrings_def distinct_card)
  then show ?thesis using card_seteq [OF finite_set sub] by simp
qed

text \<open>With duplicates it is not the comparison of sets it is meant to be.\<close>

lemma sameStrings_duplicates: "sameStrings [''a'', ''b''] [''a'', ''a''] \<and> set [''a'', ''b''] \<noteq> set [''a'', ''a'']"
  by code_simp

lemma add_new_keys:
  "distinct (map key acc) \<Longrightarrow>
    distinct (map key (add_new key xs acc)) \<and> set (map key (add_new key xs acc)) = set (map key acc) \<union> key ` set xs"
  unfolding add_new_def
proof (induction xs arbitrary: acc)
  case (Cons x xs)
  show ?case
  proof (cases "key x \<in> set (map key acc)")
    case True
    then show ?thesis using Cons by auto
  next
    case False
    then show ?thesis using Cons.IH [of "acc @ [x]"] Cons.prems by auto
  qed
qed simp

definition canonical_ip :: "ip \<Rightarrow> bool" where
  "canonical_ip i \<longleftrightarrow> ParseIP (IPString i) = Some i"

definition canonical :: "string \<Rightarrow> bool" where
  "canonical s \<longleftrightarrow> (case ParseIP s of Some i \<Rightarrow> IPString i = s | None \<Rightarrow> False)"

lemma canonical_parsed: "list_all canonical ss \<Longrightarrow> IPString ` set (List.map_filter ParseIP ss) = set ss"
  by (induction ss) (auto simp: canonical_def List.map_filter_simps split: option.splits)

lemma canonical_IPString: "canonical_ip i \<Longrightarrow> canonical (IPString i)"
  by (simp add: canonical_def canonical_ip_def)

lemma merged_ips_facts:
  assumes "list_all canonical (pc_ExtraSANIPs existing)"
  shows "distinct (map IPString (merged_ips cfg existing))"
    "set (map IPString (merged_ips cfg existing)) = IPString ` set (ic_ExtraSANIPs cfg) \<union> set (pc_ExtraSANIPs existing)"
  using add_new_keys [of IPString "[]" "ic_ExtraSANIPs cfg @ List.map_filter ParseIP (pc_ExtraSANIPs existing)"]
    canonical_parsed [OF assms] by (simp_all add: merged_ips_def image_Un)

lemma merged_dns_facts:
  "distinct (merged_dns cfg existing)"
  "set (merged_dns cfg existing) = set (ic_ExtraSANDNS cfg) \<union> set (pc_ExtraSANDNS existing)"
  using add_new_keys [of "\<lambda>s. s" "[]" "ic_ExtraSANDNS cfg @ pc_ExtraSANDNS existing"]
  by (simp_all add: merged_dns_def)

section \<open>Certificates\<close>

definition covers :: "cert \<Rightarrow> PersistentConfig \<Rightarrow> bool" where
  "covers c p \<longleftrightarrow> set (pc_ExtraSANIPs p) \<subseteq> set (ct_ips c) \<and> set (pc_ExtraSANDNS p) \<subseteq> set (ct_dns c)"

lemma appendIPs_covers: "IPString ` set extra \<subseteq> IPString ` set (appendIPs base extra)"
  by (auto simp: appendIPs_def)

lemma appendStrings_covers: "set extra \<subseteq> set (appendStrings base extra)"
  by (auto simp: appendStrings_def)

lemma generateCerts_server:
  assumes "generateCerts env ips dns = Some cs"
  shows "\<exists>c. mget cs ''server.crt'' = Some c \<and> IPString ` set ips \<subseteq> set (ct_ips c) \<and> set dns \<subseteq> set (ct_dns c) \<and>
      ct_notAfter c = Some (ie_now env + certValidity)"
    and "list_all (\<lambda>n. mget cs n \<noteq> None) cert_names"
  using assms appendIPs_covers [of ips "localIPs env"] appendStrings_covers [of dns "localDNSNames env"]
  by (auto simp: generateCerts_def Let_def cert_names_def split: if_splits)

lemma write_cert_files_config: "write_cert_files env cs ns h = (ok, h') \<Longrightarrow> h_config h' = h_config h"
  by (induction env cs ns h rule: write_cert_files.induct) (auto split: option.splits outcome.splits)

lemma write_cert_files_content:
  "write_cert_files env cs ns h = (ok, h') \<Longrightarrow> mget (h_certs h') n = mget (h_certs h) n \<or>
    (\<exists>c. mget cs n = Some c \<and> (mget (h_certs h') n = Some c \<or> mget (h_certs h') n = Some (c\<lparr>ct_notAfter := None\<rparr>)))"
proof (induction env cs ns h rule: write_cert_files.induct)
  case (2 env cs m ns h)
  then show ?case by (cases "n = m") (auto simp: mget_mput split: option.splits outcome.splits)
qed simp

lemma write_cert_files_kept:
  "write_cert_files env cs ns h = (True, h') \<Longrightarrow> mget (h_certs h) n = mget cs n \<Longrightarrow> mget (h_certs h') n = mget cs n"
  by (induction env cs ns h rule: write_cert_files.induct) (auto simp: mget_mput split: option.splits outcome.splits)

lemma write_cert_files_complete:
  "write_cert_files env cs ns h = (True, h') \<Longrightarrow> n \<in> set ns \<Longrightarrow> mget cs n \<noteq> None \<Longrightarrow> mget (h_certs h') n = mget cs n"
proof (induction env cs ns h rule: write_cert_files.induct)
  case (2 env cs m ns h)
  show ?case
  proof (cases "n = m")
    case True
    then obtain c where c: "mget cs m = Some c" using "2.prems"(3) by auto
    then have "ie_write env m = Done" "write_cert_files env cs ns (h\<lparr>h_certs := mput m c (h_certs h)\<rparr>) = (True, h')"
      using "2.prems"(1) by (auto split: outcome.splits)
    from write_cert_files_kept [OF this(2), of n] show ?thesis using True c by (simp add: mget_mput)
  next
    case False
    with 2 show ?thesis by (auto split: option.splits outcome.splits)
  qed
qed simp

section \<open>Runs\<close>

text \<open>What holds between runs: the persisted names are those of the server certificate, if it parses.\<close>

definition host_ok :: "host \<Rightarrow> bool" where
  "host_ok h \<longleftrightarrow>
     (case h_config h of
        ConfigFile p \<Rightarrow>
          distinct (pc_ExtraSANIPs p) \<and> distinct (pc_ExtraSANDNS p) \<and> list_all canonical (pc_ExtraSANIPs p) \<and>
          (case mget (h_certs h) ''server.crt'' of
             Some c \<Rightarrow> ct_notAfter c = None \<or> covers c p
           | None \<Rightarrow> True)
      | _ \<Rightarrow> True)"

definition loaded :: "host \<Rightarrow> PersistentConfig" where
  "loaded h = (case LoadConfig (h_config h) of Some p \<Rightarrow> p | None \<Rightarrow> zero_config)"

lemma loaded_ok:
  assumes "host_ok h"
  shows "distinct (pc_ExtraSANIPs (loaded h))" "distinct (pc_ExtraSANDNS (loaded h))" "list_all canonical (pc_ExtraSANIPs (loaded h))"
    "mget (h_certs h) ''server.crt'' = Some c \<Longrightarrow> ct_notAfter c \<noteq> None \<Longrightarrow> covers c (loaded h)"
  using assms
  by (auto simp: loaded_def LoadConfig_def host_ok_def zero_config_def covers_def split: config_file.splits)

lemma merged_config_ok:
  assumes "host_ok h" "list_all canonical_ip (ic_ExtraSANIPs cfg)"
  shows "distinct (pc_ExtraSANIPs (mergedConfig env cfg (loaded h)))" "distinct (pc_ExtraSANDNS (mergedConfig env cfg (loaded h)))"
    "list_all canonical (pc_ExtraSANIPs (mergedConfig env cfg (loaded h)))"
    "set (pc_ExtraSANIPs (mergedConfig env cfg (loaded h))) = IPString ` set (ic_ExtraSANIPs cfg) \<union> set (pc_ExtraSANIPs (loaded h))"
    "set (pc_ExtraSANDNS (mergedConfig env cfg (loaded h))) = set (ic_ExtraSANDNS cfg) \<union> set (pc_ExtraSANDNS (loaded h))"
proof -
  note ips = merged_ips_facts [OF loaded_ok(3) [OF assms(1)], of cfg]
  have "list_all canonical (map IPString (merged_ips cfg (loaded h)))"
    using ips(2) loaded_ok(3) [OF assms(1)] assms(2) canonical_IPString by (auto simp: list_all_iff)
  then show "distinct (pc_ExtraSANIPs (mergedConfig env cfg (loaded h)))" "distinct (pc_ExtraSANDNS (mergedConfig env cfg (loaded h)))"
    "list_all canonical (pc_ExtraSANIPs (mergedConfig env cfg (loaded h)))"
    "set (pc_ExtraSANIPs (mergedConfig env cfg (loaded h))) = IPString ` set (ic_ExtraSANIPs cfg) \<union> set (pc_ExtraSANIPs (loaded h))"
    "set (pc_ExtraSANDNS (mergedConfig env cfg (loaded h))) = set (ic_ExtraSANDNS cfg) \<union> set (pc_ExtraSANDNS (loaded h))"
    using ips merged_dns_facts [of cfg "loaded h"] by (simp_all add: mergedConfig_def Let_def)
qed

text \<open>The three ways the certificates can go, before the configuration is saved.\<close>

definition certs_step :: "install_env \<Rightarrow> InstallConfig \<Rightarrow> host \<Rightarrow> install_error option \<times> host" where
  "certs_step env cfg h =
     (if certsNeedRegen env h (allCertsPresent h) (ic_RegenerateCerts cfg) (mergedConfig env cfg (loaded h)) (loaded h) then
        (case generateCerts env (merged_ips cfg (loaded h)) (pc_ExtraSANDNS (mergedConfig env cfg (loaded h))) of
           None \<Rightarrow> (Some KeygenFailed, h)
         | Some cs \<Rightarrow> (let (ok, h1) = writeCerts env cs h in (if ok then None else Some CertWriteFailed, h1)))
      else (None, h))"

lemma install_steps:
  "install_certs_and_config env cfg h =
    (case certs_step env cfg h of
       (Some e, h1) \<Rightarrow> (Some e, h1)
     | (None, h1) \<Rightarrow>
         (let (ok, h2) = SaveConfig env (mergedConfig env cfg (loaded h)) h1 in (if ok then None else Some ConfigWriteFailed, h2)))"
  by (simp add: install_certs_and_config_def certs_step_def loaded_def Let_def split: prod.split option.split)

lemma certs_step_config: "certs_step env cfg h = (e, h1) \<Longrightarrow> h_config h1 = h_config h"
  by (auto simp: certs_step_def writeCerts_def Let_def dest: write_cert_files_config split: if_splits option.splits prod.splits)

lemma certs_step_covers:
  assumes "host_ok h" "certs_step env cfg h = (e, h1)" "list_all canonical_ip (ic_ExtraSANIPs cfg)"
    and "mget (h_certs h1) ''server.crt'' = Some c" "ct_notAfter c \<noteq> None"
  shows "covers c (loaded h)"
proof (cases "mget (h_certs h1) ''server.crt'' = mget (h_certs h) ''server.crt''")
  case True
  then show ?thesis using loaded_ok(4) [OF assms(1)] assms(4,5) by simp
next
  case False
  let ?p = "mergedConfig env cfg (loaded h)"
  obtain cs where cs: "generateCerts env (merged_ips cfg (loaded h)) (pc_ExtraSANDNS ?p) = Some cs"
    and w: "fst (writeCerts env cs h) = (e = None)" "snd (writeCerts env cs h) = h1"
    using assms(2) False by (auto simp: certs_step_def Let_def split: if_splits option.splits prod.splits)
  obtain s where s: "mget cs ''server.crt'' = Some s" "IPString ` set (merged_ips cfg (loaded h)) \<subseteq> set (ct_ips s)"
    "set (pc_ExtraSANDNS ?p) \<subseteq> set (ct_dns s)"
    using generateCerts_server(1) [OF cs] by blast
  have "c = s"
    using write_cert_files_content [of env cs _ h _ h1 "''server.crt''"] w assms(4,5) s(1) False
    unfolding writeCerts_def by (metis cert.select_convs(4) cert.update_convs(4) cert.surjective option.inject prod.collapse)
  then show ?thesis
    using s(2,3) merged_config_ok(4,5) [OF assms(1,3), of env] by (auto simp: covers_def mergedConfig_def Let_def)
qed

lemma certs_step_done:
  assumes "host_ok h" "certs_step env cfg h = (None, h1)" "list_all canonical_ip (ic_ExtraSANIPs cfg)"
    and "set (ie_order env cert_names) = set cert_names"
  shows "allCertsPresent h1"
    "\<exists>c t. mget (h_certs h1) ''server.crt'' = Some c \<and> ct_notAfter c = Some t \<and> certRenewWindow \<le> t - ie_now env \<and>
      covers c (mergedConfig env cfg (loaded h))"
proof -
  let ?p = "mergedConfig env cfg (loaded h)"
  have "allCertsPresent h1 \<and> (\<exists>c t. mget (h_certs h1) ''server.crt'' = Some c \<and> ct_notAfter c = Some t \<and>
      certRenewWindow \<le> t - ie_now env \<and> covers c ?p)"
  proof (cases "certsNeedRegen env h (allCertsPresent h) (ic_RegenerateCerts cfg) ?p (loaded h)")
    case True
    then obtain cs where cs: "generateCerts env (merged_ips cfg (loaded h)) (pc_ExtraSANDNS ?p) = Some cs"
      and w: "write_cert_files env cs (ie_order env cert_names) h = (True, h1)"
      using assms(2) by (auto simp: certs_step_def writeCerts_def Let_def split: option.splits prod.splits if_splits)
    obtain s where s: "mget cs ''server.crt'' = Some s" "IPString ` set (merged_ips cfg (loaded h)) \<subseteq> set (ct_ips s)"
      "set (pc_ExtraSANDNS ?p) \<subseteq> set (ct_dns s)" "ct_notAfter s = Some (ie_now env + certValidity)"
      using generateCerts_server(1) [OF cs] by blast
    have new: "mget (h_certs h1) n = mget cs n" if "n \<in> set cert_names" for n
      using write_cert_files_complete [OF w, of n] generateCerts_server(2) [OF cs] that assms(4) by (auto simp: list_all_iff)
    have "''server.crt'' \<in> set cert_names" by (simp add: cert_names_def)
    then show ?thesis
      using new s generateCerts_server(2) [OF cs]
      by (auto simp: allCertsPresent_def list_all_iff covers_def mergedConfig_def Let_def certValidity_def certRenewWindow_def)
  next
    case False
    then have h1: "h1 = h" using assms(2) by (simp add: certs_step_def)
    have same: "sameStrings (pc_ExtraSANIPs ?p) (pc_ExtraSANIPs (loaded h))" "sameStrings (pc_ExtraSANDNS ?p) (pc_ExtraSANDNS (loaded h))"
      and present: "allCertsPresent h" and e: "\<exists>t. certExpiry h ''server.crt'' = Some t \<and> certRenewWindow \<le> t - ie_now env"
      using False by (auto simp: certsNeedRegen_def split: if_splits option.splits)
    obtain t where t: "certExpiry h ''server.crt'' = Some t" "certRenewWindow \<le> t - ie_now env" using e by blast
    then obtain c where c: "mget (h_certs h) ''server.crt'' = Some c" "ct_notAfter c = Some t"
      by (auto simp: certExpiry_def split: option.splits)
    have "covers c (loaded h)" using loaded_ok(4) [OF assms(1) c(1)] c(2) by simp
    then have "covers c ?p"
      using sameStrings_set [OF same(1) loaded_ok(1) [OF assms(1)]] sameStrings_set [OF same(2) loaded_ok(2) [OF assms(1)]]
      by (simp add: covers_def)
    then show ?thesis using present c t h1 by blast
  qed
  then show "allCertsPresent h1" "\<exists>c t. mget (h_certs h1) ''server.crt'' = Some c \<and> ct_notAfter c = Some t \<and>
      certRenewWindow \<le> t - ie_now env \<and> covers c ?p" by blast+
qed

text \<open>
  C33: Installing, whatever the flags are and whichever write fails or tears, keeps the promise: the persisted
  configuration has no name or address twice, and its names and addresses are all in the server
  certificate unless that file is missing or broken, so that the next run replaces it.
\<close>

theorem install_keeps_promise:
  assumes "host_ok h" "list_all canonical_ip (ic_ExtraSANIPs cfg)" "set (ie_order env cert_names) = set cert_names"
  shows "host_ok (snd (install_certs_and_config env cfg h))"
proof -
  obtain e h1 where step: "certs_step env cfg h = (e, h1)" by fastforce
  have "ct_notAfter c = None \<or> covers c (loaded h)" if "mget (h_certs h1) ''server.crt'' = Some c" for c
    using certs_step_covers [OF assms(1) step assms(2) that] by blast
  then have kept: "host_ok h1"
    using loaded_ok(1-3) [OF assms(1)] certs_step_config [OF step]
    by (auto simp: host_ok_def loaded_def LoadConfig_def split: config_file.splits option.splits)
  have saved: "host_ok (h1\<lparr>h_config := ConfigFile (mergedConfig env cfg (loaded h))\<rparr>)" if "e = None"
    using certs_step_done(2) [OF assms(1) step [unfolded that] assms(2,3)] merged_config_ok(1-3) [OF assms(1,2)]
    by (auto simp: host_ok_def)
  have broken: "host_ok (h1\<lparr>h_config := ConfigBroken\<rparr>)" by (simp add: host_ok_def)
  show ?thesis
    using kept saved broken
    by (auto simp: install_steps step SaveConfig_def Let_def split: option.split outcome.split)
qed

text \<open>
  A run that succeeds leaves all six files, a configuration with every requested name and address
  besides those it had, and a server certificate that covers all of them and is valid for at
  least thirty days.
\<close>

lemma successful_install:
  assumes "host_ok h" "list_all canonical_ip (ic_ExtraSANIPs cfg)" "set (ie_order env cert_names) = set cert_names"
    and "install_certs_and_config env cfg h = (None, h')"
  shows "allCertsPresent h' \<and>
    (\<exists>p c t. h_config h' = ConfigFile p \<and> mget (h_certs h') ''server.crt'' = Some c \<and> covers c p \<and>
      ct_notAfter c = Some t \<and> certRenewWindow \<le> t - ie_now env \<and>
      set (pc_ExtraSANIPs p) = IPString ` set (ic_ExtraSANIPs cfg) \<union> set (pc_ExtraSANIPs (loaded h)) \<and>
      set (pc_ExtraSANDNS p) = set (ic_ExtraSANDNS cfg) \<union> set (pc_ExtraSANDNS (loaded h)))"
proof -
  obtain h1 where step: "certs_step env cfg h = (None, h1)"
    and h': "h' = h1\<lparr>h_config := ConfigFile (mergedConfig env cfg (loaded h))\<rparr>"
    using assms(4) by (auto simp: install_steps SaveConfig_def Let_def split: option.splits outcome.splits prod.splits if_splits)
  show ?thesis
    using certs_step_done [OF assms(1) step assms(2,3)] merged_config_ok(4,5) [OF assms(1,2), of env]
    by (auto simp: h' allCertsPresent_def)
qed

section \<open>Examples\<close>

definition fresh_host :: host where
  "fresh_host = \<lparr>h_certs = [], h_config = ConfigMissing\<rparr>"

definition good_run :: "nat \<Rightarrow> install_env" where
  "good_run n = \<lparr>ie_now = 0, ie_run = n, ie_hostname = Some ''box'', ie_routeIP = None, ie_keygen = True,
     ie_order = (\<lambda>ns. ns), ie_write = (\<lambda>_. Done), ie_normalize = (\<lambda>u _. u)\<rparr>"

definition demo_flags :: InstallConfig where
  "demo_flags = \<lparr>ic_Rootful = True, ic_Home = [], ic_Name = [], ic_Port = 0, ic_ServerURL = [],
     ic_ExtraSANIPs = [v4_prefix @ [10, 0, 0, 7]], ic_ExtraSANDNS = [''api.lan''], ic_RegenerateCerts = False\<rparr>"

lemmas install_eval = install_certs_and_config_def certsNeedRegen_def allCertsPresent_def cert_names_def
  generateCerts_def good_run_def writeCerts_def SaveConfig_def LoadConfig_def Let_def

theorem install_keeps_promise_witness:
  "host_ok (snd (install_certs_and_config ((good_run 1)\<lparr>ie_write := (\<lambda>n. if n = ''server.crt'' then Torn [] else Done)\<rparr>) demo_flags fresh_host))"
proof (rule install_keeps_promise)
  show "host_ok fresh_host" by (simp add: host_ok_def fresh_host_def)
  show "list_all canonical_ip (ic_ExtraSANIPs demo_flags)" by code_simp
qed (simp add: good_run_def)

lemma successful_install_witness:
  "\<exists>h' p c. install_certs_and_config (good_run 1) demo_flags fresh_host = (None, h') \<and> allCertsPresent h' \<and>
    h_config h' = ConfigFile p \<and> mget (h_certs h') ''server.crt'' = Some c \<and> covers c p \<and> set (pc_ExtraSANDNS p) = {''api.lan''}"
proof -
  have "fst (install_certs_and_config (good_run 1) demo_flags fresh_host) = None"
    by (simp add: install_eval fresh_host_def)
  then obtain h' where h': "install_certs_and_config (good_run 1) demo_flags fresh_host = (None, h')"
    by (cases "install_certs_and_config (good_run 1) demo_flags fresh_host") simp
  have "host_ok fresh_host" by (simp add: host_ok_def fresh_host_def)
  moreover have "list_all canonical_ip (ic_ExtraSANIPs demo_flags)" by code_simp
  moreover have "set (ie_order (good_run 1) cert_names) = set cert_names" by (simp add: good_run_def)
  ultimately have "allCertsPresent h' \<and>
    (\<exists>p c t. h_config h' = ConfigFile p \<and> mget (h_certs h') ''server.crt'' = Some c \<and> covers c p \<and>
      ct_notAfter c = Some t \<and> certRenewWindow \<le> t - ie_now (good_run 1) \<and>
      set (pc_ExtraSANIPs p) = IPString ` set (ic_ExtraSANIPs demo_flags) \<union> set (pc_ExtraSANIPs (loaded fresh_host)) \<and>
      set (pc_ExtraSANDNS p) = set (ic_ExtraSANDNS demo_flags) \<union> set (pc_ExtraSANDNS (loaded fresh_host)))"
    by (rule successful_install) (rule h')
  moreover have "set (ic_ExtraSANDNS demo_flags) \<union> set (pc_ExtraSANDNS (loaded fresh_host)) = {''api.lan''}"
    by (simp add: demo_flags_def loaded_def fresh_host_def LoadConfig_def zero_config_def)
  ultimately show ?thesis using h' by metis
qed

text \<open>
  What is not kept: a regeneration that fails in the middle leaves certificates of two runs, and the
  next run takes them for a complete set and keeps them.
\<close>

definition plain_flags :: InstallConfig where
  "plain_flags = demo_flags\<lparr>ic_ExtraSANIPs := [], ic_ExtraSANDNS := []\<rparr>"

definition installed :: host where
  "installed = snd (install_certs_and_config (good_run 1) plain_flags fresh_host)"

definition interrupted :: host where
  "interrupted = snd (install_certs_and_config ((good_run 2)\<lparr>ie_write := (\<lambda>n. if n = ''server.crt'' then Fails else Done)\<rparr>)
     (plain_flags\<lparr>ic_RegenerateCerts := True\<rparr>) installed)"

lemma mixed_certificates_stay:
  "map_option ct_run (mget (h_certs (snd (install_certs_and_config (good_run 3) plain_flags interrupted))) ''ca.crt'') = Some 2"
  "map_option ct_run (mget (h_certs (snd (install_certs_and_config (good_run 3) plain_flags interrupted))) ''server.crt'') = Some 1"
  by (simp_all add: interrupted_def installed_def install_eval fresh_host_def mergedConfig_def merged_ips_def merged_dns_def zero_config_def
      add_new_def List.map_filter_def sameStrings_def certExpiry_def certRenewWindow_def certValidity_def
      plain_flags_def demo_flags_def)

end
