(* ===== verification/CommandLine.thy ===== *)
theory CommandLine
  imports Install Startup
begin

text \<open>
  The commands of cmd/q8s/main.go around the server: where its directories are, the flags of the
  install command, the removal of everything the store accounts for, the restoration of the store's
  backup when the server starts, and the kubeconfig.  A path of main.go that ends in a file name is
  kept as directory and name, as in \<open>World\<close>.
\<close>

section \<open>Directories\<close>

record dirs =
  d_dataDir :: string
  d_quadletDir :: string
  d_configDir :: string
  d_secretDir :: string
  d_systemdDir :: string

text \<open>The environment the command runs in.\<close>

record user_env =
  ue_home :: string
  ue_xdg_config :: string
  ue_xdg_runtime :: string
  ue_uid :: int

definition resolveDirs :: "bool \<Rightarrow> user_env \<Rightarrow> dirs" where
  "resolveDirs rootful env =
     (if rootful then
        \<lparr>d_dataDir = ''/etc/q8s'', d_quadletDir = ''/etc/containers/systemd'', d_configDir = ''/run/q8s/configmaps'',
         d_secretDir = ''/run/q8s/secrets'', d_systemdDir = ''/etc/systemd/system''\<rparr>
      else
        (let home = ue_home env;
             xdgConfig = (if ue_xdg_config env = [] then home @ ''/.config'' else ue_xdg_config env);
             xdgRuntime = (if ue_xdg_runtime env = [] then ''/run/user/'' @ Itoa (ue_uid env) else ue_xdg_runtime env)
         in \<lparr>d_dataDir = home @ ''/.local/share/q8s'', d_quadletDir = xdgConfig @ ''/containers/systemd'',
             d_configDir = xdgRuntime @ ''/q8s/configmaps'', d_secretDir = xdgRuntime @ ''/q8s/secrets'',
             d_systemdDir = xdgConfig @ ''/systemd/user''\<rparr>))"

definition systemctlFlags :: "bool \<Rightarrow> string list" where
  "systemctlFlags rootful = (if rootful then [] else [''--user''])"

section \<open>Flags\<close>

record install_args =
  ia_name :: string
  ia_ips :: "ip list"
  ia_dns :: "string list"
  ia_server :: string
  ia_regen :: bool

text \<open>The command prints its usage, exits with an error, or goes on with the flags.\<close>

datatype parsed_args = Usage | Refused string | Parsed install_args

definition value_flag :: "string \<Rightarrow> string \<Rightarrow> install_args \<Rightarrow> install_args option" where
  "value_flag flag v a =
     (if flag = ''--name'' then Some (a\<lparr>ia_name := v\<rparr>)
      else if flag = ''--san-ip'' then map_option (\<lambda>i. a\<lparr>ia_ips := ia_ips a @ [i]\<rparr>) (ParseIP v)
      else if flag = ''--san-dns'' then Some (a\<lparr>ia_dns := ia_dns a @ [v]\<rparr>)
      else Some (a\<lparr>ia_server := v\<rparr>))"

fun parse_install :: "string list \<Rightarrow> install_args \<Rightarrow> parsed_args" where
  "parse_install [] a = Parsed a"
| "parse_install (x # xs) a =
     (if x = ''-h'' \<or> x = ''--help'' then Usage
      else if x = ''--regenerate-certs'' then parse_install xs (a\<lparr>ia_regen := True\<rparr>)
      else if x = ''--name'' \<or> x = ''--san-ip'' \<or> x = ''--san-dns'' \<or> x = ''--server'' then
        (case xs of
           [] \<Rightarrow> Refused (x @ '' requires a value'')
         | v # ys \<Rightarrow>
             (case value_flag x v a of
                None \<Rightarrow> Refused (''invalid IP: '' @ v)
              | Some b \<Rightarrow> parse_install ys b))
      else Refused (''unknown flag: '' @ x))"

definition no_args :: install_args where
  "no_args = \<lparr>ia_name = [], ia_ips = [], ia_dns = [], ia_server = [], ia_regen = False\<rparr>"

definition cmdInstall :: "bool \<Rightarrow> user_env \<Rightarrow> int \<Rightarrow> string list \<Rightarrow> string + InstallConfig option" where
  "cmdInstall rootful env port args =
     (case parse_install args no_args of
        Usage \<Rightarrow> Inr None
      | Refused msg \<Rightarrow> Inl msg
      | Parsed a \<Rightarrow> Inr (Some
          \<lparr>ic_Rootful = rootful, ic_Home = ue_home env, ic_Name = ia_name a, ic_Port = port,
           ic_ServerURL = ia_server a, ic_ExtraSANIPs = ia_ips a, ic_ExtraSANDNS = ia_dns a,
           ic_RegenerateCerts = ia_regen a\<rparr>))"

section \<open>The units of the server\<close>

text \<open>
  What the installer writes and how systemd loads it: \<open>home\<close> is the configured home or HOME,
  \<open>busAddr\<close> the address of the session bus.  The result says whether the installation goes on; a
  failing reload is only a warning.
\<close>

definition unit_dir :: "bool \<Rightarrow> string \<Rightarrow> string option" where
  "unit_dir rootful home =
     (if rootful then Some ''/etc/systemd/system''
      else if home = [] then None
      else Some (PathJoin [home, ''.config'', ''systemd'', ''user'']))"

definition session_bus :: "string \<Rightarrow> string \<Rightarrow> string" where
  "session_bus busAddr runtimeDir = (if busAddr = [] then ''unix:path='' @ runtimeDir @ ''/bus'' else busAddr)"

definition installSystemdUnits :: "server \<Rightarrow> InstallConfig \<Rightarrow> string \<Rightarrow> string \<Rightarrow> string \<Rightarrow> world \<Rightarrow> bool \<times> world" where
  "installSystemdUnits sv cfg home busAddr runtimeDir w =
     (let rootful = ic_Rootful cfg; port = (if ic_Port cfg = 0 then DefaultPort else ic_Port cfg) in
      case unit_dir rootful home of
        None \<Rightarrow> (False, w)
      | Some dir \<Rightarrow>
          (case (if rootful then Inr [] else envLine ''DBUS_SESSION_BUS_ADDRESS'' (session_bus busAddr runtimeDir)) of
             Inl _ \<Rightarrow> (False, w)
           | Inr line \<Rightarrow>
               (let (ok1, w1) = perform sv (WriteFile dir ''q8s.socket'' (q8s_socket port)) w in
                if \<not> ok1 then (False, w1)
                else
                  (let (ok2, w2) = perform sv
                         (WriteFile dir ''q8s-api.service'' (q8s_service rootful (binInstallPath rootful home) line)) w1 in
                   if \<not> ok2 then (False, w2) else (True, act sv DaemonReload w2)))))"

text \<open>
  The restart that loads new certificates; \<open>mainPID\<close> reads the process of the service, which
  depends on the calls made so far.  The result says whether a new process was seen.
\<close>

definition restartService :: "server \<Rightarrow> (io list \<Rightarrow> int) \<Rightarrow> world \<Rightarrow> bool \<times> world" where
  "restartService sv mainPID w =
     (let before = mainPID (w_log w); (ok, w1) = perform sv (RestartUnit ''q8s-api.service'') w in
      if \<not> ok then (False, w1)
      else
        (let after = mainPID (w_log w1) in
         if after > 0 \<and> after \<noteq> before then (True, w1)
         else
           (let w2 = act sv (StopUnit ''q8s-api.service'') w1; (ok3, w3) = perform sv (StartUnit ''q8s-api.service'') w2 in
            if \<not> ok3 then (False, w3)
            else (let after = mainPID (w_log w3) in (after > 0 \<and> after \<noteq> before, w3)))))"

section \<open>Uninstalling\<close>

definition joined :: "'a kobj_scheme \<Rightarrow> string \<Rightarrow> string" where
  "joined x suffix = o_namespace x @ ''-'' @ o_name x @ suffix"

definition deployment_targets :: "dirs \<Rightarrow> deployment \<Rightarrow> (string \<times> string) list" where
  "deployment_targets d dep =
     (let n = (case ds_replicas (dep_spec dep) of Some r \<Rightarrow> if r > 1 then r else 1 | None \<Rightarrow> 1)
      in map (\<lambda>i. (d_quadletDir d, joined dep (''-'' @ Itoa i @ ''.container''))) [0..n - 1])"

definition cronjob_targets :: "dirs \<Rightarrow> cronjob \<Rightarrow> (string \<times> string) list" where
  "cronjob_targets d cj =
     [(d_quadletDir d, joined cj ''-cron.container''), (d_systemdDir d, joined cj ''-cron.timer'')]"

text \<open>The files of the stored objects the command removes, in order.\<close>

definition uninstall_targets :: "dirs \<Rightarrow> store \<Rightarrow> (string \<times> string) list" where
  "uninstall_targets d st =
     concat (map (deployment_targets d) (AllDeployments st)) @
     map (\<lambda>p. (d_quadletDir d, joined p ''.container'')) (AllPods st) @
     map (\<lambda>p. (d_quadletDir d, joined p ''.volume'')) (AllPVCs st) @
     map (\<lambda>j. (d_quadletDir d, joined j ''-job.container'')) (AllJobs st) @
     concat (map (cronjob_targets d) (AllCronJobs st)) @
     map (\<lambda>n. (d_quadletDir d, ''q8s-'' @ o_name n @ ''.network'')) (ListNamespaces st)"

definition rm :: "server \<Rightarrow> string \<times> string \<Rightarrow> world \<Rightarrow> world" where
  "rm sv k w = act sv (RemoveFile (fst k) (snd k)) w"

definition stop_and_disable :: "server \<Rightarrow> string \<Rightarrow> world \<Rightarrow> world" where
  "stop_and_disable sv u w = act sv (DisableUnit u) (act sv (StopUnit u) w)"

definition owned_socket :: "string \<Rightarrow> bool" where
  "owned_socket content \<longleftrightarrow> Contains content (nl @ ''X-Q8s-Namespace='')"

definition uninstall_socket :: "server \<Rightarrow> dirs \<Rightarrow> string \<Rightarrow> world \<Rightarrow> world" where
  "uninstall_socket sv d name w =
     (case mget (w_files w) (d_systemdDir d, name) of
        None \<Rightarrow> w
      | Some content \<Rightarrow>
          if \<not> owned_socket content then w
          else rm sv (d_systemdDir d, name) (stop_and_disable sv name w))"

definition uninstall_sockets :: "server \<Rightarrow> dirs \<Rightarrow> world \<Rightarrow> world" where
  "uninstall_sockets sv d w =
     fold (uninstall_socket sv d) (filter (\<lambda>n. HasSuffix n ''.socket'') (list_dir (d_systemdDir d) w)) w"

definition backup_store :: "server \<Rightarrow> dirs \<Rightarrow> world \<Rightarrow> world" where
  "backup_store sv d w =
     (case mget (w_files w) (d_dataDir d, ''store.json'') of
        None \<Rightarrow> w
      | Some data \<Rightarrow> act sv (WriteFile (d_dataDir d) ''store.json.bak'' data) w)"

definition uninstall_resources :: "server \<Rightarrow> dirs \<Rightarrow> store \<Rightarrow> world \<Rightarrow> world" where
  "uninstall_resources sv d st w =
     backup_store sv d (uninstall_sockets sv d (fold (rm sv) (uninstall_targets d st) w))"

definition uninstall_rest :: "server \<Rightarrow> dirs \<Rightarrow> world \<Rightarrow> world" where
  "uninstall_rest sv d w =
     fold (act sv)
       [RemoveFile (d_systemdDir d) ''q8s.socket'', RemoveFile (d_systemdDir d) ''q8s-api.service'', DaemonReload,
        RemoveAll (d_dataDir d @ ''/certs''), RemoveAll (d_dataDir d @ ''/traefik''), RemoveAll (d_dataDir d @ ''/quadlets''),
        RemoveFile (d_dataDir d) ''config.json''] w"

text \<open>
  \<open>load\<close> is what \<open>store.Load\<close> makes of the file's content, when it has any; \<open>None\<close> is its error, which
  leaves the files of the resources.
\<close>

definition cmdUninstall :: "server \<Rightarrow> (string option \<Rightarrow> store option) \<Rightarrow> dirs \<Rightarrow> world \<Rightarrow> world" where
  "cmdUninstall sv load d w =
     (let w1 = fold (stop_and_disable sv) [''q8s.socket'', ''q8s-api.service''] w;
          w2 = (case load (mget (w_files w1) (d_dataDir d, ''store.json'')) of
                  None \<Rightarrow> w1
                | Some st \<Rightarrow> uninstall_resources sv d st w1)
      in uninstall_rest sv d w2)"

text \<open>The claims whose volume the user is told about; \<open>inspect\<close> says which volumes podman knows.\<close>

definition volumes_left :: "(string \<Rightarrow> bool) \<Rightarrow> store \<Rightarrow> string list" where
  "volumes_left inspect st = map (\<lambda>p. o_name p) (filter (\<lambda>p. inspect (o_name p)) (AllPVCs st))"

section \<open>The start of the server\<close>

definition restore_backup :: "server \<Rightarrow> dirs \<Rightarrow> world \<Rightarrow> world" where
  "restore_backup sv d w =
     (if mget (w_files w) (d_dataDir d, ''store.json'') = None \<and>
         mget (w_files w) (d_dataDir d, ''store.json.bak'') \<noteq> None
      then act sv (RenameFile (d_dataDir d) ''store.json.bak'' ''store.json'') w else w)"

section \<open>The kubeconfig\<close>

text \<open>\<open>ca\<close>, \<open>crt\<close> and \<open>key\<close> are the files of the certificates in base64.\<close>

definition cmdKubeconfig :: "int \<Rightarrow> config_file \<Rightarrow> string \<Rightarrow> string \<Rightarrow> string \<Rightarrow> string" where
  "cmdKubeconfig port config ca crt key =
     (let cfg = LoadConfig config;
          serverURL = (case cfg of Some c \<Rightarrow> if pc_ServerURL c \<noteq> [] then pc_ServerURL c else ''https://localhost:'' @ Itoa port
                       | None \<Rightarrow> ''https://localhost:'' @ Itoa port);
          name = (case cfg of Some c \<Rightarrow> if pc_Name c \<noteq> [] then pc_Name c else ''q8s'' | None \<Rightarrow> ''q8s'')
      in ''apiVersion: v1'' @ nl @ ''kind: Config'' @ nl @ ''clusters:'' @ nl @ ''- cluster:'' @ nl @
         ''    certificate-authority-data: '' @ ca @ nl @ ''    server: '' @ serverURL @ nl @ ''  name: '' @ name @ nl @
         ''contexts:'' @ nl @ ''- context:'' @ nl @ ''    cluster: '' @ name @ nl @ ''    user: '' @ name @ nl @
         ''  name: '' @ name @ nl @ ''current-context: '' @ name @ nl @ ''preferences: {}'' @ nl @ ''users:'' @ nl @
         ''- name: '' @ name @ nl @ ''  user:'' @ nl @ ''    client-certificate-data: '' @ crt @ nl @
         ''    client-key-data: '' @ key @ nl)"

end
