(* ===== verification/CommandLineProperties.thy ===== *)
theory CommandLineProperties
  imports CommandLine Selector SyncLemmas DeployDemo
begin

text \<open>
  What uninstalling removes, that it never touches the store's data, and that what it keeps is
  enough to start again; that the installed socket unit tells later commands the port.
\<close>

declare split_paired_All [simp del] split_paired_Ex [simp del]

section \<open>Without failures\<close>

lemma files_act: "no_failures sv \<Longrightarrow> w_files (act sv op w) = io_effect op Done (w_files w)"
  by (simp add: no_failures_def act_def perform_def Let_def)

lemma files_rm: "no_failures sv \<Longrightarrow> w_files (rm sv k w) = mdel k (w_files w)"
  by (cases k) (simp add: rm_def files_act)

lemma files_rm_all:
  "no_failures sv \<Longrightarrow> mget (w_files (fold (rm sv) ks w)) k = (if k \<in> set ks then None else mget (w_files w) k)"
  by (induction ks arbitrary: w) (auto simp: files_rm mget_mdel)

lemma files_stop [simp]: "no_failures sv \<Longrightarrow> w_files (stop_and_disable sv u w) = w_files w"
  by (simp add: stop_and_disable_def files_act)

lemma files_socket:
  assumes "no_failures sv"
  shows "mget (w_files (uninstall_socket sv d n w)) k =
    (if k = (d_systemdDir d, n) \<and> (\<exists>c. mget (w_files w) k = Some c \<and> owned_socket c) then None else mget (w_files w) k)"
  using assms by (auto simp: uninstall_socket_def files_rm mget_mdel split: option.splits)

lemma files_sockets:
  assumes "no_failures sv"
  shows "mget (w_files (fold (uninstall_socket sv d) ns w)) k =
    (if fst k = d_systemdDir d \<and> snd k \<in> set ns \<and> (\<exists>c. mget (w_files w) k = Some c \<and> owned_socket c) then None
     else mget (w_files w) k)"
proof (induction ns arbitrary: w)
  case (Cons n ns)
  show ?case
    unfolding fold_simps comp_def Cons.IH files_socket [OF assms]
    by (cases "mget (w_files w) k") (simp_all add: prod_eq_iff)
qed simp

lemma in_list_dir: "mget (w_files w) (dir, n) = Some c \<Longrightarrow> n \<in> set (list_dir dir w)"
  by (force simp: list_dir_def dest: map_of_SomeD)

definition doomed_socket :: "dirs \<Rightarrow> files \<Rightarrow> string \<times> string \<Rightarrow> bool" where
  "doomed_socket d fs k \<longleftrightarrow>
     fst k = d_systemdDir d \<and> HasSuffix (snd k) ''.socket'' \<and>
     (case mget fs k of Some c \<Rightarrow> Contains c (nl @ ''X-Q8s-Namespace='') | None \<Rightarrow> False)"

lemma files_uninstall_sockets:
  assumes "no_failures sv"
  shows "mget (w_files (uninstall_sockets sv d w)) k =
    (if doomed_socket d (w_files w) k then None else mget (w_files w) k)"
  using in_list_dir [of w "fst k" "snd k"] unfolding uninstall_sockets_def files_sockets [OF assms] doomed_socket_def owned_socket_def
  by (cases "mget (w_files w) k") auto

definition own_files :: "dirs \<Rightarrow> (string \<times> string) list" where
  "own_files d = [(d_systemdDir d, ''q8s.socket''), (d_systemdDir d, ''q8s-api.service''), (d_dataDir d, ''config.json'')]"

definition own_dirs :: "dirs \<Rightarrow> string list" where
  "own_dirs d = map (\<lambda>s. d_dataDir d @ s) [''/certs'', ''/traefik'', ''/quadlets'']"

definition below :: "string list \<Rightarrow> string \<Rightarrow> bool" where
  "below ds dir \<longleftrightarrow> list_ex (\<lambda>d. dir = d \<or> HasPrefix dir (d @ ''/'')) ds"

lemma files_rest:
  assumes "no_failures sv"
  shows "mget (w_files (uninstall_rest sv d w)) k =
    (if k \<in> set (own_files d) \<or> below (own_dirs d) (fst k) then None else mget (w_files w) k)"
  by (cases k) (auto simp: uninstall_rest_def files_act [OF assms] mget_mdel mget_mdrop own_files_def own_dirs_def below_def)

text \<open>
  The files a stored object has, said over the objects: those of the instances of a deployment and of
  a pod with one container, of a claim's volume, a job, a cron job and its timer, and of the network
  of every namespace in use.
\<close>

definition instances :: "deployment \<Rightarrow> int" where
  "instances dep = (case ds_replicas (dep_spec dep) of Some r \<Rightarrow> max 1 r | None \<Rightarrow> 1)"

definition resource_file :: "dirs \<Rightarrow> store \<Rightarrow> string \<times> string \<Rightarrow> bool" where
  "resource_file d st k \<longleftrightarrow>
     (\<exists>x \<in> set (mvals (s_deployments st)). \<exists>i \<in> {0..<instances x}.
        k = (d_quadletDir d, o_namespace x @ ''-'' @ o_name x @ ''-'' @ Itoa i @ ''.container'')) \<or>
     (\<exists>x \<in> set (mvals (s_pods st)). k = (d_quadletDir d, o_namespace x @ ''-'' @ o_name x @ ''.container'')) \<or>
     (\<exists>x \<in> set (mvals (s_pvcs st)). k = (d_quadletDir d, o_namespace x @ ''-'' @ o_name x @ ''.volume'')) \<or>
     (\<exists>x \<in> set (mvals (s_jobs st)). k = (d_quadletDir d, o_namespace x @ ''-'' @ o_name x @ ''-job.container'')) \<or>
     (\<exists>x \<in> set (mvals (s_cronjobs st)). k = (d_quadletDir d, o_namespace x @ ''-'' @ o_name x @ ''-cron.container'') \<or>
        k = (d_systemdDir d, o_namespace x @ ''-'' @ o_name x @ ''-cron.timer'')) \<or>
     (\<exists>x \<in> set (ListNamespaces st). k = (d_quadletDir d, ''q8s-'' @ o_name x @ ''.network''))"

text \<open>What a complete uninstallation removes, by the files it starts from.\<close>

definition uninstalled :: "dirs \<Rightarrow> store \<Rightarrow> files \<Rightarrow> string \<times> string \<Rightarrow> bool" where
  "uninstalled d st fs k \<longleftrightarrow> resource_file d st k \<or> doomed_socket d fs k \<or>
     k \<in> {(d_systemdDir d, ''q8s.socket''), (d_systemdDir d, ''q8s-api.service''), (d_dataDir d, ''config.json'')} \<or>
     (\<exists>sub \<in> {''/certs'', ''/traefik'', ''/quadlets''}. fst k = d_dataDir d @ sub \<or> HasPrefix (fst k) (d_dataDir d @ sub @ ''/''))"

text \<open>These are the targets of the command.\<close>

lemma deployment_targets_iff:
  "k \<in> set (deployment_targets d x) \<longleftrightarrow> (\<exists>i \<in> {0..<instances x}.
     k = (d_quadletDir d, o_namespace x @ ''-'' @ o_name x @ ''-'' @ Itoa i @ ''.container''))"
proof -
  have n: "(case ds_replicas (dep_spec x) of Some r \<Rightarrow> if r > 1 then r else 1 | None \<Rightarrow> 1) = instances x"
    by (simp add: instances_def split: option.split)
  have "set [0..instances x - 1] = {0..<instances x}" by auto
  then show ?thesis unfolding deployment_targets_def Let_def n set_map joined_def by (auto simp del: set_upto)
qed

lemma uninstall_targets_iff: "k \<in> set (uninstall_targets d st) \<longleftrightarrow> resource_file d st k"
  by (auto simp: uninstall_targets_def resource_file_def deployment_targets_iff cronjob_targets_def joined_def
      AllDeployments_def AllPods_def AllPVCs_def AllJobs_def AllCronJobs_def)

lemma uninstalled_iff:
  "uninstalled d st fs k \<longleftrightarrow>
     k \<in> set (uninstall_targets d st) \<or> doomed_socket d fs k \<or> k \<in> set (own_files d) \<or> below (own_dirs d) (fst k)"
  by (auto simp: uninstalled_def uninstall_targets_iff own_files_def own_dirs_def below_def)

lemma targets_dir: "k \<in> set (uninstall_targets d st) \<Longrightarrow> fst k \<in> {d_quadletDir d, d_systemdDir d}"
  by (auto simp: uninstall_targets_def deployment_targets_def cronjob_targets_def Let_def)

lemma fold_stop_files [simp]:
  "no_failures sv \<Longrightarrow> w_files (fold (stop_and_disable sv) us w) = w_files w"
  by (induction us arbitrary: w) simp_all

definition separate :: "dirs \<Rightarrow> bool" where
  "separate d \<longleftrightarrow> d_dataDir d \<notin> {d_quadletDir d, d_systemdDir d}"

lemma data_not_below: "\<not> below (own_dirs d) (d_dataDir d)"
  by (simp add: below_def own_dirs_def HasPrefix_def)

lemma data_not_uninstalled:
  assumes "separate d" "n \<noteq> ''config.json''"
  shows "\<not> uninstalled d st fs (d_dataDir d, n)"
  using assms targets_dir [of "(d_dataDir d, n)" d st] data_not_below [of d]
  by (auto simp: uninstalled_iff separate_def doomed_socket_def own_files_def)

lemma files_backup:
  assumes "no_failures sv"
  shows "mget (w_files (backup_store sv d w)) k =
    (if k = (d_dataDir d, ''store.json.bak'') \<and> mget (w_files w) (d_dataDir d, ''store.json'') \<noteq> None
     then mget (w_files w) (d_dataDir d, ''store.json'') else mget (w_files w) k)"
  using assms by (auto simp: backup_store_def files_act mget_mput split: option.split)

lemma files_resources:
  assumes "no_failures sv" "separate d"
  shows "mget (w_files (uninstall_resources sv d st w)) k =
    (if k = (d_dataDir d, ''store.json.bak'') \<and> mget (w_files w) (d_dataDir d, ''store.json'') \<noteq> None
     then mget (w_files w) (d_dataDir d, ''store.json'')
     else if k \<in> set (uninstall_targets d st) \<or> doomed_socket d (w_files w) k then None else mget (w_files w) k)"
proof -
  let ?w1 = "fold (rm sv) (uninstall_targets d st) w" and ?store = "(d_dataDir d, ''store.json'')"
  have gone: "mget (w_files (uninstall_sockets sv d ?w1)) k' =
      (if k' \<in> set (uninstall_targets d st) \<or> doomed_socket d (w_files w) k' then None else mget (w_files w) k')" for k'
    by (auto simp: files_uninstall_sockets [OF assms(1)] doomed_socket_def files_rm_all [OF assms(1)])
  have "\<not> (?store \<in> set (uninstall_targets d st) \<or> doomed_socket d (w_files w) ?store)"
    using data_not_uninstalled [OF assms(2), of "''store.json''" st "w_files w"] by (simp add: uninstalled_iff)
  then show ?thesis
    unfolding uninstall_resources_def files_backup [OF assms(1)] gone by auto
qed

section \<open>Uninstalling\<close>

lemma files_uninstall:
  assumes "no_failures sv" "separate d" "load (mget (w_files w) (d_dataDir d, ''store.json'')) = Some st"
  shows "mget (w_files (cmdUninstall sv load d w)) k =
    (if uninstalled d st (w_files w) k then None
     else if k = (d_dataDir d, ''store.json.bak'') \<and> mget (w_files w) (d_dataDir d, ''store.json'') \<noteq> None
     then mget (w_files w) (d_dataDir d, ''store.json'') else mget (w_files w) k)"
proof -
  define w1 where "w1 = fold (stop_and_disable sv) [''q8s.socket'', ''q8s-api.service''] w"
  have w1: "w_files w1 = w_files w" unfolding w1_def by (rule fold_stop_files [OF assms(1)])
  have "cmdUninstall sv load d w = uninstall_rest sv d (uninstall_resources sv d st w1)"
    unfolding cmdUninstall_def Let_def w1_def [symmetric] w1 assms(3) by simp
  moreover have "\<not> uninstalled d st (w_files w) (d_dataDir d, ''store.json.bak'')"
    by (rule data_not_uninstalled [OF assms(2)]) simp
  ultimately show ?thesis
    by (auto simp: files_rest [OF assms(1)] files_resources [OF assms(1,2)] w1 uninstalled_iff)
qed


text \<open>A rootful machine with one pod in the store and files of that pod and of somebody else.\<close>

definition demo_dirs :: dirs where
  "demo_dirs = resolveDirs True \<lparr>ue_home = [], ue_xdg_config = [], ue_xdg_runtime = [], ue_uid = 0\<rparr>"

definition demo_stored :: store where
  "demo_stored = put_pods (''n'', ''a'') (demo_pod\<lparr>o_meta := (o_meta demo_pod)\<lparr>om_namespace := ''n'', om_name := ''a''\<rparr>\<rparr>) NewStore"

definition installed_world :: world where
  "installed_world = demo_world\<lparr>w_files :=
     [((''/etc/q8s'', ''store.json''), ''STORE''),
      ((''/etc/containers/systemd'', ''n-a.container''), ''C''),
      ((''/etc/containers/systemd'', ''n-a.pod''), ''P''),
      ((''/etc/containers/systemd'', ''mine.container''), ''M''),
      ((''/etc/systemd/system'', ''n-a-web.socket''), ''[Unit]'' @ nl @ ''X-Q8s-Namespace=n'' @ nl),
      ((''/etc/systemd/system'', ''other.socket''), ''[Unit]'' @ nl)]\<rparr>"

lemma demo_separate: "separate demo_dirs"
  by code_simp


text \<open>
  No target is a .pod file: the units of pods with several containers stay behind and run again after a
  reload.
\<close>

lemma targets_last: "k \<in> set (uninstall_targets d st) \<Longrightarrow> last (snd k) \<noteq> CHR ''d''"
  by (auto simp: uninstall_targets_def deployment_targets_def cronjob_targets_def joined_def Let_def)

lemma pod_units_stay:
  assumes "HasSuffix n ''.pod''"
  shows "(dir, n) \<notin> set (uninstall_targets d st)"
proof
  assume "(dir, n) \<in> set (uninstall_targets d st)"
  then have "last n \<noteq> CHR ''d''" using targets_last [of "(dir, n)"] by (simp only: snd_conv not_False_eq_True simp_thms)
  moreover have "hd (rev n) = CHR ''d''" using assms by (cases "rev n") (simp_all add: HasSuffix_def HasPrefix_def)
  ultimately show False by (simp add: hd_rev)
qed

text \<open>Claims are looked up by their own name, which is not the name of their volume.\<close>

lemma volumes_not_listed:
  "AllPVCs st = [p] \<Longrightarrow> o_namespace p = ''n'' \<Longrightarrow> o_name p = ''data'' \<Longrightarrow>
    PVCVolumeName (o_namespace p) (o_name p) = ''n-data'' \<and> volumes_left (\<lambda>v. v = ''n-data'') st = []"
  by (simp add: PVCVolumeName_def volumes_left_def)

section \<open>The data\<close>

definition keeps_store :: "dirs \<Rightarrow> io \<Rightarrow> bool" where
  "keeps_store d op \<longleftrightarrow> \<not> touches op (d_dataDir d, ''store.json'')"

lemma keeps_rm: "separate d \<Longrightarrow> fst k \<in> {d_quadletDir d, d_systemdDir d} \<Longrightarrow> only_io (keeps_store d) w (rm sv k w)"
  unfolding rm_def by (rule only_io_act) (auto simp: keeps_store_def separate_def)

lemma keeps_stop: "only_io (keeps_store d) w (stop_and_disable sv u w)"
  unfolding stop_and_disable_def by (intro only_io_trans [OF only_io_act only_io_act]) (simp_all add: keeps_store_def)

lemma keeps_socket: "separate d \<Longrightarrow> only_io (keeps_store d) w (uninstall_socket sv d n w)"
  by (auto simp: uninstall_socket_def split: option.split intro!: only_io_trans [OF keeps_stop keeps_rm])

lemma keeps_backup: "only_io (keeps_store d) w (backup_store sv d w)"
  by (auto simp: backup_store_def keeps_store_def split: option.split intro!: only_io_act)

lemma keeps_resources: "separate d \<Longrightarrow> only_io (keeps_store d) w (uninstall_resources sv d st w)"
  unfolding uninstall_resources_def uninstall_sockets_def
  by (intro only_io_trans [OF only_io_fold only_io_trans [OF only_io_fold keeps_backup]] keeps_rm keeps_socket targets_dir)

lemma keeps_rest: "separate d \<Longrightarrow> only_io (keeps_store d) w (uninstall_rest sv d w)"
  unfolding uninstall_rest_def
  by (rule only_io_fold, rule only_io_act) (auto simp: keeps_store_def separate_def HasPrefix_def)

lemma uninstall_keeps_store:
  assumes "separate d"
  shows "only_io (keeps_store d) w (cmdUninstall sv load d w)"
proof -
  define w1 where "w1 = fold (stop_and_disable sv) [''q8s.socket'', ''q8s-api.service''] w"
  have "only_io (keeps_store d) w w1" unfolding w1_def by (rule only_io_fold, rule keeps_stop)
  moreover have "only_io (keeps_store d) w1 (case load (mget (w_files w1) (d_dataDir d, ''store.json'')) of
      None \<Rightarrow> w1 | Some st \<Rightarrow> uninstall_resources sv d st w1)"
    by (auto simp: keeps_resources [OF assms] split: option.split)
  ultimately show ?thesis
    unfolding cmdUninstall_def Let_def w1_def [symmetric] by (blast intro: only_io_trans keeps_rest [OF assms])
qed

text \<open>
  However many of the calls fail, uninstalling leaves the store's data file as it is; and when
  nothing failed and the file is lost afterwards, the next start of the server restores it from the
  backup.
\<close>

lemma uninstall_keeps_data:
  assumes "separate d"
  shows "mget (w_files (cmdUninstall sv load d w)) (d_dataDir d, ''store.json'') =
      mget (w_files w) (d_dataDir d, ''store.json'') \<and>
    (no_failures sv \<and> load (mget (w_files w) (d_dataDir d, ''store.json'')) \<noteq> None \<and>
       mget (w_files w) (d_dataDir d, ''store.json'') = Some data \<longrightarrow>
     mget (w_files (restore_backup sv d (act sv (RemoveFile (d_dataDir d) ''store.json'') (cmdUninstall sv load d w))))
       (d_dataDir d, ''store.json'') = Some data)"
proof (intro conjI impI)
  show "mget (w_files (cmdUninstall sv load d w)) (d_dataDir d, ''store.json'') = mget (w_files w) (d_dataDir d, ''store.json'')"
    using uninstall_keeps_store [OF assms, of w sv load] unfolding only_io_def keeps_store_def by blast
next
  assume h: "no_failures sv \<and> load (mget (w_files w) (d_dataDir d, ''store.json'')) \<noteq> None \<and>
    mget (w_files w) (d_dataDir d, ''store.json'') = Some data"
  then obtain st where nf: "no_failures sv" and st: "load (mget (w_files w) (d_dataDir d, ''store.json'')) = Some st"
    and data: "mget (w_files w) (d_dataDir d, ''store.json'') = Some data" by blast
  have "mget (w_files (cmdUninstall sv load d w)) (d_dataDir d, ''store.json.bak'') = Some data"
    using files_uninstall [where load = load and w = w and k = "(d_dataDir d, ''store.json.bak'')", OF nf assms st] data
      data_not_uninstalled [OF assms, of "''store.json.bak''" st "w_files w"] by simp
  then show "mget (w_files (restore_backup sv d (act sv (RemoveFile (d_dataDir d) ''store.json'') (cmdUninstall sv load d w))))
       (d_dataDir d, ''store.json'') = Some data"
    by (simp add: restore_backup_def files_act [OF nf] mget_mdel mget_mput)
qed

lemma uninstall_keeps_data_witness:
  "mget (w_files (restore_backup demo_server demo_dirs (act demo_server (RemoveFile ''/etc/q8s'' ''store.json'')
      (cmdUninstall demo_server (\<lambda>_. Some demo_stored) demo_dirs installed_world)))) (''/etc/q8s'', ''store.json'') = Some ''STORE''"
proof -
  have "d_dataDir demo_dirs = ''/etc/q8s''" by code_simp
  moreover have "mget (w_files installed_world) (''/etc/q8s'', ''store.json'') = Some ''STORE''" by (simp add: installed_world_def)
  ultimately show ?thesis
    using uninstall_keeps_data [OF demo_separate, of demo_server "\<lambda>_. Some demo_stored" installed_world "''STORE''"] by simp
qed

section \<open>The port\<close>

lemma q8s_socket_lines:
  "Split (q8s_socket p) newline =
     [''[Unit]'', ''Description=q8s API Server Socket'', [], ''[Socket]'', ''ListenStream='' @ Itoa p, ''ListenStream=%t/q8s/api.sock'',
      ''Service=q8s-api.service'', ''RemoveOnStop=yes'', [], ''[Install]'', ''WantedBy=sockets.target'', []]" (is "_ = ?lines")
proof -
  have "q8s_socket p = Join ?lines nl" by (simp add: q8s_socket_def)
  moreover have "newline \<notin> set (Itoa p)" by (auto dest: Itoa_chars simp: is_digit_def)
  then have "Split (Join ?lines nl) newline = ?lines" by (intro Split_Join) auto
  ultimately show ?thesis by simp
qed

lemma listen_line: "TrimSpace (''ListenStream='' @ Itoa p) = ''ListenStream='' @ Itoa p"
  by (rule TrimSpace_plain) (auto simp: IsSpace_def is_digit_def dest!: Itoa_chars)

text \<open>
  The port of an installation is the one later commands find: with neither Q8S_PORT nor a
  configuration, \<open>resolvePort\<close> reads from the installed socket unit exactly the port it was written
  with.
\<close>

lemma installed_port_found:
  assumes "0 < p" "p < 2 ^ 63"
  shows "resolvePort [] ConfigMissing (Some (q8s_socket p)) = p"
proof -
  have "TrimSpace ''[Unit]'' = ''[Unit]''" "TrimSpace [] = []" "TrimSpace ''[Socket]'' = ''[Socket]''"
    "TrimSpace ''Description=q8s API Server Socket'' = ''Description=q8s API Server Socket''"
    by (simp_all add: TrimSpace_def IsSpace_def)
  then have "unit_port (q8s_socket p) = Some p"
    using assms Atoi_Itoa [of p]
    by (simp add: unit_port_def q8s_socket_lines List.map_filter_simps listen_line [simplified] HasPrefix_def TrimPrefix_def)
  then show ?thesis using assms by (simp add: resolvePort_def LoadConfig_def zero_config_def List.map_filter_simps)
qed

lemma installed_port_found_witness: "resolvePort [] ConfigMissing (Some (q8s_socket 7443)) = 7443"
  by (rule installed_port_found) simp_all

end
