(* ===== verification/NodeDocs.thy ===== *)
theory NodeDocs
  imports Tables Json Routing "HOL-Library.Word"
begin

text \<open>
  The documents that describe the machine: nodes, leases, versions and storage classes of
  internal/server/discovery.go, the metrics of metrics.go, and what podman.go makes of podman's answers to
  network calls.  What the operating system says is a record; times are printed by its two formats.
\<close>

section \<open>The machine\<close>

record sysinfo =
  si_Totalram :: "64 word"
  si_Freeram :: "64 word"
  si_Unit :: "32 word"
  si_Uptime :: int

record statfs =
  sf_Blocks :: "64 word"
  sf_Bavail :: "64 word"
  sf_Bsize :: "64 word"

record iface =
  if_loopback :: bool
  if_up :: bool
  if_addrs :: "ip list option"

record machine =
  mc_hostname :: string
  mc_release :: string
  mc_arch :: string
  mc_GOOS :: string
  mc_GOARCH :: string
  mc_NumCPU :: int
  mc_goVersion :: string
  mc_compiler :: string
  mc_buildInfo :: "(string \<times> string) list option"
  mc_sysinfo :: "sysinfo option"
  mc_statfs :: "statfs option"
  mc_ifaces :: "iface list option"
  mc_machineID :: "string option"
  mc_bootID :: "string option"
  mc_osRelease :: "string option"
  mc_podmanVersion :: "string option"
  mc_procStat :: "string option"
  mc_meminfo :: "string option"
  mc_now :: time
  mc_RFC3339 :: "time \<Rightarrow> string"
  mc_micro :: "time \<Rightarrow> string"

definition ki :: "64 word \<Rightarrow> 64 word \<Rightarrow> string" where
  "ki n u = Itoa (uint (n * u div 1024)) @ ''Ki''"

definition getMemoryCapacity :: "machine \<Rightarrow> string" where
  "getMemoryCapacity m =
     (case mc_sysinfo m of None \<Rightarrow> ''0Ki'' | Some s \<Rightarrow> ki (si_Totalram s) (ucast (si_Unit s)))"

definition getEphemeralStorage :: "machine \<Rightarrow> string" where
  "getEphemeralStorage m = (case mc_statfs m of None \<Rightarrow> ''0Ki'' | Some s \<Rightarrow> ki (sf_Blocks s) (sf_Bsize s))"

definition getEphemeralStorageAvailable :: "machine \<Rightarrow> string" where
  "getEphemeralStorageAvailable m = (case mc_statfs m of None \<Rightarrow> ''0Ki'' | Some s \<Rightarrow> ki (sf_Bavail s) (sf_Bsize s))"

definition wrap64 :: "int \<Rightarrow> int" where
  "wrap64 v = (v + 2 ^ 63) mod 2 ^ 64 - 2 ^ 63"

definition getBootTime :: "machine \<Rightarrow> time" where
  "getBootTime m =
     (case mc_sysinfo m of
        None \<Rightarrow> mc_now m
      | Some s \<Rightarrow> mc_now m + wrap64 (wrap64 (- si_Uptime s) * second))"

definition IsLoopback :: "ip \<Rightarrow> bool" where
  "IsLoopback i = (case To4 i of Some v4 \<Rightarrow> hd v4 = 127 | None \<Rightarrow> i = replicate 15 0 @ [1])"

definition iface_ip :: "iface \<Rightarrow> string option" where
  "iface_ip f =
     (if if_loopback f \<or> \<not> if_up f then None
      else case if_addrs f of
          None \<Rightarrow> None
        | Some addrs \<Rightarrow> map_option IPString (find (\<lambda>i. \<not> IsLoopback i \<and> To4 i \<noteq> None) addrs))"

definition getInternalIP :: "machine \<Rightarrow> string" where
  "getInternalIP m =
     (case mc_ifaces m of
        None \<Rightarrow> ''127.0.0.1''
      | Some fs \<Rightarrow> (case List.map_filter iface_ip fs of [] \<Rightarrow> ''127.0.0.1'' | a # _ \<Rightarrow> a))"

definition read_id :: "string option \<Rightarrow> string" where
  "read_id f = (case f of None \<Rightarrow> [] | Some data \<Rightarrow> TrimSpace data)"

definition getMachineID :: "machine \<Rightarrow> string" where
  "getMachineID m = read_id (mc_machineID m)"

definition getBootID :: "machine \<Rightarrow> string" where
  "getBootID m = read_id (mc_bootID m)"

text \<open>\<open>strings.Cut(s, sep)\<close> and what is after the separator.\<close>

definition after :: "string \<Rightarrow> string \<Rightarrow> string option" where
  "after s sep = map_option (\<lambda>i. drop (i + length sep) s) (Index s sep)"

definition getPodmanVersion :: "machine \<Rightarrow> string" where
  "getPodmanVersion m =
     (case mc_podmanVersion m of
        None \<Rightarrow> ''unknown''
      | Some out \<Rightarrow> (let s = TrimSpace out in case after s ''version '' of Some v \<Rightarrow> v | None \<Rightarrow> s))"

definition trim_quotes :: "string \<Rightarrow> string" where
  "trim_quotes s = (let q = (\<lambda>c. c = CHR 0x22) in rev (dropWhile q (rev (dropWhile q s))))"

definition pretty_name :: "string \<Rightarrow> string option" where
  "pretty_name line =
     (case Cut line (CHR ''='') of (key, val, ok) \<Rightarrow> if ok \<and> key = ''PRETTY_NAME'' then Some (trim_quotes val) else None)"

definition getOSImage :: "machine \<Rightarrow> string" where
  "getOSImage m =
     (case mc_osRelease m of
        None \<Rightarrow> ''Linux''
      | Some data \<Rightarrow> (case List.map_filter pretty_name (Split data newline) of [] \<Rightarrow> ''Linux'' | v # _ \<Rightarrow> v))"

section \<open>Versions and groups\<close>

record version_info =
  vi_Major :: string
  vi_Minor :: string
  vi_GitVersion :: string
  vi_GitCommit :: string
  vi_GitTreeState :: string
  vi_BuildDate :: string
  vi_GoVersion :: string
  vi_Compiler :: string
  vi_Platform :: string

definition module_version :: "machine \<Rightarrow> string \<times> string" where
  "module_version m =
     (case Option.bind (mc_buildInfo m) (find (\<lambda>(path, _). path = ''k8s.io/apimachinery'')) of
        None \<Rightarrow> (''36'', ''v1.36.0+q8s'')
      | Some (_, version) \<Rightarrow>
          (let v = TrimPrefix version ''v0.'' in
           case SplitN 2 v (CHR ''.'') of
             [minor, _] \<Rightarrow> (minor, ''v1.'' @ v @ ''+q8s'')
           | _ \<Rightarrow> (''36'', ''v1.36.0+q8s'')))"

definition getVersionInfo :: "machine \<Rightarrow> version_info" where
  "getVersionInfo m =
     \<lparr>vi_Major = ''1'', vi_Minor = fst (module_version m), vi_GitVersion = snd (module_version m), vi_GitCommit = ''q8s'',
      vi_GitTreeState = ''clean'', vi_BuildDate = mc_RFC3339 m (mc_now m), vi_GoVersion = mc_goVersion m,
      vi_Compiler = mc_compiler m, vi_Platform = mc_GOOS m @ ''/'' @ mc_GOARCH m\<rparr>"

definition handleAPIRoot :: "int \<Rightarrow> json" where
  "handleAPIRoot config_port =
     (let port = (if config_port = 0 then 6443 else config_port) in
      JObj [(''kind'', JStr ''APIVersions''), (''apiVersion'', JStr ''v1''), (''versions'', JArr [JStr ''v1'']),
        (''serverAddressByClientCIDRs'', JArr [JObj
           [(''serverAddress'', JStr (''127.0.0.1:'' @ Itoa port)), (''clientCIDR'', JStr ''0.0.0.0/0'')]])])"

text \<open>The document of one group: its name and its one version, which is the preferred one.\<close>

definition api_group :: "string \<Rightarrow> string \<Rightarrow> string \<Rightarrow> json" where
  "api_group name gv v =
     (let version = JObj [(''groupVersion'', JStr gv), (''version'', JStr v)] in
      JObj [(''kind'', JStr ''APIGroup''), (''apiVersion'', JStr ''v1''), (''name'', JStr name),
        (''versions'', JArr [version]), (''preferredVersion'', version)])"

definition handleAppsRoot :: json where "handleAppsRoot = api_group ''apps'' ''apps/v1'' ''v1''"
definition handleBatchRoot :: json where "handleBatchRoot = api_group ''batch'' ''batch/v1'' ''v1''"
definition handleNetworkingRoot :: json where
  "handleNetworkingRoot = api_group ''networking.k8s.io'' ''networking.k8s.io/v1'' ''v1''"
definition handleTraefikRoot :: json where "handleTraefikRoot = api_group ''traefik.io'' ''traefik.io/v1alpha1'' ''v1alpha1''"
definition handleAPIExtensionsRoot :: json where
  "handleAPIExtensionsRoot = api_group ''apiextensions.k8s.io'' ''apiextensions.k8s.io/v1'' ''v1''"
definition handleStorageRoot :: json where "handleStorageRoot = api_group ''storage.k8s.io'' ''storage.k8s.io/v1'' ''v1''"
definition handleMetricsRoot :: json where
  "handleMetricsRoot = api_group ''metrics.k8s.io'' ''metrics.k8s.io/v1beta1'' ''v1beta1''"
definition handleCoordinationRoot :: json where
  "handleCoordinationRoot = api_group ''coordination.k8s.io'' ''coordination.k8s.io/v1'' ''v1''"

section \<open>Nodes\<close>

definition container_runtime :: "machine \<Rightarrow> string" where
  "container_runtime m = ''podman://'' @ getPodmanVersion m"

definition node_labels :: "machine \<Rightarrow> string \<Rightarrow> strmap" where
  "node_labels m arch =
     [(''kubernetes.io/hostname'', mc_hostname m), (''kubernetes.io/os'', mc_GOOS m), (''kubernetes.io/arch'', arch),
      (''node.kubernetes.io/instance-type'', ''q8s'')]"

definition json_map :: "strmap \<Rightarrow> json" where
  "json_map m = JObj (map (\<lambda>(k, v). (k, JStr v)) m)"

definition nodes_table :: "machine \<Rightarrow> table" where
  "nodes_table m =
     add_rows (\<lambda>m.
       ([Text (mc_hostname m), Text ''Ready'', Text ''<none>'', Text (age (mc_now m) (Some (getBootTime m))),
         Text (vi_GitVersion (getVersionInfo m)), Text (getInternalIP m), Text ''<none>'', Text (getOSImage m),
         Text (mc_release m), Text (container_runtime m)],
        object_of ''Node'' ''v1''
          (empty_meta\<lparr>om_name := mc_hostname m, om_creationTimestamp := Some (getBootTime m),
             om_labels := Some (node_labels m (mc_GOARCH m))\<rparr>)))
       [m] (newTable ''1'' nodeColumns)"

definition condition :: "machine \<Rightarrow> string \<Rightarrow> string \<Rightarrow> string \<Rightarrow> string \<Rightarrow> json" where
  "condition m type status reason message =
     JObj [(''type'', JStr type), (''status'', JStr status), (''lastHeartbeatTime'', JStr (mc_RFC3339 m (mc_now m))),
       (''lastTransitionTime'', JStr (mc_RFC3339 m (getBootTime m))), (''reason'', JStr reason), (''message'', JStr message)]"

definition node_status :: "machine \<Rightarrow> json" where
  "node_status m =
     JObj
       [(''conditions'', JArr
          [condition m ''Ready'' ''True'' ''KubeletReady'' ''q8s node is always ready'',
           condition m ''MemoryPressure'' ''False'' ''KubeletHasSufficientMemory'' ''q8s has sufficient memory available'',
           condition m ''DiskPressure'' ''False'' ''KubeletHasNoDiskPressure'' ''q8s has no disk pressure'',
           condition m ''PIDPressure'' ''False'' ''KubeletHasSufficientPID'' ''q8s has sufficient PID available'']),
        (''addresses'', JArr
          [json_map [(''type'', ''Hostname''), (''address'', mc_hostname m)],
           json_map [(''type'', ''InternalIP''), (''address'', getInternalIP m)]]),
        (''nodeInfo'', json_map
          [(''machineID'', getMachineID m), (''systemUUID'', getMachineID m), (''bootID'', getBootID m),
           (''kernelVersion'', mc_release m), (''osImage'', getOSImage m), (''containerRuntimeVersion'', container_runtime m),
           (''kubeletVersion'', vi_GitVersion (getVersionInfo m)), (''kubeProxyVersion'', vi_GitVersion (getVersionInfo m)),
           (''operatingSystem'', mc_GOOS m), (''architecture'', mc_arch m)]),
        (''capacity'', json_map
          [(''cpu'', Itoa (mc_NumCPU m)), (''memory'', getMemoryCapacity m), (''ephemeral-storage'', getEphemeralStorage m),
           (''pods'', ''110'')]),
        (''allocatable'', json_map
          [(''cpu'', Itoa (mc_NumCPU m)), (''memory'', getMemoryCapacity m),
           (''ephemeral-storage'', getEphemeralStorageAvailable m), (''pods'', ''110'')])]"

definition node_document :: "machine \<Rightarrow> json" where
  "node_document m =
     JObj
       [(''apiVersion'', JStr ''v1''), (''kind'', JStr ''Node''),
        (''metadata'', JObj
          [(''name'', JStr (mc_hostname m)), (''uid'', JStr (''q8s-node-'' @ mc_hostname m)),
           (''creationTimestamp'', JStr (mc_RFC3339 m (getBootTime m))), (''labels'', json_map (node_labels m (mc_GOARCH m)))]),
        (''spec'', JObj []), (''status'', node_status m)]"

definition handleNodes :: "machine \<Rightarrow> json" where
  "handleNodes m =
     JObj [(''apiVersion'', JStr ''v1''), (''kind'', JStr ''NodeList''),
       (''metadata'', JObj [(''resourceVersion'', JStr ''1'')]), (''items'', JArr [node_document m])]"

text \<open>handleNodeGet builds the document of the one node anew.\<close>

definition node_get_document :: "machine \<Rightarrow> json" where
  "node_get_document m =
     JObj
       [(''apiVersion'', JStr ''v1''), (''kind'', JStr ''Node''),
        (''metadata'', JObj
          [(''name'', JStr (mc_hostname m)), (''uid'', JStr (''q8s-node-'' @ mc_hostname m)),
           (''creationTimestamp'', JStr (mc_RFC3339 m (getBootTime m))), (''labels'', json_map (node_labels m (mc_GOARCH m)))]),
        (''spec'', JObj []), (''status'', node_status m)]"

definition lease_document :: "machine \<Rightarrow> json" where
  "lease_document m =
     JObj
       [(''apiVersion'', JStr ''coordination.k8s.io/v1''), (''kind'', JStr ''Lease''),
        (''metadata'', JObj
          [(''name'', JStr (mc_hostname m)), (''namespace'', JStr ''kube-node-lease''),
           (''creationTimestamp'', JStr (mc_RFC3339 m (mc_now m)))]),
        (''spec'', JObj
          [(''holderIdentity'', JStr (mc_hostname m)), (''leaseDurationSeconds'', JNum (Itoa 40)),
           (''renewTime'', JStr (mc_micro m (mc_now m)))])]"

definition storage_class :: "string \<Rightarrow> strmap \<Rightarrow> string \<Rightarrow> json" where
  "storage_class name annotations provisioner =
     JObj
       [(''apiVersion'', JStr ''storage.k8s.io/v1''), (''kind'', JStr ''StorageClass''),
        (''metadata'', JObj ((''name'', JStr name) # (if annotations = [] then [] else [(''annotations'', json_map annotations)]))),
        (''provisioner'', JStr provisioner), (''reclaimPolicy'', JStr ''Retain''), (''volumeBindingMode'', JStr ''Immediate'')]"

definition storage_class_documents :: "json list" where
  "storage_class_documents =
     [storage_class StorageClassStandard [(''storageclass.kubernetes.io/is-default-class'', ''true'')] ''q8s.io/podman-volume'',
      storage_class StorageClassShared [] ''q8s.io/podman-volume'', storage_class StorageClassHostPath [] ''q8s.io/host-path'']"

section \<open>Metrics\<close>

text \<open>\<open>strconv.ParseUint\<close> with the error dropped: zero for a bad text, the maximum for a large number.\<close>

definition uint_value :: "string \<Rightarrow> 64 word" where
  "uint_value s =
     (if s = [] then 0
      else case digits_val 0 s of None \<Rightarrow> 0 | Some n \<Rightarrow> if n < 2 ^ 64 then of_nat n else - 1)"

text \<open>The lines of a \<open>bufio.Scanner\<close>: no line after the last line break, and no carriage return.\<close>

definition scan_lines :: "string \<Rightarrow> string list" where
  "scan_lines text =
     (let ls = Split text newline in
      map (\<lambda>l. TrimSuffix l [CHR 0x0D]) (if last ls = [] then butlast ls else ls))"

definition cpu_fields :: "string list \<Rightarrow> 64 word \<times> 64 word" where
  "cpu_fields ws =
     (if length ws < 5 then (0, 0)
      else
        (let vals = map uint_value (tl ws) in
         (vals ! 3 + (if length vals > 4 then vals ! 4 else 0), sum_list vals)))"

definition readCPUStat :: "machine \<Rightarrow> 64 word \<times> 64 word" where
  "readCPUStat m =
     (case mc_procStat m of
        None \<Rightarrow> (0, 0)
      | Some text \<Rightarrow>
          (case find (\<lambda>l. HasPrefix l ''cpu '') (scan_lines text) of
             None \<Rightarrow> (0, 0)
           | Some line \<Rightarrow> cpu_fields (Fields line)))"

definition int_value :: "string \<Rightarrow> int" where
  "int_value s =
     (let (neg, ds) = (case s of
            [] \<Rightarrow> (False, [])
          | c # cs \<Rightarrow> if c = CHR ''-'' then (True, cs) else if c = CHR ''+'' then (False, cs) else (False, s))
      in if ds = [] then 0
         else case digits_val 0 ds of
             None \<Rightarrow> 0
           | Some n \<Rightarrow> if neg then max (- (2 ^ 63)) (- int n) else min (2 ^ 63 - 1) (int n))"

definition ki_used :: "64 word \<Rightarrow> 32 word \<Rightarrow> int" where
  "ki_used n u = sint (n * ucast u div 1024)"

definition getMemoryUsageKi :: "machine \<Rightarrow> int" where
  "getMemoryUsageKi m =
     (case mc_sysinfo m of
        None \<Rightarrow> 0
      | Some s \<Rightarrow>
          (let totalKi = ki_used (si_Totalram s) (si_Unit s); freeKi = ki_used (si_Freeram s) (si_Unit s);
               available = (case mc_meminfo m of
                   None \<Rightarrow> []
                 | Some text \<Rightarrow>
                     filter (\<lambda>fs. length fs \<ge> 2)
                       (map Fields (filter (\<lambda>l. HasPrefix l ''MemAvailable:'') (scan_lines text))))
           in case available of
               [] \<Rightarrow> wrap64 (totalKi - freeKi)
             | fs # _ \<Rightarrow> wrap64 (totalKi - int_value (fs ! 1))))"

definition metrics_meta :: "machine \<Rightarrow> (string \<times> json) list \<Rightarrow> string \<Rightarrow> (string \<times> json) list" where
  "metrics_meta m names kind =
     [(''kind'', JStr kind), (''apiVersion'', JStr ''metrics.k8s.io/v1beta1''),
      (''metadata'', JObj (names @ [(''creationTimestamp'', JStr (mc_RFC3339 m (mc_now m)))])),
      (''timestamp'', JStr (mc_RFC3339 m (mc_now m))), (''window'', JStr ''30s'')]"

definition metrics_list :: "string \<Rightarrow> json list \<Rightarrow> json" where
  "metrics_list kind items =
     JObj [(''kind'', JStr kind), (''apiVersion'', JStr ''metrics.k8s.io/v1beta1''), (''metadata'', JObj []), (''items'', JArr items)]"

definition usage :: "string \<Rightarrow> string \<Rightarrow> json" where
  "usage cpu mem = json_map [(''cpu'', cpu), (''memory'', mem)]"

text \<open>\<open>cpu\<close> is the usage \<open>getCPUUsageNanocores\<close> computes, in floating point, from two samples.\<close>

definition handleNodeMetrics :: "machine \<Rightarrow> int \<Rightarrow> json" where
  "handleNodeMetrics m cpu =
     metrics_list ''NodeMetricsList''
       [JObj (metrics_meta m [(''name'', JStr (mc_hostname m))] ''NodeMetrics'' @
          [(''usage'', usage (Itoa cpu @ ''n'') (Itoa (getMemoryUsageKi m) @ ''Ki''))])]"

text \<open>
  The answer of \<open>podman stats\<close> for a container, if there is one; \<open>nanocores\<close> and \<open>kibi\<close> convert its two texts in
  floating point.
\<close>

definition getPodStats :: "(string \<Rightarrow> string option) \<Rightarrow> (string \<Rightarrow> string) \<Rightarrow> (string \<Rightarrow> string) \<Rightarrow> string \<Rightarrow> string \<times> string" where
  "getPodStats stats nanocores kibi containerName =
     (case stats containerName of
        None \<Rightarrow> (''0'', ''0Ki'')
      | Some out \<Rightarrow>
          (let ws = Fields (TrimSpace out) in
           if length ws < 3 then (''0'', ''0Ki'')
           else (nanocores (TrimSuffix (ws ! 0) ''%''), kibi (ws ! 1))))"

definition stats_name :: "pod \<Rightarrow> string" where
  "stats_name p = o_namespace p @ ''-'' @ o_name p"

definition pod_metrics :: "machine \<Rightarrow> (string \<Rightarrow> string \<times> string) \<Rightarrow> pod \<Rightarrow> json" where
  "pod_metrics m stats p =
     (let (cpu, mem) = stats (stats_name p);
          cs = map (\<lambda>c. JObj [(''name'', JStr (c_name c)), (''usage'', usage cpu mem)]) (ps_containers (pod_spec p))
      in JObj (metrics_meta m [(''name'', JStr (o_name p)), (''namespace'', JStr (o_namespace p))] ''PodMetrics'' @
           [(''containers'', if cs = [] then JNull else JArr cs)]))"

definition podMetricsList :: "machine \<Rightarrow> (string \<Rightarrow> string \<times> string) \<Rightarrow> store \<Rightarrow> string \<Rightarrow> json" where
  "podMetricsList m stats s nsFilter =
     metrics_list ''PodMetricsList''
       (map (pod_metrics m stats) (filter (\<lambda>p. nsFilter = [] \<or> o_namespace p = nsFilter) (AllPods s)))"

section \<open>Podman's networks\<close>

text \<open>No letter outside ASCII has one of the letters of the phrases below as its lower case.\<close>

definition ToLowerAscii :: "string \<Rightarrow> string" where
  "ToLowerAscii s = map (\<lambda>c. if is_upper c then bchr (bcode c + 32) else c) s"

definition isAlreadyConnected :: "string \<Rightarrow> bool" where
  "isAlreadyConnected output = Contains (ToLowerAscii output) ''already connected''"

definition isAlreadyDisconnected :: "string \<Rightarrow> bool" where
  "isAlreadyDisconnected output =
     (let lower = ToLowerAscii output in Contains lower ''not connected'' \<or> Contains lower ''no such'')"

text \<open>The arguments podman gets, and the error that is left: \<open>res\<close> is whether it failed, and its output.\<close>

definition network_connect_args :: "string \<Rightarrow> string \<Rightarrow> string \<Rightarrow> string list" where
  "network_connect_args network c addr =
     [''network'', ''connect''] @ (if addr \<noteq> [] then [''--ip'', addr] else []) @ [network, c]"

definition NetworkConnectFails :: "bool \<times> string \<Rightarrow> bool" where
  "NetworkConnectFails res = (fst res \<and> \<not> isAlreadyConnected (snd res))"

definition NetworkDisconnectFails :: "bool \<times> string \<Rightarrow> bool" where
  "NetworkDisconnectFails res = (fst res \<and> \<not> isAlreadyDisconnected (snd res))"

section \<open>Agreement\<close>

text \<open>Every group that is listed has a document of its own that says the same.\<close>

lemma group_documents_agree:
  "map (\<lambda>(name, gv). api_group name gv (drop (length name + 1) gv)) handleAPIsRoot =
     [handleAPIExtensionsRoot, handleAppsRoot, handleBatchRoot, handleNetworkingRoot, handleTraefikRoot, handleMetricsRoot,
      handleCoordinationRoot, handleStorageRoot]"
  by (simp add: handleAPIsRoot_def handleAPIExtensionsRoot_def handleAppsRoot_def handleBatchRoot_def
      handleNetworkingRoot_def handleTraefikRoot_def handleMetricsRoot_def handleCoordinationRoot_def handleStorageRoot_def)

text \<open>The node that is served by name is the item of the list.\<close>

lemma node_documents_agree: "jmember (case handleNodes m of JObj l \<Rightarrow> l) ''items'' = JArr [node_get_document m]"
  by (simp add: handleNodes_def jmember_def node_document_def node_get_document_def)

text \<open>The storage classes that are served by name are the ones of the documents.\<close>

lemma storage_documents_named:
  "map (\<lambda>d. case d of JObj m \<Rightarrow> (case jmember m ''metadata'' of JObj md \<Rightarrow> jstring (mget md ''name'') | _ \<Rightarrow> []) | _ \<Rightarrow> [])
     storage_class_documents = storage_classes"
  by (simp add: storage_class_documents_def storage_class_def storage_classes_def jmember_def jstring_def)

text \<open>Idle ticks never exceed the total, unless the counters wrap.\<close>

lemma idle_within_total:
  assumes "(\<Sum>v \<leftarrow> map uint_value (tl ws). unat v) < 2 ^ 64"
  shows "fst (cpu_fields ws) \<le> snd (cpu_fields ws)"
proof (cases "length ws < 5")
  case False
  define vals where "vals = map uint_value (tl ws)"
  have total: "unat (sum_list xs) = (\<Sum>v \<leftarrow> xs. unat v)" if "(\<Sum>v \<leftarrow> xs. unat v) < 2 ^ 64" for xs :: "64 word list"
    using that
  proof (induction xs)
    case (Cons x xs)
    then have "unat (sum_list xs) = (\<Sum>v \<leftarrow> xs. unat v)" by simp
    then show ?case using Cons.prems by (simp add: unat_word_ariths)
  qed simp
  have two: "vals ! 3 + (if length vals > 4 then vals ! 4 else 0) = sum_list (take 2 (drop 3 vals))" (is "?idle = _")
  proof -
    have "length vals > 3" using False by (simp add: vals_def)
    then have "drop 3 vals = vals ! 3 # drop 4 vals" using Cons_nth_drop_Suc [of 3 vals] by simp
    then show ?thesis by (cases "drop 4 vals") (auto simp: hd_drop_conv_nth [symmetric] numeral_2_eq_2)
  qed
  have part: "(\<Sum>v \<leftarrow> take 2 (drop 3 vals). unat v) \<le> (\<Sum>v \<leftarrow> vals. unat v)"
    using arg_cong [OF append_take_drop_id [of 3 vals], of "\<lambda>l. \<Sum>v \<leftarrow> l. unat v"]
      arg_cong [OF append_take_drop_id [of 2 "drop 3 vals"], of "\<lambda>l. \<Sum>v \<leftarrow> l. unat v"] by (simp del: append_take_drop_id)
  have "unat ?idle \<le> unat (sum_list vals)"
    unfolding two using total [of vals] total [of "take 2 (drop 3 vals)"] part assms by (simp add: vals_def)
  moreover have "cpu_fields ws = (?idle, sum_list vals)"
    using False by (simp add: cpu_fields_def Let_def vals_def)
  ultimately show ?thesis by (simp only: word_le_nat_alt fst_conv snd_conv)
qed (simp add: cpu_fields_def)

text \<open>
  A pod with several containers has no podman container of the name that is asked for: its metrics are
  always zero.
\<close>

lemma stats_name_not_a_member:
  "GetPod ns name s = Inr p \<Longrightarrow> length (ps_containers (pod_spec p)) > 1 \<Longrightarrow> o_namespace p = ns \<Longrightarrow> o_name p = name \<Longrightarrow>
    podContainerName s ns name c \<noteq> stats_name p"
  by (auto simp: podContainerName_def stats_name_def split: list.split)

end
