(* ===== verification/SyncLoop.thy ===== *)
theory SyncLoop
  imports Reconcile
begin

text \<open>
  When the reconcile pass runs: the event stream of podman (internal/podman/events.go), the loop of
  cmd/q8s/main.go that waits for events and its ticker, and the sockets systemd hands over
  (internal/systemd/activation.go).  The loop is a step relation; the time of a pass is an interval, in
  which further events can come.
\<close>

declare split_paired_All [simp del] split_paired_Ex [simp del]

section \<open>Events\<close>

record podman_event =
  pe_Type :: string
  pe_Attributes :: strmap

definition pe_attribute :: "podman_event \<Rightarrow> string \<Rightarrow> string" where
  "pe_attribute e k = (case mget (pe_Attributes e) k of None \<Rightarrow> [] | Some v \<Rightarrow> v)"

definition pe_PodName :: "podman_event \<Rightarrow> string" where
  "pe_PodName e = pe_attribute e ''io.kubernetes.pod.name''"

definition pe_PodNamespace :: "podman_event \<Rightarrow> string" where
  "pe_PodNamespace e = pe_attribute e ''io.kubernetes.pod.namespace''"

definition pe_PodDeployment :: "podman_event \<Rightarrow> string" where
  "pe_PodDeployment e = pe_attribute e ''io.kubernetes.pod.deployment''"

text \<open>The lines of the stream, decoded; one that is no event is skipped.\<close>

definition scanEvents :: "(string \<Rightarrow> podman_event option) \<Rightarrow> string list \<Rightarrow> podman_event list" where
  "scanEvents decode ls = List.map_filter decode ls"

definition concerns_pods :: "podman_event \<Rightarrow> bool" where
  "concerns_pods e \<longleftrightarrow> pe_Type e = ''container'' \<and> pe_PodNamespace e \<noteq> [] \<and> pe_PodName e \<noteq> []"

text \<open>
  The waiting time, in seconds, before the stream is opened again: \<open>lasted\<close> says that it had been open
  for more than thirty seconds.
\<close>

definition next_backoff :: "bool \<Rightarrow> int \<Rightarrow> int" where
  "next_backoff lasted backoff = (if lasted then 1 else if backoff < 30 then backoff * 2 else backoff)"

text \<open>The waits of a stream that opens and closes as the list says.\<close>

fun backoffs :: "int \<Rightarrow> bool list \<Rightarrow> int list" where
  "backoffs b [] = []"
| "backoffs b (lasted # rest) = next_backoff lasted b # backoffs (next_backoff lasted b) rest"

lemma backoff_bound: "b \<in> {1, 2, 4, 8, 16, 32} \<Longrightarrow> set (backoffs b ls) \<subseteq> {1, 2, 4, 8, 16, 32}"
  by (induction b ls rule: backoffs.induct) (auto simp: next_backoff_def)

text \<open>The cap is not the thirty seconds that are meant.\<close>

lemma backoff_exceeds_cap: "backoffs 1 [False, False, False, False, False, False] = [2, 4, 8, 16, 32, 32]"
  by (simp add: next_backoff_def)

section \<open>The loop\<close>

datatype loop_phase = Waiting | Draining | Reconciling

text \<open>The channel of capacity one holds a token or none; the store is what the passes change.\<close>

record sync_loop =
  sy_trigger :: bool
  sy_phase :: loop_phase
  sy_store :: store

datatype loop_label = PodmanEvent podman_event | TakeTrigger | ResetTimer | TimerFires | TickerFires | EndPass observed

inductive loop_step :: "sync_loop \<Rightarrow> loop_label \<Rightarrow> sync_loop \<Rightarrow> bool" where
  notify: "loop_step s (PodmanEvent e) (if concerns_pods e then s\<lparr>sy_trigger := True\<rparr> else s)"
| take_trigger: "sy_phase s = Waiting \<Longrightarrow> sy_trigger s \<Longrightarrow>
    loop_step s TakeTrigger (s\<lparr>sy_trigger := False, sy_phase := Draining\<rparr>)"
| reset: "sy_phase s = Draining \<Longrightarrow> sy_trigger s \<Longrightarrow> loop_step s ResetTimer (s\<lparr>sy_trigger := False\<rparr>)"
| fire: "sy_phase s = Draining \<Longrightarrow> loop_step s TimerFires (s\<lparr>sy_phase := Reconciling\<rparr>)"
| tick: "sy_phase s = Waiting \<Longrightarrow> loop_step s TickerFires (s\<lparr>sy_phase := Reconciling\<rparr>)"
| finish: "sy_phase s = Reconciling \<Longrightarrow>
    loop_step s (EndPass ob) (s\<lparr>sy_phase := Waiting, sy_store := reconcileOnce ob (sy_store s)\<rparr>)"

inductive_simps loop_step_simps:
  "loop_step s (PodmanEvent e) t" "loop_step s TakeTrigger t" "loop_step s ResetTimer t" "loop_step s TimerFires t"
  "loop_step s TickerFires t" "loop_step s (EndPass ob) t"

definition loop_start :: "store \<Rightarrow> sync_loop" where
  "loop_start st = \<lparr>sy_trigger = False, sy_phase = Waiting, sy_store = st\<rparr>"

inductive loop_run :: "sync_loop \<Rightarrow> loop_label list \<Rightarrow> sync_loop \<Rightarrow> bool" where
  idle: "loop_run s [] s"
| more: "loop_run s tr t \<Longrightarrow> loop_step t l u \<Longrightarrow> loop_run s (tr @ [l]) u"

section \<open>No event is lost\<close>

definition starts_pass :: "loop_label \<Rightarrow> bool" where
  "starts_pass l \<longleftrightarrow> l = TimerFires \<or> l = TickerFires"

fun is_event :: "loop_label \<Rightarrow> bool" where
  "is_event (PodmanEvent e) = True"
| "is_event _ = False"

text \<open>Whether an event that concerns a pod came after the last start of a pass.\<close>

definition unseen_step :: "loop_label \<Rightarrow> bool \<Rightarrow> bool" where
  "unseen_step l b = (case l of PodmanEvent e \<Rightarrow> b \<or> concerns_pods e | _ \<Rightarrow> b \<and> \<not> starts_pass l)"

definition unseen :: "loop_label list \<Rightarrow> bool" where
  "unseen tr = fold unseen_step tr False"

lemma unseen_snoc: "unseen (tr @ [l]) = unseen_step l (unseen tr)"
  by (simp add: unseen_def)

definition will_pass :: "sync_loop \<Rightarrow> bool" where
  "will_pass s \<longleftrightarrow> sy_trigger s \<or> sy_phase s = Draining"

lemma unseen_will_pass: "loop_run s tr t \<Longrightarrow> unseen tr \<Longrightarrow> will_pass t"
proof (induction rule: loop_run.induct)
  case (more s tr t l u)
  then show ?case
    by (cases l) (auto simp: unseen_snoc unseen_step_def will_pass_def loop_step_simps starts_pass_def split: if_splits)
qed (simp add: unseen_def)

text \<open>How many steps of its own the loop makes before it starts a pass.\<close>

definition distance :: "sync_loop \<Rightarrow> nat" where
  "distance s = (case sy_phase s of Waiting \<Rightarrow> 1 | Draining \<Rightarrow> if sy_trigger s then 1 else 0 | Reconciling \<Rightarrow> 2)"

lemma will_pass_step:
  assumes "will_pass s" "loop_step s l t" "\<not> is_event l" "\<not> starts_pass l"
  shows "will_pass t \<and> distance t < distance s"
  using assms by (cases l) (auto simp: will_pass_def distance_def loop_step_simps starts_pass_def)

lemma internal_run_bound:
  "loop_run s tr t \<Longrightarrow> will_pass s \<Longrightarrow> list_all (\<lambda>l. \<not> is_event l \<and> \<not> starts_pass l) tr \<Longrightarrow>
    will_pass t \<and> distance t + length tr \<le> distance s"
proof (induction rule: loop_run.induct)
  case (more s tr t l u)
  then have "will_pass t \<and> distance t + length tr \<le> distance s" "\<not> is_event l" "\<not> starts_pass l" by simp_all
  with will_pass_step [of t l u] more.hyps(2) show ?case by fastforce
qed simp

lemma will_pass_enabled:
  assumes "will_pass s"
  shows "\<exists>l t. loop_step s l t \<and> \<not> is_event l"
proof (cases "sy_phase s")
  case Waiting
  with assms have "loop_step s TakeTrigger (s\<lparr>sy_trigger := False, sy_phase := Draining\<rparr>)"
    by (intro take_trigger) (simp_all add: will_pass_def)
  then show ?thesis using is_event.simps(2) by blast
next
  case Draining
  from fire [OF this] show ?thesis using is_event.simps(4) by blast
next
  case Reconciling
  from finish [OF this] show ?thesis using is_event.simps(6) by blast
qed

text \<open>
  C12: No event is lost once events pause: when an event about a pod came after the last pass had started,
  be it while that pass was running, the loop has a step to make, and any three steps of its own in which no
  further event arrives contain the start of a pass.  (Events that keep arriving can put the pass off for
  ever: burst_starves.)
\<close>

theorem events_lead_to_a_pass:
  assumes "loop_run (loop_start st) tr s" "unseen tr" "loop_run s ls t" "\<not> list_ex is_event ls" "3 \<le> length ls"
  shows "list_ex starts_pass ls \<and> (\<exists>l u. loop_step s l u \<and> \<not> is_event l)"
proof
  have w: "will_pass s" by (rule unseen_will_pass [OF assms(1,2)])
  show "\<exists>l u. loop_step s l u \<and> \<not> is_event l" by (rule will_pass_enabled [OF w])
  show "list_ex starts_pass ls"
  proof (rule ccontr)
    assume "\<not> list_ex starts_pass ls"
    with assms(4) have "list_all (\<lambda>l. \<not> is_event l \<and> \<not> starts_pass l) ls"
      by (auto simp: list_all_iff list_ex_iff)
    from internal_run_bound [OF assms(3) w this] assms(5) show False
      by (simp add: distance_def split: loop_phase.splits if_splits)
  qed
qed

definition pod_event :: podman_event where
  "pod_event = \<lparr>pe_Type = ''container'',
     pe_Attributes = [(''io.kubernetes.pod.name'', ''a''), (''io.kubernetes.pod.namespace'', ''n'')]\<rparr>"

definition phase_at :: "store \<Rightarrow> bool \<Rightarrow> loop_phase \<Rightarrow> sync_loop" where
  "phase_at st b p = \<lparr>sy_trigger = b, sy_phase = p, sy_store = st\<rparr>"

lemma pod_event_concerns: "concerns_pods pod_event"
  by code_simp

lemma loop_steps_at:
  "loop_step (phase_at st b p) (PodmanEvent pod_event) (phase_at st True p)"
  "loop_step (phase_at st True Waiting) TakeTrigger (phase_at st False Draining)"
  "loop_step (phase_at st True Draining) ResetTimer (phase_at st False Draining)"
  "loop_step (phase_at st b Draining) TimerFires (phase_at st b Reconciling)"
  "loop_step (phase_at st b Waiting) TickerFires (phase_at st b Reconciling)"
  "loop_step (phase_at st b Reconciling) (EndPass ob) (phase_at (reconcileOnce ob st) b Waiting)"
  by (simp_all add: loop_step_simps phase_at_def pod_event_concerns)

text \<open>An event while a pass runs, and the next pass it leads to.\<close>

theorem events_lead_to_a_pass_witness:
  "\<forall>ob. \<exists>s t. loop_run (loop_start NewStore) [TickerFires, PodmanEvent pod_event] s \<and>
     loop_run s [EndPass ob, TakeTrigger, TimerFires] t \<and> list_ex starts_pass [EndPass ob, TakeTrigger, TimerFires]"
proof (intro allI exI conjI)
  fix ob
  have "loop_run (phase_at NewStore False Waiting) (([] @ [TickerFires]) @ [PodmanEvent pod_event]) (phase_at NewStore True Reconciling)"
    by (rule loop_run.intros loop_steps_at)+
  then show r: "loop_run (loop_start NewStore) [TickerFires, PodmanEvent pod_event] (phase_at NewStore True Reconciling)"
    by (simp add: loop_start_def phase_at_def)
  have "loop_run (phase_at NewStore True Reconciling) ((([] @ [EndPass ob]) @ [TakeTrigger]) @ [TimerFires])
      (phase_at (reconcileOnce ob NewStore) False Reconciling)"
    by (rule loop_run.intros loop_steps_at)+
  then show m: "loop_run (phase_at NewStore True Reconciling) [EndPass ob, TakeTrigger, TimerFires]
      (phase_at (reconcileOnce ob NewStore) False Reconciling)" by simp
  have "unseen [TickerFires, PodmanEvent pod_event]" by (simp add: unseen_def unseen_step_def pod_event_concerns)
  from events_lead_to_a_pass [OF r this m] show "list_ex starts_pass [EndPass ob, TakeTrigger, TimerFires]" by simp
qed

text \<open>
  The wait for a burst to end has no bound, and the ticker is not looked at while it lasts: events in time keep the
  loop from ever starting a pass.
\<close>

lemma burst_starves:
  "loop_run (loop_start st) ([PodmanEvent pod_event, TakeTrigger] @ concat (replicate n [PodmanEvent pod_event, ResetTimer]))
     (phase_at st False Draining)"
proof (induction n)
  case 0
  have "loop_run (phase_at st False Waiting) (([] @ [PodmanEvent pod_event]) @ [TakeTrigger]) (phase_at st False Draining)"
    by (rule loop_run.intros loop_steps_at)+
  then show ?case by (simp add: loop_start_def phase_at_def)
next
  case (Suc n)
  have "loop_run (loop_start st)
      ((([PodmanEvent pod_event, TakeTrigger] @ concat (replicate n [PodmanEvent pod_event, ResetTimer])) @ [PodmanEvent pod_event]) @ [ResetTimer])
      (phase_at st False Draining)"
    by (rule Suc.IH loop_run.intros loop_steps_at)+
  then show ?case by (simp add: replicate_append_same [symmetric])
qed

section \<open>Sockets handed over\<close>

text \<open>
  The names of the descriptors from three on, as many as LISTEN_FDS says; \<open>opens\<close> is whether a
  descriptor is a listening socket.  \<open>None\<close> is an error.
\<close>

definition fd_count :: "int \<Rightarrow> nat" where
  "fd_count count = (let n = nat (count mod 2 ^ 64) in if n + 3 < 2 ^ 64 then n else 0)"

definition ListenersFromSystemd :: "(nat \<Rightarrow> bool) \<Rightarrow> string \<Rightarrow> nat list option" where
  "ListenersFromSystemd opens fds =
     (if fds = [] then Some []
      else case Atoi fds of
          None \<Rightarrow> None
        | Some count \<Rightarrow>
            (let ids = [3 ..< 3 + fd_count count] in if list_all opens ids then Some ids else None))"

lemma listeners_of_count:
  "0 \<le> n \<Longrightarrow> n < 2 ^ 63 \<Longrightarrow> (\<And>i. opens i) \<Longrightarrow> ListenersFromSystemd opens (Itoa n) = Some [3 ..< 3 + nat n]"
  using Atoi_Itoa [of n] by (simp add: ListenersFromSystemd_def fd_count_def list_all_iff Let_def)

end
