(* ===== verification/OpenapiGen.thy ===== *)
theory OpenapiGen
  imports Json Routing
begin

text \<open>
  The generator of the embedded API schemas, hack/gen-openapi/main.go, from decoded documents on: the
  selection of the definitions of the served kinds, the closure under references, the definitions of the
  custom resources and their list.  Decoding JSON and YAML is a parameter.
\<close>

declare split_paired_All [simp del] split_paired_Ex [simp del]

type_synonym schema_defs = "(string, jobj) gomap"

section \<open>Kinds\<close>

record gvk =
  g_Group :: string
  g_Version :: string
  g_Kind :: string

definition gvk_of :: "string \<Rightarrow> string \<Rightarrow> string \<Rightarrow> gvk" where
  "gvk_of gp v k = \<lparr>g_Group = gp, g_Version = v, g_Kind = k\<rparr>"

definition servedGVKs :: "gvk list" where
  "servedGVKs =
     map (gvk_of [] ''v1'') [''Pod'', ''Service'', ''Namespace'', ''PersistentVolumeClaim'', ''ConfigMap'', ''Secret'', ''Event'', ''Node''] @
     map (gvk_of ''apps'' ''v1'') [''Deployment'', ''DaemonSet'', ''ReplicaSet'', ''StatefulSet''] @
     map (gvk_of ''batch'' ''v1'') [''Job'', ''CronJob''] @
     [gvk_of ''networking.k8s.io'' ''v1'' ''Ingress'', gvk_of ''storage.k8s.io'' ''v1'' ''StorageClass'',
      gvk_of ''autoscaling'' ''v1'' ''Scale'', gvk_of ''coordination.k8s.io'' ''v1'' ''Lease'']"

definition extraDefinitions :: "string list" where
  "extraDefinitions =
     map (\<lambda>n. ''io.k8s.apimachinery.pkg.apis.meta.v1.'' @ n) [''Status'', ''DeleteOptions'', ''Patch'']"

definition wantedCRDs :: "string list" where
  "wantedCRDs = [''middlewares.traefik.io'', ''ingressroutetcps.traefik.io'']"

definition openapiVersion :: string where
  "openapiVersion = ''v1.36.2''"

definition wanted :: "gvk \<Rightarrow> bool" where
  "wanted g \<longleftrightarrow> g \<in> set servedGVKs \<or> g \<in> set (map (\<lambda>x. x\<lparr>g_Kind := g_Kind x @ ''List''\<rparr>) servedGVKs)"

definition gvk_entry :: "json \<Rightarrow> gvk option" where
  "gvk_entry item =
     (case item of
        JObj m \<Rightarrow> Some (gvk_of (jstring (mget m ''group'')) (jstring (mget m ''version'')) (jstring (mget m ''kind'')))
      | _ \<Rightarrow> None)"

definition gvkEntries :: "jobj \<Rightarrow> gvk list" where
  "gvkEntries d =
     (case mget d ''x-kubernetes-group-version-kind'' of
        Some (JArr items) \<Rightarrow> List.map_filter gvk_entry items
      | _ \<Rightarrow> [])"

section \<open>References\<close>

fun walk_refs :: "json \<Rightarrow> string list" where
  "walk_refs (JObj m) =
     concat (map (\<lambda>(k, v). if k = ''$ref'' then (case v of JStr r \<Rightarrow> [r] | _ \<Rightarrow> []) else walk_refs v) m)"
| "walk_refs (JArr xs) = concat (map walk_refs xs)"
| "walk_refs _ = []"

definition definitionRefs :: "jobj \<Rightarrow> string list" where
  "definitionRefs d = sort (walk_refs (JObj d))"

definition ref_prefix :: string where
  "ref_prefix = ''#/definitions/''"

datatype gen_error =
    NoDefinitions
  | MissingRequired string
  | UnsupportedRef string string
  | MissingRef string string
  | BadCRD string
  | CRDCount nat

text \<open>The references of one definition, with the selected definitions and the queue.\<close>

fun follow_refs :: "schema_defs \<Rightarrow> string \<Rightarrow> string list \<Rightarrow> schema_defs \<times> string list \<Rightarrow> gen_error + schema_defs \<times> string list" where
  "follow_refs defs name [] st = Inr st"
| "follow_refs defs name (ref # rest) (sel, queue) =
     (if \<not> HasPrefix ref ref_prefix then Inl (UnsupportedRef name ref)
      else
        (let refName = TrimPrefix ref ref_prefix in
         case mget defs refName of
           None \<Rightarrow> Inl (MissingRef name refName)
         | Some d \<Rightarrow>
             if mget sel refName \<noteq> None then follow_refs defs name rest (sel, queue)
             else follow_refs defs name rest (mput refName d sel, queue @ [refName])))"

definition unselected :: "schema_defs \<Rightarrow> schema_defs \<Rightarrow> string set" where
  "unselected defs sel = dom (mget defs) - dom (mget sel)"

lemma finite_unselected [simp]: "finite (unselected defs sel)"
  by (simp add: unselected_def finite_dom_map_of)

lemma dom_mput [simp]: "dom (mget (mput k v m)) = insert k (dom (mget m))"
  by (auto simp: dom_def mget_mput)

lemma follow_refs_measure:
  "follow_refs defs name refs (sel, queue) = Inr (sel', queue') \<Longrightarrow>
    card (unselected defs sel') + length queue' = card (unselected defs sel) + length queue"
proof (induction refs arbitrary: sel queue)
  case (Cons ref rest)
  let ?r = "TrimPrefix ref ref_prefix"
  from Cons.prems obtain d where p: "HasPrefix ref ref_prefix" and d: "mget defs ?r = Some d"
    by (auto simp: Let_def split: if_splits option.splits)
  show ?case
  proof (cases "mget sel ?r")
    case None
    with Cons.prems p d have f: "follow_refs defs name rest (mput ?r d sel, queue @ [?r]) = Inr (sel', queue')"
      by (simp add: Let_def)
    have "?r \<in> unselected defs sel" using None d by (auto simp: unselected_def)
    moreover have "unselected defs (mput ?r d sel) = unselected defs sel - {?r}" by (auto simp: unselected_def)
    ultimately have "Suc (card (unselected defs (mput ?r d sel))) = card (unselected defs sel)"
      by (metis card_Suc_Diff1 finite_unselected)
    with Cons.IH [OF f] show ?thesis by simp
  next
    case (Some x)
    with Cons.prems p d Cons.IH show ?thesis by (simp add: Let_def)
  qed
qed simp

text \<open>The work list: every definition is looked at once.\<close>

definition refs_of :: "schema_defs \<Rightarrow> string \<Rightarrow> string list" where
  "refs_of sel name = (case mget sel name of None \<Rightarrow> [] | Some d \<Rightarrow> definitionRefs d)"

function close_refs :: "schema_defs \<Rightarrow> schema_defs \<Rightarrow> string list \<Rightarrow> gen_error + schema_defs" where
  "close_refs defs sel [] = Inr sel"
| "close_refs defs sel (name # queue) =
     (case follow_refs defs name (refs_of sel name) (sel, queue) of
        Inl e \<Rightarrow> Inl e
      | Inr (sel', queue') \<Rightarrow> close_refs defs sel' queue')"
  by pat_completeness auto
termination
  by (relation "measure (\<lambda>(defs, sel, queue). card (unselected defs sel) + length queue)")
    (auto dest: follow_refs_measure)

definition select_extra :: "schema_defs \<Rightarrow> gen_error + schema_defs" where
  "select_extra defs =
     fold (\<lambda>name r. rbind r (\<lambda>sel. case mget defs name of None \<Rightarrow> Inl (MissingRequired name) | Some d \<Rightarrow> Inr (mput name d sel)))
       extraDefinitions (Inr [])"

definition select_served :: "schema_defs \<Rightarrow> schema_defs \<Rightarrow> schema_defs" where
  "select_served defs sel =
     fold (\<lambda>(name, d) sel. if list_ex wanted (gvkEntries d) then mput name d sel else sel) defs sel"

definition trimDefinitions :: "schema_defs \<Rightarrow> gen_error + schema_defs" where
  "trimDefinitions defs =
     (if defs = [] then Inl NoDefinitions
      else rbind (select_extra defs) (\<lambda>sel.
        let sel0 = select_served defs sel in close_refs defs sel0 (sort (map fst sel0))))"

definition swagger_document :: "schema_defs \<Rightarrow> json" where
  "swagger_document defs =
     JObj [(''swagger'', JStr ''2.0''), (''info'', JObj [(''title'', JStr ''q8s''), (''version'', JStr openapiVersion)]),
       (''paths'', JObj []), (''definitions'', JObj (map (\<lambda>(k, d). (k, JObj d)) defs))]"

definition trimSwagger :: "schema_defs \<Rightarrow> gen_error + json" where
  "trimSwagger defs = rbind (trimDefinitions defs) (\<lambda>sel. Inr (swagger_document sel))"

section \<open>Custom resources\<close>

fun nestedString :: "json \<Rightarrow> string list \<Rightarrow> string" where
  "nestedString v [] = (case v of JStr s \<Rightarrow> s | _ \<Rightarrow> [])"
| "nestedString v (k # ks) = (case v of JObj m \<Rightarrow> nestedString (jmember m k) ks | _ \<Rightarrow> [])"

definition composition_keys :: "string list" where
  "composition_keys = [''anyOf'', ''oneOf'', ''allOf'', ''not'', ''nullable'']"

fun sanitizeSwaggerSchema :: "json \<Rightarrow> json" where
  "sanitizeSwaggerSchema (JObj m) =
     JObj (map (\<lambda>(k, v). (k, sanitizeSwaggerSchema v)) (filter (\<lambda>(k, v). k \<notin> set composition_keys) m))"
| "sanitizeSwaggerSchema (JArr xs) = JArr (map sanitizeSwaggerSchema xs)"
| "sanitizeSwaggerSchema v = v"

definition members :: "json \<Rightarrow> jobj" where
  "members v = (case v of JObj m \<Rightarrow> m | _ \<Rightarrow> [])"

definition elements :: "json \<Rightarrow> json list" where
  "elements v = (case v of JArr xs \<Rightarrow> xs | _ \<Rightarrow> [])"

definition version_schema :: "json \<Rightarrow> (string \<times> jobj) option" where
  "version_schema raw =
     (case raw of
        JObj version \<Rightarrow>
          if mget version ''served'' = Some (JBool False) then None
          else
            (case mget (members (jmember version ''schema'')) ''openAPIV3Schema'' of
               Some (JObj openAPI) \<Rightarrow>
                 (let name = jstring (mget version ''name'') in if name \<noteq> [] then Some (name, openAPI) else None)
             | _ \<Rightarrow> None)
      | _ \<Rightarrow> None)"

definition crdVersionSchema :: "json \<Rightarrow> (string \<times> jobj) option" where
  "crdVersionSchema obj =
     (case List.map_filter version_schema (elements (jmember (members (jmember (members obj) ''spec'')) ''versions'')) of
        [] \<Rightarrow> None | x # _ \<Rightarrow> Some x)"

definition gvk_extension :: "string \<Rightarrow> string \<Rightarrow> string \<Rightarrow> json" where
  "gvk_extension gp v k = JArr [JObj [(''group'', JStr gp), (''version'', JStr v), (''kind'', JStr k)]]"

definition crd_list_definition :: "string \<Rightarrow> string \<Rightarrow> string \<Rightarrow> string \<Rightarrow> jobj" where
  "crd_list_definition gp v k definition_name =
     [(''type'', JStr ''object''), (''x-kubernetes-group-version-kind'', gvk_extension gp v (k @ ''List'')),
      (''properties'', JObj
         [(''apiVersion'', JObj [(''type'', JStr ''string'')]), (''kind'', JObj [(''type'', JStr ''string'')]),
          (''metadata'', JObj [(''type'', JStr ''object'')]),
          (''items'', JObj [(''type'', JStr ''array''), (''items'', JObj [(''$ref'', JStr (ref_prefix @ definition_name))])])])]"

definition is_wanted_crd :: "json \<Rightarrow> bool" where
  "is_wanted_crd obj \<longleftrightarrow> jmember (members obj) ''kind'' = JStr ''CustomResourceDefinition'' \<and>
     nestedString obj [''metadata'', ''name''] \<in> set wantedCRDs"

definition add_crd :: "json \<Rightarrow> schema_defs \<Rightarrow> gen_error + schema_defs" where
  "add_crd obj defs =
     (if \<not> is_wanted_crd obj then Inr defs
      else
        (let gp = nestedString obj [''spec'', ''group'']; k = nestedString obj [''spec'', ''names'', ''kind''] in
         case crdVersionSchema obj of
           None \<Rightarrow> Inl (BadCRD (nestedString obj [''metadata'', ''name'']))
         | Some (v, schema) \<Rightarrow>
             if gp = [] \<or> k = [] then Inl (BadCRD (nestedString obj [''metadata'', ''name'']))
             else
               (let name = ''io.traefik.'' @ v @ ''.'' @ k;
                    schema1 = mput ''x-kubernetes-group-version-kind'' (gvk_extension gp v k)
                      (members (sanitizeSwaggerSchema (JObj schema)))
                in Inr (mput (name @ ''List'') (crd_list_definition gp v k name) (mput name schema1 defs)))))"

definition addCRDDefinitions :: "json list \<Rightarrow> schema_defs \<Rightarrow> gen_error + schema_defs" where
  "addCRDDefinitions docs defs = fold (\<lambda>obj r. rbind r (add_crd obj)) docs (Inr defs)"

definition crd_name :: "json \<Rightarrow> string" where
  "crd_name obj = nestedString obj [''metadata'', ''name'']"

definition buildCRDList :: "json list \<Rightarrow> gen_error + json" where
  "buildCRDList docs =
     (let items = filter is_wanted_crd docs in
      if length items \<noteq> length wantedCRDs then Inl (CRDCount (length items))
      else Inr (JObj [(''apiVersion'', JStr ''apiextensions.k8s.io/v1''), (''kind'', JStr ''CustomResourceDefinitionList''),
                  (''metadata'', JObj []), (''items'', JArr (sort_key crd_name items))]))"

text \<open>The lines of a YAML stream, each with its line break; an empty rest is the last of them.\<close>

definition is_marker :: "string \<Rightarrow> bool" where
  "is_marker line \<longleftrightarrow>
     (let marker = rev (dropWhile (\<lambda>c. c \<in> {CHR '' '', CHR 0x09, CHR 0x0D, newline}) (rev line))
      in marker = ''---'' \<or> HasPrefix marker ''--- '')"

definition keep_document :: "string \<Rightarrow> string list" where
  "keep_document current = (if TrimSpace current \<noteq> [] then [current] else [])"

fun split_documents :: "string list \<Rightarrow> string \<Rightarrow> string list" where
  "split_documents [] current = keep_document current"
| "split_documents (line # rest) current =
     (if is_marker line then keep_document current @ split_documents rest [] else split_documents rest (current @ line))"

definition SplitAfterLines :: "string \<Rightarrow> string list" where
  "SplitAfterLines raw = (let ls = Split raw newline in map (\<lambda>l. l @ nl) (butlast ls) @ [last ls])"

definition splitYAMLDocuments :: "string \<Rightarrow> string list" where
  "splitYAMLDocuments raw = split_documents (SplitAfterLines raw) []"

definition generate :: "schema_defs \<Rightarrow> json list \<Rightarrow> gen_error + json \<times> json" where
  "generate defs docs =
     rbind (trimDefinitions defs) (\<lambda>sel.
     rbind (addCRDDefinitions docs sel) (\<lambda>full.
     rbind (buildCRDList docs) (\<lambda>crds. Inr (swagger_document full, crds))))"

end
