(* ===== verification/OpenapiProperties.thy ===== *)
theory OpenapiProperties
  imports OpenapiGen
begin

text \<open>
  The generated schema holds exactly the definitions that the served kinds reach, so that no reference
  dangles, and the generator fails only when one would; schemas of custom resources lose every
  keyword Swagger 2.0 rejects.
\<close>

declare split_paired_All [simp del] split_paired_Ex [simp del]

section \<open>What is reachable\<close>

text \<open>A reference that a definition makes, and one that can be followed.\<close>

definition makes_ref :: "schema_defs \<Rightarrow> string \<Rightarrow> string \<Rightarrow> bool" where
  "makes_ref defs n ref \<longleftrightarrow> (case mget defs n of None \<Rightarrow> False | Some d \<Rightarrow> ref \<in> set (walk_refs (JObj d)))"

definition resolves :: "schema_defs \<Rightarrow> string \<Rightarrow> bool" where
  "resolves defs ref \<longleftrightarrow> HasPrefix ref ref_prefix \<and> mget defs (TrimPrefix ref ref_prefix) \<noteq> None"

definition ref_edges :: "schema_defs \<Rightarrow> (string \<times> string) set" where
  "ref_edges defs = {(a, b). \<exists>ref. makes_ref defs a ref \<and> resolves defs ref \<and> b = TrimPrefix ref ref_prefix}"

definition reached :: "schema_defs \<Rightarrow> string set \<Rightarrow> string \<Rightarrow> bool" where
  "reached defs roots n \<longleftrightarrow> (\<exists>r \<in> roots. (r, n) \<in> (ref_edges defs)\<^sup>*)"

definition selects :: "schema_defs \<Rightarrow> schema_defs \<Rightarrow> string set \<Rightarrow> bool" where
  "selects defs sel ns \<longleftrightarrow> (\<forall>n. mget sel n = (if n \<in> ns then mget defs n else None))"

section \<open>One definition\<close>

lemma follow_refs_Inr:
  "follow_refs defs name refs (sel, queue) = Inr (sel', queue') \<Longrightarrow>
    (\<forall>ref \<in> set refs. resolves defs ref \<and> TrimPrefix ref ref_prefix \<in> dom (mget sel')) \<and>
    (\<forall>n \<in> dom (mget sel). mget sel' n = mget sel n) \<and> set queue \<subseteq> set queue' \<and>
    (\<forall>n \<in> dom (mget sel') - dom (mget sel). n \<in> set queue' \<and> mget sel' n = mget defs n \<and>
       (\<exists>ref \<in> set refs. resolves defs ref \<and> n = TrimPrefix ref ref_prefix)) \<and>
    set queue' \<subseteq> set queue \<union> dom (mget sel')"
proof (induction refs arbitrary: sel queue)
  case (Cons ref rest)
  let ?r = "TrimPrefix ref ref_prefix"
  from Cons.prems obtain d where p: "HasPrefix ref ref_prefix" and d: "mget defs ?r = Some d"
    by (auto simp: Let_def split: if_splits option.splits)
  have ok: "resolves defs ref" using p d by (simp add: resolves_def)
  show ?case
  proof (cases "mget sel ?r")
    case None
    with Cons.prems p d have f: "follow_refs defs name rest (mput ?r d sel, queue @ [?r]) = Inr (sel', queue')"
      by (simp add: Let_def)
    note ih = Cons.IH [OF f]
    note kept = ih [THEN conjunct2, THEN conjunct1]
    have keeps: "\<forall>n \<in> dom (mget sel). mget sel' n = mget sel n"
    proof
      fix n assume n: "n \<in> dom (mget sel)"
      then have "mget sel' n = mget (mput ?r d sel) n" using kept by simp
      with n None show "mget sel' n = mget sel n" by (auto simp: mget_mput)
    qed
    have "?r \<in> dom (mget (mput ?r d sel))" by simp
    from kept [THEN bspec, OF this] have got: "mget sel' ?r = Some d" by (simp add: mget_mput)
    have new: "n \<in> set queue' \<and> mget sel' n = mget defs n \<and> (\<exists>ref' \<in> set (ref # rest). resolves defs ref' \<and> n = TrimPrefix ref' ref_prefix)"
      if "n \<in> dom (mget sel') - dom (mget sel)" for n
    proof (cases "n = ?r")
      case True
      then show ?thesis using ih got d ok by auto
    next
      case False
      then have "n \<in> dom (mget sel') - dom (mget (mput ?r d sel))" using that by simp
      then show ?thesis using ih by auto
    qed
    have in': "?r \<in> dom (mget sel')" using got by blast
    show ?thesis
    proof (intro conjI)
      show "\<forall>ref \<in> set (ref # rest). resolves defs ref \<and> TrimPrefix ref ref_prefix \<in> dom (mget sel')"
        using ih [THEN conjunct1] ok in' by simp
      show "set queue \<subseteq> set queue'" "set queue' \<subseteq> set queue \<union> dom (mget sel')"
        using ih [THEN conjunct2, THEN conjunct2] in' by auto
    qed (use keeps new in blast)+
  next
    case (Some x)
    with Cons.prems p d have f: "follow_refs defs name rest (sel, queue) = Inr (sel', queue')"
      by (simp add: Let_def)
    note ih = Cons.IH [OF f]
    have "?r \<in> dom (mget sel)" using Some by blast
    then have "mget sel' ?r = mget sel ?r" using ih by blast
    then have "?r \<in> dom (mget sel')" using Some by (simp add: dom_def)
    with ih ok show ?thesis by auto
  qed
qed simp

lemma follow_refs_Inl:
  "follow_refs defs name refs st = Inl e \<Longrightarrow> \<exists>ref \<in> set refs. \<not> resolves defs ref"
  by (induction defs name refs st rule: follow_refs.induct)
    (auto simp: Let_def resolves_def split: if_splits option.splits)

section \<open>The closure\<close>

definition closing :: "schema_defs \<Rightarrow> string set \<Rightarrow> schema_defs \<Rightarrow> string list \<Rightarrow> bool" where
  "closing defs roots sel queue \<longleftrightarrow>
     roots \<subseteq> dom (mget sel) \<and> set queue \<subseteq> dom (mget sel) \<and>
     (\<forall>n \<in> dom (mget sel). mget sel n = mget defs n \<and> reached defs roots n) \<and>
     (\<forall>n \<in> dom (mget sel) - set queue. \<forall>ref. makes_ref defs n ref \<longrightarrow>
        resolves defs ref \<and> TrimPrefix ref ref_prefix \<in> dom (mget sel))"

lemma refs_of_made:
  "closing defs roots sel queue \<Longrightarrow> n \<in> dom (mget sel) \<Longrightarrow> ref \<in> set (refs_of sel n) \<longleftrightarrow> makes_ref defs n ref"
  by (auto simp: closing_def refs_of_def makes_ref_def definitionRefs_def split: option.splits)

lemma reached_step:
  "reached defs roots n \<Longrightarrow> makes_ref defs n ref \<Longrightarrow> resolves defs ref \<Longrightarrow> reached defs roots (TrimPrefix ref ref_prefix)"
  unfolding reached_def ref_edges_def by (blast intro: rtrancl_into_rtrancl)

lemma closing_step:
  assumes inv: "closing defs roots sel (name # queue)"
    and f: "follow_refs defs name (refs_of sel name) (sel, queue) = Inr (sel', queue')"
  shows "closing defs roots sel' queue'"
proof -
  note F = follow_refs_Inr [OF f]
  have nm: "name \<in> dom (mget sel)" "set queue \<subseteq> dom (mget sel)" "roots \<subseteq> dom (mget sel)"
    and old: "\<And>n. n \<in> dom (mget sel) \<Longrightarrow> mget sel n = mget defs n \<and> reached defs roots n"
    and don: "\<And>n ref. n \<in> dom (mget sel) \<Longrightarrow> n \<notin> set (name # queue) \<Longrightarrow> makes_ref defs n ref \<Longrightarrow>
        resolves defs ref \<and> TrimPrefix ref ref_prefix \<in> dom (mget sel)"
    using inv unfolding closing_def by auto
  have grow: "dom (mget sel) \<subseteq> dom (mget sel')"
  proof
    fix n assume "n \<in> dom (mget sel)"
    with F show "n \<in> dom (mget sel')" by (metis domIff)
  qed
  have all: "mget sel' n = mget defs n \<and> reached defs roots n" if n: "n \<in> dom (mget sel')" for n
  proof (cases "n \<in> dom (mget sel)")
    case True
    then show ?thesis using F old by metis
  next
    case False
    with n F obtain ref where "ref \<in> set (refs_of sel name)" "resolves defs ref" "n = TrimPrefix ref ref_prefix" "mget sel' n = mget defs n"
      by blast
    moreover have "makes_ref defs name ref" using refs_of_made [OF inv nm(1)] calculation(1) by blast
    ultimately show ?thesis using reached_step old nm(1) by blast
  qed
  have closed: "resolves defs ref \<and> TrimPrefix ref ref_prefix \<in> dom (mget sel')"
    if "n \<in> dom (mget sel') - set queue'" "makes_ref defs n ref" for n ref
  proof -
    have n: "n \<in> dom (mget sel)" "n \<notin> set queue" using that(1) F by blast+
    show ?thesis
    proof (cases "n = name")
      case True
      then show ?thesis using F that(2) refs_of_made [OF inv nm(1)] by blast
    next
      case False
      then show ?thesis using don [OF n(1) _ that(2)] n(2) grow by auto
    qed
  qed
  have "set queue' \<subseteq> dom (mget sel')" using F nm(2) grow by blast
  with nm(3) grow all closed show ?thesis unfolding closing_def by blast
qed

lemma closing_end:
  assumes "closing defs roots sel []"
  shows "selects defs sel {n. reached defs roots n} \<and> (\<forall>n ref. reached defs roots n \<longrightarrow> makes_ref defs n ref \<longrightarrow> resolves defs ref)"
proof -
  have inv: "roots \<subseteq> dom (mget sel)"
    "\<And>n. n \<in> dom (mget sel) \<Longrightarrow> mget sel n = mget defs n \<and> reached defs roots n"
    "\<And>n ref. n \<in> dom (mget sel) \<Longrightarrow> makes_ref defs n ref \<Longrightarrow> resolves defs ref \<and> TrimPrefix ref ref_prefix \<in> dom (mget sel)"
    using assms unfolding closing_def by auto
  have dom: "n \<in> dom (mget sel)" if "reached defs roots n" for n
  proof -
    from that obtain r where "r \<in> roots" "(r, n) \<in> (ref_edges defs)\<^sup>*" unfolding reached_def by blast
    from this(2) show ?thesis
    proof (induction rule: rtrancl_induct)
      case base
      then show ?case using \<open>r \<in> roots\<close> inv(1) by blast
    next
      case (step b c)
      then show ?case using inv(3) unfolding ref_edges_def by blast
    qed
  qed
  have "mget sel n = (if reached defs roots n then mget defs n else None)" for n
    using inv(2) [of n] dom [of n] by (cases "n \<in> dom (mget sel)") (auto simp: domIff)
  with dom inv(3) show ?thesis by (auto simp: selects_def)
qed

lemma close_refs_exact:
  "closing defs roots sel queue \<Longrightarrow>
    (case close_refs defs sel queue of
       Inr sel' \<Rightarrow> selects defs sel' {n. reached defs roots n} \<and> (\<forall>n ref. reached defs roots n \<longrightarrow> makes_ref defs n ref \<longrightarrow> resolves defs ref)
     | Inl e \<Rightarrow> \<exists>n ref. reached defs roots n \<and> makes_ref defs n ref \<and> \<not> resolves defs ref)"
proof (induction defs sel queue rule: close_refs.induct)
  case (1 defs sel)
  then show ?case using closing_end by simp
next
  case (2 defs sel name queue)
  have nm: "name \<in> dom (mget sel)" "reached defs roots name" using 2(2) unfolding closing_def by auto
  show ?case
  proof (cases "follow_refs defs name (refs_of sel name) (sel, queue)")
    case (Inl e)
    with follow_refs_Inl [OF Inl] refs_of_made [OF 2(2) nm(1)] nm(2) show ?thesis by auto
  next
    case (Inr st)
    obtain sel' queue' where st: "st = (sel', queue')" by (cases st)
    from 2(1) [OF Inr st [symmetric] closing_step [OF 2(2) Inr [unfolded st]]] show ?thesis by (simp add: Inr st)
  qed
qed

section \<open>The generator\<close>

definition root_names :: "schema_defs \<Rightarrow> string set" where
  "root_names defs = set extraDefinitions \<union> {n. case mget defs n of Some d \<Rightarrow> list_ex wanted (gvkEntries d) | None \<Rightarrow> False}"

lemma select_extra_fold:
  "fold (\<lambda>name r. rbind r (\<lambda>sel. case mget defs name of None \<Rightarrow> Inl (MissingRequired name) | Some d \<Rightarrow> Inr (mput name d sel))) names (Inr sel) =
     (if \<forall>n \<in> set names. mget defs n \<noteq> None
      then Inr (fold (\<lambda>n sel. mput n (the (mget defs n)) sel) names sel)
      else Inl (MissingRequired (the (find (\<lambda>n. mget defs n = None) names))))"
proof (induction names arbitrary: sel)
  case (Cons n names)
  have stuck: "fold (\<lambda>name r. rbind r (\<lambda>sel. case mget defs name of None \<Rightarrow> Inl (MissingRequired name) | Some d \<Rightarrow> Inr (mput name d sel))) ns (Inl e) = Inl e" for ns e
    by (induction ns) simp_all
  show ?case using Cons by (cases "mget defs n") (simp_all add: stuck)
qed simp

lemma fold_extra_get:
  "mget (fold (\<lambda>n sel. mput n (the (mget defs n)) sel) names sel) k = (if k \<in> set names then Some (the (mget defs k)) else mget sel k)"
  by (induction names arbitrary: sel) (auto simp: mget_mput)

lemma select_served_get:
  "mwf defs \<Longrightarrow> mget (select_served defs sel) k =
    (case mget defs k of Some d \<Rightarrow> if list_ex wanted (gvkEntries d) then Some d else mget sel k | None \<Rightarrow> mget sel k)"
proof -
  assume wf: "mwf defs"
  have "mget (fold (\<lambda>(name, d) sel. if list_ex wanted (gvkEntries d) then mput name d sel else sel) ds sel) k =
      (case mget ds k of Some d \<Rightarrow> if list_ex wanted (gvkEntries d) then Some d else mget sel k | None \<Rightarrow> mget sel k)"
    if "distinct (map fst ds)" for ds sel
    using that
  proof (induction ds arbitrary: sel)
    case (Cons x ds)
    obtain n d where x: "x = (n, d)" by (cases x)
    have "mget ds n = None" using Cons.prems by (simp add: x map_of_eq_None_iff)
    then show ?case using Cons by (auto simp: x mget_mput split: option.splits)
  qed simp
  with wf show ?thesis by (simp add: select_served_def mwf_def)
qed

lemma get_in_dom: "mget m k \<noteq> None \<longleftrightarrow> k \<in> set (map fst m)"
  by (simp add: map_of_eq_None_iff)

text \<open>
  C32: The trimmed document holds exactly the definitions that the served kinds and the extra definitions
  reach by references, each unchanged, and every reference in it resolves; the generator refuses a
  document only when it is empty, when an extra definition is missing, or when a definition that is reached has a
  reference that does not resolve.
\<close>

theorem trimmed_definitions_exact:
  assumes "mwf defs"
  shows "case trimDefinitions defs of
      Inr sel \<Rightarrow> selects defs sel {n. reached defs (root_names defs) n} \<and>
        (\<forall>n ref. makes_ref sel n ref \<longrightarrow> resolves sel ref)
    | Inl e \<Rightarrow> defs = [] \<or> (\<exists>n \<in> set extraDefinitions. mget defs n = None) \<or>
        (\<exists>n ref. reached defs (root_names defs) n \<and> makes_ref defs n ref \<and> \<not> resolves defs ref)"
proof (cases "defs = [] \<or> (\<exists>n \<in> set extraDefinitions. mget defs n = None)")
  case True
  then show ?thesis
    by (auto simp: trimDefinitions_def select_extra_def select_extra_fold split: sum.split)
next
  case False
  then have all: "\<forall>n \<in> set extraDefinitions. mget defs n \<noteq> None" and ne: "defs \<noteq> []" by simp_all
  define sel1 where "sel1 = fold (\<lambda>n sel. mput n (the (mget defs n)) sel) extraDefinitions []"
  define sel0 where "sel0 = select_served defs sel1"
  have get: "mget sel0 n = (if n \<in> root_names defs then mget defs n else None)" for n
    using all by (auto simp: sel0_def sel1_def select_served_get [OF assms] fold_extra_get root_names_def split: option.splits)
  have roots: "dom (mget sel0) = root_names defs"
    using get all by (auto simp: root_names_def dom_def split: option.splits)
  have "closing defs (root_names defs) sel0 (sort (map fst sel0))"
  proof -
    have "set (sort (map fst sel0)) = dom (mget sel0)" using get_in_dom [of sel0] by (auto simp: domIff)
    then show ?thesis using get roots by (auto simp: closing_def reached_def)
  qed
  note exact = close_refs_exact [OF this]
  have run: "trimDefinitions defs = close_refs defs sel0 (sort (map fst sel0))"
    using all ne by (simp add: trimDefinitions_def select_extra_def select_extra_fold sel0_def sel1_def Let_def)
  show ?thesis
  proof (cases "trimDefinitions defs")
    case (Inl e)
    then show ?thesis using exact by (simp add: run)
  next
    case (Inr sel)
    then have sel: "selects defs sel {n. reached defs (root_names defs) n}"
      and ok: "\<And>n ref. reached defs (root_names defs) n \<Longrightarrow> makes_ref defs n ref \<Longrightarrow> resolves defs ref"
      using exact by (simp_all add: run)
    have "resolves sel ref" if "makes_ref sel n ref" for n ref
    proof -
      have n: "reached defs (root_names defs) n" "makes_ref defs n ref"
        using that sel by (auto simp: makes_ref_def selects_def split: option.splits if_splits)
      then show ?thesis using ok [OF n] reached_step [OF n] sel by (auto simp: resolves_def selects_def)
    qed
    with sel Inr show ?thesis by simp
  qed
qed

text \<open>A document with a served kind that refers to another definition, and one nobody reaches.\<close>

definition demo_defs :: schema_defs where
  "demo_defs =
     map (\<lambda>n. (n, [(''type'', JStr ''object'')])) extraDefinitions @
     [(''Pod'', [(''x-kubernetes-group-version-kind'', gvk_extension [] ''v1'' ''Pod''),
                 (''properties'', JObj [(''spec'', JObj [(''$ref'', JStr ''#/definitions/Spec'')])])]),
      (''Spec'', [(''type'', JStr ''object'')]), (''Other'', [(''type'', JStr ''object'')])]"

lemma demo_trimmed: "map_option fst (find (\<lambda>_. True) demo_defs) \<noteq> None \<and> mwf demo_defs"
  by code_simp

theorem trimmed_definitions_exact_witness:
  "\<exists>sel. trimDefinitions demo_defs = Inr sel \<and> selects demo_defs sel {n. reached demo_defs (root_names demo_defs) n} \<and>
    mget sel ''Spec'' = Some [(''type'', JStr ''object'')] \<and> mget sel ''Other'' = None"
proof -
  have wf: "mwf demo_defs" using demo_trimmed by simp
  have "case trimDefinitions demo_defs of
      Inr sel \<Rightarrow> mget sel ''Spec'' = Some [(''type'', JStr ''object'')] \<and> mget sel ''Other'' = None | Inl e \<Rightarrow> False"
    by code_simp
  with trimmed_definitions_exact [OF wf] show ?thesis by (cases "trimDefinitions demo_defs") simp_all
qed

section \<open>Schemas of custom resources\<close>

text \<open>Whether a key occurs in an object somewhere in a document.\<close>

fun occurs :: "string \<Rightarrow> json \<Rightarrow> bool" where
  "occurs k (JObj m) = list_ex (\<lambda>(k', v). k' = k \<or> occurs k v) m"
| "occurs k (JArr xs) = list_ex (occurs k) xs"
| "occurs k _ = False"

lemma sanitized_free: "k \<in> set composition_keys \<Longrightarrow> \<not> occurs k (sanitizeSwaggerSchema v)"
proof (induction v rule: sanitizeSwaggerSchema.induct)
  case (1 m)
  then show ?case by (fastforce simp: list_ex_iff)
next
  case (2 xs)
  then show ?case by (auto simp: list_ex_iff)
qed simp_all

text \<open>The sanitizer looks at names of properties as well: a field that is called like a keyword is lost.\<close>

lemma property_lost:
  "sanitizeSwaggerSchema (JObj [(''properties'', JObj [(''not'', JObj [(''type'', JStr ''string'')])])]) =
     JObj [(''properties'', JObj [])]"
  by code_simp

text \<open>The check of the list counts: two documents of one resource pass for the two that are wanted.\<close>

lemma count_is_not_completeness:
  "let crd = JObj [(''kind'', JStr ''CustomResourceDefinition''), (''metadata'', JObj [(''name'', JStr ''middlewares.traefik.io'')])]
   in buildCRDList [crd] = Inl (CRDCount 1) \<and> (case buildCRDList [crd, crd] of Inr _ \<Rightarrow> True | Inl _ \<Rightarrow> False)"
  by code_simp

section \<open>In step with discovery\<close>

text \<open>
  The kinds that are served as documents of their own are the ones discovery lists in the groups the
  generator names, apart from the custom resources, which come from their own file.
\<close>

lemma served_kinds_in_step:
  "map g_Kind servedGVKs \<noteq> [] \<and>
   set (map g_Kind servedGVKs) =
     set (map ar_kind (handleAPIV1 @ handleAppsV1 @ handleBatchV1 @ handleNetworkingV1 @ handleStorageV1 @ handleCoordinationV1))"
  by code_simp

end
