(* ===== verification/Spec2Isabelle.thy ===== *)
theory Spec2Isabelle
  imports StoreProperties QuadletProperties CronProperties RouteProperties FileProperties ReconcileProperties
    RolloutProperties StartupProperties ClaimProperties SecretProperties PatchProperties PatchTypes
    WebSocketProperties TableProperties RoutingProperties WatchProperties InstallProperties
    CommandLineProperties NodeDocs SyncLoop OpenapiProperties
begin

text \<open>
  q8s serves the Kubernetes API from one machine on which podman and systemd run the workloads.
  A request changes an object of an in-memory store and then the host: the server renders the
  object as podman quadlets (.container, .pod, .volume, .network), systemd timers and sockets, or
  configuration files of Traefik's file provider, and starts, restarts or stops their units.  The
  store is saved to one JSON file in the background.  A loop in the main program goes the other
  way: it asks podman and systemd what runs, and updates the status of the stored objects, imports
  labelled containers and prunes pods that are gone.  When the server starts it restores from the
  store what the host has lost.

  All paths below are under src/.  A Go function keeps its name wherever HOL allows it; the
  sections of each theory follow its source file.

  \<^bold>\<open>How Go is represented.\<close>  (Prelude, GoStrings, Regex, GoPath, Utf8.)  A string is the list of its
  bytes, and ranging over it decodes UTF-8 as Go does, invalid bytes included.  A map is an
  association list with distinct keys whose order stands for one of the orders Go may choose; the
  properties speak of lookups and membership.  A result with an error is a sum (\<open>Inl\<close> the error), a
  pointer an option.  An \<open>int\<close> that can overflow wraps at 64 bits where it is computed (the
  counting loop of cron fields, frame lengths); a byte of a WebSocket frame is an \<open>8 word\<close>.  The
  clock and the UID generator are arguments.  The regular expressions of the validators are
  decided by derivatives, and \<open>re_match_lang\<close> relates that to the languages.

  \<^bold>\<open>Store\<close>, internal/store/store.go.  K8s has the objects, StoreCore the state (\<open>store\<close>: the
  twelve resource maps, the version counter, the event feed, the count of scheduled saves),
  StoreResources and StoreWorkloads the operations of the twelve kinds, StoreStatus the status
  updates, the purge of a namespace and the event feed, NodePorts the allocation of node ports.
  StoreContract states what every kind owes its clients as the locale \<open>object_kind\<close>, which is
  interpreted for each kind in the theory that defines its operations; StoreMachine makes each
  operation a step, and StoreProperties proves that the operations refine one versioned map, with the
  exact object that is written (\<open>created\<close>, \<open>updated\<close>); StorePersist adds saving,
  loading, failing writes and crashes as the step relation \<open>sys\<close>.  StoreProperties has the
  consequences: the invariant of reachable stores, versions and UIDs that do not move back, the
  data file after crashes, restarts and quiescence.

  \<^bold>\<open>Units\<close>, internal/quadlet.  QuadletValidate and Cron hold validate.go, Probe, Socket, UnitText
  and PodUnits the files probe.go, socket.go, env.go and pod.go, QuadletVolume and Generator the
  file generator.go.  UnitText says what it is for a text to consist of complete lines and
  composes that along the writers; UnitSafety classifies the lines of every unit, so that
  QuadletProperties can state that no object can add a section or a directive of its own (the
  host IP of a port is the exception that lemma \<open>host_ip_injects\<close> shows).  CronCalendar reads
  systemd's OnCalendar= expressions back, and CronProperties compares the days they fire on with
  cron's rule, which is said over an inductive syntax of crontab fields (\<open>element\<close>) of its own.

  \<^bold>\<open>Requests\<close>, internal/server.  World is the host: files, and a log of calls to systemd and
  podman in which an oracle decides which calls fail, so that a statement about every oracle is a
  statement about every pattern of failures.  ServerValidate and Selector are validate.go,
  traefik_validate.go and selector.go.  EnvResolve, QuadletSync, SocketSync, NetworkAttach,
  YamlText, IngressConfig, TraefikFiles, PodDeploy and Workloads are the parts of handler.go,
  sockets.go, network.go and traefik.go that turn an object into files and units, Handlers and
  WorkloadHandlers the requests from the decoded body on.  FileProperties (through SyncLemmas)
  shows that a deployment touches only the pod's own files under any failures and ends with exactly
  them without failures; RouteProperties that no two TCP routes share an entry point in any state
  that requests reach, and that configuration files are replaced atomically; SecretProperties that
  unit files do not depend on the values of secrets and that the files of a secret follow it;
  RolloutProperties has the node ports and the scaling, StartupProperties the deletion of
  namespaces.

  \<^bold>\<open>Patches\<close>, jsonpatch.go, apply.go and \<open>jsonMerge\<close> of handler.go, are JsonPatch and
  StrategicMerge over the documents of Json.  PatchProperties compares merging with RFC 7386 and
  with a reference merge of named lists, PatchTypes shows that documents stay well formed and that
  merging stores no null and no directive.

  \<^bold>\<open>Requests to operations.\<close>  Routing has the patterns of server.go, the path parsers, the dispatch
  and the discovery lists; RoutingProperties sends every object's URL to the operations of its
  kind.  Lists and Watch are what list and watch requests answer, Tables what kubectl prints,
  NodeDocs the documents of discovery.go and metrics.go, WebSocket the exec streams of exec.go.
  WatchProperties relates the view of a client to the snapshots of a watch, states as the
  locale \<open>listed_kind\<close> what a watch needs of a list, interprets it for the ten kinds that provide it
  (namespaces and pods do not) and follows watches along runs of the store.  WebSocketProperties
  relates frames to the bytes of the channels however the goroutines interleave.

  \<^bold>\<open>Main program\<close>, cmd/q8s/main.go with internal/podman and internal/systemd.  Reconcile is one
  pass over what podman and systemd answer (the record \<open>observed\<close>); ReconcileSettle states as the
  locale \<open>object_status\<close> how the status of one object settles, interpreted for pods, deployments and
  jobs, from which ReconcileProperties shows that repeated passes over an unchanged host come to
  rest.  SyncLoop is the loop that triggers the passes, with the times of its waits.  Startup and
  ClaimProperties are the restoration at the start.  CommandLine has the flags, the uninstallation
  and the kubeconfig.

  \<^bold>\<open>Installer and generator.\<close>  Install is pkg/install/install.go with a certificate as the names
  and dates it carries; InstallProperties keeps configuration and certificate in step under
  failing writes.  OpenapiGen is hack/gen-openapi/main.go; OpenapiProperties shows that the trimmed
  schema is the exact closure under references.

  \<^bold>\<open>Bounds and termination.\<close>  No definition runs on fuel.  The counting loop of cron fields is the
  only one that need not end by itself (its counter wraps); it is a \<open>partial_function\<close> whose result
  is proved to exist (\<open>cron_terminates\<close>).  The other loops that are not structural have measures:
  the bytes left (\<open>go_chunks\<close>, \<open>stdin_loop\<close>), the ports left (\<open>alloc_from\<close>), the definitions not yet
  selected (\<open>close_refs\<close>), the sizes of the documents (\<open>jsonMerge\<close>).

  \<^bold>\<open>Parameters.\<close>  SHA-256, apimachinery's \<open>IsQualifiedName\<close>, the JSON codec of the stored
  snapshot, the YAML and JSON decoders of the generator, and everything podman, systemd and the
  operating system answer.  What a property needs of them is a hypothesis of it.  Of the codec of the
  snapshot that is \<open>json_codec\<close>: decoding gives back the same lists, element by element, with the
  names and versions that are UTF-8; an object may change otherwise (empty maps, fractions of times).

  \<^bold>\<open>Not modelled.\<close>  Reading HTTP bodies and encoding answers, the texts of error messages, TLS and the
  verification of certificates, key generation and x509, the processes behind logs and exec and
  the keepalive timer of their connections, the clean-up that net/http does to request paths, the
  D-Bus and podman processes themselves, copying the binary and lingering, the commands that only
  run systemctl (status, start, stop, enable, disable), printed instructions, and the floating point
  arithmetic of usage figures: each is input and output, or a library the source only calls.  The
  The counters of resource versions and events are unbounded, metrics are formatted with exact
  arithmetic, and installing starts after the directories are made.  The
  deep copies of internal/traefik/deepcopy.go are the identity on values, and the store's values are
  passed, not shared: a caller that changes an object after storing it is outside the model.  Of
  concurrency, the interleaving of saves and crashes, of stream goroutines and of events with the
  reconcile loop is modelled; requests otherwise run one after the other.
\<close>

end
